(* ===== verification/Prelude.thy ===== *)
theory Prelude
  imports Main "HOL-Library.State_Monad" "HOL-Library.Word"
begin

text \<open>
  Shared vocabulary of the development: Go errors as values, the state monad in which the
  stateful Go code is written, a small Hoare layer over it, the polling loop of
  \<^verbatim>\<open>k8s.io/apimachinery/pkg/util/wait\<close>, Go's string helpers, 32-bit integers and times.

  A Go function that reads or changes shared state becomes a term of type
  \<open>(world, 'a) state\<close>; an \<open>error\<close> result becomes a value of type \<open>goerr\<close>: a
  function returning \<open>(T, error)\<close> has the result type \<open>goerr + T\<close>, one returning
  \<open>error\<close> has \<open>goerr option\<close> (\<open>None\<close> is \<open>nil\<close>). The \<open>do\<close> notation keeps
  the order of the calls of the source.
\<close>

named_theorems hoare \<comment> \<open>rules that decompose a Hoare triple along the program text\<close>
named_theorems world_simps \<comment> \<open>equations for reading one piece of state after a write\<close>
named_theorems evals \<comment> \<open>definitions to unfold when a program runs on concrete data\<close>

section \<open>Errors\<close>

text \<open>
  \<open>api_error\<close>: what the Kubernetes client returns; \<^verbatim>\<open>IsNotFound\<close> separates the two.
  \<open>goerr\<close>: the error values of the code. \<open>ErrWrap\<close> is \<^verbatim>\<open>errors.Wrap/Wrapf\<close>,
  \<open>PVNotFound\<close> is \<^verbatim>\<open>utils.NotFoundError\<close>, \<open>GoPanic\<close> a run-time panic (a nil
  dereference or a failed type assertion) on its way up. \<^verbatim>\<open>errors.WithStack\<close> adds a
  stack trace only and is the identity here. \<open>ErrSoapFault\<close> is a SOAP fault of vCenter with
  the fault it carries, its \<^verbatim>\<open>String\<close> and the text of the error, \<open>ErrVimFault\<close> the fault
  with which a task of vCenter ended.
\<close>

datatype vfault =
    NotAuthenticated | InvalidLogin | FaultNotFound | InvalidState | InvalidArgument
  | TaskInProgress | FileLocked | VslmSyncFault | OtherFault

datatype api_error = NotFound string | OtherStatus string

datatype goerr =
    ErrAPI api_error
  | ErrMsg string
  | ErrWrap string goerr
  | ErrCanceled
  | ErrWaitTimeout
  | PVNotFound string
  | GoPanic string
  | ErrSoapFault vfault string string
  | ErrVimFault vfault string

fun error_string :: "goerr \<Rightarrow> string" where
  "error_string (ErrAPI (NotFound s)) = s"
| "error_string (ErrAPI (OtherStatus s)) = s"
| "error_string (ErrMsg s) = s"
| "error_string (ErrWrap m e) = m @ '': '' @ error_string e"
| "error_string ErrCanceled = ''context canceled''"
| "error_string ErrWaitTimeout = ''timed out waiting for the condition''"
| "error_string (PVNotFound s) = s"
| "error_string (GoPanic s) = s"
| "error_string (ErrSoapFault f s t) = t"
| "error_string (ErrVimFault f t) = t"

fun is_canceled :: "goerr \<Rightarrow> bool" where
  "is_canceled ErrCanceled = True"
| "is_canceled (ErrWrap m e) = is_canceled e"
| "is_canceled _ = False"

fun is_not_found :: "goerr \<Rightarrow> bool" where
  "is_not_found (ErrAPI (NotFound s)) = True"
| "is_not_found _ = False"

fun is_panic :: "goerr \<Rightarrow> bool" where
  "is_panic (GoPanic s) = True"
| "is_panic _ = False"

section \<open>Hoare triples over the state monad\<close>

definition triple :: "('s \<Rightarrow> bool) \<Rightarrow> ('s, 'a) state \<Rightarrow> ('a \<Rightarrow> 's \<Rightarrow> bool) \<Rightarrow> bool" where
  "triple P m Q \<longleftrightarrow> (\<forall>s. P s \<longrightarrow> Q (fst (run_state m s)) (snd (run_state m s)))"

lemma tripleI: "(\<And>s r s'. P s \<Longrightarrow> run_state m s = (r, s') \<Longrightarrow> Q r s') \<Longrightarrow> triple P m Q"
  by (simp add: triple_def)

lemma tripleD: "triple P m Q \<Longrightarrow> P s \<Longrightarrow> run_state m s = (r, s') \<Longrightarrow> Q r s'"
  unfolding triple_def by (metis fst_conv snd_conv)

lemma triple_weaken:
  "triple P' m Q' \<Longrightarrow> (\<And>s. P s \<Longrightarrow> P' s) \<Longrightarrow> (\<And>r s. Q' r s \<Longrightarrow> Q r s) \<Longrightarrow> triple P m Q"
  by (auto simp: triple_def)

lemma triple_conj:
  "triple P m Q \<Longrightarrow> triple P' m Q' \<Longrightarrow> triple (\<lambda>s. P s \<and> P' s) m (\<lambda>r s. Q r s \<and> Q' r s)"
  by (simp add: triple_def)

lemma triple_return [hoare]: "(\<And>s. P s \<Longrightarrow> Q x s) \<Longrightarrow> triple P (State_Monad.return x) Q"
  by (simp add: triple_def)

lemma triple_bind [hoare]:
  assumes "triple P m R" and "\<And>x. triple (R x) (f x) Q"
  shows "triple P (State_Monad.bind m f) Q"
  unfolding triple_def
proof (intro allI impI)
  fix s assume "P s"
  obtain r s' where run: "run_state m s = (r, s')" by fastforce
  with assms(1) \<open>P s\<close> have "R r s'" by (rule tripleD)
  with assms(2) show "Q (fst (run_state (State_Monad.bind m f) s)) (snd (run_state (State_Monad.bind m f) s))"
    by (simp add: triple_def run)
qed

lemma triple_if [hoare]:
  "(b \<Longrightarrow> triple P m Q) \<Longrightarrow> (\<not> b \<Longrightarrow> triple P n Q) \<Longrightarrow> triple P (if b then m else n) Q"
  by simp

lemma triple_case_option [hoare]:
  "(x = None \<Longrightarrow> triple P m Q) \<Longrightarrow> (\<And>y. x = Some y \<Longrightarrow> triple P (f y) Q) \<Longrightarrow>
   triple P (case x of None \<Rightarrow> m | Some y \<Rightarrow> f y) Q"
  by (cases x) auto

lemma triple_case_sum [hoare]:
  "(\<And>e. x = Inl e \<Longrightarrow> triple P (f e) Q) \<Longrightarrow> (\<And>y. x = Inr y \<Longrightarrow> triple P (g y) Q) \<Longrightarrow>
   triple P (case x of Inl e \<Rightarrow> f e | Inr y \<Rightarrow> g y) Q"
  by (cases x) auto

lemma triple_case_prod [hoare]:
  "(\<And>a b. x = (a, b) \<Longrightarrow> triple P (f a b) Q) \<Longrightarrow> triple P (case x of (a, b) \<Rightarrow> f a b) Q"
  by (cases x) auto

lemma triple_Let [hoare]: "triple P (f x) Q \<Longrightarrow> triple P (let y = x in f y) Q"
  by (simp add: Let_def)

text \<open>\<open>keeps I m\<close>: the program \<open>m\<close> preserves the invariant \<open>I\<close>, whatever it returns.\<close>

abbreviation keeps :: "('s \<Rightarrow> bool) \<Rightarrow> ('s, 'a) state \<Rightarrow> bool" where
  "keeps I m \<equiv> triple I m (\<lambda>_. I)"

lemma keeps_bind: "keeps I m \<Longrightarrow> (\<And>x. keeps I (f x)) \<Longrightarrow> keeps I (State_Monad.bind m f)"
  by (rule triple_bind)

lemma keeps_run: "keeps I m \<Longrightarrow> I s \<Longrightarrow> I (snd (run_state m s))"
  by (simp add: triple_def)

lemmas keeps_rules =
  keeps_bind triple_return triple_if triple_case_option triple_case_sum triple_case_prod triple_Let

section \<open>Polling\<close>

text \<open>
  \<^verbatim>\<open>wait.PollImmediate(interval, timeout, cond)\<close> runs \<open>cond\<close> at once and then again
  after each interval until it returns true, returns an error, or the time is up. How many
  further attempts fit in the window is not fixed by its documentation (intervals may be
  missed), so it is a parameter \<open>n\<close>: every statement below holds for every \<open>n\<close>. The
  condition closure works on the local variables \<open>l\<close> it captures.
\<close>

primrec poll_immediate ::
  "nat \<Rightarrow> ('l \<Rightarrow> ('s, (goerr + bool) \<times> 'l) state) \<Rightarrow> 'l \<Rightarrow> ('s, goerr option \<times> 'l) state" where
  "poll_immediate 0 cond l = do {
     (r, l') \<leftarrow> cond l;
     State_Monad.return (case r of
         Inl e \<Rightarrow> (Some e, l')
       | Inr ok \<Rightarrow> (if ok then None else Some ErrWaitTimeout, l'))
   }"
| "poll_immediate (Suc n) cond l = do {
     (r, l') \<leftarrow> cond l;
     (case r of
         Inl e \<Rightarrow> State_Monad.return (Some e, l')
       | Inr ok \<Rightarrow> if ok then State_Monad.return (None, l') else poll_immediate n cond l')
   }"

lemma poll_immediate_first:
  "run_state (cond l) s = ((Inr True, l'), s') \<Longrightarrow> run_state (poll_immediate n cond l) s = ((None, l'), s')"
  by (cases n) simp_all

lemma keeps_poll_immediate:
  assumes "\<And>l. keeps I (cond l)"
  shows "keeps I (poll_immediate n cond l)"
proof (induction n arbitrary: l)
  case 0
  show ?case by (auto intro!: keeps_rules assms)
next
  case (Suc n)
  show ?case by (auto intro!: keeps_rules assms Suc.IH)
qed

text \<open>A relation \<open>J\<close> between the captured locals and the state that every attempt keeps.\<close>

lemma poll_immediate_invariant:
  assumes step: "\<And>l. triple (J l) (cond l) (\<lambda>(r, l'). \<lambda>s. J l' s \<and> (r = Inr True \<longrightarrow> K l' s))"
  shows "triple (J l) (poll_immediate n cond l)
           (\<lambda>(e, l'). \<lambda>s. J l' s \<and> (e = None \<longrightarrow> K l' s))"
proof (induction n arbitrary: l)
  case 0
  show ?case
    unfolding poll_immediate.simps
    by (rule triple_bind [OF step]) (auto intro!: hoare split: sum.splits prod.splits)
next
  case (Suc n)
  show ?case
    unfolding poll_immediate.simps
  proof (rule triple_bind [OF step], clarify)
    fix r l'
    show "triple (\<lambda>s. J l' s \<and> (r = Inr True \<longrightarrow> K l' s))
        (case r of Inl e \<Rightarrow> State_Monad.return (Some e, l')
         | Inr ok \<Rightarrow> if ok then State_Monad.return (None, l') else poll_immediate n cond l')
        (\<lambda>(e, l'). \<lambda>s. J l' s \<and> (e = None \<longrightarrow> K l' s))"
      by (intro hoare triple_weaken [OF Suc.IH [of l']]) (auto intro!: triple_return split: sum.splits)
  qed
qed


text \<open>
  A loop whose attempts keep \<open>J\<close> until one succeeds and establishes \<open>K\<close>; the success is
  the last attempt.
\<close>

lemma poll_immediate_until:
  assumes step: "\<And>l. triple (J l) (cond l) (\<lambda>(r, l'). \<lambda>s. if r = Inr True then K l' s else J l' s)"
  shows "triple (J l) (poll_immediate n cond l) (\<lambda>(e, l'). \<lambda>s. if e = None then K l' s else J l' s)"
proof (induction n arbitrary: l)
  case 0
  show ?case
    unfolding poll_immediate.simps
    by (rule triple_bind [OF step]) (auto intro!: hoare split: sum.splits prod.splits)
next
  case (Suc n)
  show ?case
    unfolding poll_immediate.simps
  proof (rule triple_bind [OF step], clarify)
    fix r l'
    show "triple (\<lambda>s. if r = Inr True then K l' s else J l' s)
        (case r of Inl e \<Rightarrow> State_Monad.return (Some e, l')
         | Inr ok \<Rightarrow> if ok then State_Monad.return (None, l') else poll_immediate n cond l')
        (\<lambda>(e, l'). \<lambda>s. if e = None then K l' s else J l' s)"
      by (intro hoare triple_weaken [OF Suc.IH [of l']]) (auto intro!: triple_return split: sum.splits)
  qed
qed

section \<open>Early returns\<close>

text \<open>
  \<^verbatim>\<open>x, err := f(); if err != nil { return err }\<close>, the most frequent statement of the
  code, and its variant for a function that returns only an error. A panic takes the same way
  up as an error that is returned at once.
\<close>

definition then_ok :: "('s, goerr + 'a) state \<Rightarrow> ('a \<Rightarrow> ('s, goerr + 'b) state) \<Rightarrow> ('s, goerr + 'b) state" where
  "then_ok m f = do {
     r \<leftarrow> m;
     (case r of Inl e \<Rightarrow> State_Monad.return (Inl e) | Inr x \<Rightarrow> f x)
   }"

definition unless_err :: "('s, goerr option) state \<Rightarrow> ('s, goerr + 'b) state \<Rightarrow> ('s, goerr + 'b) state" where
  "unless_err m k = do {
     r \<leftarrow> m;
     (case r of Some e \<Rightarrow> State_Monad.return (Inl e) | None \<Rightarrow> k)
   }"

definition wrap_error :: "string \<Rightarrow> ('s, goerr + 'a) state \<Rightarrow> ('s, goerr + 'a) state" where
  "wrap_error msg m = do {
     r \<leftarrow> m;
     State_Monad.return (case r of
         Inl e \<Rightarrow> Inl (if is_panic e then e else ErrWrap msg e)
       | Inr x \<Rightarrow> Inr x)
   }"

lemma run_then_ok:
  "run_state (then_ok m f) s =
     (case run_state m s of (Inl e, s') \<Rightarrow> (Inl e, s') | (Inr x, s') \<Rightarrow> run_state (f x) s')"
  by (simp add: then_ok_def split: prod.splits sum.splits)

lemma then_ok_Inr:
  assumes "run_state (then_ok m f) s = (Inr y, s'')"
  obtains x s' where "run_state m s = (Inr x, s')" and "run_state (f x) s' = (Inr y, s'')"
  using assms by (auto simp: run_then_ok split: prod.splits sum.splits)

lemma run_unless_err:
  "run_state (unless_err m k) s =
     (case run_state m s of (Some e, s') \<Rightarrow> (Inl e, s') | (None, s') \<Rightarrow> run_state k s')"
  by (simp add: unless_err_def split: prod.splits option.splits)

lemma run_wrap_error:
  "run_state (wrap_error msg m) s =
     (case run_state m s of (Inl e, s') \<Rightarrow> (Inl (if is_panic e then e else ErrWrap msg e), s')
      | (Inr x, s') \<Rightarrow> (Inr x, s'))"
  by (simp add: wrap_error_def split: prod.splits sum.splits)

lemma triple_then_ok [hoare]:
  assumes "triple P m (\<lambda>r s. case r of Inl e \<Rightarrow> Q (Inl e) s | Inr x \<Rightarrow> R x s)"
    and "\<And>x. triple (R x) (f x) Q"
  shows "triple P (then_ok m f) Q"
  unfolding then_ok_def
  by (rule triple_bind [OF assms(1)])
    (auto intro!: triple_case_sum triple_return triple_weaken [OF assms(2)])

lemma triple_unless_err [hoare]:
  assumes "triple P m (\<lambda>r s. case r of Some e \<Rightarrow> Q (Inl e) s | None \<Rightarrow> R s)" and "triple R k Q"
  shows "triple P (unless_err m k) Q"
  unfolding unless_err_def
  by (rule triple_bind [OF assms(1)])
    (auto intro!: triple_case_option triple_return triple_weaken [OF assms(2)])

lemma keeps_then_ok: "keeps I m \<Longrightarrow> (\<And>x. keeps I (f x)) \<Longrightarrow> keeps I (then_ok m f)"
  unfolding then_ok_def by (auto intro!: keeps_rules)

lemma keeps_unless_err: "keeps I m \<Longrightarrow> keeps I k \<Longrightarrow> keeps I (unless_err m k)"
  unfolding unless_err_def by (auto intro!: keeps_rules)

lemma keeps_wrap_error: "keeps I m \<Longrightarrow> keeps I (wrap_error msg m)"
  unfolding wrap_error_def by (auto intro!: keeps_rules)

lemmas early_return_rules = keeps_then_ok keeps_unless_err keeps_wrap_error

end
