(* ===== verification/Api_Types.thy ===== *)
theory Api_Types
  imports Prelude
begin

text \<open>
  The custom resources of the plugin, as declared under \<^verbatim>\<open>pkg/apis\<close>: one record per Go
  struct, one datatype per phase type with the source's constants as constructors. The empty
  string, which a phase has before anything wrote it, is the \<open>\<dots>Unset\<close> constructor;
  \<open>\<dots>Other\<close> stands for any other string where the CRD does not restrict the field to its
  constants (the CRDs of Upload and Download do).

  A stored \<^verbatim>\<open>*metav1.Time\<close> is \<open>int option\<close>, whole seconds since the epoch (the
  precision at which the API encodes times); \<open>None\<close> is a nil pointer. \<^verbatim>\<open>int32\<close> fields are
  32-bit words read with \<open>sint\<close>. Type and list metadata, which no operation reads, are left
  out.
\<close>

type_synonym int32 = "32 word"
type_synonym seconds = int

text \<open>The part of \<^verbatim>\<open>metav1.ObjectMeta\<close> the code reads.\<close>

record ObjectMeta =
  om_Namespace :: string
  om_Name :: string
  om_UID :: string
  om_Labels :: "string \<rightharpoonup> string"
  om_DeletionTimestamp :: "seconds option"

section \<open>Upload (pkg/apis/datamover/v1alpha1/upload.go)\<close>

datatype UploadPhase =
    UploadPhaseUnset
  | UploadPhaseNew
  | UploadPhaseInProgress
  | UploadPhaseCompleted
  | UploadPhaseUploadError
  | UploadPhaseCleanupFailed
  | UploadPhaseCanceling
  | UploadPhaseCanceled
  | UploadPhaseUploadFailedAfterRetry

record UploadSpec =
  us_SnapshotID :: string
  us_BackupTimestamp :: "seconds option"
  us_UploadCancel :: bool
  us_BackupRepositoryName :: string
  us_SnapshotReference :: string

record UploadOperationProgress =
  up_TotalBytes :: int
  up_BytesDone :: int

record UploadStatus =
  ut_Phase :: UploadPhase
  ut_Message :: string
  ut_StartTimestamp :: "seconds option"
  ut_CompletionTimestamp :: "seconds option"
  ut_Progress :: UploadOperationProgress
  ut_ProcessingNode :: string
  ut_RetryCount :: int32
  ut_NextRetryTimestamp :: "seconds option"
  ut_CurrentBackOff :: int32

record Upload =
  u_Meta :: ObjectMeta
  u_Spec :: UploadSpec
  u_Status :: UploadStatus

section \<open>Download (pkg/apis/datamover/v1alpha1/download.go)\<close>

datatype DownloadPhase =
    DownloadPhaseUnset
  | DownloadPhaseNew
  | DownloadPhaseInProgress
  | DownloadPhaseCompleted
  | DownLoadPhaseRetry
  | DownloadPhaseFailed

record DownloadSpec =
  dls_SnapshotID :: string
  dls_RestoreTimestamp :: "seconds option"
  dls_ProtectedEntityID :: string
  dls_BackupRepositoryName :: string
  dls_CloneFromSnapshotReference :: string

record DownloadOperationProgress =
  dlp_TotalBytes :: int
  dlp_BytesDone :: int

record DownloadStatus =
  dlt_VolumeID :: string
  dlt_Phase :: DownloadPhase
  dlt_Message :: string
  dlt_StartTimestamp :: "seconds option"
  dlt_CompletionTimestamp :: "seconds option"
  dlt_Progress :: DownloadOperationProgress
  dlt_ProcessingNode :: string
  dlt_RetryCount :: int32
  dlt_NextRetryTimestamp :: "seconds option"

record Download =
  dl_Meta :: ObjectMeta
  dl_Spec :: DownloadSpec
  dl_Status :: DownloadStatus

section \<open>Snapshot, CloneFromSnapshot, DeleteSnapshot (pkg/apis/backupdriver/v1alpha1/snapshot.go)\<close>

datatype SnapshotPhase =
    SnapshotPhaseUnset
  | SnapshotPhaseNew
  | SnapshotPhaseInProgress
  | SnapshotPhaseSnapshotted
  | SnapshotPhaseSnapshotFailed
  | SnapshotPhaseUploading
  | SnapshotPhaseUploaded
  | SnapshotPhaseUploadFailed
  | SnapshotPhaseCanceling
  | SnapshotPhaseCanceled
  | SnapshotPhaseCleanupFailed
  | SnapshotPhaseUploadFailedAfterRetry
  | SnapshotPhaseOther string

text \<open>\<^verbatim>\<open>core_v1.TypedLocalObjectReference\<close>, embedded in \<^verbatim>\<open>SnapshotSpec\<close>.\<close>

record TypedLocalObjectReference =
  tr_APIGroup :: "string option"
  tr_Kind :: string
  tr_Name :: string

record SnapshotSpec =
  sns_Reference :: TypedLocalObjectReference
  sns_BackupRepository :: string
  sns_SnapshotCancel :: bool

record SnapshotProgress =
  snp_TotalBytes :: int
  snp_BytesDone :: int

record SnapshotStatus =
  snt_Phase :: SnapshotPhase
  snt_Message :: string
  snt_Progress :: SnapshotProgress
  snt_SnapshotID :: string
  snt_SvcSnapshotName :: string
  snt_Metadata :: string
  snt_CompletionTimestamp :: "seconds option"

record Snapshot =
  sn_Meta :: ObjectMeta
  sn_Spec :: SnapshotSpec
  sn_Status :: SnapshotStatus

datatype ClonePhase =
    ClonePhaseUnset
  | ClonePhaseNew
  | ClonePhaseInProgress
  | ClonePhaseCompleted
  | ClonePhaseRetry
  | ClonePhaseFailed
  | ClonePhaseCanceling
  | ClonePhaseCanceled
  | ClonePhaseOther string

record CloneFromSnapshotSpec =
  cls_SnapshotID :: string
  cls_Metadata :: string
  cls_APIGroup :: "string option"
  cls_Kind :: string
  cls_BackupRepository :: string
  cls_CloneCancel :: bool

record CloneStatus =
  clt_Phase :: ClonePhase
  clt_Message :: string
  clt_ResourceHandle :: "TypedLocalObjectReference option"
  clt_CompletionTimestamp :: "seconds option"

record CloneFromSnapshot =
  cl_Meta :: ObjectMeta
  cl_Spec :: CloneFromSnapshotSpec
  cl_Status :: CloneStatus

datatype DeleteSnapshotPhase =
    DeleteSnapshotPhaseUnset
  | DeleteSnapshotPhaseNew
  | DeleteSnapshotPhaseInProgress
  | DeleteSnapshotPhaseCompleted
  | DeleteSnapshotPhaseFailed
  | DeleteSnapshotPhaseOther string

record DeleteSnapshotSpec =
  ds_SnapshotID :: string
  ds_BackupRepository :: string

record DeleteSnapshotStatus =
  dt_Phase :: DeleteSnapshotPhase
  dt_Message :: string
  dt_CompletionTimestamp :: "seconds option"

record DeleteSnapshot =
  d_Meta :: ObjectMeta
  d_Spec :: DeleteSnapshotSpec
  d_Status :: DeleteSnapshotStatus

section \<open>BackupRepository, BackupRepositoryClaim (pkg/apis/backupdriver/v1alpha1/backup_repository.go)\<close>

record BackupRepository =
  br_Meta :: ObjectMeta
  br_AllowedNamespaces :: "string list"
  br_RepositoryDriver :: string
  br_RepositoryParameters :: "string \<rightharpoonup> string"
  br_BackupRepositoryClaim :: string
  br_SvcBackupRepositoryName :: string

record BackupRepositoryClaim =
  brc_Meta :: ObjectMeta
  brc_AllowedNamespaces :: "string list"
  brc_RepositoryDriver :: string
  brc_RepositoryParameters :: "string \<rightharpoonup> string"
  brc_BackupRepository :: string

section \<open>Constants (pkg/constants/constants.go)\<close>

definition DOWNLOAD_MAX_RETRY :: int where "DOWNLOAD_MAX_RETRY = 5"
definition MIN_RETRY :: int32 where "MIN_RETRY = 0"
definition DOWNLOAD_BACKOFF :: int where "DOWNLOAD_BACKOFF = 5"
definition UPLOAD_MAX_BACKOFF :: int where "UPLOAD_MAX_BACKOFF = 60"
definition DefaultUploadCRRetryMaximum :: int where "DefaultUploadCRRetryMaximum = 10"
definition DefaultCRCleanUpWindow :: int where "DefaultCRCleanUpWindow = 24"
definition WithoutBackupRepository :: string where
  "WithoutBackupRepository = ''without-backup-repository''"
definition WithoutDeleteSnapshot :: string where
  "WithoutDeleteSnapshot = ''without-delete-snapshot''"
definition SnapshotBackupLabel :: string where
  "SnapshotBackupLabel = ''velero.io/backup-name''"

datatype ClusterFlavor = Unknown | Supervisor | TkgGuest | VSphere

lemmas constant_defs =
  DOWNLOAD_MAX_RETRY_def MIN_RETRY_def DOWNLOAD_BACKOFF_def UPLOAD_MAX_BACKOFF_def
  DefaultUploadCRRetryMaximum_def DefaultCRCleanUpWindow_def

section \<open>JSON merge patches\<close>

text \<open>
  \<^verbatim>\<open>jsonpatch.CreateMergePatch(old, new)\<close> contains exactly the members whose values differ;
  applying it to a stored object overwrites those members and leaves the others
  (RFC 7386). On a struct this is a comparison field by field, recursively through nested
  structs and string maps. A member that is dropped by \<^verbatim>\<open>omitempty\<close> in the new object
  becomes \<open>null\<close> in the patch and is read back as the zero value, which is the new value.
\<close>

definition merge_field :: "'a \<Rightarrow> 'a \<Rightarrow> 'a \<Rightarrow> 'a" where
  "merge_field old new cur = (if old = new then cur else new)"

definition merge_map :: "('k \<rightharpoonup> 'v) \<Rightarrow> ('k \<rightharpoonup> 'v) \<Rightarrow> ('k \<rightharpoonup> 'v) \<Rightarrow> ('k \<rightharpoonup> 'v)" where
  "merge_map old new cur = (\<lambda>k. merge_field (old k) (new k) (cur k))"

definition merge_meta :: "ObjectMeta \<Rightarrow> ObjectMeta \<Rightarrow> ObjectMeta \<Rightarrow> ObjectMeta" where
  "merge_meta old new cur = \<lparr>
     om_Namespace = merge_field (om_Namespace old) (om_Namespace new) (om_Namespace cur),
     om_Name = merge_field (om_Name old) (om_Name new) (om_Name cur),
     om_UID = merge_field (om_UID old) (om_UID new) (om_UID cur),
     om_Labels = merge_map (om_Labels old) (om_Labels new) (om_Labels cur),
     om_DeletionTimestamp = merge_field (om_DeletionTimestamp old) (om_DeletionTimestamp new)
       (om_DeletionTimestamp cur)\<rparr>"

definition merge_upload_status :: "UploadStatus \<Rightarrow> UploadStatus \<Rightarrow> UploadStatus \<Rightarrow> UploadStatus" where
  "merge_upload_status old new cur = \<lparr>
     ut_Phase = merge_field (ut_Phase old) (ut_Phase new) (ut_Phase cur),
     ut_Message = merge_field (ut_Message old) (ut_Message new) (ut_Message cur),
     ut_StartTimestamp = merge_field (ut_StartTimestamp old) (ut_StartTimestamp new) (ut_StartTimestamp cur),
     ut_CompletionTimestamp = merge_field (ut_CompletionTimestamp old) (ut_CompletionTimestamp new)
       (ut_CompletionTimestamp cur),
     ut_Progress = \<lparr>
       up_TotalBytes = merge_field (up_TotalBytes (ut_Progress old)) (up_TotalBytes (ut_Progress new))
         (up_TotalBytes (ut_Progress cur)),
       up_BytesDone = merge_field (up_BytesDone (ut_Progress old)) (up_BytesDone (ut_Progress new))
         (up_BytesDone (ut_Progress cur))\<rparr>,
     ut_ProcessingNode = merge_field (ut_ProcessingNode old) (ut_ProcessingNode new) (ut_ProcessingNode cur),
     ut_RetryCount = merge_field (ut_RetryCount old) (ut_RetryCount new) (ut_RetryCount cur),
     ut_NextRetryTimestamp = merge_field (ut_NextRetryTimestamp old) (ut_NextRetryTimestamp new)
       (ut_NextRetryTimestamp cur),
     ut_CurrentBackOff = merge_field (ut_CurrentBackOff old) (ut_CurrentBackOff new) (ut_CurrentBackOff cur)\<rparr>"

definition merge_upload :: "Upload \<Rightarrow> Upload \<Rightarrow> Upload \<Rightarrow> Upload" where
  "merge_upload old new cur = \<lparr>
     u_Meta = merge_meta (u_Meta old) (u_Meta new) (u_Meta cur),
     u_Spec = \<lparr>
       us_SnapshotID = merge_field (us_SnapshotID (u_Spec old)) (us_SnapshotID (u_Spec new))
         (us_SnapshotID (u_Spec cur)),
       us_BackupTimestamp = merge_field (us_BackupTimestamp (u_Spec old)) (us_BackupTimestamp (u_Spec new))
         (us_BackupTimestamp (u_Spec cur)),
       us_UploadCancel = merge_field (us_UploadCancel (u_Spec old)) (us_UploadCancel (u_Spec new))
         (us_UploadCancel (u_Spec cur)),
       us_BackupRepositoryName = merge_field (us_BackupRepositoryName (u_Spec old))
         (us_BackupRepositoryName (u_Spec new)) (us_BackupRepositoryName (u_Spec cur)),
       us_SnapshotReference = merge_field (us_SnapshotReference (u_Spec old))
         (us_SnapshotReference (u_Spec new)) (us_SnapshotReference (u_Spec cur))\<rparr>,
     u_Status = merge_upload_status (u_Status old) (u_Status new) (u_Status cur)\<rparr>"

definition merge_download_status ::
  "DownloadStatus \<Rightarrow> DownloadStatus \<Rightarrow> DownloadStatus \<Rightarrow> DownloadStatus" where
  "merge_download_status old new cur = \<lparr>
     dlt_VolumeID = merge_field (dlt_VolumeID old) (dlt_VolumeID new) (dlt_VolumeID cur),
     dlt_Phase = merge_field (dlt_Phase old) (dlt_Phase new) (dlt_Phase cur),
     dlt_Message = merge_field (dlt_Message old) (dlt_Message new) (dlt_Message cur),
     dlt_StartTimestamp = merge_field (dlt_StartTimestamp old) (dlt_StartTimestamp new)
       (dlt_StartTimestamp cur),
     dlt_CompletionTimestamp = merge_field (dlt_CompletionTimestamp old) (dlt_CompletionTimestamp new)
       (dlt_CompletionTimestamp cur),
     dlt_Progress = \<lparr>
       dlp_TotalBytes = merge_field (dlp_TotalBytes (dlt_Progress old)) (dlp_TotalBytes (dlt_Progress new))
         (dlp_TotalBytes (dlt_Progress cur)),
       dlp_BytesDone = merge_field (dlp_BytesDone (dlt_Progress old)) (dlp_BytesDone (dlt_Progress new))
         (dlp_BytesDone (dlt_Progress cur))\<rparr>,
     dlt_ProcessingNode = merge_field (dlt_ProcessingNode old) (dlt_ProcessingNode new)
       (dlt_ProcessingNode cur),
     dlt_RetryCount = merge_field (dlt_RetryCount old) (dlt_RetryCount new) (dlt_RetryCount cur),
     dlt_NextRetryTimestamp = merge_field (dlt_NextRetryTimestamp old) (dlt_NextRetryTimestamp new)
       (dlt_NextRetryTimestamp cur)\<rparr>"

definition merge_download :: "Download \<Rightarrow> Download \<Rightarrow> Download \<Rightarrow> Download" where
  "merge_download old new cur = \<lparr>
     dl_Meta = merge_meta (dl_Meta old) (dl_Meta new) (dl_Meta cur),
     dl_Spec = \<lparr>
       dls_SnapshotID = merge_field (dls_SnapshotID (dl_Spec old)) (dls_SnapshotID (dl_Spec new))
         (dls_SnapshotID (dl_Spec cur)),
       dls_RestoreTimestamp = merge_field (dls_RestoreTimestamp (dl_Spec old))
         (dls_RestoreTimestamp (dl_Spec new)) (dls_RestoreTimestamp (dl_Spec cur)),
       dls_ProtectedEntityID = merge_field (dls_ProtectedEntityID (dl_Spec old))
         (dls_ProtectedEntityID (dl_Spec new)) (dls_ProtectedEntityID (dl_Spec cur)),
       dls_BackupRepositoryName = merge_field (dls_BackupRepositoryName (dl_Spec old))
         (dls_BackupRepositoryName (dl_Spec new)) (dls_BackupRepositoryName (dl_Spec cur)),
       dls_CloneFromSnapshotReference = merge_field (dls_CloneFromSnapshotReference (dl_Spec old))
         (dls_CloneFromSnapshotReference (dl_Spec new)) (dls_CloneFromSnapshotReference (dl_Spec cur))\<rparr>,
     dl_Status = merge_download_status (dl_Status old) (dl_Status new) (dl_Status cur)\<rparr>"

definition merge_brc ::
  "BackupRepositoryClaim \<Rightarrow> BackupRepositoryClaim \<Rightarrow> BackupRepositoryClaim \<Rightarrow> BackupRepositoryClaim" where
  "merge_brc old new cur = \<lparr>
     brc_Meta = merge_meta (brc_Meta old) (brc_Meta new) (brc_Meta cur),
     brc_AllowedNamespaces = merge_field (brc_AllowedNamespaces old) (brc_AllowedNamespaces new)
       (brc_AllowedNamespaces cur),
     brc_RepositoryDriver = merge_field (brc_RepositoryDriver old) (brc_RepositoryDriver new)
       (brc_RepositoryDriver cur),
     brc_RepositoryParameters = merge_map (brc_RepositoryParameters old) (brc_RepositoryParameters new)
       (brc_RepositoryParameters cur),
     brc_BackupRepository = merge_field (brc_BackupRepository old) (brc_BackupRepository new)
       (brc_BackupRepository cur)\<rparr>"

subsection \<open>The laws every patch relies on\<close>

text \<open>
  A client that patches an object it read just now gets the object it built; a patch between
  equal objects changes nothing. These are the contract of a merge operation, proved once for
  each kind of object.
\<close>

locale merge_patch =
  fixes merge :: "'o \<Rightarrow> 'o \<Rightarrow> 'o \<Rightarrow> 'o"
  assumes merge_fresh: "merge cur new cur = new"
    and merge_same: "merge old old cur = cur"
begin

lemma merge_idem: "merge new new (merge cur new cur) = new"
  by (simp add: merge_fresh merge_same)

lemma merge_fresh_twice: "merge new newer (merge cur new cur) = newer"
  by (simp add: merge_fresh)

end

lemma merge_field_same [simp]: "merge_field old old cur = cur"
  by (simp add: merge_field_def)

lemma merge_field_fresh [simp]: "merge_field cur new cur = new"
  by (simp add: merge_field_def)

lemma merge_map_same [simp]: "merge_map old old cur = cur"
  by (simp add: merge_map_def)

lemma merge_map_fresh [simp]: "merge_map cur new cur = new"
  by (simp add: merge_map_def)

lemma merge_meta_same [simp]: "merge_meta old old cur = cur"
  by (simp add: merge_meta_def)

lemma merge_meta_fresh [simp]: "merge_meta cur new cur = new"
  by (simp add: merge_meta_def)

interpretation upload_merge: merge_patch merge_upload
  by unfold_locales (simp_all add: merge_upload_def merge_upload_status_def)

interpretation download_merge: merge_patch merge_download
  by unfold_locales (simp_all add: merge_download_def merge_download_status_def)

interpretation brc_merge: merge_patch merge_brc
  by unfold_locales (simp_all add: merge_brc_def)

end
