(* ===== verification/Go_Strings.thy ===== *)
theory Go_Strings
  imports Prelude
begin

text \<open>
  What the code uses of Go's \<^verbatim>\<open>strings\<close>, \<^verbatim>\<open>strconv\<close> and \<^verbatim>\<open>encoding/base64\<close>
  packages, on byte strings.
\<close>

section \<open>Package strings\<close>

fun contains :: "string \<Rightarrow> string \<Rightarrow> bool" where
  "contains [] sub = (sub = [])"
| "contains (c # s) sub = (take (length sub) (c # s) = sub \<or> contains s sub)"

text \<open>\<^verbatim>\<open>strings.Split(s, sep)\<close> for a one-byte separator: always at least one piece.\<close>

fun split_on :: "char \<Rightarrow> string \<Rightarrow> string list" where
  "split_on sep [] = [[]]"
| "split_on sep (c # s) =
     (case split_on sep s of
        [] \<Rightarrow> [[c]]
      | piece # pieces \<Rightarrow> if c = sep then [] # piece # pieces else (c # piece) # pieces)"

text \<open>\<^verbatim>\<open>strings.SplitN(s, sep, 2)\<close>: cut at the first separator, if there is one.\<close>

fun cut_first :: "char \<Rightarrow> string \<Rightarrow> (string \<times> string) option" where
  "cut_first sep [] = None"
| "cut_first sep (c # s) =
     (if c = sep then Some ([], s)
      else (case cut_first sep s of None \<Rightarrow> None | Some (a, b) \<Rightarrow> Some (c # a, b)))"

text \<open>Cut at the last separator (\<^verbatim>\<open>strings.LastIndex\<close> and two slices).\<close>

fun cut_last :: "char \<Rightarrow> string \<Rightarrow> (string \<times> string) option" where
  "cut_last sep [] = None"
| "cut_last sep (c # s) =
     (case cut_last sep s of
        Some (a, b) \<Rightarrow> Some (c # a, b)
      | None \<Rightarrow> if c = sep then Some ([], s) else None)"

text \<open>\<^verbatim>\<open>strings.Join\<close>, the inverse of splitting.\<close>

fun join :: "char \<Rightarrow> string list \<Rightarrow> string" where
  "join sep [] = []"
| "join sep [p] = p"
| "join sep (p # q # ps) = p @ sep # join sep (q # ps)"

lemma split_on_nonempty [simp]: "split_on sep s \<noteq> []"
  by (cases s) (auto split: list.splits)

lemma join_split_on: "join sep (split_on sep s) = s"
proof (induction s)
  case Nil
  show ?case by simp
next
  case (Cons c s)
  obtain p ps where sp: "split_on sep s = p # ps"
    by (cases "split_on sep s") auto
  with Cons show ?case by (cases ps) auto
qed

lemma split_on_no_sep: "sep \<notin> set s \<Longrightarrow> split_on sep s = [s]"
  by (induction s) auto

lemma split_on_append:
  "sep \<notin> set a \<Longrightarrow> split_on sep (a @ sep # b) = a # split_on sep b"
  by (induction a) (auto split: list.splits)

lemma split_on_two:
  assumes "sep \<notin> set a" "sep \<notin> set b"
  shows "split_on sep (a @ sep # b) = [a, b]"
  using assms by (simp add: split_on_append split_on_no_sep)

lemma cut_first_None: "cut_first sep s = None \<longleftrightarrow> sep \<notin> set s"
  by (induction s) (auto split: option.splits)

lemma cut_first_SomeD: "cut_first sep s = Some (a, b) \<Longrightarrow> s = a @ sep # b \<and> sep \<notin> set a"
  by (induction s arbitrary: a) (auto split: if_splits option.splits)

lemma cut_first_append: "sep \<notin> set a \<Longrightarrow> cut_first sep (a @ sep # b) = Some (a, b)"
  by (induction a) auto

lemma cut_last_None: "cut_last sep s = None \<longleftrightarrow> sep \<notin> set s"
  by (induction s) (auto split: option.splits)

lemma cut_last_SomeD: "cut_last sep s = Some (a, b) \<Longrightarrow> s = a @ sep # b \<and> sep \<notin> set b"
  by (induction s arbitrary: a) (auto simp: cut_last_None split: if_splits option.splits)

lemma cut_last_append: "sep \<notin> set b \<Longrightarrow> cut_last sep (a @ sep # b) = Some (a, b)"
proof (induction a)
  case Nil
  then have "cut_last sep b = None" by (simp add: cut_last_None)
  then show ?case by simp
qed auto

lemma contains_iff: "contains s sub \<longleftrightarrow> (\<exists>a b. s = a @ sub @ b)"
proof (induction s)
  case Nil
  show ?case by simp
next
  case (Cons c s)
  have "take (length sub) (c # s) = sub \<longleftrightarrow> (\<exists>b. c # s = sub @ b)"
    by (metis append_eq_conv_conj append_take_drop_id)
  with Cons show ?case by (auto simp: Cons_eq_append_conv)
qed

section \<open>Package strconv\<close>

fun digit :: "char \<Rightarrow> nat option" where
  "digit c = (if 48 \<le> (of_char c :: nat) \<and> (of_char c :: nat) \<le> 57 then Some (of_char c - 48) else None)"

fun parse_digits :: "int \<Rightarrow> string \<Rightarrow> int option" where
  "parse_digits acc [] = Some acc"
| "parse_digits acc (c # s) =
     (case digit c of None \<Rightarrow> None | Some d \<Rightarrow> parse_digits (10 * acc + int d) s)"

text \<open>
  \<^verbatim>\<open>strconv.Atoi\<close>: an optional sign and at least one decimal digit; a value outside the
  64-bit range is an error.
\<close>

definition atoi :: "string \<Rightarrow> int option" where
  "atoi s =
     (let (neg, ds) = (case s of
            [] \<Rightarrow> (False, [])
          | c # t \<Rightarrow> if c = CHR ''-'' then (True, t) else if c = CHR ''+'' then (False, t) else (False, s))
      in if ds = [] then None
         else (case parse_digits 0 ds of
             None \<Rightarrow> None
           | Some n \<Rightarrow>
               (let v = (if neg then - n else n)
                in if - (2 ^ 63) \<le> v \<and> v < 2 ^ 63 then Some v else None)))"

lemma atoi_range: "atoi s = Some v \<Longrightarrow> - (2 ^ 63) \<le> v \<and> v < 2 ^ 63"
  by (auto simp: atoi_def Let_def split: list.splits option.splits if_splits)

section \<open>Package encoding/base64\<close>

text \<open>\<^verbatim>\<open>base64.RawStdEncoding\<close>: the standard alphabet without padding.\<close>

definition b64_value :: "char \<Rightarrow> nat option" where
  "b64_value c =
     (let n = (of_char c :: nat) in
      if 65 \<le> n \<and> n \<le> 90 then Some (n - 65)
      else if 97 \<le> n \<and> n \<le> 122 then Some (n - 71)
      else if 48 \<le> n \<and> n \<le> 57 then Some (n + 4)
      else if n = 43 then Some 62
      else if n = 47 then Some 63
      else None)"

definition b64_char :: "nat \<Rightarrow> char" where
  "b64_char v = (char_of :: nat \<Rightarrow> char)
     (if v < 26 then v + 65 else if v < 52 then v + 71 else if v < 62 then v - 4
      else if v = 62 then 43 else 47)"

fun b64_groups :: "nat list \<Rightarrow> nat list option" where
  "b64_groups [] = Some []"
| "b64_groups [a] = None"
| "b64_groups [a, b] = Some [a * 4 + b div 16]"
| "b64_groups [a, b, c] = Some [a * 4 + b div 16, (b mod 16) * 16 + c div 4]"
| "b64_groups (a # b # c # d # rest) =
     map_option (\<lambda>bs. (a * 4 + b div 16) # ((b mod 16) * 16 + c div 4) # ((c mod 4) * 64 + d) # bs)
       (b64_groups rest)"

fun all_values :: "string \<Rightarrow> nat list option" where
  "all_values [] = Some []"
| "all_values (c # s) =
     (case b64_value c of
        None \<Rightarrow> None
      | Some v \<Rightarrow> map_option (\<lambda>vs. v # vs) (all_values s))"

text \<open>Carriage returns and newlines in the input are skipped.\<close>

definition b64_decode :: "string \<Rightarrow> string option" where
  "b64_decode s =
     (case all_values (filter (\<lambda>c. c \<noteq> CHR 0x0A \<and> c \<noteq> CHR 0x0D) s) of
        None \<Rightarrow> None
      | Some vs \<Rightarrow> map_option (map char_of) (b64_groups vs))"

text \<open>The encoder of RFC 4648, as the reference the decoder is measured against.\<close>

fun b64_split :: "nat list \<Rightarrow> nat list" where
  "b64_split [] = []"
| "b64_split [x] = [x div 4, (x mod 4) * 16]"
| "b64_split [x, y] = [x div 4, (x mod 4) * 16 + y div 16, (y mod 16) * 4]"
| "b64_split (x # y # z # rest) =
     x div 4 # ((x mod 4) * 16 + y div 16) # ((y mod 16) * 4 + z div 64) # (z mod 64) # b64_split rest"

definition b64_encode :: "string \<Rightarrow> string" where
  "b64_encode s = map b64_char (b64_split (map of_char s))"

lemma b64_split_range: "\<forall>x \<in> set xs. x < 256 \<Longrightarrow> \<forall>v \<in> set (b64_split xs). v < 64"
  by (induction xs rule: b64_split.induct) auto

text \<open>Splitting a byte over two digits and putting it together again.\<close>

lemma digit_pair:
  fixes x y :: nat
  shows "y < 16 \<Longrightarrow> (x * 16 + y) div 16 = x" "y < 16 \<Longrightarrow> (x * 16 + y) mod 16 = y"
    and "y < 4 \<Longrightarrow> (x * 4 + y) div 4 = x" "y < 4 \<Longrightarrow> (x * 4 + y) mod 4 = y"
    and "x div 4 * 4 + x mod 4 = x" "x div 16 * 16 + x mod 16 = x" "x div 64 * 64 + x mod 64 = x"
  by simp_all

lemma high_digit:
  fixes y :: nat
  assumes "y < 256"
  shows "y div 16 < 16" "y div 64 < 4"
  using assms by auto

lemma b64_groups_split: "\<forall>x \<in> set xs. x < 256 \<Longrightarrow> b64_groups (b64_split xs) = Some xs"
proof (induction xs rule: b64_split.induct)
  case 1
  show ?case by simp
next
  case (2 x)
  show ?case using digit_pair(1) [of 0 "x mod 4"] digit_pair(5) [of x] by simp
next
  case (3 x y)
  then have y: "y < 256" by simp
  have low: "y mod 16 * 4 div 4 = y mod 16" by simp
  show ?case
    by (simp only: b64_split.simps b64_groups.simps digit_pair(1,2) [OF high_digit(1) [OF y]]
        digit_pair(5,6) low)
next
  case (4 x y z rest)
  then have y: "y < 256" and z: "z < 256" and rest: "b64_groups (b64_split rest) = Some rest"
    by simp_all
  show ?case
    by (simp only: b64_split.simps b64_groups.simps digit_pair(1,2) [OF high_digit(1) [OF y]]
        digit_pair(3,4) [OF high_digit(2) [OF z]] digit_pair(5-7) rest option.map)
qed

lemma b64_value_char:
  assumes "v < 64"
  shows "b64_value (b64_char v) = Some v"
  using assms by (auto simp: b64_value_def b64_char_def Let_def)

lemma b64_char_plain:
  assumes "v < 64"
  shows "b64_char v \<noteq> CHR 0x0A" "b64_char v \<noteq> CHR 0x0D"
proof -
  have "b64_value (b64_char v) \<noteq> None" using b64_value_char [OF assms] by simp
  then show "b64_char v \<noteq> CHR 0x0A" "b64_char v \<noteq> CHR 0x0D" by (auto simp: b64_value_def)
qed

lemma all_values_chars: "\<forall>v \<in> set vs. v < 64 \<Longrightarrow> all_values (map b64_char vs) = Some vs"
  by (induction vs) (auto simp: b64_value_char)

lemma b64_decode_encode: "b64_decode (b64_encode s) = Some s"
proof -
  let ?vs = "b64_split (map of_char s) :: nat list"
  have bytes: "\<forall>x \<in> set (map of_char s :: nat list). x < 256" by auto
  then have vs: "\<forall>v \<in> set ?vs. v < 64" by (rule b64_split_range)
  have "filter (\<lambda>c. c \<noteq> CHR 0x0A \<and> c \<noteq> CHR 0x0D) (b64_encode s) = b64_encode s"
    using vs by (auto simp: b64_encode_def filter_id_conv b64_char_plain)
  then show ?thesis
    using all_values_chars [OF vs] b64_groups_split [OF bytes]
    by (simp add: b64_decode_def b64_encode_def comp_def)
qed

lemma all_values_length: "all_values s = Some vs \<Longrightarrow> length vs = length s"
  by (induction s arbitrary: vs) (auto split: option.splits)

lemma b64_groups_length: "b64_groups vs = Some bs \<Longrightarrow> 4 * length bs \<le> 3 * length vs"
proof (induction vs arbitrary: bs rule: b64_groups.induct)
  case (5 a b c d rest)
  from "5.prems" obtain tail where "b64_groups rest = Some tail" "length bs = 3 + length tail"
    by auto
  with "5.IH" [of tail] show ?case by simp
qed auto

text \<open>Decoding shrinks: what comes out is at most three quarters of what went in.\<close>

lemma b64_decode_shrinks:
  assumes "b64_decode s = Some t"
  shows "4 * length t \<le> 3 * length s"
proof -
  let ?f = "filter (\<lambda>c. c \<noteq> CHR 0x0A \<and> c \<noteq> CHR 0x0D) s"
  from assms obtain vs bs where vs: "all_values ?f = Some vs" and bs: "b64_groups vs = Some bs"
    and t: "t = map char_of bs"
    by (auto simp: b64_decode_def split: option.splits)
  have "4 * length bs \<le> 3 * length ?f"
    using b64_groups_length [OF bs] all_values_length [OF vs] by simp
  also have "\<dots> \<le> 3 * length s" by simp
  finally show ?thesis by (simp add: t)
qed

text \<open>
  \<^verbatim>\<open>base64.StdEncoding\<close>: the same alphabet, padded with \<open>=\<close> to groups of four. The decoder
  skips carriage returns and newlines, and accepts padding only at the end.
\<close>

definition b64_padding :: "nat \<Rightarrow> string" where
  "b64_padding n = (if n mod 4 = 2 then ''=='' else if n mod 4 = 3 then ''='' else '''')"

definition b64_std_encode :: "string \<Rightarrow> string" where
  "b64_std_encode s = (let t = b64_encode s in t @ b64_padding (length t))"

definition strip_padding :: "string \<Rightarrow> string" where
  "strip_padding s =
     (case rev s of
        c # d # r \<Rightarrow> if c = CHR ''='' \<and> d = CHR ''='' then rev r
                      else if c = CHR ''='' then rev (d # r) else s
      | [c] \<Rightarrow> if c = CHR ''='' then [] else s
      | [] \<Rightarrow> s)"

definition b64_std_decode :: "string \<Rightarrow> string option" where
  "b64_std_decode s =
     (let f = filter (\<lambda>c. c \<noteq> CHR 0x0A \<and> c \<noteq> CHR 0x0D) s in
      if length f mod 4 \<noteq> 0 then None else b64_decode (strip_padding f))"

lemma b64_encode_chars:
  assumes "c \<in> set (b64_encode s)"
  shows "b64_value c \<noteq> None"
proof -
  have "\<forall>x \<in> set (map of_char s :: nat list). x < 256" by auto
  then have "\<forall>v \<in> set (b64_split (map of_char s)). v < 64" by (rule b64_split_range)
  with assms show ?thesis by (auto simp: b64_encode_def b64_value_char)
qed

lemma b64_encode_no_pad: "CHR ''='' \<notin> set (b64_encode s)"
  using b64_encode_chars [of "CHR ''=''" s] by (auto simp: b64_value_def)

lemma b64_encode_no_newline: "filter (\<lambda>c. c \<noteq> CHR 0x0A \<and> c \<noteq> CHR 0x0D) (b64_encode s) = b64_encode s"
  using b64_encode_chars [of "CHR 0x0A" s] b64_encode_chars [of "CHR 0x0D" s]
  by (auto simp: filter_id_conv b64_value_def)

lemma b64_split_length: "length (b64_split xs) mod 4 \<noteq> 1"
  by (induction xs rule: b64_split.induct) auto

lemma b64_encode_length: "length (b64_encode s) mod 4 \<noteq> 1"
  using b64_split_length [of "map of_char s"] by (simp add: b64_encode_def)

lemma last_not_pad: "CHR ''='' \<notin> set t \<Longrightarrow> rev t = c # r \<Longrightarrow> c \<noteq> CHR ''=''"
  by (metis list.set_intros(1) set_rev)

lemma strip_padding_append:
  assumes "CHR ''='' \<notin> set t"
  shows "strip_padding (t @ b64_padding n) = t"
proof (cases "rev t")
  case Nil
  then show ?thesis by (simp add: strip_padding_def b64_padding_def)
next
  case (Cons c r)
  then have t: "t = rev r @ [c]" by (metis rev.simps(2) rev_rev_ident)
  from last_not_pad [OF assms Cons] have "c \<noteq> CHR ''=''" .
  then show ?thesis by (cases r) (simp_all add: strip_padding_def b64_padding_def t)
qed

lemma b64_std_decode_encode: "b64_std_decode (b64_std_encode s) = Some s"
proof -
  let ?t = "b64_encode s"
  have len: "length (?t @ b64_padding (length ?t)) mod 4 = 0"
  proof -
    consider "length ?t mod 4 = 0" | "length ?t mod 4 = 2" | "length ?t mod 4 = 3"
      using b64_encode_length [of s] by linarith
    then show ?thesis by cases (auto simp: b64_padding_def mod_Suc)
  qed
  have "filter (\<lambda>c. c \<noteq> CHR 0x0A \<and> c \<noteq> CHR 0x0D) (b64_padding n) = b64_padding n" for n
    by (simp add: b64_padding_def)
  with len show ?thesis
    by (simp add: b64_std_decode_def b64_std_encode_def Let_def b64_encode_no_newline
        strip_padding_append [OF b64_encode_no_pad] b64_decode_encode)
qed

text \<open>Decimal digits of a number, as \<^verbatim>\<open>%d\<close> prints it.\<close>

fun decimal :: "nat \<Rightarrow> string" where
  "decimal n = (if n < 10 then [char_of (48 + n)] else decimal (n div 10) @ [char_of (48 + n mod 10)])"

declare decimal.simps [simp del]

end
