(* ===== verification/Cluster.thy ===== *)
theory Cluster
  imports Api_Types Go_Strings
begin

text \<open>
  The surroundings of the program: the state it shares (\<open>world\<close>) and the code and services
  it calls but does not contain (\<open>env\<close>).

  \<open>world\<close> holds the custom resources stored by the API server, the process state of the
  data mover and of the backup driver, and a trace of the calls with an effect outside the
  cluster (queue operations, data copies, snapshot deletions). \<open>w_tick\<close> numbers the external
  calls.

  \<open>env\<close> is the parameter every definition takes for the code outside the repository: the
  clock, the API server's answers, Astrolabe's identifiers and protected entities, leases and
  so on, each as a function of the call's number, so that two calls may be answered
  differently. Nothing is assumed about it unless a theorem says so. A request to the API
  server has one of three fates: it is carried out; it is refused and nothing changes; or it
  is carried out but the answer is lost and the client sees an error.
\<close>

section \<open>Identifiers of protected entities\<close>

text \<open>
  A value of Astrolabe's \<^verbatim>\<open>ProtectedEntityID\<close> as the code sees it, through
  \<^verbatim>\<open>GetPeType\<close>, \<^verbatim>\<open>GetID\<close> and \<^verbatim>\<open>GetSnapshotID\<close>. Parsing, printing and
  \<^verbatim>\<open>HasSnapshot\<close> are Astrolabe's and stay parameters.
\<close>

record peid =
  pe_type :: string
  pe_id :: string
  pe_snapshot :: string

definition no_peid :: peid where
  "no_peid = \<lparr>pe_type = '''', pe_id = '''', pe_snapshot = ''''\<rparr>"

text \<open>\<^verbatim>\<open>IDWithSnapshot\<close>: the identifier of one snapshot of the entity.\<close>

definition with_snapshot :: "peid \<Rightarrow> string \<Rightarrow> peid" where
  "with_snapshot p s = p\<lparr>pe_snapshot := s\<rparr>"

text \<open>The settings with which an S3 repository manager is built.\<close>

record s3_settings =
  s3_region :: string
  s3_bucket :: string
  s3_prefix :: string
  s3_endpoint :: "string option"
  s3_path_style :: "bool option"
  s3_credentials :: "(string \<times> string) option"
  s3_ca_bundle :: "string option"

text \<open>
  Which protected entity (type) manager a call goes to. \<open>NilPETM\<close> is a nil interface value,
  on which every call panics; \<open>NilS3PETM\<close> a nil S3 manager inside a non-nil interface, which
  answers as the S3 code does on a nil receiver.
\<close>

datatype petm = LocalPEM | IvdPETM | S3PETM s3_settings | NilPETM | NilS3PETM

section \<open>World and environment\<close>

type_synonym key = "string \<times> string"  \<comment> \<open>namespace and name\<close>

datatype event =
    EvQueueAdd string key
  | EvQueueAddAfter string key int
  | EvQueueAddRateLimited string key
  | EvQueueForget string key
  | EvCopied petm peid
  | EvSnapshotCreated peid string
  | EvSnapshotDeleted petm peid string
  | EvOverwritten peid peid
  | EvVolumeCreated peid
  | EvUploadCanceled peid
  | EvNamespaceCreated string

record world =
  w_tick :: nat
  w_trace :: "event list"
  w_uploads :: "key \<Rightarrow> Upload option"
  w_downloads :: "key \<Rightarrow> Download option"
  w_snapshots :: "key \<Rightarrow> Snapshot option"
  w_svc_snapshots :: "key \<Rightarrow> Snapshot option"
  w_clones :: "key \<Rightarrow> CloneFromSnapshot option"
  w_deletes :: "key \<Rightarrow> DeleteSnapshot option"
  w_brs :: "key \<Rightarrow> BackupRepository option"
  w_brcs :: "key \<Rightarrow> BackupRepositoryClaim option"
  w_svc_brcs :: "key \<Rightarrow> BackupRepositoryClaim option"
  w_ongoing :: "peid \<Rightarrow> nat option"
  w_svcSnapshotMap :: "string \<rightharpoonup> string"
  w_config_maps :: "key \<Rightarrow> (string \<rightharpoonup> string) option"

datatype fate = Accepted | Refused api_error | AnswerLost api_error

datatype lease = LeaseAcquired | LeaseHeldByOther | LeaseLost

text \<open>The parts of a PersistentVolume and of a Pod that node selection reads.\<close>

record pv =
  pv_CSIVolumeHandle :: "string option"
  pv_ClaimRef :: "(string \<times> string) option"  \<comment> \<open>name and namespace\<close>

record pod =
  pod_ClaimNames :: "string option list"  \<comment> \<open>one entry per volume, None if it is no PVC\<close>
  pod_NodeName :: string

text \<open>The parts of Velero's BackupStorageLocation that the repository settings are read from.\<close>

record bsl =
  bsl_Provider :: string
  bsl_Config :: "string \<rightharpoonup> string"
  bsl_ObjectStorage :: "(string \<times> string option) option"  \<comment> \<open>bucket and CA certificate\<close>

text \<open>The parts of a container that the CSI driver's version and flavor are read from.\<close>

record container =
  ct_Name :: string
  ct_Image :: string
  ct_Env :: "(string \<times> string) list"
  ct_Args :: "string list"

record env =
  e_now :: "nat \<Rightarrow> int"  \<comment> \<open>nanoseconds since the epoch\<close>
  e_fate :: "nat \<Rightarrow> fate"
  e_polls :: "nat \<Rightarrow> nat"
  e_uuid :: "nat \<Rightarrow> goerr + string"
  e_client :: "nat \<Rightarrow> goerr option"  \<comment> \<open>building a client from the cluster configuration\<close>
  e_velero_ns :: "string option"  \<comment> \<open>VELERO_NAMESPACE\<close>
  e_config_map :: "nat \<Rightarrow> key \<Rightarrow> goerr + (string \<rightharpoonup> string)"
  e_deployment :: "nat \<Rightarrow> key \<Rightarrow> goerr + container list"
  e_statefulset :: "nat \<Rightarrow> key \<Rightarrow> goerr + container list"
  e_compare_version :: "string \<Rightarrow> string \<Rightarrow> int option"  \<comment> \<open>None if one does not parse\<close>
  e_secret :: "nat \<Rightarrow> key \<Rightarrow> goerr + string list"  \<comment> \<open>the values, in iteration order\<close>
  e_gcfg :: "string \<Rightarrow> goerr + (string \<times> (string \<times> string \<times> string \<times> string) list)"
  e_has_petm :: "string \<Rightarrow> bool"
  e_watch_download :: "nat \<Rightarrow> goerr + Download"
  e_pvc_type :: string  \<comment> \<open>astrolabe.PvcPEType\<close>
  e_ivd_type :: string  \<comment> \<open>astrolabe.IvdPEType\<close>
  e_parse_peid :: "string \<Rightarrow> goerr + peid"
  e_print_peid :: "peid \<Rightarrow> string"
  e_has_snapshot :: "peid \<Rightarrow> bool"
  e_namespaced_id :: "string \<Rightarrow> string \<Rightarrow> string \<Rightarrow> peid"  \<comment> \<open>kind, name, namespace\<close>
  e_get_pe :: "nat \<Rightarrow> petm \<Rightarrow> peid \<Rightarrow> goerr option"
  e_copy :: "nat \<Rightarrow> petm \<Rightarrow> peid \<Rightarrow> goerr + peid"
  e_overwrite :: "nat \<Rightarrow> peid \<Rightarrow> peid \<Rightarrow> goerr option"
  e_take_snapshot :: "nat \<Rightarrow> peid \<Rightarrow> goerr + (string \<times> string option)"
  e_list_snapshots :: "nat \<Rightarrow> petm \<Rightarrow> peid \<Rightarrow> goerr + string list"
  e_delete_snapshot :: "nat \<Rightarrow> petm \<Rightarrow> peid \<Rightarrow> string \<Rightarrow> goerr + bool"
  e_components :: "nat \<Rightarrow> peid \<Rightarrow> goerr + peid list"
  e_metadata :: "nat \<Rightarrow> peid \<Rightarrow> goerr + (goerr + string)"
  e_create_from_metadata :: "nat \<Rightarrow> petm \<Rightarrow> string \<Rightarrow> peid \<Rightarrow> goerr + peid"
  e_pvc_metadata :: "string \<Rightarrow> goerr + (key \<times> string option)"
  e_new_s3 :: "nat \<Rightarrow> s3_settings \<Rightarrow> goerr option"
  e_s3_session :: "nat \<Rightarrow> goerr option"
  e_bsl_get :: "nat \<Rightarrow> key \<Rightarrow> goerr + bsl"
  e_bsl_list :: "nat \<Rightarrow> string \<Rightarrow> goerr + bsl list"
  e_lease :: "nat \<Rightarrow> lease"
  e_pvs :: "nat \<Rightarrow> goerr + pv list"
  e_pods :: "nat \<Rightarrow> string \<Rightarrow> goerr + pod list"
  e_upload_cache :: "nat \<Rightarrow> key \<Rightarrow> goerr + Upload"
  e_download_cache :: "nat \<Rightarrow> key \<Rightarrow> goerr + Download"
  e_brc_cache :: "nat \<Rightarrow> key \<Rightarrow> goerr + BackupRepositoryClaim"
  e_uid :: "key \<Rightarrow> string"  \<comment> \<open>the UID the API server gives a new object\<close>
  e_brc_list :: "nat \<Rightarrow> bool \<Rightarrow> string \<Rightarrow> goerr + BackupRepositoryClaim list"
    \<comment> \<open>the flag is set for a request to the supervisor cluster\<close>
  e_brc_event :: "nat \<Rightarrow> bool \<Rightarrow> BackupRepositoryClaim option"
    \<comment> \<open>the next event of the claim informer, None when the context is done\<close>

section \<open>Primitive actions\<close>

definition next_call :: "(world, nat) state" where
  "next_call = State (\<lambda>w. (w_tick w, w\<lparr>w_tick := Suc (w_tick w)\<rparr>))"

definition emit :: "event \<Rightarrow> (world, unit) state" where
  "emit ev = State (\<lambda>w. ((), w\<lparr>w_trace := w_trace w @ [ev]\<rparr>))"

definition ask :: "(nat \<Rightarrow> 'a) \<Rightarrow> (world, 'a) state" where
  "ask f = do { n \<leftarrow> next_call; State_Monad.return (f n) }"

lemma run_next_call [simp]: "run_state next_call w = (w_tick w, w\<lparr>w_tick := Suc (w_tick w)\<rparr>)"
  by (simp add: next_call_def)

lemma run_emit [simp]: "run_state (emit ev) w = ((), w\<lparr>w_trace := w_trace w @ [ev]\<rparr>)"
  by (simp add: emit_def)

lemma run_ask [simp]: "run_state (ask f) w = (f (w_tick w), w\<lparr>w_tick := Suc (w_tick w)\<rparr>)"
  by (simp add: ask_def)

text \<open>Whole seconds of a clock reading: what a stored \<^verbatim>\<open>metav1.Time\<close> keeps of it.\<close>

definition nanos_per_second :: int where "nanos_per_second = 1000000000"

definition unix :: "int \<Rightarrow> seconds" where
  "unix t = t div nanos_per_second"

definition clock_now :: "env \<Rightarrow> (world, int) state" where
  "clock_now E = ask (e_now E)"

text \<open>
  \<^verbatim>\<open>now.After(ts.Add(DefaultCRCleanUpWindow * time.Hour))\<close> for a stored time \<open>ts\<close>.
\<close>

definition after_cleanup_window :: "int \<Rightarrow> seconds \<Rightarrow> bool" where
  "after_cleanup_window now ts \<longleftrightarrow>
     (ts + DefaultCRCleanUpWindow * 3600) * nanos_per_second < now"

text \<open>
  Loading the cluster configuration and building a client from it: two steps that can fail,
  each wrapped by the caller in its own way.
\<close>

definition connect :: "(goerr \<Rightarrow> goerr) \<Rightarrow> (goerr \<Rightarrow> goerr) \<Rightarrow> env \<Rightarrow> (world, goerr option) state" where
  "connect wrapConfig wrapClient E = do {
     cfg \<leftarrow> ask (e_client E);
     (case cfg of
        Some e \<Rightarrow> State_Monad.return (Some (wrapConfig e))
      | None \<Rightarrow> do {
          cl \<leftarrow> ask (e_client E);
          State_Monad.return (map_option wrapClient cl)
        })
   }"

section \<open>Requests to the API server\<close>

text \<open>
  One kind of custom resource is a field of \<open>world\<close>, given by its selector and update
  function. \<open>cr_modify\<close> covers \<^verbatim>\<open>Patch\<close> (\<open>f\<close> merges the patch into the stored
  object) and \<^verbatim>\<open>UpdateStatus\<close> (\<open>f\<close> replaces the status); \<open>cr_create\<close> stores the
  object as \<open>admit\<close> leaves it (the API server drops the status of a kind with a status
  subresource).
\<close>

definition cr_get :: "(world \<Rightarrow> 'k \<Rightarrow> 'o option) \<Rightarrow> env \<Rightarrow> 'k \<Rightarrow> (world, goerr + 'o) state" where
  "cr_get sel E k = State (\<lambda>w.
     (case e_fate E (w_tick w) of
        Accepted \<Rightarrow> (case sel w k of None \<Rightarrow> Inl (ErrAPI (NotFound ''not found'')) | Some x \<Rightarrow> Inr x)
      | Refused e \<Rightarrow> Inl (ErrAPI e)
      | AnswerLost e \<Rightarrow> Inl (ErrAPI e),
      w\<lparr>w_tick := Suc (w_tick w)\<rparr>))"

definition cr_modify ::
  "(world \<Rightarrow> 'k \<Rightarrow> 'o option) \<Rightarrow> ((('k \<Rightarrow> 'o option) \<Rightarrow> ('k \<Rightarrow> 'o option)) \<Rightarrow> world \<Rightarrow> world) \<Rightarrow>
   env \<Rightarrow> 'k \<Rightarrow> ('o \<Rightarrow> 'o) \<Rightarrow> (world, goerr + 'o) state" where
  "cr_modify sel upd E k f = State (\<lambda>w.
     let w' = w\<lparr>w_tick := Suc (w_tick w)\<rparr> in
     (case e_fate E (w_tick w) of
        Refused e \<Rightarrow> (Inl (ErrAPI e), w')
      | Accepted \<Rightarrow> (case sel w k of
            None \<Rightarrow> (Inl (ErrAPI (NotFound ''not found'')), w')
          | Some x \<Rightarrow> (Inr (f x), upd (\<lambda>m. m(k := Some (f x))) w'))
      | AnswerLost e \<Rightarrow> (case sel w k of
            None \<Rightarrow> (Inl (ErrAPI e), w')
          | Some x \<Rightarrow> (Inl (ErrAPI e), upd (\<lambda>m. m(k := Some (f x))) w'))))"

definition cr_create ::
  "(world \<Rightarrow> 'k \<Rightarrow> 'o option) \<Rightarrow> ((('k \<Rightarrow> 'o option) \<Rightarrow> ('k \<Rightarrow> 'o option)) \<Rightarrow> world \<Rightarrow> world) \<Rightarrow>
   ('o \<Rightarrow> 'o) \<Rightarrow> env \<Rightarrow> 'k \<Rightarrow> 'o \<Rightarrow> (world, goerr + 'o) state" where
  "cr_create sel upd admit E k x = State (\<lambda>w.
     let w' = w\<lparr>w_tick := Suc (w_tick w)\<rparr> in
     (case e_fate E (w_tick w) of
        Refused e \<Rightarrow> (Inl (ErrAPI e), w')
      | Accepted \<Rightarrow> (case sel w k of
            None \<Rightarrow> (Inr (admit x), upd (\<lambda>m. m(k := Some (admit x))) w')
          | Some _ \<Rightarrow> (Inl (ErrAPI (OtherStatus ''already exists'')), w'))
      | AnswerLost e \<Rightarrow> (case sel w k of
            None \<Rightarrow> (Inl (ErrAPI e), upd (\<lambda>m. m(k := Some (admit x))) w')
          | Some _ \<Rightarrow> (Inl (ErrAPI e), w'))))"

definition cr_delete ::
  "(world \<Rightarrow> 'k \<Rightarrow> 'o option) \<Rightarrow> ((('k \<Rightarrow> 'o option) \<Rightarrow> ('k \<Rightarrow> 'o option)) \<Rightarrow> world \<Rightarrow> world) \<Rightarrow>
   env \<Rightarrow> 'k \<Rightarrow> (world, goerr option) state" where
  "cr_delete sel upd E k = State (\<lambda>w.
     let w' = w\<lparr>w_tick := Suc (w_tick w)\<rparr> in
     (case e_fate E (w_tick w) of
        Refused e \<Rightarrow> (Some (ErrAPI e), w')
      | Accepted \<Rightarrow> (case sel w k of
            None \<Rightarrow> (Some (ErrAPI (NotFound ''not found'')), w')
          | Some _ \<Rightarrow> (None, upd (\<lambda>m. m(k := None)) w'))
      | AnswerLost e \<Rightarrow> (Some (ErrAPI e), upd (\<lambda>m. m(k := None)) w')))"

subsection \<open>The contract of one kind of custom resource\<close>

text \<open>
  What the controllers rely on: reading a kind after writing it gives what was written, and
  neither the call counter nor the trace is touched by a write. Everything the clients need
  follows: a request touches one object only; a successful write is the stored object; a
  failed write leaves the object as it was or as the lost answer wrote it.
\<close>

locale cr_kind =
  fixes sel :: "world \<Rightarrow> 'k \<Rightarrow> 'o option"
    and upd :: "(('k \<Rightarrow> 'o option) \<Rightarrow> ('k \<Rightarrow> 'o option)) \<Rightarrow> world \<Rightarrow> world"
  assumes sel_upd: "sel (upd f w) = f (sel w)"
    and sel_tick: "sel (w\<lparr>w_tick := n\<rparr>) = sel w"
    and sel_trace: "sel (w\<lparr>w_trace := t\<rparr>) = sel w"
    and tick_upd: "w_tick (upd f w) = w_tick w"
    and trace_upd: "w_trace (upd f w) = w_trace w"
begin

lemma get_result:
  assumes "run_state (cr_get sel E k) w = (Inr x, w')"
  shows "sel w k = Some x" "sel w' = sel w" "w_trace w' = w_trace w"
  using assms by (auto simp: cr_get_def sel_tick split: fate.splits option.splits)

lemma get_keeps_sel: "sel (snd (run_state (cr_get sel E k) w)) = sel w"
  by (simp add: cr_get_def sel_tick)

lemma modify_ok:
  assumes "run_state (cr_modify sel upd E k f) w = (Inr y, w')"
  shows "\<exists>x. sel w k = Some x \<and> y = f x \<and> sel w' = (sel w)(k := Some y)"
  using assms
  by (auto simp: cr_modify_def Let_def sel_upd sel_tick split: fate.splits option.splits)

lemma modify_failed:
  assumes "run_state (cr_modify sel upd E k f) w = (Inl e, w')"
  shows "sel w' = sel w \<or> (\<exists>x. sel w k = Some x \<and> sel w' = (sel w)(k := Some (f x)))"
  using assms
  by (auto simp: cr_modify_def Let_def sel_upd sel_tick split: fate.splits option.splits)

lemma modify_refused:
  assumes "e_fate E (w_tick w) = Refused e"
  shows "run_state (cr_modify sel upd E k f) w = (Inl (ErrAPI e), w\<lparr>w_tick := Suc (w_tick w)\<rparr>)"
  using assms by (simp add: cr_modify_def)

lemma modify_accepted:
  assumes "e_fate E (w_tick w) = Accepted" and "sel w k = Some x"
  shows "run_state (cr_modify sel upd E k f) w =
    (Inr (f x), upd (\<lambda>m. m(k := Some (f x))) (w\<lparr>w_tick := Suc (w_tick w)\<rparr>))"
  using assms by (simp add: cr_modify_def)

lemma modify_other:
  assumes "k' \<noteq> k"
  shows "sel (snd (run_state (cr_modify sel upd E k f) w)) k' = sel w k'"
  using assms
  by (auto simp: cr_modify_def Let_def sel_upd sel_tick split: fate.splits option.splits)

lemma modify_dom: "dom (sel (snd (run_state (cr_modify sel upd E k f) w))) = dom (sel w)"
  by (auto simp: cr_modify_def Let_def sel_upd sel_tick split: fate.splits option.splits if_splits)

lemma modify_trace: "w_trace (snd (run_state (cr_modify sel upd E k f) w)) = w_trace w"
  by (auto simp: cr_modify_def Let_def trace_upd split: fate.splits option.splits)

lemma modify_tick: "w_tick (snd (run_state (cr_modify sel upd E k f) w)) = Suc (w_tick w)"
  by (auto simp: cr_modify_def Let_def tick_upd split: fate.splits option.splits)

lemma create_ok:
  assumes "run_state (cr_create sel upd admit E k x) w = (Inr y, w')"
  shows "sel w k = None \<and> y = admit x \<and> sel w' = (sel w)(k := Some y)"
  using assms
  by (auto simp: cr_create_def Let_def sel_upd sel_tick split: fate.splits option.splits)

lemma create_keeps_others:
  assumes "sel w k' = Some y"
  shows "sel (snd (run_state (cr_create sel upd admit E k x) w)) k' = Some y"
  using assms
  by (auto simp: cr_create_def Let_def sel_upd sel_tick split: fate.splits option.splits)

lemma delete_ok:
  assumes "run_state (cr_delete sel upd E k) w = (None, w')"
  shows "sel w' = (sel w)(k := None)"
  using assms
  by (auto simp: cr_delete_def Let_def sel_upd sel_tick split: fate.splits option.splits)

lemma delete_other:
  assumes "k' \<noteq> k"
  shows "sel (snd (run_state (cr_delete sel upd E k) w)) k' = sel w k'"
  using assms
  by (auto simp: cr_delete_def Let_def sel_upd sel_tick split: fate.splits option.splits)

text \<open>
  A change of one object that keeps \<open>I\<close> of the object, keeps \<open>I\<close> of every object of the
  kind.
\<close>

lemma keeps_modify_all:
  assumes "\<And>x. I k x \<Longrightarrow> I k (f x)"
  shows "keeps (\<lambda>w. \<forall>k x. sel w k = Some x \<longrightarrow> I k x) (cr_modify sel upd E k f)"
  using assms
  by (auto simp: triple_def cr_modify_def Let_def sel_upd sel_tick split: fate.splits option.splits if_splits)

end

interpretation uploads: cr_kind w_uploads w_uploads_update
  by unfold_locales simp_all

interpretation downloads: cr_kind w_downloads w_downloads_update
  by unfold_locales simp_all

interpretation snapshots: cr_kind w_snapshots w_snapshots_update
  by unfold_locales simp_all

interpretation svc_snapshots: cr_kind w_svc_snapshots w_svc_snapshots_update
  by unfold_locales simp_all

interpretation clones: cr_kind w_clones w_clones_update
  by unfold_locales simp_all

interpretation deletes: cr_kind w_deletes w_deletes_update
  by unfold_locales simp_all

interpretation brs: cr_kind w_brs w_brs_update
  by unfold_locales simp_all

interpretation brcs: cr_kind w_brcs w_brcs_update
  by unfold_locales simp_all

interpretation svc_brcs: cr_kind w_svc_brcs w_svc_brcs_update
  by unfold_locales simp_all

interpretation config_maps: cr_kind w_config_maps w_config_maps_update
  by unfold_locales simp_all

subsection \<open>Actions that leave a kind alone\<close>

text \<open>
  A predicate on the world that only looks at fields the primitive actions do not write is
  kept by them. \<open>frame\<close> collects these facts for the frame proofs of the components.
\<close>

named_theorems frame

lemma keeps_next_call [frame]: "(\<And>w n. I w \<Longrightarrow> I (w\<lparr>w_tick := n\<rparr>)) \<Longrightarrow> keeps I next_call"
  by (simp add: triple_def)

lemma keeps_emit [frame]:
  "(\<And>w. I w \<Longrightarrow> I (w\<lparr>w_trace := w_trace w @ [ev]\<rparr>)) \<Longrightarrow> keeps I (emit ev)"
  by (simp add: triple_def)

lemma keeps_ask [frame]: "(\<And>w n. I w \<Longrightarrow> I (w\<lparr>w_tick := n\<rparr>)) \<Longrightarrow> keeps I (ask f)"
  by (simp add: triple_def)

lemma keeps_connect [frame]: "(\<And>w n. I w \<Longrightarrow> I (w\<lparr>w_tick := n\<rparr>)) \<Longrightarrow> keeps I (connect f g E)"
  unfolding connect_def by (intro keeps_rules keeps_ask) auto

lemma keeps_clock_now [frame]: "(\<And>w n. I w \<Longrightarrow> I (w\<lparr>w_tick := n\<rparr>)) \<Longrightarrow> keeps I (clock_now E)"
  by (simp add: clock_now_def keeps_ask)

lemma keeps_cr_get [frame]:
  "(\<And>w n. I w \<Longrightarrow> I (w\<lparr>w_tick := n\<rparr>)) \<Longrightarrow> keeps I (cr_get sel E k)"
  by (simp add: triple_def cr_get_def)

lemma keeps_cr_modify:
  assumes "\<And>w n. I w \<Longrightarrow> I (w\<lparr>w_tick := n\<rparr>)"
    and "\<And>w x. I w \<Longrightarrow> sel w k = Some x \<Longrightarrow> I (upd (\<lambda>m. m(k := Some (f x))) (w\<lparr>w_tick := Suc (w_tick w)\<rparr>))"
  shows "keeps I (cr_modify sel upd E k f)"
  using assms by (auto simp: triple_def cr_modify_def Let_def split: fate.splits option.splits)

section \<open>A concrete environment\<close>

text \<open>
  An environment in which every call succeeds, for evaluating the definitions on concrete
  inputs. Identifiers are written \<open>type|id|snapshot\<close>.
\<close>

definition calm_parse :: "string \<Rightarrow> goerr + peid" where
  "calm_parse s = (case split_on (CHR ''|'') s of
      [t, i, n] \<Rightarrow> Inr \<lparr>pe_type = t, pe_id = i, pe_snapshot = n\<rparr>
    | _ \<Rightarrow> Inl (ErrMsg ''bad id''))"

definition calm_print :: "peid \<Rightarrow> string" where
  "calm_print p = pe_type p @ ''|'' @ pe_id p @ ''|'' @ pe_snapshot p"

definition calm_bsl :: bsl where
  "calm_bsl = \<lparr>bsl_Provider = ''aws'', bsl_Config = [''region'' \<mapsto> ''us-east-1''],
     bsl_ObjectStorage = Some (''bucket'', None)\<rparr>"

definition calm :: env where
  "calm = \<lparr>
     e_now = (\<lambda>n. (1000 + int n) * nanos_per_second),
     e_fate = (\<lambda>n. Accepted),
     e_polls = (\<lambda>n. Suc (Suc 0)),
     e_uuid = (\<lambda>n. Inr ''11111111-2222-3333-4444-555555555555''),
     e_client = (\<lambda>n. None),
     e_velero_ns = Some ''velero'',
     e_config_map = (\<lambda>n k. Inr Map.empty),
     e_deployment = (\<lambda>n k. Inl (ErrAPI (NotFound ''deployment''))),
     e_statefulset = (\<lambda>n k. Inl (ErrAPI (NotFound ''statefulset''))),
     e_compare_version = (\<lambda>a b. Some 0),
     e_secret = (\<lambda>n k. Inr []),
     e_gcfg = (\<lambda>s. Inl (ErrMsg ''no configuration'')),
     e_has_petm = (\<lambda>t. True),
     e_watch_download = (\<lambda>n. Inl (ErrMsg ''no download'')),
     e_pvc_type = ''pvc'',
     e_ivd_type = ''ivd'',
     e_parse_peid = calm_parse,
     e_print_peid = calm_print,
     e_has_snapshot = (\<lambda>p. pe_snapshot p \<noteq> ''''),
     e_namespaced_id = (\<lambda>kind name ns. \<lparr>pe_type = ''pvc'', pe_id = ns @ ''/'' @ name, pe_snapshot = ''''\<rparr>),
     e_get_pe = (\<lambda>n m p. None),
     e_copy = (\<lambda>n m p. Inr p),
     e_overwrite = (\<lambda>n p q. None),
     e_take_snapshot = (\<lambda>n p. Inr (''snap-1'', None)),
     e_list_snapshots = (\<lambda>n m p. Inr [pe_snapshot p]),
     e_delete_snapshot = (\<lambda>n m p s. Inr True),
     e_components = (\<lambda>n p. Inr []),
     e_metadata = (\<lambda>n p. Inr (Inr ''metadata'')),
     e_create_from_metadata = (\<lambda>n m b p. Inr p),
     e_pvc_metadata = (\<lambda>s. Inl (ErrMsg ''no metadata'')),
     e_new_s3 = (\<lambda>n c. None),
     e_s3_session = (\<lambda>n. None),
     e_bsl_get = (\<lambda>n k. Inr calm_bsl),
     e_bsl_list = (\<lambda>n ns. Inr [calm_bsl]),
     e_lease = (\<lambda>n. LeaseAcquired),
     e_pvs = (\<lambda>n. Inr []),
     e_pods = (\<lambda>n ns. Inr []),
     e_upload_cache = (\<lambda>n k. Inl (ErrAPI (NotFound ''upload''))),
     e_download_cache = (\<lambda>n k. Inl (ErrAPI (NotFound ''download''))),
     e_brc_cache = (\<lambda>n k. Inl (ErrAPI (NotFound ''claim''))),
     e_uid = (\<lambda>k. ''uid-'' @ snd k),
     e_brc_list = (\<lambda>n svc ns. Inr []),
     e_brc_event = (\<lambda>n svc. None)\<rparr>"

text \<open>Its answers, as rewrite rules, so that evaluation does not unfold the environment.\<close>

lemma calm_answers [simp]:
  "e_now calm = (\<lambda>n. (1000 + int n) * nanos_per_second)"
  "e_fate calm = (\<lambda>n. Accepted)"
  "e_polls calm = (\<lambda>n. Suc (Suc 0))"
  "e_uuid calm = (\<lambda>n. Inr ''11111111-2222-3333-4444-555555555555'')"
  "e_client calm = (\<lambda>n. None)"
  "e_velero_ns calm = Some ''velero''"
  "e_config_map calm = (\<lambda>n k. Inr Map.empty)"
  "e_deployment calm = (\<lambda>n k. Inl (ErrAPI (NotFound ''deployment'')))"
  "e_statefulset calm = (\<lambda>n k. Inl (ErrAPI (NotFound ''statefulset'')))"
  "e_compare_version calm = (\<lambda>a b. Some 0)"
  "e_secret calm = (\<lambda>n k. Inr [])"
  "e_gcfg calm = (\<lambda>s. Inl (ErrMsg ''no configuration''))"
  "e_has_petm calm = (\<lambda>t. True)"
  "e_watch_download calm = (\<lambda>n. Inl (ErrMsg ''no download''))"
  "e_pvc_type calm = ''pvc''"
  "e_ivd_type calm = ''ivd''"
  "e_parse_peid calm = calm_parse"
  "e_print_peid calm = calm_print"
  "e_has_snapshot calm = (\<lambda>p. pe_snapshot p \<noteq> '''')"
  "e_namespaced_id calm = (\<lambda>kind name ns. \<lparr>pe_type = ''pvc'', pe_id = ns @ ''/'' @ name, pe_snapshot = ''''\<rparr>)"
  "e_get_pe calm = (\<lambda>n m p. None)"
  "e_copy calm = (\<lambda>n m p. Inr p)"
  "e_overwrite calm = (\<lambda>n p q. None)"
  "e_take_snapshot calm = (\<lambda>n p. Inr (''snap-1'', None))"
  "e_list_snapshots calm = (\<lambda>n m p. Inr [pe_snapshot p])"
  "e_delete_snapshot calm = (\<lambda>n m p s. Inr True)"
  "e_components calm = (\<lambda>n p. Inr [])"
  "e_metadata calm = (\<lambda>n p. Inr (Inr ''metadata''))"
  "e_create_from_metadata calm = (\<lambda>n m b p. Inr p)"
  "e_pvc_metadata calm = (\<lambda>s. Inl (ErrMsg ''no metadata''))"
  "e_new_s3 calm = (\<lambda>n c. None)"
  "e_s3_session calm = (\<lambda>n. None)"
  "e_bsl_get calm = (\<lambda>n k. Inr calm_bsl)"
  "e_bsl_list calm = (\<lambda>n ns. Inr [calm_bsl])"
  "e_lease calm = (\<lambda>n. LeaseAcquired)"
  "e_pvs calm = (\<lambda>n. Inr [])"
  "e_pods calm = (\<lambda>n ns. Inr [])"
  "e_upload_cache calm = (\<lambda>n k. Inl (ErrAPI (NotFound ''upload'')))"
  "e_download_cache calm = (\<lambda>n k. Inl (ErrAPI (NotFound ''download'')))"
  "e_brc_cache calm = (\<lambda>n k. Inl (ErrAPI (NotFound ''claim'')))"
  "e_uid calm = (\<lambda>k. ''uid-'' @ snd k)"
  "e_brc_list calm = (\<lambda>n svc ns. Inr [])"
  "e_brc_event calm = (\<lambda>n svc. None)"
  by (simp_all add: calm_def)

text \<open>An empty cluster.\<close>

definition empty_world :: world where
  "empty_world = \<lparr>w_tick = 0, w_trace = [], w_uploads = Map.empty, w_downloads = Map.empty,
     w_snapshots = Map.empty, w_svc_snapshots = Map.empty, w_clones = Map.empty, w_deletes = Map.empty,
     w_brs = Map.empty, w_brcs = Map.empty, w_svc_brcs = Map.empty, w_ongoing = Map.empty, w_svcSnapshotMap = Map.empty,
     w_config_maps = Map.empty\<rparr>"

definition sample_upload :: "UploadPhase \<Rightarrow> int32 \<Rightarrow> Upload" where
  "sample_upload ph retries = \<lparr>
     u_Meta = \<lparr>om_Namespace = ''velero'', om_Name = ''upload-s'', om_UID = '''', om_Labels = Map.empty,
       om_DeletionTimestamp = None\<rparr>,
     u_Spec = \<lparr>us_SnapshotID = ''ivd|v|s'', us_BackupTimestamp = None, us_UploadCancel = False,
       us_BackupRepositoryName = '''', us_SnapshotReference = ''''\<rparr>,
     u_Status = \<lparr>ut_Phase = ph, ut_Message = '''', ut_StartTimestamp = None, ut_CompletionTimestamp = None,
       ut_Progress = \<lparr>up_TotalBytes = 0, up_BytesDone = 0\<rparr>, ut_ProcessingNode = '''',
       ut_RetryCount = retries, ut_NextRetryTimestamp = Some 0, ut_CurrentBackOff = 0\<rparr>\<rparr>"

definition sample_key :: key where
  "sample_key = (''velero'', ''upload-s'')"

definition sample_world :: "UploadPhase \<Rightarrow> int32 \<Rightarrow> world" where
  "sample_world ph retries = empty_world\<lparr>w_uploads := [sample_key \<mapsto> sample_upload ph retries]\<rparr>"

lemmas cluster_evals [evals] =
  Let_def
  cr_get_def cr_modify_def cr_create_def cr_delete_def connect_def clock_now_def
  empty_world_def sample_world_def sample_upload_def sample_key_def calm_parse_def calm_print_def calm_bsl_def

end
