(* ===== verification/S3_Repository.thy ===== *)
theory S3_Repository
  imports Cluster
begin

text \<open>
  Where a snapshot is copied to: the settings of an S3 repository, read either from Velero's
  backup storage locations (\<^verbatim>\<open>pkg/utils/utils.go\<close>) or from a BackupRepository resource
  (\<^verbatim>\<open>pkg/backuprepository/backup_repository.go\<close>), and the construction of the repository
  manager from them. Building the AWS session and the manager itself is third-party code
  (\<open>e_s3_session\<close>, \<open>e_new_s3\<close>).
\<close>

section \<open>Parameter maps\<close>

text \<open>A value of a Go \<^verbatim>\<open>map[string]interface{}\<close>: a string, a
  \<^verbatim>\<open>map[string]string\<close> (the disk library's settings), or something else.\<close>

datatype pval = PStr string | PMap "string \<rightharpoonup> string" | PNonStr

type_synonym params = "string \<rightharpoonup> pval"

definition GetStringFromParamsMap :: "params \<Rightarrow> string \<Rightarrow> string \<times> bool" where
  "GetStringFromParamsMap ps k =
     (case ps k of
        Some v \<Rightarrow> (case v of PStr s \<Rightarrow> (s, True) | _ \<Rightarrow> ('''', False))
      | None \<Rightarrow> ('''', False))"

text \<open>\<^verbatim>\<open>strconv.ParseBool\<close>.\<close>

definition parse_bool :: "string \<Rightarrow> bool option" where
  "parse_bool s =
     (if s \<in> set [''1'', ''t'', ''T'', ''TRUE'', ''true'', ''True''] then Some True
      else if s \<in> set [''0'', ''f'', ''F'', ''FALSE'', ''false'', ''False''] then Some False
      else None)"

definition GetBool :: "string \<Rightarrow> bool \<Rightarrow> bool" where
  "GetBool str defValue =
     (if str = '''' then defValue
      else (case parse_bool str of Some b \<Rightarrow> b | None \<Rightarrow> defValue))"

section \<open>Reading a backup storage location\<close>

definition bsl_config :: "bsl \<Rightarrow> string \<Rightarrow> string" where
  "bsl_config b k = (case bsl_Config b k of None \<Rightarrow> '''' | Some v \<Rightarrow> v)"

text \<open>
  The loop over the listed locations assigns the item to \<open>backupStorageLocation\<close> before it
  looks at provider and region, and never leaves the loop early: \<open>chosen\<close> is overwritten by
  every item.
\<close>

fun pick_bsl :: "bsl option \<Rightarrow> bsl list \<Rightarrow> bsl option" where
  "pick_bsl chosen [] = chosen"
| "pick_bsl chosen (item # items) = pick_bsl (Some item) items"

definition bsl_params :: "bsl \<Rightarrow> params \<Rightarrow> goerr + params" where
  "bsl_params b ps =
     (case bsl_ObjectStorage b of
        None \<Rightarrow> Inl (GoPanic ''nil ObjectStorage'')
      | Some (bucket, caCert) \<Rightarrow>
          (let ps' = ps(''region'' \<mapsto> PStr (bsl_config b ''region''),
                        ''bucket'' \<mapsto> PStr bucket,
                        ''s3ForcePathStyle'' \<mapsto> PStr (bsl_config b ''s3ForcePathStyle''),
                        ''s3Url'' \<mapsto> PStr (bsl_config b ''s3Url''),
                        ''profile'' \<mapsto> PStr (bsl_config b ''profile''))
           in Inr (case caCert of None \<Rightarrow> ps' | Some c \<Rightarrow> ps'(''caCert'' \<mapsto> PStr c))))"

text \<open>
  \<open>configGiven\<close>: the caller passes a configuration, so none has to be loaded.
  Without \<^verbatim>\<open>VELERO_NAMESPACE\<close> the function returns the \<open>err\<close> of the client
  construction, which is nil at that point; likewise the (nil) error of a list call that
  found nothing.
\<close>

definition RetrieveVSLFromVeleroBSLs :: "env \<Rightarrow> bool \<Rightarrow> params \<Rightarrow> string \<Rightarrow> (world, goerr + params) state" where
  "RetrieveVSLFromVeleroBSLs E configGiven ps bslName = do {
     cl \<leftarrow> (if configGiven then ask (e_client E)
           else connect (ErrWrap ''Could not retrieve in-cluster config'') id E);
     (case cl of
        Some e \<Rightarrow> State_Monad.return (Inl e)
      | None \<Rightarrow>
     (case e_velero_ns E of
        None \<Rightarrow> State_Monad.return (Inr ps)
      | Some veleroNs \<Rightarrow> do {
          got \<leftarrow> ask (\<lambda>n. e_bsl_get E n (veleroNs, bslName));
          (case got of
             Inr b \<Rightarrow> State_Monad.return (bsl_params b ps)
           | Inl _ \<Rightarrow> do {
               listed \<leftarrow> ask (\<lambda>n. e_bsl_list E n veleroNs);
               State_Monad.return (case listed of
                   Inl e \<Rightarrow> Inl e
                 | Inr items \<Rightarrow>
                     (case pick_bsl None items of
                        None \<Rightarrow> Inr ps
                      | Some b \<Rightarrow> bsl_params b ps))
             })
        }))
   }"

section \<open>Building the repository manager\<close>

definition GetS3SessionOptionsFromParamsMap ::
  "params \<Rightarrow> goerr + (string \<times> (string \<times> string) option \<times> string option)" where
  "GetS3SessionOptionsFromParamsMap ps =
     (let region = fst (GetStringFromParamsMap ps ''region'');
          (cert, certOk) = GetStringFromParamsMap ps ''caCert'';
          bundle = (if certOk \<and> 0 < length cert then Some cert else None)
      in case ps ''aws_access_key_id'' of
           None \<Rightarrow> Inr (region, None, bundle)
         | Some _ \<Rightarrow>
             (case GetStringFromParamsMap ps ''aws_access_key_id'' of (keyId, ok) \<Rightarrow>
               if \<not> ok then Inl (ErrMsg ''Failed to retrieve S3 Access Key.'')
               else (case GetStringFromParamsMap ps ''aws_secret_access_key'' of (secret, ok) \<Rightarrow>
                 if \<not> ok then Inl (ErrMsg ''Failed to retrieve S3 Secret Access Key.'')
                 else Inr (region, Some (keyId, secret), bundle))))"

definition DefaultS3RepoPrefix :: string where
  "DefaultS3RepoPrefix = ''plugins/vsphere-astrolabe-repo''"

definition GetS3PETMFromParamsMap :: "env \<Rightarrow> params \<Rightarrow> (world, goerr + s3_settings) state" where
  "GetS3PETMFromParamsMap E ps =
     (case GetStringFromParamsMap ps ''region'' of (region, ok) \<Rightarrow>
      if \<not> ok then State_Monad.return (Inl (ErrMsg ''Missing region param, cannot initialize S3 PETM''))
      else (case GetStringFromParamsMap ps ''bucket'' of (bucket, ok) \<Rightarrow>
      if \<not> ok then State_Monad.return (Inl (ErrMsg ''Missing bucket param, cannot initialize S3 PETM''))
      else (case GetS3SessionOptionsFromParamsMap ps of
        Inl e \<Rightarrow> State_Monad.return (Inl e)
      | Inr (_, creds, bundle) \<Rightarrow> do {
          sess \<leftarrow> ask (e_s3_session E);
          (case sess of
             Some e \<Rightarrow> State_Monad.return (Inl (GoPanic (error_string e)))
           | None \<Rightarrow>
             let (s3Url, hasUrl) = GetStringFromParamsMap ps ''s3Url'';
                 (pathStyle, hasStyle) = GetStringFromParamsMap ps ''s3ForcePathStyle'';
                 prefix = (case ps ''prefix'' of Some (PStr p) \<Rightarrow> p | _ \<Rightarrow> DefaultS3RepoPrefix);
                 cfg = \<lparr>s3_region = region, s3_bucket = bucket, s3_prefix = prefix,
                        s3_endpoint = (if hasUrl then Some s3Url else None),
                        s3_path_style = (if hasStyle then Some (GetBool pathStyle False) else None),
                        s3_credentials = creds, s3_ca_bundle = bundle\<rparr>
             in do {
               r \<leftarrow> ask (\<lambda>n. e_new_s3 E n cfg);
               State_Monad.return (case r of Some e \<Rightarrow> Inl e | None \<Rightarrow> Inr cfg)
             })
        })))"

definition DefaultS3BackupLocation :: string where
  "DefaultS3BackupLocation = ''default''"

definition GetDefaultS3PETM :: "env \<Rightarrow> (world, goerr + s3_settings) state" where
  "GetDefaultS3PETM E = do {
     r \<leftarrow> RetrieveVSLFromVeleroBSLs E False Map.empty DefaultS3BackupLocation;
     (case r of
        Inl e \<Rightarrow> State_Monad.return (Inl e)
      | Inr ps \<Rightarrow> GetS3PETMFromParamsMap E ps)
   }"

definition S3RepositoryDriver :: string where
  "S3RepositoryDriver = ''s3repository.astrolabe.vmware-tanzu.com''"

definition GetRepositoryFromBackupRepository ::
  "env \<Rightarrow> BackupRepository \<Rightarrow> (world, goerr + s3_settings) state" where
  "GetRepositoryFromBackupRepository E br =
     (if br_RepositoryDriver br = S3RepositoryDriver then
        GetS3PETMFromParamsMap E (\<lambda>k. map_option PStr (br_RepositoryParameters br k))
      else State_Monad.return (Inl (ErrMsg (''Unsupported backuprepository driver type: '' @
        br_RepositoryDriver br @ ''. Only support '' @ S3RepositoryDriver @ ''.''))))"

definition GetBackupRepositoryFromBackupRepositoryName ::
  "env \<Rightarrow> string \<Rightarrow> (world, goerr + BackupRepository) state" where
  "GetBackupRepositoryFromBackupRepositoryName E brName = do {
     cl \<leftarrow> connect (ErrWrap ''Failed to get k8s client config'')
            (ErrWrap ''Failed to get k8s clientset from the given config'') E;
     (case cl of
        Some e \<Rightarrow> State_Monad.return (Inl e)
      | None \<Rightarrow> do {
          r \<leftarrow> cr_get w_brs E ('''', brName);
          State_Monad.return (case r of
              Inl e \<Rightarrow> Inl (ErrWrap (''Error while retrieving the backup repository CR '' @ brName) e)
            | Inr br \<Rightarrow> Inr br)
        })
   }"

section \<open>Lemmas\<close>

lemma pick_bsl_last: "pick_bsl chosen items = (if items = [] then chosen else Some (last items))"
  by (induction items arbitrary: chosen) auto

lemma GetBool_default: "parse_bool s = None \<Longrightarrow> GetBool s d = d"
  by (simp add: GetBool_def)

lemma GetBool_parsed: "parse_bool s = Some b \<Longrightarrow> GetBool s d = b"
  by (auto simp: GetBool_def parse_bool_def split: if_splits)

lemma bsl_params_strings:
  "bsl_params b ps = Inr ps' \<Longrightarrow> \<exists>r bu. ps' ''region'' = Some (PStr r) \<and> ps' ''bucket'' = Some (PStr bu)"
  by (auto simp: bsl_params_def Let_def split: option.splits)

text \<open>The construction of the manager only asks the environment: no resource is touched.\<close>

lemma keeps_GetS3PETMFromParamsMap [frame]:
  assumes "\<And>w n. I w \<Longrightarrow> I (w\<lparr>w_tick := n\<rparr>)"
  shows "keeps I (GetS3PETMFromParamsMap E ps)"
  unfolding GetS3PETMFromParamsMap_def by (intro keeps_rules frame) (use assms in auto)

lemma keeps_RetrieveVSLFromVeleroBSLs [frame]:
  assumes "\<And>w n. I w \<Longrightarrow> I (w\<lparr>w_tick := n\<rparr>)"
  shows "keeps I (RetrieveVSLFromVeleroBSLs E g ps bslName)"
  unfolding RetrieveVSLFromVeleroBSLs_def by (intro keeps_rules frame) (use assms in auto)

lemma keeps_GetDefaultS3PETM [frame]:
  assumes "\<And>w n. I w \<Longrightarrow> I (w\<lparr>w_tick := n\<rparr>)"
  shows "keeps I (GetDefaultS3PETM E)"
  unfolding GetDefaultS3PETM_def by (intro keeps_rules frame) (use assms in auto)

lemma keeps_GetRepositoryFromBackupRepository [frame]:
  assumes "\<And>w n. I w \<Longrightarrow> I (w\<lparr>w_tick := n\<rparr>)"
  shows "keeps I (GetRepositoryFromBackupRepository E br)"
  unfolding GetRepositoryFromBackupRepository_def by (intro keeps_rules frame) (use assms in auto)

lemma keeps_GetBackupRepositoryFromBackupRepositoryName [frame]:
  assumes "\<And>w n. I w \<Longrightarrow> I (w\<lparr>w_tick := n\<rparr>)"
  shows "keeps I (GetBackupRepositoryFromBackupRepositoryName E brName)"
  unfolding GetBackupRepositoryFromBackupRepositoryName_def by (intro keeps_rules frame) (use assms in auto)

lemmas s3_evals [evals] =
  GetStringFromParamsMap_def GetBool_def bsl_config_def bsl_params_def RetrieveVSLFromVeleroBSLs_def
  GetS3SessionOptionsFromParamsMap_def GetS3PETMFromParamsMap_def GetDefaultS3PETM_def
  GetRepositoryFromBackupRepository_def GetBackupRepositoryFromBackupRepositoryName_def

end
