(* ===== verification/Cluster_Config.thy ===== *)
theory Cluster_Config
  imports S3_Repository
begin

text \<open>
  How the plugin finds out about the cluster it runs in (\<^verbatim>\<open>pkg/utils/utils.go\<close>): the
  cluster flavor, the CSI driver's version, feature flags, the retry maximum of uploads, the
  vCenter secret, and the node on which a volume is in use. Comparing versions
  (hashicorp/go-version) and parsing the vCenter configuration (gcfg) are parameters.
\<close>

section \<open>Names\<close>

definition DefaultVeleroNamespace :: string where "DefaultVeleroNamespace = ''velero''"
definition VeleroVSpherePluginConfig :: string where
  "VeleroVSpherePluginConfig = ''velero-vsphere-plugin-config''"
definition VSpherePluginFeatureStates :: string where
  "VSpherePluginFeatureStates = ''velero-vsphere-plugin-feature-states''"
definition VSphereCSIController :: string where "VSphereCSIController = ''vsphere-csi-controller''"
definition VSphereCSIControllerNamespace :: string where
  "VSphereCSIControllerNamespace = ''vmware-system-csi''"
definition KubeSystemNamespace :: string where "KubeSystemNamespace = ''kube-system''"
definition DefaultSecretNamespace :: string where "DefaultSecretNamespace = ''velero''"
definition DefaultSecretName :: string where "DefaultSecretName = ''velero-vsphere-config-secret''"
definition VCSecret :: string where "VCSecret = ''vsphere-config-secret''"
definition VCSecretTKG :: string where "VCSecretTKG = ''csi-vsphere-config''"
definition DecoupleVSphereCSIDriverFlag :: string where
  "DecoupleVSphereCSIDriverFlag = ''decouple-vsphere-csi-driver''"
definition VSphereLocalModeFlag :: string where "VSphereLocalModeFlag = ''local-mode''"
definition CsiDevVersion :: string where "CsiDevVersion = ''v0.0.0''"
definition CsiMinVersion :: string where "CsiMinVersion = ''v1.0.2''"
definition Csi2_3_0_Version :: string where "Csi2_3_0_Version = ''v2.3.0''"
definition Csi2_0_0_Version :: string where "Csi2_0_0_Version = ''v2.0.0''"

definition velero_namespace :: "env \<Rightarrow> string" where
  "velero_namespace E = (case e_velero_ns E of None \<Rightarrow> DefaultVeleroNamespace | Some ns \<Rightarrow> ns)"

section \<open>Feature flags and the retry maximum\<close>

definition IsFeatureEnabled :: "env \<Rightarrow> string \<Rightarrow> bool \<Rightarrow> (world, bool) state" where
  "IsFeatureEnabled E feature defValue =
     (if feature = '''' then State_Monad.return defValue
      else do {
        cm \<leftarrow> ask (\<lambda>n. e_config_map E n (velero_namespace E, VSpherePluginFeatureStates));
        State_Monad.return (case cm of
            Inl _ \<Rightarrow> defValue
          | Inr data \<Rightarrow>
              (case parse_bool (case data feature of None \<Rightarrow> '''' | Some v \<Rightarrow> v) of
                 None \<Rightarrow> defValue
               | Some b \<Rightarrow> b))
      })"

definition GetUploadCRRetryMaximumFromConfig :: "env \<Rightarrow> string \<Rightarrow> string \<Rightarrow> (world, int) state" where
  "GetUploadCRRetryMaximumFromConfig E veleroNs configName = do {
     cm \<leftarrow> ask (\<lambda>n. e_config_map E n (veleroNs, configName));
     State_Monad.return (case cm of
         Inl _ \<Rightarrow> DefaultUploadCRRetryMaximum
       | Inr data \<Rightarrow>
           (case data ''upload-cr-retry-max'' of
              None \<Rightarrow> DefaultUploadCRRetryMaximum
            | Some s \<Rightarrow> (case atoi s of None \<Rightarrow> DefaultUploadCRRetryMaximum | Some v \<Rightarrow> v)))
   }"

definition GetUploadCRRetryMaximum :: "env \<Rightarrow> (world, int) state" where
  "GetUploadCRRetryMaximum E = do {
     cl \<leftarrow> connect id id E;
     (case cl of
        Some _ \<Rightarrow> State_Monad.return DefaultUploadCRRetryMaximum
      | None \<Rightarrow> GetUploadCRRetryMaximumFromConfig E (velero_namespace E) VeleroVSpherePluginConfig)
   }"

section \<open>Container images and versions\<close>

definition GetComponentsFromImage :: "string \<Rightarrow> (string \<rightharpoonup> string)" where
  "GetComponentsFromImage img =
     (if img = '''' then Map.empty
      else
        let (components, taggedContainer) = (case cut_last (CHR ''/'') img of
               None \<Rightarrow> (Map.empty, img)
             | Some (repo, rest) \<Rightarrow> ([''Repository'' \<mapsto> repo], rest))
        in (case cut_first (CHR '':'') taggedContainer of
              Some (name, tag) \<Rightarrow> components(''Version'' \<mapsto> tag, ''Container'' \<mapsto> name)
            | None \<Rightarrow> components(''Container'' \<mapsto> taggedContainer)))"

definition GetComponentFromImage :: "string \<Rightarrow> string \<Rightarrow> string" where
  "GetComponentFromImage img component =
     (case GetComponentsFromImage img component of None \<Rightarrow> '''' | Some v \<Rightarrow> v)"

fun first_image :: "container list \<Rightarrow> string \<Rightarrow> string" where
  "first_image [] imageName = ''''"
| "first_image (c # cs) imageName =
     (if contains (ct_Image c) imageName then GetComponentFromImage (ct_Image c) ''Version''
      else first_image cs imageName)"

definition GetVersionFromImage :: "container list \<Rightarrow> string \<Rightarrow> string" where
  "GetVersionFromImage containers imageName =
     (let tag = first_image containers imageName
      in if tag = '''' then ''''
         else if contains tag ''-'' then hd (split_on (CHR ''-'') tag) else tag)"

definition GetCSIVersionFromImage :: "container list \<Rightarrow> goerr + string" where
  "GetCSIVersionFromImage containers =
     (let v = GetVersionFromImage containers ''cloud-provider-vsphere/csi/release/driver'';
          v' = (if v = '''' then
                  (if GetVersionFromImage containers ''cloud-provider-vsphere/csi/ci/driver'' \<noteq> ''''
                   then CsiDevVersion else '''')
                else v)
      in if v' = '''' then Inl (ErrMsg ''Expected CSI driver images not found'') else Inr v')"

definition csi_version_or :: "string \<Rightarrow> container list \<Rightarrow> goerr + string" where
  "csi_version_or devDefault containers =
     (case GetCSIVersionFromImage containers of
        Inl e \<Rightarrow> Inl e
      | Inr v \<Rightarrow> Inr (if v = CsiDevVersion then devDefault else v))"

definition no_csi_controller :: goerr where
  "no_csi_controller = ErrMsg (''vSphere CSI controller, '' @ VSphereCSIController @
     '', is required by velero-plugin-for-vsphere. Please make sure the vSphere CSI controller is installed in the cluster'')"

definition GetCSIInstalledVersion :: "env \<Rightarrow> (world, goerr + string) state" where
  "GetCSIInstalledVersion E = do {
     d1 \<leftarrow> ask (\<lambda>n. e_deployment E n (VSphereCSIControllerNamespace, VSphereCSIController));
     (case d1 of
        Inr cs \<Rightarrow> State_Monad.return (csi_version_or Csi2_3_0_Version cs)
      | Inl _ \<Rightarrow> do {
          d2 \<leftarrow> ask (\<lambda>n. e_deployment E n (KubeSystemNamespace, VSphereCSIController));
          (case d2 of
             Inr cs \<Rightarrow> State_Monad.return (csi_version_or Csi2_0_0_Version cs)
           | Inl _ \<Rightarrow> do {
               d3 \<leftarrow> ask (\<lambda>n. e_statefulset E n (KubeSystemNamespace, VSphereCSIController));
               State_Monad.return (case d3 of
                   Inr cs \<Rightarrow> csi_version_or CsiMinVersion cs
                 | Inl _ \<Rightarrow> Inl no_csi_controller)
             })
        })
   }"

definition CompareVersion :: "env \<Rightarrow> string \<Rightarrow> string \<Rightarrow> int" where
  "CompareVersion E currentVersion minVersion =
     (case e_compare_version E currentVersion minVersion of None \<Rightarrow> -1 | Some c \<Rightarrow> c)"

section \<open>Cluster flavor\<close>

definition ConvertConfigClusterFlavor :: "string \<Rightarrow> ClusterFlavor" where
  "ConvertConfigClusterFlavor flavor =
     (if flavor = ''VANILLA'' then VSphere
      else if flavor = ''GUEST'' then TkgGuest
      else if flavor = ''SUPERVISOR'' then Supervisor
      else Unknown)"

definition GetClusterTypeFromConfig :: "env \<Rightarrow> string \<Rightarrow> string \<Rightarrow> (world, goerr + ClusterFlavor) state" where
  "GetClusterTypeFromConfig E veleroNs configName = do {
     cm \<leftarrow> ask (\<lambda>n. e_config_map E n (veleroNs, configName));
     State_Monad.return (case cm of
         Inl e \<Rightarrow> Inl e
       | Inr data \<Rightarrow> Inr (case data ''cluster_flavor'' of
             Some flavor \<Rightarrow> ConvertConfigClusterFlavor flavor
           | None \<Rightarrow> Unknown))
   }"

fun flavor_of_env :: "(string \<times> string) list \<Rightarrow> ClusterFlavor" where
  "flavor_of_env [] = VSphere"
| "flavor_of_env ((name, val) # vars) =
     (if name = ''CLUSTER_FLAVOR'' then
        (if val = ''WORKLOAD'' then Supervisor
         else if val = ''GUEST_CLUSTER'' then TkgGuest
         else Unknown)
      else flavor_of_env vars)"

fun GetCSIClusterTypeFromEnv :: "container list \<Rightarrow> goerr + ClusterFlavor" where
  "GetCSIClusterTypeFromEnv [] =
     Inl (ErrMsg ''Expected CSI driver container images not found while inferring cluster type.'')"
| "GetCSIClusterTypeFromEnv (c # cs) =
     (if ct_Name c = VSphereCSIController then Inr (flavor_of_env (ct_Env c))
      else GetCSIClusterTypeFromEnv cs)"

definition GetCSIClusterType :: "env \<Rightarrow> (world, goerr + ClusterFlavor) state" where
  "GetCSIClusterType E = do {
     d1 \<leftarrow> ask (\<lambda>n. e_deployment E n (VSphereCSIControllerNamespace, VSphereCSIController));
     (case d1 of
        Inr cs \<Rightarrow> State_Monad.return (GetCSIClusterTypeFromEnv cs)
      | Inl _ \<Rightarrow> do {
          d2 \<leftarrow> ask (\<lambda>n. e_deployment E n (KubeSystemNamespace, VSphereCSIController));
          (case d2 of
             Inr cs \<Rightarrow> State_Monad.return (GetCSIClusterTypeFromEnv cs)
           | Inl _ \<Rightarrow> do {
               d3 \<leftarrow> ask (\<lambda>n. e_statefulset E n (KubeSystemNamespace, VSphereCSIController));
               State_Monad.return (case d3 of
                   Inr cs \<Rightarrow> GetCSIClusterTypeFromEnv cs
                 | Inl _ \<Rightarrow> Inl no_csi_controller)
             })
        })
   }"

definition retrieveClusterFlavor :: "env \<Rightarrow> string \<Rightarrow> (world, ClusterFlavor) state" where
  "retrieveClusterFlavor E veleroNs = do {
     cfg \<leftarrow> GetClusterTypeFromConfig E veleroNs VeleroVSpherePluginConfig;
     flavor \<leftarrow> (case cfg of
        Inr f \<Rightarrow> (if f \<noteq> Unknown then State_Monad.return f
                   else do { r \<leftarrow> GetCSIClusterType E;
                             State_Monad.return (case r of Inl _ \<Rightarrow> Unknown | Inr f' \<Rightarrow> f') })
      | Inl _ \<Rightarrow> do { r \<leftarrow> GetCSIClusterType E;
                      State_Monad.return (case r of Inl _ \<Rightarrow> Unknown | Inr f' \<Rightarrow> f') });
     State_Monad.return (if flavor = Unknown then VSphere else flavor)
   }"

text \<open>\<open>configGiven\<close>: the caller passes a configuration, so none has to be loaded.\<close>

definition GetClusterFlavor :: "env \<Rightarrow> bool \<Rightarrow> (world, goerr + ClusterFlavor) state" where
  "GetClusterFlavor E configGiven = do {
     cl \<leftarrow> (if configGiven then ask (e_client E) else connect id id E);
     (case cl of
        Some e \<Rightarrow> State_Monad.return (Inl e)
      | None \<Rightarrow> do {
          f \<leftarrow> retrieveClusterFlavor E (velero_namespace E);
          State_Monad.return (Inr f)
        })
   }"

section \<open>The vCenter secret\<close>

definition GetSecretNamespaceAndName :: "env \<Rightarrow> string \<Rightarrow> string \<Rightarrow> (world, key) state" where
  "GetSecretNamespaceAndName E veleroNs configName = do {
     cm \<leftarrow> ask (\<lambda>n. e_config_map E n (veleroNs, configName));
     State_Monad.return (case cm of
         Inl _ \<Rightarrow> (DefaultSecretNamespace, DefaultSecretName)
       | Inr data \<Rightarrow>
           (case data ''vsphere_secret_namespace'' of None \<Rightarrow> DefaultSecretNamespace | Some ns \<Rightarrow> ns,
            case data ''vsphere_secret_name'' of None \<Rightarrow> DefaultSecretName | Some nm \<Rightarrow> nm))
   }"

definition csi_secret_namespace :: "env \<Rightarrow> string \<Rightarrow> string" where
  "csi_secret_namespace E v =
     (if 0 \<le> CompareVersion E v Csi2_3_0_Version then VSphereCSIControllerNamespace
      else KubeSystemNamespace)"

text \<open>The secrets that are tried, in order.\<close>

definition vc_secret_candidates :: "env \<Rightarrow> ClusterFlavor \<Rightarrow> (world, goerr + key list) state" where
  "vc_secret_candidates E flavor =
     (case flavor of
        Unknown \<Rightarrow> State_Monad.return (Inl (ErrMsg
          ''RetrieveVcConfigSecret: Cannot retrieve VC secret as the cluster flavor is UNKNOWN''))
      | TkgGuest \<Rightarrow> State_Monad.return (Inl (ErrMsg
          ''RetrieveVcConfigSecret: Retrieving VC Credentials Secret is not supported in Guest Cluster.''))
      | Supervisor \<Rightarrow> State_Monad.return (Inr
          [(VSphereCSIControllerNamespace, VCSecret), (VSphereCSIControllerNamespace, VCSecretTKG)])
      | VSphere \<Rightarrow> do {
          decoupled \<leftarrow> IsFeatureEnabled E DecoupleVSphereCSIDriverFlag True;
          (if decoupled then do {
             k \<leftarrow> GetSecretNamespaceAndName E (velero_namespace E) VeleroVSpherePluginConfig;
             State_Monad.return (Inr [k])
           } else do {
             v \<leftarrow> GetCSIInstalledVersion E;
             State_Monad.return (case v of
                 Inl e \<Rightarrow> Inl e
               | Inr ver \<Rightarrow> Inr [(csi_secret_namespace E ver, VCSecret),
                                  (csi_secret_namespace E ver, VCSecretTKG)])
           })
        })"

fun first_secret :: "env \<Rightarrow> goerr \<Rightarrow> key list \<Rightarrow> (world, goerr + string list) state" where
  "first_secret E err [] = State_Monad.return (Inl err)"
| "first_secret E err (k # ks) = do {
     r \<leftarrow> ask (\<lambda>n. e_secret E n k);
     (case r of Inr vals \<Rightarrow> State_Monad.return (Inr vals) | Inl e \<Rightarrow> first_secret E e ks)
   }"

text \<open>
  \<^verbatim>\<open>ParseConfig\<close>: only the first value of the secret is parsed; of several vCenters the
  one iterated last stays in the parameters.
\<close>

definition vc_params :: "string \<times> string \<times> string \<times> string \<Rightarrow> params \<Rightarrow> params" where
  "vc_params vc ps = (case vc of (ip, user, password, port) \<Rightarrow>
     ps(''VirtualCenter'' \<mapsto> PStr ip, ''user'' \<mapsto> PStr user, ''password'' \<mapsto> PStr password,
        ''port'' \<mapsto> PStr (if port = '''' then ''443'' else port)))"

definition ParseConfig :: "env \<Rightarrow> string list \<Rightarrow> params \<Rightarrow> goerr + params" where
  "ParseConfig E vals ps =
     (case (case vals of [] \<Rightarrow> Inr ('''', []) | v # _ \<Rightarrow> e_gcfg E v) of
        Inl e \<Rightarrow> Inl e
      | Inr (clusterId, vcs) \<Rightarrow> Inr (fold vc_params vcs (ps(''cluster-id'' \<mapsto> PStr clusterId))))"

definition RetrieveVcConfigSecret :: "env \<Rightarrow> bool \<Rightarrow> params \<Rightarrow> (world, goerr + params) state" where
  "RetrieveVcConfigSecret E configGiven ps = do {
     cl \<leftarrow> (if configGiven then ask (e_client E)
       else connect (ErrWrap ''Could not retrieve in-cluster config'') id E);
     (case cl of
        Some e \<Rightarrow> State_Monad.return (Inl e)
      | None \<Rightarrow> do {
          flavor \<leftarrow> retrieveClusterFlavor E (velero_namespace E);
          cands \<leftarrow> vc_secret_candidates E flavor;
          (case cands of
             Inl e \<Rightarrow> State_Monad.return (Inl e)
           | Inr ks \<Rightarrow> do {
               found \<leftarrow> first_secret E (ErrMsg '''') ks;
               State_Monad.return (case found of
                   Inl e \<Rightarrow> Inl e
                 | Inr vals \<Rightarrow>
                     (if vals = [] then Inl (ErrMsg (''failed to get any data in k8s secret, ['' @
                        join (CHR '' '') (map snd ks) @ '']''))
                      else ParseConfig E vals ps))
             })
        })
   }"

text \<open>
  The filter of the secret informer: the one secret whose changes are watched. The
  construction returns nil (\<open>None\<close>) when there is no client.
\<close>

definition GetVcConfigSecretFilterFunc :: "env \<Rightarrow> (world, (key \<Rightarrow> bool) option) state" where
  "GetVcConfigSecretFilterFunc E = do {
     cl \<leftarrow> connect id id E;
     (case cl of
        Some _ \<Rightarrow> State_Monad.return None
      | None \<Rightarrow> do {
          flavor \<leftarrow> retrieveClusterFlavor E (velero_namespace E);
          k \<leftarrow> (case flavor of
             Supervisor \<Rightarrow> State_Monad.return (VSphereCSIControllerNamespace, VCSecret)
           | VSphere \<Rightarrow> do {
               decoupled \<leftarrow> IsFeatureEnabled E DecoupleVSphereCSIDriverFlag True;
               (if decoupled then
                  GetSecretNamespaceAndName E (velero_namespace E) VeleroVSpherePluginConfig
                else do {
                  v \<leftarrow> GetCSIInstalledVersion E;
                  State_Monad.return
                    (csi_secret_namespace E (case v of Inl _ \<Rightarrow> '''' | Inr ver \<Rightarrow> ver), VCSecret)
                })
             }
           | _ \<Rightarrow> State_Monad.return ('''', ''''));
          State_Monad.return (Some (\<lambda>s. s = k))
        })
   }"

section \<open>The node that uses a volume\<close>

fun find_claim :: "pv list \<Rightarrow> string \<Rightarrow> goerr + (string \<times> string)" where
  "find_claim [] volumeId = Inr ('''', '''')"
| "find_claim (p # ps) volumeId =
     (if pv_CSIVolumeHandle p = Some volumeId then
        (case pv_ClaimRef p of
           None \<Rightarrow> Inl (GoPanic ''nil ClaimRef'')
         | Some ref \<Rightarrow> Inr ref)
      else find_claim ps volumeId)"

fun find_node :: "pod list \<Rightarrow> string \<Rightarrow> string \<Rightarrow> string" where
  "find_node [] claim nodeName = nodeName"
| "find_node (p # ps) claim nodeName =
     (let nodeName' = (if Some claim \<in> set (pod_ClaimNames p) then pod_NodeName p else nodeName)
      in if nodeName' \<noteq> '''' then nodeName' else find_node ps claim nodeName')"

definition RetrievePodNodesByVolumeId :: "env \<Rightarrow> string \<Rightarrow> (world, goerr + string) state" where
  "RetrievePodNodesByVolumeId E volumeId = do {
     cl \<leftarrow> connect id id E;
     (case cl of
        Some e \<Rightarrow> State_Monad.return (Inl e)
      | None \<Rightarrow> do {
          pvl \<leftarrow> ask (e_pvs E);
          (case pvl of
             Inl e \<Rightarrow> State_Monad.return (Inl e)
           | Inr pvs \<Rightarrow>
             (case find_claim pvs volumeId of
                Inl e \<Rightarrow> State_Monad.return (Inl e)
              | Inr (claimName, claimNs) \<Rightarrow>
                if claimNs = '''' \<or> claimName = '''' then
                  State_Monad.return (Inl (PVNotFound
                    (''Failed to retrieve the PV with the expected volume ID, '' @ volumeId)))
                else do {
                  podl \<leftarrow> ask (\<lambda>n. e_pods E n claimNs);
                  State_Monad.return (case podl of
                      Inl e \<Rightarrow> Inl e
                    | Inr pods \<Rightarrow>
                        (let nodeName = find_node pods claimName '''' in
                         if nodeName = '''' then
                           Inl (PVNotFound (''Failed to retrieve pod that claim the PV, '' @ volumeId))
                         else Inr nodeName))
                }))
        })
   }"

section \<open>Lemmas\<close>

lemma GetComponents_rebuild:
  assumes "img \<noteq> ''''"
  shows "\<exists>c. GetComponentsFromImage img ''Container'' = Some c \<and>
    img =
      (case GetComponentsFromImage img ''Repository'' of None \<Rightarrow> '''' | Some r \<Rightarrow> r @ ''/'') @ c @
      (case GetComponentsFromImage img ''Version'' of None \<Rightarrow> '''' | Some v \<Rightarrow> '':'' @ v)"
proof (cases "cut_last (CHR ''/'') img")
  case None
  with assms show ?thesis
    by (cases "cut_first (CHR '':'') img") (auto simp: GetComponentsFromImage_def dest: cut_first_SomeD)
next
  case (Some ab)
  then obtain a b where ab: "cut_last (CHR ''/'') img = Some (a, b)" by (cases ab) auto
  then have img: "img = a @ CHR ''/'' # b" using cut_last_SomeD by blast
  show ?thesis
  proof (cases "cut_first (CHR '':'') b")
    case None
    with ab show ?thesis by (simp add: GetComponentsFromImage_def img)
  next
    case (Some cd)
    then obtain c d where cd: "cut_first (CHR '':'') b = Some (c, d)" by (cases cd) auto
    then have "b = c @ CHR '':'' # d" using cut_first_SomeD by blast
    with ab cd show ?thesis by (simp add: GetComponentsFromImage_def img)
  qed
qed

lemma find_node_spec:
  "find_node ps claim '''' =
     (case List.find (\<lambda>p. Some claim \<in> set (pod_ClaimNames p) \<and> pod_NodeName p \<noteq> '''') ps of
        None \<Rightarrow> ''''
      | Some p \<Rightarrow> pod_NodeName p)"
  by (induction ps) (auto simp: Let_def)

lemma retrieveClusterFlavor_known: "fst (run_state (retrieveClusterFlavor E ns) w) \<noteq> Unknown"
  by (auto simp: retrieveClusterFlavor_def split: prod.splits)

lemma keeps_IsFeatureEnabled [frame]:
  assumes "\<And>w n. I w \<Longrightarrow> I (w\<lparr>w_tick := n\<rparr>)"
  shows "keeps I (IsFeatureEnabled E f d)"
  unfolding IsFeatureEnabled_def by (intro keeps_rules frame) (use assms in auto)

lemma keeps_GetUploadCRRetryMaximum [frame]:
  assumes "\<And>w n. I w \<Longrightarrow> I (w\<lparr>w_tick := n\<rparr>)"
  shows "keeps I (GetUploadCRRetryMaximum E)"
  unfolding GetUploadCRRetryMaximum_def GetUploadCRRetryMaximumFromConfig_def
  by (intro keeps_rules frame) (use assms in auto)

lemma keeps_GetClusterFlavor [frame]:
  assumes "\<And>w n. I w \<Longrightarrow> I (w\<lparr>w_tick := n\<rparr>)"
  shows "keeps I (GetClusterFlavor E g)"
  unfolding GetClusterFlavor_def retrieveClusterFlavor_def GetClusterTypeFromConfig_def GetCSIClusterType_def
  by (intro keeps_rules frame) (use assms in auto)

lemma keeps_RetrievePodNodesByVolumeId [frame]:
  assumes "\<And>w n. I w \<Longrightarrow> I (w\<lparr>w_tick := n\<rparr>)"
  shows "keeps I (RetrievePodNodesByVolumeId E v)"
  unfolding RetrievePodNodesByVolumeId_def by (intro keeps_rules frame) (use assms in auto)

lemmas config_evals [evals] =
  GetUploadCRRetryMaximum_def GetUploadCRRetryMaximumFromConfig_def IsFeatureEnabled_def

end
