(* ===== verification/Patch.thy ===== *)
theory Patch
  imports Cluster_Config
begin

text \<open>
  Patching a custom resource. \<^verbatim>\<open>PatchUpload\<close> (\<^verbatim>\<open>pkg/utils/utils.go\<close>),
  \<^verbatim>\<open>patchDownload\<close> (\<^verbatim>\<open>pkg/controller/download_controller.go\<close>) and
  \<^verbatim>\<open>patchBackupRepositoryClaimInt\<close> (\<^verbatim>\<open>pkg/backuprepository\<close>) are the same code for
  three kinds: encode the object, let \<open>mutate\<close> change it \<^emph>\<open>in place\<close>, encode it again,
  send the difference. Encoding these plain structs cannot fail, so the only error is that of
  the request.

  The caller keeps its pointer: after a failed request the object it holds is the mutated
  one. \<open>patch_object\<close> therefore returns that object next to the result, and
  \<open>patch_with_retry\<close>, the retry loop of both data mover controllers, hands it to the next
  attempt.
\<close>

definition patch_object ::
  "(world \<Rightarrow> 'k \<Rightarrow> 'o option) \<Rightarrow> ((('k \<Rightarrow> 'o option) \<Rightarrow> ('k \<Rightarrow> 'o option)) \<Rightarrow> world \<Rightarrow> world) \<Rightarrow>
   ('o \<Rightarrow> 'o \<Rightarrow> 'o \<Rightarrow> 'o) \<Rightarrow> (goerr \<Rightarrow> goerr) \<Rightarrow> env \<Rightarrow> 'k \<Rightarrow> 'o \<Rightarrow> ('o \<Rightarrow> (world, 'o) state) \<Rightarrow>
   (world, (goerr + 'o) \<times> 'o) state" where
  "patch_object sel upd merge wrap E k req mutate = do {
     new \<leftarrow> mutate req;
     r \<leftarrow> cr_modify sel upd E k (merge req new);
     State_Monad.return (case r of Inl e \<Rightarrow> Inl (wrap e) | Inr x \<Rightarrow> Inr x, new)
   }"

definition PatchUpload ::
  "env \<Rightarrow> key \<Rightarrow> Upload \<Rightarrow> (Upload \<Rightarrow> (world, Upload) state) \<Rightarrow> (world, (goerr + Upload) \<times> Upload) state" where
  "PatchUpload E k req mutate =
     patch_object w_uploads w_uploads_update merge_upload (ErrWrap ''Failed to patch Upload'') E k req mutate"

definition patch_attempt ::
  "('o \<Rightarrow> (world, (goerr + 'o) \<times> 'o) state) \<Rightarrow> 'o \<times> 'o option \<Rightarrow>
   (world, (goerr + bool) \<times> 'o \<times> 'o option) state" where
  "patch_attempt attempt l = do {
     (r, req') \<leftarrow> attempt (fst l);
     State_Monad.return (case r of
         Inl e \<Rightarrow> (Inr False, (req', None))
       | Inr u \<Rightarrow> (Inr True, (req', Some u)))
   }"

definition patch_with_retry ::
  "env \<Rightarrow> ('o \<Rightarrow> (world, (goerr + 'o) \<times> 'o) state) \<Rightarrow> 'o \<Rightarrow> (world, goerr + 'o) state" where
  "patch_with_retry E attempt req = do {
     n \<leftarrow> ask (e_polls E);
     (err, l) \<leftarrow> poll_immediate n (patch_attempt attempt) (req, None);
     State_Monad.return (case err of
         Some e \<Rightarrow> Inl e
       | None \<Rightarrow> (case snd l of Some u \<Rightarrow> Inr u | None \<Rightarrow> Inl (GoPanic ''nil object'')))
   }"

section \<open>What a patch does, for any kind of object\<close>

text \<open>\<open>silent f\<close>: the mutation only reads the clock.\<close>

definition silent :: "(world, 'a) state \<Rightarrow> bool" where
  "silent m \<longleftrightarrow> (\<forall>w. \<exists>n. snd (run_state m w) = w\<lparr>w_tick := n\<rparr>)"

lemma silent_return [simp, intro]: "silent (State_Monad.return x)"
  unfolding silent_def by (metis run_state_return snd_conv world.surjective world.update_convs(1))

lemma silent_ask [simp, intro]: "silent (ask f)"
  by (auto simp: silent_def)

lemma silent_clock_now [simp, intro]: "silent (clock_now E)"
  by (simp add: clock_now_def)

lemma silent_bind [intro]:
  assumes "silent m" and "\<And>x. silent (f x)"
  shows "silent (State_Monad.bind m f)"
  unfolding silent_def
proof
  fix w
  obtain r w1 where run: "run_state m w = (r, w1)" by fastforce
  with assms(1) obtain n where "w1 = w\<lparr>w_tick := n\<rparr>" unfolding silent_def by (metis snd_conv)
  moreover from assms(2) obtain n' where "snd (run_state (f r) w1) = w1\<lparr>w_tick := n'\<rparr>"
    unfolding silent_def by blast
  ultimately show "\<exists>n. snd (run_state (State_Monad.bind m f) w) = w\<lparr>w_tick := n\<rparr>"
    by (auto simp: run)
qed

locale patch_client = cr_kind sel upd + merge_patch merge
  for sel :: "world \<Rightarrow> 'k \<Rightarrow> 'o option"
    and upd :: "(('k \<Rightarrow> 'o option) \<Rightarrow> ('k \<Rightarrow> 'o option)) \<Rightarrow> world \<Rightarrow> world"
    and merge :: "'o \<Rightarrow> 'o \<Rightarrow> 'o \<Rightarrow> 'o"
begin

lemma silent_run:
  assumes "silent m" "run_state m w = (new, w')"
  shows "sel w' = sel w" "w_trace w' = w_trace w"
proof -
  from assms obtain n where "w' = w\<lparr>w_tick := n\<rparr>" unfolding silent_def by (metis snd_conv)
  then show "sel w' = sel w" "w_trace w' = w_trace w" by (simp_all add: sel_tick)
qed

text \<open>Patching the object that is stored writes exactly what the mutation built.\<close>

lemma patch_fresh:
  assumes "silent (mutate req)" "sel w k = Some req"
    and "run_state (patch_object sel upd merge wrap E k req mutate) w = ((Inr y, req'), w')"
  shows "y = req'" "sel w' = (sel w)(k := Some y)" "req' = fst (run_state (mutate req) w)"
proof -
  obtain new w1 where run: "run_state (mutate req) w = (new, w1)" by fastforce
  note same = silent_run [OF assms(1) run]
  obtain r w2 where md: "run_state (cr_modify sel upd E k (merge req new)) w1 = (r, w2)" by fastforce
  with assms(3) run have r: "r = Inr y" "req' = new" "w' = w2"
    by (auto simp: patch_object_def split: sum.splits)
  with modify_ok [OF md [unfolded r]] assms(2) same(1)
  have "y = merge req new req" "sel w2 = (sel w)(k := Some y)" by auto
  with r run show "y = req'" "sel w' = (sel w)(k := Some y)" "req' = fst (run_state (mutate req) w)"
    by (simp_all add: merge_fresh)
qed

text \<open>A successful patch returns the object that is stored afterwards.\<close>

lemma patch_returns_stored:
  assumes "run_state (patch_object sel upd merge wrap E k req mutate) w = ((Inr y, req'), w')"
  shows "sel w' k = Some y"
proof -
  obtain new w1 where run: "run_state (mutate req) w = (new, w1)" by fastforce
  obtain r w2 where md: "run_state (cr_modify sel upd E k (merge req new)) w1 = (r, w2)" by fastforce
  with assms run have r: "r = Inr y" "w' = w2" by (auto simp: patch_object_def split: sum.splits)
  with modify_ok [OF md [unfolded r]] show ?thesis by auto
qed

text \<open>
  A patch that the API server refuses changes nothing, but the caller's object is the mutated
  one.
\<close>

lemma patch_refused:
  assumes "run_state (mutate req) w = (new, w1)" "e_fate E (w_tick w1) = Refused e"
  shows "run_state (patch_object sel upd merge wrap E k req mutate) w =
    ((Inl (wrap (ErrAPI e)), new), w1\<lparr>w_tick := Suc (w_tick w1)\<rparr>)"
  using assms by (simp add: patch_object_def modify_refused)

text \<open>A patch leaves every other object, and the trace, alone.\<close>

lemma patch_other:
  assumes "silent (mutate req)" "k' \<noteq> k"
  shows "sel (snd (run_state (patch_object sel upd merge wrap E k req mutate) w)) k' = sel w k'"
proof -
  obtain new w1 where run: "run_state (mutate req) w = (new, w1)" by fastforce
  with silent_run(1) [OF assms(1)] modify_other [OF assms(2), of E "merge req new" w1] show ?thesis
    by (auto simp: patch_object_def split: prod.splits)
qed

text \<open>A patch of the stored object that the API server carries out.\<close>

lemma patch_accepted:
  assumes "\<forall>n. e_fate E n = Accepted" and "sel w k = Some req" and "silent (mutate req)"
  shows "\<exists>n. run_state (patch_object sel upd merge wrap E k req mutate) w =
     ((Inr (fst (run_state (mutate req) w)), fst (run_state (mutate req) w)),
      upd (\<lambda>m. m(k \<mapsto> fst (run_state (mutate req) w))) (w\<lparr>w_tick := n\<rparr>))"
proof -
  obtain u w1 where mut: "run_state (mutate req) w = (u, w1)" by fastforce
  from assms(3) mut obtain n where w1: "w1 = w\<lparr>w_tick := n\<rparr>" unfolding silent_def by (metis snd_conv)
  then have "run_state (patch_object sel upd merge wrap E k req mutate) w =
      ((Inr u, u), upd (\<lambda>m. m(k \<mapsto> u)) (w\<lparr>w_tick := Suc n\<rparr>))"
    using assms(1,2) by (simp add: patch_object_def mut cr_modify_def sel_tick merge_fresh)
  then show ?thesis by (auto simp: mut)
qed

text \<open>
  What a patch can do to the world: merge the mutated object, of which \<open>R\<close> is known, into
  the one stored object.
\<close>

lemma keeps_patch:
  assumes tick: "\<And>w n. I w \<Longrightarrow> I (w\<lparr>w_tick := n\<rparr>)"
    and merged: "\<And>w x new. I w \<Longrightarrow> sel w k = Some x \<Longrightarrow> R new \<Longrightarrow> I (upd (\<lambda>m. m(k \<mapsto> merge req new x)) w)"
    and quiet: "silent (mutate req)"
    and built: "\<And>w. R (fst (run_state (mutate req) w))"
  shows "keeps I (patch_object sel upd merge wrap E k req mutate)"
proof (rule tripleI)
  fix w r w' assume I: "I w" and run: "run_state (patch_object sel upd merge wrap E k req mutate) w = (r, w')"
  obtain new w1 where mut: "run_state (mutate req) w = (new, w1)" by fastforce
  from quiet mut obtain n where "w1 = w\<lparr>w_tick := n\<rparr>" unfolding silent_def by (metis snd_conv)
  with I tick have I1: "I w1" by simp
  have new: "R new" using built [of w] mut by simp
  have "keeps I (cr_modify sel upd E k (merge req new))"
    by (rule keeps_cr_modify) (auto intro!: tick merged new simp: sel_tick)
  from keeps_run [OF this I1] run mut show "I w'"
    by (auto simp: patch_object_def split: prod.splits)
qed

text \<open>
  A field \<open>g\<close> that the mutation sets to the value the object already has is not part of
  the patch: the stored value stays whatever it is.
\<close>

lemma patch_misses_field:
  assumes quiet: "silent (mutate req)"
    and field: "\<And>old new cur. g (merge old new cur) = merge_field (g old) (g new) (g cur)"
    and sets: "\<And>w. g (fst (run_state (mutate req) w)) = v"
    and already: "g req = v"
  shows "map_option g (sel (snd (run_state (patch_object sel upd merge wrap E k req mutate) w)) k)
       = map_option g (sel w k)"
proof -
  obtain new w1 where run: "run_state (mutate req) w = (new, w1)" by fastforce
  have new: "g new = v" using sets [of w] run by simp
  have sel1: "sel w1 = sel w" by (rule silent_run(1) [OF quiet run])
  obtain r w2 where md: "run_state (cr_modify sel upd E k (merge req new)) w1 = (r, w2)" by fastforce
  have "map_option g (sel w2 k) = map_option g (sel w1 k)"
  proof (cases r)
    case (Inr y)
    with modify_ok md show ?thesis by (fastforce simp: field already new)
  next
    case (Inl e)
    with modify_failed [of E k "merge req new" w1 e w2] md show ?thesis
      by (auto simp: field already new)
  qed
  with sel1 run md show ?thesis by (simp add: patch_object_def)
qed

end

interpretation upload_patch: patch_client w_uploads w_uploads_update merge_upload ..

interpretation download_patch: patch_client w_downloads w_downloads_update merge_download ..

interpretation brc_patch: patch_client w_brcs w_brcs_update merge_brc ..

section \<open>What the retry loop does\<close>

text \<open>An attempt that leaves its goal reached, once: success of the loop is success of an attempt.\<close>

lemma patch_with_retry_invariant:
  assumes step: "\<And>req. triple (\<lambda>w. J req w) (attempt req)
      (\<lambda>(r, req') w. J req' w \<and> (\<forall>u. r = Inr u \<longrightarrow> K u w))"
    and tick: "\<And>req w n. J req w \<Longrightarrow> J req (w\<lparr>w_tick := n\<rparr>)"
  shows "triple (J req) (patch_with_retry E attempt req) (\<lambda>r w. \<forall>u. r = Inr u \<longrightarrow> K u w)"
proof -
  let ?J = "\<lambda>l w. J (fst l) w"
  let ?K = "\<lambda>l w. \<forall>u. snd l = Some u \<longrightarrow> K u w"
  have att: "triple (?J l) (patch_attempt attempt l)
      (\<lambda>(r, l') w. ?J l' w \<and> (r = Inr True \<longrightarrow> ?K l' w))" for l
    unfolding patch_attempt_def
    by (rule triple_bind [OF step]) (auto intro!: triple_return split: sum.splits)
  have poll: "triple (?J l) (poll_immediate n (patch_attempt attempt) l)
      (\<lambda>(e, l') w. ?J l' w \<and> (e = None \<longrightarrow> ?K l' w))" for n l
    by (rule poll_immediate_invariant [OF att])
  have start: "triple (J req) (ask (e_polls E)) (\<lambda>_. J req)"
    by (rule keeps_ask) (rule tick)
  show ?thesis
    unfolding patch_with_retry_def
    by (rule triple_bind [OF start], rule triple_bind, rule poll [of "(req, None)", simplified])
       (auto intro!: triple_return split: option.splits)
qed

lemma keeps_patch_object [frame]:
  assumes "\<And>req. keeps I (mutate req)"
    and "\<And>new. keeps I (cr_modify sel upd E k (merge req new))"
  shows "keeps I (patch_object sel upd merge wrap E k req mutate)"
  unfolding patch_object_def by (intro keeps_rules assms)

lemma keeps_patch_with_retry [frame]:
  assumes "\<And>req. keeps I (attempt req)" and "\<And>w n. I w \<Longrightarrow> I (w\<lparr>w_tick := n\<rparr>)"
  shows "keeps I (patch_with_retry E attempt req)"
  unfolding patch_with_retry_def
  by (intro keeps_rules frame keeps_poll_immediate)
     (auto simp: patch_attempt_def intro!: keeps_rules assms)

text \<open>
  When the first attempt fails, the outcome is that of the attempts that follow, on the object
  the failed attempt left behind.
\<close>

lemma patch_with_retry_after_failure:
  assumes first: "run_state (attempt req) (w\<lparr>w_tick := Suc (w_tick w)\<rparr>) = ((Inl e, req'), w1)"
    and start: "J req' w1"
    and step: "\<And>req. triple (\<lambda>w. J req w) (attempt req) (\<lambda>(r, req') w. J req' w)"
    and result: "\<And>req w. J req w \<Longrightarrow> K w"
  shows "K (snd (run_state (patch_with_retry E attempt req) w))"
proof -
  let ?J = "\<lambda>l w. J (fst l) w"
  have att: "triple (?J l) (patch_attempt attempt l)
      (\<lambda>(r, l') w. ?J l' w \<and> (r = Inr True \<longrightarrow> True))" for l
    unfolding patch_attempt_def
    by (rule triple_bind [OF step]) (auto intro!: triple_return split: sum.splits)
  have poll: "triple (?J l) (poll_immediate n (patch_attempt attempt) l)
      (\<lambda>(e, l') w. ?J l' w \<and> (e = None \<longrightarrow> True))" for n l
    by (rule poll_immediate_invariant [OF att])
  show ?thesis
  proof (cases "e_polls E (w_tick w)")
    case 0
    with first start result show ?thesis by (simp add: patch_with_retry_def patch_attempt_def)
  next
    case (Suc n)
    obtain r w2 where rest: "run_state (poll_immediate n (patch_attempt attempt) (req', None)) w1 = (r, w2)"
      by fastforce
    from tripleD [OF poll _ rest] start have "J (fst (snd r)) w2" by (auto split: prod.splits)
    with Suc first rest result show ?thesis
      by (auto simp: patch_with_retry_def patch_attempt_def split: prod.splits)
  qed
qed

lemma patch_with_retry_once:
  assumes "run_state (attempt req) (w\<lparr>w_tick := Suc (w_tick w)\<rparr>) = ((Inr u, req'), w')"
  shows "run_state (patch_with_retry E attempt req) w = (Inr u, w')"
  using assms by (cases "e_polls E (w_tick w)") (simp_all add: patch_with_retry_def patch_attempt_def)

lemmas patch_evals [evals] =
  PatchUpload_def patch_object_def patch_with_retry_def patch_attempt_def
  merge_upload_def merge_upload_status_def merge_download_def merge_download_status_def merge_brc_def
  merge_meta_def merge_field_def

end
