(* ===== verification/Data_Mover.thy ===== *)
theory Data_Mover
  imports Patch
begin

text \<open>
  The data mover (\<^verbatim>\<open>pkg/dataMover/data_mover.go\<close>): it copies a snapshot to and from the
  S3 repository and keeps, in \<^verbatim>\<open>inProgressCancelMap\<close>, the cancel function of every copy to
  the repository that is under way. The map is \<open>w_ongoing\<close>; a cancel function is named by
  the number of the call that created its context. \<^verbatim>\<open>reloadConfigLock\<close> serialises the
  copies with a reload of the vCenter configuration and carries no data.

  The trace records what an operation of another package has reported as done. What a copy
  that ended with an error had written until then is not known to this code and not recorded.
\<close>

datatype CopyCreateOptions = AllocateNewObject | UpdateExistingObject

section \<open>The map of ongoing uploads\<close>

definition RegisterOngoingUpload :: "peid \<Rightarrow> nat \<Rightarrow> world \<Rightarrow> world" where
  "RegisterOngoingUpload p ctx w = w\<lparr>w_ongoing := (w_ongoing w)(p \<mapsto> ctx)\<rparr>"

definition UnregisterOngoingUpload :: "peid \<Rightarrow> world \<Rightarrow> world" where
  "UnregisterOngoingUpload p w =
     (case w_ongoing w p of
        None \<Rightarrow> w
      | Some _ \<Rightarrow> w\<lparr>w_ongoing := (w_ongoing w)(p := None)\<rparr>)"

definition IsUploading :: "peid \<Rightarrow> world \<Rightarrow> bool" where
  "IsUploading p w \<longleftrightarrow> w_ongoing w p \<noteq> None"

definition CancelUpload :: "peid \<Rightarrow> (world, goerr option) state" where
  "CancelUpload p = State (\<lambda>w.
     (case w_ongoing w p of
        Some ctx \<Rightarrow>
          (None, w\<lparr>w_trace := w_trace w @ [EvUploadCanceled p],
                   w_ongoing := (w_ongoing w)(p := None)\<rparr>)
      | None \<Rightarrow> (Some (ErrMsg ''The pe was not found to be uploading on the node.''), w)))"

definition update_world :: "(world \<Rightarrow> world) \<Rightarrow> (world, unit) state" where
  "update_world f = State (\<lambda>w. ((), f w))"

lemma run_update_world [simp]: "run_state (update_world f) w = ((), f w)"
  by (simp add: update_world_def)

section \<open>Copying\<close>

definition copyToRepo :: "env \<Rightarrow> peid \<Rightarrow> s3_settings \<Rightarrow> (world, goerr + peid) state" where
  "copyToRepo E p s3 = do {
     got \<leftarrow> ask (\<lambda>n. e_get_pe E n IvdPETM p);
     (case got of
        Some e \<Rightarrow> State_Monad.return (Inl e)
      | None \<Rightarrow> do {
          ctx \<leftarrow> next_call;
          update_world (RegisterOngoingUpload p ctx);
          r \<leftarrow> ask (\<lambda>n. e_copy E n (S3PETM s3) p);
          (case r of
             Inl e \<Rightarrow> State_Monad.return (Inl e)
           | Inr q \<Rightarrow> do { emit (EvCopied (S3PETM s3) p); State_Monad.return (Inr q) })
        })
   }"

definition CopyToRepo :: "env \<Rightarrow> peid \<Rightarrow> (world, goerr + peid) state" where
  "CopyToRepo E p = do {
     s3 \<leftarrow> GetDefaultS3PETM E;
     (case s3 of Inl e \<Rightarrow> State_Monad.return (Inl e) | Inr cfg \<Rightarrow> copyToRepo E p cfg)
   }"

definition CopyToRepoWithBackupRepository ::
  "env \<Rightarrow> peid \<Rightarrow> BackupRepository \<Rightarrow> (world, goerr + peid) state" where
  "CopyToRepoWithBackupRepository E p br = do {
     s3 \<leftarrow> GetRepositoryFromBackupRepository E br;
     (case s3 of Inl e \<Rightarrow> State_Monad.return (Inl e) | Inr cfg \<Rightarrow> copyToRepo E p cfg)
   }"

definition copyFromRepo ::
  "env \<Rightarrow> peid \<Rightarrow> peid \<Rightarrow> s3_settings \<Rightarrow> CopyCreateOptions \<Rightarrow> (world, goerr + peid) state" where
  "copyFromRepo E p target s3 options = do {
     got \<leftarrow> ask (\<lambda>n. e_get_pe E n (S3PETM s3) p);
     (case got of
        Some e \<Rightarrow> State_Monad.return (Inl e)
      | None \<Rightarrow>
          (if options = UpdateExistingObject then do {
             tgt \<leftarrow> ask (\<lambda>n. e_get_pe E n IvdPETM target);
             (case tgt of
                Some e \<Rightarrow> State_Monad.return (Inl e)
              | None \<Rightarrow> do {
                  r \<leftarrow> ask (\<lambda>n. e_overwrite E n target p);
                  (case r of
                     Some e \<Rightarrow> State_Monad.return (Inl e)
                   | None \<Rightarrow> do {
                       emit (EvOverwritten target p);
                       State_Monad.return (Inr target)
                     })
                })
           } else do {
             r \<leftarrow> ask (\<lambda>n. e_copy E n IvdPETM p);
             (case r of
                Inl e \<Rightarrow> State_Monad.return (Inl e)
              | Inr q \<Rightarrow> do { emit (EvVolumeCreated q); State_Monad.return (Inr q) })
           }))
   }"

definition CopyFromRepo ::
  "env \<Rightarrow> peid \<Rightarrow> peid \<Rightarrow> CopyCreateOptions \<Rightarrow> (world, goerr + peid) state" where
  "CopyFromRepo E p target options = do {
     s3 \<leftarrow> GetDefaultS3PETM E;
     (case s3 of Inl e \<Rightarrow> State_Monad.return (Inl e) | Inr cfg \<Rightarrow> copyFromRepo E p target cfg options)
   }"

definition CopyFromRepoWithBackupRepository ::
  "env \<Rightarrow> peid \<Rightarrow> peid \<Rightarrow> BackupRepository \<Rightarrow> CopyCreateOptions \<Rightarrow> (world, goerr + peid) state" where
  "CopyFromRepoWithBackupRepository E p target br options = do {
     s3 \<leftarrow> GetRepositoryFromBackupRepository E br;
     (case s3 of Inl e \<Rightarrow> State_Monad.return (Inl e) | Inr cfg \<Rightarrow> copyFromRepo E p target cfg options)
   }"

section \<open>The registry of ongoing uploads as an interface\<close>

text \<open>
  The upload controller uses the map through three operations only. \<open>upload_registry\<close> is
  what it relies on; a run of registrations and removals then decides membership by the last
  operation on the entity.
\<close>

locale upload_registry =
  fixes registered :: "'p \<Rightarrow> 's \<Rightarrow> bool"
    and register :: "'p \<Rightarrow> 'c \<Rightarrow> 's \<Rightarrow> 's"
    and unregister :: "'p \<Rightarrow> 's \<Rightarrow> 's"
  assumes registered_register: "registered q (register p c s) \<longleftrightarrow> q = p \<or> registered q s"
    and registered_unregister: "registered q (unregister p s) \<longleftrightarrow> q \<noteq> p \<and> registered q s"
begin

text \<open>\<open>Some c\<close> registers an entity, \<open>None\<close> removes it.\<close>

fun replay :: "('p \<times> 'c option) list \<Rightarrow> 's \<Rightarrow> 's" where
  "replay [] s = s"
| "replay ((p, Some c) # ops) s = replay ops (register p c s)"
| "replay ((p, None) # ops) s = replay ops (unregister p s)"

lemma replay_append: "replay (xs @ ys) s = replay ys (replay xs s)"
  by (induction xs s rule: replay.induct) auto

lemma replay_untouched: "q \<notin> fst ` set ops \<Longrightarrow> registered q (replay ops s) = registered q s"
  by (induction ops s rule: replay.induct)
     (auto simp: registered_register registered_unregister)

lemma replay_last_wins:
  assumes "q \<notin> fst ` set later"
  shows "registered q (replay (ops @ (q, c) # later) s) \<longleftrightarrow> c \<noteq> None"
  using replay_untouched [OF assms]
  by (cases c) (auto simp: replay_append registered_register registered_unregister)

end

interpretation ongoing: upload_registry IsUploading RegisterOngoingUpload UnregisterOngoingUpload
  by unfold_locales
     (auto simp: IsUploading_def RegisterOngoingUpload_def UnregisterOngoingUpload_def split: option.splits)

section \<open>Lemmas\<close>

lemma IsUploading_simps [world_simps]:
  "IsUploading p (w\<lparr>w_tick := n\<rparr>) = IsUploading p w"
  "IsUploading p (w\<lparr>w_trace := t\<rparr>) = IsUploading p w"
  "IsUploading p (w_uploads_update f w) = IsUploading p w"
  by (simp_all add: IsUploading_def)

lemma keeps_update_world [frame]:
  "(\<And>w. I w \<Longrightarrow> I (f w)) \<Longrightarrow> keeps I (update_world f)"
  by (simp add: triple_def)

lemma keeps_copyToRepo [frame]:
  assumes "\<And>w n. I w \<Longrightarrow> I (w\<lparr>w_tick := n\<rparr>)"
    and "\<And>w. I w \<Longrightarrow> I (w\<lparr>w_trace := w_trace w @ [EvCopied (S3PETM s3) p]\<rparr>)"
    and "\<And>w m. I w \<Longrightarrow> I (w\<lparr>w_ongoing := m\<rparr>)"
  shows "keeps I (copyToRepo E p s3)"
  unfolding copyToRepo_def
  by (intro keeps_rules frame) (use assms in \<open>auto simp: RegisterOngoingUpload_def\<close>)

lemma keeps_CopyToRepo [frame]:
  assumes "\<And>w n. I w \<Longrightarrow> I (w\<lparr>w_tick := n\<rparr>)"
    and "\<And>w s3. I w \<Longrightarrow> I (w\<lparr>w_trace := w_trace w @ [EvCopied (S3PETM s3) p]\<rparr>)"
    and "\<And>w m. I w \<Longrightarrow> I (w\<lparr>w_ongoing := m\<rparr>)"
  shows "keeps I (CopyToRepo E p)"
  unfolding CopyToRepo_def by (intro keeps_rules frame) (use assms in auto)

lemma keeps_CopyToRepoWithBackupRepository [frame]:
  assumes "\<And>w n. I w \<Longrightarrow> I (w\<lparr>w_tick := n\<rparr>)"
    and "\<And>w s3. I w \<Longrightarrow> I (w\<lparr>w_trace := w_trace w @ [EvCopied (S3PETM s3) p]\<rparr>)"
    and "\<And>w m. I w \<Longrightarrow> I (w\<lparr>w_ongoing := m\<rparr>)"
  shows "keeps I (CopyToRepoWithBackupRepository E p br)"
  unfolding CopyToRepoWithBackupRepository_def by (intro keeps_rules frame) (use assms in auto)

lemma keeps_copyFromRepo [frame]:
  assumes "\<And>w n. I w \<Longrightarrow> I (w\<lparr>w_tick := n\<rparr>)"
    and "\<And>w. options = UpdateExistingObject \<Longrightarrow> I w \<Longrightarrow> I (w\<lparr>w_trace := w_trace w @ [EvOverwritten target p]\<rparr>)"
    and "\<And>w q. options = AllocateNewObject \<Longrightarrow> I w \<Longrightarrow> I (w\<lparr>w_trace := w_trace w @ [EvVolumeCreated q]\<rparr>)"
  shows "keeps I (copyFromRepo E p target s3 options)"
  unfolding copyFromRepo_def by (cases options) (auto intro!: keeps_rules frame assms)

lemma keeps_CopyFromRepo [frame]:
  assumes "\<And>w n. I w \<Longrightarrow> I (w\<lparr>w_tick := n\<rparr>)"
    and "\<And>w. options = UpdateExistingObject \<Longrightarrow> I w \<Longrightarrow> I (w\<lparr>w_trace := w_trace w @ [EvOverwritten target p]\<rparr>)"
    and "\<And>w q. options = AllocateNewObject \<Longrightarrow> I w \<Longrightarrow> I (w\<lparr>w_trace := w_trace w @ [EvVolumeCreated q]\<rparr>)"
  shows "keeps I (CopyFromRepo E p target options)"
  unfolding CopyFromRepo_def by (intro keeps_rules frame) (use assms in auto)

lemma keeps_CopyFromRepoWithBackupRepository [frame]:
  assumes "\<And>w n. I w \<Longrightarrow> I (w\<lparr>w_tick := n\<rparr>)"
    and "\<And>w. options = UpdateExistingObject \<Longrightarrow> I w \<Longrightarrow> I (w\<lparr>w_trace := w_trace w @ [EvOverwritten target p]\<rparr>)"
    and "\<And>w q. options = AllocateNewObject \<Longrightarrow> I w \<Longrightarrow> I (w\<lparr>w_trace := w_trace w @ [EvVolumeCreated q]\<rparr>)"
  shows "keeps I (CopyFromRepoWithBackupRepository E p target br options)"
  unfolding CopyFromRepoWithBackupRepository_def by (intro keeps_rules frame) (use assms in auto)

lemmas data_mover_evals [evals] =
  RegisterOngoingUpload_def UnregisterOngoingUpload_def IsUploading_def CancelUpload_def
  copyToRepo_def CopyToRepo_def CopyToRepoWithBackupRepository_def
  copyFromRepo_def CopyFromRepo_def CopyFromRepoWithBackupRepository_def

end
