(* ===== verification/Snapshot_Manager.thy ===== *)
theory Snapshot_Manager
  imports Data_Mover
begin

text \<open>
  The snapshot manager (\<^verbatim>\<open>pkg/snapshotmgr/snapshot_manager.go\<close>): it takes and deletes
  snapshots of protected entities, files an Upload for a new local snapshot and a Download for
  a restore, and cancels the upload of a snapshot that is deleted while it is still being
  copied. The protected entities themselves (Astrolabe's interface) answer through \<open>env\<close>.
\<close>

section \<open>Identifiers\<close>

definition uploadCRNameForSnapshotPEID :: "env \<Rightarrow> peid \<Rightarrow> goerr + string" where
  "uploadCRNameForSnapshotPEID E p =
     (if \<not> e_has_snapshot E p then
        Inl (ErrMsg (''snapshotPEID '' @ e_print_peid E p @ '' does not have a snapshot ID''))
      else Inr (''upload-'' @ pe_snapshot p))"

text \<open>
  A snapshot identifier of a PVC is the base64 encoding of the identifier of the snapshot of
  the entity below it; both functions decode until they reach an IVD. \<open>None\<close> is a recursion
  that never ends (in Go, a stack overflow).
\<close>

partial_function (option) decodePeIdFromSnapshotID :: "env \<Rightarrow> string \<Rightarrow> (goerr + peid) option" where
  "decodePeIdFromSnapshotID E snapshotID =
     (case b64_decode snapshotID of
        None \<Rightarrow> Some (Inl (ErrWrap (''decodePeIdFromSnapshotID: Could not decode snapshot ID encoded string ''
                  @ snapshotID) (ErrMsg ''illegal base64 data'')))
      | Some bytes \<Rightarrow>
        (case e_parse_peid E bytes of
           Inl e \<Rightarrow> Some (Inl (ErrWrap (''decodePeIdFromSnapshotID: Could not translate decoded snapshotID ''
                     @ bytes @ '' into pe-id'') e))
         | Inr p \<Rightarrow>
           (if e_has_snapshot E p \<and> pe_type p \<noteq> e_ivd_type E
            then decodePeIdFromSnapshotID E (pe_snapshot p)
            else Some (Inr p))))"

partial_function (option) decodeSnapshotID :: "env \<Rightarrow> string \<Rightarrow> (goerr + string) option" where
  "decodeSnapshotID E snapshotID =
     (case b64_decode snapshotID of
        None \<Rightarrow> Some (Inl (ErrWrap (''Could not decode snapshot ID encoded string '' @ snapshotID)
                  (ErrMsg ''illegal base64 data'')))
      | Some bytes \<Rightarrow>
        (case e_parse_peid E bytes of
           Inl e \<Rightarrow> Some (Inl (ErrWrap (''Could not translate decoded snapshotID ''
                     @ bytes @ '' into pe-id'') e))
         | Inr p \<Rightarrow>
           (if e_has_snapshot E p \<and> pe_type p \<noteq> e_ivd_type E
            then decodeSnapshotID E (pe_snapshot p)
            else Some (Inr (pe_snapshot p)))))"

definition or_overflow :: "(goerr + 'a) option \<Rightarrow> goerr + 'a" where
  "or_overflow r = (case r of None \<Rightarrow> Inl (GoPanic ''stack overflow'') | Some x \<Rightarrow> x)"

section \<open>Deleting one snapshot through a type manager\<close>

text \<open>
  A deletion is recorded in the trace when the type manager reports it as done; one that ended
  with an error is not.
\<close>

definition invalid_state :: "goerr \<Rightarrow> bool" where
  "invalid_state e \<longleftrightarrow> contains (error_string e) ''The operation is not allowed in the current state''"

definition delete_attempt :: "env \<Rightarrow> peid \<Rightarrow> petm \<Rightarrow> unit \<Rightarrow> (world, (goerr + bool) \<times> unit) state" where
  "delete_attempt E p m l = do {
     r \<leftarrow> ask (\<lambda>n. e_delete_snapshot E n m p (pe_snapshot p));
     (case r of
        Inl e \<Rightarrow> State_Monad.return (if invalid_state e then Inr False else Inl e, ())
      | Inr _ \<Rightarrow> do {
          emit (EvSnapshotDeleted m p (pe_snapshot p));
          State_Monad.return (Inr True, ())
        })
   }"

definition deleteSnapshotFromRepo :: "env \<Rightarrow> peid \<Rightarrow> petm \<Rightarrow> (world, goerr option) state" where
  "deleteSnapshotFromRepo E p m =
     (if \<not> e_has_snapshot E p then State_Monad.return None
      else if m = NilPETM then State_Monad.return (Some (GoPanic ''nil ProtectedEntityTypeManager''))
      else do {
        got \<leftarrow> ask (\<lambda>n. e_get_pe E n m p);
        (case got of
           Some e \<Rightarrow> State_Monad.return (Some e)
         | None \<Rightarrow> do {
             listed \<leftarrow> ask (\<lambda>n. e_list_snapshots E n m p);
             (case listed of
                Inl e \<Rightarrow> State_Monad.return (Some (ErrWrap ''Failed to list snapshots'' e))
              | Inr [] \<Rightarrow> State_Monad.return None
              | Inr (_ # _) \<Rightarrow> do {
                  n \<leftarrow> ask (e_polls E);
                  (err, _) \<leftarrow> poll_immediate n (delete_attempt E p m) ();
                  State_Monad.return err
                })
           })
      })"

definition DeleteLocalSnapshot :: "env \<Rightarrow> peid \<Rightarrow> (world, goerr option) state" where
  "DeleteLocalSnapshot E p =
     deleteSnapshotFromRepo E p (if e_has_petm E (pe_type p) then LocalPEM else NilPETM)"

definition DeleteRemoteSnapshot :: "env \<Rightarrow> peid \<Rightarrow> (world, goerr option) state" where
  "DeleteRemoteSnapshot E p = do {
     s3 \<leftarrow> GetDefaultS3PETM E;
     (case s3 of
        Inl e \<Rightarrow> State_Monad.return (Some e)
      | Inr cfg \<Rightarrow> deleteSnapshotFromRepo E p (S3PETM cfg))
   }"

text \<open>The error of building the repository manager is logged only; the nil manager is used.\<close>

definition DeleteRemoteSnapshotFromRepo ::
  "env \<Rightarrow> peid \<Rightarrow> BackupRepository \<Rightarrow> (world, goerr option) state" where
  "DeleteRemoteSnapshotFromRepo E p br = do {
     s3 \<leftarrow> GetRepositoryFromBackupRepository E br;
     deleteSnapshotFromRepo E p (case s3 of Inl _ \<Rightarrow> NilS3PETM | Inr cfg \<Rightarrow> S3PETM cfg)
   }"

section \<open>Filing an Upload\<close>

definition VeleroExcludeLabel :: string where
  "VeleroExcludeLabel = ''velero.io/exclude-from-backup''"

text \<open>\<^verbatim>\<open>builder.ForUpload(\<dots>)\<dots>Result()\<close> as \<^verbatim>\<open>UploadSnapshot\<close> uses it.\<close>

definition build_upload ::
  "string \<Rightarrow> string \<Rightarrow> seconds \<Rightarrow> seconds \<Rightarrow> string \<Rightarrow> string \<Rightarrow> string \<Rightarrow> Upload" where
  "build_upload ns name backupTime nextRetry snapshotRef snapshotID brName = \<lparr>
     u_Meta = \<lparr>om_Namespace = ns, om_Name = name, om_UID = '''',
       om_Labels = [VeleroExcludeLabel \<mapsto> ''true''], om_DeletionTimestamp = None\<rparr>,
     u_Spec = \<lparr>us_SnapshotID = snapshotID, us_BackupTimestamp = Some backupTime,
       us_UploadCancel = False, us_BackupRepositoryName = brName, us_SnapshotReference = snapshotRef\<rparr>,
     u_Status = \<lparr>ut_Phase = UploadPhaseNew, ut_Message = '''', ut_StartTimestamp = None,
       ut_CompletionTimestamp = None, ut_Progress = \<lparr>up_TotalBytes = 0, up_BytesDone = 0\<rparr>,
       ut_ProcessingNode = '''', ut_RetryCount = 0, ut_NextRetryTimestamp = Some nextRetry,
       ut_CurrentBackOff = 0\<rparr>\<rparr>"

definition create_upload_attempt ::
  "env \<Rightarrow> key \<Rightarrow> Upload \<Rightarrow> Upload option \<Rightarrow> (world, (goerr + bool) \<times> Upload option) state" where
  "create_upload_attempt E k upload l = do {
     r \<leftarrow> cr_create w_uploads w_uploads_update id E k upload;
     State_Monad.return (case r of Inl e \<Rightarrow> (Inl e, None) | Inr u \<Rightarrow> (Inr True, Some u))
   }"

definition plugin_client :: "env \<Rightarrow> (world, goerr option) state" where
  "plugin_client E = connect
     (\<lambda>e. ErrMsg (''Could not get client config with err: '' @ error_string e))
     (ErrWrap ''Could not create plugin clientset with the given config'') E"

text \<open>
  Without \<^verbatim>\<open>VELERO_NAMESPACE\<close> the function returns the nil upload together with the nil
  error of the client construction: \<open>Inr None\<close>.
\<close>

definition UploadSnapshot :: "env \<Rightarrow> peid \<Rightarrow> string \<Rightarrow> string \<Rightarrow> (world, goerr + Upload option) state" where
  "UploadSnapshot E uploadPE backupRepositoryName snapshotRef = do {
     cl \<leftarrow> plugin_client E;
     (case cl of
        Some e \<Rightarrow> State_Monad.return (Inl e)
      | None \<Rightarrow>
     (case e_velero_ns E of
        None \<Rightarrow> State_Monad.return (Inr None)
      | Some veleroNs \<Rightarrow> do {
          target \<leftarrow> (if pe_type uploadPE = e_pvc_type E then do {
               comps \<leftarrow> ask (\<lambda>n. e_components E n uploadPE);
               State_Monad.return (case comps of
                   Inl e \<Rightarrow> Inl e
                 | Inr cs \<Rightarrow>
                     (case cs of
                        [c] \<Rightarrow> Inr c
                      | _ \<Rightarrow> Inl (ErrMsg (''Expected 1 component, '' @ e_print_peid E uploadPE @ '' has '' @
                               decimal (length cs)))))
             } else State_Monad.return (Inr uploadPE));
          (case target of
             Inl e \<Rightarrow> State_Monad.return (Inl e)
           | Inr p \<Rightarrow>
             (case uploadCRNameForSnapshotPEID E p of
                Inl e \<Rightarrow> State_Monad.return (Inl e)
              | Inr name \<Rightarrow> do {
                  t1 \<leftarrow> clock_now E;
                  t2 \<leftarrow> clock_now E;
                  n \<leftarrow> ask (e_polls E);
                  (err, l) \<leftarrow> poll_immediate n
                    (create_upload_attempt E (veleroNs, name)
                      (build_upload veleroNs name (unix t1) (unix t2) snapshotRef (e_print_peid E p)
                        backupRepositoryName)) None;
                  State_Monad.return (case err of Some e \<Rightarrow> Inl e | None \<Rightarrow> Inr l)
                }))
        }))
   }"

section \<open>Taking a snapshot\<close>

definition snapshot_attempt ::
  "env \<Rightarrow> peid \<Rightarrow> (string \<times> string option) \<Rightarrow> (world, (goerr + bool) \<times> string \<times> string option) state" where
  "snapshot_attempt E p l = do {
     r \<leftarrow> ask (\<lambda>n. e_take_snapshot E n p);
     (case r of
        Inl e \<Rightarrow> State_Monad.return (if invalid_state e then Inr False else Inl e, l)
      | Inr (snapID, svcName) \<Rightarrow> do {
          emit (EvSnapshotCreated p snapID);
          State_Monad.return (Inr True, (snapID, svcName))
        })
   }"

definition in_local_mode :: "env \<Rightarrow> string \<Rightarrow> (world, bool) state" where
  "in_local_mode E backupRepositoryName =
     (if backupRepositoryName = WithoutBackupRepository then IsFeatureEnabled E VSphereLocalModeFlag False
      else State_Monad.return (backupRepositoryName = ''''))"

definition sm_createSnapshot ::
  "env \<Rightarrow> ClusterFlavor \<Rightarrow> peid \<Rightarrow> string \<Rightarrow> string \<Rightarrow> (world, peid \<times> string \<times> goerr option) state" where
  "sm_createSnapshot E clusterFlavor p backupRepositoryName snapshotRef = do {
     got \<leftarrow> ask (\<lambda>n. e_get_pe E n LocalPEM p);
     (case got of
        Some e \<Rightarrow> State_Monad.return (no_peid, '''', Some e)
      | None \<Rightarrow> do {
     cl \<leftarrow> connect (\<lambda>e. ErrMsg (''Could not get client config with err: '' @ error_string e))
            (ErrWrap ''Could not create kubernetes clientset'') E;
     (case cl of
        Some e \<Rightarrow> State_Monad.return (no_peid, '''', Some e)
      | None \<Rightarrow> do {
     n \<leftarrow> ask (e_polls E);
     (err, l) \<leftarrow> poll_immediate n (snapshot_attempt E p) ('''', None);
     (case err of
        Some e \<Rightarrow> State_Monad.return (no_peid, '''', Some e)
      | None \<Rightarrow>
     let snapshotPEID = with_snapshot p (fst l);
         svcSnapshotName = (case snd l of None \<Rightarrow> '''' | Some s \<Rightarrow> s)
     in if clusterFlavor = TkgGuest then State_Monad.return (snapshotPEID, svcSnapshotName, None)
        else do {
          local \<leftarrow> in_local_mode E backupRepositoryName;
          (if local then State_Monad.return (snapshotPEID, svcSnapshotName, None)
           else do {
             got2 \<leftarrow> ask (\<lambda>n. e_get_pe E n LocalPEM snapshotPEID);
             (case got2 of
                Some e \<Rightarrow> State_Monad.return (snapshotPEID, svcSnapshotName, Some e)
              | None \<Rightarrow> do {
                  r \<leftarrow> UploadSnapshot E snapshotPEID backupRepositoryName snapshotRef;
                  State_Monad.return (snapshotPEID, svcSnapshotName,
                    case r of Inl e \<Rightarrow> Some e | Inr _ \<Rightarrow> None)
                })
           })
        })
       })
       })
   }"

definition CreateSnapshot :: "env \<Rightarrow> ClusterFlavor \<Rightarrow> peid \<Rightarrow> (world, goerr + peid) state" where
  "CreateSnapshot E clusterFlavor p = do {
     (q, _, err) \<leftarrow> sm_createSnapshot E clusterFlavor p WithoutBackupRepository '''';
     State_Monad.return (case err of Some e \<Rightarrow> Inl e | None \<Rightarrow> Inr q)
   }"

section \<open>Deleting a snapshot\<close>

definition isTerminalState :: "Upload option \<Rightarrow> bool" where
  "isTerminalState uploadCR =
     (case uploadCR of
        None \<Rightarrow> True
      | Some u \<Rightarrow> ut_Phase (u_Status u) = UploadPhaseCompleted
               \<or> ut_Phase (u_Status u) = UploadPhaseCleanupFailed
               \<or> ut_Phase (u_Status u) = UploadPhaseCanceled
               \<or> ut_Phase (u_Status u) = UploadPhaseUploadFailedAfterRetry)"

definition request_cancel :: "env \<Rightarrow> Upload \<Rightarrow> (world, Upload) state" where
  "request_cancel E r = do {
     now \<leftarrow> clock_now E;
     State_Monad.return (r\<lparr>
       u_Spec := (u_Spec r)\<lparr>us_UploadCancel := True\<rparr>,
       u_Status := (u_Status r)\<lparr>ut_StartTimestamp := Some (unix now),
         ut_Message := ''Canceling on going upload to repository.''\<rparr>\<rparr>)
   }"

text \<open>
  The first half: look for the Upload of the snapshot. \<open>Inl r\<close> ends the deletion with
  result \<open>r\<close> (the upload was told to cancel, or something failed); \<open>Inr q\<close> goes on with
  the entity \<open>q\<close>.
\<close>

definition cancel_upload_step :: "env \<Rightarrow> peid \<Rightarrow> (world, goerr option + peid) state" where
  "cancel_upload_step E p =
     (case e_velero_ns E of
        None \<Rightarrow> State_Monad.return (Inl None)
      | Some veleroNs \<Rightarrow>
     (case (if pe_type p = e_ivd_type E then Inr (pe_snapshot p)
            else or_overflow (decodeSnapshotID E (pe_snapshot p))) of
        Inl e \<Rightarrow> State_Monad.return (Inl (Some e))
      | Inr snapID \<Rightarrow> do {
          got \<leftarrow> cr_get w_uploads E (veleroNs, ''upload-'' @ snapID);
          let uploadCR = (case got of Inl _ \<Rightarrow> None | Inr u \<Rightarrow> Some u);
          (if uploadCR \<noteq> None \<and> \<not> isTerminalState uploadCR then do {
             (r, _) \<leftarrow> PatchUpload E (veleroNs, ''upload-'' @ snapID) (the uploadCR) (request_cancel E);
             State_Monad.return (Inl (case r of Inl e \<Rightarrow> Some e | Inr _ \<Rightarrow> None))
           } else
             State_Monad.return
               (if pe_type p = e_ivd_type E then Inr p
                else (case or_overflow (decodePeIdFromSnapshotID E (pe_snapshot p)) of
                        Inl e \<Rightarrow> Inl (Some (if is_panic e then e
                                   else ErrWrap (''Failed to translate snapshotID '' @
                                     pe_snapshot p @ '' into pe-id'') e))
                      | Inr q \<Rightarrow> Inr q)))
        }))"

text \<open>The second half: the local snapshot, then the copy in the repository.\<close>

definition delete_copies ::
  "env \<Rightarrow> ClusterFlavor \<Rightarrow> peid \<Rightarrow> string \<Rightarrow> (world, goerr option) state" where
  "delete_copies E clusterFlavor p backupRepositoryName = do {
     got \<leftarrow> ask (\<lambda>n. e_get_pe E n LocalPEM p);
     (case got of
        Some e \<Rightarrow> State_Monad.return (Some e)
      | None \<Rightarrow> do {
     del \<leftarrow> ask (\<lambda>n. e_delete_snapshot E n LocalPEM p (pe_snapshot p));
     (case del of
        Inl e \<Rightarrow> State_Monad.return (Some e)
      | Inr status \<Rightarrow> do {
     (if status then emit (EvSnapshotDeleted LocalPEM p (pe_snapshot p)) else State_Monad.return ());
     (if clusterFlavor = TkgGuest then State_Monad.return None
      else do {
        local \<leftarrow> in_local_mode E backupRepositoryName;
        (if local then State_Monad.return None
         else if backupRepositoryName \<noteq> '''' \<and> backupRepositoryName \<noteq> WithoutBackupRepository then do {
           br \<leftarrow> cr_get w_brs E ('''', backupRepositoryName);
           (case br of
              Inl e \<Rightarrow> State_Monad.return (Some e)
            | Inr b \<Rightarrow> DeleteRemoteSnapshotFromRepo E p b)
         } else DeleteRemoteSnapshot E p)
      })
       })
       })
   }"

definition sm_deleteSnapshot :: "env \<Rightarrow> peid \<Rightarrow> string \<Rightarrow> (world, goerr option) state" where
  "sm_deleteSnapshot E p backupRepositoryName = do {
     cfg \<leftarrow> ask (e_client E);
     (case cfg of
        Some e \<Rightarrow> State_Monad.return (Some e)
      | None \<Rightarrow> do {
     kube \<leftarrow> ask (e_client E);
     (case kube of
        Some e \<Rightarrow> State_Monad.return (Some e)
      | None \<Rightarrow> do {
     plug \<leftarrow> ask (e_client E);
     (case plug of
        Some e \<Rightarrow> State_Monad.return (Some e)
      | None \<Rightarrow> do {
     fl \<leftarrow> GetClusterFlavor E True;
     (case fl of
        Inl e \<Rightarrow> State_Monad.return (Some e)
      | Inr clusterFlavor \<Rightarrow>
          (if clusterFlavor = Supervisor \<or> clusterFlavor = VSphere then do {
             r \<leftarrow> cancel_upload_step E p;
             (case r of
                Inl result \<Rightarrow> State_Monad.return result
              | Inr q \<Rightarrow> delete_copies E clusterFlavor q backupRepositoryName)
           } else delete_copies E clusterFlavor p backupRepositoryName))
       })
       })
       })
   }"

section \<open>Restoring a volume\<close>

text \<open>\<^verbatim>\<open>builder.ForDownload(\<dots>)\<dots>Result()\<close> as \<^verbatim>\<open>CreateVolumeFromSnapshot\<close> uses it.\<close>

definition build_download ::
  "string \<Rightarrow> string \<Rightarrow> seconds \<Rightarrow> seconds \<Rightarrow> string \<Rightarrow> string \<Rightarrow> string \<Rightarrow> string \<Rightarrow> Download" where
  "build_download ns name restoreTime nextRetry snapshotID cloneRef brName volume = \<lparr>
     dl_Meta = \<lparr>om_Namespace = ns, om_Name = name, om_UID = '''',
       om_Labels = [VeleroExcludeLabel \<mapsto> ''true''], om_DeletionTimestamp = None\<rparr>,
     dl_Spec = \<lparr>dls_SnapshotID = snapshotID, dls_RestoreTimestamp = Some restoreTime,
       dls_ProtectedEntityID = volume, dls_BackupRepositoryName = brName,
       dls_CloneFromSnapshotReference = cloneRef\<rparr>,
     dl_Status = \<lparr>dlt_VolumeID = '''', dlt_Phase = DownloadPhaseNew, dlt_Message = '''',
       dlt_StartTimestamp = None, dlt_CompletionTimestamp = None,
       dlt_Progress = \<lparr>dlp_TotalBytes = 0, dlp_BytesDone = 0\<rparr>, dlt_ProcessingNode = '''',
       dlt_RetryCount = 0, dlt_NextRetryTimestamp = Some nextRetry\<rparr>\<rparr>"

definition create_download_attempt ::
  "env \<Rightarrow> key \<Rightarrow> Download \<Rightarrow> unit \<Rightarrow> (world, (goerr + bool) \<times> unit) state" where
  "create_download_attempt E k download l = do {
     r \<leftarrow> cr_create w_downloads w_downloads_update id E k download;
     State_Monad.return (case r of Inl _ \<Rightarrow> (Inr False, ()) | Inr _ \<Rightarrow> (Inr True, ()))
   }"

text \<open>
  \<^verbatim>\<open>wait.PollImmediateInfinite\<close> on the Download, which the data manager processes
  meanwhile: what each request sees is \<open>e_watch_download\<close>. \<open>fuel\<close> bounds the number of
  requests; \<open>None\<close> is a poll that goes on.
\<close>

primrec poll_download :: "env \<Rightarrow> nat \<Rightarrow> (world, (goerr + Download) option) state" where
  "poll_download E 0 = State_Monad.return None"
| "poll_download E (Suc fuel) = do {
     r \<leftarrow> ask (e_watch_download E);
     (case r of
        Inl _ \<Rightarrow> poll_download E fuel
      | Inr d \<Rightarrow>
          if dlt_Phase (dl_Status d) = DownloadPhaseCompleted then State_Monad.return (Some (Inr d))
          else if dlt_Phase (dl_Status d) = DownloadPhaseFailed
          then State_Monad.return (Some (Inl (ErrMsg ''Download Failed.'')))
          else poll_download E fuel)
   }"

text \<open>The conversion \<^verbatim>\<open>ClonePhase(download.Status.Phase)\<close> of the phase strings.\<close>

fun clone_phase :: "DownloadPhase \<Rightarrow> ClonePhase" where
  "clone_phase DownloadPhaseUnset = ClonePhaseUnset"
| "clone_phase DownloadPhaseNew = ClonePhaseNew"
| "clone_phase DownloadPhaseInProgress = ClonePhaseInProgress"
| "clone_phase DownloadPhaseCompleted = ClonePhaseCompleted"
| "clone_phase DownLoadPhaseRetry = ClonePhaseRetry"
| "clone_phase DownloadPhaseFailed = ClonePhaseFailed"

definition clone_status_of :: "Download \<Rightarrow> CloneStatus \<Rightarrow> CloneStatus" where
  "clone_status_of d s = s\<lparr>
     clt_Phase := clone_phase (dlt_Phase (dl_Status d)),
     clt_Message := dlt_Message (dl_Status d),
     clt_ResourceHandle := Some \<lparr>tr_APIGroup = Some '''', tr_Kind = ''PersistentVolumeClaim'',
       tr_Name = dlt_VolumeID (dl_Status d)\<rparr>\<rparr>"

definition report_clone :: "env \<Rightarrow> key \<Rightarrow> Download \<Rightarrow> (world, goerr option) state" where
  "report_clone E ck d = do {
     got \<leftarrow> cr_get w_clones E ck;
     (case got of
        Inl e \<Rightarrow> State_Monad.return (Some e)
      | Inr c \<Rightarrow> do {
          r \<leftarrow> cr_modify w_clones w_clones_update E ck
                 (\<lambda>stored. stored\<lparr>cl_Status := clone_status_of d (cl_Status c)\<rparr>);
          State_Monad.return (case r of Inl e \<Rightarrow> Some e | Inr _ \<Rightarrow> None)
        })
   }"

text \<open>The part after the Download was filed: wait for it, then report on the CloneFromSnapshot.\<close>

definition await_download ::
  "env \<Rightarrow> nat \<Rightarrow> key option \<Rightarrow> (world, (peid \<times> goerr option) option) state" where
  "await_download E fuel cloneKey = do {
     r \<leftarrow> poll_download E fuel;
     (case r of
        None \<Rightarrow> State_Monad.return None
      | Some (Inl e) \<Rightarrow> State_Monad.return (Some (no_peid, Some e))
      | Some (Inr d) \<Rightarrow>
          (case e_parse_peid E (dlt_VolumeID (dl_Status d)) of
             Inl e \<Rightarrow> State_Monad.return (Some (no_peid, Some e))
           | Inr updatedID \<Rightarrow>
               (case cloneKey of
                  None \<Rightarrow> State_Monad.return (Some (updatedID, None))
                | Some ck \<Rightarrow> do {
                    err \<leftarrow> report_clone E ck d;
                    State_Monad.return (Some (updatedID, err))
                  })))
   }"

text \<open>
  \<open>cloneParams\<close> is \<^verbatim>\<open>params["CloneFromSnapshotReference"]\<close>. A missing
  \<^verbatim>\<open>VELERO_NAMESPACE\<close> returns the zero identifier with a nil error.
\<close>

definition CreateVolumeFromSnapshot ::
  "env \<Rightarrow> nat \<Rightarrow> peid \<Rightarrow> peid \<Rightarrow> params \<Rightarrow> (world, (peid \<times> goerr option) option) state" where
  "CreateVolumeFromSnapshot E fuel source destination cloneParams = do {
     cl \<leftarrow> connect id id E;
     (case cl of
        Some e \<Rightarrow> State_Monad.return (Some (no_peid, Some e))
      | None \<Rightarrow>
     (case e_velero_ns E of
        None \<Rightarrow> State_Monad.return (Some (no_peid, None))
      | Some veleroNs \<Rightarrow> do {
     uuID \<leftarrow> ask (e_uuid E);
     (case uuID of
        Inl e \<Rightarrow> State_Monad.return (Some (no_peid, Some e))
      | Inr uuid \<Rightarrow>
     let (cloneNs, nsExists) = GetStringFromParamsMap cloneParams ''CloneFromSnapshotNamespace'';
         (cloneName, nameExists) = GetStringFromParamsMap cloneParams ''CloneFromSnapshotName'';
         (repo, ok) = GetStringFromParamsMap cloneParams ''BackupRepositoryName'';
         brName = (if ok then repo else WithoutBackupRepository);
         name = ''download-'' @ pe_snapshot source @ ''-'' @ uuid
     in do {
       t1 \<leftarrow> clock_now E;
       t2 \<leftarrow> clock_now E;
       n \<leftarrow> ask (e_polls E);
       (err, _) \<leftarrow> poll_immediate n (create_download_attempt E (veleroNs, name)
          (build_download veleroNs name (unix t1) (unix t2) (e_print_peid E source)
            (cloneNs @ ''/'' @ cloneName) brName
            (if destination = no_peid then '''' else e_print_peid E destination))) ();
       (case err of
          Some e \<Rightarrow> State_Monad.return (Some (no_peid, Some e))
        | None \<Rightarrow> await_download E fuel
            (if nameExists \<and> nsExists then Some (cloneNs, cloneName) else None))
     })
     }))
   }"

text \<open>
  \<^verbatim>\<open>CreateFromMetadata\<close> is Astrolabe's (for a PVC) or the paravirtual type manager's;
  the type assertion on the PVC manager fails, as a panic, if there is none.
\<close>

definition create_from_metadata ::
  "env \<Rightarrow> string \<Rightarrow> petm \<Rightarrow> string \<Rightarrow> peid \<Rightarrow> (world, goerr + peid) state" where
  "create_from_metadata E peType repo metadata snapshotID =
     (if \<not> e_has_petm E peType then State_Monad.return (Inl (GoPanic ''type assertion on a nil manager''))
      else do {
        r \<leftarrow> ask (\<lambda>n. e_create_from_metadata E n repo metadata snapshotID);
        (case r of
           Inl e \<Rightarrow> State_Monad.return (Inl (ErrWrap ''Error creating volume from metadata'' e))
         | Inr p \<Rightarrow> do { emit (EvVolumeCreated p); State_Monad.return (Inr p) })
      })"

definition CreateVolumeFromSnapshotWithMetadata ::
  "env \<Rightarrow> ClusterFlavor \<Rightarrow> peid \<Rightarrow> string \<Rightarrow> string \<Rightarrow> string \<Rightarrow> (world, goerr + peid) state" where
  "CreateVolumeFromSnapshotWithMetadata E clusterFlavor p metadata snapshotIDStr backupRepositoryName =
     (case e_parse_peid E snapshotIDStr of
        Inl e \<Rightarrow> State_Monad.return (Inl (ErrWrap ''Error creating volume from metadata'' e))
      | Inr snapshotID \<Rightarrow>
          if clusterFlavor \<noteq> TkgGuest then
            (if backupRepositoryName \<noteq> '''' \<and> backupRepositoryName \<noteq> WithoutBackupRepository then do {
               br \<leftarrow> GetBackupRepositoryFromBackupRepositoryName E backupRepositoryName;
               (case br of
                  Inl e \<Rightarrow> State_Monad.return (Inl e)
                | Inr b \<Rightarrow> do {
                    repo \<leftarrow> GetRepositoryFromBackupRepository E b;
                    (case repo of
                       Inl e \<Rightarrow> State_Monad.return (Inl e)
                     | Inr cfg \<Rightarrow> create_from_metadata E (pe_type p) (S3PETM cfg) metadata snapshotID)
                  })
             } else State_Monad.return (Inl (ErrMsg
               ''BackupRepository unset during restore, local mode set during restore is unsupported.'')))
          else create_from_metadata E ''paravirt-pv'' NilPETM metadata snapshotID)"

section \<open>Lemmas\<close>

lemma keeps_delete_attempt [frame]:
  assumes "\<And>w n. I w \<Longrightarrow> I (w\<lparr>w_tick := n\<rparr>)"
    and "\<And>w. I w \<Longrightarrow> I (w\<lparr>w_trace := w_trace w @ [EvSnapshotDeleted m p (pe_snapshot p)]\<rparr>)"
  shows "keeps I (delete_attempt E p m l)"
  unfolding delete_attempt_def by (intro keeps_rules frame) (use assms in auto)

lemma keeps_deleteSnapshotFromRepo [frame]:
  assumes "\<And>w n. I w \<Longrightarrow> I (w\<lparr>w_tick := n\<rparr>)"
    and "\<And>w. I w \<Longrightarrow> I (w\<lparr>w_trace := w_trace w @ [EvSnapshotDeleted m p (pe_snapshot p)]\<rparr>)"
  shows "keeps I (deleteSnapshotFromRepo E p m)"
  unfolding deleteSnapshotFromRepo_def
  by (intro keeps_rules frame keeps_poll_immediate) (use assms in \<open>auto split: list.splits intro!: keeps_rules frame keeps_poll_immediate\<close>)

lemma keeps_DeleteLocalSnapshot [frame]:
  assumes "\<And>w n. I w \<Longrightarrow> I (w\<lparr>w_tick := n\<rparr>)"
    and "\<And>w. I w \<Longrightarrow> I (w\<lparr>w_trace := w_trace w @ [EvSnapshotDeleted LocalPEM p (pe_snapshot p)]\<rparr>)"
  shows "keeps I (DeleteLocalSnapshot E p)"
  unfolding DeleteLocalSnapshot_def
proof (cases "e_has_petm E (pe_type p)")
  case True
  then show "keeps I (deleteSnapshotFromRepo E p (if e_has_petm E (pe_type p) then LocalPEM else NilPETM))"
    using keeps_deleteSnapshotFromRepo [OF assms] by simp
next
  case False
  then show "keeps I (deleteSnapshotFromRepo E p (if e_has_petm E (pe_type p) then LocalPEM else NilPETM))"
    by (auto simp: deleteSnapshotFromRepo_def intro!: triple_return)
qed

text \<open>
  A deletion that reports success deleted the snapshot, found none to delete, or was asked for
  an entity without a snapshot.
\<close>

lemma deleteSnapshotFromRepo_success:
  "triple (\<lambda>w. True) (deleteSnapshotFromRepo E p m)
     (\<lambda>r w. r = None \<longrightarrow> \<not> e_has_snapshot E p \<or> (\<exists>n. e_list_snapshots E n m p = Inr []) \<or>
        EvSnapshotDeleted m p (pe_snapshot p) \<in> set (w_trace w))"
proof -
  let ?K = "\<lambda>(_ :: unit) w. EvSnapshotDeleted m p (pe_snapshot p) \<in> set (w_trace w)"
  have att: "triple (\<lambda>w. True) (delete_attempt E p m l) (\<lambda>(r, l') w. True \<and> (r = Inr True \<longrightarrow> ?K l' w))" for l
    by (auto simp: delete_attempt_def triple_def split: sum.splits)
  have poll: "triple (\<lambda>w. True) (poll_immediate n (delete_attempt E p m) ())
      (\<lambda>(e, l') w. True \<and> (e = None \<longrightarrow> ?K l' w))" for n
    by (rule poll_immediate_invariant [OF att])
  have loop: "triple (\<lambda>w. True) (do { n \<leftarrow> ask (e_polls E);
       (err, _) \<leftarrow> poll_immediate n (delete_attempt E p m) (); State_Monad.return err })
     (\<lambda>r w. r = None \<longrightarrow> EvSnapshotDeleted m p (pe_snapshot p) \<in> set (w_trace w))"
    by (rule triple_bind [where R = "\<lambda>_ _. True"], simp add: triple_def, rule triple_bind [OF poll])
       (auto intro!: triple_return)
  have listed: "triple (\<lambda>w. True) (ask (\<lambda>n. e_list_snapshots E n m p))
     (\<lambda>r w. \<exists>n. r = e_list_snapshots E n m p)"
    by (auto simp: triple_def)
  have got: "triple (\<lambda>w. True) (ask (\<lambda>n. e_get_pe E n m p)) (\<lambda>_ w. True)"
    by (simp add: triple_def)
  show ?thesis
    unfolding deleteSnapshotFromRepo_def
    apply (intro triple_if triple_return triple_bind [OF got] triple_case_option triple_bind [OF listed])
    subgoal by simp
    subgoal by simp
    subgoal for r r'
      by (cases r') (auto split: list.splits intro!: triple_return triple_weaken [OF loop])
    subgoal by simp
    done
qed

lemmas snapshot_manager_evals [evals] =
  delete_attempt_def deleteSnapshotFromRepo_def DeleteLocalSnapshot_def DeleteRemoteSnapshot_def
  DeleteRemoteSnapshotFromRepo_def

end
