(* ===== verification/Upload_Controller.thy ===== *)
theory Upload_Controller
  imports Snapshot_Manager
begin

text \<open>
  The upload controller (\<^verbatim>\<open>pkg/controller/upload_controller.go\<close>) and the work queue loop
  it runs in (\<^verbatim>\<open>pkg/controller/generic_controller.go\<close>). One instance runs on each node;
  \<open>node\<close> is \<^verbatim>\<open>c.nodeName\<close>.

  An Upload is addressed by its key (namespace and name), which the API server keeps equal to
  the name in its metadata. The informer's cache answers through \<open>e_upload_cache\<close> and may be
  behind the API server. A work queue is seen through the calls made on it; a queue key is the
  pair that \<^verbatim>\<open>SplitMetaNamespaceKey\<close> gives back for a key that \<^verbatim>\<open>enqueue\<close> built.
  A result \<open>GoPanic\<close> is a panic that leaves the function at that point.
\<close>

section \<open>Generic controller\<close>

text \<open>
  One turn of a worker. \<open>item = None\<close> is a queue that is shut down. The result is
  \<^verbatim>\<open>processNextWorkItem\<close>'s, or the panic of a handler. The controllers keep their state in
  different types; \<open>record_event\<close> records a call on the queue in it.
\<close>

definition processNextWorkItem ::
  "(event \<Rightarrow> ('s, unit) state) \<Rightarrow> string \<Rightarrow> (key \<Rightarrow> ('s, goerr option) state) \<Rightarrow>
   (key \<Rightarrow> ('s, goerr option) state) \<Rightarrow> key option \<Rightarrow> ('s, goerr + bool) state" where
  "processNextWorkItem record_event queue syncHandler retryHandler item =
     (case item of
        None \<Rightarrow> State_Monad.return (Inr False)
      | Some k \<Rightarrow> do {
          err \<leftarrow> syncHandler k;
          (case err of
             None \<Rightarrow> do { record_event (EvQueueForget queue k); State_Monad.return (Inr True) }
           | Some e \<Rightarrow>
               if is_panic e then State_Monad.return (Inl e)
               else do {
                 r \<leftarrow> retryHandler k;
                 State_Monad.return (case r of
                     None \<Rightarrow> Inr True
                   | Some e' \<Rightarrow> if is_panic e' then Inl e' else Inr True)
               })
        })"

definition enqueue :: "string \<Rightarrow> key \<Rightarrow> (world, unit) state" where
  "enqueue queue k = emit (EvQueueAdd queue k)"

section \<open>Writing the status\<close>

text \<open>
  \<^verbatim>\<open>math.Exp2(float64(retry - 1))\<close>, capped. The subtraction wraps at 32 bits; a negative
  exponent gives a fraction, which both conversions of the result cut to 0.
\<close>

definition upload_backoff :: "int32 \<Rightarrow> int" where
  "upload_backoff retry =
     (let e = sint (retry - 1) in if e < 0 then 0 else min UPLOAD_MAX_BACKOFF (2 ^ nat e))"

definition set_final :: "env \<Rightarrow> UploadPhase \<Rightarrow> string \<Rightarrow> Upload \<Rightarrow> (world, Upload) state" where
  "set_final E newPhase msg r = do {
     now \<leftarrow> clock_now E;
     State_Monad.return (r\<lparr>u_Status := (u_Status r)\<lparr>
       ut_Phase := newPhase, ut_CompletionTimestamp := Some (unix now), ut_Message := msg\<rparr>\<rparr>)
   }"

definition set_retry :: "env \<Rightarrow> UploadPhase \<Rightarrow> string \<Rightarrow> Upload \<Rightarrow> (world, Upload) state" where
  "set_retry E newPhase msg r = do {
     now \<leftarrow> clock_now E;
     let retry = ut_RetryCount (u_Status r) + 1;
     let currentBackOff = upload_backoff retry;
     later \<leftarrow> clock_now E;
     State_Monad.return (r\<lparr>u_Status := (u_Status r)\<lparr>
       ut_Phase := newPhase, ut_CompletionTimestamp := Some (unix now), ut_Message := msg,
       ut_RetryCount := retry, ut_CurrentBackOff := word_of_int currentBackOff,
       ut_NextRetryTimestamp := Some (unix (later + currentBackOff * 60 * nanos_per_second))\<rparr>\<rparr>)
   }"

definition set_in_progress :: "env \<Rightarrow> string \<Rightarrow> Upload \<Rightarrow> (world, Upload) state" where
  "set_in_progress E node r = do {
     r' \<leftarrow> (if ut_Phase (u_Status r) = UploadPhaseNew then do {
              now \<leftarrow> clock_now E;
              State_Monad.return (r\<lparr>u_Status := (u_Status r)\<lparr>
                ut_StartTimestamp := Some (unix now), ut_RetryCount := MIN_RETRY\<rparr>\<rparr>)
            } else State_Monad.return r);
     State_Monad.return (r'\<lparr>u_Status := (u_Status r')\<lparr>
       ut_Phase := UploadPhaseInProgress, ut_ProcessingNode := node\<rparr>\<rparr>)
   }"

definition patchUploadByStatus ::
  "env \<Rightarrow> string \<Rightarrow> key \<Rightarrow> UploadPhase \<Rightarrow> string \<Rightarrow> Upload \<Rightarrow> (world, (goerr + Upload) \<times> Upload) state" where
  "patchUploadByStatus E node k newPhase msg req =
     (case newPhase of
        UploadPhaseCompleted \<Rightarrow> PatchUpload E k req (set_final E newPhase msg)
      | UploadPhaseUploadError \<Rightarrow> PatchUpload E k req (set_retry E newPhase msg)
      | UploadPhaseCleanupFailed \<Rightarrow> PatchUpload E k req (set_retry E newPhase msg)
      | UploadPhaseInProgress \<Rightarrow> PatchUpload E k req (set_in_progress E node)
      | UploadPhaseCanceled \<Rightarrow> PatchUpload E k req (set_final E newPhase msg)
      | UploadPhaseCanceling \<Rightarrow> PatchUpload E k req (set_final E newPhase msg)
      | UploadPhaseUploadFailedAfterRetry \<Rightarrow> PatchUpload E k req (set_final E newPhase msg)
      | _ \<Rightarrow> State_Monad.return (Inl (ErrMsg ''Unexpected upload phase''), req))"

definition patchUploadByStatusWithRetry ::
  "env \<Rightarrow> string \<Rightarrow> key \<Rightarrow> Upload \<Rightarrow> UploadPhase \<Rightarrow> string \<Rightarrow> (world, goerr + Upload) state" where
  "patchUploadByStatusWithRetry E node k req newPhase msg =
     patch_with_retry E (patchUploadByStatus E node k newPhase msg) req"

section \<open>Processing an upload\<close>

text \<open>
  A failed attempt: the new status is written with the error text, and the text of a failure
  to write it is appended to the error that is returned.
\<close>

definition fail_upload ::
  "env \<Rightarrow> string \<Rightarrow> key \<Rightarrow> Upload \<Rightarrow> UploadPhase \<Rightarrow> string \<Rightarrow> (world, goerr option) state" where
  "fail_upload E node k req newPhase errMsg = do {
     r \<leftarrow> patchUploadByStatusWithRetry E node k req newPhase errMsg;
     State_Monad.return (Some (ErrMsg (case r of
         Inl e \<Rightarrow> errMsg @ ''. '' @ error_string e
       | Inr _ \<Rightarrow> errMsg)))
   }"

text \<open>
  A failed clean-up of the local snapshot on the two paths that announce a retry; here the
  text of a failure to write the status replaces the error.
\<close>

definition fail_cleanup ::
  "env \<Rightarrow> string \<Rightarrow> key \<Rightarrow> Upload \<Rightarrow> peid \<Rightarrow> goerr \<Rightarrow> (world, goerr option) state" where
  "fail_cleanup E node k req p err = do {
     let errMsg = ''Failed to clean up local snapshot, '' @ e_print_peid E p @ '', error: '' @
                  error_string err @ ''. will retry.'';
     r \<leftarrow> patchUploadByStatusWithRetry E node k req UploadPhaseCleanupFailed errMsg;
     State_Monad.return (Some (ErrMsg (case r of
         Inl e \<Rightarrow> ''Failed to patch Upload status with retry, errror: '' @ error_string e
       | Inr _ \<Rightarrow> errMsg)))
   }"

text \<open>Deleting the local snapshot and, once it is gone, writing \<open>final\<close>.\<close>

definition cleanup_then ::
  "env \<Rightarrow> string \<Rightarrow> key \<Rightarrow> Upload \<Rightarrow> peid \<Rightarrow> UploadPhase \<Rightarrow> (world, goerr option) state" where
  "cleanup_then E node k req p final = do {
     err \<leftarrow> DeleteLocalSnapshot E p;
     (case err of
        Some e \<Rightarrow>
          if is_panic e then State_Monad.return (Some e) else fail_cleanup E node k req p e
      | None \<Rightarrow> do {
          _ \<leftarrow> patchUploadByStatusWithRetry E node k req final
                 (''Successfully deleted local snapshot, '' @ e_print_peid E p);
          State_Monad.return None
        })
   }"

text \<open>
  The copy. \<open>Inl\<close> is the early return when the named repository cannot be read.
\<close>

definition copy_upload :: "env \<Rightarrow> Upload \<Rightarrow> peid \<Rightarrow> (world, goerr + (goerr + peid)) state" where
  "copy_upload E req p =
     (let name = us_BackupRepositoryName (u_Spec req) in
      if name \<noteq> '''' \<and> name \<noteq> WithoutBackupRepository then do {
        br \<leftarrow> GetBackupRepositoryFromBackupRepositoryName E name;
        (case br of
           Inl e \<Rightarrow> State_Monad.return (Inl e)
         | Inr b \<Rightarrow> do {
             r \<leftarrow> CopyToRepoWithBackupRepository E p b;
             State_Monad.return (Inr r)
           })
      } else do {
        r \<leftarrow> CopyToRepo E p;
        State_Monad.return (Inr r)
      })"

text \<open>What follows a failed copy: cancellation, another try, or giving up.\<close>

definition copy_failed ::
  "env \<Rightarrow> string \<Rightarrow> key \<Rightarrow> Upload \<Rightarrow> peid \<Rightarrow> goerr \<Rightarrow> (world, goerr option) state" where
  "copy_failed E node k req p err =
     (if is_panic err then State_Monad.return (Some err)
      else if is_canceled err then do {
        r \<leftarrow> patchUploadByStatusWithRetry E node k req UploadPhaseCanceled ''The upload was canceled.'';
        State_Monad.return (case r of Inl e \<Rightarrow> Some e | Inr _ \<Rightarrow> None)
      } else do {
        uploadCRRetryMaximum \<leftarrow> GetUploadCRRetryMaximum E;
        (if sint (ut_RetryCount (u_Status req)) < sint (word_of_int uploadCRRetryMaximum :: int32) then
           fail_upload E node k req UploadPhaseUploadError
             (''Failed to upload snapshot, '' @ e_print_peid E p @ '', to durable object storage. '' @
              error_string err)
         else cleanup_then E node k req p UploadPhaseUploadFailedAfterRetry)
      })"

text \<open>What follows a copy that succeeded.\<close>

definition copy_done ::
  "env \<Rightarrow> string \<Rightarrow> key \<Rightarrow> Upload \<Rightarrow> peid \<Rightarrow> (world, goerr option) state" where
  "copy_done E node k req p = do {
     update_world (UnregisterOngoingUpload p);
     err \<leftarrow> DeleteLocalSnapshot E p;
     (case err of
        Some e \<Rightarrow>
          if is_panic e then State_Monad.return (Some e)
          else fail_upload E node k req UploadPhaseCleanupFailed
                 (''Failed to clean up local snapshot after uploading snapshot, '' @ e_print_peid E p @
                  ''. '' @ error_string e)
      | None \<Rightarrow> do {
          r \<leftarrow> patchUploadByStatusWithRetry E node k req UploadPhaseCompleted ''Upload completed'';
          State_Monad.return (case r of Inl e \<Rightarrow> Some e | Inr _ \<Rightarrow> None)
        })
   }"

definition process_started ::
  "env \<Rightarrow> string \<Rightarrow> key \<Rightarrow> Upload \<Rightarrow> (world, goerr option) state" where
  "process_started E node k req =
     (case e_parse_peid E (us_SnapshotID (u_Spec req)) of
        Inl e \<Rightarrow> fail_upload E node k req UploadPhaseUploadError
                   (''Failed to get PEID from SnapshotID, '' @ us_SnapshotID (u_Spec req) @ ''. '' @
                    error_string e)
      | Inr p \<Rightarrow>
          if ut_Phase (u_Status req) = UploadPhaseCleanupFailed then
            cleanup_then E node k req p UploadPhaseCompleted
          else do {
            r \<leftarrow> copy_upload E req p;
            (case r of
               Inl e \<Rightarrow> State_Monad.return (Some e)
             | Inr (Inl e) \<Rightarrow> copy_failed E node k req p e
             | Inr (Inr _) \<Rightarrow> copy_done E node k req p)
          })"

text \<open>Marking the Upload as in progress, unless it already is or only the clean-up is left.\<close>

definition start_upload ::
  "env \<Rightarrow> string \<Rightarrow> key \<Rightarrow> Upload \<Rightarrow> (world, goerr option) state" where
  "start_upload E node k req =
     (if ut_Phase (u_Status req) \<noteq> UploadPhaseInProgress
         \<and> ut_Phase (u_Status req) \<noteq> UploadPhaseCleanupFailed then do {
        r \<leftarrow> patchUploadByStatusWithRetry E node k req UploadPhaseInProgress '''';
        (case r of
           Inl e \<Rightarrow> State_Monad.return (Some e)
         | Inr started \<Rightarrow> process_started E node k started)
      } else process_started E node k req)"

definition processUpload :: "env \<Rightarrow> string \<Rightarrow> key \<Rightarrow> (world, goerr option) state" where
  "processUpload E node k = do {
     got \<leftarrow> cr_get w_uploads E k;
     (case got of
        Inl e \<Rightarrow> State_Monad.return (Some e)
      | Inr req \<Rightarrow>
          let phase = ut_Phase (u_Status req) in
          if phase = UploadPhaseCanceled \<or> phase = UploadPhaseCanceling
             \<or> phase = UploadPhaseCompleted \<or> phase = UploadPhaseUploadFailedAfterRetry
          then State_Monad.return None
          else start_upload E node k req)
   }"

section \<open>Cancellation\<close>

definition is_uploading :: "peid \<Rightarrow> (world, bool) state" where
  "is_uploading p = State (\<lambda>w. (IsUploading p w, w))"

lemma run_is_uploading [simp]: "run_state (is_uploading p) w = (IsUploading p w, w)"
  by (simp add: is_uploading_def)

definition triggerUploadCancellation ::
  "env \<Rightarrow> string \<Rightarrow> key \<Rightarrow> Upload \<Rightarrow> (world, goerr option) state" where
  "triggerUploadCancellation E node k req =
     (case e_parse_peid E (us_SnapshotID (u_Spec req)) of
        Inl e \<Rightarrow> State_Monad.return (Some e)
      | Inr cancelPeId \<Rightarrow> do {
          uploadStatus \<leftarrow> is_uploading cancelPeId;
          (if \<not> uploadStatus then State_Monad.return None
           else do {
             r \<leftarrow> patchUploadByStatusWithRetry E node k req UploadPhaseCanceling
                    ''Canceling on-going upload to repository.'';
             (case r of
                Inl e \<Rightarrow> State_Monad.return (Some e)
              | Inr _ \<Rightarrow> CancelUpload cancelPeId)
           })
        })"

section \<open>The handlers\<close>

text \<open>
  The lease decides whether this node runs \<^verbatim>\<open>processUpload\<close>. A lease that is lost while
  the goroutine still works makes \<^verbatim>\<open>RunOrDie\<close> return before the error is stored: the work
  is done and the handler reports success.
\<close>

definition processUploadItem :: "env \<Rightarrow> string \<Rightarrow> key \<Rightarrow> (world, goerr option) state" where
  "processUploadItem E node k = do {
     got \<leftarrow> ask (\<lambda>n. e_upload_cache E n k);
     (case got of
        Inl e \<Rightarrow> State_Monad.return
          (if is_not_found e then None else Some (ErrWrap ''Failed to get Upload'' e))
      | Inr req \<Rightarrow>
          if ut_Phase (u_Status req) \<notin> {UploadPhaseUnset, UploadPhaseNew, UploadPhaseInProgress,
               UploadPhaseUploadError, UploadPhaseCleanupFailed, UploadPhaseCanceling}
          then State_Monad.return None
          else if us_UploadCancel (u_Spec req) then do {
            _ \<leftarrow> triggerUploadCancellation E node k req;
            State_Monad.return None
          } else do {
            lease \<leftarrow> ask (e_lease E);
            (case lease of
               LeaseHeldByOther \<Rightarrow> State_Monad.return None
             | LeaseAcquired \<Rightarrow> processUpload E node k
             | LeaseLost \<Rightarrow> do {
                 r \<leftarrow> processUpload E node k;
                 State_Monad.return (case r of
                     Some e \<Rightarrow> if is_panic e then Some e else None
                   | None \<Rightarrow> None)
               })
          })
   }"

text \<open>
  The event handler of the informer: \<open>None\<close> unless the code panics, which it does on a nil
  timestamp.
\<close>

definition on_upload_node :: "env \<Rightarrow> string \<Rightarrow> Upload \<Rightarrow> (world, goerr + bool) state" where
  "on_upload_node E node req =
     (case e_parse_peid E (us_SnapshotID (u_Spec req)) of
        Inl _ \<Rightarrow> State_Monad.return (Inr False)
      | Inr p \<Rightarrow> do {
          r \<leftarrow> RetrievePodNodesByVolumeId E (pe_id p);
          State_Monad.return (case r of
              Inr uploadNodeName \<Rightarrow> Inr (node = uploadNodeName)
            | Inl (PVNotFound _) \<Rightarrow> Inr True
            | Inl e \<Rightarrow> if is_panic e then Inl e else Inr False)
        })"

definition enqueueUploadItem ::
  "env \<Rightarrow> string \<Rightarrow> bool \<Rightarrow> key \<Rightarrow> Upload \<Rightarrow> (world, goerr option) state" where
  "enqueueUploadItem E node externalDataMgr k req =
     (if ut_Phase (u_Status req) = UploadPhaseCompleted then do {
        now \<leftarrow> clock_now E;
        (case ut_CompletionTimestamp (u_Status req) of
           None \<Rightarrow> State_Monad.return (Some (GoPanic ''nil CompletionTimestamp''))
         | Some ts \<Rightarrow>
             if after_cleanup_window now ts then do {
               _ \<leftarrow> cr_delete w_uploads w_uploads_update E k;
               State_Monad.return None
             } else State_Monad.return None)
      }
      else if ut_Phase (u_Status req) \<in> {UploadPhaseCanceled, UploadPhaseUploadFailedAfterRetry}
      then State_Monad.return None
      else if us_UploadCancel (u_Spec req) then do {
        _ \<leftarrow> triggerUploadCancellation E node k req;
        State_Monad.return None
      }
      else do {
        now \<leftarrow> clock_now E;
        (case ut_NextRetryTimestamp (u_Status req) of
           None \<Rightarrow> State_Monad.return (Some (GoPanic ''nil NextRetryTimestamp''))
         | Some ts \<Rightarrow>
             if unix now < ts then State_Monad.return None
             else do {
               here \<leftarrow> (if externalDataMgr then State_Monad.return (Inr True)
                        else on_upload_node E node req);
               (case here of
                  Inl e \<Rightarrow> State_Monad.return (Some e)
                | Inr False \<Rightarrow> State_Monad.return None
                | Inr True \<Rightarrow> do { enqueue ''upload'' k; State_Monad.return None })
             })
      })"

text \<open>\<^verbatim>\<open>time.Duration(n) * time.Minute\<close>, in nanoseconds at 64 bits.\<close>

definition minutes :: "int \<Rightarrow> int" where
  "minutes n = sint (word_of_int (n * 60 * nanos_per_second) :: 64 word)"

definition exponentialBackoffHandler :: "env \<Rightarrow> key \<Rightarrow> (world, goerr option) state" where
  "exponentialBackoffHandler E k = do {
     got \<leftarrow> ask (\<lambda>n. e_upload_cache E n k);
     (case got of
        Inl e \<Rightarrow>
          if is_not_found e then do { emit (EvQueueForget ''upload'' k); State_Monad.return None }
          else State_Monad.return (Some (ErrWrap ''Failed to get Upload'' e))
      | Inr req \<Rightarrow> do {
          emit (EvQueueAddAfter ''upload'' k (minutes (sint (ut_CurrentBackOff (u_Status req)))));
          State_Monad.return None
        })
   }"

text \<open>One turn of an upload worker.\<close>

definition upload_worker :: "env \<Rightarrow> string \<Rightarrow> key option \<Rightarrow> (world, goerr + bool) state" where
  "upload_worker E node item =
     processNextWorkItem emit ''upload'' (processUploadItem E node) (exponentialBackoffHandler E) item"

section \<open>Lemmas\<close>

lemmas upload_status_defs = set_final_def set_retry_def set_in_progress_def

lemma silent_upload_status [simp, intro]:
  "silent (set_final E newPhase msg r)"
  "silent (set_retry E newPhase msg r)"
  "silent (set_in_progress E node r)"
  by (auto simp: upload_status_defs Let_def)

text \<open>Every status change leaves specification and metadata alone and sets the phase.\<close>

lemma upload_status_fields:
  "u_Spec (fst (run_state (set_final E ph msg r) w)) = u_Spec r"
  "u_Meta (fst (run_state (set_final E ph msg r) w)) = u_Meta r"
  "ut_Phase (u_Status (fst (run_state (set_final E ph msg r) w))) = ph"
  "u_Spec (fst (run_state (set_retry E ph msg r) w)) = u_Spec r"
  "u_Meta (fst (run_state (set_retry E ph msg r) w)) = u_Meta r"
  "ut_Phase (u_Status (fst (run_state (set_retry E ph msg r) w))) = ph"
  "u_Spec (fst (run_state (set_in_progress E node r) w)) = u_Spec r"
  "u_Meta (fst (run_state (set_in_progress E node r) w)) = u_Meta r"
  "ut_Phase (u_Status (fst (run_state (set_in_progress E node r) w))) = UploadPhaseInProgress"
  by (simp_all add: upload_status_defs clock_now_def Let_def)

lemma merge_upload_fields:
  "u_Spec new = u_Spec old \<Longrightarrow> u_Spec (merge_upload old new cur) = u_Spec cur"
  "u_Meta new = u_Meta old \<Longrightarrow> u_Meta (merge_upload old new cur) = u_Meta cur"
  "ut_Phase (u_Status (merge_upload old new cur)) =
     merge_field (ut_Phase (u_Status old)) (ut_Phase (u_Status new)) (ut_Phase (u_Status cur))"
  by (simp_all add: merge_upload_def merge_upload_status_def)

text \<open>
  What a patch of the status can do to the world: rewrite the status of the one Upload, whose
  phase is then the old or the new one.
\<close>

lemma keeps_PatchUpload:
  assumes tick: "\<And>w n. I w \<Longrightarrow> I (w\<lparr>w_tick := n\<rparr>)"
    and upd: "\<And>w x y. I w \<Longrightarrow> w_uploads w k = Some x \<Longrightarrow> u_Spec y = u_Spec x \<Longrightarrow> u_Meta y = u_Meta x \<Longrightarrow>
      ut_Phase (u_Status y) \<in> {ut_Phase (u_Status x), newPhase} \<Longrightarrow> I (w_uploads_update (\<lambda>m. m(k \<mapsto> y)) w)"
    and quiet: "silent (mutate req)"
    and fields: "\<And>w. u_Spec (fst (run_state (mutate req) w)) = u_Spec req"
      "\<And>w. u_Meta (fst (run_state (mutate req) w)) = u_Meta req"
      "\<And>w. ut_Phase (u_Status (fst (run_state (mutate req) w))) = newPhase"
  shows "keeps I (PatchUpload E k req mutate)"
  unfolding PatchUpload_def
proof (rule upload_patch.keeps_patch [where R = "\<lambda>new. u_Spec new = u_Spec req \<and> u_Meta new = u_Meta req \<and>
      ut_Phase (u_Status new) = newPhase"])
  fix w :: world and x new :: Upload
  assume "I w" "w_uploads w k = Some x"
    and "u_Spec new = u_Spec req \<and> u_Meta new = u_Meta req \<and> ut_Phase (u_Status new) = newPhase"
  then show "I (w_uploads_update (\<lambda>m. m(k \<mapsto> merge_upload req new x)) w)"
    by (intro upd) (auto simp: merge_upload_fields merge_field_def)
qed (use tick quiet fields in auto)

lemma keeps_patchUploadByStatus:
  assumes "\<And>w n. I w \<Longrightarrow> I (w\<lparr>w_tick := n\<rparr>)"
    and "\<And>w x y. I w \<Longrightarrow> w_uploads w k = Some x \<Longrightarrow> u_Spec y = u_Spec x \<Longrightarrow> u_Meta y = u_Meta x \<Longrightarrow>
      ut_Phase (u_Status y) \<in> {ut_Phase (u_Status x), newPhase} \<Longrightarrow> I (w_uploads_update (\<lambda>m. m(k \<mapsto> y)) w)"
  shows "keeps I (patchUploadByStatus E node k newPhase msg req)"
  unfolding patchUploadByStatus_def
  by (cases newPhase)
     (auto intro!: keeps_PatchUpload [where newPhase = newPhase] triple_return assms
       simp: upload_status_fields silent_upload_status)

lemma keeps_patchUploadByStatusWithRetry [frame]:
  assumes "\<And>w n. I w \<Longrightarrow> I (w\<lparr>w_tick := n\<rparr>)"
    and "\<And>w x y. I w \<Longrightarrow> w_uploads w k = Some x \<Longrightarrow> u_Spec y = u_Spec x \<Longrightarrow> u_Meta y = u_Meta x \<Longrightarrow>
      ut_Phase (u_Status y) \<in> {ut_Phase (u_Status x), newPhase} \<Longrightarrow> I (w_uploads_update (\<lambda>m. m(k \<mapsto> y)) w)"
  shows "keeps I (patchUploadByStatusWithRetry E node k req newPhase msg)"
  unfolding patchUploadByStatusWithRetry_def
  by (rule keeps_patch_with_retry [OF keeps_patchUploadByStatus]) (use assms in auto)

text \<open>
  \<open>upload_stable k S I\<close>: the predicate \<open>I\<close> survives every status write to the Upload
  \<open>k\<close> that leaves the phase or sets it to one of \<open>S\<close>, and the deletion of local snapshots.
\<close>

definition upload_stable :: "key \<Rightarrow> UploadPhase set \<Rightarrow> (world \<Rightarrow> bool) \<Rightarrow> bool" where
  "upload_stable k S I \<longleftrightarrow>
     (\<forall>w n. I w \<longrightarrow> I (w\<lparr>w_tick := n\<rparr>)) \<and>
     (\<forall>w x y. I w \<and> w_uploads w k = Some x \<and> u_Spec y = u_Spec x \<and> u_Meta y = u_Meta x \<and>
        ut_Phase (u_Status y) \<in> insert (ut_Phase (u_Status x)) S \<longrightarrow> I (w_uploads_update (\<lambda>m. m(k \<mapsto> y)) w)) \<and>
     (\<forall>w p. I w \<longrightarrow> I (w\<lparr>w_trace := w_trace w @ [EvSnapshotDeleted LocalPEM p (pe_snapshot p)]\<rparr>))"

text \<open>\<open>upload_copy_stable I\<close>: \<open>I\<close> also survives a copy and the changes of the registry.\<close>

definition upload_copy_stable :: "(world \<Rightarrow> bool) \<Rightarrow> bool" where
  "upload_copy_stable I \<longleftrightarrow>
     (\<forall>w m. I w \<longrightarrow> I (w\<lparr>w_ongoing := m\<rparr>)) \<and>
     (\<forall>w s3 p. I w \<longrightarrow> I (w\<lparr>w_trace := w_trace w @ [EvCopied (S3PETM s3) p]\<rparr>))"

lemma upload_stable_tick: "upload_stable k S I \<Longrightarrow> I w \<Longrightarrow> I (w\<lparr>w_tick := n\<rparr>)"
  by (simp add: upload_stable_def)

lemma upload_stable_mono: "upload_stable k S I \<Longrightarrow> T \<subseteq> S \<Longrightarrow> upload_stable k T I"
  unfolding upload_stable_def by blast

lemma keeps_write_phase:
  assumes "upload_stable k S I" and "newPhase \<in> S"
  shows "keeps I (patchUploadByStatusWithRetry E node k req newPhase msg)"
proof (rule keeps_patchUploadByStatusWithRetry)
  fix w :: world and x y :: Upload
  assume "I w" "w_uploads w k = Some x" "u_Spec y = u_Spec x" "u_Meta y = u_Meta x"
    "ut_Phase (u_Status y) \<in> {ut_Phase (u_Status x), newPhase}"
  with assms show "I (w_uploads_update (\<lambda>m. m(k \<mapsto> y)) w)"
    unfolding upload_stable_def by blast
qed (use assms in \<open>auto simp: upload_stable_def\<close>)

lemma keeps_stable_delete:
  "upload_stable k S I \<Longrightarrow> keeps I (DeleteLocalSnapshot E p)"
  by (rule keeps_DeleteLocalSnapshot) (auto simp: upload_stable_def)

lemma keeps_fail_upload:
  "upload_stable k S I \<Longrightarrow> newPhase \<in> S \<Longrightarrow> keeps I (fail_upload E node k req newPhase msg)"
  unfolding fail_upload_def by (intro keeps_rules keeps_write_phase)

lemma keeps_fail_cleanup:
  "upload_stable k S I \<Longrightarrow> UploadPhaseCleanupFailed \<in> S \<Longrightarrow> keeps I (fail_cleanup E node k req p err)"
  unfolding fail_cleanup_def by (intro keeps_rules keeps_write_phase)

lemma keeps_cleanup_then:
  "upload_stable k S I \<Longrightarrow> UploadPhaseCleanupFailed \<in> S \<Longrightarrow> final \<in> S \<Longrightarrow>
   keeps I (cleanup_then E node k req p final)"
  unfolding cleanup_then_def
  by (intro keeps_rules keeps_stable_delete keeps_fail_cleanup keeps_write_phase)

lemma keeps_copy_failed:
  assumes "upload_stable k S I"
    and "{UploadPhaseCanceled, UploadPhaseUploadError, UploadPhaseCleanupFailed,
          UploadPhaseUploadFailedAfterRetry} \<subseteq> S"
  shows "keeps I (copy_failed E node k req p err)"
  unfolding copy_failed_def
  by (intro keeps_rules keeps_write_phase [OF assms(1)] keeps_fail_upload [OF assms(1)]
        keeps_cleanup_then [OF assms(1)] keeps_GetUploadCRRetryMaximum upload_stable_tick [OF assms(1)])
     (use assms(2) in auto)

lemma keeps_copy_upload:
  assumes "\<And>w n. I w \<Longrightarrow> I (w\<lparr>w_tick := n\<rparr>)" and "upload_copy_stable I"
  shows "keeps I (copy_upload E req p)"
  using assms unfolding copy_upload_def Let_def
  by (intro keeps_rules frame) (auto simp: upload_copy_stable_def)

lemma keeps_copy_done:
  assumes "upload_stable k S I" and "upload_copy_stable I"
    and "{UploadPhaseCleanupFailed, UploadPhaseCompleted} \<subseteq> S"
  shows "keeps I (copy_done E node k req p)"
  unfolding copy_done_def
  by (intro keeps_rules keeps_write_phase [OF assms(1)] keeps_fail_upload [OF assms(1)]
        keeps_stable_delete [OF assms(1)] keeps_update_world)
     (use assms in \<open>auto simp: upload_copy_stable_def UnregisterOngoingUpload_def split: option.splits\<close>)

text \<open>The phases \<^verbatim>\<open>processUpload\<close> writes.\<close>

definition processed_phases :: "UploadPhase set" where
  "processed_phases = {UploadPhaseUploadError, UploadPhaseCleanupFailed, UploadPhaseCompleted,
     UploadPhaseCanceled, UploadPhaseUploadFailedAfterRetry}"

lemma keeps_process_started:
  assumes "upload_stable k processed_phases I" and "upload_copy_stable I"
  shows "keeps I (process_started E node k req)"
  unfolding process_started_def
  by (intro keeps_rules keeps_fail_upload [OF assms(1)] keeps_cleanup_then [OF assms(1)]
        keeps_copy_failed [OF assms(1)] keeps_copy_done [OF assms] keeps_copy_upload
        upload_stable_tick [OF assms(1)] assms(2))
     (auto simp: processed_phases_def)

lemma keeps_processUpload:
  assumes "upload_stable k (insert UploadPhaseInProgress processed_phases) I" and "upload_copy_stable I"
  shows "keeps I (processUpload E node k)"
proof -
  have started: "keeps I (process_started E node k req)" for req
    by (rule keeps_process_started [OF upload_stable_mono [OF assms(1)] assms(2)]) auto
  show ?thesis
    unfolding processUpload_def start_upload_def Let_def
    by (intro keeps_rules keeps_cr_get keeps_write_phase [OF assms(1)] started upload_stable_tick [OF assms(1)])
       auto
qed

lemmas upload_evals [evals] =
  upload_status_defs patchUploadByStatus_def patchUploadByStatusWithRetry_def
  fail_upload_def fail_cleanup_def cleanup_then_def copy_upload_def copy_failed_def copy_done_def
  process_started_def start_upload_def processUpload_def triggerUploadCancellation_def

end
