(* ===== verification/Upload_Correctness.thy ===== *)
theory Upload_Correctness
  imports Upload_Controller
begin

text \<open>
  What the upload controller guarantees: the back-off, the effect of a status write, the life
  cycle of an Upload as a refinement of a transition relation on phases, when an Upload may be
  called completed, and what cancellation does.
\<close>

section \<open>Back-off and status writes\<close>

lemma sint_minus_one:
  "sint (r - 1 :: int32) = (if sint r = - (2 ^ 31) then 2 ^ 31 - 1 else sint r - 1)"
proof -
  have "- (2 ^ 31) \<le> sint r \<and> sint r < 2 ^ 31"
    using sint_range_size [of r] by (simp add: word_size)
  then show ?thesis by (auto simp: sint_word_diff signed_take_bit_int_eq_self)
qed

lemma two_power_capped: "0 \<le> e \<Longrightarrow> min 60 (2 ^ nat e) = (if e \<le> 5 then 2 ^ nat e else (60 :: int))"
proof -
  assume "0 \<le> e"
  show ?thesis
  proof (cases "e \<le> 5")
    case True
    then have "(2 :: int) ^ nat e \<le> 2 ^ 5" by (intro power_increasing) auto
    with True show ?thesis by simp
  next
    case False
    then have "(2 :: int) ^ 6 \<le> 2 ^ nat e" by (intro power_increasing) auto
    with False show ?thesis by simp
  qed
qed

lemma upload_backoff_capped:
  "upload_backoff r =
     (if sint (r - 1) < 0 then 0 else if sint (r - 1) \<le> 5 then 2 ^ nat (sint (r - 1)) else 60)"
  by (simp add: upload_backoff_def Let_def UPLOAD_MAX_BACKOFF_def two_power_capped)

text \<open>
  The back-off after the \<open>n\<close>-th failure is \<open>2 ^ (n - 1)\<close> minutes, capped at an hour
  from the seventh failure on; for a counter that is not positive (which only a counter that
  wrapped around or was set by hand can be) it is no wait at all, except for the smallest
  32-bit value, where the subtraction wraps and the cap applies.
\<close>

theorem upload_backoff_closed_form:
  "upload_backoff r =
     (if sint r = - (2 ^ 31) then 60
      else if sint r \<le> 0 then 0
      else if sint r \<le> 6 then 2 ^ nat (sint r - 1)
      else 60)"
  unfolding upload_backoff_capped sint_minus_one by auto

lemma upload_backoff_range: "0 \<le> upload_backoff r \<and> upload_backoff r \<le> 60"
  by (auto simp: upload_backoff_def Let_def UPLOAD_MAX_BACKOFF_def)

lemma unix_add: "unix (t + b * 60 * nanos_per_second) = unix t + b * 60"
  by (simp add: unix_def nanos_per_second_def)

lemma sint_small: "0 \<le> b \<Longrightarrow> b \<le> 60 \<Longrightarrow> sint (word_of_int b :: int32) = b"
  by (simp add: sint_sbintrunc' signed_take_bit_int_eq_self)

lemma set_retry_run:
  "run_state (set_retry E newPhase msg r) w = (r\<lparr>u_Status := (u_Status r)\<lparr>
     ut_Phase := newPhase, ut_CompletionTimestamp := Some (unix (e_now E (w_tick w))), ut_Message := msg,
     ut_RetryCount := ut_RetryCount (u_Status r) + 1,
     ut_CurrentBackOff := word_of_int (upload_backoff (ut_RetryCount (u_Status r) + 1)),
     ut_NextRetryTimestamp := Some (unix (e_now E (Suc (w_tick w))) +
       upload_backoff (ut_RetryCount (u_Status r) + 1) * 60)\<rparr>\<rparr>, w\<lparr>w_tick := Suc (Suc (w_tick w))\<rparr>)"
  by (simp add: set_retry_def clock_now_def Let_def unix_add)

text \<open>
  C3. Recording a failed attempt: when the Upload that the caller holds is the stored one and
  the API server accepts the first patch of the retry loop, the loop succeeds, and the stored
  object is that Upload with the new phase, message and completion time, the counter
  incremented, the back-off of the new counter (which fits its 32 bits) and the time of the
  next try, back-off minutes after the second reading of the clock. No other Upload changes.
  (After a refused first patch this is not so: a later attempt that is accepted leaves the
  phase as it was.)
\<close>

theorem failed_attempt_recorded:
  assumes "w_uploads w k = Some req"
    and "newPhase \<in> {UploadPhaseUploadError, UploadPhaseCleanupFailed}"
    and "e_fate E (w_tick w + 3) = Accepted"
    and "retry = ut_RetryCount (u_Status req) + 1"
  shows "\<exists>u w'. run_state (patchUploadByStatusWithRetry E node k req newPhase msg) w = (Inr u, w') \<and>
     w_uploads w' = (w_uploads w)(k \<mapsto> u) \<and>
     u = req\<lparr>u_Status := (u_Status req)\<lparr>
       ut_Phase := newPhase, ut_Message := msg,
       ut_CompletionTimestamp := Some (unix (e_now E (w_tick w + 1))),
       ut_RetryCount := retry,
       ut_CurrentBackOff := word_of_int (upload_backoff retry),
       ut_NextRetryTimestamp := Some (unix (e_now E (w_tick w + 2)) + upload_backoff retry * 60)\<rparr>\<rparr> \<and>
     sint (ut_CurrentBackOff (u_Status u)) = upload_backoff retry"
proof -
  let ?w0 = "w\<lparr>w_tick := Suc (w_tick w)\<rparr>"
  let ?u = "fst (run_state (set_retry E newPhase msg req) ?w0)"
  let ?w' = "w\<lparr>w_tick := w_tick w + 4, w_uploads := (w_uploads w)(k \<mapsto> ?u)\<rparr>"
  have "run_state (patchUploadByStatus E node k newPhase msg req) ?w0 = ((Inr ?u, ?u), ?w')"
    using assms(1-3)
    by (auto simp: patchUploadByStatus_def PatchUpload_def patch_object_def set_retry_run cr_modify_def
        upload_merge.merge_fresh eval_nat_numeral)
  then have run: "run_state (patchUploadByStatusWithRetry E node k req newPhase msg) w = (Inr ?u, ?w')"
    unfolding patchUploadByStatusWithRetry_def by (rule patch_with_retry_once)
  have "sint (word_of_int (upload_backoff retry) :: int32) = upload_backoff retry"
    using upload_backoff_range by (simp add: sint_small)
  then show ?thesis
    by (intro exI [of _ ?u] exI [of _ ?w'] conjI run) (simp_all add: set_retry_run assms(4))
qed

theorem failed_attempt_recorded_witness:
  "case run_state (patchUploadByStatusWithRetry calm ''node-1'' sample_key (sample_upload UploadPhaseInProgress 2)
          UploadPhaseUploadError ''lost'') (sample_world UploadPhaseInProgress 2) of
     (Inr u, w') \<Rightarrow>
        w_uploads w' sample_key = Some u \<and> sint (ut_CurrentBackOff (u_Status u)) = 4 \<and>
        ut_NextRetryTimestamp (u_Status u) = Some 1242
   | _ \<Rightarrow> False"
proof -
  have st: "w_uploads (sample_world UploadPhaseInProgress 2) sample_key = Some (sample_upload UploadPhaseInProgress 2)"
    by (simp add: sample_world_def)
  show ?thesis
    using failed_attempt_recorded [OF st, of UploadPhaseUploadError calm 3 "''node-1''" "''lost''"]
    by (auto simp: sample_world_def empty_world_def sample_upload_def upload_backoff_def UPLOAD_MAX_BACKOFF_def
      unix_def nanos_per_second_def)
qed

lemma set_final_run:
  "run_state (set_final E ph msg r) w = (r\<lparr>u_Status := (u_Status r)\<lparr>
     ut_Phase := ph, ut_CompletionTimestamp := Some (unix (e_now E (w_tick w))), ut_Message := msg\<rparr>\<rparr>,
     w\<lparr>w_tick := Suc (w_tick w)\<rparr>)"
  by (simp add: set_final_def clock_now_def)

definition final_phases :: "UploadPhase set" where
  "final_phases = {UploadPhaseCompleted, UploadPhaseCanceled, UploadPhaseCanceling,
     UploadPhaseUploadFailedAfterRetry}"

lemma patch_final:
  "newPhase \<in> final_phases \<Longrightarrow>
   patchUploadByStatus E node k newPhase msg req =
     patch_object w_uploads w_uploads_update merge_upload (ErrWrap ''Failed to patch Upload'') E k req
       (set_final E newPhase msg)"
  by (auto simp: final_phases_def patchUploadByStatus_def PatchUpload_def)

text \<open>
  C10. The retry loop loses the phase. If the first patch is refused by the API server, the
  object in the caller's hands already has the new phase, so no later attempt's patch contains
  it: whatever the later attempts do, and also when one of them succeeds and the loop returns
  success, the stored phase is the old one.
\<close>

theorem phase_lost_after_refused_patch:
  assumes "w_uploads w k = Some req" and "newPhase \<in> final_phases"
    and "e_fate E (w_tick w + 2) = Refused e"
  shows "map_option (ut_Phase \<circ> u_Status)
           (w_uploads (snd (run_state (patchUploadByStatusWithRetry E node k req newPhase msg) w)) k)
         = Some (ut_Phase (u_Status req))"
proof -
  let ?phase = "\<lambda>w. map_option (ut_Phase \<circ> u_Status) (w_uploads w k) = Some (ut_Phase (u_Status req))"
  let ?J = "\<lambda>r w. ut_Phase (u_Status r) = newPhase \<and> ?phase w"
  let ?att = "patchUploadByStatus E node k newPhase msg"
  let ?w0 = "w\<lparr>w_tick := Suc (w_tick w)\<rparr>"
  let ?new = "fst (run_state (set_final E newPhase msg req) ?w0)"
  have first: "run_state (?att req) ?w0 =
      ((Inl (ErrWrap ''Failed to patch Upload'' (ErrAPI e)), ?new), w\<lparr>w_tick := w_tick w + 3\<rparr>)"
    unfolding patch_final [OF assms(2)]
    using upload_patch.patch_refused [OF set_final_run, of E ?w0 e] assms(3)
    by (simp add: set_final_run eval_nat_numeral)
  have step: "triple (?J r) (?att r) (\<lambda>(x, r') w. ?J r' w)" for r
  proof (rule tripleI)
    fix w p w'
    assume pre: "?J r w" and run': "run_state (?att r) w = (p, w')"
    obtain x r' where p: "p = (x, r')" by fastforce
    from pre have ph: "ut_Phase (u_Status r) = newPhase" and keep: "?phase w" by auto
    have run: "run_state (?att r) w = ((x, r'), w')" using run' p by simp
    have "ut_Phase (u_Status r') = newPhase"
      using run unfolding patch_final [OF assms(2)] patch_object_def
      by (auto simp: set_final_run split: prod.splits)
    moreover have "map_option (ut_Phase \<circ> u_Status) (w_uploads (snd (run_state (?att r) w)) k) =
        map_option (ut_Phase \<circ> u_Status) (w_uploads w k)"
      unfolding patch_final [OF assms(2)]
      by (rule upload_patch.patch_misses_field [where v = newPhase])
         (simp_all add: merge_upload_fields upload_status_fields ph)
    ultimately show "(case p of (x, r') \<Rightarrow> \<lambda>w. ?J r' w) w'" using keep run p by simp
  qed
  show ?thesis
    unfolding patchUploadByStatusWithRetry_def
    by (rule patch_with_retry_after_failure [where J = ?J and K = ?phase, OF first _ step])
       (use assms(1) in \<open>auto simp: set_final_run\<close>)
qed

text \<open>An environment whose API server refuses the request with number \<open>n\<close>.\<close>

definition refusing :: "nat \<Rightarrow> env" where
  "refusing n = calm\<lparr>e_fate := (\<lambda>i. if i = n then Refused (OtherStatus ''conflict'') else Accepted)\<rparr>"

theorem phase_lost_after_refused_patch_witness:
  "let (r, w') = run_state (patchUploadByStatusWithRetry (refusing 2) ''node-1'' sample_key
         (sample_upload UploadPhaseInProgress 0) UploadPhaseCompleted ''Upload completed'')
         (sample_world UploadPhaseInProgress 0)
   in (\<exists>u. r = Inr u) \<and>
      map_option (ut_Phase \<circ> u_Status) (w_uploads w' sample_key) = Some UploadPhaseInProgress"
proof -
  let ?run = "run_state (patchUploadByStatusWithRetry (refusing 2) ''node-1'' sample_key
         (sample_upload UploadPhaseInProgress 0) UploadPhaseCompleted ''Upload completed'')
         (sample_world UploadPhaseInProgress 0)"
  have "case fst ?run of Inr _ \<Rightarrow> True | Inl _ \<Rightarrow> False" by code_simp
  moreover have "map_option (ut_Phase \<circ> u_Status) (w_uploads (snd ?run) sample_key)
      = Some (ut_Phase (u_Status (sample_upload UploadPhaseInProgress 0)))"
    by (rule phase_lost_after_refused_patch [where e = "OtherStatus ''conflict''"])
       (simp_all add: sample_world_def empty_world_def final_phases_def refusing_def)
  ultimately show ?thesis
    by (auto simp: sample_upload_def split: prod.splits sum.splits)
qed

section \<open>The life cycle of an Upload\<close>

lemma write_returns_stored:
  "triple (\<lambda>w. True) (patchUploadByStatusWithRetry E node k req newPhase msg)
     (\<lambda>r w. \<forall>u. r = Inr u \<longrightarrow> w_uploads w k = Some u)"
  unfolding patchUploadByStatusWithRetry_def
proof (rule patch_with_retry_invariant [where J = "\<lambda>_ _. True"])
  fix req
  show "triple (\<lambda>w. True) (patchUploadByStatus E node k newPhase msg req)
     (\<lambda>(r, req') w. True \<and> (\<forall>u. r = Inr u \<longrightarrow> w_uploads w k = Some u))"
    unfolding patchUploadByStatus_def PatchUpload_def
    by (rule tripleI) (auto split: UploadPhase.splits dest!: upload_patch.patch_returns_stored)
qed simp

text \<open>\<open>upload_at k sp S\<close>: the Upload \<open>k\<close> is stored with specification \<open>sp\<close> and a phase of \<open>S\<close>.\<close>

definition upload_at :: "key \<Rightarrow> UploadSpec \<Rightarrow> UploadPhase set \<Rightarrow> world \<Rightarrow> bool" where
  "upload_at k sp S w \<longleftrightarrow>
     (\<exists>u. w_uploads w k = Some u \<and> u_Spec u = sp \<and> ut_Phase (u_Status u) \<in> S)"

lemma upload_at_stable: "T \<subseteq> S \<Longrightarrow> upload_stable k T (upload_at k sp S)"
  by (auto simp: upload_stable_def upload_at_def)

lemma upload_at_copy_stable: "upload_copy_stable (upload_at k sp S)"
  by (simp add: upload_copy_stable_def upload_at_def)

lemma upload_at_mono: "upload_at k sp S w \<Longrightarrow> S \<subseteq> T \<Longrightarrow> upload_at k sp T w"
  unfolding upload_at_def by blast

lemma write_upload_at:
  assumes "newPhase \<in> S"
  shows "triple (upload_at k sp S) (patchUploadByStatusWithRetry E node k req newPhase msg)
     (\<lambda>r w. upload_at k sp S w \<and>
        (\<forall>u. r = Inr u \<longrightarrow> w_uploads w k = Some u \<and> u_Spec u = sp \<and> ut_Phase (u_Status u) \<in> S))"
proof (rule tripleI)
  fix w r w' assume at: "upload_at k sp S w"
    and run: "run_state (patchUploadByStatusWithRetry E node k req newPhase msg) w = (r, w')"
  have "upload_at k sp S w'"
    by (rule tripleD [OF keeps_write_phase [OF upload_at_stable [of "{newPhase}" S]] at run])
       (use assms in auto)
  moreover have "\<forall>u. r = Inr u \<longrightarrow> w_uploads w' k = Some u"
    by (rule tripleD [OF write_returns_stored _ run]) simp
  ultimately show "upload_at k sp S w' \<and>
      (\<forall>u. r = Inr u \<longrightarrow> w_uploads w' k = Some u \<and> u_Spec u = sp \<and> ut_Phase (u_Status u) \<in> S)"
    by (auto simp: upload_at_def)
qed

definition idle_phases :: "UploadPhase set" where
  "idle_phases = {UploadPhaseCanceled, UploadPhaseCanceling, UploadPhaseCompleted,
     UploadPhaseUploadFailedAfterRetry}"

lemma processUpload_idle:
  assumes "upload_at k sp idle_phases w"
  shows "snd (run_state (processUpload E node k) w) = w\<lparr>w_tick := Suc (w_tick w)\<rparr>"
  using assms
  by (auto simp: processUpload_def cr_get_def upload_at_def idle_phases_def Let_def split: fate.splits)

lemma processUpload_run:
  assumes "w_uploads w k = Some u"
    and "Q (w\<lparr>w_tick := Suc (w_tick w)\<rparr>)"
    and "ut_Phase (u_Status u) \<notin> idle_phases \<Longrightarrow>
       Q (snd (run_state (start_upload E node k u) (w\<lparr>w_tick := Suc (w_tick w)\<rparr>)))"
  shows "Q (snd (run_state (processUpload E node k) w))"
  using assms by (auto simp: processUpload_def cr_get_def idle_phases_def Let_def split: fate.splits)

subsection \<open>The contract of a run\<close>

text \<open>
  What a run does outside the cluster: the copy of the entity \<open>p\<close> to an S3 repository, and
  the deletion of its local snapshot. The snapshot also counts as gone, without an effect, when
  the identifier has none or the entity lists none.
\<close>

definition copy_events :: "peid \<Rightarrow> event list \<Rightarrow> bool" where
  "copy_events p t \<longleftrightarrow> (\<exists>s3. t = [EvCopied (S3PETM s3) p])"

definition gone_events :: "env \<Rightarrow> peid \<Rightarrow> event list \<Rightarrow> bool" where
  "gone_events E p t \<longleftrightarrow> t = [EvSnapshotDeleted LocalPEM p (pe_snapshot p)] \<or>
     t = [] \<and> (\<not> e_has_snapshot E p \<or> (\<exists>n. e_list_snapshots E n LocalPEM p = Inr []))"

text \<open>
  One run as a step of the life cycle, labelled with its effects. A status that is written may
  be lost, so that every rule allows the phase before the write; \<open>pending\<close> are the phases from
  which a copy is tried. \<open>Completed\<close> needs a copy and then the end of the local snapshot, or,
  after a failed clean-up, the end of the local snapshot alone; an Upload is given up only
  without a copy and after the end of its local snapshot.
\<close>

definition pending :: "UploadPhase set" where
  "pending = {UploadPhaseUnset, UploadPhaseNew, UploadPhaseInProgress, UploadPhaseUploadError}"

inductive upload_run :: "env \<Rightarrow> peid \<Rightarrow> UploadPhase \<Rightarrow> event list \<Rightarrow> UploadPhase \<Rightarrow> bool"
  for E :: env and p :: peid where
  unchanged: "upload_run E p a [] a"
| not_copied: "a \<in> pending \<Longrightarrow>
     b \<in> {UploadPhaseInProgress, UploadPhaseUploadError, UploadPhaseCanceled, UploadPhaseCleanupFailed} \<Longrightarrow>
     upload_run E p a [] b"
| given_up: "a \<in> pending \<Longrightarrow> gone_events E p d \<Longrightarrow>
     b \<in> {a, UploadPhaseInProgress, UploadPhaseUploadFailedAfterRetry} \<Longrightarrow> upload_run E p a d b"
| not_cleaned: "a \<in> pending \<Longrightarrow> copy_events p c \<Longrightarrow>
     b \<in> {a, UploadPhaseInProgress, UploadPhaseCleanupFailed} \<Longrightarrow> upload_run E p a c b"
| completed: "a \<in> pending \<Longrightarrow> copy_events p c \<Longrightarrow> gone_events E p d \<Longrightarrow>
     b \<in> {a, UploadPhaseInProgress, UploadPhaseCompleted} \<Longrightarrow> upload_run E p a (c @ d) b"
| cleaned: "gone_events E p d \<Longrightarrow> b \<in> {UploadPhaseCleanupFailed, UploadPhaseCompleted} \<Longrightarrow>
     upload_run E p UploadPhaseCleanupFailed d b"

inductive_cases upload_run_completedE: "upload_run E p a t UploadPhaseCompleted"

text \<open>A run whose snapshot identifier cannot be read has no effect and ends as an error at most.\<close>

definition unreadable_run :: "UploadPhase \<Rightarrow> UploadPhase \<Rightarrow> bool" where
  "unreadable_run a b \<longleftrightarrow> b = a \<or> a \<in> pending \<and> b \<in> {UploadPhaseInProgress, UploadPhaseUploadError} \<or>
     a = UploadPhaseCleanupFailed \<and> b = UploadPhaseUploadError"

subsection \<open>The parts of a run\<close>

text \<open>\<open>at_trace k sp S t\<close>: the Upload is stored with a phase of \<open>S\<close>, and the trace is \<open>t\<close>.\<close>

definition at_trace :: "key \<Rightarrow> UploadSpec \<Rightarrow> UploadPhase set \<Rightarrow> event list \<Rightarrow> world \<Rightarrow> bool" where
  "at_trace k sp S t w \<longleftrightarrow> upload_at k sp S w \<and> w_trace w = t"

lemma at_trace_mono: "at_trace k sp S t w \<Longrightarrow> S \<subseteq> T \<Longrightarrow> at_trace k sp T t w"
  by (auto simp: at_trace_def elim: upload_at_mono)

lemma at_trace_tick [simp]: "at_trace k sp S t (w\<lparr>w_tick := n\<rparr>) = at_trace k sp S t w"
  by (simp add: at_trace_def upload_at_def)

lemma write_at:
  "triple (at_trace k sp S t) (patchUploadByStatusWithRetry E node k req newPhase msg)
     (\<lambda>r w. at_trace k sp (insert newPhase S) t w \<and>
        (\<forall>u. r = Inr u \<longrightarrow> u_Spec u = sp \<and> ut_Phase (u_Status u) \<in> insert newPhase S))"
proof -
  have "keeps (\<lambda>w. w_trace w = t) (patchUploadByStatusWithRetry E node k req newPhase msg)"
    by (rule keeps_patchUploadByStatusWithRetry) simp_all
  from triple_conj [OF write_upload_at [of newPhase "insert newPhase S" k sp E node req msg] this]
  show ?thesis by (rule triple_weaken) (auto simp: at_trace_def elim: upload_at_mono)
qed

lemma delete_attempt_at:
  "triple (at_trace k sp S t) (delete_attempt E p LocalPEM l)
     (\<lambda>(r, l'). \<lambda>w. if r = Inr True
        then at_trace k sp S (t @ [EvSnapshotDeleted LocalPEM p (pe_snapshot p)]) w else at_trace k sp S t w)"
  by (auto simp: triple_def delete_attempt_def at_trace_def upload_at_def split: sum.splits)

lemma delete_at:
  "triple (at_trace k sp S t) (DeleteLocalSnapshot E p)
     (\<lambda>r w. case r of None \<Rightarrow> \<exists>d. gone_events E p d \<and> at_trace k sp S (t @ d) w | Some _ \<Rightarrow> at_trace k sp S t w)"
proof (rule tripleI)
  fix w r w'
  assume at: "at_trace k sp S t w" and run: "run_state (DeleteLocalSnapshot E p) w = (r, w')"
  let ?Q = "\<lambda>r w. case r of None \<Rightarrow> \<exists>d. gone_events E p d \<and> at_trace k sp S (t @ d) w | Some _ \<Rightarrow> at_trace k sp S t w"
  have poll: "?Q e v'" if "run_state (poll_immediate n (delete_attempt E p LocalPEM) ()) v = ((e, l), v')"
    and "at_trace k sp S t v" for n v e l v'
    using tripleD [OF poll_immediate_until [OF delete_attempt_at] that(2,1)]
    by (cases e) (auto simp: gone_events_def)
  show "?Q r w'"
  proof (cases "e_has_snapshot E p \<and> e_has_petm E (pe_type p) \<and> e_get_pe E (w_tick w) LocalPEM p = None \<and>
      (\<exists>s ss. e_list_snapshots E (Suc (w_tick w)) LocalPEM p = Inr (s # ss))")
    case True
    then obtain n l where "run_state (poll_immediate n (delete_attempt E p LocalPEM) ())
        (w\<lparr>w_tick := Suc (Suc (Suc (w_tick w)))\<rparr>) = ((r, l), w')"
      using run by (auto simp: DeleteLocalSnapshot_def deleteSnapshotFromRepo_def split: prod.splits)
    with poll at show ?thesis by simp
  next
    case False
    with run at show ?thesis
      by (auto simp: DeleteLocalSnapshot_def deleteSnapshotFromRepo_def gone_events_def
          split: if_splits option.splits sum.splits list.splits)
  qed
qed

lemma copyToRepo_at:
  "triple (at_trace k sp S t) (copyToRepo E p s3)
     (\<lambda>r w. case r of Inr _ \<Rightarrow> \<exists>c. copy_events p c \<and> at_trace k sp S (t @ c) w | Inl _ \<Rightarrow> at_trace k sp S t w)"
  by (auto simp: triple_def copyToRepo_def RegisterOngoingUpload_def at_trace_def upload_at_def copy_events_def
      split: option.splits sum.splits)

lemma copy_at:
  "triple (at_trace k sp S t) (copy_upload E req p)
     (\<lambda>r w. case r of Inr (Inr _) \<Rightarrow> \<exists>c. copy_events p c \<and> at_trace k sp S (t @ c) w | _ \<Rightarrow> at_trace k sp S t w)"
proof -
  let ?I = "at_trace k sp S t"
  let ?R = "\<lambda>r w. case r of Inr _ \<Rightarrow> \<exists>c. copy_events p c \<and> at_trace k sp S (t @ c) w | Inl _ \<Rightarrow> ?I w"
  have default: "triple ?I (CopyToRepo E p) ?R"
    unfolding CopyToRepo_def
    by (rule triple_bind [OF keeps_GetDefaultS3PETM], simp)
      (intro triple_case_sum copyToRepo_at triple_return, simp)
  have named: "triple ?I (CopyToRepoWithBackupRepository E p b) ?R" for b
    unfolding CopyToRepoWithBackupRepository_def
    by (rule triple_bind [OF keeps_GetRepositoryFromBackupRepository], simp)
      (intro triple_case_sum copyToRepo_at triple_return, simp)
  show ?thesis
    unfolding copy_upload_def Let_def
    by (intro triple_if triple_bind [OF keeps_GetBackupRepositoryFromBackupRepositoryName] triple_case_sum
        triple_bind [OF named] triple_bind [OF default] triple_return)
      (auto split: sum.splits)
qed

lemma fail_upload_at:
  "triple (at_trace k sp S t) (fail_upload E node k req newPhase msg) (\<lambda>_. at_trace k sp (insert newPhase S) t)"
  unfolding fail_upload_def by (rule triple_bind [OF write_at]) (auto intro!: triple_return)

lemma cleanup_at:
  "triple (at_trace k sp S t) (cleanup_then E node k req p final)
     (\<lambda>_ w. at_trace k sp (insert UploadPhaseCleanupFailed S) t w \<or>
        (\<exists>d. gone_events E p d \<and> at_trace k sp (insert final S) (t @ d) w))"
proof -
  let ?Q = "\<lambda>w. at_trace k sp (insert UploadPhaseCleanupFailed S) t w \<or>
      (\<exists>d. gone_events E p d \<and> at_trace k sp (insert final S) (t @ d) w)"
  have failed: "triple (at_trace k sp S t) (fail_cleanup E node k req p e) (\<lambda>_. ?Q)" for e
    unfolding fail_cleanup_def Let_def by (rule triple_bind [OF write_at]) (auto intro!: triple_return)
  have gone: "triple (\<lambda>w. \<exists>d. gone_events E p d \<and> at_trace k sp S (t @ d) w) (do {
      _ \<leftarrow> patchUploadByStatusWithRetry E node k req final msg; State_Monad.return None }) (\<lambda>_. ?Q)" for msg
  proof (rule tripleI)
    fix w r w'
    assume "\<exists>d. gone_events E p d \<and> at_trace k sp S (t @ d) w"
      and run: "run_state (do { _ \<leftarrow> patchUploadByStatusWithRetry E node k req final msg; State_Monad.return None }) w = (r, w')"
    then obtain d where d: "gone_events E p d" and at: "at_trace k sp S (t @ d) w" by blast
    have "triple (at_trace k sp S (t @ d)) (do { _ \<leftarrow> patchUploadByStatusWithRetry E node k req final msg;
        State_Monad.return None }) (\<lambda>_. at_trace k sp (insert final S) (t @ d))"
      by (rule triple_bind [OF write_at]) (auto intro!: triple_return)
    from tripleD [OF this at run] d show "?Q w'" by blast
  qed
  show ?thesis
    unfolding cleanup_then_def
    by (rule triple_bind [OF delete_at], intro triple_case_option triple_if triple_return
        triple_weaken [OF failed] triple_weaken [OF gone]) (auto elim: at_trace_mono)
qed

lemma completed_run:
  assumes "upload_run E p a t UploadPhaseCompleted" and "a \<in> pending"
  shows "\<exists>c d. t = c @ d \<and> copy_events p c \<and> gone_events E p d"
  using assms by (cases rule: upload_run_completedE) (auto simp: pending_def)
subsection \<open>A run as a step\<close>

text \<open>Where a started upload can end, from a set of phases in which it may be stored.\<close>

definition run_ends :: "env \<Rightarrow> peid \<Rightarrow> UploadPhase set \<Rightarrow> event list \<Rightarrow> UploadPhase set" where
  "run_ends E p S t = {b. t = [] \<and> b \<in> S \<union> {UploadPhaseUploadError, UploadPhaseCanceled, UploadPhaseCleanupFailed} \<or>
     gone_events E p t \<and> b \<in> insert UploadPhaseUploadFailedAfterRetry S \<or>
     copy_events p t \<and> b \<in> insert UploadPhaseCleanupFailed S \<or>
     (\<exists>c d. copy_events p c \<and> gone_events E p d \<and> t = c @ d) \<and> b \<in> insert UploadPhaseCompleted S}"

definition ended :: "env \<Rightarrow> peid \<Rightarrow> key \<Rightarrow> UploadSpec \<Rightarrow> UploadPhase set \<Rightarrow> event list \<Rightarrow> world \<Rightarrow> bool" where
  "ended E p k sp S t0 w \<longleftrightarrow> (\<exists>t. at_trace k sp (run_ends E p S t) (t0 @ t) w)"

lemma ended_not_copied:
  assumes "at_trace k sp T t0 w"
    and "T \<subseteq> S \<union> {UploadPhaseUploadError, UploadPhaseCanceled, UploadPhaseCleanupFailed}"
  shows "ended E p k sp S t0 w"
proof -
  have "at_trace k sp (run_ends E p S []) (t0 @ []) w"
    using assms by (auto simp: run_ends_def elim!: at_trace_mono)
  then show ?thesis unfolding ended_def by blast
qed

lemma copy_failed_at:
  "triple (at_trace k sp S t0) (copy_failed E node k req p err) (\<lambda>_. ended E p k sp S t0)"
proof -
  have gave_up: "triple (at_trace k sp S t0) (cleanup_then E node k req p UploadPhaseUploadFailedAfterRetry)
      (\<lambda>_. ended E p k sp S t0)"
  proof (rule triple_weaken [OF cleanup_at])
    fix r w
    assume "at_trace k sp (insert UploadPhaseCleanupFailed S) t0 w \<or>
      (\<exists>d. gone_events E p d \<and> at_trace k sp (insert UploadPhaseUploadFailedAfterRetry S) (t0 @ d) w)"
    then show "ended E p k sp S t0 w"
    proof
      assume "at_trace k sp (insert UploadPhaseCleanupFailed S) t0 w"
      then show ?thesis by (rule ended_not_copied) auto
    next
      assume "\<exists>d. gone_events E p d \<and> at_trace k sp (insert UploadPhaseUploadFailedAfterRetry S) (t0 @ d) w"
      then show ?thesis unfolding ended_def by (auto simp: run_ends_def elim!: at_trace_mono)
    qed
  qed auto
  have failed: "triple (at_trace k sp S t0) (fail_upload E node k req UploadPhaseUploadError msg) (\<lambda>_. ended E p k sp S t0)" for msg
    by (rule triple_weaken [OF fail_upload_at]) (auto elim: ended_not_copied)
  have canceled: "triple (at_trace k sp S t0) (do {
      r \<leftarrow> patchUploadByStatusWithRetry E node k req UploadPhaseCanceled msg;
      State_Monad.return (case r of Inl e \<Rightarrow> Some e | Inr _ \<Rightarrow> None) }) (\<lambda>_. ended E p k sp S t0)" for msg
    by (rule triple_bind [OF write_at]) (auto intro!: triple_return elim: ended_not_copied)
  show ?thesis
    unfolding copy_failed_def
    by (intro triple_if triple_return canceled triple_bind [OF keeps_GetUploadCRRetryMaximum] failed gave_up)
      (auto elim: ended_not_copied)
qed

lemma copy_done_at:
  assumes c: "copy_events p c"
  shows "triple (at_trace k sp S (t0 @ c)) (copy_done E node k req p) (\<lambda>_. ended E p k sp S t0)"
proof -
  have unreg: "keeps (at_trace k sp S (t0 @ c)) (update_world (UnregisterOngoingUpload p))"
    by (rule keeps_update_world) (auto simp: at_trace_def upload_at_def UnregisterOngoingUpload_def split: option.splits)
  have failed: "triple (at_trace k sp S (t0 @ c)) (fail_upload E node k req UploadPhaseCleanupFailed msg)
      (\<lambda>_. ended E p k sp S t0)" for msg
    by (rule triple_weaken [OF fail_upload_at]) (use c in \<open>auto simp: ended_def run_ends_def elim!: at_trace_mono\<close>)
  have finished: "triple (\<lambda>w. \<exists>d. gone_events E p d \<and> at_trace k sp S ((t0 @ c) @ d) w) (do {
      r \<leftarrow> patchUploadByStatusWithRetry E node k req UploadPhaseCompleted msg;
      State_Monad.return (case r of Inl e \<Rightarrow> Some e | Inr _ \<Rightarrow> None) }) (\<lambda>_. ended E p k sp S t0)" for msg
  proof (rule tripleI, elim exE conjE)
    fix w r w' d
    assume d: "gone_events E p d" and at: "at_trace k sp S ((t0 @ c) @ d) w"
      and run: "run_state (do { r \<leftarrow> patchUploadByStatusWithRetry E node k req UploadPhaseCompleted msg;
        State_Monad.return (case r of Inl e \<Rightarrow> Some e | Inr _ \<Rightarrow> None) }) w = (r, w')"
    have "triple (at_trace k sp S ((t0 @ c) @ d)) (do { r \<leftarrow> patchUploadByStatusWithRetry E node k req UploadPhaseCompleted msg;
        State_Monad.return (case r of Inl e \<Rightarrow> Some e | Inr _ \<Rightarrow> None) })
        (\<lambda>_. at_trace k sp (insert UploadPhaseCompleted S) ((t0 @ c) @ d))"
      by (rule triple_bind [OF write_at]) (auto intro!: triple_return)
    from tripleD [OF this at run] have "at_trace k sp (insert UploadPhaseCompleted S) (t0 @ (c @ d)) w'" by simp
    moreover have "insert UploadPhaseCompleted S \<subseteq> run_ends E p S (c @ d)" using c d by (auto simp: run_ends_def)
    ultimately show "ended E p k sp S t0 w'" unfolding ended_def by (blast intro: at_trace_mono)
  qed
  show ?thesis
    unfolding copy_done_def
    by (rule triple_bind [OF unreg], rule triple_bind [OF delete_at],
        intro triple_case_option triple_if triple_return triple_weaken [OF failed] triple_weaken [OF finished])
      (use c in \<open>auto simp: ended_def run_ends_def elim!: at_trace_mono\<close>)
qed

lemma process_started_at:
  assumes "ut_Phase (u_Status req) \<noteq> UploadPhaseCleanupFailed" and "e_parse_peid E (us_SnapshotID (u_Spec req)) = Inr p"
  shows "triple (at_trace k sp S t0) (process_started E node k req) (\<lambda>_. ended E p k sp S t0)"
proof -
  have done_at: "triple (\<lambda>w. \<exists>c. copy_events p c \<and> at_trace k sp S (t0 @ c) w) (copy_done E node k req p)
      (\<lambda>_. ended E p k sp S t0)"
    using copy_done_at unfolding triple_def by blast
  have "triple (at_trace k sp S t0) (do {
      r \<leftarrow> copy_upload E req p;
      (case r of Inl e \<Rightarrow> State_Monad.return (Some e)
       | Inr (Inl e) \<Rightarrow> copy_failed E node k req p e
       | Inr (Inr _) \<Rightarrow> copy_done E node k req p) }) (\<lambda>_. ended E p k sp S t0)"
    by (rule triple_bind [OF copy_at], intro triple_case_sum triple_return triple_weaken [OF copy_failed_at]
        triple_weaken [OF done_at]) (auto elim: ended_not_copied)
  with assms show ?thesis by (simp add: process_started_def)
qed

lemma run_ends_step:
  assumes "a \<in> pending" and "b \<in> run_ends E p {a, UploadPhaseInProgress} t"
  shows "upload_run E p a t b"
  using assms
  by (auto simp: run_ends_def intro: upload_run.intros)

lemma pending_run:
  assumes a: "ut_Phase (u_Status u) \<in> pending" and p: "e_parse_peid E (us_SnapshotID (u_Spec u)) = Inr p"
    and u: "w_uploads w k = Some u"
  shows "ended E p k (u_Spec u) {ut_Phase (u_Status u), UploadPhaseInProgress} (w_trace w)
    (snd (run_state (start_upload E node k u) w))"
proof -
  let ?a = "ut_Phase (u_Status u)" and ?sp = "u_Spec u"
  let ?S = "{?a, UploadPhaseInProgress}"
  have cf: "UploadPhaseCleanupFailed \<notin> ?S" using a by (auto simp: pending_def)
  have at: "at_trace k ?sp {?a} (w_trace w) w" using u by (simp add: at_trace_def upload_at_def)
  have started: "triple (at_trace k ?sp ?S (w_trace w)) (process_started E node k x) (\<lambda>_. ended E p k ?sp ?S (w_trace w))"
    if "u_Spec x = ?sp" "ut_Phase (u_Status x) \<in> ?S" for x
    by (rule process_started_at) (use that cf p in auto)
  have "triple (at_trace k ?sp {?a} (w_trace w)) (start_upload E node k u) (\<lambda>_. ended E p k ?sp ?S (w_trace w))"
    unfolding start_upload_def
  proof (intro triple_if triple_bind [OF write_at] triple_case_sum)
    fix r :: "goerr + Upload" and y assume r: "r = Inr y"
    show "triple (\<lambda>v. at_trace k ?sp (insert UploadPhaseInProgress {?a}) (w_trace w) v \<and>
        (\<forall>x. r = Inr x \<longrightarrow> u_Spec x = ?sp \<and> ut_Phase (u_Status x) \<in> insert UploadPhaseInProgress {?a}))
      (process_started E node k y) (\<lambda>_. ended E p k ?sp ?S (w_trace w))"
      using started [of y] r unfolding triple_def by (auto simp: insert_commute)
  next
    show "triple (at_trace k ?sp {?a} (w_trace w)) (process_started E node k u) (\<lambda>_. ended E p k ?sp ?S (w_trace w))"
      by (rule triple_weaken [OF started [of u]]) (auto elim: at_trace_mono)
  qed (auto intro!: triple_return elim!: ended_not_copied)
  from tripleD [OF this at] show ?thesis by (metis prod.collapse)
qed

lemma cleanup_run:
  assumes a: "ut_Phase (u_Status u) = UploadPhaseCleanupFailed" and p: "e_parse_peid E (us_SnapshotID (u_Spec u)) = Inr p"
    and u: "w_uploads w k = Some u"
  shows "\<exists>t b. at_trace k (u_Spec u) {b} (w_trace w @ t) (snd (run_state (start_upload E node k u) w)) \<and>
    upload_run E p UploadPhaseCleanupFailed t b"
proof -
  have at: "at_trace k (u_Spec u) {UploadPhaseCleanupFailed} (w_trace w) w" using u a by (simp add: at_trace_def upload_at_def)
  obtain r w' where run: "run_state (cleanup_then E node k u p UploadPhaseCompleted) w = (r, w')" by fastforce
  from tripleD [OF cleanup_at at run] consider
      "at_trace k (u_Spec u) {UploadPhaseCleanupFailed} (w_trace w @ []) w'"
    | d where "gone_events E p d" "at_trace k (u_Spec u) {UploadPhaseCompleted, UploadPhaseCleanupFailed} (w_trace w @ d) w'"
    by (auto simp: at_trace_def)
  moreover have "snd (run_state (start_upload E node k u) w) = w'"
    using a p run by (simp add: start_upload_def process_started_def)
  ultimately show ?thesis
    by cases (auto simp: at_trace_def upload_at_def intro: upload_run.intros)
qed

lemma unreadable_upload:
  assumes e: "e_parse_peid E (us_SnapshotID (u_Spec u)) = Inl e" and u: "w_uploads w k = Some u"
    and a: "ut_Phase (u_Status u) \<notin> idle_phases"
  shows "\<exists>b. at_trace k (u_Spec u) {b} (w_trace w) (snd (run_state (start_upload E node k u) w)) \<and>
    unreadable_run (ut_Phase (u_Status u)) b"
proof -
  let ?a = "ut_Phase (u_Status u)" and ?sp = "u_Spec u"
  let ?S = "{b. unreadable_run ?a b}"
  have err: "UploadPhaseUploadError \<in> ?S" and in_progress: "?a \<noteq> UploadPhaseCleanupFailed \<Longrightarrow> UploadPhaseInProgress \<in> ?S"
    using a by (cases ?a; auto simp: unreadable_run_def idle_phases_def pending_def)+
  have at: "at_trace k ?sp ?S (w_trace w) w" using u by (simp add: at_trace_def upload_at_def unreadable_run_def)
  have failed: "triple (at_trace k ?sp ?S (w_trace w)) (process_started E node k x) (\<lambda>_. at_trace k ?sp ?S (w_trace w))"
    if "u_Spec x = ?sp" for x
    unfolding process_started_def
    using triple_weaken [OF fail_upload_at [of k ?sp ?S "w_trace w" E node x UploadPhaseUploadError]] err e that
    by (simp add: insert_absorb)
  have "triple (at_trace k ?sp ?S (w_trace w)) (start_upload E node k u) (\<lambda>_. at_trace k ?sp ?S (w_trace w))"
  proof (cases "?a = UploadPhaseCleanupFailed")
    case True
    with failed [of u] show ?thesis by (simp add: start_upload_def)
  next
    case False
    from in_progress [OF this] have ins: "insert UploadPhaseInProgress ?S = ?S" by (simp add: insert_absorb)
    show ?thesis
      unfolding start_upload_def
    proof (intro triple_if triple_bind [OF write_at] triple_case_sum)
      fix r :: "goerr + Upload" and y assume r: "r = Inr y"
      show "triple (\<lambda>v. at_trace k ?sp (insert UploadPhaseInProgress ?S) (w_trace w) v \<and>
          (\<forall>x. r = Inr x \<longrightarrow> u_Spec x = ?sp \<and> ut_Phase (u_Status x) \<in> insert UploadPhaseInProgress ?S))
        (process_started E node k y) (\<lambda>_. at_trace k ?sp ?S (w_trace w))"
        using failed [of y] r unfolding triple_def ins by blast
    qed (auto intro!: triple_return failed simp: ins)
  qed
  from tripleD [OF this at] have "at_trace k ?sp ?S (w_trace w) (snd (run_state (start_upload E node k u) w))"
    by (metis prod.collapse)
  then show ?thesis by (auto simp: at_trace_def upload_at_def)
qed

text \<open>
  C1. Refinement of the life cycle. Whatever the environment answers, one run of
  \<^verbatim>\<open>processUpload\<close> keeps the stored Upload and its specification, and takes its phase and
  the trace of effects together through one step of \<open>upload_run\<close>: a run that ends as
  \<open>Completed\<close> has copied the entity and then seen its local snapshot gone, except after a failed
  clean-up, when nothing is copied; a run that gives up has not copied; a finished Upload is
  left alone. An identifier that cannot be read gives an error at most.
\<close>

theorem processUpload_refines_lifecycle:
  assumes "w_uploads w k = Some u" and "w' = snd (run_state (processUpload E node k) w)"
  shows "\<exists>u' t. w_uploads w' k = Some u' \<and> u_Spec u' = u_Spec u \<and> w_trace w' = w_trace w @ t \<and>
    (case e_parse_peid E (us_SnapshotID (u_Spec u)) of
       Inr p \<Rightarrow> upload_run E p (ut_Phase (u_Status u)) t (ut_Phase (u_Status u'))
     | Inl _ \<Rightarrow> t = [] \<and> unreadable_run (ut_Phase (u_Status u)) (ut_Phase (u_Status u')))"
proof -
  let ?a = "ut_Phase (u_Status u)" and ?w0 = "w\<lparr>w_tick := Suc (w_tick w)\<rparr>"
  let ?Q = "\<lambda>v. \<exists>t b. at_trace k (u_Spec u) {b} (w_trace w @ t) v \<and>
    (case e_parse_peid E (us_SnapshotID (u_Spec u)) of Inr p \<Rightarrow> upload_run E p ?a t b
     | Inl _ \<Rightarrow> t = [] \<and> unreadable_run ?a b)"
  have u0: "w_uploads ?w0 k = Some u" using assms(1) by simp
  have "?Q (snd (run_state (processUpload E node k) w))"
  proof (rule processUpload_run [OF assms(1)])
    have "at_trace k (u_Spec u) {?a} (w_trace w @ []) ?w0" using assms(1) by (simp add: at_trace_def upload_at_def)
    then show "?Q ?w0" by (fastforce simp: unreadable_run_def intro: upload_run.unchanged split: sum.splits)
  next
    assume busy: "?a \<notin> idle_phases"
    show "?Q (snd (run_state (start_upload E node k u) ?w0))"
    proof (cases "e_parse_peid E (us_SnapshotID (u_Spec u))")
      case (Inl e)
      from unreadable_upload [OF Inl u0 busy, of node] show ?thesis by (auto simp: Inl intro!: exI [of _ "[]"])
    next
      case (Inr p)
      show ?thesis
      proof (cases "?a = UploadPhaseCleanupFailed")
        case True
        from cleanup_run [OF True Inr u0, of node] show ?thesis by (simp add: Inr True)
      next
        case False
        with busy have pend: "?a \<in> pending" by (cases ?a) (auto simp: pending_def idle_phases_def)
        from pending_run [OF pend Inr u0, of node] obtain t where
          "at_trace k (u_Spec u) (run_ends E p {?a, UploadPhaseInProgress} t) (w_trace w @ t)
            (snd (run_state (start_upload E node k u) ?w0))" by (auto simp: ended_def)
        with run_ends_step [OF pend] show ?thesis by (fastforce simp: Inr at_trace_def upload_at_def)
      qed
    qed
  qed
  then show ?thesis using assms(2) by (fastforce simp: at_trace_def upload_at_def)
qed

theorem processUpload_refines_lifecycle_witness:
  "let w' = snd (run_state (processUpload calm ''node-1'' sample_key) (sample_world UploadPhaseNew 0)) in
   map_option (ut_Phase \<circ> u_Status) (w_uploads w' sample_key) = Some UploadPhaseCompleted \<and>
   (\<exists>c d. w_trace w' = c @ d \<and> copy_events \<lparr>pe_type = ''ivd'', pe_id = ''v'', pe_snapshot = ''s''\<rparr> c \<and>
      gone_events calm \<lparr>pe_type = ''ivd'', pe_id = ''v'', pe_snapshot = ''s''\<rparr> d)"
proof -
  let ?w = "sample_world UploadPhaseNew 0" and ?p = "\<lparr>pe_type = ''ivd'', pe_id = ''v'', pe_snapshot = ''s''\<rparr>"
  let ?w' = "snd (run_state (processUpload calm ''node-1'' sample_key) ?w)"
  have stored: "w_uploads ?w sample_key = Some (sample_upload UploadPhaseNew 0)" by (simp add: sample_world_def)
  have id: "e_parse_peid calm (us_SnapshotID (u_Spec (sample_upload UploadPhaseNew 0))) = Inr ?p"
    by (simp add: sample_upload_def calm_parse_def)
  have phase: "map_option (ut_Phase \<circ> u_Status) (w_uploads ?w' sample_key) = Some UploadPhaseCompleted"
    by (simp add: evals Let_def)
  have start: "w_trace ?w = []" "ut_Phase (u_Status (sample_upload UploadPhaseNew 0)) = UploadPhaseNew"
    by (simp_all add: sample_upload_def sample_world_def empty_world_def)
  obtain u' t where "w_uploads ?w' sample_key = Some u'" "w_trace ?w' = t"
    "upload_run calm ?p UploadPhaseNew t (ut_Phase (u_Status u'))"
    using processUpload_refines_lifecycle [OF stored refl, of calm "''node-1''"] unfolding id start by auto
  with phase have "upload_run calm ?p UploadPhaseNew (w_trace ?w') UploadPhaseCompleted" by simp
  from completed_run [OF this] phase show ?thesis by (simp add: pending_def Let_def)
qed

section \<open>When an Upload is completed\<close>

text \<open>\<open>extends t w\<close>: the trace has grown from \<open>t\<close>; \<open>copied p t w\<close>: since then \<open>p\<close> was copied.\<close>

definition extends :: "event list \<Rightarrow> world \<Rightarrow> bool" where
  "extends t0 w \<longleftrightarrow> (\<exists>t. w_trace w = t0 @ t)"

definition copied :: "peid \<Rightarrow> event list \<Rightarrow> world \<Rightarrow> bool" where
  "copied p t0 w \<longleftrightarrow> (\<exists>s3 t. w_trace w = t0 @ t \<and> EvCopied (S3PETM s3) p \<in> set t)"

lemma extends_stable: "upload_stable k S (extends t0)" "upload_copy_stable (extends t0)"
  by (auto simp: upload_stable_def upload_copy_stable_def extends_def)

lemma copied_append: "copied p t0 w \<Longrightarrow> copied p t0 (w\<lparr>w_trace := w_trace w @ [ev]\<rparr>)"
  unfolding copied_def by fastforce

lemma copied_stable: "upload_stable k S (copied p t0)" "upload_copy_stable (copied p t0)"
  using copied_append by (auto simp: upload_stable_def upload_copy_stable_def copied_def)

lemma copyToRepo_copies:
  "triple (extends t0) (copyToRepo E p s3) (\<lambda>r w. \<forall>q. r = Inr q \<longrightarrow> copied p t0 w)"
  by (auto simp: triple_def copyToRepo_def RegisterOngoingUpload_def extends_def copied_def
      split: option.splits sum.splits)

lemma CopyToRepo_copies:
  "triple (extends t0) (CopyToRepo E p) (\<lambda>r w. \<forall>q. r = Inr q \<longrightarrow> copied p t0 w)"
  unfolding CopyToRepo_def
  by (rule triple_bind [OF keeps_GetDefaultS3PETM], simp add: extends_def)
     (intro triple_case_sum copyToRepo_copies triple_return; simp)

lemma CopyToRepoWithBackupRepository_copies:
  "triple (extends t0) (CopyToRepoWithBackupRepository E p b) (\<lambda>r w. \<forall>q. r = Inr q \<longrightarrow> copied p t0 w)"
  unfolding CopyToRepoWithBackupRepository_def
  by (rule triple_bind [OF keeps_GetRepositoryFromBackupRepository], simp add: extends_def)
     (intro triple_case_sum copyToRepo_copies triple_return; simp)

lemma copy_upload_copies:
  "triple (extends t0) (copy_upload E req p) (\<lambda>r w. \<forall>q. r = Inr (Inr q) \<longrightarrow> copied p t0 w)"
proof -
  let ?name = "us_BackupRepositoryName (u_Spec req)"
  let ?Q = "\<lambda>r w. \<forall>q. r = Inr (Inr q) \<longrightarrow> copied p t0 w"
  have default: "triple (extends t0)
      (do { r \<leftarrow> CopyToRepo E p; State_Monad.return (Inr r :: goerr + (goerr + peid)) }) ?Q"
    by (rule triple_bind [OF CopyToRepo_copies]) (simp add: triple_return)
  have named: "triple (extends t0) (do { r \<leftarrow> CopyToRepoWithBackupRepository E p b;
      State_Monad.return (Inr r :: goerr + (goerr + peid)) }) ?Q" for b
    by (rule triple_bind [OF CopyToRepoWithBackupRepository_copies]) (simp add: triple_return)
  have repo: "keeps (extends t0) (GetBackupRepositoryFromBackupRepositoryName E ?name)"
    by (rule keeps_GetBackupRepositoryFromBackupRepositoryName) (simp add: extends_def)
  show ?thesis
    unfolding copy_upload_def Let_def
    apply (rule triple_if)
     apply (rule triple_bind [OF repo])
     apply (rule triple_case_sum)
      apply (rule triple_return, simp)
     apply (rule named)
    apply (rule default)
    done
qed

lemma process_started_honest:
  assumes "ut_Phase (u_Status req) \<noteq> UploadPhaseCleanupFailed" "u_Spec req = sp"
  shows "triple (\<lambda>w. upload_at k sp (- {UploadPhaseCompleted}) w \<and> extends t0 w) (process_started E node k req)
     (\<lambda>_ w. upload_at k sp (- {UploadPhaseCompleted}) w \<or>
        (\<exists>p. e_parse_peid E (us_SnapshotID sp) = Inr p \<and> copied p t0 w))"
proof (cases "e_parse_peid E (us_SnapshotID sp)")
  case (Inl e)
  let ?I = "upload_at k sp (- {UploadPhaseCompleted})"
  have "keeps ?I (process_started E node k req)"
    using Inl assms(2) unfolding process_started_def
    by (auto intro!: keeps_fail_upload [OF upload_at_stable [OF subset_refl]])
  then show ?thesis by (rule triple_weaken) auto
next
  case (Inr p)
  let ?I = "upload_at k sp (- {UploadPhaseCompleted})"
  have failed: "keeps ?I (copy_failed E node k req p e)" for e
    by (rule keeps_copy_failed [OF upload_at_stable [OF subset_refl]]) auto
  have succeeded: "keeps (copied p t0) (copy_done E node k req p)"
    by (rule keeps_copy_done [OF copied_stable(1) [of _ UNIV] copied_stable(2)]) auto
  have copy: "triple (\<lambda>w. ?I w \<and> extends t0 w) (copy_upload E req p)
      (\<lambda>r w. ?I w \<and> (\<forall>q. r = Inr (Inr q) \<longrightarrow> copied p t0 w))"
    by (rule triple_conj [OF keeps_copy_upload [OF _ upload_at_copy_stable] copy_upload_copies])
       (simp add: upload_at_def)
  have "triple (\<lambda>w. ?I w \<and> extends t0 w) (process_started E node k req) (\<lambda>_ w. ?I w \<or> copied p t0 w)"
  proof -
    have "triple (\<lambda>w. ?I w \<and> extends t0 w) (do {
        r \<leftarrow> copy_upload E req p;
        (case r of Inl e \<Rightarrow> State_Monad.return (Some e)
         | Inr (Inl e) \<Rightarrow> copy_failed E node k req p e
         | Inr (Inr _) \<Rightarrow> copy_done E node k req p) }) (\<lambda>_ w. ?I w \<or> copied p t0 w)"
      by (rule triple_bind [OF copy], intro triple_case_sum triple_return
          triple_weaken [OF failed] triple_weaken [OF succeeded]) auto
    with Inr assms show ?thesis by (simp add: process_started_def)
  qed
  then show ?thesis by (rule triple_weaken) (auto simp: Inr)
qed

text \<open>
  C2. An Upload that is called completed was copied. If one run of \<^verbatim>\<open>processUpload\<close> finds
  an Upload that is neither completed nor waiting for a clean-up only, and the stored phase is
  \<open>Completed\<close> afterwards, then during the run the entity named by its snapshot ID was copied
  to an S3 repository. The theorem holds for every behaviour of the API server, lost answers
  included.
\<close>

theorem completed_was_copied:
  assumes "w_uploads w k = Some u"
    and "ut_Phase (u_Status u) \<notin> {UploadPhaseCompleted, UploadPhaseCleanupFailed}"
    and "run_state (processUpload E node k) w = (r, w')"
    and "w_uploads w' k = Some u'" and "ut_Phase (u_Status u') = UploadPhaseCompleted"
  shows "\<exists>p s3 t. e_parse_peid E (us_SnapshotID (u_Spec u)) = Inr p \<and>
     w_trace w' = w_trace w @ t \<and> EvCopied (S3PETM s3) p \<in> set t"
proof -
  let ?sp = "u_Spec u" and ?N = "- {UploadPhaseCompleted, UploadPhaseCleanupFailed}"
  let ?P = "\<lambda>w'. upload_at k ?sp (- {UploadPhaseCompleted}) w' \<or>
      (\<exists>p. e_parse_peid E (us_SnapshotID ?sp) = Inr p \<and> copied p (w_trace w) w')"
  let ?pre = "\<lambda>v. upload_at k ?sp ?N v \<and> extends (w_trace w) v"
  have pre: "?pre (w\<lparr>w_tick := n\<rparr>)" for n
    using assms(1,2) by (simp add: upload_at_def extends_def)
  have start: "triple ?pre (patchUploadByStatusWithRetry E node k u UploadPhaseInProgress '''')
      (\<lambda>r v. (upload_at k ?sp ?N v \<and> (\<forall>x. r = Inr x \<longrightarrow> w_uploads v k = Some x \<and> u_Spec x = ?sp \<and>
         ut_Phase (u_Status x) \<in> ?N)) \<and> extends (w_trace w) v)"
    by (rule triple_conj [OF write_upload_at keeps_write_phase [OF extends_stable(1) [of _ UNIV]]]) auto
  have run: "triple ?pre (process_started E node k x) (\<lambda>_. ?P)"
    if "u_Spec x = ?sp" "ut_Phase (u_Status x) \<in> ?N" for x
    by (rule triple_weaken [OF process_started_honest [of x ?sp k "w_trace w"]])
       (use that in \<open>auto elim: upload_at_mono\<close>)
  have "triple ?pre (start_upload E node k u) (\<lambda>_. ?P)"
    unfolding start_upload_def
  proof (intro triple_if triple_bind [OF start] triple_case_sum)
    fix r :: "goerr + Upload" and y assume "r = Inr y"
    then show "triple (\<lambda>v. (upload_at k ?sp ?N v \<and> (\<forall>x. r = Inr x \<longrightarrow> w_uploads v k = Some x \<and>
        u_Spec x = ?sp \<and> ut_Phase (u_Status x) \<in> ?N)) \<and> extends (w_trace w) v)
        (process_started E node k y) (\<lambda>_. ?P)"
      using run [of y] unfolding triple_def by blast
  qed (use assms(2) run [of u] in \<open>auto intro!: triple_return elim: upload_at_mono\<close>)
  then have "?P (snd (run_state (start_upload E node k u) (w\<lparr>w_tick := Suc (w_tick w)\<rparr>)))"
    using pre unfolding triple_def by blast
  moreover have "?P (w\<lparr>w_tick := Suc (w_tick w)\<rparr>)"
    using upload_at_mono [OF conjunct1 [OF pre]] by blast
  ultimately have "?P (snd (run_state (processUpload E node k) w))"
    by (rule processUpload_run [OF assms(1), rotated])
  then have "?P w'" using assms(3) by simp
  then show ?thesis using assms(4,5) by (auto simp: upload_at_def copied_def)
qed

theorem completed_was_copied_witness:
  "\<exists>s3 t. w_trace (snd (run_state (processUpload calm ''node-1'' sample_key) (sample_world UploadPhaseInProgress 0)))
      = t \<and> EvCopied (S3PETM s3) \<lparr>pe_type = ''ivd'', pe_id = ''v'', pe_snapshot = ''s''\<rparr> \<in> set t"
proof -
  let ?w = "sample_world UploadPhaseInProgress 0"
  let ?run = "run_state (processUpload calm ''node-1'' sample_key) ?w"
  have st: "w_uploads ?w sample_key = Some (sample_upload UploadPhaseInProgress 0)"
    by (simp add: sample_world_def)
  have "map_option (ut_Phase \<circ> u_Status) (w_uploads (snd ?run) sample_key) = Some UploadPhaseCompleted"
    by (simp add: evals Let_def)
  then obtain u' where u': "w_uploads (snd ?run) sample_key = Some u'" "ut_Phase (u_Status u') = UploadPhaseCompleted"
    by auto
  from completed_was_copied [OF st _ prod.collapse [symmetric] u']
  show ?thesis by (auto simp: sample_upload_def sample_world_def empty_world_def calm_parse_def)
qed

lemma cleanup_only_deletes:
  assumes "ut_Phase (u_Status req) = UploadPhaseCleanupFailed"
    and stable: "upload_stable k UNIV I"
  shows "keeps I (process_started E node k req)"
  unfolding process_started_def
  by (intro keeps_rules keeps_fail_upload [OF stable] keeps_cleanup_then [OF stable]) (use assms in auto)

text \<open>
  The clean-up path never copies. For an Upload in phase \<open>CleanupFailed\<close>,
  \<^verbatim>\<open>processUpload\<close> does nothing outside the cluster but delete local snapshots; in
  particular, when it then writes \<open>Completed\<close>, that says nothing about a copy.
\<close>

theorem cleanup_never_copies:
  assumes "w_uploads w k = Some u" and "ut_Phase (u_Status u) = UploadPhaseCleanupFailed"
  shows "\<exists>ps. w_trace (snd (run_state (processUpload E node k) w)) =
     w_trace w @ map (\<lambda>p. EvSnapshotDeleted LocalPEM p (pe_snapshot p)) ps"
proof -
  let ?I = "\<lambda>v. \<exists>ps. w_trace v = w_trace w @ map (\<lambda>p. EvSnapshotDeleted LocalPEM p (pe_snapshot p)) ps"
  have "?I (v\<lparr>w_trace := w_trace v @ [EvSnapshotDeleted LocalPEM p (pe_snapshot p)]\<rparr>)" if "?I v" for v :: world and p
  proof -
    from that obtain ps where "w_trace v = w_trace w @ map (\<lambda>p. EvSnapshotDeleted LocalPEM p (pe_snapshot p)) ps"
      by blast
    then show ?thesis by (intro exI [of _ "ps @ [p]"]) simp
  qed
  then have stable: "upload_stable k UNIV ?I" by (simp add: upload_stable_def)
  show ?thesis
  proof (rule processUpload_run [OF assms(1)])
    show "?I (w\<lparr>w_tick := Suc (w_tick w)\<rparr>)" by (intro exI [of _ "[]"]) simp
    have "keeps ?I (start_upload E node k u)"
      using cleanup_only_deletes [OF assms(2) stable] assms(2) by (simp add: start_upload_def)
    then show "?I (snd (run_state (start_upload E node k u) (w\<lparr>w_tick := Suc (w_tick w)\<rparr>)))"
      by (rule keeps_run) (intro exI [of _ "[]"], simp)
  qed
qed

theorem cleanup_never_copies_witness:
  "\<exists>ps. w_trace (snd (run_state (processUpload calm ''node-1'' sample_key) (sample_world UploadPhaseCleanupFailed 10)))
      = map (\<lambda>p. EvSnapshotDeleted LocalPEM p (pe_snapshot p)) ps"
  using cleanup_never_copies [of "sample_world UploadPhaseCleanupFailed 10" sample_key
      "sample_upload UploadPhaseCleanupFailed 10" calm "''node-1''"]
  by (simp add: sample_world_def sample_upload_def empty_world_def)

section \<open>What else a run touches\<close>

text \<open>
  Frame of \<^verbatim>\<open>processUpload\<close>. Whatever happens, no Upload but \<open>k\<close> and no object of
  another kind is created, changed or deleted.
\<close>

theorem processUpload_frame:
  "let w' = snd (run_state (processUpload E node k) w)
   in w_uploads w' = (w_uploads w)(k := w_uploads w' k) \<and> w_downloads w' = w_downloads w \<and>
      w_snapshots w' = w_snapshots w \<and> w_svc_snapshots w' = w_svc_snapshots w \<and>
      w_clones w' = w_clones w \<and> w_deletes w' = w_deletes w \<and> w_brs w' = w_brs w \<and> w_brcs w' = w_brcs w"
proof -
  let ?I = "\<lambda>v. (\<forall>k'. k' \<noteq> k \<longrightarrow> w_uploads v k' = w_uploads w k') \<and> w_downloads v = w_downloads w \<and>
      w_snapshots v = w_snapshots w \<and> w_svc_snapshots v = w_svc_snapshots w \<and>
      w_clones v = w_clones w \<and> w_deletes v = w_deletes w \<and> w_brs v = w_brs w \<and> w_brcs v = w_brcs w"
  have "upload_stable k UNIV ?I" by (simp add: upload_stable_def)
  then have "keeps ?I (processUpload E node k)"
    by (intro keeps_processUpload) (auto elim: upload_stable_mono simp: upload_copy_stable_def)
  from keeps_run [OF this, of w] show ?thesis by (auto simp: Let_def fun_eq_iff)
qed

text \<open>
  An Upload that is finished stays finished. On an Upload that is completed, canceled,
  being canceled or given up, \<^verbatim>\<open>processUpload\<close> only reads: nothing is written, copied or
  deleted.
\<close>

theorem finished_upload_untouched:
  assumes "w_uploads w k = Some u"
    and "ut_Phase (u_Status u) \<in> {UploadPhaseCanceled, UploadPhaseCanceling, UploadPhaseCompleted,
           UploadPhaseUploadFailedAfterRetry}"
  shows "snd (run_state (processUpload E node k) w) = w\<lparr>w_tick := Suc (w_tick w)\<rparr>"
  by (rule processUpload_idle [of _ "u_Spec u"]) (use assms in \<open>simp add: upload_at_def idle_phases_def\<close>)

theorem finished_upload_untouched_witness:
  "snd (run_state (processUpload calm ''node-1'' sample_key) (sample_world UploadPhaseCanceling 0)) =
     (sample_world UploadPhaseCanceling 0)\<lparr>w_tick := 1\<rparr>"
  using finished_upload_untouched [of "sample_world UploadPhaseCanceling 0" sample_key
      "sample_upload UploadPhaseCanceling 0"]
  by (simp add: sample_world_def sample_upload_def empty_world_def)

section \<open>Uploads in an environment that works\<close>

text \<open>
  \<open>healthy E p\<close>: the API server carries out every request, and copying and deleting the
  entity \<open>p\<close> succeeds. \<open>repository_works E name w\<close>: the repository an Upload names can be
  used, the default one if it names none, or else the BackupRepository that is stored under the
  name. How often a poll may repeat, the clock and everything else stay arbitrary.
\<close>

definition healthy :: "env \<Rightarrow> peid \<Rightarrow> bool" where
  "healthy E p \<longleftrightarrow>
     (\<forall>n. e_fate E n = Accepted) \<and>
     (\<forall>n m. e_get_pe E n m p = None) \<and> (\<forall>n m. \<exists>q. e_copy E n m p = Inr q) \<and>
     e_has_snapshot E p \<and> e_has_petm E (pe_type p) \<and>
     (\<forall>n. \<exists>s ss. e_list_snapshots E n LocalPEM p = Inr (s # ss)) \<and>
     (\<forall>n. \<exists>b. e_delete_snapshot E n LocalPEM p (pe_snapshot p) = Inr b)"

definition repository_works :: "env \<Rightarrow> string \<Rightarrow> world \<Rightarrow> bool" where
  "repository_works E name w \<longleftrightarrow>
     (if name \<in> {'''', WithoutBackupRepository}
      then \<forall>v. \<exists>cfg. fst (run_state (GetDefaultS3PETM E) v) = Inr cfg
      else (\<forall>n. e_client E n = None) \<and> (\<exists>br. w_brs w ('''', name) = Some br \<and>
        (\<forall>v. \<exists>cfg. fst (run_state (GetRepositoryFromBackupRepository E br) v) = Inr cfg)))"

lemma repository_works_cong: "w_brs w' = w_brs w \<Longrightarrow> repository_works E name w' = repository_works E name w"
  by (simp add: repository_works_def)

lemma write_accepted:
  assumes "\<forall>n. e_fate E n = Accepted" and "w_uploads w k = Some req"
    and "newPhase \<notin> {UploadPhaseUnset, UploadPhaseNew}"
  shows "\<exists>u n. run_state (patchUploadByStatusWithRetry E node k req newPhase msg) w =
       (Inr u, w\<lparr>w_tick := n, w_uploads := (w_uploads w)(k \<mapsto> u)\<rparr>) \<and>
     ut_Phase (u_Status u) = newPhase \<and> u_Spec u = u_Spec req"
proof -
  let ?w0 = "w\<lparr>w_tick := Suc (w_tick w)\<rparr>"
  obtain mutate where att: "patchUploadByStatus E node k newPhase msg req = PatchUpload E k req mutate"
    and quiet: "silent (mutate req)"
    and phase: "\<And>w. ut_Phase (u_Status (fst (run_state (mutate req) w))) = newPhase"
    and spec: "\<And>w. u_Spec (fst (run_state (mutate req) w)) = u_Spec req"
    using assms(3) by (cases newPhase)
      (auto simp: patchUploadByStatus_def upload_status_fields silent_upload_status)
  obtain u w1 where mut: "run_state (mutate req) ?w0 = (u, w1)" by fastforce
  from quiet mut obtain n where w1: "w1 = ?w0\<lparr>w_tick := n\<rparr>" unfolding silent_def by (metis snd_conv)
  have "run_state (patchUploadByStatus E node k newPhase msg req) ?w0 =
      ((Inr u, u), w\<lparr>w_tick := Suc n, w_uploads := (w_uploads w)(k \<mapsto> u)\<rparr>)"
    using assms(1,2) by (simp add: att PatchUpload_def patch_object_def mut w1 cr_modify_def upload_merge.merge_fresh)
  from patch_with_retry_once [where E = E and req = req and
      attempt = "patchUploadByStatus E node k newPhase msg", OF this] mut phase [of ?w0] spec [of ?w0] show ?thesis
    by (auto simp: patchUploadByStatusWithRetry_def)
qed

lemma delete_local_healthy:
  assumes "healthy E p"
  shows "\<exists>n. run_state (DeleteLocalSnapshot E p) w =
     (None, w\<lparr>w_tick := n, w_trace := w_trace w @ [EvSnapshotDeleted LocalPEM p (pe_snapshot p)]\<rparr>)"
proof -
  have del: "run_state (delete_attempt E p LocalPEM l) v =
     ((Inr True, ()), v\<lparr>w_tick := Suc (w_tick v), w_trace := w_trace v @ [EvSnapshotDeleted LocalPEM p (pe_snapshot p)]\<rparr>)"
    for v l
    using assms by (auto simp: healthy_def delete_attempt_def split: sum.splits) (metis Inr_not_Inl)
  obtain s ss where "e_list_snapshots E (Suc (w_tick w)) LocalPEM p = Inr (s # ss)"
    using assms unfolding healthy_def by blast
  then show ?thesis
    using assms by (simp add: healthy_def DeleteLocalSnapshot_def deleteSnapshotFromRepo_def
        poll_immediate_first [OF del] exI [of _ "Suc (Suc (Suc (Suc (w_tick w))))"])
qed

lemma copyToRepo_healthy:
  assumes "healthy E p"
  shows "\<exists>q w'. run_state (copyToRepo E p cfg) w = (Inr q, w') \<and> w_uploads w' = w_uploads w \<and>
    w_trace w' = w_trace w @ [EvCopied (S3PETM cfg) p]"
proof -
  obtain q where "e_copy E (Suc (Suc (w_tick w))) (S3PETM cfg) p = Inr q"
    using assms unfolding healthy_def by blast
  then show ?thesis using assms by (auto simp: healthy_def copyToRepo_def RegisterOngoingUpload_def)
qed

text \<open>Reading the settings of a repository changes nothing but the call counter.\<close>

lemma settings_read:
  assumes "\<And>I :: world \<Rightarrow> bool. (\<And>w n. I w \<Longrightarrow> I (w\<lparr>w_tick := n\<rparr>)) \<Longrightarrow> keeps I m" and "run_state m w = (r, w')"
  shows "w_uploads w' = w_uploads w \<and> w_trace w' = w_trace w \<and> w_brs w' = w_brs w"
proof -
  have "keeps (\<lambda>v. w_uploads v = w_uploads w \<and> w_trace v = w_trace w \<and> w_brs v = w_brs w) m" by (rule assms(1)) simp
  from tripleD [OF this _ assms(2)] show ?thesis by simp
qed

lemma copy_upload_healthy:
  assumes "healthy E p" and "repository_works E (us_BackupRepositoryName (u_Spec req)) w"
  shows "\<exists>q s3 w'. run_state (copy_upload E req p) w = (Inr (Inr q), w') \<and> w_uploads w' = w_uploads w \<and>
    w_trace w' = w_trace w @ [EvCopied (S3PETM s3) p]"
proof (cases "us_BackupRepositoryName (u_Spec req) \<in> {'''', WithoutBackupRepository}")
  case True
  then obtain cfg w1 where s3: "run_state (GetDefaultS3PETM E) w = (Inr cfg, w1)"
    using assms(2) unfolding repository_works_def by (metis prod.collapse)
  obtain q w' where "run_state (copyToRepo E p cfg) w1 = (Inr q, w')" "w_uploads w' = w_uploads w1"
    "w_trace w' = w_trace w1 @ [EvCopied (S3PETM cfg) p]" using copyToRepo_healthy [OF assms(1)] by blast
  with s3 settings_read [OF keeps_GetDefaultS3PETM s3] True show ?thesis
    by (auto simp: copy_upload_def CopyToRepo_def)
next
  case False
  let ?name = "us_BackupRepositoryName (u_Spec req)"
  from False assms(2) obtain br where client: "\<forall>n. e_client E n = None" and br: "w_brs w ('''', ?name) = Some br"
    and works: "\<forall>v. \<exists>cfg. fst (run_state (GetRepositoryFromBackupRepository E br) v) = Inr cfg"
    by (auto simp: repository_works_def)
  have fate: "\<forall>n. e_fate E n = Accepted" using assms(1) by (simp add: healthy_def)
  let ?w0 = "w\<lparr>w_tick := Suc (Suc (Suc (w_tick w)))\<rparr>"
  have get: "run_state (GetBackupRepositoryFromBackupRepositoryName E ?name) w = (Inr br, ?w0)"
    using client br fate by (simp add: GetBackupRepositoryFromBackupRepositoryName_def connect_def cr_get_def)
  obtain cfg w1 where s3: "run_state (GetRepositoryFromBackupRepository E br) ?w0 = (Inr cfg, w1)"
    using works by (metis prod.collapse)
  obtain q w' where "run_state (copyToRepo E p cfg) w1 = (Inr q, w')" "w_uploads w' = w_uploads w1"
    "w_trace w' = w_trace w1 @ [EvCopied (S3PETM cfg) p]" using copyToRepo_healthy [OF assms(1)] by blast
  with get s3 settings_read [OF keeps_GetRepositoryFromBackupRepository s3] False show ?thesis
    by (auto simp: copy_upload_def CopyToRepoWithBackupRepository_def)
qed

text \<open>A clean-up in such an environment, from any world.\<close>

lemma cleanup_healthy:
  assumes "healthy E p" and "w_uploads w k = Some u" and "final \<notin> {UploadPhaseUnset, UploadPhaseNew}"
  shows "\<exists>u' n. run_state (cleanup_then E node k u p final) w = (None, w\<lparr>w_tick := n,
      w_trace := w_trace w @ [EvSnapshotDeleted LocalPEM p (pe_snapshot p)],
      w_uploads := (w_uploads w)(k \<mapsto> u')\<rparr>) \<and> ut_Phase (u_Status u') = final"
proof -
  have fate: "\<forall>n. e_fate E n = Accepted" using assms(1) by (simp add: healthy_def)
  obtain n where del: "run_state (DeleteLocalSnapshot E p) w =
     (None, w\<lparr>w_tick := n, w_trace := w_trace w @ [EvSnapshotDeleted LocalPEM p (pe_snapshot p)]\<rparr>)"
    using delete_local_healthy [OF assms(1)] by blast
  let ?w1 = "w\<lparr>w_tick := n, w_trace := w_trace w @ [EvSnapshotDeleted LocalPEM p (pe_snapshot p)]\<rparr>"
  obtain u' n' where "run_state (patchUploadByStatusWithRetry E node k u final
        (''Successfully deleted local snapshot, '' @ e_print_peid E p)) ?w1 =
      (Inr u', ?w1\<lparr>w_tick := n', w_uploads := (w_uploads ?w1)(k \<mapsto> u')\<rparr>)" "ut_Phase (u_Status u') = final"
    using write_accepted [of E ?w1 k u final node "''Successfully deleted local snapshot, '' @ e_print_peid E p"]
      assms fate by fastforce
  then show ?thesis by (intro exI [of _ u'] exI [of _ n']) (simp add: cleanup_then_def del)
qed

text \<open>A started upload in such an environment, from any world.\<close>

lemma process_started_healthy:
  assumes "healthy E p" and "w_uploads w k = Some u"
    and "e_parse_peid E (us_SnapshotID (u_Spec u)) = Inr p"
    and "repository_works E (us_BackupRepositoryName (u_Spec u)) w"
    and "ut_Phase (u_Status u) \<noteq> UploadPhaseCleanupFailed"
  shows "\<exists>u' w' s3. run_state (process_started E node k u) w = (None, w') \<and>
     w_uploads w' = (w_uploads w)(k \<mapsto> u') \<and> ut_Phase (u_Status u') = UploadPhaseCompleted \<and> \<not> IsUploading p w' \<and>
     w_trace w' = w_trace w @ [EvCopied (S3PETM s3) p, EvSnapshotDeleted LocalPEM p (pe_snapshot p)]"
proof -
  obtain q s3 w1 where copy: "run_state (copy_upload E u p) w = (Inr (Inr q), w1)" and w1: "w_uploads w1 = w_uploads w"
    "w_trace w1 = w_trace w @ [EvCopied (S3PETM s3) p]"
    using copy_upload_healthy [OF assms(1,4)] by blast
  let ?w2 = "UnregisterOngoingUpload p w1"
  have w2: "w_uploads ?w2 = w_uploads w" "w_trace ?w2 = w_trace w1" "\<not> IsUploading p ?w2"
    using w1 ongoing.registered_unregister by (auto simp: UnregisterOngoingUpload_def split: option.splits)
  obtain n where del: "run_state (DeleteLocalSnapshot E p) ?w2 =
     (None, ?w2\<lparr>w_tick := n, w_trace := w_trace ?w2 @ [EvSnapshotDeleted LocalPEM p (pe_snapshot p)]\<rparr>)"
    using delete_local_healthy [OF assms(1)] by blast
  let ?w3 = "?w2\<lparr>w_tick := n, w_trace := w_trace ?w2 @ [EvSnapshotDeleted LocalPEM p (pe_snapshot p)]\<rparr>"
  obtain u' n' where fin: "run_state (patchUploadByStatusWithRetry E node k u UploadPhaseCompleted ''Upload completed'') ?w3 =
      (Inr u', ?w3\<lparr>w_tick := n', w_uploads := (w_uploads ?w3)(k \<mapsto> u')\<rparr>)"
      "ut_Phase (u_Status u') = UploadPhaseCompleted"
    using write_accepted [of E ?w3 k u UploadPhaseCompleted node "''Upload completed''"] assms(1,2) w2
    unfolding healthy_def by fastforce
  then show ?thesis
    using assms(3,5) w2 w1
    by (intro exI [of _ u']) (simp add: process_started_def copy copy_done_def del world_simps)
qed

text \<open>
  C7. Progress. In an environment that works, one run of \<^verbatim>\<open>processUpload\<close> on an Upload
  that is new, interrupted or waiting for a retry, and whose repository, the default or the
  named one, can be used, reports no error and leaves it \<open>Completed\<close>: the entity is copied to
  an S3 repository, then its local snapshot is deleted, and nothing else happens outside the
  cluster. No registration is left behind, however often the poll loops would be willing to retry.
\<close>

theorem processUpload_completes:
  assumes "healthy E p" and "w_uploads w k = Some u"
    and "ut_Phase (u_Status u) \<in> {UploadPhaseUnset, UploadPhaseNew, UploadPhaseInProgress, UploadPhaseUploadError}"
    and "e_parse_peid E (us_SnapshotID (u_Spec u)) = Inr p"
    and "repository_works E (us_BackupRepositoryName (u_Spec u)) w"
  shows "\<exists>u' w' s3. run_state (processUpload E node k) w = (None, w') \<and>
     w_uploads w' k = Some u' \<and> ut_Phase (u_Status u') = UploadPhaseCompleted \<and> \<not> IsUploading p w' \<and>
     w_trace w' = w_trace w @ [EvCopied (S3PETM s3) p, EvSnapshotDeleted LocalPEM p (pe_snapshot p)]"
proof -
  let ?w0 = "w\<lparr>w_tick := Suc (w_tick w)\<rparr>"
  have fate: "\<forall>n. e_fate E n = Accepted" using assms(1) by (simp add: healthy_def)
  have step: "run_state (processUpload E node k) w = run_state (start_upload E node k u) ?w0"
    using assms(2,3) fate by (auto simp: processUpload_def cr_get_def Let_def)
  have works: "repository_works E (us_BackupRepositoryName (u_Spec u)) v" if "w_brs v = w_brs w" for v
    using assms(5) repository_works_cong [OF that] by simp
  show ?thesis
  proof (cases "ut_Phase (u_Status u) = UploadPhaseInProgress")
    case True
    with step process_started_healthy [OF assms(1) _ assms(4) works, of ?w0 k node] assms(2)
    show ?thesis by (fastforce simp: start_upload_def)
  next
    case False
    obtain u1 n where start: "run_state (patchUploadByStatusWithRetry E node k u UploadPhaseInProgress '''') ?w0 =
        (Inr u1, ?w0\<lparr>w_tick := n, w_uploads := (w_uploads ?w0)(k \<mapsto> u1)\<rparr>)"
      "ut_Phase (u_Status u1) = UploadPhaseInProgress" "u_Spec u1 = u_Spec u"
      using write_accepted [OF fate, of ?w0 k u UploadPhaseInProgress node "''''"] assms(2) by auto
    let ?w1 = "?w0\<lparr>w_tick := n, w_uploads := (w_uploads ?w0)(k \<mapsto> u1)\<rparr>"
    have "repository_works E (us_BackupRepositoryName (u_Spec u1)) ?w1" using works [of ?w1] start(3) by simp
    then obtain u' w' s3 where "run_state (process_started E node k u1) ?w1 = (None, w')"
      "w_uploads w' = (w_uploads ?w1)(k \<mapsto> u')" "ut_Phase (u_Status u') = UploadPhaseCompleted" "\<not> IsUploading p w'"
      "w_trace w' = w_trace w @ [EvCopied (S3PETM s3) p, EvSnapshotDeleted LocalPEM p (pe_snapshot p)]"
      using process_started_healthy [OF assms(1), of ?w1 k u1 node] assms(4) start by auto
    with False assms(3) start(1) step show ?thesis by (auto simp: start_upload_def)
  qed
qed

definition sample_pe :: peid where
  "sample_pe = \<lparr>pe_type = ''ivd'', pe_id = ''v'', pe_snapshot = ''s''\<rparr>"

lemma healthy_calm: "healthy calm sample_pe"
  by (auto simp: healthy_def sample_pe_def evals Let_def)

lemma sample_upload_pe:
  "e_parse_peid calm (us_SnapshotID (u_Spec (sample_upload ph n))) = Inr sample_pe"
  "us_BackupRepositoryName (u_Spec (sample_upload ph n)) = ''''"
  "ut_Phase (u_Status (sample_upload ph n)) = ph"
  by (simp_all add: sample_upload_def calm_parse_def sample_pe_def)

lemma sample_world_upload: "w_uploads (sample_world ph n) sample_key = Some (sample_upload ph n)"
  by (simp add: sample_world_def)

definition named_repository :: BackupRepository where
  "named_repository = \<lparr>br_Meta = \<lparr>om_Namespace = '''', om_Name = ''br-1'', om_UID = '''', om_Labels = Map.empty,
       om_DeletionTimestamp = None\<rparr>, br_AllowedNamespaces = [], br_RepositoryDriver = S3RepositoryDriver,
     br_RepositoryParameters = [''region'' \<mapsto> ''us-east-1'', ''bucket'' \<mapsto> ''bucket''],
     br_BackupRepositoryClaim = '''', br_SvcBackupRepositoryName = ''''\<rparr>"

definition named_upload :: Upload where
  "named_upload = (sample_upload UploadPhaseUploadError 3)\<lparr>u_Spec :=
     (u_Spec (sample_upload UploadPhaseUploadError 3))\<lparr>us_BackupRepositoryName := ''br-1''\<rparr>\<rparr>"

definition named_world :: world where
  "named_world = empty_world\<lparr>w_uploads := [sample_key \<mapsto> named_upload], w_brs := [('''', ''br-1'') \<mapsto> named_repository]\<rparr>"

theorem processUpload_completes_witness:
  "\<exists>u' w'. run_state (processUpload calm ''node-1'' sample_key) named_world = (None, w') \<and>
     w_uploads w' sample_key = Some u' \<and> ut_Phase (u_Status u') = UploadPhaseCompleted \<and> \<not> IsUploading sample_pe w'"
proof -
  have "repository_works calm (us_BackupRepositoryName (u_Spec named_upload)) named_world"
    by (auto simp: repository_works_def named_upload_def named_world_def named_repository_def WithoutBackupRepository_def evals)
  moreover have "w_uploads named_world sample_key = Some named_upload" by (simp add: named_world_def)
  moreover have "ut_Phase (u_Status named_upload) = UploadPhaseUploadError"
    "e_parse_peid calm (us_SnapshotID (u_Spec named_upload)) = Inr sample_pe"
    by (simp_all add: named_upload_def sample_upload_def calm_parse_def sample_pe_def)
  ultimately show ?thesis
    using processUpload_completes [OF healthy_calm, of named_world sample_key named_upload "''node-1''"] by auto
qed

section \<open>An upload that was given up\<close>

text \<open>An environment in which neither copies nor deletions work.\<close>

definition stormy :: env where
  "stormy = calm\<lparr>e_copy := (\<lambda>n m p. Inl (ErrMsg ''connection reset'')),
     e_delete_snapshot := (\<lambda>n m p s. Inl (ErrMsg ''host unreachable''))\<rparr>"

lemma given_up_first_run:
  "case run_state (processUpload stormy ''node-1'' sample_key) (sample_world UploadPhaseInProgress 10) of (_, w1) \<Rightarrow>
     w_trace w1 = [] \<and> (case w_uploads w1 sample_key of
        None \<Rightarrow> False
      | Some u \<Rightarrow> ut_Phase (u_Status u) = UploadPhaseCleanupFailed \<and> us_SnapshotID (u_Spec u) = ''ivd|v|s'')"
  by (simp add: evals stormy_def Let_def invalid_state_def DefaultUploadCRRetryMaximum_def)

lemma cleanup_run_healthy:
  assumes "healthy E p" and "w_uploads w k = Some u" and "ut_Phase (u_Status u) = UploadPhaseCleanupFailed"
    and "e_parse_peid E (us_SnapshotID (u_Spec u)) = Inr p"
  shows "\<exists>u' w'. run_state (processUpload E node k) w = (None, w') \<and> w_uploads w' k = Some u' \<and>
     ut_Phase (u_Status u') = UploadPhaseCompleted \<and>
     w_trace w' = w_trace w @ [EvSnapshotDeleted LocalPEM p (pe_snapshot p)]"
  using cleanup_healthy [of E p "w\<lparr>w_tick := Suc (w_tick w)\<rparr>" k u UploadPhaseCompleted node] assms
  by (auto simp: processUpload_def cr_get_def Let_def start_upload_def process_started_def healthy_def)

text \<open>
  An Upload that was given up can end as completed. An Upload whose copy failed once more
  after the last retry, and whose local snapshot could then not be deleted, is stored as
  \<open>CleanupFailed\<close>; when the next run succeeds in deleting the snapshot, the Upload is stored as
  \<open>Completed\<close>, although no copy was ever made and the local snapshot is gone.
\<close>

theorem given_up_upload_is_completed:
  "let w1 = snd (run_state (processUpload stormy ''node-1'' sample_key) (sample_world UploadPhaseInProgress 10));
       w2 = snd (run_state (processUpload calm ''node-1'' sample_key) w1)
   in map_option (ut_Phase \<circ> u_Status) (w_uploads w1 sample_key) = Some UploadPhaseCleanupFailed \<and>
      map_option (ut_Phase \<circ> u_Status) (w_uploads w2 sample_key) = Some UploadPhaseCompleted \<and>
      w_trace w2 = [EvSnapshotDeleted LocalPEM sample_pe (pe_snapshot sample_pe)]"
proof -
  let ?w1 = "snd (run_state (processUpload stormy ''node-1'' sample_key) (sample_world UploadPhaseInProgress 10))"
  obtain u where u: "w_trace ?w1 = []" "w_uploads ?w1 sample_key = Some u"
    "ut_Phase (u_Status u) = UploadPhaseCleanupFailed" "us_SnapshotID (u_Spec u) = ''ivd|v|s''"
    using given_up_first_run by (auto split: prod.splits option.splits)
  have "e_parse_peid calm (us_SnapshotID (u_Spec u)) = Inr sample_pe"
    by (simp add: u calm_parse_def sample_pe_def)
  from cleanup_run_healthy [OF healthy_calm u(2,3) this, of "''node-1''"] u(1-3) show ?thesis
    by (auto simp: Let_def)
qed

end
