(* ===== verification/Upload_Events.thy ===== *)
theory Upload_Events
  imports Upload_Correctness
begin

text \<open>
  The event side of the upload controller: cancellation, the informer's handler that decides
  which Uploads enter the work queue, and the worker's turn.
\<close>

section \<open>Cancellation\<close>

lemma keeps_registry_write:
  "keeps (\<lambda>v. w_ongoing v = m \<and> w_trace v = t) (patchUploadByStatusWithRetry E node k req newPhase msg)"
  by (rule keeps_patchUploadByStatusWithRetry) auto

text \<open>
  C11. Canceling an upload. On a node that is not copying the entity nothing happens at all.
  On the node that is, a cancellation that reports success has stopped exactly this copy: the
  entity is no longer registered, every other registration stands, and the only thing done
  outside the cluster is the cancellation.
\<close>

theorem cancel_stops_the_copy:
  assumes "e_parse_peid E (us_SnapshotID (u_Spec req)) = Inr p"
    and "run_state (triggerUploadCancellation E node k req) w = (None, w')"
  shows "if IsUploading p w
    then w_ongoing w' = (w_ongoing w)(p := None) \<and> w_trace w' = w_trace w @ [EvUploadCanceled p]
    else w' = w"
proof (cases "IsUploading p w")
  case False
  with assms show ?thesis by (simp add: triggerUploadCancellation_def)
next
  case True
  obtain r w1 where run: "run_state (patchUploadByStatusWithRetry E node k req UploadPhaseCanceling
      ''Canceling on-going upload to repository.'') w = (r, w1)" by fastforce
  from tripleD [OF keeps_registry_write _ run] have w1: "w_ongoing w1 = w_ongoing w" "w_trace w1 = w_trace w"
    by simp_all
  with assms True run show ?thesis
    by (cases r) (auto simp: triggerUploadCancellation_def CancelUpload_def IsUploading_def split: option.splits)
qed

definition busy_world :: "UploadPhase \<Rightarrow> world" where
  "busy_world ph = (sample_world ph 0)\<lparr>w_ongoing := [sample_pe \<mapsto> 7]\<rparr>"

theorem cancel_stops_the_copy_witness:
  "\<exists>w'. run_state (triggerUploadCancellation calm ''node-1'' sample_key (sample_upload UploadPhaseInProgress 0))
      (busy_world UploadPhaseInProgress) = (None, w') \<and>
    w_ongoing w' = Map.empty \<and> w_trace w' = [EvUploadCanceled sample_pe]"
proof -
  let ?run = "run_state (triggerUploadCancellation calm ''node-1'' sample_key (sample_upload UploadPhaseInProgress 0))
      (busy_world UploadPhaseInProgress)"
  have "fst ?run = None" by (simp add: evals busy_world_def sample_pe_def Let_def)
  then have run: "?run = (None, snd ?run)" by (metis prod.collapse)
  from cancel_stops_the_copy [OF sample_upload_pe(1) run]
  show ?thesis using run
    by (auto simp: busy_world_def IsUploading_def sample_world_def empty_world_def)
qed

definition no_network :: env where
  "no_network = calm\<lparr>e_copy := (\<lambda>n m p. Inl (ErrMsg ''connection reset''))\<rparr>"

lemma failed_copy_run:
  "case run_state (processUpload no_network ''node-1'' sample_key) (sample_world UploadPhaseInProgress 0) of (_, w1) \<Rightarrow>
     w_ongoing w1 sample_pe \<noteq> None \<and> (case w_uploads w1 sample_key of
        None \<Rightarrow> False
      | Some u \<Rightarrow> ut_Phase (u_Status u) = UploadPhaseUploadError \<and> us_SnapshotID (u_Spec u) = ''ivd|v|s'')"
  by (simp add: evals no_network_def Let_def DefaultUploadCRRetryMaximum_def sample_pe_def)

lemma cancel_run:
  assumes "\<forall>n. e_fate E n = Accepted" and "w_uploads w k = Some u"
    and "e_parse_peid E (us_SnapshotID (u_Spec u)) = Inr p" and "IsUploading p w"
  shows "\<exists>u' w'. run_state (triggerUploadCancellation E node k u) w = (None, w') \<and>
     w_uploads w' k = Some u' \<and> ut_Phase (u_Status u') = UploadPhaseCanceling"
proof -
  obtain u' n where "run_state (patchUploadByStatusWithRetry E node k u UploadPhaseCanceling
      ''Canceling on-going upload to repository.'') w = (Inr u', w\<lparr>w_tick := n, w_uploads := (w_uploads w)(k \<mapsto> u')\<rparr>)"
    "ut_Phase (u_Status u') = UploadPhaseCanceling"
    using write_accepted [OF assms(1,2), of UploadPhaseCanceling] by fastforce
  with assms(3,4) show ?thesis
    by (auto simp: triggerUploadCancellation_def CancelUpload_def IsUploading_def)
qed

text \<open>
  A failed copy blocks the cancellation. A copy that fails leaves its registration behind.
  If the Upload is canceled while it waits for its retry, the handler therefore takes the
  copy for running: it stores \<open>Canceling\<close>, from which no run of \<^verbatim>\<open>processUpload\<close> moves on,
  so that the Upload never reaches \<open>Canceled\<close>.
\<close>

theorem failed_copy_blocks_cancellation:
  "let w1 = snd (run_state (processUpload no_network ''node-1'' sample_key) (sample_world UploadPhaseInProgress 0));
       u = the (w_uploads w1 sample_key);
       w2 = snd (run_state (triggerUploadCancellation calm ''node-1'' sample_key u) w1)
   in ut_Phase (u_Status u) = UploadPhaseUploadError \<and>
      map_option (ut_Phase \<circ> u_Status) (w_uploads w2 sample_key) = Some UploadPhaseCanceling \<and>
      snd (run_state (processUpload E node sample_key) w2) = w2\<lparr>w_tick := Suc (w_tick w2)\<rparr>"
proof -
  let ?w1 = "snd (run_state (processUpload no_network ''node-1'' sample_key) (sample_world UploadPhaseInProgress 0))"
  obtain u where u: "w_uploads ?w1 sample_key = Some u" "ut_Phase (u_Status u) = UploadPhaseUploadError"
    "us_SnapshotID (u_Spec u) = ''ivd|v|s''" and reg: "IsUploading sample_pe ?w1"
    using failed_copy_run by (auto simp: IsUploading_def split: prod.splits option.splits)
  have "e_parse_peid calm (us_SnapshotID (u_Spec u)) = Inr sample_pe"
    by (simp add: u calm_parse_def sample_pe_def)
  from cancel_run [OF _ u(1) this reg, of "''node-1''"]
  obtain u' w2 where w2: "run_state (triggerUploadCancellation calm ''node-1'' sample_key u) ?w1 = (None, w2)"
    "w_uploads w2 sample_key = Some u'" "ut_Phase (u_Status u') = UploadPhaseCanceling"
    by auto
  then have "upload_at sample_key (u_Spec u') idle_phases w2"
    by (simp add: upload_at_def idle_phases_def)
  from processUpload_idle [OF this] u w2 show ?thesis by (simp add: Let_def)
qed

section \<open>Entering the work queue\<close>

lemma trigger_no_add:
  "triple (\<lambda>v. w_trace v = t) (triggerUploadCancellation E node k req)
     (\<lambda>_ v. w_trace v = t \<or> (\<exists>p. w_trace v = t @ [EvUploadCanceled p]))"
proof (rule tripleI)
  fix w r w' assume t: "w_trace w = t" and run: "run_state (triggerUploadCancellation E node k req) w = (r, w')"
  show "w_trace w' = t \<or> (\<exists>p. w_trace w' = t @ [EvUploadCanceled p])"
  proof (cases "e_parse_peid E (us_SnapshotID (u_Spec req))")
    case (Inr p)
    obtain r1 w1 where wr: "run_state (patchUploadByStatusWithRetry E node k req UploadPhaseCanceling
        ''Canceling on-going upload to repository.'') w = (r1, w1)" by fastforce
    from tripleD [OF keeps_registry_write _ wr] t have "w_trace w1 = t" by simp
    with Inr run wr t show ?thesis
      by (auto simp: triggerUploadCancellation_def CancelUpload_def split: if_splits sum.splits option.splits)
  qed (use t run in \<open>auto simp: triggerUploadCancellation_def\<close>)
qed

lemma keeps_on_upload_node [frame]:
  "(\<And>w n. I w \<Longrightarrow> I (w\<lparr>w_tick := n\<rparr>)) \<Longrightarrow> keeps I (on_upload_node E node req)"
  unfolding on_upload_node_def by (intro keeps_rules frame) auto

lemma keeps_trigger:
  "keeps (\<lambda>v. w_uploads v k \<noteq> None) (triggerUploadCancellation E node k req)"
  unfolding triggerUploadCancellation_def
  by (intro keeps_rules keeps_patchUploadByStatusWithRetry)
     (auto simp: triple_def CancelUpload_def split: option.splits)

definition active_phases :: "UploadPhase set" where
  "active_phases = {UploadPhaseUnset, UploadPhaseNew, UploadPhaseInProgress, UploadPhaseUploadError,
     UploadPhaseCleanupFailed, UploadPhaseCanceling}"

text \<open>
  Which Uploads enter the work queue. With an external data manager, an Upload is queued
  exactly if its phase is active, it is not marked for cancellation and the time of its next
  try has come; it is queued once, and nothing else happens outside the cluster.
\<close>

theorem enqueue_exactly_when_due:
  "w_trace (snd (run_state (enqueueUploadItem E node True k req) w)) = w_trace w @ [EvQueueAdd ''upload'' k] \<longleftrightarrow>
   ut_Phase (u_Status req) \<in> active_phases \<and> us_UploadCancel (u_Spec req) = False \<and>
   (case ut_NextRetryTimestamp (u_Status req) of None \<Rightarrow> False | Some ts \<Rightarrow> ts \<le> unix (e_now E (w_tick w)))"
proof (cases "ut_Phase (u_Status req) \<in> active_phases \<and> us_UploadCancel (u_Spec req)")
  case True
  obtain r w' where run: "run_state (triggerUploadCancellation E node k req) w = (r, w')" by fastforce
  from tripleD [OF trigger_no_add refl run] True run show ?thesis
    by (auto simp: enqueueUploadItem_def active_phases_def)
next
  case False
  then show ?thesis
    by (cases "ut_Phase (u_Status req)")
       (auto simp: enqueueUploadItem_def active_phases_def clock_now_def enqueue_def cr_delete_def Let_def
         split: option.splits fate.splits)
qed

text \<open>
  The informer's handler removes an Upload only when its time is over: if the handler
  leaves no Upload under the key where there was one, the Upload it was called with was
  completed and its completion time lies more than the clean-up window back.
\<close>

theorem enqueue_removes_only_expired:
  assumes "w_uploads w k = Some u"
    and "w_uploads (snd (run_state (enqueueUploadItem E node ext k req) w)) k = None"
  shows "ut_Phase (u_Status req) = UploadPhaseCompleted \<and>
    (\<exists>ts. ut_CompletionTimestamp (u_Status req) = Some ts \<and>
       (ts + 24 * 3600) * nanos_per_second < e_now E (w_tick w))"
proof (cases "ut_Phase (u_Status req) = UploadPhaseCompleted")
  case True
  with assms show ?thesis
    by (auto simp: enqueueUploadItem_def clock_now_def after_cleanup_window_def DefaultCRCleanUpWindow_def
        split: option.splits if_splits)
next
  case False
  have "keeps (\<lambda>v. w_uploads v k \<noteq> None) (enqueueUploadItem E node ext k req)"
    unfolding enqueueUploadItem_def enqueue_def if_not_P [OF False]
    by (intro keeps_rules frame keeps_trigger keeps_on_upload_node)
       (auto split: bool.splits intro!: triple_return keeps_rules frame)
  from keeps_run [OF this, of w] assms show ?thesis by simp
qed

theorem enqueue_removes_only_expired_witness:
  "let u = (sample_upload UploadPhaseCompleted 0)\<lparr>u_Status := (u_Status (sample_upload UploadPhaseCompleted 0))
         \<lparr>ut_CompletionTimestamp := Some (- 90000)\<rparr>\<rparr>;
       w = empty_world\<lparr>w_uploads := [sample_key \<mapsto> u]\<rparr>
   in w_uploads (snd (run_state (enqueueUploadItem calm ''node-1'' False sample_key u) w)) sample_key = None \<and>
      (- 90000 + 24 * 3600) * nanos_per_second < e_now calm (w_tick w)"
proof -
  let ?u = "(sample_upload UploadPhaseCompleted 0)\<lparr>u_Status := (u_Status (sample_upload UploadPhaseCompleted 0))
         \<lparr>ut_CompletionTimestamp := Some (- 90000)\<rparr>\<rparr>"
  let ?w = "empty_world\<lparr>w_uploads := [sample_key \<mapsto> ?u]\<rparr>"
  have gone: "w_uploads (snd (run_state (enqueueUploadItem calm ''node-1'' False sample_key ?u) ?w)) sample_key = None"
    by (simp add: evals enqueueUploadItem_def after_cleanup_window_def DefaultCRCleanUpWindow_def nanos_per_second_def)
  have "w_uploads ?w sample_key = Some ?u" by simp
  from enqueue_removes_only_expired [OF this gone] gone show ?thesis by (simp add: Let_def)
qed

section \<open>A worker's turn\<close>

lemma sint_word_of_int64:
  "- (2 ^ 63) \<le> x \<Longrightarrow> x < 2 ^ 63 \<Longrightarrow> sint (word_of_int x :: 64 word) = x"
  by (simp add: sint_sbintrunc' signed_take_bit_int_eq_self)

lemma minutes_exact: "0 \<le> b \<Longrightarrow> b \<le> 60 \<Longrightarrow> minutes b = b * 60 * nanos_per_second"
  unfolding minutes_def nanos_per_second_def by (rule sint_word_of_int64) simp_all

text \<open>
  A failed Upload is queued again after its back-off. When the handler fails without a
  panic and the cache still has the Upload, the worker goes on and queues the key again
  after the back-off that the cache shows, in minutes; the key is not forgotten.
\<close>

theorem worker_requeues_after_backoff:
  assumes "run_state (processUploadItem E node k) w = (Some e, w1)" and "is_panic e = False"
    and "e_upload_cache E (w_tick w1) k = Inr u"
    and "0 \<le> sint (ut_CurrentBackOff (u_Status u))" and "sint (ut_CurrentBackOff (u_Status u)) \<le> 60"
  shows "run_state (upload_worker E node (Some k)) w =
    (Inr True, w1\<lparr>w_tick := Suc (w_tick w1), w_trace := w_trace w1 @
       [EvQueueAddAfter ''upload'' k (sint (ut_CurrentBackOff (u_Status u)) * 60 * nanos_per_second)]\<rparr>)"
proof -
  let ?b = "sint (ut_CurrentBackOff (u_Status u))"
  have "minutes ?b = ?b * 60 * nanos_per_second" using minutes_exact [of ?b] assms(4,5) by simp
  with assms(1-3) show ?thesis
    by (simp add: upload_worker_def processNextWorkItem_def exponentialBackoffHandler_def)
qed

definition failing_queue :: env where
  "failing_queue = no_network\<lparr>e_upload_cache := (\<lambda>n k. Inr (sample_upload UploadPhaseInProgress 0))\<rparr>"

theorem worker_requeues_after_backoff_witness:
  "\<exists>w'. run_state (upload_worker failing_queue ''node-1'' (Some sample_key)) (sample_world UploadPhaseInProgress 0) =
     (Inr True, w') \<and> last (w_trace w') = EvQueueAddAfter ''upload'' sample_key 0"
proof -
  let ?run = "run_state (processUploadItem failing_queue ''node-1'' sample_key) (sample_world UploadPhaseInProgress 0)"
  have "case fst ?run of Some e \<Rightarrow> is_panic e = False | None \<Rightarrow> False"
    by (simp add: evals failing_queue_def no_network_def processUploadItem_def Let_def DefaultUploadCRRetryMaximum_def)
  then obtain e where e: "fst ?run = Some e" "is_panic e = False" by (auto split: option.splits)
  then have "?run = (Some e, snd ?run)" by (metis prod.collapse)
  from worker_requeues_after_backoff [OF this e(2), of "sample_upload UploadPhaseInProgress 0"] show ?thesis
    by (simp add: failing_queue_def sample_upload_def)
qed


section \<open>Limits of cancellation and of the retry maximum\<close>

text \<open>
  A cancellation that comes before the copy is never carried out. An Upload that is marked
  for cancellation while no copy of it is registered on the node is left as it is by both
  handlers, the informer's and the worker's: it is neither processed nor moved to
  \<open>Canceled\<close>.
\<close>

theorem cancel_before_copy_is_ignored:
  assumes "us_UploadCancel (u_Spec req)" and "ut_Phase (u_Status req) \<in> active_phases"
    and "e_parse_peid E (us_SnapshotID (u_Spec req)) = Inr p" and "IsUploading p w = False"
    and "e_upload_cache E (w_tick w) k = Inr req"
  shows "run_state (enqueueUploadItem E node ext k req) w = (None, w) \<and>
    run_state (processUploadItem E node k) w = (None, w\<lparr>w_tick := Suc (w_tick w)\<rparr>)"
proof -
  have idle: "run_state (triggerUploadCancellation E node k req) v = (None, v)" if "IsUploading p v = False" for v
    using assms(3) that by (simp add: triggerUploadCancellation_def)
  have "IsUploading p (w\<lparr>w_tick := Suc (w_tick w)\<rparr>) = False" using assms(4) by (simp add: IsUploading_def)
  from idle [OF this] idle [OF assms(4)] assms(1,2,5) show ?thesis
    by (auto simp: enqueueUploadItem_def processUploadItem_def active_phases_def)
qed

definition canceled_upload :: Upload where
  "canceled_upload = (sample_upload UploadPhaseNew 0)\<lparr>u_Spec := (u_Spec (sample_upload UploadPhaseNew 0))
     \<lparr>us_UploadCancel := True\<rparr>\<rparr>"

theorem cancel_before_copy_is_ignored_witness:
  "run_state (enqueueUploadItem (calm\<lparr>e_upload_cache := (\<lambda>n k. Inr canceled_upload)\<rparr>) ''node-1'' False sample_key
     canceled_upload) (sample_world UploadPhaseNew 0) = (None, sample_world UploadPhaseNew 0)"
  using cancel_before_copy_is_ignored [of canceled_upload "calm\<lparr>e_upload_cache := (\<lambda>n k. Inr canceled_upload)\<rparr>"
      sample_pe "sample_world UploadPhaseNew 0" sample_key "''node-1''" False]
  by (simp add: canceled_upload_def sample_upload_def active_phases_def calm_parse_def sample_pe_def IsUploading_def
      sample_world_def empty_world_def)

lemma sint_word_of_int32: "- (2 ^ 31) \<le> x \<Longrightarrow> x < 2 ^ 31 \<Longrightarrow> sint (word_of_int x :: int32) = x"
  by (simp add: sint_sbintrunc' signed_take_bit_int_eq_self)

lemma sint_wraps32:
  assumes "2 ^ 31 \<le> v" "v < 2 ^ 32"
  shows "sint (word_of_int v :: int32) < 0"
proof -
  have "(word_of_int v :: int32) = word_of_int (v - 2 ^ 32)"
    by (simp add: word_of_int_eq_iff take_bit_eq_mod)
  also have "sint (word_of_int (v - 2 ^ 32) :: int32) = v - 2 ^ 32"
    by (rule sint_word_of_int32) (use assms in simp_all)
  finally show ?thesis using assms(2) by simp
qed

text \<open>
  A large retry maximum allows no retry. The configured maximum is cut to 32 bits before it
  is compared: with a value from \<open>2 ^ 31\<close> to \<open>2 ^ 32 - 1\<close> an Upload with any non-negative
  retry count is given up at its first failed copy, exactly as if the maximum were reached.
\<close>

theorem large_retry_maximum_gives_up:
  assumes "run_state (GetUploadCRRetryMaximum E) w = (v, w1)" and "2 ^ 31 \<le> v" and "v < 2 ^ 32"
    and "0 \<le> sint (ut_RetryCount (u_Status req))" and "is_panic err = False" and "is_canceled err = False"
  shows "run_state (copy_failed E node k req p err) w =
    run_state (cleanup_then E node k req p UploadPhaseUploadFailedAfterRetry) w1"
  using assms sint_wraps32 [OF assms(2,3)] by (simp add: copy_failed_def)

definition boundless :: env where
  "boundless = calm\<lparr>e_config_map := (\<lambda>n k. Inr [''upload-cr-retry-max'' \<mapsto> ''2147483648''])\<rparr>"

theorem large_retry_maximum_gives_up_witness:
  "run_state (copy_failed boundless ''node-1'' sample_key (sample_upload UploadPhaseInProgress 0) sample_pe
      (ErrMsg ''timeout'')) (sample_world UploadPhaseInProgress 0) =
   run_state (cleanup_then boundless ''node-1'' sample_key (sample_upload UploadPhaseInProgress 0) sample_pe
      UploadPhaseUploadFailedAfterRetry) ((sample_world UploadPhaseInProgress 0)\<lparr>w_tick := 3\<rparr>)"
proof (rule large_retry_maximum_gives_up)
  show "run_state (GetUploadCRRetryMaximum boundless) (sample_world UploadPhaseInProgress 0) =
      (2147483648, (sample_world UploadPhaseInProgress 0)\<lparr>w_tick := 3\<rparr>)"
    by (simp add: GetUploadCRRetryMaximum_def GetUploadCRRetryMaximumFromConfig_def connect_def boundless_def
        atoi_def sample_world_def empty_world_def)
qed (simp_all add: sample_upload_def)

end
