(* ===== verification/Download_Controller.thy ===== *)
theory Download_Controller
  imports Upload_Controller
begin

text \<open>
  The download controller (\<^verbatim>\<open>pkg/controller/download_controller.go\<close>): it copies a
  snapshot from the repository into a new volume, or over an existing one, and retries a
  failed download at a fixed interval a bounded number of times.
\<close>

section \<open>Writing the status\<close>

definition patchDownload ::
  "env \<Rightarrow> key \<Rightarrow> Download \<Rightarrow> (Download \<Rightarrow> (world, Download) state) \<Rightarrow>
   (world, (goerr + Download) \<times> Download) state" where
  "patchDownload E k req mutate =
     patch_object w_downloads w_downloads_update merge_download id E k req mutate"

definition dl_set_completed :: "env \<Rightarrow> string \<Rightarrow> Download \<Rightarrow> (world, Download) state" where
  "dl_set_completed E volumeID r = do {
     now \<leftarrow> clock_now E;
     State_Monad.return (r\<lparr>dl_Status := (dl_Status r)\<lparr>
       dlt_Phase := DownloadPhaseCompleted, dlt_CompletionTimestamp := Some (unix now),
       dlt_Message := ''Download completed'', dlt_VolumeID := volumeID\<rparr>\<rparr>)
   }"

definition dl_set_failed :: "env \<Rightarrow> string \<Rightarrow> Download \<Rightarrow> (world, Download) state" where
  "dl_set_failed E msg r = do {
     now \<leftarrow> clock_now E;
     State_Monad.return (r\<lparr>dl_Status := (dl_Status r)\<lparr>
       dlt_Phase := DownloadPhaseFailed, dlt_CompletionTimestamp := Some (unix now),
       dlt_Message := msg\<rparr>\<rparr>)
   }"

definition dl_set_retry :: "env \<Rightarrow> string \<Rightarrow> Download \<Rightarrow> (world, Download) state" where
  "dl_set_retry E msg r = do {
     now \<leftarrow> clock_now E;
     State_Monad.return (r\<lparr>dl_Status := (dl_Status r)\<lparr>
       dlt_Phase := DownLoadPhaseRetry,
       dlt_NextRetryTimestamp := Some (unix (now + DOWNLOAD_BACKOFF * 60 * nanos_per_second)),
       dlt_RetryCount := dlt_RetryCount (dl_Status r) + 1,
       dlt_Message := msg\<rparr>\<rparr>)
   }"

definition dl_set_in_progress :: "env \<Rightarrow> string \<Rightarrow> Download \<Rightarrow> (world, Download) state" where
  "dl_set_in_progress E node r = do {
     r' \<leftarrow> (if dlt_Phase (dl_Status r) = DownloadPhaseNew then do {
              now \<leftarrow> clock_now E;
              State_Monad.return (r\<lparr>dl_Status := (dl_Status r)\<lparr>
                dlt_StartTimestamp := Some (unix now), dlt_RetryCount := MIN_RETRY\<rparr>\<rparr>)
            } else State_Monad.return r);
     State_Monad.return (r'\<lparr>dl_Status := (dl_Status r')\<lparr>
       dlt_Phase := DownloadPhaseInProgress, dlt_ProcessingNode := node\<rparr>\<rparr>)
   }"

definition patchDownloadByStatus ::
  "env \<Rightarrow> string \<Rightarrow> key \<Rightarrow> DownloadPhase \<Rightarrow> string \<Rightarrow> Download \<Rightarrow>
   (world, (goerr + Download) \<times> Download) state" where
  "patchDownloadByStatus E node k newPhase msg req =
     (case newPhase of
        DownloadPhaseCompleted \<Rightarrow> patchDownload E k req (dl_set_completed E msg)
      | DownLoadPhaseRetry \<Rightarrow>
          if sint (dlt_RetryCount (dl_Status req)) > DOWNLOAD_MAX_RETRY
          then patchDownload E k req (dl_set_failed E msg)
          else patchDownload E k req (dl_set_retry E msg)
      | DownloadPhaseInProgress \<Rightarrow> patchDownload E k req (dl_set_in_progress E node)
      | _ \<Rightarrow> State_Monad.return (Inl (ErrMsg ''Unexpected download phase''), req))"

definition patchDownloadByStatusWithRetry ::
  "env \<Rightarrow> string \<Rightarrow> key \<Rightarrow> Download \<Rightarrow> DownloadPhase \<Rightarrow> string \<Rightarrow> (world, goerr + Download) state" where
  "patchDownloadByStatusWithRetry E node k req newPhase msg =
     patch_with_retry E (patchDownloadByStatus E node k newPhase msg) req"

section \<open>Processing a download\<close>

definition fail_download ::
  "env \<Rightarrow> string \<Rightarrow> key \<Rightarrow> Download \<Rightarrow> string \<Rightarrow> (world, goerr option) state" where
  "fail_download E node k req errMsg = do {
     r \<leftarrow> patchDownloadByStatusWithRetry E node k req DownLoadPhaseRetry errMsg;
     State_Monad.return (Some (ErrMsg (case r of
         Inl e \<Rightarrow> errMsg @ ''. '' @ error_string e
       | Inr _ \<Rightarrow> errMsg)))
   }"

text \<open>The copy. \<open>Inl\<close> is the early return when the named repository cannot be read.\<close>

definition copy_download ::
  "env \<Rightarrow> Download \<Rightarrow> peid \<Rightarrow> peid \<Rightarrow> CopyCreateOptions \<Rightarrow> (world, goerr + (goerr + peid)) state" where
  "copy_download E req p target options =
     (let name = dls_BackupRepositoryName (dl_Spec req) in
      if name \<noteq> '''' \<and> name \<noteq> WithoutBackupRepository then do {
        br \<leftarrow> GetBackupRepositoryFromBackupRepositoryName E name;
        (case br of
           Inl e \<Rightarrow> State_Monad.return (Inl e)
         | Inr b \<Rightarrow> do {
             r \<leftarrow> CopyFromRepoWithBackupRepository E p target b options;
             State_Monad.return (Inr r)
           })
      } else do {
        r \<leftarrow> CopyFromRepo E p target options;
        State_Monad.return (Inr r)
      })"

definition download_to ::
  "env \<Rightarrow> string \<Rightarrow> key \<Rightarrow> Download \<Rightarrow> peid \<Rightarrow> peid \<Rightarrow> CopyCreateOptions \<Rightarrow> (world, goerr option) state" where
  "download_to E node k req p target options = do {
     r \<leftarrow> copy_download E req p target options;
     (case r of
        Inl e \<Rightarrow> State_Monad.return (Some e)
      | Inr (Inl e) \<Rightarrow>
          if is_panic e then State_Monad.return (Some e)
          else fail_download E node k req
            (''Failed to download snapshot, '' @ e_print_peid E p @ '', from durable object storage. '' @
             error_string e)
      | Inr (Inr returnPeId) \<Rightarrow> do {
          d \<leftarrow> patchDownloadByStatusWithRetry E node k req DownloadPhaseCompleted (e_print_peid E returnPeId);
          State_Monad.return (case d of Inl e \<Rightarrow> Some e | Inr _ \<Rightarrow> None)
        })
   }"

definition download_started ::
  "env \<Rightarrow> string \<Rightarrow> key \<Rightarrow> Download \<Rightarrow> (world, goerr option) state" where
  "download_started E node k req =
     (case e_parse_peid E (dls_SnapshotID (dl_Spec req)) of
        Inl e \<Rightarrow> fail_download E node k req
                   (''Failed to get PEID from SnapshotID, '' @ dls_SnapshotID (dl_Spec req) @ ''. '' @
                    error_string e)
      | Inr p \<Rightarrow>
          let volume = dls_ProtectedEntityID (dl_Spec req) in
          if volume = '''' then download_to E node k req p no_peid AllocateNewObject
          else (case e_parse_peid E volume of
                  Inl e \<Rightarrow> State_Monad.return (Some (ErrMsg (''failed to create target PEID from string '' @
                             volume @ '': '' @ error_string e)))
                | Inr target \<Rightarrow> download_to E node k req p target UpdateExistingObject))"

definition start_download ::
  "env \<Rightarrow> string \<Rightarrow> key \<Rightarrow> Download \<Rightarrow> (world, goerr option) state" where
  "start_download E node k req =
     (if dlt_Phase (dl_Status req) \<noteq> DownloadPhaseInProgress then do {
        r \<leftarrow> patchDownloadByStatusWithRetry E node k req DownloadPhaseInProgress '''';
        (case r of
           Inl e \<Rightarrow> State_Monad.return (Some e)
         | Inr started \<Rightarrow> download_started E node k started)
      } else download_started E node k req)"

definition processDownload :: "env \<Rightarrow> string \<Rightarrow> key \<Rightarrow> (world, goerr option) state" where
  "processDownload E node k = do {
     got \<leftarrow> cr_get w_downloads E k;
     (case got of
        Inl e \<Rightarrow> State_Monad.return (Some e)
      | Inr req \<Rightarrow>
          if dlt_Phase (dl_Status req) = DownloadPhaseCompleted then State_Monad.return None
          else start_download E node k req)
   }"

section \<open>The handlers\<close>

definition processDownloadItem :: "env \<Rightarrow> string \<Rightarrow> key \<Rightarrow> (world, goerr option) state" where
  "processDownloadItem E node k = do {
     got \<leftarrow> ask (\<lambda>n. e_download_cache E n k);
     (case got of
        Inl e \<Rightarrow> State_Monad.return
          (if is_not_found e then None else Some (ErrWrap ''Failed to get Download'' e))
      | Inr req \<Rightarrow>
          if dlt_Phase (dl_Status req) \<notin> {DownloadPhaseUnset, DownloadPhaseNew, DownloadPhaseInProgress,
               DownLoadPhaseRetry}
          then State_Monad.return None
          else do {
            lease \<leftarrow> ask (e_lease E);
            (case lease of
               LeaseHeldByOther \<Rightarrow> State_Monad.return None
             | LeaseAcquired \<Rightarrow> processDownload E node k
             | LeaseLost \<Rightarrow> do {
                 r \<leftarrow> processDownload E node k;
                 State_Monad.return (case r of
                     Some e \<Rightarrow> if is_panic e then Some e else None
                   | None \<Rightarrow> None)
               })
          })
   }"

definition enqueueDownloadItem :: "env \<Rightarrow> key \<Rightarrow> Download \<Rightarrow> (world, goerr option) state" where
  "enqueueDownloadItem E k req =
     (if dlt_Phase (dl_Status req) = DownloadPhaseCompleted then do {
        now \<leftarrow> clock_now E;
        (case dlt_CompletionTimestamp (dl_Status req) of
           None \<Rightarrow> State_Monad.return (Some (GoPanic ''nil CompletionTimestamp''))
         | Some ts \<Rightarrow>
             if after_cleanup_window now ts then do {
               _ \<leftarrow> cr_delete w_downloads w_downloads_update E k;
               State_Monad.return None
             } else State_Monad.return None)
      }
      else if dlt_Phase (dl_Status req) = DownloadPhaseFailed then State_Monad.return None
      else do {
        now \<leftarrow> clock_now E;
        (case dlt_NextRetryTimestamp (dl_Status req) of
           None \<Rightarrow> State_Monad.return (Some (GoPanic ''nil NextRetryTimestamp''))
         | Some ts \<Rightarrow>
             if unix now < ts then State_Monad.return None
             else do { enqueue ''download'' k; State_Monad.return None })
      })"

definition reEnqueueHandler :: "key \<Rightarrow> (world, goerr option) state" where
  "reEnqueueHandler k = do {
     emit (EvQueueAddAfter ''download'' k (DOWNLOAD_BACKOFF * 60 * nanos_per_second));
     State_Monad.return None
   }"

definition download_worker :: "env \<Rightarrow> string \<Rightarrow> key option \<Rightarrow> (world, goerr + bool) state" where
  "download_worker E node item =
     processNextWorkItem emit ''download'' (processDownloadItem E node) reEnqueueHandler item"

section \<open>Lemmas\<close>

lemmas download_status_defs = dl_set_completed_def dl_set_failed_def dl_set_retry_def dl_set_in_progress_def

lemma silent_download_status [simp, intro]:
  "silent (dl_set_completed E msg r)"
  "silent (dl_set_failed E msg r)"
  "silent (dl_set_retry E msg r)"
  "silent (dl_set_in_progress E node r)"
  by (auto simp: download_status_defs Let_def)

lemma download_status_fields:
  "dl_Spec (fst (run_state (dl_set_completed E msg r) w)) = dl_Spec r"
  "dl_Meta (fst (run_state (dl_set_completed E msg r) w)) = dl_Meta r"
  "dlt_Phase (dl_Status (fst (run_state (dl_set_completed E msg r) w))) = DownloadPhaseCompleted"
  "dl_Spec (fst (run_state (dl_set_failed E msg r) w)) = dl_Spec r"
  "dl_Meta (fst (run_state (dl_set_failed E msg r) w)) = dl_Meta r"
  "dlt_Phase (dl_Status (fst (run_state (dl_set_failed E msg r) w))) = DownloadPhaseFailed"
  "dl_Spec (fst (run_state (dl_set_retry E msg r) w)) = dl_Spec r"
  "dl_Meta (fst (run_state (dl_set_retry E msg r) w)) = dl_Meta r"
  "dlt_Phase (dl_Status (fst (run_state (dl_set_retry E msg r) w))) = DownLoadPhaseRetry"
  "dl_Spec (fst (run_state (dl_set_in_progress E node r) w)) = dl_Spec r"
  "dl_Meta (fst (run_state (dl_set_in_progress E node r) w)) = dl_Meta r"
  "dlt_Phase (dl_Status (fst (run_state (dl_set_in_progress E node r) w))) = DownloadPhaseInProgress"
  by (simp_all add: download_status_defs clock_now_def Let_def)

lemma merge_download_fields:
  "dl_Spec new = dl_Spec old \<Longrightarrow> dl_Spec (merge_download old new cur) = dl_Spec cur"
  "dl_Meta new = dl_Meta old \<Longrightarrow> dl_Meta (merge_download old new cur) = dl_Meta cur"
  "dlt_Phase (dl_Status (merge_download old new cur)) =
     merge_field (dlt_Phase (dl_Status old)) (dlt_Phase (dl_Status new)) (dlt_Phase (dl_Status cur))"
  by (simp_all add: merge_download_def merge_download_status_def)

lemma keeps_patchDownload:
  assumes tick: "\<And>w n. I w \<Longrightarrow> I (w\<lparr>w_tick := n\<rparr>)"
    and upd: "\<And>w x y. I w \<Longrightarrow> w_downloads w k = Some x \<Longrightarrow> dl_Spec y = dl_Spec x \<Longrightarrow> dl_Meta y = dl_Meta x \<Longrightarrow>
      dlt_Phase (dl_Status y) \<in> {dlt_Phase (dl_Status x), newPhase} \<Longrightarrow> I (w_downloads_update (\<lambda>m. m(k \<mapsto> y)) w)"
    and quiet: "silent (mutate req)"
    and fields: "\<And>w. dl_Spec (fst (run_state (mutate req) w)) = dl_Spec req"
      "\<And>w. dl_Meta (fst (run_state (mutate req) w)) = dl_Meta req"
      "\<And>w. dlt_Phase (dl_Status (fst (run_state (mutate req) w))) = newPhase"
  shows "keeps I (patchDownload E k req mutate)"
  unfolding patchDownload_def
proof (rule download_patch.keeps_patch [where R = "\<lambda>new. dl_Spec new = dl_Spec req \<and> dl_Meta new = dl_Meta req \<and>
      dlt_Phase (dl_Status new) = newPhase"])
  fix w :: world and x new :: Download
  assume "I w" "w_downloads w k = Some x"
    and "dl_Spec new = dl_Spec req \<and> dl_Meta new = dl_Meta req \<and> dlt_Phase (dl_Status new) = newPhase"
  then show "I (w_downloads_update (\<lambda>m. m(k \<mapsto> merge_download req new x)) w)"
    by (intro upd) (auto simp: merge_download_fields merge_field_def)
qed (use tick quiet fields in auto)

text \<open>
  \<open>download_stable k S I\<close>: \<open>I\<close> survives every status write to the Download \<open>k\<close> that
  leaves the phase or sets it to one of \<open>S\<close>.
\<close>

definition download_stable :: "key \<Rightarrow> DownloadPhase set \<Rightarrow> (world \<Rightarrow> bool) \<Rightarrow> bool" where
  "download_stable k S I \<longleftrightarrow>
     (\<forall>w n. I w \<longrightarrow> I (w\<lparr>w_tick := n\<rparr>)) \<and>
     (\<forall>w x y. I w \<and> w_downloads w k = Some x \<and> dl_Spec y = dl_Spec x \<and> dl_Meta y = dl_Meta x \<and>
        dlt_Phase (dl_Status y) \<in> insert (dlt_Phase (dl_Status x)) S \<longrightarrow>
        I (w_downloads_update (\<lambda>m. m(k \<mapsto> y)) w))"

lemma download_stable_tick: "download_stable k S I \<Longrightarrow> I w \<Longrightarrow> I (w\<lparr>w_tick := n\<rparr>)"
  by (simp add: download_stable_def)

lemma download_stable_mono: "download_stable k S I \<Longrightarrow> T \<subseteq> S \<Longrightarrow> download_stable k T I"
  unfolding download_stable_def by blast

text \<open>The phases a write can leave behind, given the phase it is asked for.\<close>

definition written_phases :: "DownloadPhase \<Rightarrow> DownloadPhase set" where
  "written_phases newPhase =
     (if newPhase = DownLoadPhaseRetry then {DownLoadPhaseRetry, DownloadPhaseFailed} else {newPhase})"

lemma keeps_patchDownloadByStatus:
  assumes "download_stable k S I" and "written_phases newPhase \<subseteq> S"
  shows "keeps I (patchDownloadByStatus E node k newPhase msg req)"
proof -
  have wr: "keeps I (patchDownload E k req mutate)"
    if "ph \<in> S" "silent (mutate req)" "\<And>w. dl_Spec (fst (run_state (mutate req) w)) = dl_Spec req"
      "\<And>w. dl_Meta (fst (run_state (mutate req) w)) = dl_Meta req"
      "\<And>w. dlt_Phase (dl_Status (fst (run_state (mutate req) w))) = ph" for ph mutate
  proof (rule keeps_patchDownload [where newPhase = ph])
    fix w :: world and x y :: Download
    assume "I w" "w_downloads w k = Some x" "dl_Spec y = dl_Spec x" "dl_Meta y = dl_Meta x"
      "dlt_Phase (dl_Status y) \<in> {dlt_Phase (dl_Status x), ph}"
    with assms(1) that(1) show "I (w_downloads_update (\<lambda>m. m(k \<mapsto> y)) w)"
      unfolding download_stable_def by blast
  qed (use assms(1) that in \<open>auto simp: download_stable_def\<close>)
  show ?thesis
    unfolding patchDownloadByStatus_def
    by (cases newPhase)
       (use assms(2) in \<open>auto simp: written_phases_def download_status_fields
          intro!: wr [where ph = DownloadPhaseCompleted and mutate = "dl_set_completed E msg"]
            wr [where ph = DownloadPhaseFailed and mutate = "dl_set_failed E msg"]
            wr [where ph = DownLoadPhaseRetry and mutate = "dl_set_retry E msg"]
            wr [where ph = DownloadPhaseInProgress and mutate = "dl_set_in_progress E node"] triple_return\<close>)
qed

lemma keeps_download_write:
  assumes "download_stable k S I" and "written_phases newPhase \<subseteq> S"
  shows "keeps I (patchDownloadByStatusWithRetry E node k req newPhase msg)"
  unfolding patchDownloadByStatusWithRetry_def
  by (rule keeps_patch_with_retry [OF keeps_patchDownloadByStatus [OF assms]])
     (rule download_stable_tick [OF assms(1)])

text \<open>\<open>download_copy_stable I p target options\<close>: \<open>I\<close> survives a download of \<open>p\<close> into \<open>target\<close>.\<close>

definition download_copy_stable :: "(world \<Rightarrow> bool) \<Rightarrow> peid \<Rightarrow> peid \<Rightarrow> CopyCreateOptions \<Rightarrow> bool" where
  "download_copy_stable I p target options \<longleftrightarrow>
     (case options of
        UpdateExistingObject \<Rightarrow> \<forall>w. I w \<longrightarrow> I (w\<lparr>w_trace := w_trace w @ [EvOverwritten target p]\<rparr>)
      | AllocateNewObject \<Rightarrow> \<forall>w q. I w \<longrightarrow> I (w\<lparr>w_trace := w_trace w @ [EvVolumeCreated q]\<rparr>))"

lemma keeps_copy_download:
  assumes "\<And>w n. I w \<Longrightarrow> I (w\<lparr>w_tick := n\<rparr>)" and "download_copy_stable I p target options"
  shows "keeps I (copy_download E req p target options)"
  using assms unfolding copy_download_def Let_def
  by (intro keeps_rules frame) (auto simp: download_copy_stable_def)

lemma keeps_fail_download:
  "download_stable k S I \<Longrightarrow> {DownLoadPhaseRetry, DownloadPhaseFailed} \<subseteq> S \<Longrightarrow>
   keeps I (fail_download E node k req msg)"
  unfolding fail_download_def by (intro keeps_rules keeps_download_write) (simp_all add: written_phases_def)

lemma keeps_download_to:
  assumes "download_stable k S I" and "{DownLoadPhaseRetry, DownloadPhaseFailed, DownloadPhaseCompleted} \<subseteq> S"
    and "download_copy_stable I p target options"
  shows "keeps I (download_to E node k req p target options)"
  unfolding download_to_def
  by (intro keeps_rules keeps_copy_download download_stable_tick [OF assms(1)] assms(3)
        keeps_fail_download [OF assms(1)] keeps_download_write [OF assms(1)])
     (use assms(2) in \<open>auto simp: written_phases_def\<close>)

lemmas download_evals [evals] =
  download_status_defs patchDownload_def patchDownloadByStatus_def patchDownloadByStatusWithRetry_def
  fail_download_def copy_download_def download_to_def download_started_def start_download_def
  processDownload_def

end
