(* ===== verification/Download_Correctness.thy ===== *)
theory Download_Correctness
  imports Download_Controller Upload_Correctness
begin

text \<open>
  What the download controller guarantees: which volumes a run may write, the life cycle of a
  Download, the bound on its retries, and what a lost status write costs.
\<close>

section \<open>Status writes\<close>

lemma download_write_returns_stored:
  "triple (\<lambda>w. True) (patchDownloadByStatusWithRetry E node k req newPhase msg)
     (\<lambda>r w. \<forall>d. r = Inr d \<longrightarrow> w_downloads w k = Some d)"
  unfolding patchDownloadByStatusWithRetry_def
proof (rule patch_with_retry_invariant [where J = "\<lambda>_ _. True"])
  fix req
  show "triple (\<lambda>w. True) (patchDownloadByStatus E node k newPhase msg req)
     (\<lambda>(r, req') w. True \<and> (\<forall>d. r = Inr d \<longrightarrow> w_downloads w k = Some d))"
    unfolding patchDownloadByStatus_def patchDownload_def
    by (rule tripleI) (auto split: DownloadPhase.splits if_splits dest!: download_patch.patch_returns_stored)
qed simp

definition download_at :: "key \<Rightarrow> DownloadSpec \<Rightarrow> DownloadPhase set \<Rightarrow> world \<Rightarrow> bool" where
  "download_at k sp S w \<longleftrightarrow>
     (\<exists>d. w_downloads w k = Some d \<and> dl_Spec d = sp \<and> dlt_Phase (dl_Status d) \<in> S)"

lemma download_at_stable: "T \<subseteq> S \<Longrightarrow> download_stable k T (download_at k sp S)"
  by (auto simp: download_stable_def download_at_def)

lemma download_at_mono: "download_at k sp S w \<Longrightarrow> S \<subseteq> T \<Longrightarrow> download_at k sp T w"
  unfolding download_at_def by blast

lemma download_write_at:
  assumes "written_phases newPhase \<subseteq> S"
  shows "triple (download_at k sp S) (patchDownloadByStatusWithRetry E node k req newPhase msg)
     (\<lambda>r w. download_at k sp S w \<and> (\<forall>d. r = Inr d \<longrightarrow> dl_Spec d = sp \<and> dlt_Phase (dl_Status d) \<in> S))"
proof (rule tripleI)
  fix w r w' assume at: "download_at k sp S w"
    and run: "run_state (patchDownloadByStatusWithRetry E node k req newPhase msg) w = (r, w')"
  have "download_at k sp S w'"
    by (rule tripleD [OF keeps_download_write [OF download_at_stable [OF subset_refl] assms] at run])
  moreover have "\<forall>d. r = Inr d \<longrightarrow> w_downloads w' k = Some d"
    by (rule tripleD [OF download_write_returns_stored _ run]) simp
  ultimately show "download_at k sp S w' \<and>
      (\<forall>d. r = Inr d \<longrightarrow> dl_Spec d = sp \<and> dlt_Phase (dl_Status d) \<in> S)"
    by (auto simp: download_at_def)
qed

section \<open>What a run can do\<close>

text \<open>The effect of one copy from the repository, given its result.\<close>

definition copy_effect :: "CopyCreateOptions \<Rightarrow> peid \<Rightarrow> peid \<Rightarrow> goerr + peid \<Rightarrow> event list" where
  "copy_effect options target p r =
     (case r of
        Inl _ \<Rightarrow> []
      | Inr q \<Rightarrow> (case options of
            UpdateExistingObject \<Rightarrow> [EvOverwritten target p]
          | AllocateNewObject \<Rightarrow> [EvVolumeCreated q]))"

lemma copyFromRepo_effect:
  "triple (\<lambda>w. w_trace w = t0) (copyFromRepo E p target s3 options)
     (\<lambda>r w. w_trace w = t0 @ copy_effect options target p r)"
  by (cases options)
     (auto simp: triple_def copyFromRepo_def copy_effect_def split: option.splits sum.splits)

lemma CopyFromRepo_effect:
  "triple (\<lambda>w. w_trace w = t0) (CopyFromRepo E p target options)
     (\<lambda>r w. w_trace w = t0 @ copy_effect options target p r)"
  unfolding CopyFromRepo_def
  by (rule triple_bind [OF keeps_GetDefaultS3PETM], simp)
     (intro triple_case_sum copyFromRepo_effect triple_return; simp add: copy_effect_def)

lemma CopyFromRepoWithBackupRepository_effect:
  "triple (\<lambda>w. w_trace w = t0) (CopyFromRepoWithBackupRepository E p target b options)
     (\<lambda>r w. w_trace w = t0 @ copy_effect options target p r)"
  unfolding CopyFromRepoWithBackupRepository_def
  by (rule triple_bind [OF keeps_GetRepositoryFromBackupRepository], simp)
     (intro triple_case_sum copyFromRepo_effect triple_return; simp add: copy_effect_def)

definition download_effect ::
  "CopyCreateOptions \<Rightarrow> peid \<Rightarrow> peid \<Rightarrow> goerr + (goerr + peid) \<Rightarrow> event list" where
  "download_effect options target p r = (case r of Inl _ \<Rightarrow> [] | Inr x \<Rightarrow> copy_effect options target p x)"

lemma copy_download_effect:
  "triple (\<lambda>w. w_trace w = t0) (copy_download E req p target options)
     (\<lambda>r w. w_trace w = t0 @ download_effect options target p r)"
proof -
  let ?name = "dls_BackupRepositoryName (dl_Spec req)"
  let ?Q = "\<lambda>r w. w_trace w = t0 @ download_effect options target p r"
  have default: "triple (\<lambda>w. w_trace w = t0)
      (do { r \<leftarrow> CopyFromRepo E p target options; State_Monad.return (Inr r :: goerr + (goerr + peid)) }) ?Q"
    by (rule triple_bind [OF CopyFromRepo_effect]) (simp add: triple_return download_effect_def)
  have named: "triple (\<lambda>w. w_trace w = t0) (do { r \<leftarrow> CopyFromRepoWithBackupRepository E p target b options;
      State_Monad.return (Inr r :: goerr + (goerr + peid)) }) ?Q" for b
    by (rule triple_bind [OF CopyFromRepoWithBackupRepository_effect]) (simp add: triple_return download_effect_def)
  have repo: "keeps (\<lambda>w. w_trace w = t0) (GetBackupRepositoryFromBackupRepositoryName E ?name)"
    by (rule keeps_GetBackupRepositoryFromBackupRepositoryName) simp
  show ?thesis
    unfolding copy_download_def Let_def
    apply (rule triple_if)
     apply (rule triple_bind [OF repo])
     apply (rule triple_case_sum)
      apply (rule triple_return, simp add: download_effect_def)
     apply (rule named)
    apply (rule default)
    done
qed

text \<open>
  \<open>download_events E sp t\<close>: the events \<open>t\<close> are those of the one copy that the specification
  \<open>sp\<close> asks for.
\<close>

definition download_events :: "env \<Rightarrow> DownloadSpec \<Rightarrow> event list \<Rightarrow> bool" where
  "download_events E sp t \<longleftrightarrow>
     (if dls_ProtectedEntityID sp = '''' then \<exists>q. t = [EvVolumeCreated q]
      else \<exists>target p. e_parse_peid E (dls_ProtectedEntityID sp) = Inr target \<and>
             e_parse_peid E (dls_SnapshotID sp) = Inr p \<and> t = [EvOverwritten target p])"

text \<open>
  \<open>download_outcome\<close>: nothing was copied and the Download is not called completed, or the one
  copy was made.
\<close>

definition download_outcome :: "env \<Rightarrow> key \<Rightarrow> DownloadSpec \<Rightarrow> event list \<Rightarrow> world \<Rightarrow> bool" where
  "download_outcome E k sp t0 w \<longleftrightarrow>
     w_trace w = t0 \<and> download_at k sp (- {DownloadPhaseCompleted}) w \<or>
     (\<exists>t. w_trace w = t0 @ t \<and> download_events E sp t)"

abbreviation waiting :: "key \<Rightarrow> DownloadSpec \<Rightarrow> event list \<Rightarrow> world \<Rightarrow> bool" where
  "waiting k sp t0 w \<equiv> w_trace w = t0 \<and> download_at k sp (- {DownloadPhaseCompleted}) w"

lemma waiting_stable: "download_stable k (- {DownloadPhaseCompleted}) (waiting k sp t0)"
  by (auto simp: download_stable_def download_at_def)

lemma trace_stable: "download_stable k S (\<lambda>w. w_trace w = t)"
  by (simp add: download_stable_def)

lemma download_to_outcome:
  assumes "\<And>q. download_events E sp (copy_effect options target p (Inr q))"
  shows "triple (waiting k sp t0) (download_to E node k req p target options)
     (\<lambda>_. download_outcome E k sp t0)"
proof -
  let ?eff = "download_effect options target p"
  have copy: "triple (waiting k sp t0) (copy_download E req p target options)
      (\<lambda>r w. w_trace w = t0 @ ?eff r \<and> download_at k sp (- {DownloadPhaseCompleted}) w)"
    by (rule triple_conj [OF copy_download_effect keeps_copy_download])
       (auto simp: download_at_def download_copy_stable_def split: CopyCreateOptions.splits)
  have early: "triple (waiting k sp t0) (State_Monad.return (Some e)) (\<lambda>_. download_outcome E k sp t0)" for e
    by (rule triple_return) (simp add: download_outcome_def)
  have failed: "triple (waiting k sp t0) (fail_download E node k req msg) (\<lambda>_. download_outcome E k sp t0)" for msg
    by (rule triple_weaken [OF keeps_fail_download [OF waiting_stable]])
       (auto simp: download_outcome_def)
  have finish: "triple (\<lambda>w. w_trace w = t0 @ copy_effect options target p (Inr q))
      (do { d \<leftarrow> patchDownloadByStatusWithRetry E node k req DownloadPhaseCompleted msg;
            State_Monad.return (case d of Inl e \<Rightarrow> Some e | Inr _ \<Rightarrow> None) })
      (\<lambda>_. download_outcome E k sp t0)" for q msg
    by (rule triple_bind [OF keeps_download_write [OF trace_stable subset_UNIV]], rule triple_return)
       (use assms [of q] in \<open>auto simp: download_outcome_def\<close>)
  show ?thesis
    unfolding download_to_def
    by (rule triple_bind [OF copy], intro triple_case_sum triple_if triple_weaken [OF early]
        triple_weaken [OF failed] triple_weaken [OF finish])
       (auto simp: download_effect_def copy_effect_def)
qed

lemma download_started_outcome:
  assumes "dl_Spec req = sp"
  shows "triple (waiting k sp t0) (download_started E node k req) (\<lambda>_. download_outcome E k sp t0)"
proof (cases "e_parse_peid E (dls_SnapshotID sp)")
  case (Inl e)
  have "keeps (waiting k sp t0) (download_started E node k req)"
    using Inl assms unfolding download_started_def
    by (auto intro!: keeps_fail_download [OF waiting_stable])
  then show ?thesis by (rule triple_weaken) (auto simp: download_outcome_def)
next
  case (Inr p)
  show ?thesis
  proof (cases "dls_ProtectedEntityID sp = ''''")
    case True
    with Inr assms show ?thesis
      by (auto simp: download_started_def Let_def download_events_def copy_effect_def intro!: download_to_outcome)
  next
    case False
    with Inr assms show ?thesis
      by (auto simp: download_started_def Let_def download_events_def copy_effect_def download_outcome_def
          intro!: download_to_outcome triple_return split: sum.splits)
  qed
qed

lemma start_download_outcome:
  assumes "dl_Spec req = sp"
  shows "triple (waiting k sp t0) (start_download E node k req) (\<lambda>_. download_outcome E k sp t0)"
proof -
  let ?N = "- {DownloadPhaseCompleted}"
  have patch: "triple (waiting k sp t0) (patchDownloadByStatusWithRetry E node k req DownloadPhaseInProgress '''')
      (\<lambda>r w. w_trace w = t0 \<and> download_at k sp ?N w \<and> (\<forall>d. r = Inr d \<longrightarrow> dl_Spec d = sp \<and> dlt_Phase (dl_Status d) \<in> ?N))"
    by (rule triple_conj [OF keeps_download_write [OF trace_stable subset_UNIV] download_write_at])
       (simp add: written_phases_def)
  have follow: "triple (\<lambda>w. w_trace w = t0 \<and> download_at k sp ?N w \<and>
        (\<forall>d. r = Inr d \<longrightarrow> dl_Spec d = sp \<and> dlt_Phase (dl_Status d) \<in> ?N))
      (case r of Inl e \<Rightarrow> State_Monad.return (Some e) | Inr x \<Rightarrow> download_started E node k x)
      (\<lambda>_. download_outcome E k sp t0)" for r :: "goerr + Download"
  proof (cases r)
    case (Inr x)
    then show ?thesis using download_started_outcome [where req = x and sp = sp] unfolding triple_def by auto
  qed (auto simp: download_outcome_def intro!: triple_return)
  show ?thesis
    unfolding start_download_def
    by (intro triple_if triple_bind [OF patch] follow download_started_outcome [OF assms])
qed

lemma processDownload_run:
  assumes "w_downloads w k = Some d"
    and "Q (w\<lparr>w_tick := Suc (w_tick w)\<rparr>)"
    and "dlt_Phase (dl_Status d) \<noteq> DownloadPhaseCompleted \<Longrightarrow>
       Q (snd (run_state (start_download E node k d) (w\<lparr>w_tick := Suc (w_tick w)\<rparr>)))"
  shows "Q (snd (run_state (processDownload E node k) w))"
  using assms by (auto simp: processDownload_def cr_get_def Let_def split: fate.splits)

text \<open>
  C8. A download writes only what it was asked to write, once, and is called completed only
  then. One run of \<^verbatim>\<open>processDownload\<close> on a Download that is not completed either does
  nothing outside the cluster and leaves it not completed, or its only effect is the copy the
  specification asks for: a new volume if it names none, else overwriting the volume it names
  with the snapshot it names.
\<close>

theorem download_writes_only_its_volume:
  assumes "w_downloads w k = Some d" and "dlt_Phase (dl_Status d) \<noteq> DownloadPhaseCompleted"
    and "run_state (processDownload E node k) w = (r, w')"
  shows "(w_trace w' = w_trace w \<and>
       (\<exists>d'. w_downloads w' k = Some d' \<and> dlt_Phase (dl_Status d') \<noteq> DownloadPhaseCompleted)) \<or>
    (\<exists>t. w_trace w' = w_trace w @ t \<and>
      (if dls_ProtectedEntityID (dl_Spec d) = '''' then \<exists>q. t = [EvVolumeCreated q]
       else \<exists>target p. e_parse_peid E (dls_ProtectedEntityID (dl_Spec d)) = Inr target \<and>
              e_parse_peid E (dls_SnapshotID (dl_Spec d)) = Inr p \<and> t = [EvOverwritten target p]))"
proof -
  let ?w0 = "w\<lparr>w_tick := Suc (w_tick w)\<rparr>"
  have pre: "waiting k (dl_Spec d) (w_trace w) ?w0"
    using assms(1,2) by (simp add: download_at_def)
  have "download_outcome E k (dl_Spec d) (w_trace w) (snd (run_state (processDownload E node k) w))"
  proof (rule processDownload_run [OF assms(1)])
    show "download_outcome E k (dl_Spec d) (w_trace w) ?w0"
      using pre by (simp add: download_outcome_def)
    show "download_outcome E k (dl_Spec d) (w_trace w) (snd (run_state (start_download E node k d) ?w0))"
      using start_download_outcome [OF refl] pre unfolding triple_def by blast
  qed
  with assms(3) show ?thesis
    by (auto simp: download_outcome_def download_events_def download_at_def)
qed

definition sample_download :: "DownloadPhase \<Rightarrow> int32 \<Rightarrow> string \<Rightarrow> Download" where
  "sample_download ph retries volume = \<lparr>
     dl_Meta = \<lparr>om_Namespace = ''velero'', om_Name = ''download-s'', om_UID = '''', om_Labels = Map.empty,
       om_DeletionTimestamp = None\<rparr>,
     dl_Spec = \<lparr>dls_SnapshotID = ''ivd|v|s'', dls_RestoreTimestamp = None, dls_ProtectedEntityID = volume,
       dls_BackupRepositoryName = '''', dls_CloneFromSnapshotReference = ''''\<rparr>,
     dl_Status = \<lparr>dlt_VolumeID = '''', dlt_Phase = ph, dlt_Message = '''', dlt_StartTimestamp = None,
       dlt_CompletionTimestamp = None, dlt_Progress = \<lparr>dlp_TotalBytes = 0, dlp_BytesDone = 0\<rparr>,
       dlt_ProcessingNode = '''', dlt_RetryCount = retries, dlt_NextRetryTimestamp = Some 0\<rparr>\<rparr>"

definition download_world :: "DownloadPhase \<Rightarrow> int32 \<Rightarrow> string \<Rightarrow> world" where
  "download_world ph retries volume = empty_world\<lparr>w_downloads := [sample_key \<mapsto> sample_download ph retries volume]\<rparr>"

lemmas download_samples [evals] = sample_download_def download_world_def

lemma download_world_sel: "w_downloads (download_world ph n v) sample_key = Some (sample_download ph n v)"
  by (simp add: download_world_def)

theorem download_writes_only_its_volume_witness:
  "let (r, w') = run_state (processDownload calm ''node-1'' sample_key)
         (download_world DownloadPhaseNew 0 ''ivd|old|'') in
   w_trace w' = [EvOverwritten \<lparr>pe_type = ''ivd'', pe_id = ''old'', pe_snapshot = ''''\<rparr> sample_pe]"
proof -
  let ?w = "download_world DownloadPhaseNew 0 ''ivd|old|''"
  let ?run = "run_state (processDownload calm ''node-1'' sample_key) ?w"
  have ph: "dlt_Phase (dl_Status (sample_download DownloadPhaseNew 0 ''ivd|old|'')) \<noteq> DownloadPhaseCompleted"
    by (simp add: sample_download_def)
  have "map_option (dlt_Phase \<circ> dl_Status) (w_downloads (snd ?run) sample_key) = Some DownloadPhaseCompleted"
    by (simp add: evals no_peid_def)
  then have fin: "\<And>d'. w_downloads (snd ?run) sample_key = Some d' \<Longrightarrow> dlt_Phase (dl_Status d') = DownloadPhaseCompleted"
    by auto
  have data: "dls_ProtectedEntityID (dl_Spec (sample_download DownloadPhaseNew 0 ''ivd|old|'')) = ''ivd|old|''"
    "e_parse_peid calm (dls_SnapshotID (dl_Spec (sample_download DownloadPhaseNew 0 ''ivd|old|''))) = Inr sample_pe"
    "e_parse_peid calm ''ivd|old|'' = Inr \<lparr>pe_type = ''ivd'', pe_id = ''old'', pe_snapshot = ''''\<rparr>"
    "w_trace ?w = []"
    by (simp_all add: sample_download_def calm_parse_def sample_pe_def download_world_def empty_world_def)
  from download_writes_only_its_volume [where E = calm and node = "''node-1''",
      OF download_world_sel ph prod.collapse [symmetric]] fin
  show ?thesis unfolding data by (auto simp: split_beta)
qed

section \<open>Retries\<close>

lemma download_write_accepted:
  assumes "\<forall>n. e_fate E n = Accepted" and "w_downloads w k = Some req"
    and "patchDownloadByStatus E node k newPhase msg req = patchDownload E k req mutate" and "silent (mutate req)"
  shows "\<exists>n. run_state (patchDownloadByStatusWithRetry E node k req newPhase msg) w =
     (Inr (fst (run_state (mutate req) (w\<lparr>w_tick := Suc (w_tick w)\<rparr>))),
      w\<lparr>w_tick := n, w_downloads := (w_downloads w)(k \<mapsto> fst (run_state (mutate req) (w\<lparr>w_tick := Suc (w_tick w)\<rparr>)))\<rparr>)"
proof -
  let ?w0 = "w\<lparr>w_tick := Suc (w_tick w)\<rparr>"
  let ?u = "fst (run_state (mutate req) ?w0)"
  obtain n where "run_state (patchDownloadByStatus E node k newPhase msg req) ?w0 =
      ((Inr ?u, ?u), w_downloads_update (\<lambda>m. m(k \<mapsto> ?u)) (?w0\<lparr>w_tick := n\<rparr>))"
    using download_patch.patch_accepted [of E ?w0 k req mutate id] assms
    by (auto simp: patchDownload_def)
  from patch_with_retry_once [where E = E and req = req and
      attempt = "patchDownloadByStatus E node k newPhase msg", OF this]
  show ?thesis
    by (intro exI [of _ n]) (auto simp: patchDownloadByStatusWithRetry_def intro: world.equality)
qed

text \<open>
  Frame of \<^verbatim>\<open>processDownload\<close>. Whatever happens, no Download but \<open>k\<close> and no object
  of another kind is touched, and neither are the specification and metadata of the Download.
\<close>

theorem processDownload_frame:
  "let w' = snd (run_state (processDownload E node k) w)
   in w_downloads w' = (w_downloads w)(k := w_downloads w' k) \<and>
      map_option (\<lambda>d. (dl_Spec d, dl_Meta d)) (w_downloads w' k) = map_option (\<lambda>d. (dl_Spec d, dl_Meta d)) (w_downloads w k) \<and>
      w_uploads w' = w_uploads w \<and> w_snapshots w' = w_snapshots w \<and> w_svc_snapshots w' = w_svc_snapshots w \<and>
      w_clones w' = w_clones w \<and> w_deletes w' = w_deletes w \<and> w_brs w' = w_brs w \<and> w_brcs w' = w_brcs w \<and>
      w_ongoing w' = w_ongoing w"
proof -
  let ?I = "\<lambda>v. (\<forall>k'. k' \<noteq> k \<longrightarrow> w_downloads v k' = w_downloads w k') \<and>
      map_option (\<lambda>d. (dl_Spec d, dl_Meta d)) (w_downloads v k) = map_option (\<lambda>d. (dl_Spec d, dl_Meta d)) (w_downloads w k) \<and>
      w_uploads v = w_uploads w \<and> w_snapshots v = w_snapshots w \<and> w_svc_snapshots v = w_svc_snapshots w \<and>
      w_clones v = w_clones w \<and> w_deletes v = w_deletes w \<and> w_brs v = w_brs w \<and> w_brcs v = w_brcs w \<and>
      w_ongoing v = w_ongoing w"
  have stable: "download_stable k UNIV ?I" by (auto simp: download_stable_def)
  have copies: "download_copy_stable ?I p target options" for p target options
    by (auto simp: download_copy_stable_def split: CopyCreateOptions.splits)
  have "keeps ?I (processDownload E node k)"
    unfolding processDownload_def start_download_def download_started_def Let_def
    by (intro keeps_rules keeps_cr_get keeps_download_write [OF stable] keeps_fail_download [OF stable]
          keeps_download_to [OF stable _ copies]) auto
  from keeps_run [OF this, of w] show ?thesis by (auto simp: Let_def fun_eq_iff)
qed

text \<open>
  \<open>download_fails E B sp\<close>: the API server works, and every attempt to do what the specification
  asks for fails with an error, for whatever reason: the identifier of the snapshot cannot be
  parsed, or it can, with that of the volume to overwrite if there is one, and then the copy is
  begun and returns an error, in any world with the repositories \<open>B\<close>.
\<close>

definition copy_always_fails ::
  "env \<Rightarrow> (key \<Rightarrow> BackupRepository option) \<Rightarrow> DownloadSpec \<Rightarrow> peid \<Rightarrow> peid \<Rightarrow> CopyCreateOptions \<Rightarrow> bool" where
  "copy_always_fails E B sp p target options \<longleftrightarrow>
     (\<forall>req v. dl_Spec req = sp \<longrightarrow> w_brs v = B \<longrightarrow>
        (\<exists>e. fst (run_state (copy_download E req p target options) v) = Inr (Inl e) \<and> \<not> is_panic e))"

definition download_fails :: "env \<Rightarrow> (key \<Rightarrow> BackupRepository option) \<Rightarrow> DownloadSpec \<Rightarrow> bool" where
  "download_fails E B sp \<longleftrightarrow> (\<forall>n. e_fate E n = Accepted) \<and>
     (case e_parse_peid E (dls_SnapshotID sp) of
        Inl e \<Rightarrow> True
      | Inr p \<Rightarrow>
          if dls_ProtectedEntityID sp = '''' then copy_always_fails E B sp p no_peid AllocateNewObject
          else (\<exists>target. e_parse_peid E (dls_ProtectedEntityID sp) = Inr target \<and>
                  copy_always_fails E B sp p target UpdateExistingObject))"

lemma copy_fails:
  assumes "copy_always_fails E B (dl_Spec req) p target options" and "w_brs w = B"
  shows "\<exists>e w'. run_state (copy_download E req p target options) w = (Inr (Inl e), w') \<and>
     \<not> is_panic e \<and> w_downloads w' = w_downloads w"
proof -
  obtain e where "fst (run_state (copy_download E req p target options) w) = Inr (Inl e)" "\<not> is_panic e"
    using assms by (auto simp: copy_always_fails_def)
  moreover have "keeps (\<lambda>v. w_downloads v = w_downloads w) (copy_download E req p target options)"
    by (rule keeps_copy_download) (simp_all add: download_copy_stable_def split: CopyCreateOptions.splits)
  ultimately show ?thesis using keeps_run [of "\<lambda>v. w_downloads v = w_downloads w"] by (metis prod.collapse)
qed

text \<open>The counter a failed attempt counts from: a new Download starts at zero.\<close>

definition attempts_so_far :: "Download \<Rightarrow> int32" where
  "attempts_so_far d =
     (if dlt_Phase (dl_Status d) = DownloadPhaseNew then 0 else dlt_RetryCount (dl_Status d))"

definition after_failure :: "Download \<Rightarrow> Download \<Rightarrow> bool" where
  "after_failure d d' \<longleftrightarrow> dl_Spec d' = dl_Spec d \<and>
     (if 5 < sint (attempts_so_far d)
      then dlt_Phase (dl_Status d') = DownloadPhaseFailed \<and> dlt_RetryCount (dl_Status d') = attempts_so_far d
      else dlt_Phase (dl_Status d') = DownLoadPhaseRetry \<and> dlt_RetryCount (dl_Status d') = attempts_so_far d + 1)"

lemma fail_download_accepted:
  assumes "\<forall>n. e_fate E n = Accepted" and "w_downloads w k = Some d"
    and "dlt_Phase (dl_Status d) \<noteq> DownloadPhaseNew"
  shows "\<exists>d'. w_downloads (snd (run_state (fail_download E node k d msg) w)) k = Some d' \<and> after_failure d d'"
proof (cases "5 < sint (dlt_RetryCount (dl_Status d))")
  case True
  then have att: "patchDownloadByStatus E node k DownLoadPhaseRetry msg d = patchDownload E k d (dl_set_failed E msg)"
    by (simp add: patchDownloadByStatus_def DOWNLOAD_MAX_RETRY_def)
  from download_write_accepted [OF assms(1,2) att silent_download_status(2)] True assms(3) show ?thesis
    by (auto simp: fail_download_def after_failure_def attempts_so_far_def dl_set_failed_def clock_now_def)
next
  case False
  then have att: "patchDownloadByStatus E node k DownLoadPhaseRetry msg d = patchDownload E k d (dl_set_retry E msg)"
    by (simp add: patchDownloadByStatus_def DOWNLOAD_MAX_RETRY_def)
  from download_write_accepted [OF assms(1,2) att silent_download_status(3)] False assms(3) show ?thesis
    by (auto simp: fail_download_def after_failure_def attempts_so_far_def dl_set_retry_def clock_now_def)
qed

lemma failing_to:
  assumes "\<forall>n. e_fate E n = Accepted" and "copy_always_fails E B (dl_Spec d) p target options" and "w_brs w = B"
    and "w_downloads w k = Some d" and "dlt_Phase (dl_Status d) \<noteq> DownloadPhaseNew"
  shows "\<exists>d'. w_downloads (snd (run_state (download_to E node k d p target options) w)) k = Some d' \<and> after_failure d d'"
proof -
  obtain e w1 where copy: "run_state (copy_download E d p target options) w = (Inr (Inl e), w1)"
    "\<not> is_panic e" "w_downloads w1 = w_downloads w"
    using copy_fails [OF assms(2,3)] by blast
  have "\<exists>d'. w_downloads (snd (run_state (fail_download E node k d msg) w1)) k = Some d' \<and> after_failure d d'" for msg
    by (rule fail_download_accepted) (use assms copy in auto)
  with copy show ?thesis by (simp add: download_to_def)
qed

lemma failing_started:
  assumes "download_fails E (w_brs w) (dl_Spec d)" and "w_downloads w k = Some d"
    and "dlt_Phase (dl_Status d) \<noteq> DownloadPhaseNew"
  shows "\<exists>d'. w_downloads (snd (run_state (download_started E node k d) w)) k = Some d' \<and> after_failure d d'"
proof -
  have fate: "\<forall>n. e_fate E n = Accepted" using assms(1) by (simp add: download_fails_def)
  show ?thesis
    using fail_download_accepted [OF fate assms(2,3)] failing_to [OF fate _ refl assms(2,3)] assms(1)
    by (auto simp: download_started_def download_fails_def Let_def split: sum.splits if_splits)
qed

lemma failing_run:
  assumes "download_fails E (w_brs w) (dl_Spec d)" and "w_downloads w k = Some d"
    and "dlt_Phase (dl_Status d) \<noteq> DownloadPhaseCompleted"
  shows "\<exists>d'. w_downloads (snd (run_state (processDownload E node k) w)) k = Some d' \<and> after_failure d d'"
proof -
  let ?w0 = "w\<lparr>w_tick := Suc (w_tick w)\<rparr>"
  have fate: "\<forall>n. e_fate E n = Accepted" using assms(1) by (simp add: download_fails_def)
  then have step: "run_state (processDownload E node k) w = run_state (start_download E node k d) ?w0"
    using assms(2,3) by (simp add: processDownload_def cr_get_def)
  show ?thesis
  proof (cases "dlt_Phase (dl_Status d) = DownloadPhaseInProgress")
    case True
    with step failing_started [of E ?w0 d k node] assms(1) assms(2) show ?thesis
      by (simp add: start_download_def)
  next
    case False
    have att: "patchDownloadByStatus E node k DownloadPhaseInProgress '''' d = patchDownload E k d (dl_set_in_progress E node)"
      by (simp add: patchDownloadByStatus_def)
    let ?d1 = "fst (run_state (dl_set_in_progress E node d) (?w0\<lparr>w_tick := Suc (w_tick ?w0)\<rparr>))"
    obtain n where start: "run_state (patchDownloadByStatusWithRetry E node k d DownloadPhaseInProgress '''') ?w0 =
        (Inr ?d1, ?w0\<lparr>w_tick := n, w_downloads := (w_downloads ?w0)(k \<mapsto> ?d1)\<rparr>)"
      using download_write_accepted [OF fate _ att silent_download_status(4), of ?w0] assms(2) by auto
    have same: "dl_Spec ?d1 = dl_Spec d" "attempts_so_far ?d1 = attempts_so_far d"
      "dlt_Phase (dl_Status ?d1) = DownloadPhaseInProgress"
      by (auto simp: dl_set_in_progress_def clock_now_def attempts_so_far_def MIN_RETRY_def)
    let ?w1 = "?w0\<lparr>w_tick := n, w_downloads := (w_downloads ?w0)(k \<mapsto> ?d1)\<rparr>"
    obtain d' where "w_downloads (snd (run_state (download_started E node k ?d1) ?w1)) k = Some d'" "after_failure ?d1 d'"
      using failing_started [of E ?w1 ?d1 k node] assms(1) same by auto
    with step start False same show ?thesis
      by (auto simp: start_download_def after_failure_def)
  qed
qed

text \<open>\<open>repeat_run n m w\<close>: \<open>n\<close> runs of \<open>m\<close>, one after the other.\<close>

primrec repeat_run :: "nat \<Rightarrow> (world, 'a) state \<Rightarrow> world \<Rightarrow> world" where
  "repeat_run 0 m w = w"
| "repeat_run (Suc n) m w = snd (run_state m (repeat_run n m w))"

lemma repeat_run_brs: "w_brs (repeat_run n (processDownload E node k) w) = w_brs w"
  using processDownload_frame by (induction n) (simp_all add: Let_def)

lemma failing_runs:
  assumes "download_fails E (w_brs w) (dl_Spec d)" and "w_downloads w k = Some d"
    and "dlt_Phase (dl_Status d) = DownloadPhaseNew" and "n \<le> 6"
  shows "\<exists>d'. w_downloads (repeat_run n (processDownload E node k) w) k = Some d' \<and> dl_Spec d' = dl_Spec d \<and>
     attempts_so_far d' = of_nat n \<and>
     dlt_Phase (dl_Status d') = (if n = 0 then DownloadPhaseNew else DownLoadPhaseRetry)"
  using assms(4)
proof (induction n)
  case 0
  with assms show ?case by (simp add: attempts_so_far_def)
next
  case (Suc n)
  then obtain d1 where d1: "w_downloads (repeat_run n (processDownload E node k) w) k = Some d1"
    "dl_Spec d1 = dl_Spec d" "attempts_so_far d1 = of_nat n"
    "dlt_Phase (dl_Status d1) = (if n = 0 then DownloadPhaseNew else DownLoadPhaseRetry)" by auto
  have "sint (of_nat n :: int32) = int n"
    using Suc.prems by (auto simp: numeral_eq_Suc le_Suc_eq)
  then have small: "\<not> 5 < sint (attempts_so_far d1)" using Suc.prems d1(3) by simp
  obtain d' where "w_downloads (snd (run_state (processDownload E node k)
      (repeat_run n (processDownload E node k) w))) k = Some d'" "after_failure d1 d'"
    using failing_run [of E "repeat_run n (processDownload E node k) w" d1 k node] d1 assms(1)
    by (auto simp: repeat_run_brs split: if_splits)
  with small d1(2,3) show ?case
    by (auto simp: after_failure_def attempts_so_far_def add.commute)
qed

text \<open>
  C9. A download that keeps failing is retried six times and then given up, whatever the reason
  and whether it asks for a new volume or to overwrite one, from the default or from a named
  repository. If the API server accepts all writes and every attempt of a new Download fails
  with an error of the copy (a repository that cannot be read at all is not such an error: its
  lookup fails the run before the copy), then after the \<open>n\<close>-th run, \<open>n\<close> from 1 to 6, it waits for
  its next try with the counter at \<open>n\<close>, and after the seventh it is \<open>Failed\<close>.
\<close>

theorem download_given_up_after_seven:
  assumes "download_fails E (w_brs w) (dl_Spec d)" and "w_downloads w k = Some d"
    and "dlt_Phase (dl_Status d) = DownloadPhaseNew" and "1 \<le> n" and "n \<le> 7"
  shows "\<exists>d'. w_downloads (repeat_run n (processDownload E node k) w) k = Some d' \<and>
     (if n \<le> 6 then dlt_Phase (dl_Status d') = DownLoadPhaseRetry \<and> dlt_RetryCount (dl_Status d') = of_nat n
      else dlt_Phase (dl_Status d') = DownloadPhaseFailed)"
proof (cases "n \<le> 6")
  case True
  with failing_runs [OF assms(1-3) True, of node] assms(4) show ?thesis
    by (auto simp: attempts_so_far_def split: if_splits)
next
  case False
  then have n: "n = Suc 6" using assms(5) by simp
  obtain d1 where d1: "w_downloads (repeat_run 6 (processDownload E node k) w) k = Some d1"
    "dl_Spec d1 = dl_Spec d" "attempts_so_far d1 = 6" "dlt_Phase (dl_Status d1) = DownLoadPhaseRetry"
    using failing_runs [OF assms(1-3), of 6 node] by auto
  then obtain d' where "w_downloads (snd (run_state (processDownload E node k)
      (repeat_run 6 (processDownload E node k) w))) k = Some d'" "after_failure d1 d'"
    using failing_run [of E "repeat_run 6 (processDownload E node k) w" d1 k node] assms(1)
    by (auto simp: repeat_run_brs)
  moreover have "repeat_run n (processDownload E node k) w =
      snd (run_state (processDownload E node k) (repeat_run 6 (processDownload E node k) w))"
    unfolding n by (rule repeat_run.simps(2))
  ultimately show ?thesis using False d1(3) by (auto simp: after_failure_def)
qed

text \<open>The witness overwrites a volume from a named repository; the volume refuses to be overwritten.\<close>

definition stubborn_env :: env where
  "stubborn_env = calm\<lparr>e_overwrite := (\<lambda>n target p. Some (ErrMsg ''locked''))\<rparr>"

definition named_download :: Download where
  "named_download = (sample_download DownloadPhaseNew 0 ''ivd|old|'')\<lparr>dl_Spec :=
     (dl_Spec (sample_download DownloadPhaseNew 0 ''ivd|old|''))\<lparr>dls_BackupRepositoryName := ''br-1''\<rparr>\<rparr>"

definition named_download_world :: world where
  "named_download_world = empty_world\<lparr>w_downloads := [sample_key \<mapsto> named_download],
     w_brs := [('''', ''br-1'') \<mapsto> named_repository]\<rparr>"

lemma stubborn_env_fails: "download_fails stubborn_env (w_brs named_download_world) (dl_Spec named_download)"
  by (auto simp: download_fails_def copy_always_fails_def stubborn_env_def named_download_def named_download_world_def
      named_repository_def WithoutBackupRepository_def evals)

theorem download_given_up_after_seven_witness:
  "(\<exists>d'. w_downloads (repeat_run 6 (processDownload stubborn_env ''node-1'' sample_key) named_download_world)
        sample_key = Some d' \<and>
      dlt_Phase (dl_Status d') = DownLoadPhaseRetry \<and> dlt_RetryCount (dl_Status d') = 6) \<and>
   (\<exists>d'. w_downloads (repeat_run 7 (processDownload stubborn_env ''node-1'' sample_key) named_download_world)
        sample_key = Some d' \<and> dlt_Phase (dl_Status d') = DownloadPhaseFailed)"
proof -
  have "w_downloads named_download_world sample_key = Some named_download" by (simp add: named_download_world_def)
  note given_up = download_given_up_after_seven [OF stubborn_env_fails this, of _ "''node-1''"]
  have new: "dlt_Phase (dl_Status named_download) = DownloadPhaseNew"
    by (simp add: named_download_def sample_download_def)
  show ?thesis using given_up [OF new, of 6] given_up [OF new, of 7] by simp
qed

section \<open>Lost writes\<close>

text \<open>
  A lost write loses the restored volume. If the API server refuses the first patch that
  marks a Download as completed, then also when a later attempt succeeds and the loop
  reports success, the stored Download has neither the phase \<open>Completed\<close> nor the identifier of
  the new volume: both keep the value they had.
\<close>

theorem completion_lost_after_refused_patch:
  assumes "w_downloads w k = Some req"
    and "e_fate E (w_tick w + 2) = Refused e"
  shows "map_option (\<lambda>d. (dlt_Phase (dl_Status d), dlt_VolumeID (dl_Status d)))
       (w_downloads (snd (run_state (patchDownloadByStatusWithRetry E node k req DownloadPhaseCompleted volume) w)) k)
     = Some (dlt_Phase (dl_Status req), dlt_VolumeID (dl_Status req))"
proof -
  let ?f = "\<lambda>d. (dlt_Phase (dl_Status d), dlt_VolumeID (dl_Status d))"
  let ?keep = "\<lambda>w. map_option ?f (w_downloads w k) = Some (?f req)"
  let ?J = "\<lambda>r w. ?f r = (DownloadPhaseCompleted, volume) \<and> ?keep w"
  let ?att = "patchDownloadByStatus E node k DownloadPhaseCompleted volume"
  let ?w0 = "w\<lparr>w_tick := Suc (w_tick w)\<rparr>"
  let ?new = "fst (run_state (dl_set_completed E volume req) ?w0)"
  have att: "?att r = patch_object w_downloads w_downloads_update merge_download id E k r (dl_set_completed E volume)" for r
    by (simp add: patchDownloadByStatus_def patchDownload_def)
  have sets: "run_state (dl_set_completed E volume r) v =
      (fst (run_state (dl_set_completed E volume r) v), v\<lparr>w_tick := Suc (w_tick v)\<rparr>)"
    "?f (fst (run_state (dl_set_completed E volume r) v)) = (DownloadPhaseCompleted, volume)" for r v
    by (simp_all add: dl_set_completed_def clock_now_def)
  have first: "run_state (?att req) ?w0 = ((Inl (ErrAPI e), ?new), w\<lparr>w_tick := w_tick w + 3\<rparr>)"
    unfolding att using download_patch.patch_refused [OF sets(1), of E ?w0 e] assms(2)
    by (simp add: eval_nat_numeral)
  have step: "triple (?J r) (?att r) (\<lambda>(x, r') w. ?J r' w)" for r
  proof (rule tripleI)
    fix w p w'
    assume pre: "?J r w" and run: "run_state (?att r) w = (p, w')"
    let ?x = "w_downloads (snd (run_state (?att r) w)) k" and ?y = "w_downloads w k"
    have "map_option (\<lambda>d. dlt_Phase (dl_Status d)) ?x = map_option (\<lambda>d. dlt_Phase (dl_Status d)) ?y"
      unfolding att by (rule download_patch.patch_misses_field [where v = DownloadPhaseCompleted])
        (use pre sets(2) in \<open>auto simp: merge_download_def merge_download_status_def\<close>)
    moreover have "map_option (\<lambda>d. dlt_VolumeID (dl_Status d)) ?x = map_option (\<lambda>d. dlt_VolumeID (dl_Status d)) ?y"
      unfolding att by (rule download_patch.patch_misses_field [where v = volume])
        (use pre sets(2) in \<open>auto simp: merge_download_def merge_download_status_def\<close>)
    ultimately have "map_option ?f ?x = map_option ?f ?y" by (cases ?x; cases ?y) auto
    moreover have "?f (snd p) = (DownloadPhaseCompleted, volume)"
      using run sets(2) [of r w] unfolding att patch_object_def
      by (auto simp: dl_set_completed_def clock_now_def split: prod.splits)
    ultimately show "(case p of (x, r') \<Rightarrow> \<lambda>w. ?J r' w) w'" using pre run by (auto split: prod.splits)
  qed
  show ?thesis
    unfolding patchDownloadByStatusWithRetry_def
    by (rule patch_with_retry_after_failure [where J = ?J and K = ?keep, OF first _ step])
       (use assms(1) sets(2) in auto)
qed

theorem completion_lost_after_refused_patch_witness:
  "let (r, w') = run_state (patchDownloadByStatusWithRetry (refusing 2) ''node-1'' sample_key
         (sample_download DownloadPhaseInProgress 0 '''') DownloadPhaseCompleted ''ivd|new|'')
         (download_world DownloadPhaseInProgress 0 '''')
   in (\<exists>d. r = Inr d) \<and>
      map_option (\<lambda>d. (dlt_Phase (dl_Status d), dlt_VolumeID (dl_Status d))) (w_downloads w' sample_key)
        = Some (DownloadPhaseInProgress, '''')"
proof -
  let ?run = "run_state (patchDownloadByStatusWithRetry (refusing 2) ''node-1'' sample_key
         (sample_download DownloadPhaseInProgress 0 '''') DownloadPhaseCompleted ''ivd|new|'')
         (download_world DownloadPhaseInProgress 0 '''')"
  have "case fst ?run of Inr _ \<Rightarrow> True | Inl _ \<Rightarrow> False" by (simp add: evals refusing_def)
  moreover have "map_option (\<lambda>d. (dlt_Phase (dl_Status d), dlt_VolumeID (dl_Status d))) (w_downloads (snd ?run) sample_key)
      = Some (dlt_Phase (dl_Status (sample_download DownloadPhaseInProgress 0 '''')),
              dlt_VolumeID (dl_Status (sample_download DownloadPhaseInProgress 0 '''')))"
    by (rule completion_lost_after_refused_patch [where e = "OtherStatus ''conflict''"])
       (simp_all add: download_world_def empty_world_def refusing_def)
  ultimately show ?thesis
    by (auto simp: sample_download_def split: prod.splits sum.splits)
qed

end
