(* ===== verification/Backup_Repository.thy ===== *)
theory Backup_Repository
  imports Snapshot_Manager
begin

text \<open>
  Backup repositories and their claims (\<^verbatim>\<open>pkg/backuprepository/backup_repository.go\<close>).
  A claim names the parameters of a repository; the backup driver answers it by creating the
  cluster-scoped BackupRepository and writing its name into the claim. The claimer waits for
  that. In a guest cluster the same code claims a repository in the supervisor cluster: the
  flag \<open>svc\<close> tells which API server a request goes to.
\<close>

text \<open>
  \<^verbatim>\<open>reflect.DeepEqual\<close> on the parameters and namespaces. It tells a nil map or slice from an
  empty one, the model does not: an object read from the API server has neither apart.
\<close>

definition compareBackupRepositoryClaim ::
  "string \<Rightarrow> (string \<rightharpoonup> string) \<Rightarrow> string list \<Rightarrow> BackupRepositoryClaim \<Rightarrow> bool" where
  "compareBackupRepositoryClaim driver ps namespaces brc \<longleftrightarrow>
     ps = brc_RepositoryParameters brc \<and> driver = brc_RepositoryDriver brc \<and>
     namespaces = brc_AllowedNamespaces brc"

text \<open>
  The loop over the listed claims: \<open>Inl\<close> is the repository of the first matching claim that
  has one, \<open>Inr\<close> the names of the matching claims that have none yet.
\<close>

fun scan_claims ::
  "(BackupRepositoryClaim \<Rightarrow> bool) \<Rightarrow> BackupRepositoryClaim list \<Rightarrow> string list \<Rightarrow> string + string list" where
  "scan_claims matches [] found = Inr found"
| "scan_claims matches (c # cs) found =
     (if matches c then
        (if brc_BackupRepository c = '''' then scan_claims matches cs (found @ [om_Name (brc_Meta c)])
         else Inl (brc_BackupRepository c))
      else scan_claims matches cs found)"

definition build_claim ::
  "string \<Rightarrow> string \<Rightarrow> (string \<rightharpoonup> string) \<Rightarrow> string list \<Rightarrow> BackupRepositoryClaim" where
  "build_claim ns name ps namespaces = \<lparr>
     brc_Meta = \<lparr>om_Namespace = ns, om_Name = name, om_UID = '''',
       om_Labels = [VeleroExcludeLabel \<mapsto> ''true''], om_DeletionTimestamp = None\<rparr>,
     brc_AllowedNamespaces = namespaces, brc_RepositoryDriver = S3RepositoryDriver,
     brc_RepositoryParameters = ps, brc_BackupRepository = ''''\<rparr>"

definition checkIfBackupRepositoryClaimIsReferenced ::
  "string list \<Rightarrow> BackupRepositoryClaim \<Rightarrow> string option" where
  "checkIfBackupRepositoryClaimIsReferenced names c =
     (if brc_BackupRepository c \<noteq> '''' then
        (if om_Name (brc_Meta c) \<in> set names then Some (brc_BackupRepository c) else None)
      else None)"

text \<open>
  Waiting for the informer's events until one of the claims is answered or the context is
  done. \<open>fuel\<close> bounds the number of events, \<open>None\<close> is a wait that goes on.
\<close>

primrec wait_claim :: "env \<Rightarrow> bool \<Rightarrow> string list \<Rightarrow> nat \<Rightarrow> (world, (goerr + string) option) state" where
  "wait_claim E svc names 0 = State_Monad.return None"
| "wait_claim E svc names (Suc fuel) = do {
     ev \<leftarrow> ask (\<lambda>n. e_brc_event E n svc);
     (case ev of
        None \<Rightarrow> State_Monad.return (Some (Inl ErrCanceled))
      | Some c \<Rightarrow>
          (case checkIfBackupRepositoryClaimIsReferenced names c of
             Some br \<Rightarrow> State_Monad.return (Some (Inr br))
           | None \<Rightarrow> wait_claim E svc names fuel))
   }"

text \<open>The API server gives a new claim its unique identifier.\<close>

definition create_claim :: "env \<Rightarrow> bool \<Rightarrow> key \<Rightarrow> BackupRepositoryClaim \<Rightarrow> (world, goerr + BackupRepositoryClaim) state" where
  "create_claim E svc k c =
     (let admit = (\<lambda>c. c\<lparr>brc_Meta := (brc_Meta c)\<lparr>om_UID := e_uid E k\<rparr>\<rparr>) in
      if svc then cr_create w_svc_brcs w_svc_brcs_update admit E k c
      else cr_create w_brcs w_brcs_update admit E k c)"

definition ClaimBackupRepository ::
  "env \<Rightarrow> nat \<Rightarrow> bool \<Rightarrow> string \<Rightarrow> (string \<rightharpoonup> string) \<Rightarrow> string list \<Rightarrow> string \<Rightarrow>
   (world, (goerr + string) option) state" where
  "ClaimBackupRepository E fuel svc driver ps namespaces ns = do {
     listed \<leftarrow> ask (\<lambda>n. e_brc_list E n svc ns);
     (case listed of
        Inl _ \<Rightarrow> State_Monad.return (Some (Inl (ErrMsg
          (''Failed to list backup repository claims from the '' @ ns @ '' namespace''))))
      | Inr items \<Rightarrow>
          (case scan_claims (compareBackupRepositoryClaim driver ps namespaces) items [] of
             Inl br \<Rightarrow> State_Monad.return (Some (Inr br))
           | Inr [] \<Rightarrow> do {
               uuid \<leftarrow> ask (e_uuid E);
               (case uuid of
                  Inl _ \<Rightarrow> State_Monad.return (Some (Inl (ErrMsg ''Failed to generate backup repository claim name'')))
                | Inr u \<Rightarrow> do {
                    let name = ''brc-'' @ u;
                    r \<leftarrow> create_claim E svc (ns, name) (build_claim ns name ps namespaces);
                    (case r of
                       Inl _ \<Rightarrow> State_Monad.return (Some (Inl (ErrMsg
                         (''Failed to create backup repository claim with name '' @ name @ '' in namespace '' @ ns))))
                     | Inr _ \<Rightarrow> wait_claim E svc [name] fuel)
                  })
             }
           | Inr (n # names) \<Rightarrow> wait_claim E svc (n # names) fuel))
   }"

definition ClaimSvcBackupRepository ::
  "env \<Rightarrow> nat \<Rightarrow> BackupRepositoryClaim \<Rightarrow> string \<Rightarrow> (world, (goerr + string) option) state" where
  "ClaimSvcBackupRepository E fuel brc svcNamespace = do {
     cl \<leftarrow> ask (e_client E);
     (case cl of
        Some e \<Rightarrow> State_Monad.return (Some (Inl e))
      | None \<Rightarrow> ClaimBackupRepository E fuel True (brc_RepositoryDriver brc) (brc_RepositoryParameters brc)
                  [svcNamespace] svcNamespace)
   }"

definition GetBackupRepositoryNameForBackupRepositoryClaim :: "BackupRepositoryClaim \<Rightarrow> string" where
  "GetBackupRepositoryNameForBackupRepositoryClaim brc = ''br-'' @ om_UID (brc_Meta brc)"

definition build_repository :: "string \<Rightarrow> BackupRepositoryClaim \<Rightarrow> string \<Rightarrow> BackupRepository" where
  "build_repository name brc svcBrName = \<lparr>
     br_Meta = \<lparr>om_Namespace = '''', om_Name = name, om_UID = '''',
       om_Labels = [VeleroExcludeLabel \<mapsto> ''true''], om_DeletionTimestamp = None\<rparr>,
     br_AllowedNamespaces = brc_AllowedNamespaces brc, br_RepositoryDriver = S3RepositoryDriver,
     br_RepositoryParameters = brc_RepositoryParameters brc,
     br_BackupRepositoryClaim = om_Name (brc_Meta brc), br_SvcBackupRepositoryName = svcBrName\<rparr>"

definition CreateBackupRepository ::
  "env \<Rightarrow> BackupRepositoryClaim \<Rightarrow> string \<Rightarrow> (world, goerr + BackupRepository) state" where
  "CreateBackupRepository E brc svcBrName = do {
     let name = GetBackupRepositoryNameForBackupRepositoryClaim brc;
     got \<leftarrow> cr_get w_brs E ('''', name);
     (case got of
        Inr br \<Rightarrow> State_Monad.return (Inr br)
      | Inl e \<Rightarrow>
          if \<not> is_not_found e then State_Monad.return (Inl (ErrMsg
            (''failed to retrieve BackupRepository API object '' @ name @ '': '' @ error_string e)))
          else cr_create w_brs w_brs_update id E ('''', name) (build_repository name brc svcBrName))
   }"

definition set_repository :: "string \<Rightarrow> BackupRepositoryClaim \<Rightarrow> (world, BackupRepositoryClaim) state" where
  "set_repository name r = State_Monad.return (r\<lparr>brc_BackupRepository := name\<rparr>)"

definition patchBackupRepositoryClaimInt ::
  "env \<Rightarrow> key \<Rightarrow> BackupRepositoryClaim \<Rightarrow> (BackupRepositoryClaim \<Rightarrow> (world, BackupRepositoryClaim) state) \<Rightarrow>
   (world, (goerr + BackupRepositoryClaim) \<times> BackupRepositoryClaim) state" where
  "patchBackupRepositoryClaimInt E k req mutate =
     patch_object w_brcs w_brcs_update merge_brc (ErrWrap ''Failed to patch BackupRepositoryClaim'') E k req mutate"

definition PatchBackupRepositoryClaim ::
  "env \<Rightarrow> key \<Rightarrow> BackupRepositoryClaim \<Rightarrow> string \<Rightarrow> (world, goerr option) state" where
  "PatchBackupRepositoryClaim E k brc name = do {
     (r, _) \<leftarrow> patchBackupRepositoryClaimInt E k brc (set_repository name);
     State_Monad.return (case r of
         Inl _ \<Rightarrow> Some (ErrMsg (''Failed to patch backup repository claim '' @ om_Name (brc_Meta brc) @
                  '' with backup repository '' @ name @ '' in namespace '' @ fst k))
       | Inr _ \<Rightarrow> None)
   }"

section \<open>Lemmas\<close>

lemma scan_claims_Inl:
  "scan_claims matches cs found = Inl br \<Longrightarrow>
   \<exists>c \<in> set cs. matches c \<and> brc_BackupRepository c = br \<and> br \<noteq> ''''"
  by (induction cs arbitrary: found) (auto split: if_splits)

lemma scan_claims_Inr:
  "scan_claims matches cs found = Inr names \<Longrightarrow>
   names = found @ map (\<lambda>c. om_Name (brc_Meta c)) (filter matches cs) \<and>
   (\<forall>c \<in> set cs. matches c \<longrightarrow> brc_BackupRepository c = '''')"
proof (induction cs arbitrary: found)
  case (Cons c cs)
  let ?found = "if matches c then found @ [om_Name (brc_Meta c)] else found"
  have "scan_claims matches cs ?found = Inr names"
    using Cons.prems by (auto split: if_splits)
  from Cons.IH [OF this] show ?case using Cons.prems by (auto split: if_splits)
qed simp

lemma wait_claim_answer:
  "fst (run_state (wait_claim E svc names fuel) w) = Some (Inr br) \<Longrightarrow>
   \<exists>n c. e_brc_event E n svc = Some c \<and> om_Name (brc_Meta c) \<in> set names \<and>
     brc_BackupRepository c = br \<and> br \<noteq> ''''"
  by (induction fuel arbitrary: w)
     (auto simp: checkIfBackupRepositoryClaimIsReferenced_def split: option.splits if_splits)

lemma wait_claim_fuel:
  assumes "fst (run_state (wait_claim E svc names fuel) w) = Some r" and "fuel \<le> fuel'"
  shows "run_state (wait_claim E svc names fuel') w = run_state (wait_claim E svc names fuel) w"
  using assms
proof (induction fuel arbitrary: fuel' w)
  case (Suc fuel)
  from Suc.prems(2) obtain f where f: "fuel' = Suc f" "fuel \<le> f" by (cases fuel') auto
  let ?ev = "e_brc_event E (w_tick w) svc"
  show ?case
  proof (cases "?ev = None \<or> checkIfBackupRepositoryClaimIsReferenced names (the ?ev) \<noteq> None")
    case True
    then show ?thesis by (cases ?ev) (auto simp: f(1))
  next
    case False
    then obtain c where c: "?ev = Some c" "checkIfBackupRepositoryClaimIsReferenced names c = None" by auto
    with Suc.prems(1) have "fst (run_state (wait_claim E svc names fuel) (w\<lparr>w_tick := Suc (w_tick w)\<rparr>)) = Some r"
      by simp
    from Suc.IH [OF this f(2)] c show ?thesis by (simp add: f(1))
  qed
qed simp

lemmas repository_evals [evals] =
  create_claim_def ClaimBackupRepository_def CreateBackupRepository_def build_claim_def build_repository_def
  GetBackupRepositoryNameForBackupRepositoryClaim_def patchBackupRepositoryClaimInt_def
  PatchBackupRepositoryClaim_def set_repository_def compareBackupRepositoryClaim_def
  checkIfBackupRepositoryClaimIsReferenced_def

end
