(* ===== verification/Backup_Driver.thy ===== *)
theory Backup_Driver
  imports Backup_Repository
begin

text \<open>
  The backup driver (\<^verbatim>\<open>pkg/backupdriver/backup_driver_controller.go\<close> and
  \<^verbatim>\<open>backup_driver_controller_base.go\<close>): one worker per kind of custom resource. It takes
  the snapshot a Snapshot asks for, deletes the one a DeleteSnapshot names, restores for a
  CloneFromSnapshot, answers repository claims, and carries the progress of an Upload, or of a
  snapshot in the supervisor cluster, over to the Snapshot it belongs to.

  \<open>driver\<close> is the part of \<^verbatim>\<open>backupDriverController\<close> that the code branches on: whether
  there is a supervisor cluster (\<^verbatim>\<open>svcKubeConfig != nil\<close>), its namespace, whether the
  snapshot manager exists, and the cluster flavor the latter was built for.
  \<^verbatim>\<open>UpdateStatus\<close> writes the whole status of the object that was read.
\<close>

record driver =
  dr_guest :: bool
  dr_svcNamespace :: string
  dr_snapManager :: bool
  dr_flavor :: ClusterFlavor

section \<open>Writing the status\<close>

record snapshot_fields =
  sf_Message :: "string option"
  sf_Bytes :: "(int \<times> int) option"  \<comment> \<open>total and done\<close>
  sf_SnapshotID :: "string option"
  sf_SvcSnapshotName :: "string option"
  sf_Metadata :: "string option"

definition no_fields :: snapshot_fields where
  "no_fields = \<lparr>sf_Message = None, sf_Bytes = None, sf_SnapshotID = None, sf_SvcSnapshotName = None,
     sf_Metadata = None\<rparr>"

definition or_keep :: "'a option \<Rightarrow> 'a \<Rightarrow> 'a" where
  "or_keep new old = (case new of None \<Rightarrow> old | Some v \<Rightarrow> v)"

definition with_fields :: "SnapshotPhase \<Rightarrow> snapshot_fields \<Rightarrow> SnapshotStatus \<Rightarrow> SnapshotStatus" where
  "with_fields newPhase f s = s\<lparr>
     snt_Phase := newPhase,
     snt_Message := or_keep (sf_Message f) (snt_Message s),
     snt_Progress := (case sf_Bytes f of
         None \<Rightarrow> snt_Progress s
       | Some (t, d) \<Rightarrow> \<lparr>snp_TotalBytes = t, snp_BytesDone = d\<rparr>),
     snt_SnapshotID := or_keep (sf_SnapshotID f) (snt_SnapshotID s),
     snt_SvcSnapshotName := or_keep (sf_SvcSnapshotName f) (snt_SvcSnapshotName s),
     snt_Metadata := or_keep (sf_Metadata f) (snt_Metadata s)\<rparr>"

definition updateSnapshotStatusPhase ::
  "env \<Rightarrow> key \<Rightarrow> SnapshotPhase \<Rightarrow> snapshot_fields \<Rightarrow> (world, goerr + Snapshot) state" where
  "updateSnapshotStatusPhase E k newPhase f = do {
     got \<leftarrow> cr_get w_snapshots E k;
     (case got of
        Inl e \<Rightarrow> State_Monad.return (Inl e)
      | Inr s \<Rightarrow>
          if snt_Phase (sn_Status s) = newPhase then State_Monad.return (Inr s)
          else do {
            st \<leftarrow> (if newPhase = SnapshotPhaseUploaded then do {
                     now \<leftarrow> clock_now E;
                     State_Monad.return ((with_fields newPhase f (sn_Status s))
                       \<lparr>snt_CompletionTimestamp := Some (unix now)\<rparr>)
                   } else State_Monad.return (with_fields newPhase f (sn_Status s)));
            cr_modify w_snapshots w_snapshots_update E k (\<lambda>x. x\<lparr>sn_Status := st\<rparr>)
          })
   }"

definition updateDeleteSnapshotStatusPhase ::
  "env \<Rightarrow> key \<Rightarrow> DeleteSnapshotPhase \<Rightarrow> string option \<Rightarrow> (world, goerr + DeleteSnapshot) state" where
  "updateDeleteSnapshotStatusPhase E k newPhase msg = do {
     got \<leftarrow> cr_get w_deletes E k;
     (case got of
        Inl e \<Rightarrow> State_Monad.return (Inl e)
      | Inr s \<Rightarrow>
          if dt_Phase (d_Status s) = newPhase then State_Monad.return (Inr s)
          else do {
            let st = (d_Status s)\<lparr>dt_Phase := newPhase, dt_Message := or_keep msg (dt_Message (d_Status s))\<rparr>;
            st' \<leftarrow> (if newPhase = DeleteSnapshotPhaseCompleted then do {
                      now \<leftarrow> clock_now E;
                      State_Monad.return (st\<lparr>dt_CompletionTimestamp := Some (unix now)\<rparr>)
                    } else State_Monad.return st);
            cr_modify w_deletes w_deletes_update E k (\<lambda>x. x\<lparr>d_Status := st'\<rparr>)
          })
   }"

definition updateCloneFromSnapshotStatusPhase ::
  "env \<Rightarrow> key \<Rightarrow> ClonePhase \<Rightarrow> string option \<Rightarrow> (world, goerr + CloneFromSnapshot) state" where
  "updateCloneFromSnapshotStatusPhase E k newPhase msg = do {
     got \<leftarrow> cr_get w_clones E k;
     (case got of
        Inl e \<Rightarrow> State_Monad.return (Inl e)
      | Inr s \<Rightarrow>
          if clt_Phase (cl_Status s) = newPhase then State_Monad.return (Inr s)
          else do {
            let st = (cl_Status s)\<lparr>clt_Phase := newPhase, clt_Message := or_keep msg (clt_Message (cl_Status s))\<rparr>;
            st' \<leftarrow> (if newPhase = ClonePhaseCompleted then do {
                      now \<leftarrow> clock_now E;
                      State_Monad.return (st\<lparr>clt_CompletionTimestamp := Some (unix now)\<rparr>)
                    } else State_Monad.return st);
            cr_modify w_clones w_clones_update E k (\<lambda>x. x\<lparr>cl_Status := st'\<rparr>)
          })
   }"

section \<open>Taking a snapshot\<close>

text \<open>The failed status is written best-effort: an error of the write is only logged.\<close>

definition fail_snapshot ::
  "env \<Rightarrow> key \<Rightarrow> snapshot_fields \<Rightarrow> string \<Rightarrow> goerr \<Rightarrow> (world, goerr option) state" where
  "fail_snapshot E k f errMsg err = do {
     _ \<leftarrow> updateSnapshotStatusPhase E k SnapshotPhaseSnapshotFailed (f\<lparr>sf_Message := Some errMsg\<rparr>);
     State_Monad.return (Some err)
   }"

text \<open>
  The name of the repository to use: in a guest cluster that of the supervisor's repository.
\<close>

definition supervisor_repository :: "env \<Rightarrow> driver \<Rightarrow> string \<Rightarrow> (world, goerr + string) state" where
  "supervisor_repository E C brName =
     (if dr_guest C \<and> brName \<noteq> '''' then do {
        br \<leftarrow> cr_get w_brs E ('''', brName);
        State_Monad.return (case br of Inl e \<Rightarrow> Inl e | Inr b \<Rightarrow> Inr (br_SvcBackupRepositoryName b))
      } else State_Monad.return (Inr brName))"

text \<open>The part after the snapshot was taken: read its metadata and write the status.\<close>

definition snapshot_taken ::
  "env \<Rightarrow> key \<Rightarrow> peid \<Rightarrow> string \<Rightarrow> (world, goerr option) state" where
  "snapshot_taken E k p svcSnapshotName = do {
     let f = no_fields\<lparr>sf_Bytes := Some (0, 0), sf_SnapshotID := Some (e_print_peid E p),
               sf_SvcSnapshotName := (if svcSnapshotName \<noteq> '''' then Some svcSnapshotName else None)\<rparr>;
     got \<leftarrow> ask (\<lambda>n. e_get_pe E n LocalPEM p);
     (case got of
        Some e \<Rightarrow> fail_snapshot E k f (''createSnapshot PostSnapshot: Failed to get the ProtectedEntity from peID ''
                    @ e_print_peid E p @ '', err: '' @ error_string e) e
      | None \<Rightarrow> do {
     md \<leftarrow> ask (\<lambda>n. e_metadata E n p);
     (case md of
        Inl e \<Rightarrow> fail_snapshot E k f
          (''createSnapshot PostSnapshot: Error happened when calling PE GetMetadataReader: '' @ error_string e) e
      | Inr (Inl e) \<Rightarrow> fail_snapshot E k f
          (''createSnapshot PostSnapshot: Error happened when reading metadata: '' @ error_string e) e
      | Inr (Inr mdBuf) \<Rightarrow> do {
          r \<leftarrow> updateSnapshotStatusPhase E k SnapshotPhaseSnapshotted (f\<lparr>sf_Metadata := Some mdBuf\<rparr>);
          State_Monad.return (case r of Inl e \<Rightarrow> Some e | Inr _ \<Rightarrow> None)
        })
       })
   }"

text \<open>
  Both handlers first refuse to work without a client; the controller is never built without
  one, and the model has no such controller.
\<close>

definition createSnapshot :: "env \<Rightarrow> driver \<Rightarrow> key \<Rightarrow> Snapshot \<Rightarrow> (world, goerr option) state" where
  "createSnapshot E C k snapshot =
     (let ref = sns_Reference (sn_Spec snapshot) in
      if tr_Kind ref \<noteq> ''PersistentVolumeClaim'' then
        (let errMsg = ''createSnapshot PreSnapshot: resourceHandle Kind '' @ tr_Kind ref @
               '' is not supported. Only PersistentVolumeClaim Kind is supported''
         in fail_snapshot E k no_fields errMsg (ErrMsg errMsg))
      else if \<not> dr_snapManager C then
        (let errMsg = ''createSnapshot PreSnapshot: snapManager is not initialized.''
         in fail_snapshot E k no_fields errMsg (ErrMsg errMsg))
      else do {
        repo \<leftarrow> supervisor_repository E C (sns_BackupRepository (sn_Spec snapshot));
        (case repo of
           Inl e \<Rightarrow> fail_snapshot E k no_fields
             (''createSnapshot PreSnapshot: Failed to get snapshot Backup Repository '' @
              sns_BackupRepository (sn_Spec snapshot)) e
         | Inr brName \<Rightarrow> do {
             (p, svcSnapshotName, err) \<leftarrow> sm_createSnapshot E (dr_flavor C)
                (e_namespaced_id E (tr_Kind ref) (tr_Name ref) (fst k)) brName (fst k @ ''/'' @ snd k);
             (case err of
                Some e \<Rightarrow>
                  if is_panic e then State_Monad.return (Some e)
                  else fail_snapshot E k no_fields
                    (''createSnapshot: Failed at calling SnapshotManager CreateSnapshot from peID '' @
                     e_print_peid E p @ '' , Error: '' @ error_string e) e
              | None \<Rightarrow> snapshot_taken E k p svcSnapshotName)
           })
      })"

section \<open>Deleting a snapshot\<close>

definition fail_delete :: "env \<Rightarrow> key \<Rightarrow> string \<Rightarrow> goerr \<Rightarrow> (world, goerr option) state" where
  "fail_delete E k errMsg err = do {
     _ \<leftarrow> updateDeleteSnapshotStatusPhase E k DeleteSnapshotPhaseFailed (Some errMsg);
     State_Monad.return (Some err)
   }"

definition deleteSnapshot :: "env \<Rightarrow> driver \<Rightarrow> key \<Rightarrow> DeleteSnapshot \<Rightarrow> (world, goerr option) state" where
  "deleteSnapshot E C k ds =
     (case e_parse_peid E (ds_SnapshotID (d_Spec ds)) of
        Inl e \<Rightarrow> fail_delete E k
          (''deleteSnapshot PreDeleteSnapshot: Fail to construct new Protected Entity ID from string '' @
           ds_SnapshotID (d_Spec ds)) e
      | Inr p \<Rightarrow>
          if \<not> dr_snapManager C then
            (let errMsg = ''deleteSnapshot PreDeleteSnapshot: snapManager is not initialized.''
             in fail_delete E k errMsg (ErrMsg errMsg))
          else do {
            repo \<leftarrow> supervisor_repository E C (ds_BackupRepository (d_Spec ds));
            (case repo of
               Inl _ \<Rightarrow>
                 (let errMsg = ''deleteSnapshot PreDeleteSnapshot: Failed to get delete snapshot Backup Repository '' @
                        ds_BackupRepository (d_Spec ds)
                  in fail_delete E k errMsg (ErrMsg errMsg))
             | Inr brName \<Rightarrow> do {
                 err \<leftarrow> sm_deleteSnapshot E p brName;
                 (case err of
                    Some e \<Rightarrow>
                      if is_panic e then State_Monad.return (Some e)
                      else fail_delete E k
                        (''deleteSnapshot : Failed at calling SnapshotManager DeleteSnapshot for peID '' @
                         e_print_peid E p @ '', error: '' @ error_string e) e
                  | None \<Rightarrow> do {
                      r \<leftarrow> updateDeleteSnapshotStatusPhase E k DeleteSnapshotPhaseCompleted
                             (Some ''DeleteSnapshot Successfully processed.'');
                      State_Monad.return (case r of Inl e \<Rightarrow> Some e | Inr _ \<Rightarrow> None)
                    })
               })
          })"

section \<open>Restoring\<close>

definition fail_clone :: "env \<Rightarrow> key \<Rightarrow> string \<Rightarrow> goerr \<Rightarrow> (world, goerr option) state" where
  "fail_clone E k errMsg err = do {
     _ \<leftarrow> updateCloneFromSnapshotStatusPhase E k ClonePhaseFailed (Some errMsg);
     State_Monad.return (Some err)
   }"

definition cloneFromSnapshot :: "env \<Rightarrow> driver \<Rightarrow> key \<Rightarrow> CloneFromSnapshot \<Rightarrow> (world, goerr option) state" where
  "cloneFromSnapshot E C k cfs =
     (let sp = cl_Spec cfs in
      if cls_Metadata sp = '''' then
        (let errMsg = ''cloneFromSnapshot PreCloneFromSnapshot: no metadata in CloneFromSnapshot CR '' @
               fst k @ ''/'' @ snd k
         in fail_clone E k errMsg (ErrMsg errMsg))
      else (case e_pvc_metadata E (cls_Metadata sp) of
         Inl e \<Rightarrow> fail_clone E k
           (''cloneFromSnapshot PreCloneFromSnapshot: Error extracting metadata into PVC: '' @ error_string e) e
       | Inr ((pvcNs, pvcName), storageClass) \<Rightarrow>
           if storageClass = None \<or> storageClass = Some '''' then
             (let errMsg = ''cloneFromSnapshot PreCloneFromSnapshot: Failed for PVC '' @ pvcNs @ ''/'' @ pvcName @
                    '' because StorageClassName is not set''
              in fail_clone E k errMsg (ErrMsg errMsg))
           else if \<not> dr_snapManager C then State_Monad.return (Some (GoPanic ''nil SnapshotManager''))
           else do {
             let p = e_namespaced_id E (cls_Kind sp) pvcName pvcNs;
             r \<leftarrow> CreateVolumeFromSnapshotWithMetadata E (dr_flavor C) p (cls_Metadata sp)
                    (cls_SnapshotID sp) (cls_BackupRepository sp);
             (case r of
                Inl e \<Rightarrow>
                  if is_panic e then State_Monad.return (Some e)
                  else fail_clone E k
                    (''cloneFromSnapshot: Failed at calling SnapshotManager CreateVolumeFromSnapshotWithMetadata with peId ''
                     @ e_print_peid E p @ '', err: '' @ error_string e) e
              | Inr _ \<Rightarrow> State_Monad.return None)
           }))"

section \<open>The workers\<close>

text \<open>
  One turn of a worker; \<open>None\<close> is a queue that is shut down. \<open>record_event\<close> records a call on
  the queue in the worker's state.
\<close>

definition drive_worker ::
  "(event \<Rightarrow> ('s, unit) state) \<Rightarrow> string \<Rightarrow> (key \<Rightarrow> ('s, goerr option) state) \<Rightarrow> key option \<Rightarrow>
   ('s, goerr option) state" where
  "drive_worker record_event queue sync item =
     (case item of
        None \<Rightarrow> State_Monad.return None
      | Some k \<Rightarrow> do {
          err \<leftarrow> sync k;
          (case err of
             None \<Rightarrow> do { record_event (EvQueueForget queue k); State_Monad.return None }
           | Some e \<Rightarrow>
               if is_panic e then State_Monad.return (Some e)
               else do { record_event (EvQueueAddRateLimited queue k); State_Monad.return None })
        })"

text \<open>
  Deleting an object of a terminal phase after the clean-up window: a panic on a nil time
  stamp, and the error of the deletion is only logged.
\<close>

definition expire :: "env \<Rightarrow> seconds option \<Rightarrow> (world, goerr option) state \<Rightarrow> (world, goerr option) state" where
  "expire E completion delete = do {
     now \<leftarrow> clock_now E;
     (case completion of
        None \<Rightarrow> State_Monad.return (Some (GoPanic ''nil CompletionTimestamp''))
      | Some ts \<Rightarrow>
          if after_cleanup_window now ts then do { _ \<leftarrow> delete; State_Monad.return None }
          else State_Monad.return None)
   }"

definition remember_svc_snapshot :: "driver \<Rightarrow> key \<Rightarrow> Snapshot \<Rightarrow> (world, unit) state" where
  "remember_svc_snapshot C k s =
     (let svc = snt_SvcSnapshotName (sn_Status s) in
      update_world (\<lambda>w.
        if dr_guest C \<and> svc \<noteq> '''' \<and> w_svcSnapshotMap w svc = None
        then w\<lparr>w_svcSnapshotMap := (w_svcSnapshotMap w)(svc \<mapsto> fst k @ '':'' @ snd k)\<rparr>
        else w))"

definition syncSnapshotByKey :: "env \<Rightarrow> driver \<Rightarrow> key \<Rightarrow> (world, goerr option) state" where
  "syncSnapshotByKey E C k = do {
     got \<leftarrow> cr_get w_snapshots E k;
     (case got of
        Inl e \<Rightarrow> State_Monad.return (if is_not_found e then None else Some e)
      | Inr s \<Rightarrow> do {
          remember_svc_snapshot C k s;
          (if snt_Phase (sn_Status s) \<noteq> SnapshotPhaseNew then
             (if snt_Phase (sn_Status s) = SnapshotPhaseUploaded then
                expire E (snt_CompletionTimestamp (sn_Status s)) (cr_delete w_snapshots w_snapshots_update E k)
              else State_Monad.return None)
           else if \<not> sns_SnapshotCancel (sn_Spec s) then createSnapshot E C k s
           else State_Monad.return None)
        })
   }"

definition delSnapshot :: "driver \<Rightarrow> Snapshot \<Rightarrow> (world, unit) state" where
  "delSnapshot C s =
     (let svc = snt_SvcSnapshotName (sn_Status s) in
      update_world (\<lambda>w.
        if dr_guest C \<and> svc \<noteq> '''' then w\<lparr>w_svcSnapshotMap := (w_svcSnapshotMap w)(svc := None)\<rparr> else w))"

text \<open>
  In the switch on the phase the cases \<open>InProgress\<close>, \<open>Failed\<close> and \<open>Canceling\<close> are empty
  and, without a \<^verbatim>\<open>fallthrough\<close>, go on to the code after the switch.
\<close>

definition syncCloneFromSnapshotByKey :: "env \<Rightarrow> driver \<Rightarrow> key \<Rightarrow> (world, goerr option) state" where
  "syncCloneFromSnapshotByKey E C k = do {
     got \<leftarrow> cr_get w_clones E k;
     (case got of
        Inl e \<Rightarrow> State_Monad.return (if is_not_found e then None else Some e)
      | Inr c \<Rightarrow>
          if clt_Phase (cl_Status c) = ClonePhaseCanceled then State_Monad.return None
          else if clt_Phase (cl_Status c) = ClonePhaseCompleted then
            expire E (clt_CompletionTimestamp (cl_Status c)) (cr_delete w_clones w_clones_update E k)
          else if \<not> cls_CloneCancel (cl_Spec c) then cloneFromSnapshot E C k c
          else State_Monad.return None)
   }"

definition syncDeleteSnapshotByKey :: "env \<Rightarrow> driver \<Rightarrow> key \<Rightarrow> (world, goerr option) state" where
  "syncDeleteSnapshotByKey E C k = do {
     got \<leftarrow> cr_get w_deletes E k;
     (case got of
        Inl e \<Rightarrow> State_Monad.return (if is_not_found e then None else Some e)
      | Inr d0 \<Rightarrow> do {
          started \<leftarrow> (if dt_Phase (d_Status d0) = DeleteSnapshotPhaseUnset
                     then updateDeleteSnapshotStatusPhase E k DeleteSnapshotPhaseNew
                            (Some ''Explicit update to New Phase'')
                     else State_Monad.return (Inr d0));
          (case started of
             Inl e \<Rightarrow> State_Monad.return (Some e)
           | Inr d \<Rightarrow>
               if dt_Phase (d_Status d) \<noteq> DeleteSnapshotPhaseNew then
                 (if dt_Phase (d_Status d) = DeleteSnapshotPhaseCompleted then
                    expire E (dt_CompletionTimestamp (d_Status d)) (cr_delete w_deletes w_deletes_update E k)
                  else State_Monad.return None)
               else if om_DeletionTimestamp (d_Meta d) = None then deleteSnapshot E C k d
               else State_Monad.return None)
        })
   }"

definition syncBackupRepositoryClaimByKey ::
  "env \<Rightarrow> nat \<Rightarrow> driver \<Rightarrow> key \<Rightarrow> (world, goerr option option) state" where
  "syncBackupRepositoryClaimByKey E fuel C k = do {
     got \<leftarrow> ask (\<lambda>n. e_brc_cache E n k);
     (case got of
        Inl e \<Rightarrow> State_Monad.return (Some (if is_not_found e then None else Some e))
      | Inr brc \<Rightarrow>
          if om_DeletionTimestamp (brc_Meta brc) \<noteq> None then State_Monad.return (Some None)
          else do {
            svcName \<leftarrow> (if dr_guest C then ClaimSvcBackupRepository E fuel brc (dr_svcNamespace C)
                        else State_Monad.return (Some (Inr '''')));
            (case svcName of
               None \<Rightarrow> State_Monad.return None
             | Some (Inl e) \<Rightarrow> State_Monad.return (Some (Some e))
             | Some (Inr svcBrName) \<Rightarrow> do {
                 br \<leftarrow> CreateBackupRepository E brc svcBrName;
                 (case br of
                    Inl e \<Rightarrow> State_Monad.return (Some (Some e))
                  | Inr b \<Rightarrow> do {
                      r \<leftarrow> PatchBackupRepositoryClaim E k brc (om_Name (br_Meta b));
                      State_Monad.return (Some r)
                    })
               })
          })
   }"

definition dequeBackupRepositoryClaim :: "env \<Rightarrow> key \<Rightarrow> BackupRepositoryClaim \<Rightarrow> (world, unit) state" where
  "dequeBackupRepositoryClaim E k brc =
     (if brc_BackupRepository brc \<noteq> '''' then do {
        err \<leftarrow> cr_delete w_brs w_brs_update E ('''', brc_BackupRepository brc);
        (case err of
           Some e \<Rightarrow> if is_not_found e then emit (EvQueueForget ''backup-driver-brc-queue'' k)
                     else State_Monad.return ()
         | None \<Rightarrow> emit (EvQueueForget ''backup-driver-brc-queue'' k))
      } else emit (EvQueueForget ''backup-driver-brc-queue'' k))"

definition dequeDeleteSnapshot :: "env \<Rightarrow> key \<Rightarrow> (world, unit) state" where
  "dequeDeleteSnapshot E k = do {
     err \<leftarrow> cr_delete w_deletes w_deletes_update E k;
     (case err of
        Some e \<Rightarrow> if is_not_found e then emit (EvQueueForget ''backup-driver-delete-snapshot-queue'' k)
                  else State_Monad.return ()
      | None \<Rightarrow> emit (EvQueueForget ''backup-driver-delete-snapshot-queue'' k))
   }"

section \<open>Following the upload\<close>

fun snapshot_phase_of_upload :: "UploadPhase \<Rightarrow> SnapshotPhase option" where
  "snapshot_phase_of_upload UploadPhaseInProgress = Some SnapshotPhaseUploading"
| "snapshot_phase_of_upload UploadPhaseCompleted = Some SnapshotPhaseUploaded"
| "snapshot_phase_of_upload UploadPhaseCanceled = Some SnapshotPhaseCanceled"
| "snapshot_phase_of_upload UploadPhaseCanceling = Some SnapshotPhaseCanceling"
| "snapshot_phase_of_upload UploadPhaseUploadError = Some SnapshotPhaseUploadFailed"
| "snapshot_phase_of_upload UploadPhaseCleanupFailed = Some SnapshotPhaseCleanupFailed"
| "snapshot_phase_of_upload UploadPhaseUploadFailedAfterRetry = Some SnapshotPhaseUploadFailedAfterRetry"
| "snapshot_phase_of_upload _ = None"

text \<open>Writing a phase to the Snapshot under a key, unless it is gone or being deleted.\<close>

definition follow :: "env \<Rightarrow> key \<Rightarrow> SnapshotPhase option \<Rightarrow> (world, goerr option) state" where
  "follow E sk newPhase = do {
     snap \<leftarrow> cr_get w_snapshots E sk;
     (case snap of
        Inl _ \<Rightarrow> State_Monad.return None
      | Inr s \<Rightarrow>
          if om_DeletionTimestamp (sn_Meta s) \<noteq> None then State_Monad.return None
          else (case newPhase of
                  None \<Rightarrow> State_Monad.return None
                | Some ph \<Rightarrow> do {
                    r \<leftarrow> updateSnapshotStatusPhase E sk ph no_fields;
                    State_Monad.return (case r of Inl e \<Rightarrow> Some e | Inr _ \<Rightarrow> None)
                  }))
   }"

definition syncUploadByKey :: "env \<Rightarrow> key \<Rightarrow> (world, goerr option) state" where
  "syncUploadByKey E k = do {
     got \<leftarrow> cr_get w_uploads E k;
     (case got of
        Inl e \<Rightarrow> State_Monad.return (if is_not_found e then None else Some e)
      | Inr u \<Rightarrow>
          if us_SnapshotReference (u_Spec u) = '''' then State_Monad.return None
          else (case split_on (CHR ''/'') (us_SnapshotReference (u_Spec u)) of
                  [ns, name] \<Rightarrow> follow E (ns, name) (snapshot_phase_of_upload (ut_Phase (u_Status u)))
                | _ \<Rightarrow> State_Monad.return None))
   }"

section \<open>Following the supervisor\<close>

definition followed_phases :: "SnapshotPhase list" where
  "followed_phases = [SnapshotPhaseUploading, SnapshotPhaseUploaded, SnapshotPhaseCanceled,
     SnapshotPhaseCanceling, SnapshotPhaseCleanupFailed, SnapshotPhaseUploadFailed, SnapshotPhaseSnapshotFailed]"

definition guest_snapshot_of :: "string \<Rightarrow> (world, string option) state" where
  "guest_snapshot_of name = State (\<lambda>w. (w_svcSnapshotMap w name, w))"

definition syncSvcSnapshotByKey :: "env \<Rightarrow> key \<Rightarrow> (world, goerr option) state" where
  "syncSvcSnapshotByKey E k = do {
     got \<leftarrow> cr_get w_svc_snapshots E k;
     (case got of
        Inl e \<Rightarrow> State_Monad.return (if is_not_found e then None else Some e)
      | Inr svc \<Rightarrow> do {
          ref \<leftarrow> guest_snapshot_of (snd k);
          (case ref of
             None \<Rightarrow> State_Monad.return None
           | Some r \<Rightarrow>
               (case split_on (CHR '':'') r of
                  ns # name # _ \<Rightarrow> follow E (ns, name)
                    (let ph = snt_Phase (sn_Status svc) in if ph \<in> set followed_phases then Some ph else None)
                | _ \<Rightarrow> State_Monad.return (Some (GoPanic ''index out of range''))))
        })
   }"

definition updateSvcSnapshot :: "key \<Rightarrow> (world, unit) state" where
  "updateSvcSnapshot k = do {
     ref \<leftarrow> guest_snapshot_of (snd k);
     (case ref of None \<Rightarrow> State_Monad.return () | Some _ \<Rightarrow> emit (EvQueueAdd ''backup-driver-svc-snapshot-queue'' k))
   }"

section \<open>Queues\<close>

definition enqueueSnapshot :: "key \<Rightarrow> (world, unit) state" where
  "enqueueSnapshot k = emit (EvQueueAdd ''backup-driver-snapshot-queue'' k)"

definition enqueueCloneFromSnapshot :: "key \<Rightarrow> (world, unit) state" where
  "enqueueCloneFromSnapshot k = emit (EvQueueAdd ''backup-driver-clone-queue'' k)"

definition enqueueBackupRepositoryClaim :: "key \<Rightarrow> (world, unit) state" where
  "enqueueBackupRepositoryClaim k = emit (EvQueueAdd ''backup-driver-brc-queue'' k)"

definition enqueueDeleteSnapshot :: "key \<Rightarrow> (world, unit) state" where
  "enqueueDeleteSnapshot k = emit (EvQueueAdd ''backup-driver-delete-snapshot-queue'' k)"

definition updateUpload :: "key \<Rightarrow> (world, unit) state" where
  "updateUpload k = emit (EvQueueAdd ''backup-driver-upload-queue'' k)"

definition snapshotWorker :: "env \<Rightarrow> driver \<Rightarrow> key option \<Rightarrow> (world, goerr option) state" where
  "snapshotWorker E C = drive_worker emit ''backup-driver-snapshot-queue'' (syncSnapshotByKey E C)"

definition cloneFromSnapshotWorker :: "env \<Rightarrow> driver \<Rightarrow> key option \<Rightarrow> (world, goerr option) state" where
  "cloneFromSnapshotWorker E C = drive_worker emit ''backup-driver-clone-queue'' (syncCloneFromSnapshotByKey E C)"

definition deleteSnapshotWorker :: "env \<Rightarrow> driver \<Rightarrow> key option \<Rightarrow> (world, goerr option) state" where
  "deleteSnapshotWorker E C = drive_worker emit ''backup-driver-delete-snapshot-queue'' (syncDeleteSnapshotByKey E C)"

definition uploadWorker :: "env \<Rightarrow> key option \<Rightarrow> (world, goerr option) state" where
  "uploadWorker E = drive_worker emit ''backup-driver-upload-queue'' (syncUploadByKey E)"

definition svcSnapshotWorker :: "env \<Rightarrow> key option \<Rightarrow> (world, goerr option) state" where
  "svcSnapshotWorker E = drive_worker emit ''backup-driver-svc-snapshot-queue'' (syncSvcSnapshotByKey E)"

text \<open>The claim worker may wait for the supervisor: \<open>None\<close> is a turn that has not ended.\<close>

definition backupRepositoryClaimWorker ::
  "env \<Rightarrow> nat \<Rightarrow> driver \<Rightarrow> key option \<Rightarrow> (world, unit option) state" where
  "backupRepositoryClaimWorker E fuel C item =
     (case item of
        None \<Rightarrow> State_Monad.return (Some ())
      | Some k \<Rightarrow> do {
          r \<leftarrow> syncBackupRepositoryClaimByKey E fuel C k;
          (case r of
             None \<Rightarrow> State_Monad.return None
           | Some None \<Rightarrow> do { emit (EvQueueForget ''backup-driver-brc-queue'' k); State_Monad.return (Some ()) }
           | Some (Some _) \<Rightarrow> do {
               emit (EvQueueAddRateLimited ''backup-driver-brc-queue'' k); State_Monad.return (Some ()) })
        })"

section \<open>Lemmas\<close>

lemma keeps_updateSnapshotStatusPhase [frame]:
  assumes "\<And>w n. I w \<Longrightarrow> I (w\<lparr>w_tick := n\<rparr>)"
    and "\<And>w s st. I w \<Longrightarrow> w_snapshots w k = Some s \<Longrightarrow> I (w_snapshots_update (\<lambda>m. m(k \<mapsto> s\<lparr>sn_Status := st\<rparr>)) w)"
  shows "keeps I (updateSnapshotStatusPhase E k newPhase f)"
  unfolding updateSnapshotStatusPhase_def
  by (intro keeps_rules frame keeps_cr_modify) (use assms in auto)

lemma keeps_updateDeleteSnapshotStatusPhase [frame]:
  assumes "\<And>w n. I w \<Longrightarrow> I (w\<lparr>w_tick := n\<rparr>)"
    and "\<And>w s st. I w \<Longrightarrow> w_deletes w k = Some s \<Longrightarrow> I (w_deletes_update (\<lambda>m. m(k \<mapsto> s\<lparr>d_Status := st\<rparr>)) w)"
  shows "keeps I (updateDeleteSnapshotStatusPhase E k newPhase msg)"
  unfolding updateDeleteSnapshotStatusPhase_def Let_def
  by (intro keeps_rules frame keeps_cr_modify) (use assms in auto)

lemma keeps_updateCloneFromSnapshotStatusPhase [frame]:
  assumes "\<And>w n. I w \<Longrightarrow> I (w\<lparr>w_tick := n\<rparr>)"
    and "\<And>w s st. I w \<Longrightarrow> w_clones w k = Some s \<Longrightarrow> I (w_clones_update (\<lambda>m. m(k \<mapsto> s\<lparr>cl_Status := st\<rparr>)) w)"
  shows "keeps I (updateCloneFromSnapshotStatusPhase E k newPhase msg)"
  unfolding updateCloneFromSnapshotStatusPhase_def Let_def
  by (intro keeps_rules frame keeps_cr_modify) (use assms in auto)

lemma keeps_follow [frame]:
  assumes "\<And>w n. I w \<Longrightarrow> I (w\<lparr>w_tick := n\<rparr>)"
    and "\<And>w s st. I w \<Longrightarrow> w_snapshots w k = Some s \<Longrightarrow> I (w_snapshots_update (\<lambda>m. m(k \<mapsto> s\<lparr>sn_Status := st\<rparr>)) w)"
  shows "keeps I (follow E k ph)"
  unfolding follow_def by (intro keeps_rules frame) (use assms in auto)

lemmas driver_evals [evals] =
  updateSnapshotStatusPhase_def updateDeleteSnapshotStatusPhase_def updateCloneFromSnapshotStatusPhase_def
  with_fields_def or_keep_def no_fields_def fail_snapshot_def fail_delete_def fail_clone_def
  supervisor_repository_def snapshot_taken_def createSnapshot_def deleteSnapshot_def cloneFromSnapshot_def
  remember_svc_snapshot_def expire_def syncSnapshotByKey_def syncCloneFromSnapshotByKey_def
  syncDeleteSnapshotByKey_def follow_def syncUploadByKey_def syncSvcSnapshotByKey_def guest_snapshot_of_def

end
