(* ===== verification/Snapshot_Manager_Correctness.thy ===== *)
theory Snapshot_Manager_Correctness
  imports Snapshot_Manager
begin

text \<open>
  Properties of the snapshot manager's own loops: decoding nested snapshot identifiers comes to
  an end and inverts their encoding, waiting for a Download ends with the Download, and a
  snapshot is deleted locally before its copy in the repository is.
\<close>

section \<open>Snapshot identifiers\<close>

lemma decode_step_shrinks:
  assumes "b64_decode sid = Some bytes" and "length (pe_snapshot p) \<le> length bytes" and "pe_snapshot p \<noteq> ''''"
  shows "length (pe_snapshot p) < length sid"
  using b64_decode_shrinks [OF assms(1)] assms(2,3) by (cases "pe_snapshot p") auto

text \<open>
  C18. Decoding a snapshot identifier comes to an end, and the two decoders agree: with
  identifiers whose text contains the snapshot identifier (Astrolabe writes
  \<open>type:id:snapshot\<close>) and in which having a snapshot means having a non-empty identifier of
  it, both functions return for every string; if one returns an entity, the other returns
  that entity's snapshot identifier, and if one fails so does the other.
\<close>

theorem decoding_terminates:
  assumes contained: "\<forall>s p. e_parse_peid E s = Inr p \<longrightarrow> length (pe_snapshot p) \<le> length s"
    and named: "\<forall>p. e_has_snapshot E p \<longrightarrow> pe_snapshot p \<noteq> ''''"
  shows "\<exists>r. decodePeIdFromSnapshotID E sid = Some r \<and>
    (case r of
       Inr p \<Rightarrow> decodeSnapshotID E sid = Some (Inr (pe_snapshot p))
     | Inl _ \<Rightarrow> (\<exists>e. decodeSnapshotID E sid = Some (Inl e)))"
proof (induction "length sid" arbitrary: sid rule: less_induct)
  case less
  note unfold = decodePeIdFromSnapshotID.simps [of E sid] decodeSnapshotID.simps [of E sid]
  show ?case
  proof (cases "b64_decode sid")
    case None
    then show ?thesis by (simp add: unfold)
  next
    case bytes: (Some bytes)
    show ?thesis
    proof (cases "e_parse_peid E bytes")
      case (Inl e)
      with bytes show ?thesis by (simp add: unfold)
    next
      case (Inr p)
      show ?thesis
      proof (cases "e_has_snapshot E p \<and> pe_type p \<noteq> e_ivd_type E")
        case True
        with contained named Inr have "length (pe_snapshot p) < length sid"
          by (intro decode_step_shrinks [OF bytes]) auto
        from less [OF this] obtain r where "decodePeIdFromSnapshotID E (pe_snapshot p) = Some r"
          "case r of Inr q \<Rightarrow> decodeSnapshotID E (pe_snapshot p) = Some (Inr (pe_snapshot q))
             | Inl _ \<Rightarrow> (\<exists>e. decodeSnapshotID E (pe_snapshot p) = Some (Inl e))" by blast
        with True bytes Inr show ?thesis by (cases r) (simp_all add: unfold)
      next
        case False
        with bytes Inr show ?thesis by (auto simp: unfold)
      qed
    qed
  qed
qed

text \<open>Every identifier that \<open>calm\<close> parses contains its snapshot part.\<close>

lemma split_on_length: "s' \<in> set (split_on c s) \<Longrightarrow> length s' \<le> length s"
proof (induction s arbitrary: s')
  case (Cons a s)
  obtain x xs where split: "split_on c s = x # xs" using split_on_nonempty by (cases "split_on c s") auto
  with Cons.IH have "length x \<le> length s" "\<And>y. y \<in> set xs \<Longrightarrow> length y \<le> length s" by auto
  with Cons.prems split show ?case by (fastforce split: if_splits)
qed simp

lemma calm_parse_contains: "calm_parse s = Inr p \<Longrightarrow> length (pe_snapshot p) \<le> length s"
  by (auto simp: calm_parse_def split: list.splits intro!: split_on_length [where c = "CHR ''|''"])

theorem decoding_terminates_witness:
  "\<exists>r. decodePeIdFromSnapshotID calm ''aXZkfHZ8cw'' = Some r"
  using decoding_terminates [of calm "''aXZkfHZ8cw''"] calm_parse_contains by auto

text \<open>
  \<open>nested E base ps\<close>: the snapshot identifier of a snapshot of an entity that stands above
  the entities \<open>ps\<close> (outermost first) and finally the volume \<open>base\<close>: each level's snapshot
  identifier is the encoded identifier of the level below. \<open>layers\<close> lists the identifiers
  that occur in it.
\<close>

fun nested :: "env \<Rightarrow> peid \<Rightarrow> peid list \<Rightarrow> string" where
  "nested E base [] = b64_encode (e_print_peid E base)"
| "nested E base (p # ps) = b64_encode (e_print_peid E (with_snapshot p (nested E base ps)))"

fun layers :: "env \<Rightarrow> peid \<Rightarrow> peid list \<Rightarrow> peid list" where
  "layers E base [] = [base]"
| "layers E base (p # ps) = with_snapshot p (nested E base ps) # layers E base ps"

lemma decode_layers:
  assumes "\<forall>q \<in> set (layers E base ps). e_parse_peid E (e_print_peid E q) = Inr q"
    and "pe_type base = e_ivd_type E"
    and "\<forall>q \<in> set (butlast (layers E base ps)). e_has_snapshot E q \<and> pe_type q \<noteq> e_ivd_type E"
  shows "decodePeIdFromSnapshotID E (nested E base ps) = Some (Inr base) \<and>
    decodeSnapshotID E (nested E base ps) = Some (Inr (pe_snapshot base))"
  using assms
proof (induction ps)
  case Nil
  then show ?case
    by (simp add: decodePeIdFromSnapshotID.simps decodeSnapshotID.simps b64_decode_encode)
next
  case (Cons p ps)
  let ?q = "with_snapshot p (nested E base ps)"
  have "layers E base ps \<noteq> []" by (cases ps) simp_all
  with Cons have "decodePeIdFromSnapshotID E (nested E base ps) = Some (Inr base) \<and>
    decodeSnapshotID E (nested E base ps) = Some (Inr (pe_snapshot base))"
    and q: "e_has_snapshot E ?q" "pe_type ?q \<noteq> e_ivd_type E" "e_parse_peid E (e_print_peid E ?q) = Inr ?q"
    by auto
  moreover have "pe_snapshot ?q = nested E base ps" by (simp add: with_snapshot_def)
  ultimately show ?case
    by (simp add: decodePeIdFromSnapshotID.simps [of E "b64_encode _"] decodeSnapshotID.simps [of E "b64_encode _"]
        b64_decode_encode)
qed

text \<open>
  C19. Decoding inverts the nesting: if printing and parsing an identifier are inverse on the
  identifiers that occur, then decoding the nested snapshot identifier of a volume gives back
  the volume's own snapshot, however many levels lie above it.
\<close>

theorem decode_nested:
  assumes "\<forall>q \<in> set (layers E base ps). e_parse_peid E (e_print_peid E q) = Inr q"
    and "pe_type base = e_ivd_type E"
    and "\<forall>q \<in> set (butlast (layers E base ps)). e_has_snapshot E q \<and> pe_type q \<noteq> e_ivd_type E"
  shows "decodePeIdFromSnapshotID E (nested E base ps) = Some (Inr base) \<and>
    decodeSnapshotID E (nested E base ps) = Some (Inr (pe_snapshot base))"
  by (rule decode_layers [OF assms])

definition volume :: peid where
  "volume = \<lparr>pe_type = ''ivd'', pe_id = ''v'', pe_snapshot = ''s''\<rparr>"

definition claim_of_volume :: peid where
  "claim_of_volume = \<lparr>pe_type = ''pvc'', pe_id = ''app/claim'', pe_snapshot = ''''\<rparr>"

theorem decode_nested_witness:
  "decodePeIdFromSnapshotID calm (nested calm volume [claim_of_volume]) = Some (Inr volume)"
proof -
  have "nested calm volume [] = ''aXZkfHZ8cw''"
    by (simp add: volume_def calm_print_def b64_encode_def b64_char_def char_of_def bit_0)
  with decode_nested [of calm volume "[claim_of_volume]"] show ?thesis
    by (simp add: volume_def claim_of_volume_def calm_print_def calm_parse_def with_snapshot_def)
qed

section \<open>Waiting for a Download\<close>

definition settled :: "goerr + Download \<Rightarrow> bool" where
  "settled answer \<longleftrightarrow> (case answer of
      Inl _ \<Rightarrow> False
    | Inr d \<Rightarrow> dlt_Phase (dl_Status d) \<in> {DownloadPhaseCompleted, DownloadPhaseFailed})"

text \<open>
  Waiting for a Download ends with it. If the first answer that shows the Download
  completed or failed is the \<open>n\<close>-th, after errors and unfinished phases, then the poll
  returns after exactly that many requests, with the Download or with its failure; every fuel
  above \<open>n\<close> is enough, and nothing but the number of requests changes.
\<close>

theorem download_awaited:
  assumes "e_watch_download E (w_tick w + n) = Inr d" and "settled (Inr d)"
    and "\<forall>m < n. \<not> settled (e_watch_download E (w_tick w + m))" and "n < fuel"
  shows "run_state (poll_download E fuel) w =
    (Some (if dlt_Phase (dl_Status d) = DownloadPhaseCompleted then Inr d else Inl (ErrMsg ''Download Failed.'')),
     w\<lparr>w_tick := w_tick w + n + 1\<rparr>)"
  using assms
proof (induction n arbitrary: w fuel)
  case 0
  then obtain f where "fuel = Suc f" by (cases fuel) auto
  with 0 show ?case by (auto simp: settled_def)
next
  case (Suc n)
  then obtain f where f: "fuel = Suc f" "n < f" by (cases fuel) auto
  have "run_state (poll_download E f) (w\<lparr>w_tick := Suc (w_tick w)\<rparr>) =
    (Some (if dlt_Phase (dl_Status d) = DownloadPhaseCompleted then Inr d else Inl (ErrMsg ''Download Failed.'')),
     w\<lparr>w_tick := w_tick w + Suc n + 1\<rparr>)"
    using Suc.IH [of "w\<lparr>w_tick := Suc (w_tick w)\<rparr>" f] Suc.prems f(2) by fastforce
  moreover have "\<not> settled (e_watch_download E (w_tick w))" using Suc.prems(3) [rule_format, of 0] by simp
  ultimately show ?case
    by (cases "e_watch_download E (w_tick w)") (auto simp: f(1) settled_def)
qed

definition slow_download :: env where
  "slow_download = calm\<lparr>e_watch_download := (\<lambda>n. if n < 3 then Inl (ErrMsg ''timeout'')
     else Inr (build_download ''velero'' ''download-s'' 0 0 ''ivd|v|s'' ''/'' '''' ''''
       \<lparr>dl_Status := (dl_Status (build_download ''velero'' ''download-s'' 0 0 ''ivd|v|s'' ''/'' '''' ''''))
          \<lparr>dlt_Phase := DownloadPhaseFailed\<rparr>\<rparr>))\<rparr>"

theorem download_awaited_witness:
  "run_state (poll_download slow_download 10) empty_world =
     (Some (Inl (ErrMsg ''Download Failed.'')), empty_world\<lparr>w_tick := 4\<rparr>)"
  using download_awaited [of slow_download empty_world 3 _ 10]
  by (simp add: slow_download_def empty_world_def settled_def)

section \<open>The order of a deletion\<close>

lemma delete_attempt_once:
  "triple (\<lambda>v. w_trace v = t) (delete_attempt E p m l)
     (\<lambda>(r, l') v. if r = Inr True then w_trace v = t @ [EvSnapshotDeleted m p (pe_snapshot p)] else w_trace v = t)"
  by (auto simp: triple_def delete_attempt_def split: sum.splits)

definition at_most_one :: "event list \<Rightarrow> event \<Rightarrow> event list \<Rightarrow> bool" where
  "at_most_one t ev t' \<longleftrightarrow> t' = t \<or> t' = t @ [ev]"

lemma deleteSnapshotFromRepo_once:
  "triple (\<lambda>v. w_trace v = t) (deleteSnapshotFromRepo E p m)
     (\<lambda>_ v. at_most_one t (EvSnapshotDeleted m p (pe_snapshot p)) (w_trace v))"
proof -
  let ?P = "\<lambda>v. w_trace v = t"
  let ?Q = "\<lambda>_ v. at_most_one t (EvSnapshotDeleted m p (pe_snapshot p)) (w_trace v)"
  have loop: "triple ?P (poll_immediate n (delete_attempt E p m) ()) ?Q" for n
    by (rule triple_weaken [OF poll_immediate_until [OF delete_attempt_once]])
       (auto simp: at_most_one_def split: if_splits)
  have rest: "triple ?P (do { n \<leftarrow> ask (e_polls E);
      (err, _) \<leftarrow> poll_immediate n (delete_attempt E p m) (); State_Monad.return err }) ?Q"
    by (rule triple_bind [OF keeps_ask], simp, rule triple_bind [OF loop]) (auto intro!: triple_return)
  have listed: "triple ?P (case r of [] \<Rightarrow> State_Monad.return None
      | _ # _ \<Rightarrow> do { n \<leftarrow> ask (e_polls E);
          (err, _) \<leftarrow> poll_immediate n (delete_attempt E p m) (); State_Monad.return err }) ?Q" for r :: "string list"
    using rest by (cases r) (auto simp: at_most_one_def intro!: triple_return)
  show ?thesis
    unfolding deleteSnapshotFromRepo_def
    apply (intro triple_if triple_return triple_bind [OF keeps_ask] triple_case_option)
    subgoal by (simp add: at_most_one_def)
    subgoal by (simp add: at_most_one_def)
    subgoal by simp
    subgoal by simp
    subgoal for got r using listed by (cases r) (auto simp: at_most_one_def intro!: triple_return split: list.splits)
    subgoal by (simp add: at_most_one_def)
    done
qed


definition remote_deleted :: "event list \<Rightarrow> peid \<Rightarrow> event list \<Rightarrow> bool" where
  "remote_deleted t p t' \<longleftrightarrow> t' = t \<or> (\<exists>m. m \<noteq> LocalPEM \<and> t' = t @ [EvSnapshotDeleted m p (pe_snapshot p)])"

lemma remote_repo_once:
  assumes "m \<noteq> LocalPEM"
  shows "triple (\<lambda>v. w_trace v = t) (deleteSnapshotFromRepo E p m) (\<lambda>_ v. remote_deleted t p (w_trace v))"
  by (rule triple_weaken [OF deleteSnapshotFromRepo_once]) (use assms in \<open>auto simp: at_most_one_def remote_deleted_def\<close>)

lemma DeleteRemoteSnapshot_once:
  "triple (\<lambda>v. w_trace v = t) (DeleteRemoteSnapshot E p) (\<lambda>_ v. remote_deleted t p (w_trace v))"
  unfolding DeleteRemoteSnapshot_def
  by (rule triple_bind [OF keeps_GetDefaultS3PETM], simp)
     (intro triple_case_sum triple_return remote_repo_once; simp add: remote_deleted_def)

lemma DeleteRemoteSnapshotFromRepo_once:
  "triple (\<lambda>v. w_trace v = t) (DeleteRemoteSnapshotFromRepo E p b) (\<lambda>_ v. remote_deleted t p (w_trace v))"
  unfolding DeleteRemoteSnapshotFromRepo_def
  by (rule triple_bind [OF keeps_GetRepositoryFromBackupRepository], simp)
     (rule remote_repo_once, simp split: sum.splits)

text \<open>
  When a snapshot is in local mode: no repository is named, or the one that stands for the
  volume snapshotter is and the feature flag for local mode is on, as the config map of the
  feature states is read in the request \<open>n\<close>.
\<close>

definition local_mode_at :: "env \<Rightarrow> nat \<Rightarrow> string \<Rightarrow> bool" where
  "local_mode_at E n br \<longleftrightarrow> br = '''' \<or> br = WithoutBackupRepository \<and>
     (\<exists>states v. e_config_map E n (velero_namespace E, VSpherePluginFeatureStates) = Inr states \<and>
        states ''local-mode'' = Some v \<and> parse_bool v = Some True)"

lemma in_local_mode_run:
  "fst (run_state (in_local_mode E br) v) = local_mode_at E (w_tick v) br"
proof -
  have "parse_bool '''' = None" by (simp add: parse_bool_def)
  then show ?thesis
    by (auto simp: in_local_mode_def IsFeatureEnabled_def local_mode_at_def WithoutBackupRepository_def
        VSphereLocalModeFlag_def split: sum.splits option.splits)
qed

lemma in_local_mode_trace: "w_trace (snd (run_state (in_local_mode E br) v)) = w_trace v"
  by (simp add: in_local_mode_def IsFeatureEnabled_def)

text \<open>The part after the local deletion.\<close>

definition delete_remote :: "env \<Rightarrow> ClusterFlavor \<Rightarrow> peid \<Rightarrow> string \<Rightarrow> (world, goerr option) state" where
  "delete_remote E fl p br =
     (if fl = TkgGuest then State_Monad.return None
      else do {
        local \<leftarrow> in_local_mode E br;
        (if local then State_Monad.return None
         else if br \<noteq> '''' \<and> br \<noteq> WithoutBackupRepository then do {
           b \<leftarrow> cr_get w_brs E ('''', br);
           (case b of Inl e \<Rightarrow> State_Monad.return (Some e) | Inr b \<Rightarrow> DeleteRemoteSnapshotFromRepo E p b)
         } else DeleteRemoteSnapshot E p)
      })"

lemma delete_remote_trace:
  "w_trace (snd (run_state (delete_remote E fl p br) v)) = w_trace v \<or>
   remote_deleted (w_trace v) p (w_trace (snd (run_state (delete_remote E fl p br) v))) \<and>
     fl \<noteq> TkgGuest \<and> \<not> local_mode_at E (w_tick v) br"
proof (cases "fl = TkgGuest \<or> local_mode_at E (w_tick v) br")
  case True
  then show ?thesis
    using in_local_mode_run [of E br v] in_local_mode_trace [of E br v]
    by (cases "run_state (in_local_mode E br) v") (auto simp: delete_remote_def)
next
  case False
  have mode: "triple (\<lambda>u. w_trace u = t) (in_local_mode E br) (\<lambda>_ u. w_trace u = t)" for t
    using in_local_mode_trace by (fastforce simp: triple_def)
  have "triple (\<lambda>u. w_trace u = w_trace v) (delete_remote E fl p br) (\<lambda>_ u. remote_deleted (w_trace v) p (w_trace u))"
    unfolding delete_remote_def
    by (intro triple_if triple_return triple_bind [OF mode] triple_bind [OF keeps_cr_get] triple_case_sum
          DeleteRemoteSnapshot_once DeleteRemoteSnapshotFromRepo_once) (simp_all add: remote_deleted_def)
  then show ?thesis using False unfolding triple_def by (metis prod.collapse)
qed

lemma delete_copies_run:
  assumes "e_get_pe E (w_tick w) LocalPEM p = None"
    and "e_delete_snapshot E (w_tick w + 1) LocalPEM p (pe_snapshot p) = Inr ok"
  shows "run_state (delete_copies E fl p br) w = run_state (delete_remote E fl p br) (w\<lparr>w_tick := w_tick w + 2,
    w_trace := w_trace w @ (if ok then [EvSnapshotDeleted LocalPEM p (pe_snapshot p)] else [])\<rparr>)"
  using assms by (cases ok) (simp_all add: delete_copies_def delete_remote_def)

text \<open>
  C20. The local snapshot goes first. Whatever is answered, the deletion of a snapshot deletes
  at most one local snapshot and then at most one copy in a repository. The copy is deleted
  only outside a guest cluster, only after the local deletion was answered without an error,
  and only outside local mode: neither if no repository is named, nor if the volume
  snapshotter's stand-in is named and the flag for local mode is read as on.
\<close>

theorem local_snapshot_deleted_first:
  "\<exists>l r. w_trace (snd (run_state (delete_copies E fl p br) w)) = w_trace w @ l @ r \<and>
     l \<in> {[], [EvSnapshotDeleted LocalPEM p (pe_snapshot p)]} \<and>
     (r = [] \<or> (\<exists>m. r = [EvSnapshotDeleted m p (pe_snapshot p)] \<and> m \<noteq> LocalPEM) \<and> fl \<noteq> TkgGuest \<and>
        \<not> local_mode_at E (w_tick w + 2) br \<and>
        (\<exists>ok. e_delete_snapshot E (w_tick w + 1) LocalPEM p (pe_snapshot p) = Inr ok \<and>
           l = (if ok then [EvSnapshotDeleted LocalPEM p (pe_snapshot p)] else [])))"
proof (cases "e_get_pe E (w_tick w) LocalPEM p")
  case (Some e)
  then show ?thesis by (simp add: delete_copies_def)
next
  case None
  let ?ev = "EvSnapshotDeleted LocalPEM p (pe_snapshot p)"
  show ?thesis
  proof (cases "e_delete_snapshot E (w_tick w + 1) LocalPEM p (pe_snapshot p)")
    case (Inl e)
    with None show ?thesis by (simp add: delete_copies_def)
  next
    case (Inr ok)
    define l where "l = (if ok then [?ev] else [])"
    let ?v = "w\<lparr>w_tick := w_tick w + 2, w_trace := w_trace w @ l\<rparr>"
    have "\<exists>r. w_trace (snd (run_state (delete_copies E fl p br) w)) = w_trace w @ l @ r \<and>
      (r = [] \<or> (\<exists>m. r = [EvSnapshotDeleted m p (pe_snapshot p)] \<and> m \<noteq> LocalPEM) \<and> fl \<noteq> TkgGuest \<and>
         \<not> local_mode_at E (w_tick w + 2) br)"
      using delete_remote_trace [of E fl p br ?v]
      unfolding delete_copies_run [OF None Inr] l_def [symmetric] remote_deleted_def by auto
    moreover have "l \<in> {[], [?ev]}" by (simp add: l_def)
    ultimately show ?thesis using Inr l_def by blast
  qed
qed

end
