(* ===== verification/Backup_Driver_Correctness.thy ===== *)
theory Backup_Driver_Correctness
  imports Backup_Driver Snapshot_Manager_Correctness
begin

text \<open>
  What the backup driver guarantees: when it takes a snapshot and how often, which phases of an
  Upload or of a supervisor snapshot reach the Snapshot, what becomes of a restore request, and
  how a repository claim is answered.
\<close>

section \<open>Taking snapshots\<close>

text \<open>The frame of the writes: the trace only grows by the events of the protected entities.\<close>

lemma keeps_trace_status [frame]:
  "keeps (\<lambda>v. P (w_trace v)) (updateSnapshotStatusPhase E k newPhase f)"
  by (rule keeps_updateSnapshotStatusPhase) auto

lemma keeps_trace_fail: "keeps (\<lambda>v. P (w_trace v)) (fail_snapshot E k f msg err)"
  unfolding fail_snapshot_def by (intro keeps_rules keeps_trace_status) auto

lemma keeps_trace_taken: "keeps (\<lambda>v. P (w_trace v)) (snapshot_taken E k p svc)"
  unfolding snapshot_taken_def by (intro keeps_rules frame keeps_trace_fail) auto

lemma keeps_trace_create_upload: "keeps (\<lambda>v. P (w_trace v)) (create_upload_attempt E k u l)"
  by (auto simp: triple_def create_upload_attempt_def cr_create_def Let_def split: fate.splits option.splits)

lemma keeps_trace_UploadSnapshot: "keeps (\<lambda>v. P (w_trace v)) (UploadSnapshot E p br ref)"
  unfolding UploadSnapshot_def plugin_client_def
  by (intro keeps_rules frame keeps_poll_immediate keeps_trace_create_upload) auto

lemma keeps_trace_local_mode: "keeps (\<lambda>v. P (w_trace v)) (in_local_mode E br)"
  unfolding in_local_mode_def IsFeatureEnabled_def by (intro keeps_rules frame) auto

text \<open>The loop around the snapshot call takes one snapshot, or none if it gives up.\<close>

definition one_snapshot :: "event list \<Rightarrow> event list \<Rightarrow> bool" where
  "one_snapshot t t' \<longleftrightarrow> t' = t \<or> (\<exists>p s. t' = t @ [EvSnapshotCreated p s])"

lemma snapshot_attempt_once:
  "triple (\<lambda>v. w_trace v = t) (snapshot_attempt E p l)
     (\<lambda>(r, l') v. if r = Inr True then (\<exists>s. w_trace v = t @ [EvSnapshotCreated p s]) else w_trace v = t)"
  by (auto simp: triple_def snapshot_attempt_def split: sum.splits prod.splits)

lemma poll_snapshot_once:
  "triple (\<lambda>v. w_trace v = t) (poll_immediate n (snapshot_attempt E p) l) (\<lambda>_ v. one_snapshot t (w_trace v))"
  by (rule triple_weaken [OF poll_immediate_until [OF snapshot_attempt_once]])
     (auto simp: one_snapshot_def split: if_splits)

lemma sm_createSnapshot_once:
  "triple (\<lambda>v. w_trace v = t) (sm_createSnapshot E fl p br ref) (\<lambda>_ v. one_snapshot t (w_trace v))"
  unfolding sm_createSnapshot_def
  apply (rule triple_bind [where R = "\<lambda>_ v. w_trace v = t"], rule keeps_ask, simp)
  apply (rule triple_case_option)
   apply (rule triple_bind [where R = "\<lambda>_ v. w_trace v = t"], rule keeps_connect, simp)
   apply (rule triple_case_option)
    apply (rule triple_bind [where R = "\<lambda>_ v. w_trace v = t"], rule keeps_ask, simp)
    apply (rule triple_bind [OF poll_snapshot_once])
    apply (intro keeps_rules frame keeps_trace_local_mode keeps_trace_UploadSnapshot)
                 apply (auto simp: one_snapshot_def intro!: triple_return)
  done

lemma createSnapshot_once:
  "triple (\<lambda>v. w_trace v = t) (createSnapshot E C k s) (\<lambda>_ v. one_snapshot t (w_trace v))"
proof -
  have fail: "triple (\<lambda>v. w_trace v = t) (fail_snapshot E k f msg err) (\<lambda>_ v. one_snapshot t (w_trace v))"
    for f msg err
    by (rule triple_weaken [OF keeps_trace_fail [where P = "\<lambda>x. x = t"]]) (simp_all add: one_snapshot_def)
  have repo: "keeps (\<lambda>v. w_trace v = t) (supervisor_repository E C br)" for br
    unfolding supervisor_repository_def by (intro keeps_rules frame) auto
  show ?thesis
    unfolding createSnapshot_def Let_def
    by (intro triple_if fail triple_bind [OF repo] triple_case_sum triple_bind [OF sm_createSnapshot_once]
          triple_case_prod triple_case_option triple_return keeps_trace_taken keeps_trace_fail) simp_all
qed

lemma run_remember [simp]:
  "w_trace (snd (run_state (remember_svc_snapshot C k s) w)) = w_trace w"
  "w_snapshots (snd (run_state (remember_svc_snapshot C k s) w)) = w_snapshots w"
  by (simp_all add: remember_svc_snapshot_def update_world_def Let_def)

lemma keeps_trace_delete_snapshot: "keeps (\<lambda>v. P (w_trace v)) (cr_delete w_snapshots w_snapshots_update E k)"
  by (auto simp: triple_def cr_delete_def Let_def split: fate.splits option.splits)

lemma keeps_trace_expire:
  "keeps (\<lambda>v. P (w_trace v)) (expire E ts (cr_delete w_snapshots w_snapshots_update E k))"
  unfolding expire_def by (intro keeps_rules frame keeps_trace_delete_snapshot) auto

text \<open>
  C12. A turn of the snapshot worker takes at most one snapshot, and it takes one only for a
  Snapshot that is stored in phase \<open>New\<close> and is not canceled.
\<close>

theorem snapshot_only_when_new:
  "w_trace (snd (run_state (syncSnapshotByKey E C k) w)) = w_trace w \<or>
   (\<exists>p sid s. w_trace (snd (run_state (syncSnapshotByKey E C k) w)) = w_trace w @ [EvSnapshotCreated p sid] \<and>
      w_snapshots w k = Some s \<and> snt_Phase (sn_Status s) = SnapshotPhaseNew \<and>
      sns_SnapshotCancel (sn_Spec s) = False)"
proof -
  obtain got w1 where get: "run_state (cr_get w_snapshots E k) w = (got, w1)" by fastforce
  have t1: "w_trace w1 = w_trace w" using keeps_run [OF keeps_cr_get [where I = "\<lambda>v. w_trace v = w_trace w"]] get
    by (metis snd_conv world.select_convs(2) world.surjective world.update_convs(1))
  show ?thesis
  proof (cases got)
    case (Inl e)
    with get t1 show ?thesis by (simp add: syncSnapshotByKey_def)
  next
    case (Inr s)
    with snapshots.get_result get have stored: "w_snapshots w k = Some s" by blast
    obtain w2 where rem: "run_state (remember_svc_snapshot C k s) w1 = ((), w2)"
      by (metis old.unit.exhaust surj_pair)
    have t2: "w_trace w2 = w_trace w" using run_remember(1) [of C k s w1] rem t1 by simp
    show ?thesis
    proof (cases "snt_Phase (sn_Status s) = SnapshotPhaseNew \<and> \<not> sns_SnapshotCancel (sn_Spec s)")
      case True
      have "one_snapshot (w_trace w) (w_trace (snd (run_state (createSnapshot E C k s) w2)))"
        using createSnapshot_once [of "w_trace w" E C k s] t2 by (simp add: triple_def)
      with True get rem Inr stored show ?thesis
        by (auto simp: syncSnapshotByKey_def one_snapshot_def)
    next
      case False
      have "w_trace (snd (run_state (expire E ts (cr_delete w_snapshots w_snapshots_update E k)) w2)) = w_trace w"
        for ts using keeps_run [OF keeps_trace_expire [where P = "\<lambda>x. x = w_trace w"], of w2] t2 by simp
      with False get rem Inr t2 show ?thesis by (auto simp: syncSnapshotByKey_def)
    qed
  qed
qed

section \<open>Following an Upload\<close>

lemma snapshots_update_at [simp]:
  "w_snapshots_update (\<lambda>m. m(k \<mapsto> x)) w = w\<lparr>w_snapshots := (w_snapshots w)(k \<mapsto> x)\<rparr>"
  by simp

text \<open>The Snapshot after its phase was changed; the completion time is set with \<open>Uploaded\<close>.\<close>

definition moved_to :: "SnapshotPhase \<Rightarrow> Snapshot \<Rightarrow> Snapshot \<Rightarrow> bool" where
  "moved_to ph s s' \<longleftrightarrow>
     s' = s\<lparr>sn_Status := (sn_Status s)\<lparr>snt_Phase := ph,
       snt_CompletionTimestamp := snt_CompletionTimestamp (sn_Status s')\<rparr>\<rparr> \<and>
     (if ph = SnapshotPhaseUploaded \<and> snt_Phase (sn_Status s) \<noteq> ph
      then snt_CompletionTimestamp (sn_Status s') \<noteq> None
      else snt_CompletionTimestamp (sn_Status s') = snt_CompletionTimestamp (sn_Status s))"

lemma no_fields_status:
  "with_fields ph no_fields st = st\<lparr>snt_Phase := ph\<rparr>"
  by (simp add: with_fields_def no_fields_def or_keep_def)

lemma update_accepted:
  assumes "\<forall>n. e_fate E n = Accepted" and "w_snapshots w sk = Some s"
  shows "\<exists>s' n. run_state (updateSnapshotStatusPhase E sk ph no_fields) w =
     (Inr s', w\<lparr>w_tick := n, w_snapshots := (w_snapshots w)(sk \<mapsto> s')\<rparr>) \<and> moved_to ph s s'"
proof (cases "snt_Phase (sn_Status s) = ph")
  case True
  have "s = s\<lparr>sn_Status := (sn_Status s)\<lparr>snt_Phase := ph,
       snt_CompletionTimestamp := snt_CompletionTimestamp (sn_Status s)\<rparr>\<rparr>" using True by simp
  moreover have "w\<lparr>w_tick := n\<rparr> = w\<lparr>w_tick := n, w_snapshots := (w_snapshots w)(sk \<mapsto> s)\<rparr>" for n
    using assms(2) by (simp add: fun_upd_idem)
  ultimately show ?thesis using True assms
    by (intro exI [of _ s] exI [of _ "Suc (w_tick w)"])
       (auto simp: updateSnapshotStatusPhase_def cr_get_def fun_upd_idem moved_to_def)
next
  case False
  show ?thesis
  proof (cases "ph = SnapshotPhaseUploaded")
    case True
    with False assms show ?thesis
      by (auto simp: updateSnapshotStatusPhase_def cr_get_def cr_modify_def clock_now_def no_fields_status moved_to_def)
  next
    case other: False
    with False assms show ?thesis
      by (auto simp: updateSnapshotStatusPhase_def cr_get_def cr_modify_def no_fields_status moved_to_def)
  qed
qed

lemma follow_accepted:
  assumes "\<forall>n. e_fate E n = Accepted" and "w_snapshots w sk = Some s" and "om_DeletionTimestamp (sn_Meta s) = None"
  shows "\<exists>s' n. run_state (follow E sk (Some ph)) w =
     (None, w\<lparr>w_tick := n, w_snapshots := (w_snapshots w)(sk \<mapsto> s')\<rparr>) \<and> moved_to ph s s'"
proof -
  let ?w = "w\<lparr>w_tick := Suc (w_tick w)\<rparr>"
  from update_accepted [OF assms(1), of ?w sk s ph] assms(2)
  obtain s' n where "run_state (updateSnapshotStatusPhase E sk ph no_fields) ?w =
     (Inr s', w\<lparr>w_tick := n, w_snapshots := (w_snapshots w)(sk \<mapsto> s')\<rparr>)" "moved_to ph s s'"
    by auto
  with assms show ?thesis by (auto simp: follow_def cr_get_def)
qed

text \<open>
  C13. The Snapshot follows its Upload. If the API server answers, and an Upload refers to a
  Snapshot that is not being deleted, then processing the Upload's event stores the phase
  that corresponds to the Upload's phase in exactly this Snapshot, and nothing else of it
  changes but the completion time, which is set when the phase becomes \<open>Uploaded\<close>.
\<close>

theorem snapshot_follows_upload:
  assumes "\<forall>n. e_fate E n = Accepted" and "w_uploads w k = Some u"
    and "split_on (CHR ''/'') (us_SnapshotReference (u_Spec u)) = [ns, name]"
    and "w_snapshots w (ns, name) = Some s" and "om_DeletionTimestamp (sn_Meta s) = None"
    and "snapshot_phase_of_upload (ut_Phase (u_Status u)) = Some ph"
  shows "\<exists>s' n. run_state (syncUploadByKey E k) w =
      (None, w\<lparr>w_tick := n, w_snapshots := (w_snapshots w)((ns, name) \<mapsto> s')\<rparr>) \<and> moved_to ph s s'"
proof -
  let ?w = "w\<lparr>w_tick := Suc (w_tick w)\<rparr>"
  have "us_SnapshotReference (u_Spec u) \<noteq> ''''" using assms(3) by auto
  moreover from follow_accepted [OF assms(1), of ?w "(ns, name)" s ph] assms(4,5)
  obtain s' n where "run_state (follow E (ns, name) (Some ph)) ?w =
     (None, w\<lparr>w_tick := n, w_snapshots := (w_snapshots w)((ns, name) \<mapsto> s')\<rparr>)" "moved_to ph s s'"
    by auto
  ultimately show ?thesis using assms by (auto simp: syncUploadByKey_def cr_get_def)
qed

definition sample_snapshot :: "SnapshotPhase \<Rightarrow> Snapshot" where
  "sample_snapshot ph = \<lparr>
     sn_Meta = \<lparr>om_Namespace = ''app'', om_Name = ''snap-a'', om_UID = '''', om_Labels = Map.empty,
       om_DeletionTimestamp = None\<rparr>,
     sn_Spec = \<lparr>sns_Reference = \<lparr>tr_APIGroup = None, tr_Kind = ''PersistentVolumeClaim'', tr_Name = ''claim''\<rparr>,
       sns_BackupRepository = '''', sns_SnapshotCancel = False\<rparr>,
     sn_Status = \<lparr>snt_Phase = ph, snt_Message = '''', snt_Progress = \<lparr>snp_TotalBytes = 0, snp_BytesDone = 0\<rparr>,
       snt_SnapshotID = '''', snt_SvcSnapshotName = '''', snt_Metadata = '''', snt_CompletionTimestamp = None\<rparr>\<rparr>"

definition snapshot_key :: key where
  "snapshot_key = (''app'', ''snap-a'')"

definition referring_upload :: "UploadPhase \<Rightarrow> Upload" where
  "referring_upload ph = (sample_upload ph 0)\<lparr>u_Spec := (u_Spec (sample_upload ph 0))
     \<lparr>us_SnapshotReference := ''app/snap-a''\<rparr>\<rparr>"

definition following_world :: "UploadPhase \<Rightarrow> SnapshotPhase \<Rightarrow> world" where
  "following_world uph sph = empty_world\<lparr>w_uploads := [sample_key \<mapsto> referring_upload uph],
     w_snapshots := [snapshot_key \<mapsto> sample_snapshot sph]\<rparr>"

theorem snapshot_follows_upload_witness:
  "\<exists>s' w'. run_state (syncUploadByKey calm sample_key)
      (following_world UploadPhaseCompleted SnapshotPhaseUploading) = (None, w') \<and>
    w_snapshots w' snapshot_key = Some s' \<and> moved_to SnapshotPhaseUploaded (sample_snapshot SnapshotPhaseUploading) s'"
  using snapshot_follows_upload [of calm "following_world UploadPhaseCompleted SnapshotPhaseUploading" sample_key
      "referring_upload UploadPhaseCompleted" "''app''" "''snap-a''" "sample_snapshot SnapshotPhaseUploading"
      SnapshotPhaseUploaded]
  by (auto simp: following_world_def snapshot_key_def referring_upload_def sample_snapshot_def sample_upload_def)

section \<open>Completion times\<close>

text \<open>
  \<open>dated\<close>: every Snapshot in phase \<open>Uploaded\<close> carries its completion time. The clean-up of
  expired Snapshots dereferences that time without a check.
\<close>

definition dated :: "world \<Rightarrow> bool" where
  "dated w \<longleftrightarrow> (\<forall>k s. w_snapshots w k = Some s \<longrightarrow>
     (snt_Phase (sn_Status s) = SnapshotPhaseUploaded \<longrightarrow> snt_CompletionTimestamp (sn_Status s) \<noteq> None))"

lemma dated_other [simp]:
  "dated (w\<lparr>w_tick := n\<rparr>) = dated w" "dated (w\<lparr>w_trace := t\<rparr>) = dated w"
  "dated (w_uploads_update f w) = dated w" "dated (w_svcSnapshotMap_update g w) = dated w"
  by (simp_all add: dated_def)

lemma keeps_dated_write:
  assumes "snt_Phase st = SnapshotPhaseUploaded \<Longrightarrow> snt_CompletionTimestamp st \<noteq> None"
  shows "keeps dated (cr_modify w_snapshots w_snapshots_update E k (\<lambda>x. x\<lparr>sn_Status := st\<rparr>))"
proof -
  have "keeps (\<lambda>w. \<forall>k s. w_snapshots w k = Some s \<longrightarrow>
      (snt_Phase (sn_Status s) = SnapshotPhaseUploaded \<longrightarrow> snt_CompletionTimestamp (sn_Status s) \<noteq> None))
    (cr_modify w_snapshots w_snapshots_update E k (\<lambda>x. x\<lparr>sn_Status := st\<rparr>))"
    by (rule snapshots.keeps_modify_all [where I = "\<lambda>k s. snt_Phase (sn_Status s) = SnapshotPhaseUploaded \<longrightarrow>
        snt_CompletionTimestamp (sn_Status s) \<noteq> None"]) (use assms in simp)
  then show ?thesis by (simp add: triple_def dated_def)
qed

lemma keeps_dated_update: "keeps dated (updateSnapshotStatusPhase E k ph f)"
proof (cases "ph = SnapshotPhaseUploaded")
  case True
  then show ?thesis
    unfolding updateSnapshotStatusPhase_def True simp_thms(6) if_True State_Monad.bind_assoc State_Monad.bind_left_identity
    by (intro keeps_rules frame keeps_dated_write) simp_all
next
  case False
  show ?thesis
    unfolding updateSnapshotStatusPhase_def if_not_P [OF False] State_Monad.bind_left_identity
    by (intro keeps_rules frame keeps_dated_write) (use False in \<open>simp_all add: with_fields_def\<close>)
qed

lemma keeps_dated_fail: "keeps dated (fail_snapshot E k f msg err)"
  unfolding fail_snapshot_def by (intro keeps_rules keeps_dated_update) simp

lemma keeps_dated_taken: "keeps dated (snapshot_taken E k p svc)"
  unfolding snapshot_taken_def by (intro keeps_rules frame keeps_dated_fail keeps_dated_update) auto

lemma keeps_dated_attempts:
  "keeps dated (snapshot_attempt E p l)" "keeps dated (create_upload_attempt E k u l')"
  by (auto simp: triple_def snapshot_attempt_def create_upload_attempt_def cr_create_def Let_def
      split: sum.splits prod.splits fate.splits option.splits)

lemma keeps_dated_UploadSnapshot: "keeps dated (UploadSnapshot E p br ref)"
  unfolding UploadSnapshot_def plugin_client_def
  by (intro keeps_rules frame keeps_poll_immediate keeps_dated_attempts) auto

lemma keeps_dated_local_mode: "keeps dated (in_local_mode E br)"
  unfolding in_local_mode_def IsFeatureEnabled_def by (intro keeps_rules frame) auto

lemma keeps_dated_sm: "keeps dated (sm_createSnapshot E fl p br ref)"
  unfolding sm_createSnapshot_def
  by (intro keeps_rules frame keeps_poll_immediate keeps_dated_attempts keeps_dated_local_mode
        keeps_dated_UploadSnapshot) auto

lemma keeps_dated_createSnapshot: "keeps dated (createSnapshot E C k s)"
  unfolding createSnapshot_def Let_def supervisor_repository_def
  by (intro keeps_rules frame keeps_dated_sm keeps_dated_fail keeps_dated_taken) auto

lemma keeps_dated_follow: "keeps dated (follow E k ph)"
  unfolding follow_def by (intro keeps_rules frame keeps_dated_update) auto

lemma keeps_dated_expire: "keeps dated (expire E ts (cr_delete w_snapshots w_snapshots_update E k))"
proof -
  have "keeps dated (cr_delete w_snapshots w_snapshots_update E k)"
    by (auto simp: triple_def cr_delete_def Let_def dated_def split: fate.splits option.splits)
  then show ?thesis unfolding expire_def by (intro keeps_rules frame) auto
qed

lemma keeps_dated_remember: "keeps dated (remember_svc_snapshot C k s)"
  by (simp add: triple_def remember_svc_snapshot_def update_world_def Let_def)

lemma keeps_dated_lookup: "keeps dated (guest_snapshot_of n)"
  by (simp add: triple_def guest_snapshot_of_def)

text \<open>
  C14. Completion times are never missing: each of the three handlers that write Snapshots keeps
  the property that every uploaded Snapshot carries its completion time, whatever the API
  server and the protected entities answer.
\<close>

theorem snapshots_stay_dated:
  assumes "dated w"
  shows "dated (snd (run_state (syncSnapshotByKey E C k) w)) \<and>
    dated (snd (run_state (syncUploadByKey E k) w)) \<and>
    dated (snd (run_state (syncSvcSnapshotByKey E k) w))"
proof (intro conjI)
  have "keeps dated (syncSnapshotByKey E C k)"
    unfolding syncSnapshotByKey_def
    by (intro keeps_rules frame keeps_dated_remember keeps_dated_expire keeps_dated_createSnapshot) auto
  from keeps_run [OF this assms] show "dated (snd (run_state (syncSnapshotByKey E C k) w))" .
  have "keeps dated (syncUploadByKey E k)"
    unfolding syncUploadByKey_def
    by (intro keeps_rules frame) (auto split: list.splits intro!: keeps_dated_follow triple_return)
  from keeps_run [OF this assms] show "dated (snd (run_state (syncUploadByKey E k) w))" .
  have "keeps dated (syncSvcSnapshotByKey E k)"
    unfolding syncSvcSnapshotByKey_def
    by (intro keeps_rules frame keeps_dated_lookup) (auto split: list.splits intro!: keeps_dated_follow triple_return)
  from keeps_run [OF this assms] show "dated (snd (run_state (syncSvcSnapshotByKey E k) w))" .
qed

theorem snapshots_stay_dated_witness:
  "dated (snd (run_state (syncUploadByKey calm sample_key)
     (following_world UploadPhaseCompleted SnapshotPhaseUploading)))"
proof -
  have "dated (following_world UploadPhaseCompleted SnapshotPhaseUploading)"
    by (simp add: dated_def following_world_def sample_snapshot_def)
  from snapshots_stay_dated [OF this, of calm _ sample_key] show ?thesis by blast
qed

text \<open>
  Expiring an uploaded Snapshot is safe: as long as completion times are not missing, a
  turn of the worker on an uploaded Snapshot never panics (its only error is that of the
  API request that reads the Snapshot), and it removes the Snapshot only if the clean-up
  window of 24 hours has passed since its completion.
\<close>

theorem uploaded_snapshot_expires_safely:
  assumes "dated w" and "w_snapshots w k = Some s" and "snt_Phase (sn_Status s) = SnapshotPhaseUploaded"
    and "run_state (syncSnapshotByKey E C k) w = (r, w')"
  shows "(case r of None \<Rightarrow> True | Some e \<Rightarrow> (\<exists>a. e = ErrAPI a)) \<and>
    (w_snapshots w' k = None \<longrightarrow> (\<exists>ts n. snt_CompletionTimestamp (sn_Status s) = Some ts \<and>
        (ts + 24 * 3600) * nanos_per_second < e_now E n))"
proof -
  from assms(1-3) obtain ts where ts: "snt_CompletionTimestamp (sn_Status s) = Some ts"
    unfolding dated_def by blast
  let ?w1 = "w\<lparr>w_tick := Suc (w_tick w)\<rparr>"
  obtain w2 where rem: "run_state (remember_svc_snapshot C k s) ?w1 = ((), w2)"
    by (metis old.unit.exhaust surj_pair)
  have w2: "w_snapshots w2 = w_snapshots w" using run_remember(2) [of C k s ?w1] rem by simp
  show ?thesis
  proof (cases "e_fate E (w_tick w)")
    case Accepted
    then have "run_state (expire E (Some ts) (cr_delete w_snapshots w_snapshots_update E k)) w2 = (r, w')"
      using assms(2-4) rem ts by (simp add: syncSnapshotByKey_def cr_get_def)
    then show ?thesis using assms(2) w2 ts
      by (auto simp: expire_def clock_now_def after_cleanup_window_def DefaultCRCleanUpWindow_def
          split: if_splits prod.splits)
  qed (use assms in \<open>auto simp: syncSnapshotByKey_def cr_get_def\<close>)
qed

theorem uploaded_snapshot_expires_safely_witness:
  "let s = (sample_snapshot SnapshotPhaseUploaded)\<lparr>sn_Status := (sn_Status (sample_snapshot SnapshotPhaseUploaded))
          \<lparr>snt_CompletionTimestamp := Some (- 90000)\<rparr>\<rparr>;
       w = empty_world\<lparr>w_snapshots := [snapshot_key \<mapsto> s]\<rparr>
   in w_snapshots (snd (run_state (syncSnapshotByKey calm \<lparr>dr_guest = False, dr_svcNamespace = '''',
        dr_snapManager = True, dr_flavor = VSphere\<rparr> snapshot_key) w)) snapshot_key = None \<and>
      (\<exists>n. (- 90000 + 24 * 3600) * nanos_per_second < e_now calm n)"
proof -
  let ?s = "(sample_snapshot SnapshotPhaseUploaded)\<lparr>sn_Status := (sn_Status (sample_snapshot SnapshotPhaseUploaded))
          \<lparr>snt_CompletionTimestamp := Some (- 90000)\<rparr>\<rparr>"
  let ?w = "empty_world\<lparr>w_snapshots := [snapshot_key \<mapsto> ?s]\<rparr>"
  let ?C = "\<lparr>dr_guest = False, dr_svcNamespace = '''', dr_snapManager = True, dr_flavor = VSphere\<rparr>"
  obtain r w' where run: "run_state (syncSnapshotByKey calm ?C snapshot_key) ?w = (r, w')" by fastforce
  have gone: "w_snapshots (snd (run_state (syncSnapshotByKey calm ?C snapshot_key) ?w)) snapshot_key = None"
    by (simp add: evals sample_snapshot_def update_world_def after_cleanup_window_def DefaultCRCleanUpWindow_def
        nanos_per_second_def)
  have "dated ?w" "w_snapshots ?w snapshot_key = Some ?s" "snt_Phase (sn_Status ?s) = SnapshotPhaseUploaded"
    by (simp_all add: dated_def sample_snapshot_def)
  from uploaded_snapshot_expires_safely [OF this run] gone run show ?thesis
    by (auto simp: Let_def sample_snapshot_def)
qed

section \<open>Following the supervisor\<close>

text \<open>
  The guest's Snapshot follows the supervisor's. If the API servers answer and the
  supervisor snapshot belongs to a Snapshot of the guest cluster that is not being deleted,
  then its event moves the guest's Snapshot to the supervisor's phase if that phase is one of
  \<open>Uploading\<close>, \<open>Uploaded\<close>, \<open>Canceled\<close>, \<open>Canceling\<close>, \<open>CleanupFailed\<close>,
  \<open>UploadFailed\<close> and \<open>SnapshotFailed\<close>, and changes nothing otherwise; in particular a
  supervisor snapshot whose upload was given up (\<open>UploadFailedAfterRetry\<close>) is not reported
  to the guest.
\<close>

theorem snapshot_follows_supervisor:
  assumes "\<forall>n. e_fate E n = Accepted" and "w_svc_snapshots w k = Some svc"
    and "w_svcSnapshotMap w (snd k) = Some ref" and "split_on (CHR '':'') ref = ns # name # rest"
    and "w_snapshots w (ns, name) = Some s" and "om_DeletionTimestamp (sn_Meta s) = None"
  shows "if snt_Phase (sn_Status svc) \<in> {SnapshotPhaseUploading, SnapshotPhaseUploaded, SnapshotPhaseCanceled,
        SnapshotPhaseCanceling, SnapshotPhaseCleanupFailed, SnapshotPhaseUploadFailed, SnapshotPhaseSnapshotFailed}
    then \<exists>s' n. run_state (syncSvcSnapshotByKey E k) w =
        (None, w\<lparr>w_tick := n, w_snapshots := (w_snapshots w)((ns, name) \<mapsto> s')\<rparr>) \<and>
      moved_to (snt_Phase (sn_Status svc)) s s'
    else \<exists>n. run_state (syncSvcSnapshotByKey E k) w = (None, w\<lparr>w_tick := n\<rparr>)"
proof -
  let ?w = "w\<lparr>w_tick := Suc (w_tick w)\<rparr>"
  from follow_accepted [OF assms(1), of ?w "(ns, name)" s "snt_Phase (sn_Status svc)"] assms(5,6)
  obtain s' n where "run_state (follow E (ns, name) (Some (snt_Phase (sn_Status svc)))) ?w =
     (None, w\<lparr>w_tick := n, w_snapshots := (w_snapshots w)((ns, name) \<mapsto> s')\<rparr>)"
     "moved_to (snt_Phase (sn_Status svc)) s s'"
    by auto
  moreover have "run_state (follow E (ns, name) None) ?w = (None, w\<lparr>w_tick := Suc (Suc (w_tick w))\<rparr>)"
    using assms(1,5,6) by (simp add: follow_def cr_get_def)
  ultimately show ?thesis using assms
    by (auto simp: syncSvcSnapshotByKey_def cr_get_def guest_snapshot_of_def followed_phases_def Let_def)
qed

definition guest_world :: "SnapshotPhase \<Rightarrow> world" where
  "guest_world ph = empty_world\<lparr>w_svc_snapshots := [(''svc'', ''snap-b'') \<mapsto> sample_snapshot ph],
     w_snapshots := [snapshot_key \<mapsto> sample_snapshot SnapshotPhaseSnapshotted],
     w_svcSnapshotMap := [''snap-b'' \<mapsto> ''app:snap-a'']\<rparr>"

theorem snapshot_follows_supervisor_witness:
  "\<exists>n. run_state (syncSvcSnapshotByKey calm (''svc'', ''snap-b'')) (guest_world SnapshotPhaseUploadFailedAfterRetry) =
     (None, (guest_world SnapshotPhaseUploadFailedAfterRetry)\<lparr>w_tick := n\<rparr>)"
  using snapshot_follows_supervisor [of calm "guest_world SnapshotPhaseUploadFailedAfterRetry" "(''svc'', ''snap-b'')"
      "sample_snapshot SnapshotPhaseUploadFailedAfterRetry" "''app:snap-a''" "''app''" "''snap-a''" "[]"
      "sample_snapshot SnapshotPhaseSnapshotted"]
  by (auto simp: guest_world_def snapshot_key_def sample_snapshot_def)

section \<open>A status that is not written\<close>

definition status_refused :: env where
  "status_refused = calm\<lparr>e_fate := (\<lambda>n. if n = 9 then Refused (OtherStatus ''conflict'') else Accepted),
     e_take_snapshot := (\<lambda>n p. Inr (if n < 10 then ''snap-1'' else ''snap-2'', None))\<rparr>"

definition vanilla :: driver where
  "vanilla = \<lparr>dr_guest = False, dr_svcNamespace = '''', dr_snapManager = True, dr_flavor = VSphere\<rparr>"

text \<open>
  A snapshot can be taken twice. If the API server refuses the write of the status after a
  snapshot was taken, the worker keeps the key and the Snapshot is still in phase \<open>New\<close>:
  the next turn takes a second snapshot of the volume, and only the second one is recorded.
\<close>

theorem snapshot_taken_twice:
  "let w0 = empty_world\<lparr>w_snapshots := [snapshot_key \<mapsto> sample_snapshot SnapshotPhaseNew]\<rparr>;
       pvc = \<lparr>pe_type = ''pvc'', pe_id = ''app/claim'', pe_snapshot = ''''\<rparr>;
       w1 = snd (run_state (snapshotWorker status_refused vanilla (Some snapshot_key)) w0);
       w2 = snd (run_state (snapshotWorker status_refused vanilla (Some snapshot_key)) w1)
   in w_snapshots w1 snapshot_key = Some (sample_snapshot SnapshotPhaseNew) \<and>
      w_trace w2 = [EvSnapshotCreated pvc ''snap-1'', EvQueueAddRateLimited ''backup-driver-snapshot-queue'' snapshot_key,
        EvSnapshotCreated pvc ''snap-2'', EvQueueForget ''backup-driver-snapshot-queue'' snapshot_key] \<and>
      map_option (\<lambda>s. (snt_Phase (sn_Status s), snt_SnapshotID (sn_Status s))) (w_snapshots w2 snapshot_key) =
        Some (SnapshotPhaseSnapshotted, ''pvc|app/claim|snap-2'')"
  by (simp add: evals snapshotWorker_def drive_worker_def status_refused_def vanilla_def snapshot_key_def
      sample_snapshot_def sm_createSnapshot_def snapshot_attempt_def in_local_mode_def update_world_def
      with_snapshot_def WithoutBackupRepository_def)

section \<open>Restore requests\<close>

lemma clones_update_at [simp]:
  "w_clones_update (\<lambda>m. m(k \<mapsto> x)) w = w\<lparr>w_clones := (w_clones w)(k \<mapsto> x)\<rparr>"
  by simp

text \<open>
  A restore request that is in progress, has failed or is being canceled is carried out
  again. The switch on the phase lists these phases with the skipped one, but a Go switch does
  not fall through: in a guest cluster, if the request's metadata and identifier are readable
  and the type manager answers, a turn of the worker creates the volume, and the request keeps
  its phase.
\<close>

theorem unfinished_clone_runs_again:
  assumes "\<forall>n. e_fate E n = Accepted" and "w_clones w k = Some c"
    and "clt_Phase (cl_Status c) \<in> {ClonePhaseInProgress, ClonePhaseFailed, ClonePhaseCanceling}"
    and "cls_CloneCancel (cl_Spec c) = False" and "cls_Metadata (cl_Spec c) \<noteq> ''''"
    and "e_pvc_metadata E (cls_Metadata (cl_Spec c)) = Inr (pvc, Some storageClass)" and "storageClass \<noteq> ''''"
    and "dr_snapManager C" and "dr_flavor C = TkgGuest"
    and "e_parse_peid E (cls_SnapshotID (cl_Spec c)) = Inr p" and "e_has_petm E ''paravirt-pv''"
    and "\<forall>n. e_create_from_metadata E n NilPETM (cls_Metadata (cl_Spec c)) p = Inr q"
  shows "run_state (syncCloneFromSnapshotByKey E C k) w =
    (None, w\<lparr>w_tick := w_tick w + 2, w_trace := w_trace w @ [EvVolumeCreated q]\<rparr>)"
  using assms
  by (cases pvc) (auto simp: syncCloneFromSnapshotByKey_def cr_get_def cloneFromSnapshot_def Let_def
      CreateVolumeFromSnapshotWithMetadata_def create_from_metadata_def)

definition sample_clone :: "ClonePhase \<Rightarrow> CloneFromSnapshot" where
  "sample_clone ph = \<lparr>
     cl_Meta = \<lparr>om_Namespace = ''app'', om_Name = ''restore'', om_UID = '''', om_Labels = Map.empty,
       om_DeletionTimestamp = None\<rparr>,
     cl_Spec = \<lparr>cls_SnapshotID = ''paravirt-pv|v|s'', cls_Metadata = ''{}'', cls_APIGroup = None,
       cls_Kind = ''PersistentVolumeClaim'', cls_BackupRepository = '''', cls_CloneCancel = False\<rparr>,
     cl_Status = \<lparr>clt_Phase = ph, clt_Message = '''', clt_ResourceHandle = None, clt_CompletionTimestamp = None\<rparr>\<rparr>"

definition restoring :: env where
  "restoring = calm\<lparr>e_pvc_metadata := (\<lambda>s. Inr ((''app'', ''claim''), Some ''gold''))\<rparr>"

definition guest :: driver where
  "guest = \<lparr>dr_guest = True, dr_svcNamespace = ''svc'', dr_snapManager = True, dr_flavor = TkgGuest\<rparr>"

theorem unfinished_clone_runs_again_witness:
  "let w = empty_world\<lparr>w_clones := [(''app'', ''restore'') \<mapsto> sample_clone ClonePhaseFailed]\<rparr>
   in w_trace (snd (run_state (syncCloneFromSnapshotByKey restoring guest (''app'', ''restore'')) w)) =
     [EvVolumeCreated \<lparr>pe_type = ''paravirt-pv'', pe_id = ''v'', pe_snapshot = ''s''\<rparr>]"
  using unfinished_clone_runs_again [of restoring "empty_world\<lparr>w_clones := [(''app'', ''restore'') \<mapsto> sample_clone ClonePhaseFailed]\<rparr>"
      "(''app'', ''restore'')" "sample_clone ClonePhaseFailed" "(''app'', ''claim'')" "''gold''" guest
      "\<lparr>pe_type = ''paravirt-pv'', pe_id = ''v'', pe_snapshot = ''s''\<rparr>" "\<lparr>pe_type = ''paravirt-pv'', pe_id = ''v'', pe_snapshot = ''s''\<rparr>"]
  by (simp add: restoring_def sample_clone_def guest_def empty_world_def calm_parse_def)

text \<open>
  A completed restore request makes the driver panic. The snapshot manager reports a
  completed Download on the request without a completion time; the next turn of the driver's
  worker on that request, in its clean-up branch, dereferences the missing time.
\<close>

theorem completed_clone_panics:
  assumes "\<forall>n. e_fate E n = Accepted" and "w_clones w k = Some c"
    and "clt_CompletionTimestamp (cl_Status c) = None"
    and "dlt_Phase (dl_Status d) = DownloadPhaseCompleted"
  shows "\<exists>w1 w2. run_state (report_clone E k d) w = (None, w1) \<and>
    run_state (cloneFromSnapshotWorker E C (Some k)) w1 = (Some (GoPanic ''nil CompletionTimestamp''), w2)"
  using assms
  by (auto simp: report_clone_def cr_get_def cr_modify_def clone_status_of_def cloneFromSnapshotWorker_def
      drive_worker_def syncCloneFromSnapshotByKey_def expire_def clock_now_def)

definition finished_download :: Download where
  "finished_download = build_download ''velero'' ''download-s'' 0 0 ''ivd|v|s'' ''app/restore'' '''' ''''
     \<lparr>dl_Status := (dl_Status (build_download ''velero'' ''download-s'' 0 0 ''ivd|v|s'' ''app/restore'' '''' ''''))
        \<lparr>dlt_Phase := DownloadPhaseCompleted, dlt_VolumeID := ''ivd|new|''\<rparr>\<rparr>"

theorem completed_clone_panics_witness:
  "\<exists>w1 w2. run_state (report_clone calm (''app'', ''restore'') finished_download)
      (empty_world\<lparr>w_clones := [(''app'', ''restore'') \<mapsto> sample_clone ClonePhaseInProgress]\<rparr>) = (None, w1) \<and>
    run_state (cloneFromSnapshotWorker calm vanilla (Some (''app'', ''restore''))) w1 =
      (Some (GoPanic ''nil CompletionTimestamp''), w2)"
  using completed_clone_panics [of calm "empty_world\<lparr>w_clones := [(''app'', ''restore'') \<mapsto> sample_clone ClonePhaseInProgress]\<rparr>"
      "(''app'', ''restore'')" "sample_clone ClonePhaseInProgress" finished_download vanilla]
  by (auto simp: sample_clone_def finished_download_def)

section \<open>Deleting a snapshot whose upload is running\<close>

lemma silent_if [intro]: "silent m \<Longrightarrow> silent n \<Longrightarrow> silent (if b then m else n)"
  by simp

lemma silent_case_sum [intro]:
  "(\<And>e. silent (f e)) \<Longrightarrow> (\<And>y. silent (g y)) \<Longrightarrow> silent (case x of Inl e \<Rightarrow> f e | Inr y \<Rightarrow> g y)"
  by (cases x) auto

lemma silent_case_option [intro]:
  "silent m \<Longrightarrow> (\<And>y. silent (f y)) \<Longrightarrow> silent (case x of None \<Rightarrow> m | Some y \<Rightarrow> f y)"
  by (cases x) auto

lemma silent_GetClusterFlavor: "silent (GetClusterFlavor E g)"
  unfolding GetClusterFlavor_def retrieveClusterFlavor_def GetClusterTypeFromConfig_def GetCSIClusterType_def
    connect_def
  by (intro silent_bind silent_if silent_case_sum silent_case_option silent_return silent_ask)

lemma silent_runs:
  assumes "silent m" and "fst (run_state m w) = r"
  shows "\<exists>n. run_state m w = (r, w\<lparr>w_tick := n\<rparr>)"
  using assms unfolding silent_def by (metis prod.collapse)

lemma silent_request_cancel: "silent (request_cancel E u)"
  unfolding request_cancel_def by (intro silent_bind silent_clock_now silent_return)

lemma uploads_update_at [simp]:
  "w_uploads_update (\<lambda>m. m(k \<mapsto> x)) w = w\<lparr>w_uploads := (w_uploads w)(k \<mapsto> x)\<rparr>"
  "w_deletes_update (\<lambda>m. m(k' \<mapsto> y)) w = w\<lparr>w_deletes := (w_deletes w)(k' \<mapsto> y)\<rparr>"
  by simp_all

text \<open>
  The volume snapshot that a snapshot identifier stands for: the identifier itself if it is a
  volume's, as backups up to v1.0.2 stored it, and else the volume's identifier that is encoded
  in its snapshot part, under any number of levels.
\<close>

definition stands_for :: "env \<Rightarrow> peid \<Rightarrow> peid \<Rightarrow> bool" where
  "stands_for E p base \<longleftrightarrow> pe_type base = e_ivd_type E \<and>
     (if pe_type p = e_ivd_type E then base = p
      else \<exists>ps. pe_snapshot p = nested E base ps \<and>
        (\<forall>q \<in> set (layers E base ps). e_parse_peid E (e_print_peid E q) = Inr q) \<and>
        (\<forall>q \<in> set (butlast (layers E base ps)). e_has_snapshot E q \<and> pe_type q \<noteq> e_ivd_type E))"

lemma stands_for_decoded:
  assumes "stands_for E p base"
  shows "(if pe_type p = e_ivd_type E then Inr (pe_snapshot p) else or_overflow (decodeSnapshotID E (pe_snapshot p))) =
    (Inr (pe_snapshot base) :: goerr + string)"
  using assms decode_layers by (auto simp: stands_for_def or_overflow_def)

text \<open>The first half of a deletion: the running Upload is told to cancel.\<close>

lemma cancel_requested:
  assumes "\<forall>n. e_fate E n = Accepted" and "e_velero_ns E = Some ns" and "stands_for E p base"
    and "w_uploads w (ns, ''upload-'' @ pe_snapshot base) = Some u" and "\<not> isTerminalState (Some u)"
  shows "\<exists>u' n. run_state (cancel_upload_step E p) w =
      (Inl None, w\<lparr>w_tick := n, w_uploads := (w_uploads w)((ns, ''upload-'' @ pe_snapshot base) \<mapsto> u')\<rparr>) \<and>
    us_UploadCancel (u_Spec u') \<and> ut_Phase (u_Status u') = ut_Phase (u_Status u)"
proof -
  let ?k = "(ns, ''upload-'' @ pe_snapshot base)"
  let ?w = "w\<lparr>w_tick := Suc (w_tick w)\<rparr>"
  let ?u = "fst (run_state (request_cancel E u) ?w)"
  have u: "us_UploadCancel (u_Spec ?u)" "ut_Phase (u_Status ?u) = ut_Phase (u_Status u)"
    by (simp_all add: request_cancel_def clock_now_def)
  from upload_patch.patch_accepted [OF assms(1), of ?w ?k u "request_cancel E"
      "ErrWrap ''Failed to patch Upload''"] assms(4) silent_request_cancel
  obtain n where "run_state (PatchUpload E ?k u (request_cancel E)) ?w =
      ((Inr ?u, ?u), w\<lparr>w_tick := n, w_uploads := (w_uploads w)(?k \<mapsto> ?u)\<rparr>)"
    by (auto simp: PatchUpload_def)
  with assms(1,2,4,5) u show ?thesis
    unfolding cancel_upload_step_def stands_for_decoded [OF assms(3)] by (auto simp: cr_get_def)
qed

lemma delete_accepted:
  assumes "\<forall>n. e_fate E n = Accepted" and "w_deletes w k = Some d"
  shows "\<exists>d' n. run_state (updateDeleteSnapshotStatusPhase E k DeleteSnapshotPhaseCompleted msg) w =
      (Inr d', w\<lparr>w_tick := n, w_deletes := (w_deletes w)(k \<mapsto> d')\<rparr>) \<and>
    dt_Phase (d_Status d') = DeleteSnapshotPhaseCompleted"
proof (cases "dt_Phase (d_Status d) = DeleteSnapshotPhaseCompleted")
  case True
  have "w\<lparr>w_tick := n\<rparr> = w\<lparr>w_tick := n, w_deletes := (w_deletes w)(k \<mapsto> d)\<rparr>" for n
    using assms(2) by (simp add: fun_upd_idem)
  with True assms show ?thesis
    by (intro exI [of _ d] exI [of _ "Suc (w_tick w)"])
       (auto simp: updateDeleteSnapshotStatusPhase_def cr_get_def fun_upd_idem)
next
  case False
  with assms show ?thesis
    by (auto simp: updateDeleteSnapshotStatusPhase_def cr_get_def cr_modify_def clock_now_def Let_def)
qed

lemma sm_delete_cancels:
  assumes "\<forall>n. e_fate E n = Accepted" and "\<forall>n. e_client E n = None" and "e_velero_ns E = Some ns"
    and "\<forall>v. fst (run_state (GetClusterFlavor E True) v) = Inr fl" and "fl \<in> {VSphere, Supervisor}"
    and "stands_for E p base"
    and "w_uploads w (ns, ''upload-'' @ pe_snapshot base) = Some u" and "\<not> isTerminalState (Some u)"
  shows "\<exists>u' n. run_state (sm_deleteSnapshot E p br) w =
      (None, w\<lparr>w_tick := n, w_uploads := (w_uploads w)((ns, ''upload-'' @ pe_snapshot base) \<mapsto> u')\<rparr>) \<and>
    us_UploadCancel (u_Spec u') \<and> ut_Phase (u_Status u') = ut_Phase (u_Status u)"
proof -
  let ?w = "w\<lparr>w_tick := Suc (Suc (Suc (w_tick w)))\<rparr>"
  from silent_runs [OF silent_GetClusterFlavor] assms(4)
  have "\<exists>n. run_state (GetClusterFlavor E True) ?w = (Inr fl, ?w\<lparr>w_tick := n\<rparr>)" by blast
  then obtain n where flavor: "run_state (GetClusterFlavor E True) ?w = (Inr fl, w\<lparr>w_tick := n\<rparr>)" by auto
  from cancel_requested [OF assms(1,3,6), of "w\<lparr>w_tick := n\<rparr>" u] assms(7,8)
  obtain u' n' where "run_state (cancel_upload_step E p) (w\<lparr>w_tick := n\<rparr>) =
      (Inl None, w\<lparr>w_tick := n', w_uploads := (w_uploads w)((ns, ''upload-'' @ pe_snapshot base) \<mapsto> u')\<rparr>)"
    "us_UploadCancel (u_Spec u')" "ut_Phase (u_Status u') = ut_Phase (u_Status u)"
    by auto
  with flavor assms(2,5) show ?thesis by (auto simp: sm_deleteSnapshot_def)
qed

text \<open>
  C15. Deleting a snapshot that is being uploaded deletes nothing. In a vSphere or Supervisor
  cluster with an answering API server, a DeleteSnapshot for a snapshot whose Upload has not come
  to an end only marks the Upload for cancellation: no snapshot is deleted anywhere, the Upload
  keeps its phase, and the DeleteSnapshot is reported as completed. The identifier in the
  DeleteSnapshot may be that of the volume's snapshot or have it encoded in it, under any
  number of levels.
\<close>

theorem delete_during_upload_deletes_nothing:
  assumes "\<forall>n. e_fate E n = Accepted" and "\<forall>n. e_client E n = None" and "e_velero_ns E = Some ns"
    and "\<forall>v. fst (run_state (GetClusterFlavor E True) v) = Inr fl" and "fl \<in> {VSphere, Supervisor}"
    and "dr_guest C = False" and "dr_snapManager C"
    and "e_parse_peid E (ds_SnapshotID (d_Spec d)) = Inr p" and "stands_for E p base"
    and "w_uploads w (ns, ''upload-'' @ pe_snapshot base) = Some u" and "\<not> isTerminalState (Some u)"
    and "w_deletes w k = Some d"
  shows "\<exists>w' u' d'. run_state (deleteSnapshot E C k d) w = (None, w') \<and> w_trace w' = w_trace w \<and>
    w_uploads w' (ns, ''upload-'' @ pe_snapshot base) = Some u' \<and> us_UploadCancel (u_Spec u') \<and>
    ut_Phase (u_Status u') = ut_Phase (u_Status u) \<and>
    w_deletes w' k = Some d' \<and> dt_Phase (d_Status d') = DeleteSnapshotPhaseCompleted"
proof -
  let ?uk = "(ns, ''upload-'' @ pe_snapshot base)"
  from sm_delete_cancels [OF assms(1-5,9-11), of "ds_BackupRepository (d_Spec d)"]
  obtain u' n where sm: "run_state (sm_deleteSnapshot E p (ds_BackupRepository (d_Spec d))) w =
      (None, w\<lparr>w_tick := n, w_uploads := (w_uploads w)(?uk \<mapsto> u')\<rparr>)"
    and u': "us_UploadCancel (u_Spec u')" "ut_Phase (u_Status u') = ut_Phase (u_Status u)" by blast
  let ?w1 = "w\<lparr>w_tick := n, w_uploads := (w_uploads w)(?uk \<mapsto> u')\<rparr>"
  from delete_accepted [OF assms(1), of ?w1 k d "Some ''DeleteSnapshot Successfully processed.''"] assms(12)
  obtain d' n' where "run_state (updateDeleteSnapshotStatusPhase E k DeleteSnapshotPhaseCompleted
       (Some ''DeleteSnapshot Successfully processed.'')) ?w1 =
      (Inr d', ?w1\<lparr>w_tick := n', w_deletes := (w_deletes w)(k \<mapsto> d')\<rparr>)"
    "dt_Phase (d_Status d') = DeleteSnapshotPhaseCompleted" by auto
  with sm u' assms(6-8) show ?thesis
    by (auto simp: deleteSnapshot_def supervisor_repository_def)
qed

lemma calm_flavor: "fst (run_state (GetClusterFlavor calm True) v) = Inr VSphere"
  by (simp add: GetClusterFlavor_def retrieveClusterFlavor_def GetClusterTypeFromConfig_def GetCSIClusterType_def
      ConvertConfigClusterFlavor_def Let_def)

definition sample_delete :: DeleteSnapshot where
  "sample_delete = \<lparr>
     d_Meta = \<lparr>om_Namespace = ''app'', om_Name = ''delete'', om_UID = '''', om_Labels = Map.empty,
       om_DeletionTimestamp = None\<rparr>,
     d_Spec = \<lparr>ds_SnapshotID = ''pvc|app/claim|aXZkfHZ8cw'', ds_BackupRepository = ''''\<rparr>,
     d_Status = \<lparr>dt_Phase = DeleteSnapshotPhaseNew, dt_Message = '''', dt_CompletionTimestamp = None\<rparr>\<rparr>"

theorem delete_during_upload_deletes_nothing_witness:
  "\<exists>w' u' d'. run_state (deleteSnapshot calm vanilla (''app'', ''delete'') sample_delete)
      ((sample_world UploadPhaseInProgress 0)\<lparr>w_deletes := [(''app'', ''delete'') \<mapsto> sample_delete]\<rparr>) = (None, w') \<and>
    w_trace w' = [] \<and> w_uploads w' sample_key = Some u' \<and> us_UploadCancel (u_Spec u') \<and>
    ut_Phase (u_Status u') = UploadPhaseInProgress \<and>
    w_deletes w' (''app'', ''delete'') = Some d' \<and> dt_Phase (d_Status d') = DeleteSnapshotPhaseCompleted"
proof -
  let ?p = "\<lparr>pe_type = ''pvc'', pe_id = ''app/claim'', pe_snapshot = ''aXZkfHZ8cw''\<rparr>"
  have "nested calm volume [] = ''aXZkfHZ8cw''"
    by (simp add: volume_def calm_print_def b64_encode_def b64_char_def char_of_def bit_0)
  then have "stands_for calm ?p volume"
    by (auto simp: stands_for_def volume_def calm_print_def calm_parse_def intro!: exI [of _ "[]"])
  with delete_during_upload_deletes_nothing [of calm "''velero''" VSphere vanilla sample_delete ?p volume
      "(sample_world UploadPhaseInProgress 0)\<lparr>w_deletes := [(''app'', ''delete'') \<mapsto> sample_delete]\<rparr>"
      "sample_upload UploadPhaseInProgress 0" "(''app'', ''delete'')"] calm_flavor
  show ?thesis
    by (simp add: vanilla_def sample_delete_def calm_parse_def sample_world_def sample_key_def empty_world_def
        isTerminalState_def sample_upload_def volume_def)
qed

end
