(* ===== verification/Repository_Correctness.thy ===== *)
theory Repository_Correctness
  imports Backup_Driver_Correctness
begin

text \<open>
  The contract between the claimer of a backup repository and the backup driver: the claimer
  gets the name of a repository with the parameters it asked for; the driver creates the
  repository of a claim once, under a name that is fixed by the claim's unique identifier,
  and answers the claim with that name.
\<close>

section \<open>The claimer\<close>

text \<open>A claimer that found no repository at once waited for the claims it knows of, or for its own.\<close>

lemma claim_waits:
  assumes "fst (run_state (ClaimBackupRepository E fuel svc drv ps namespaces ns) w) = Some (Inr br)"
    and "e_brc_list E (w_tick w) svc ns = Inr items"
    and "scan_claims (compareBackupRepositoryClaim drv ps namespaces) items [] = Inr names"
  shows "\<exists>awaited v. fst (run_state (wait_claim E svc awaited fuel) v) = Some (Inr br) \<and>
    (awaited = names \<or> names = [] \<and> (\<exists>m u. e_uuid E m = Inr u \<and> awaited = [''brc-'' @ u]))"
proof (cases names)
  case (Cons n ns')
  with assms have "fst (run_state (wait_claim E svc names fuel) (w\<lparr>w_tick := Suc (w_tick w)\<rparr>)) = Some (Inr br)"
    by (simp add: ClaimBackupRepository_def)
  then show ?thesis by blast
next
  case Nil
  show ?thesis
  proof (cases "e_uuid E (Suc (w_tick w))")
    case (Inl e)
    with assms Nil show ?thesis by (simp add: ClaimBackupRepository_def)
  next
    case (Inr u)
    obtain r v where create: "run_state (create_claim E svc (ns, ''brc-'' @ u)
        (build_claim ns (''brc-'' @ u) ps namespaces)) (w\<lparr>w_tick := Suc (Suc (w_tick w))\<rparr>) = (r, v)" by fastforce
    with assms Nil Inr have "fst (run_state (wait_claim E svc [''brc-'' @ u] fuel) v) = Some (Inr br)"
      by (cases r) (simp_all add: ClaimBackupRepository_def Let_def)
    with Nil Inr show ?thesis by blast
  qed
qed

text \<open>
  C16. A claimed repository matches the claim. Whatever name the claimer gets, with however
  much waiting, it is not empty and was read from a claim: from a listed claim with the
  parameters, driver and namespaces asked for; or from an event on a claim whose name is that
  of such a listed claim, or, when no listed claim matched, that of the claim just created.
\<close>

theorem claimed_repository_matches:
  assumes "fst (run_state (ClaimBackupRepository E fuel svc drv ps namespaces ns) w) = Some (Inr br)"
  shows "br \<noteq> '''' \<and>
    (\<exists>items n c. e_brc_list E n svc ns = Inr items \<and> brc_BackupRepository c = br \<and>
      (c \<in> set items \<and> compareBackupRepositoryClaim drv ps namespaces c \<or>
       (\<exists>m. e_brc_event E m svc = Some c) \<and>
       (om_Name (brc_Meta c) \<in> (\<lambda>i. om_Name (brc_Meta i)) ` {i \<in> set items. compareBackupRepositoryClaim drv ps namespaces i} \<or>
        (\<forall>i \<in> set items. \<not> compareBackupRepositoryClaim drv ps namespaces i) \<and>
        (\<exists>m u. e_uuid E m = Inr u \<and> om_Name (brc_Meta c) = ''brc-'' @ u))))"
proof -
  let ?M = "compareBackupRepositoryClaim drv ps namespaces"
  obtain items where items: "e_brc_list E (w_tick w) svc ns = Inr items"
    using assms by (cases "e_brc_list E (w_tick w) svc ns") (simp_all add: ClaimBackupRepository_def)
  show ?thesis
  proof (cases "scan_claims ?M items []")
    case (Inl b)
    with assms items have "b = br" by (simp add: ClaimBackupRepository_def)
    with scan_claims_Inl [OF Inl] items show ?thesis by blast
  next
    case (Inr names)
    from scan_claims_Inr [OF Inr] have names: "set names = (\<lambda>i. om_Name (brc_Meta i)) ` {i \<in> set items. ?M i}"
      and empty: "names = [] \<Longrightarrow> \<forall>i \<in> set items. \<not> ?M i"
      by (auto simp: filter_empty_conv)
    from claim_waits [OF assms items Inr] obtain awaited v where wait: "fst (run_state (wait_claim E svc awaited fuel) v) = Some (Inr br)"
      and awaited: "awaited = names \<or> names = [] \<and> (\<exists>m u. e_uuid E m = Inr u \<and> awaited = [''brc-'' @ u])"
      by blast
    from wait_claim_answer [OF wait] obtain m c where c: "e_brc_event E m svc = Some c"
      "om_Name (brc_Meta c) \<in> set awaited" "brc_BackupRepository c = br" "br \<noteq> ''''" by blast
    from awaited show ?thesis
    proof
      assume "awaited = names"
      with c names items show ?thesis by blast
    next
      assume "names = [] \<and> (\<exists>m u. e_uuid E m = Inr u \<and> awaited = [''brc-'' @ u])"
      then obtain m' u where u: "names = []" "e_uuid E m' = Inr u" "awaited = [''brc-'' @ u]" by blast
      with c(2) have "om_Name (brc_Meta c) = ''brc-'' @ u" by simp
      with c(1,3,4) empty [OF u(1)] u(2) items show ?thesis by blast
    qed
  qed
qed

definition shared_claim :: BackupRepositoryClaim where
  "shared_claim = (build_claim ''app'' ''brc-1'' [''bucket'' \<mapsto> ''b''] [''app''])\<lparr>brc_BackupRepository := ''br-1''\<rparr>"

theorem claimed_repository_matches_witness:
  "fst (run_state (ClaimBackupRepository (calm\<lparr>e_brc_list := (\<lambda>n svc ns. Inr [shared_claim])\<rparr>) 5 False
      S3RepositoryDriver [''bucket'' \<mapsto> ''b''] [''app''] ''app'') empty_world) = Some (Inr ''br-1'') \<and> ''br-1'' \<noteq> ''''"
proof -
  have run: "fst (run_state (ClaimBackupRepository (calm\<lparr>e_brc_list := (\<lambda>n svc ns. Inr [shared_claim])\<rparr>) 5 False
      S3RepositoryDriver [''bucket'' \<mapsto> ''b''] [''app''] ''app'') empty_world) = Some (Inr ''br-1'')"
    by (simp add: ClaimBackupRepository_def shared_claim_def build_claim_def compareBackupRepositoryClaim_def)
  from claimed_repository_matches [OF run] run show ?thesis by simp
qed

section \<open>The driver\<close>

lemma brs_update_at [simp]:
  "w_brs_update (\<lambda>m. m(k \<mapsto> x)) w = w\<lparr>w_brs := (w_brs w)(k \<mapsto> x)\<rparr>"
  "w_brcs_update (\<lambda>m. m(k' \<mapsto> y)) w = w\<lparr>w_brcs := (w_brcs w)(k' \<mapsto> y)\<rparr>"
  by simp_all

text \<open>
  C17. The repository of a claim is created once. A creation that succeeds returns the
  repository that is stored under the name the claim's unique identifier determines, no
  repository that existed before is changed, and creating it again, when the API server
  answers, returns the same repository and changes none.
\<close>

theorem repository_created_once:
  assumes "run_state (CreateBackupRepository E brc svcName) w = (Inr b, w')"
    and "\<forall>n. e_fate E' n = Accepted"
  shows "w_brs w' ('''', ''br-'' @ om_UID (brc_Meta brc)) = Some b \<and>
    (\<forall>k x. w_brs w k = Some x \<longrightarrow> w_brs w' k = Some x) \<and>
    (\<exists>n. run_state (CreateBackupRepository E' brc svcName') w' = (Inr b, w'\<lparr>w_tick := n\<rparr>))"
proof -
  let ?k = "('''', ''br-'' @ om_UID (brc_Meta brc))"
  obtain got w1 where get: "run_state (cr_get w_brs E ?k) w = (got, w1)" by fastforce
  have same: "w_brs w1 = w_brs w" using brs.get_keeps_sel [of E ?k w] get by simp
  have "w_brs w' ?k = Some b \<and> (\<forall>k x. w_brs w k = Some x \<longrightarrow> w_brs w' k = Some x)"
  proof (cases got)
    case (Inr x)
    with assms(1) get have "b = x" "w' = w1"
      by (simp_all add: CreateBackupRepository_def GetBackupRepositoryNameForBackupRepositoryClaim_def Let_def)
    with brs.get_result [OF get [unfolded Inr]] show ?thesis by simp
  next
    case (Inl e)
    with assms(1) get have "run_state (cr_create w_brs w_brs_update id E ?k
        (build_repository (snd ?k) brc svcName)) w1 = (Inr b, w')"
      by (simp add: CreateBackupRepository_def GetBackupRepositoryNameForBackupRepositoryClaim_def Let_def split: if_splits)
    from brs.create_ok [OF this] same show ?thesis by auto
  qed
  with assms(2) show ?thesis
    by (auto simp: CreateBackupRepository_def GetBackupRepositoryNameForBackupRepositoryClaim_def Let_def cr_get_def)
qed

definition open_claim :: BackupRepositoryClaim where
  "open_claim = (build_claim ''app'' ''brc-1'' [''bucket'' \<mapsto> ''b''] [''app''])
     \<lparr>brc_Meta := (brc_Meta (build_claim ''app'' ''brc-1'' [''bucket'' \<mapsto> ''b''] [''app'']))\<lparr>om_UID := ''u1''\<rparr>\<rparr>"

theorem repository_created_once_witness:
  "\<exists>b w'. run_state (CreateBackupRepository calm open_claim '''') empty_world = (Inr b, w') \<and>
     w_brs w' ('''', ''br-u1'') = Some b \<and> br_BackupRepositoryClaim b = ''brc-1''"
proof -
  let ?run = "run_state (CreateBackupRepository calm open_claim '''') empty_world"
  have "case fst ?run of Inl _ \<Rightarrow> False | Inr b \<Rightarrow> br_BackupRepositoryClaim b = ''brc-1''"
    by (simp add: evals open_claim_def)
  then obtain b where b: "fst ?run = Inr b" "br_BackupRepositoryClaim b = ''brc-1''" by (auto split: sum.splits)
  then have run: "?run = (Inr b, snd ?run)" by (metis prod.collapse)
  from repository_created_once [OF run, of calm] have "w_brs (snd ?run) ('''', ''br-u1'') = Some b"
    by (simp add: open_claim_def)
  with b run show ?thesis by blast
qed

text \<open>
  A claim is answered. In a cluster without supervisor and with an answering API server, a
  turn of the claim worker on a claim that is stored as the cache shows it, and not being
  deleted, succeeds: it stores the claim's repository, carrying the claim's parameters if it
  is new, and writes its name into the claim.
\<close>

theorem claim_is_answered:
  assumes "\<forall>n. e_fate E n = Accepted" and "e_brc_cache E (w_tick w) k = Inr brc" and "w_brcs w k = Some brc"
    and "om_DeletionTimestamp (brc_Meta brc) = None" and "dr_guest C = False"
    and "w_brs w ('''', ''br-'' @ om_UID (brc_Meta brc)) = None"
  shows "\<exists>w' b. run_state (syncBackupRepositoryClaimByKey E fuel C k) w = (Some None, w') \<and>
    w_brs w' = (w_brs w)(('''', ''br-'' @ om_UID (brc_Meta brc)) \<mapsto> b) \<and>
    br_RepositoryParameters b = brc_RepositoryParameters brc \<and>
    br_AllowedNamespaces b = brc_AllowedNamespaces brc \<and> br_BackupRepositoryClaim b = om_Name (brc_Meta brc) \<and>
    w_brcs w' = (w_brcs w)(k \<mapsto> brc\<lparr>brc_BackupRepository := ''br-'' @ om_UID (brc_Meta brc)\<rparr>)"
proof -
  let ?name = "''br-'' @ om_UID (brc_Meta brc)"
  let ?b = "build_repository ?name brc ''''"
  let ?w1 = "w\<lparr>w_tick := Suc (Suc (Suc (w_tick w))), w_brs := (w_brs w)(('''', ?name) \<mapsto> ?b)\<rparr>"
  have create: "run_state (CreateBackupRepository E brc '''') (w\<lparr>w_tick := Suc (w_tick w)\<rparr>) = (Inr ?b, ?w1)"
    using assms(1,6)
    by (simp add: CreateBackupRepository_def GetBackupRepositoryNameForBackupRepositoryClaim_def cr_get_def
        cr_create_def Let_def)
  have "silent (set_repository ?name brc)" unfolding set_repository_def by simp
  with brc_patch.patch_accepted [OF assms(1), of ?w1 k brc "set_repository ?name"
      "ErrWrap ''Failed to patch BackupRepositoryClaim''"] assms(3)
  have "\<exists>n. run_state (PatchBackupRepositoryClaim E k brc ?name) ?w1 = (None, ?w1\<lparr>w_tick := n,
      w_brcs := (w_brcs w)(k \<mapsto> brc\<lparr>brc_BackupRepository := ?name\<rparr>)\<rparr>)"
    by (auto simp: PatchBackupRepositoryClaim_def patchBackupRepositoryClaimInt_def set_repository_def)
  then obtain n where "run_state (PatchBackupRepositoryClaim E k brc ?name) ?w1 = (None, ?w1\<lparr>w_tick := n,
      w_brcs := (w_brcs w)(k \<mapsto> brc\<lparr>brc_BackupRepository := ?name\<rparr>)\<rparr>)" by blast
  with create assms(2,4,5) show ?thesis
    by (auto simp: syncBackupRepositoryClaimByKey_def build_repository_def)
qed

theorem claim_is_answered_witness:
  "\<exists>w' b. run_state (syncBackupRepositoryClaimByKey (calm\<lparr>e_brc_cache := (\<lambda>n k. Inr open_claim)\<rparr>) 0 vanilla
       (''app'', ''brc-1'')) (empty_world\<lparr>w_brcs := [(''app'', ''brc-1'') \<mapsto> open_claim]\<rparr>) = (Some None, w') \<and>
     w_brs w' ('''', ''br-u1'') = Some b \<and>
     map_option brc_BackupRepository (w_brcs w' (''app'', ''brc-1'')) = Some ''br-u1''"
  using claim_is_answered [of "calm\<lparr>e_brc_cache := (\<lambda>n k. Inr open_claim)\<rparr>"
      "empty_world\<lparr>w_brcs := [(''app'', ''brc-1'') \<mapsto> open_claim]\<rparr>" "(''app'', ''brc-1'')" open_claim vanilla 0]
  by (auto simp: open_claim_def build_claim_def vanilla_def empty_world_def)

end
