(* ===== verification/Plugin_Env.thy ===== *)
theory Plugin_Env
  imports Backup_Repository
begin

text \<open>
  What the Velero plugin process works with (\<^verbatim>\<open>pkg/plugin\<close>, \<^verbatim>\<open>pkg/snapshotUtils\<close>): the
  items Velero hands over, the parts of the Kubernetes objects that are read, and
  \<open>plugin_env\<close>, the parameter for the code outside the repository that only this process
  calls: informers, the conversion and serialisation of Kubernetes objects, Velero's own
  helpers. As in \<open>env\<close>, an answer may depend on the number of the call and nothing is assumed
  about it unless a theorem says so.
\<close>

section \<open>Objects\<close>

text \<open>
  \<^verbatim>\<open>runtime.Unstructured\<close>: the kind and version the metadata accessor reads, and the rest of
  the content, which only the converter looks into.
\<close>

record unstructured =
  un_APIVersion :: "goerr + string"
  un_Kind :: "goerr + string"
  un_Content :: string

text \<open>A nil annotation map is \<open>None\<close>; \<open>\<dots>Other\<close> is what the code carries along unread.\<close>

record PersistentVolumeClaim =
  pvc_Namespace :: string
  pvc_Name :: string
  pvc_Kind :: string
  pvc_Annotations :: "(string \<rightharpoonup> string) option"
  pvc_StorageClassName :: "string option"
  pvc_VolumeName :: string
  pvc_Phase :: string
  pvc_Other :: string

record PersistentVolume =
  vol_Name :: string
  vol_Annotations :: "string \<rightharpoonup> string"
  vol_CSI :: "(string \<times> string) option"  \<comment> \<open>driver and volume handle\<close>
  vol_VsphereVolume :: bool  \<comment> \<open>the in-tree volume source is set\<close>
  vol_Other :: string

record Pod =
  pd_Namespace :: string
  pd_Name :: string
  pd_Labels :: "string \<rightharpoonup> string"
  pd_Annotations :: "(string \<rightharpoonup> string) option"
  pd_OtherMeta :: string  \<comment> \<open>the remaining object metadata, empty when nothing is set\<close>
  pd_Volumes :: "(string \<times> string option) list"  \<comment> \<open>name, and claim if it is a claim's volume\<close>
  pd_Other :: string

text \<open>What the actions read of Velero's Backup and of the input of a restore.\<close>

record Backup =
  bk_Name :: string
  bk_SnapshotVolumes :: "bool option"
  bk_DefaultVolumesToFsBackup :: "bool option"
  bk_StorageLocation :: string

record RestoreInput =
  ri_Item :: unstructured
  ri_ItemFromBackup :: unstructured
  ri_RestorePVs :: "bool option"
  ri_NamespaceMapping :: "string \<rightharpoonup> string"
  ri_BackupName :: string

record RestoreOutput =
  ro_UpdatedItem :: "unstructured option"
  ro_SkipRestore :: bool

section \<open>Informers\<close>

text \<open>
  What a watching client sees next: an object that was there or appeared, one that changed,
  one that is gone, or the end of the context.
\<close>

datatype 'o watch = WatchAdded 'o | WatchUpdated 'o | WatchDeleted 'o | WatchDone

section \<open>The plugin's surroundings\<close>

record plugin_env =
  p_snapshot_event :: "nat \<Rightarrow> Snapshot watch"
  p_delete_event :: "nat \<Rightarrow> DeleteSnapshot watch"
  p_clone_event :: "nat \<Rightarrow> CloneFromSnapshot watch"
  p_snapshot_to_json :: "Snapshot \<Rightarrow> goerr + string"
  p_snapshot_of_json :: "string \<Rightarrow> goerr + Snapshot"
  p_pvc_marshal :: "PersistentVolumeClaim \<Rightarrow> goerr + string"  \<comment> \<open>protocol buffers\<close>
  p_pvc_unmarshal :: "string \<Rightarrow> goerr + PersistentVolumeClaim"
  p_pvc_to :: "PersistentVolumeClaim \<Rightarrow> goerr + unstructured"  \<comment> \<open>the unstructured converter\<close>
  p_pvc_from :: "string \<Rightarrow> goerr + PersistentVolumeClaim"
  p_pod_to :: "Pod \<Rightarrow> goerr + unstructured"
  p_pod_from :: "string \<Rightarrow> goerr + Pod"
  p_pv_to :: "PersistentVolume \<Rightarrow> goerr + unstructured"
  p_pv_from :: "string \<Rightarrow> goerr + PersistentVolume"
  p_group_version :: "string \<Rightarrow> (string \<times> string) option"  \<comment> \<open>schema.ParseGroupVersion\<close>
  p_get_pv :: "nat \<Rightarrow> string \<Rightarrow> goerr + PersistentVolume"
  p_get_pvc :: "nat \<Rightarrow> key \<Rightarrow> goerr + PersistentVolumeClaim"
  p_pods :: "nat \<Rightarrow> string \<Rightarrow> goerr + Pod list"
  p_fs_volumes :: "Pod \<Rightarrow> bool \<Rightarrow> string list"  \<comment> \<open>Velero's GetVolumesByPod\<close>
  p_storage_class :: "nat \<Rightarrow> string \<Rightarrow> goerr + string option"  \<comment> \<open>its VolumeBindingMode\<close>
  p_config_maps :: "nat \<Rightarrow> string \<Rightarrow> string \<Rightarrow> goerr + (string \<times> (string \<rightharpoonup> string)) list"
    \<comment> \<open>namespace and label selector; name and data of each\<close>
  p_range :: "nat \<Rightarrow> string set \<Rightarrow> string list"  \<comment> \<open>Go's iteration order over the keys of a map\<close>
  p_backup_location :: "nat \<Rightarrow> key \<Rightarrow> goerr + string"  \<comment> \<open>storage location of a Velero Backup\<close>
  p_file :: "nat \<Rightarrow> goerr option"  \<comment> \<open>creating, writing or closing a temporary file\<close>
  p_aws_credentials :: "nat \<Rightarrow> string \<Rightarrow> string \<Rightarrow> goerr + (string \<times> string)"
    \<comment> \<open>the credentials of a profile in a shared credentials file\<close>
  p_version :: string  \<comment> \<open>buildinfo.Version, set by the linker\<close>

text \<open>
  Go leaves the order of a map's iteration open; what it promises is that every key is
  visited once.
\<close>

definition ranges_over_keys :: "plugin_env \<Rightarrow> bool" where
  "ranges_over_keys P \<longleftrightarrow>
     (\<forall>n S. finite S \<longrightarrow> set (p_range P n S) = S \<and> distinct (p_range P n S))"

text \<open>An error that is wrapped on its way up; a panic is not.\<close>

definition wrap_error :: "string \<Rightarrow> goerr \<Rightarrow> goerr" where
  "wrap_error msg e = (if is_panic e then e else ErrWrap msg e)"

lemma wrap_error_panic [simp]: "is_panic (wrap_error msg e) = is_panic e"
  by (simp add: wrap_error_def)

section \<open>Constants (pkg/constants/constants.go)\<close>

definition ItemSnapshotLabel :: string where
  "ItemSnapshotLabel = ''velero-plugin-for-vsphere/item-snapshot-blob''"
definition PluginVersionLabel :: string where
  "PluginVersionLabel = ''velero-plugin-for-vsphere/plugin-version''"
definition AnnVolumeHealth :: string where
  "AnnVolumeHealth = ''volumehealth.storage.kubernetes.io/health''"
definition AnnVolumeHealthTS :: string where
  "AnnVolumeHealthTS = ''volumehealth.storage.kubernetes.io/health-timestamp''"
definition EmptyStorageClass :: string where
  "EmptyStorageClass = ''com.vmware.cnsdp.emptystorageclass''"
definition VMwareSystemVMUUID :: string where
  "VMwareSystemVMUUID = ''vmware-system-vm-uuid''"
definition ResourcesToBlockListName :: string where
  "ResourcesToBlockListName = ''velero-vsphere-plugin-blocked-resources-list''"
definition CSIMigratedVolumeSupportFlag :: string where
  "CSIMigratedVolumeSupportFlag = ''csi-migrated-volume-support''"

definition ResourcesToHandle :: "string list" where
  "ResourcesToHandle = [''persistentvolumeclaims'']"

definition ResourcesToBlockOnRestore :: "string list" where
  "ResourcesToBlockOnRestore = [''pods'', ''images.imagecontroller.vmware.com'',
     ''nsxlbmonitors.vmware.com'', ''nsxloadbalancermonitors.vmware.com'']"

definition PodAnnotationsToSkip :: "string list" where
  "PodAnnotationsToSkip = [''kubernetes.io/psp'', ''mac'', ''vlan'',
     ''vmware-system-ephemeral-disk-uuid'', ''vmware-system-image-references'',
     ''vmware-system-vm-moid'', ''vmware-system-vm-uuid'', ''vmware-system-network'',
     ''nsx.vmware.com/attachment'', ''nsx.vmware.com/mac'']"


section \<open>A concrete environment\<close>

text \<open>
  Surroundings in which a claim \<open>app/data\<close> on a vSphere volume is backed up and restored, for
  evaluating the actions. Texts are separated by bars; \<open>checked\<close> refuses what it could not read
  back, so that the codecs are faithful by construction.
\<close>

definition checked :: "('a \<Rightarrow> 't) \<Rightarrow> ('t \<Rightarrow> goerr + 'a) \<Rightarrow> 'a \<Rightarrow> goerr + 't" where
  "checked enc dec x = (if dec (enc x) = Inr x then Inr (enc x) else Inl (ErrMsg ''cannot encode''))"

lemma checked_roundtrip: "checked enc dec x = Inr t \<Longrightarrow> dec t = Inr x"
  by (auto simp: checked_def split: if_splits)

definition sample_claim :: "string \<Rightarrow> string \<Rightarrow> string \<Rightarrow> PersistentVolumeClaim" where
  "sample_claim ns name cls = \<lparr>pvc_Namespace = ns, pvc_Name = name, pvc_Kind = ''PersistentVolumeClaim'',
     pvc_Annotations = None, pvc_StorageClassName = Some cls, pvc_VolumeName = ''pv-1'',
     pvc_Phase = ''Bound'', pvc_Other = ''''\<rparr>"

definition read_claim :: "string \<Rightarrow> goerr + PersistentVolumeClaim" where
  "read_claim t = (case split_on (CHR ''|'') t of
      [ns, name, cls] \<Rightarrow> Inr (sample_claim ns name cls)
    | [ns, name, cls, a] \<Rightarrow> Inr ((sample_claim ns name cls)\<lparr>pvc_Annotations :=
         Some [ItemSnapshotLabel \<mapsto> a, PluginVersionLabel \<mapsto> ''v1'']\<rparr>)
    | _ \<Rightarrow> Inl (ErrMsg ''no claim''))"

definition print_claim :: "PersistentVolumeClaim \<Rightarrow> string" where
  "print_claim c = pvc_Namespace c @ ''|'' @ pvc_Name c @ ''|'' @
     (case pvc_StorageClassName c of None \<Rightarrow> '''' | Some s \<Rightarrow> s) @
     (case pvc_Annotations c of None \<Rightarrow> '''' | Some m \<Rightarrow>
        ''|'' @ (case m ItemSnapshotLabel of None \<Rightarrow> '''' | Some a \<Rightarrow> a))"

definition claim_item :: "string \<Rightarrow> unstructured" where
  "claim_item t = \<lparr>un_APIVersion = Inr ''v1'', un_Kind = Inr ''PersistentVolumeClaim'', un_Content = t\<rparr>"

definition sample_uuid :: string where "sample_uuid = ''11111111-2222-3333-4444-555555555555''"

definition sample_snapshot :: Snapshot where
  "sample_snapshot = \<lparr>
     sn_Meta = \<lparr>om_Namespace = ''app'', om_Name = ''snap-'' @ sample_uuid, om_UID = '''', om_Labels = Map.empty,
       om_DeletionTimestamp = None\<rparr>,
     sn_Spec = \<lparr>sns_Reference = \<lparr>tr_APIGroup = Some '''', tr_Kind = ''PersistentVolumeClaim'', tr_Name = ''data''\<rparr>,
       sns_BackupRepository = '''', sns_SnapshotCancel = False\<rparr>,
     sn_Status = \<lparr>snt_Phase = SnapshotPhaseSnapshotted, snt_Message = '''',
       snt_Progress = \<lparr>snp_TotalBytes = 0, snp_BytesDone = 0\<rparr>, snt_SnapshotID = ''pvc|app/data|s'',
       snt_SvcSnapshotName = '''', snt_Metadata = ''app|data|gold'', snt_CompletionTimestamp = None\<rparr>\<rparr>"

definition sample_clone :: CloneFromSnapshot where
  "sample_clone = \<lparr>
     cl_Meta = \<lparr>om_Namespace = ''copy'', om_Name = sample_uuid, om_UID = '''', om_Labels = Map.empty,
       om_DeletionTimestamp = None\<rparr>,
     cl_Spec = \<lparr>cls_SnapshotID = '''', cls_Metadata = '''', cls_APIGroup = None, cls_Kind = '''',
       cls_BackupRepository = '''', cls_CloneCancel = False\<rparr>,
     cl_Status = \<lparr>clt_Phase = ClonePhaseCompleted, clt_Message = '''', clt_ResourceHandle = None,
       clt_CompletionTimestamp = None\<rparr>\<rparr>"

definition sample_delete :: DeleteSnapshot where
  "sample_delete = \<lparr>
     d_Meta = \<lparr>om_Namespace = ''velero'', om_Name = ''delete-'' @ sample_uuid, om_UID = '''', om_Labels = Map.empty,
       om_DeletionTimestamp = None\<rparr>,
     d_Spec = \<lparr>ds_SnapshotID = '''', ds_BackupRepository = ''''\<rparr>,
     d_Status = \<lparr>dt_Phase = DeleteSnapshotPhaseCompleted, dt_Message = '''', dt_CompletionTimestamp = None\<rparr>\<rparr>"

definition read_snapshot :: "string \<Rightarrow> goerr + Snapshot" where
  "read_snapshot t = (if t = ''{}'' then Inr sample_snapshot else Inl (ErrMsg ''no snapshot''))"

definition sample_volume :: PersistentVolume where
  "sample_volume = \<lparr>vol_Name = ''pv-1'', vol_Annotations = Map.empty, vol_CSI = Some (''csi.vsphere.vmware.com'', ''h''),
     vol_VsphereVolume = False, vol_Other = ''''\<rparr>"

definition calm_plugin :: plugin_env where
  "calm_plugin = \<lparr>
     p_snapshot_event = (\<lambda>n. WatchAdded sample_snapshot),
     p_delete_event = (\<lambda>n. WatchAdded sample_delete),
     p_clone_event = (\<lambda>n. WatchAdded sample_clone),
     p_snapshot_to_json = checked (\<lambda>s. ''{}'') read_snapshot,
     p_snapshot_of_json = read_snapshot,
     p_pvc_marshal = checked print_claim read_claim,
     p_pvc_unmarshal = read_claim,
     p_pvc_to = (\<lambda>c. case checked print_claim read_claim c of Inl e \<Rightarrow> Inl e | Inr t \<Rightarrow> Inr (claim_item t)),
     p_pvc_from = read_claim,
     p_pod_to = (\<lambda>p. Inl (ErrMsg ''no pods'')),
     p_pod_from = (\<lambda>t. Inl (ErrMsg ''no pods'')),
     p_pv_to = (\<lambda>p. Inl (ErrMsg ''no volumes'')),
     p_pv_from = (\<lambda>t. Inl (ErrMsg ''no volumes'')),
     p_group_version = (\<lambda>v. case cut_first (CHR ''/'') v of None \<Rightarrow> Some ('''', v) | Some gv \<Rightarrow> Some gv),
     p_get_pv = (\<lambda>n name. Inr sample_volume),
     p_get_pvc = (\<lambda>n k. Inl (ErrAPI (NotFound ''claim''))),
     p_pods = (\<lambda>n ns. Inr []),
     p_fs_volumes = (\<lambda>p d. []),
     p_storage_class = (\<lambda>n name. Inr (Some ''Immediate'')),
     p_config_maps = (\<lambda>n ns sel. Inr []),
     p_range = (\<lambda>n S. []),
     p_backup_location = (\<lambda>n k. Inr ''default''),
     p_file = (\<lambda>n. None),
     p_aws_credentials = (\<lambda>n v p. Inr (''id'', ''key'')),
     p_version = ''v1''\<rparr>"

lemma calm_plugin_answers [simp]:
  "p_snapshot_event calm_plugin = (\<lambda>n. WatchAdded sample_snapshot)"
  "p_delete_event calm_plugin = (\<lambda>n. WatchAdded sample_delete)"
  "p_clone_event calm_plugin = (\<lambda>n. WatchAdded sample_clone)"
  "p_snapshot_to_json calm_plugin = checked (\<lambda>s. ''{}'') read_snapshot"
  "p_snapshot_of_json calm_plugin = read_snapshot"
  "p_pvc_marshal calm_plugin = checked print_claim read_claim"
  "p_pvc_unmarshal calm_plugin = read_claim"
  "p_pvc_to calm_plugin = (\<lambda>c. case checked print_claim read_claim c of Inl e \<Rightarrow> Inl e | Inr t \<Rightarrow> Inr (claim_item t))"
  "p_pvc_from calm_plugin = read_claim"
  "p_pod_to calm_plugin = (\<lambda>p. Inl (ErrMsg ''no pods''))"
  "p_pod_from calm_plugin = (\<lambda>t. Inl (ErrMsg ''no pods''))"
  "p_group_version calm_plugin = (\<lambda>v. case cut_first (CHR ''/'') v of None \<Rightarrow> Some ('''', v) | Some gv \<Rightarrow> Some gv)"
  "p_get_pv calm_plugin = (\<lambda>n name. Inr sample_volume)"
  "p_get_pvc calm_plugin = (\<lambda>n k. Inl (ErrAPI (NotFound ''claim'')))"
  "p_pods calm_plugin = (\<lambda>n ns. Inr [])"
  "p_fs_volumes calm_plugin = (\<lambda>p d. [])"
  "p_storage_class calm_plugin = (\<lambda>n name. Inr (Some ''Immediate''))"
  "p_config_maps calm_plugin = (\<lambda>n ns sel. Inr [])"
  "p_backup_location calm_plugin = (\<lambda>n k. Inr ''default'')"
  "p_version calm_plugin = ''v1''"
  by (simp_all add: calm_plugin_def)

text \<open>A cluster in local mode: no repository has to be claimed.\<close>

definition local_env :: env where
  "local_env = calm\<lparr>e_config_map := (\<lambda>n k. Inr [''local-mode'' \<mapsto> ''true''])\<rparr>"

definition sample_backup :: Backup where
  "sample_backup = \<lparr>bk_Name = ''nightly'', bk_SnapshotVolumes = None, bk_DefaultVolumesToFsBackup = None,
     bk_StorageLocation = ''default''\<rparr>"

definition sample_restore :: "unstructured \<Rightarrow> RestoreInput" where
  "sample_restore item = \<lparr>ri_Item = item, ri_ItemFromBackup = item, ri_RestorePVs = None,
     ri_NamespaceMapping = [''app'' \<mapsto> ''copy''], ri_BackupName = ''nightly''\<rparr>"

lemmas plugin_samples [evals] =
  checked_def sample_claim_def read_claim_def print_claim_def claim_item_def sample_uuid_def sample_snapshot_def
  sample_clone_def sample_delete_def read_snapshot_def sample_volume_def local_env_def sample_backup_def
  sample_restore_def wrap_error_def ItemSnapshotLabel_def PluginVersionLabel_def AnnVolumeHealth_def
  AnnVolumeHealthTS_def EmptyStorageClass_def ResourcesToBlockListName_def CSIMigratedVolumeSupportFlag_def

end
