(* ===== verification/Snapshot_Utils.thy ===== *)
theory Snapshot_Utils
  imports Plugin_Env
begin

text \<open>
  Requests to the backup driver (\<^verbatim>\<open>pkg/snapshotUtils\<close> and the builders of the three kinds
  of resource in \<^verbatim>\<open>pkg/builder\<close>): the plugin creates a Snapshot, DeleteSnapshot or
  CloneFromSnapshot, announces it by writing the phase New into its status, and waits until an
  informer shows it in one of the phases it is interested in.

  The three source files repeat one program; here it is written once (\<open>file_request\<close>,
  \<open>wait_phases\<close>) and applied three times. The locale \<open>request_kind\<close> is the contract of
  one kind.
\<close>

section \<open>Builders\<close>

definition AppendVeleroExcludeLabels :: "(string \<rightharpoonup> string) \<Rightarrow> (string \<rightharpoonup> string)" where
  "AppendVeleroExcludeLabels origLabels = origLabels(VeleroExcludeLabel \<mapsto> ''true'')"

definition build_meta :: "string \<Rightarrow> string \<Rightarrow> (string \<rightharpoonup> string) \<Rightarrow> ObjectMeta" where
  "build_meta ns name labels = \<lparr>om_Namespace = ns, om_Name = name, om_UID = '''',
     om_Labels = AppendVeleroExcludeLabels labels, om_DeletionTimestamp = None\<rparr>"

definition no_snapshot_status :: SnapshotStatus where
  "no_snapshot_status = \<lparr>snt_Phase = SnapshotPhaseUnset, snt_Message = '''',
     snt_Progress = \<lparr>snp_TotalBytes = 0, snp_BytesDone = 0\<rparr>, snt_SnapshotID = '''',
     snt_SvcSnapshotName = '''', snt_Metadata = '''', snt_CompletionTimestamp = None\<rparr>"

definition no_delete_status :: DeleteSnapshotStatus where
  "no_delete_status = \<lparr>dt_Phase = DeleteSnapshotPhaseUnset, dt_Message = '''', dt_CompletionTimestamp = None\<rparr>"

definition no_clone_status :: CloneStatus where
  "no_clone_status = \<lparr>clt_Phase = ClonePhaseUnset, clt_Message = '''', clt_ResourceHandle = None,
     clt_CompletionTimestamp = None\<rparr>"

definition ForSnapshot ::
  "string \<Rightarrow> string \<Rightarrow> (string \<rightharpoonup> string) \<Rightarrow> string \<Rightarrow> TypedLocalObjectReference \<Rightarrow> bool \<Rightarrow> Snapshot" where
  "ForSnapshot ns name labels repo ref cancel = \<lparr>sn_Meta = build_meta ns name labels,
     sn_Spec = \<lparr>sns_Reference = ref, sns_BackupRepository = repo, sns_SnapshotCancel = cancel\<rparr>,
     sn_Status = no_snapshot_status\<rparr>"

definition ForDeleteSnapshot :: "string \<Rightarrow> string \<Rightarrow> string \<Rightarrow> string \<Rightarrow> DeleteSnapshot" where
  "ForDeleteSnapshot ns name snapshotID repo = \<lparr>d_Meta = build_meta ns name Map.empty,
     d_Spec = \<lparr>ds_SnapshotID = snapshotID, ds_BackupRepository = repo\<rparr>, d_Status = no_delete_status\<rparr>"

definition ForCloneFromSnapshot ::
  "string \<Rightarrow> string \<Rightarrow> string \<Rightarrow> string \<Rightarrow> string option \<Rightarrow> string \<Rightarrow> string \<Rightarrow> CloneFromSnapshot" where
  "ForCloneFromSnapshot ns name snapshotID metadata apiGroup kind repo = \<lparr>
     cl_Meta = build_meta ns name Map.empty,
     cl_Spec = \<lparr>cls_SnapshotID = snapshotID, cls_Metadata = metadata, cls_APIGroup = apiGroup,
       cls_Kind = kind, cls_BackupRepository = repo, cls_CloneCancel = False\<rparr>,
     cl_Status = no_clone_status\<rparr>"

section \<open>Filing a request\<close>

text \<open>
  Create the object and announce it. The status is a subresource, so the API server stores the
  new object with an empty status (which is what the builders set) and the announcement is a
  second request; \<open>announce\<close> puts the status of the object that came back, with the phase
  New, into the stored one.
\<close>

definition file_request ::
  "(world \<Rightarrow> key \<Rightarrow> 'o option) \<Rightarrow> (((key \<Rightarrow> 'o option) \<Rightarrow> (key \<Rightarrow> 'o option)) \<Rightarrow> world \<Rightarrow> world) \<Rightarrow>
   ('o \<Rightarrow> 'o \<Rightarrow> 'o) \<Rightarrow> string \<Rightarrow> string \<Rightarrow> env \<Rightarrow> key \<Rightarrow> 'o \<Rightarrow> (world, goerr + 'o) state" where
  "file_request sel upd announce createMsg updateMsg E k x = do {
     created \<leftarrow> cr_create sel upd id E k x;
     (case created of
        Inl e \<Rightarrow> State_Monad.return (Inl (ErrWrap createMsg e))
      | Inr written \<Rightarrow> do {
          r \<leftarrow> cr_modify sel upd E k (announce written);
          State_Monad.return (case r of Inl e \<Rightarrow> Inl (ErrWrap updateMsg e) | Inr y \<Rightarrow> Inr y)
        })
   }"

definition announce_snapshot :: "Snapshot \<Rightarrow> Snapshot \<Rightarrow> Snapshot" where
  "announce_snapshot x cur = cur\<lparr>sn_Status := (sn_Status x)\<lparr>snt_Phase := SnapshotPhaseNew\<rparr>\<rparr>"

definition announce_delete :: "DeleteSnapshot \<Rightarrow> DeleteSnapshot \<Rightarrow> DeleteSnapshot" where
  "announce_delete x cur = cur\<lparr>d_Status := (d_Status x)\<lparr>dt_Phase := DeleteSnapshotPhaseNew\<rparr>\<rparr>"

definition announce_clone :: "CloneFromSnapshot \<Rightarrow> CloneFromSnapshot \<Rightarrow> CloneFromSnapshot" where
  "announce_clone x cur = cur\<lparr>cl_Status := (cl_Status x)\<lparr>clt_Phase := ClonePhaseNew\<rparr>\<rparr>"

section \<open>Waiting for a phase\<close>

text \<open>
  What the wait makes of one event. Events of other objects are ignored; of the object itself,
  one that shows a waited phase is the result. On a deletion the handler sends a nil item with
  an error, and the receiver's type assertion on the nil interface panics before the error is
  looked at.
\<close>

definition nil_item :: goerr where
  "nil_item = GoPanic ''interface conversion: interface {} is nil''"

fun verdict ::
  "('o \<Rightarrow> string) \<Rightarrow> ('o \<Rightarrow> 'p) \<Rightarrow> string \<Rightarrow> 'p list \<Rightarrow> 'o watch \<Rightarrow> (goerr + 'o) option" where
  "verdict name_of phase_of name phases (WatchAdded x) =
     (if name_of x \<noteq> name then None else if phase_of x \<in> set phases then Some (Inr x) else None)"
| "verdict name_of phase_of name phases (WatchUpdated x) =
     (if name_of x \<noteq> name then None else if phase_of x \<in> set phases then Some (Inr x) else None)"
| "verdict name_of phase_of name phases (WatchDeleted x) =
     (if name_of x \<noteq> name then None else Some (Inl nil_item))"
| "verdict name_of phase_of name phases WatchDone = Some (Inl ErrCanceled)"

text \<open>\<open>fuel\<close> bounds the number of events looked at; \<open>None\<close> is a wait that goes on.\<close>

primrec wait_phases ::
  "(nat \<Rightarrow> 'o watch) \<Rightarrow> ('o watch \<Rightarrow> (goerr + 'o) option) \<Rightarrow> nat \<Rightarrow> (world, (goerr + 'o) option) state" where
  "wait_phases events decide 0 = State_Monad.return None"
| "wait_phases events decide (Suc fuel) = do {
     ev \<leftarrow> ask events;
     (case decide ev of
        Some r \<Rightarrow> State_Monad.return (Some r)
      | None \<Rightarrow> wait_phases events decide fuel)
   }"

abbreviation snapshot_name :: "Snapshot \<Rightarrow> string" where "snapshot_name x \<equiv> om_Name (sn_Meta x)"
abbreviation snapshot_state :: "Snapshot \<Rightarrow> SnapshotPhase" where "snapshot_state x \<equiv> snt_Phase (sn_Status x)"
abbreviation delete_name :: "DeleteSnapshot \<Rightarrow> string" where "delete_name x \<equiv> om_Name (d_Meta x)"
abbreviation delete_state :: "DeleteSnapshot \<Rightarrow> DeleteSnapshotPhase" where "delete_state x \<equiv> dt_Phase (d_Status x)"
abbreviation clone_name :: "CloneFromSnapshot \<Rightarrow> string" where "clone_name x \<equiv> om_Name (cl_Meta x)"
abbreviation clone_state :: "CloneFromSnapshot \<Rightarrow> ClonePhase" where "clone_state x \<equiv> clt_Phase (cl_Status x)"

definition WaitForPhases ::
  "plugin_env \<Rightarrow> nat \<Rightarrow> Snapshot \<Rightarrow> SnapshotPhase list \<Rightarrow> (world, (goerr + Snapshot) option) state" where
  "WaitForPhases P fuel snapshotToWait phases =
     wait_phases (p_snapshot_event P)
       (verdict snapshot_name snapshot_state (snapshot_name snapshotToWait) phases) fuel"

definition WaitForDeleteSnapshotPhases ::
  "plugin_env \<Rightarrow> nat \<Rightarrow> DeleteSnapshot \<Rightarrow> DeleteSnapshotPhase list \<Rightarrow>
   (world, (goerr + DeleteSnapshot) option) state" where
  "WaitForDeleteSnapshotPhases P fuel deleteSnapshotToWait phases =
     wait_phases (p_delete_event P)
       (verdict delete_name delete_state (delete_name deleteSnapshotToWait) phases) fuel"

definition WaitForClonePhases ::
  "plugin_env \<Rightarrow> nat \<Rightarrow> CloneFromSnapshot \<Rightarrow> ClonePhase list \<Rightarrow>
   (world, (goerr + CloneFromSnapshot) option) state" where
  "WaitForClonePhases P fuel cloneToWait phases =
     wait_phases (p_clone_event P)
       (verdict clone_name clone_state (clone_name cloneToWait) phases) fuel"

section \<open>The three requests\<close>

text \<open>The result of a wait, with the caller's wrapping of an error.\<close>

definition awaited :: "string \<Rightarrow> (goerr + 'o) option \<Rightarrow> (goerr + 'o) option" where
  "awaited msg r = (case r of
      None \<Rightarrow> None
    | Some (Inl e) \<Rightarrow> Some (Inl (wrap_error msg e))
    | Some (Inr x) \<Rightarrow> Some (Inr x))"

definition SnapshotRef ::
  "env \<Rightarrow> plugin_env \<Rightarrow> nat \<Rightarrow> TypedLocalObjectReference \<Rightarrow> string \<Rightarrow> string \<Rightarrow> (string \<rightharpoonup> string) \<Rightarrow>
   SnapshotPhase list \<Rightarrow> (world, (goerr + Snapshot) option) state" where
  "SnapshotRef E P fuel objectToSnapshot ns repository labels phases = do {
     uuid \<leftarrow> ask (e_uuid E);
     (case uuid of
        Inl e \<Rightarrow> State_Monad.return (Some (Inl (ErrWrap ''Could not create snapshot UUID'' e)))
      | Inr u \<Rightarrow> do {
          let name = ''snap-'' @ u;
          filed \<leftarrow> file_request w_snapshots w_snapshots_update announce_snapshot
            ''Failed to create snapshot record'' ''Failed to update status of snapshot record''
            E (ns, name) (ForSnapshot ns name labels repository objectToSnapshot False);
          (case filed of
             Inl e \<Rightarrow> State_Monad.return (Some (Inl e))
           | Inr written \<Rightarrow> do {
               r \<leftarrow> WaitForPhases P fuel written phases;
               State_Monad.return (awaited ''Failed to wait for expected snapshot phases'' r)
             })
        })
   }"

definition DeleteSnapshotRef ::
  "env \<Rightarrow> plugin_env \<Rightarrow> nat \<Rightarrow> string \<Rightarrow> string \<Rightarrow> string \<Rightarrow> DeleteSnapshotPhase list \<Rightarrow>
   (world, (goerr + DeleteSnapshot) option) state" where
  "DeleteSnapshotRef E P fuel snapshotID ns repository phases = do {
     uuid \<leftarrow> ask (e_uuid E);
     (case uuid of
        Inl e \<Rightarrow> State_Monad.return (Some (Inl (ErrWrap ''Could not create deleteSnapshot UUID'' e)))
      | Inr u \<Rightarrow> do {
          let name = ''delete-'' @ u;
          filed \<leftarrow> file_request w_deletes w_deletes_update announce_delete
            ''Failed to create DeleteSnapshot record'' ''Failed to update status of delete snapshot record''
            E (ns, name) (ForDeleteSnapshot ns name snapshotID repository);
          (case filed of
             Inl e \<Rightarrow> State_Monad.return (Some (Inl e))
           | Inr written \<Rightarrow> do {
               r \<leftarrow> WaitForDeleteSnapshotPhases P fuel written phases;
               State_Monad.return (awaited ''Failed to wait for expected delete-snapshot phases'' r)
             })
        })
   }"

text \<open>
  The restore request is dated by its client: after the wait it writes the status it saw, with
  a completion time, whatever the phase is.
\<close>

definition date_clone :: "env \<Rightarrow> key \<Rightarrow> CloneFromSnapshot \<Rightarrow> (world, goerr + CloneFromSnapshot) state" where
  "date_clone E k updatedClone = do {
     now \<leftarrow> clock_now E;
     r \<leftarrow> cr_modify w_clones w_clones_update E k
       (\<lambda>cur. cur\<lparr>cl_Status := (cl_Status updatedClone)\<lparr>clt_CompletionTimestamp := Some (unix now)\<rparr>\<rparr>);
     State_Monad.return (case r of
         Inl e \<Rightarrow> Inl (ErrWrap ''Failed to update status of cloneFromSnapshot record'' e)
       | Inr y \<Rightarrow> Inr y)
   }"

definition CloneFromSnapshopRef ::
  "env \<Rightarrow> plugin_env \<Rightarrow> nat \<Rightarrow> string \<Rightarrow> string \<Rightarrow> string option \<Rightarrow> string \<Rightarrow> string \<Rightarrow> string \<Rightarrow> ClonePhase list \<Rightarrow>
   (world, (goerr + CloneFromSnapshot) option) state" where
  "CloneFromSnapshopRef E P fuel snapshotID metadata apiGroup kind ns repository phases = do {
     uuid \<leftarrow> ask (e_uuid E);
     (case uuid of
        Inl e \<Rightarrow> State_Monad.return (Some (Inl (ErrWrap ''Could not create cloneFromSnapshot UUID'' e)))
      | Inr name \<Rightarrow> do {
          filed \<leftarrow> file_request w_clones w_clones_update announce_clone
            ''Failed to create cloneFromSnapshot record'' ''Failed to update status of cloneFromSnapshot record''
            E (ns, name) (ForCloneFromSnapshot ns name snapshotID metadata apiGroup kind repository);
          (case filed of
             Inl e \<Rightarrow> State_Monad.return (Some (Inl e))
           | Inr written \<Rightarrow> do {
               r \<leftarrow> WaitForClonePhases P fuel written phases;
               (case awaited ''Failed to wait for expected clone phases'' r of
                  None \<Rightarrow> State_Monad.return None
                | Some (Inl e) \<Rightarrow> State_Monad.return (Some (Inl e))
                | Some (Inr updatedClone) \<Rightarrow> do {
                    d \<leftarrow> date_clone E (ns, name) updatedClone;
                    State_Monad.return (Some d)
                  })
             })
        })
   }"


section \<open>The wait is a search for the first decisive event\<close>

definition first_decision ::
  "(nat \<Rightarrow> 'o watch) \<Rightarrow> ('o watch \<Rightarrow> (goerr + 'o) option) \<Rightarrow> nat \<Rightarrow> nat \<Rightarrow> (goerr + 'o) option" where
  "first_decision events decide start n =
     (case find (\<lambda>i. decide (events i) \<noteq> None) [start ..< start + n] of
        None \<Rightarrow> None
      | Some i \<Rightarrow> decide (events i))"

lemma first_decision_Suc:
  "first_decision events decide start (Suc n) =
     (case decide (events start) of
        Some r \<Rightarrow> Some r
      | None \<Rightarrow> first_decision events decide (Suc start) n)"
proof -
  have "[start ..< start + Suc n] = start # [Suc start ..< Suc start + n]"
    by (simp add: upt_rec)
  then show ?thesis by (auto simp: first_decision_def split: option.splits)
qed

lemma wait_phases_spec:
  "fst (run_state (wait_phases events decide fuel) w) = first_decision events decide (w_tick w) fuel"
proof (induction fuel arbitrary: w)
  case 0
  show ?case by (simp add: first_decision_def)
next
  case (Suc fuel)
  show ?case
    by (cases "decide (events (w_tick w))") (simp_all add: first_decision_Suc Suc.IH)
qed

lemma keeps_wait_phases [frame]:
  assumes "\<And>w n. I w \<Longrightarrow> I (w\<lparr>w_tick := n\<rparr>)"
  shows "keeps I (wait_phases events decide fuel)"
proof (induction fuel)
  case (Suc fuel)
  show ?case unfolding wait_phases.simps
    by (intro keeps_rules frame Suc.IH) (use assms in auto)
qed (simp add: triple_return)

lemma first_decisionD:
  assumes "first_decision events decide start n = Some r"
  shows "\<exists>i. start \<le> i \<and> i < start + n \<and> decide (events i) = Some r \<and>
    (\<forall>j. start \<le> j \<longrightarrow> j < i \<longrightarrow> decide (events j) = None)"
  using assms
proof (induction n arbitrary: start)
  case (Suc n)
  show ?case
  proof (cases "decide (events start)")
    case None
    with Suc.prems have "first_decision events decide (Suc start) n = Some r"
      by (simp add: first_decision_Suc)
    from Suc.IH [OF this] obtain i where i: "Suc start \<le> i" "i < Suc start + n"
      "decide (events i) = Some r" "\<forall>j. Suc start \<le> j \<longrightarrow> j < i \<longrightarrow> decide (events j) = None"
      by blast
    have "decide (events j) = None" if "start \<le> j" "j < i" for j
      using that i(4) None by (cases "j = start") auto
    with i(1-3) show ?thesis by (intro exI [of _ i]) auto
  next
    case (Some r')
    with Suc.prems show ?thesis
      by (intro exI [of _ start]) (auto simp: first_decision_Suc)
  qed
qed (simp add: first_decision_def)

lemma first_decision_found:
  assumes "decide (events (start + i)) = Some r" and "\<And>j. j < i \<Longrightarrow> decide (events (start + j)) = None"
    and "i < n"
  shows "first_decision events decide start n = Some r"
  using assms
proof (induction i arbitrary: start n)
  case 0
  then obtain m where "n = Suc m" by (cases n) auto
  with 0 show ?case by (simp add: first_decision_Suc)
next
  case (Suc i)
  then obtain m where m: "n = Suc m" "i < m" by (cases n) auto
  have "first_decision events decide (Suc start) m = Some r"
    using Suc.prems(1) Suc.prems(2) [of "Suc _"] m(2) by (intro Suc.IH) auto
  with Suc.prems(2) [of 0] m(1) show ?case by (simp add: first_decision_Suc)
qed

lemma verdict_Inr:
  "verdict name_of phase_of name phases ev = Some (Inr x) \<longleftrightarrow>
   (ev = WatchAdded x \<or> ev = WatchUpdated x) \<and> name_of x = name \<and> phase_of x \<in> set phases"
  by (cases ev) auto

section \<open>The contract of a kind of request\<close>

text \<open>
  Announcing an object sets its phase to \<open>initial\<close> and changes nothing a client looks it up
  by. Everything else a client needs follows from the contract of custom resources: a filed
  request is a new object in the initial phase, and no other object of the kind is touched.
\<close>

locale request_kind = cr_kind sel upd
  for sel :: "world \<Rightarrow> key \<Rightarrow> 'o option"
    and upd :: "((key \<Rightarrow> 'o option) \<Rightarrow> (key \<Rightarrow> 'o option)) \<Rightarrow> world \<Rightarrow> world" +
  fixes announce :: "'o \<Rightarrow> 'o \<Rightarrow> 'o"
    and name_of :: "'o \<Rightarrow> string"
    and phase_of :: "'o \<Rightarrow> 'p"
    and initial :: 'p
  assumes announce_name: "name_of (announce x cur) = name_of cur"
    and announce_phase: "phase_of (announce x cur) = initial"
begin

lemma filed:
  assumes "run_state (file_request sel upd announce cm um E k x) w = (Inr y, w')"
  shows "sel w k = None" "y = announce x x" "sel w' = (sel w)(k \<mapsto> y)" "phase_of y = initial" "name_of y = name_of x"
proof -
  obtain r w1 where create: "run_state (cr_create sel upd id E k x) w = (r, w1)" by fastforce
  with assms obtain z where z: "r = Inr z" by (cases r) (auto simp: file_request_def)
  have made: "sel w k = None" "z = x" "sel w1 = (sel w)(k \<mapsto> x)"
    using create_ok [OF create [unfolded z]] by auto
  obtain r2 w2 where modify: "run_state (cr_modify sel upd E k (announce x)) w1 = (r2, w2)" by fastforce
  with assms create z made(2) have "r2 = Inr y" and w2: "w2 = w'"
    by (auto simp: file_request_def split: sum.splits)
  with modify_ok [OF modify [unfolded this(1)]] made(3)
  have "y = announce x x" "sel w' = (sel w)(k \<mapsto> y)" by auto
  then show "sel w k = None" "y = announce x x" "sel w' = (sel w)(k \<mapsto> y)" "phase_of y = initial" "name_of y = name_of x"
    using made(1) by (simp_all add: announce_phase announce_name)
qed

lemma file_keeps_others:
  assumes "k' \<noteq> k"
  shows "sel (snd (run_state (file_request sel upd announce cm um E k x) w)) k' = sel w k'"
proof -
  obtain r w1 where create: "run_state (cr_create sel upd id E k x) w = (r, w1)" by fastforce
  then have same: "sel w1 k' = sel w k'"
    using assms by (auto simp: cr_create_def Let_def sel_upd sel_tick split: fate.splits option.splits)
  show ?thesis
  proof (cases r)
    case (Inl e)
    with create same show ?thesis by (simp add: file_request_def)
  next
    case (Inr z)
    have "snd (run_state (file_request sel upd announce cm um E k x) w) =
      snd (run_state (cr_modify sel upd E k (announce z)) w1)"
      by (simp add: file_request_def create Inr split: prod.splits)
    with modify_other [OF assms, of E "announce z" w1] same show ?thesis by simp
  qed
qed

text \<open>An object that is there is never overwritten, even if an answer is lost.\<close>

lemma file_existing:
  assumes "sel w k = Some y"
  shows "sel (snd (run_state (file_request sel upd announce cm um E k x) w)) = sel w"
  using assms by (auto simp: file_request_def cr_create_def Let_def sel_tick split: fate.splits)

text \<open>
  Every outcome of filing: nothing was stored, or one new object, announced or not. \<open>I\<close> is
  whatever the client knows about the rest of the world.
\<close>

lemma file_triple:
  assumes tick: "\<And>w n. I w \<Longrightarrow> I (w\<lparr>w_tick := n\<rparr>)" and stored: "\<And>w f. I w \<Longrightarrow> I (upd f w)"
  shows "triple (\<lambda>w. I w \<and> sel w = S0) (file_request sel upd announce cm um E k x)
    (\<lambda>r w. I w \<and> (sel w = S0 \<or> S0 k = None \<and> (sel w = S0(k \<mapsto> x) \<or> sel w = S0(k \<mapsto> announce x x))) \<and>
       (\<forall>y. r = Inr y \<longrightarrow> S0 k = None \<and> y = announce x x \<and> sel w = S0(k \<mapsto> y)))"
proof (rule tripleI)
  fix w r w'
  assume pre: "I w \<and> sel w = S0"
  assume run: "run_state (file_request sel upd announce cm um E k x) w = (r, w')"
  have inv: "I w'"
    using pre run tick stored
    by (auto simp: file_request_def cr_create_def cr_modify_def Let_def
        split: fate.splits option.splits sum.splits prod.splits)
  have kept: "sel w' = S0 \<or> S0 k = None \<and> (sel w' = S0(k \<mapsto> x) \<or> sel w' = S0(k \<mapsto> announce x x))"
    using pre run
    by (auto simp: file_request_def cr_create_def cr_modify_def Let_def sel_upd sel_tick
        split: fate.splits option.splits sum.splits prod.splits)
  show "I w' \<and> (sel w' = S0 \<or> S0 k = None \<and> (sel w' = S0(k \<mapsto> x) \<or> sel w' = S0(k \<mapsto> announce x x))) \<and>
       (\<forall>y. r = Inr y \<longrightarrow> S0 k = None \<and> y = announce x x \<and> sel w' = S0(k \<mapsto> y))"
    using inv kept pre filed(1-3) run by (metis (no_types))
qed

text \<open>With an answering API server and a fresh name a request is filed.\<close>

lemma file_accepted:
  assumes "\<And>n. e_fate E n = Accepted" and "sel w k = None"
  shows "\<exists>w'. run_state (file_request sel upd announce cm um E k x) w = (Inr (announce x x), w') \<and>
    w_tick w' = Suc (Suc (w_tick w))"
  using assms
  by (auto simp: file_request_def cr_create_def cr_modify_def Let_def sel_upd sel_tick tick_upd)

end

interpretation snapshot_requests:
  request_kind w_snapshots w_snapshots_update announce_snapshot snapshot_name snapshot_state SnapshotPhaseNew
  by unfold_locales (simp_all add: announce_snapshot_def)

interpretation delete_requests:
  request_kind w_deletes w_deletes_update announce_delete delete_name delete_state DeleteSnapshotPhaseNew
  by unfold_locales (simp_all add: announce_delete_def)

interpretation clone_requests:
  request_kind w_clones w_clones_update announce_clone clone_name clone_state ClonePhaseNew
  by unfold_locales (simp_all add: announce_clone_def)

end
