(* ===== verification/Plugin_Util.thy ===== *)
theory Plugin_Util
  imports Snapshot_Utils
begin

text \<open>
  The helpers of the item actions (\<^verbatim>\<open>pkg/plugin/util/util.go\<close>) and what they use of
  \<^verbatim>\<open>pkg/cmd/utils.go\<close>: the snapshot that travels in an annotation of the PVC, the namespace
  and storage class mappings of a restore, the list of blocked resources, and the volumes that
  are somebody else's business.
\<close>

section \<open>The snapshot in the annotation\<close>

definition illegal_base64 :: goerr where
  "illegal_base64 = ErrMsg ''illegal base64 data''"

definition GetSnapshotFromPVCAnnotation :: "plugin_env \<Rightarrow> string \<Rightarrow> goerr + Snapshot" where
  "GetSnapshotFromPVCAnnotation P snapshotAnnotation =
     (case b64_std_decode snapshotAnnotation of
        None \<Rightarrow> Inl illegal_base64
      | Some decoded \<Rightarrow> p_snapshot_of_json P decoded)"

definition GetAnnotationFromSnapshot :: "plugin_env \<Rightarrow> Snapshot \<Rightarrow> goerr + string" where
  "GetAnnotationFromSnapshot P itemSnapshot =
     (case p_snapshot_to_json P itemSnapshot of
        Inl e \<Rightarrow> Inl e
      | Inr bytes \<Rightarrow> Inr (b64_std_encode bytes))"

definition RemoveAnnotations :: "string list \<Rightarrow> PersistentVolumeClaim \<Rightarrow> PersistentVolumeClaim" where
  "RemoveAnnotations keys obj =
     (case pvc_Annotations obj of
        None \<Rightarrow> obj
      | Some m \<Rightarrow> obj\<lparr>pvc_Annotations := Some (fold (\<lambda>k a. a(k := None)) keys m)\<rparr>)"

definition AddAnnotations :: "(string \<rightharpoonup> string) \<Rightarrow> PersistentVolumeClaim \<Rightarrow> PersistentVolumeClaim" where
  "AddAnnotations vals obj =
     (let m = (case pvc_Annotations obj of None \<Rightarrow> Map.empty | Some m \<Rightarrow> m)
      in obj\<lparr>pvc_Annotations := Some (m ++ vals)\<rparr>)"

section \<open>Rewriting the snapshot of a restore\<close>

definition set_metadata :: "string \<Rightarrow> Snapshot \<Rightarrow> Snapshot" where
  "set_metadata md s = s\<lparr>sn_Status := (sn_Status s)\<lparr>snt_Metadata := md\<rparr>\<rparr>"

definition UpdateSnapshotWithNewNamespace :: "plugin_env \<Rightarrow> Snapshot \<Rightarrow> string \<Rightarrow> goerr + Snapshot" where
  "UpdateSnapshotWithNewNamespace P itemSnapshot namespace =
     (case p_pvc_unmarshal P (snt_Metadata (sn_Status itemSnapshot)) of
        Inl e \<Rightarrow> Inl e
      | Inr pvc \<Rightarrow>
          (case p_pvc_marshal P (pvc\<lparr>pvc_Namespace := namespace\<rparr>) of
             Inl e \<Rightarrow> Inl e
           | Inr md \<Rightarrow> Inr (set_metadata md itemSnapshot)))"

definition GetKubeClient :: "env \<Rightarrow> bool \<Rightarrow> (world, goerr option) state" where
  "GetKubeClient E configGiven =
     (if configGiven then ask (e_client E)
      else connect (ErrWrap ''could not retrieve in-cluster config'') id E)"

definition StorageClassMappingSelector :: string where
  "StorageClassMappingSelector =
     ''velero.io/plugin-config,velero.io/change-storage-class=RestoreItemAction''"

text \<open>\<open>None\<close> in the result is a nil map: there is no config map with the labels.\<close>

definition RetrieveStorageClassMapping ::
  "env \<Rightarrow> plugin_env \<Rightarrow> bool \<Rightarrow> string \<Rightarrow> (world, goerr + (string \<rightharpoonup> string) option) state" where
  "RetrieveStorageClassMapping E P configGiven veleroNs = do {
     cl \<leftarrow> GetKubeClient E configGiven;
     (case cl of
        Some e \<Rightarrow> State_Monad.return (Inl e)
      | None \<Rightarrow> do {
          listed \<leftarrow> ask (\<lambda>n. p_config_maps P n veleroNs StorageClassMappingSelector);
          State_Monad.return (case listed of
              Inl e \<Rightarrow> Inl e
            | Inr [] \<Rightarrow> Inr None
            | Inr [(_, data)] \<Rightarrow> Inr (Some data)
            | Inr (_ # _ # _) \<Rightarrow> Inl (ErrMsg (''found more than one ConfigMap matching label selector '' @
                StorageClassMappingSelector)))
        })
   }"

definition claim_has_class :: "PersistentVolumeClaim \<Rightarrow> bool" where
  "claim_has_class pvc \<longleftrightarrow> pvc_StorageClassName pvc \<noteq> None \<and> pvc_StorageClassName pvc \<noteq> Some ''''"

definition no_class_error :: "PersistentVolumeClaim \<Rightarrow> string \<Rightarrow> goerr" where
  "no_class_error pvc consequence =
     ErrMsg (''PVC '' @ pvc_Namespace pvc @ ''/'' @ pvc_Name pvc @ '' has no storage class, '' @ consequence)"

definition WaitForFirstConsumer :: string where "WaitForFirstConsumer = ''WaitForFirstConsumer''"

definition ValidateRestoreStorageClass ::
  "env \<Rightarrow> plugin_env \<Rightarrow> bool \<Rightarrow> Snapshot option \<Rightarrow> (world, goerr option) state" where
  "ValidateRestoreStorageClass E P configGiven itemSnapshot =
     (case itemSnapshot of
        None \<Rightarrow> State_Monad.return (Some (ErrMsg
          ''itemSnapshot is nil, unable to retrieve the StorageClass for validation''))
      | Some s \<Rightarrow>
     (case p_pvc_unmarshal P (snt_Metadata (sn_Status s)) of
        Inl e \<Rightarrow> State_Monad.return (Some e)
      | Inr pvc \<Rightarrow>
          if \<not> claim_has_class pvc then
            State_Monad.return (Some (no_class_error pvc ''unable to validate StorageClass''))
          else do {
            cl \<leftarrow> GetKubeClient E configGiven;
            (case cl of
               Some e \<Rightarrow> State_Monad.return (Some e)
             | None \<Rightarrow> do {
                 sc \<leftarrow> ask (\<lambda>n. p_storage_class P n (the (pvc_StorageClassName pvc)));
                 State_Monad.return (case sc of
                     Inl e \<Rightarrow> Some (ErrWrap (''error getting storage class '' @
                       the (pvc_StorageClassName pvc) @ '' for validation'') e)
                   | Inr mode \<Rightarrow>
                       if mode = Some WaitForFirstConsumer then Some (ErrMsg
                         ''The PVC to be restored is associated with StorageClass with WaitForFirstConsumer VolumeBindingMode, this is currently not supported. Only StorageClass with Immediate VolumeBindingMode is supported.'')
                       else None)
               })
          }))"

text \<open>The name under which the old storage class is looked up in the mapping.\<close>

definition old_class :: "PersistentVolumeClaim \<Rightarrow> string" where
  "old_class pvc = (if claim_has_class pvc then the (pvc_StorageClassName pvc) else EmptyStorageClass)"

definition UpdateSnapshotWithNewStorageClass ::
  "env \<Rightarrow> plugin_env \<Rightarrow> bool \<Rightarrow> Snapshot option \<Rightarrow> (string \<rightharpoonup> string) \<Rightarrow> (world, goerr + Snapshot) state" where
  "UpdateSnapshotWithNewStorageClass E P configGiven itemSnapshot mapping =
     (case itemSnapshot of
        None \<Rightarrow> State_Monad.return (Inl (ErrMsg ''itemSnapshot is nil, unable to update''))
      | Some s \<Rightarrow>
     (case p_pvc_unmarshal P (snt_Metadata (sn_Status s)) of
        Inl e \<Rightarrow> State_Monad.return (Inl e)
      | Inr pvc \<Rightarrow>
          if \<not> claim_has_class pvc \<and> mapping EmptyStorageClass = None then
            State_Monad.return (Inl (no_class_error pvc ''unable to restore''))
          else (case mapping (old_class pvc) of
             None \<Rightarrow> State_Monad.return (Inr s)
           | Some newName \<Rightarrow> do {
               cl \<leftarrow> GetKubeClient E configGiven;
               (case cl of
                  Some e \<Rightarrow> State_Monad.return (Inl e)
                | None \<Rightarrow> do {
                    sc \<leftarrow> ask (\<lambda>n. p_storage_class P n newName);
                    State_Monad.return (case sc of
                        Inl e \<Rightarrow> Inl (ErrWrap (''error getting storage class '' @ newName @ '' from API'') e)
                      | Inr _ \<Rightarrow>
                          (case p_pvc_marshal P (pvc\<lparr>pvc_StorageClassName := Some newName\<rparr>) of
                             Inl e \<Rightarrow> Inl e
                           | Inr md \<Rightarrow> Inr (set_metadata md s)))
                  })
             })))"

section \<open>Names of resources\<close>

definition index_out_of_range :: goerr where
  "index_out_of_range = GoPanic ''index out of range''"

definition at :: "'a list \<Rightarrow> nat \<Rightarrow> goerr + 'a" where
  "at xs i = (if i < length xs then Inr (xs ! i) else Inl index_out_of_range)"

definition minComponents :: nat where "minComponents = 5"
definition k8sNamespaceIndex :: nat where "k8sNamespaceIndex = 3"
definition crNamespaceIndex :: nat where "crNamespaceIndex = 4"
definition crGroupIndex :: nat where "crGroupIndex = 2"

definition SelfLinkToCRDName :: "string \<Rightarrow> goerr + string" where
  "SelfLinkToCRDName selfLink =
     (let components = split_on (CHR ''/'') selfLink in
      if length components < minComponents \<or> components ! 0 \<noteq> '''' \<or>
         (components ! 1 \<noteq> ''apis'' \<and> components ! 1 \<noteq> ''api'') then Inr ''''
      else
        let hasGroup = (components ! 1 \<noteq> ''api'');
            namespacesIndex = (if hasGroup then crNamespaceIndex else k8sNamespaceIndex);
            pluralIndex = (if components ! namespacesIndex = ''namespaces'' then namespacesIndex + 2
                           else namespacesIndex)
        in (case at components pluralIndex of
              Inl e \<Rightarrow> Inl e
            | Inr plural \<Rightarrow> Inr (if hasGroup then plural @ ''.'' @ components ! crGroupIndex else plural)))"

text \<open>\<^verbatim>\<open>strings.ToLower\<close> on ASCII letters, which is what the API allows in a kind.\<close>

definition lower_char :: "char \<Rightarrow> char" where
  "lower_char c = (if 65 \<le> (of_char c :: nat) \<and> (of_char c :: nat) \<le> 90 then char_of (of_char c + 32 :: nat) else c)"

definition to_lower :: "string \<Rightarrow> string" where
  "to_lower s = map lower_char s"

definition plural_of_kind :: "string \<Rightarrow> string" where
  "plural_of_kind kind =
     (if kind \<noteq> '''' \<and> last kind = CHR ''y'' then take (length kind - 1) (to_lower kind) @ ''ies''
      else to_lower kind @ ''s'')"

text \<open>
  An error of parsing the version is overwritten before it is looked at; the group is then
  empty.
\<close>

definition UnstructuredToCRDName :: "plugin_env \<Rightarrow> unstructured \<Rightarrow> goerr + string" where
  "UnstructuredToCRDName P item =
     (case un_APIVersion item of
        Inl e \<Rightarrow> Inl e
      | Inr apiVersion \<Rightarrow>
     (case un_Kind item of
        Inl e \<Rightarrow> Inl e
      | Inr kind \<Rightarrow>
          (let group = (case p_group_version P apiVersion of None \<Rightarrow> '''' | Some (g, _) \<Rightarrow> g);
               pluralName = plural_of_kind kind
           in Inr (if group \<noteq> '''' then pluralName @ ''.'' @ group else pluralName))))"

section \<open>Blocked resources\<close>

definition RetrieveBlockListConfigMap :: "env \<Rightarrow> (world, goerr + (string \<rightharpoonup> string)) state" where
  "RetrieveBlockListConfigMap E =
     (case e_velero_ns E of
        None \<Rightarrow> State_Monad.return (Inl (ErrMsg ''Failed to lookup the ENV variable for velero namespace''))
      | Some veleroNs \<Rightarrow> do {
          cl \<leftarrow> connect id id E;
          (case cl of
             Some e \<Rightarrow> State_Monad.return (Inl e)
           | None \<Rightarrow> ask (\<lambda>n. e_config_map E n (veleroNs, ResourcesToBlockListName)))
        })"

definition IsResourceBlocked :: "string \<Rightarrow> (string \<rightharpoonup> string) \<Rightarrow> bool" where
  "IsResourceBlocked resourceName resourcesToBlock =
     (case parse_bool (case resourcesToBlock resourceName of None \<Rightarrow> '''' | Some v \<Rightarrow> v) of
        None \<Rightarrow> False
      | Some b \<Rightarrow> b)"

definition IsResourceBlockedOnRestore :: "string \<Rightarrow> bool" where
  "IsResourceBlockedOnRestore resourceName \<longleftrightarrow> resourceName \<in> set ResourcesToBlockOnRestore"

definition IsObjectBlocked :: "env \<Rightarrow> plugin_env \<Rightarrow> unstructured \<Rightarrow> (world, goerr + (bool \<times> string)) state" where
  "IsObjectBlocked E P item =
     (case UnstructuredToCRDName P item of
        Inl _ \<Rightarrow> State_Monad.return (Inl (ErrMsg ''Could not translate item kind to CRD name''))
      | Inr crdName \<Rightarrow> do {
          r \<leftarrow> RetrieveBlockListConfigMap E;
          State_Monad.return (case r of
              Inl e \<Rightarrow> if \<not> is_not_found e then Inl e else Inr (False, crdName)
            | Inr blockList \<Rightarrow> Inr (IsResourceBlocked crdName blockList, crdName))
        })"

text \<open>
  \<^verbatim>\<open>make([]string, n)\<close> makes a slice of \<open>n\<close> empty strings, and the names are appended
  after them.
\<close>

definition GetResources :: "plugin_env \<Rightarrow> (string \<rightharpoonup> string) \<Rightarrow> (world, string list) state" where
  "GetResources P blockList = do {
     let desired = replicate (length ResourcesToHandle + card (dom blockList)) '''';
     handled \<leftarrow> ask (\<lambda>n. p_range P n (set ResourcesToHandle));
     blocked \<leftarrow> ask (\<lambda>n. p_range P n (dom blockList));
     State_Monad.return (desired @ handled @ blocked)
   }"

section \<open>Volumes\<close>

definition ClaimBound :: string where "ClaimBound = ''Bound''"
definition VSphereCSIDriverName :: string where "VSphereCSIDriverName = ''csi.vsphere.vmware.com''"
definition VSphereCSIDriverMigrationAnnotation :: string where
  "VSphereCSIDriverMigrationAnnotation = ''pv.kubernetes.io/migrated-to''"

definition GetPVForPVC :: "plugin_env \<Rightarrow> PersistentVolumeClaim \<Rightarrow> (world, goerr + PersistentVolume) state" where
  "GetPVForPVC P pvc =
     (if pvc_VolumeName pvc = '''' then State_Monad.return (Inl (ErrMsg
        (''PVC '' @ pvc_Namespace pvc @ ''/'' @ pvc_Name pvc @ '' has no volume backing this claim'')))
      else if pvc_Phase pvc \<noteq> ClaimBound then State_Monad.return (Inl (ErrMsg
        (''PVC '' @ pvc_Namespace pvc @ ''/'' @ pvc_Name pvc @ '' is in phase '' @ pvc_Phase pvc @
         '' and is not bound to a volume'')))
      else do {
        r \<leftarrow> ask (\<lambda>n. p_get_pv P n (pvc_VolumeName pvc));
        State_Monad.return (case r of
            Inl e \<Rightarrow> Inl (ErrWrap (''failed to get PV '' @ pvc_VolumeName pvc @ '' for PVC '' @
              pvc_Namespace pvc @ ''/'' @ pvc_Name pvc) e)
          | Inr pv \<Rightarrow> Inr pv)
      })"

fun Contains :: "string list \<Rightarrow> string \<Rightarrow> bool" where
  "Contains [] key = False"
| "Contains (i # rest) key = (if i = key then True else Contains rest key)"

text \<open>The inner loop has no break: a pod is listed once for every volume that uses the claim.\<close>

definition pods_using :: "string \<Rightarrow> Pod list \<Rightarrow> Pod list" where
  "pods_using pvcName pods =
     concat (map (\<lambda>p. map (\<lambda>v. p) (filter (\<lambda>v. snd v = Some pvcName) (pd_Volumes p))) pods)"

definition GetPodsUsingPVC :: "plugin_env \<Rightarrow> string \<Rightarrow> string \<Rightarrow> (world, goerr + Pod list) state" where
  "GetPodsUsingPVC P pvcNamespace pvcName = do {
     r \<leftarrow> ask (\<lambda>n. p_pods P n pvcNamespace);
     State_Monad.return (case r of Inl e \<Rightarrow> Inl e | Inr pods \<Rightarrow> Inr (pods_using pvcName pods))
   }"

fun volume_of_claim :: "(string \<times> string option) list \<Rightarrow> string \<Rightarrow> string option" where
  "volume_of_claim [] pvcName = None"
| "volume_of_claim ((name, claim) # vs) pvcName =
     (if claim = Some pvcName then Some name else volume_of_claim vs pvcName)"

definition GetPodVolumeNameForPVC :: "Pod \<Rightarrow> string \<Rightarrow> goerr + string" where
  "GetPodVolumeNameForPVC pod pvcName =
     (case volume_of_claim (pd_Volumes pod) pvcName of
        Some name \<Rightarrow> Inr name
      | None \<Rightarrow> Inl (ErrMsg (''Pod '' @ pd_Namespace pod @ ''/'' @ pd_Name pod @ '' does not use PVC '' @
          pd_Namespace pod @ ''/'' @ pvcName)))"

fun fs_backed :: "plugin_env \<Rightarrow> string \<Rightarrow> bool \<Rightarrow> Pod list \<Rightarrow> goerr + bool" where
  "fs_backed P pvcName def [] = Inr False"
| "fs_backed P pvcName def (p # ps) =
     (let vols = p_fs_volumes P p def in
      if vols = [] then fs_backed P pvcName def ps
      else (case GetPodVolumeNameForPVC p pvcName of
         Inl e \<Rightarrow> Inl e
       | Inr volName \<Rightarrow> if Contains vols volName then Inr True else fs_backed P pvcName def ps))"

definition IsPVCBackedUpByFsBackup ::
  "plugin_env \<Rightarrow> string \<Rightarrow> string \<Rightarrow> bool \<Rightarrow> (world, goerr + bool) state" where
  "IsPVCBackedUpByFsBackup P pvcNamespace pvcName defaultVolumesToFsBackup = do {
     r \<leftarrow> GetPodsUsingPVC P pvcNamespace pvcName;
     State_Monad.return (case r of
         Inl e \<Rightarrow> Inl e
       | Inr pods \<Rightarrow> fs_backed P pvcName defaultVolumesToFsBackup pods)
   }"

text \<open>
  Whether to skip, and an error. On an error the client returns an empty object, never nil.
\<close>

definition SkipPVCCreation ::
  "env \<Rightarrow> plugin_env \<Rightarrow> bool \<Rightarrow> PersistentVolumeClaim option \<Rightarrow> string \<Rightarrow> (world, bool \<times> goerr option) state" where
  "SkipPVCCreation E P configGiven pvc targetNamespace =
     (case pvc of
        None \<Rightarrow> State_Monad.return (True, Some (ErrMsg ''Input PVC cannot be nil''))
      | Some c \<Rightarrow> do {
          cl \<leftarrow> GetKubeClient E configGiven;
          (case cl of
             Some e \<Rightarrow> State_Monad.return (True, Some e)
           | None \<Rightarrow> do {
               r \<leftarrow> ask (\<lambda>n. p_get_pvc P n (targetNamespace, pvc_Name c));
               State_Monad.return (case r of
                   Inl e \<Rightarrow>
                     if \<not> is_not_found e then (True, Some e)
                     else if '''' = targetNamespace \<and> '''' = pvc_Name c then (True, None)
                     else (False, None)
                 | Inr got \<Rightarrow>
                     if pvc_Namespace got = targetNamespace \<and> pvc_Name got = pvc_Name c then (True, None)
                     else (False, None))
             })
        })"

definition IsMigratedCSIVolume :: "PersistentVolume \<Rightarrow> bool" where
  "IsMigratedCSIVolume pv \<longleftrightarrow>
     vol_VsphereVolume pv \<and> vol_Annotations pv VSphereCSIDriverMigrationAnnotation = Some VSphereCSIDriverName"

end
