(* ===== verification/Install_Config.thy ===== *)
theory Install_Config
  imports Plugin_Util
begin

text \<open>
  What installing the plugin sets up for it (\<^verbatim>\<open>pkg/cmd/utils.go\<close> and the prerequisite
  checks of \<^verbatim>\<open>pkg/cmd/backupdriver/cli/install\<close> and \<^verbatim>\<open>pkg/cmd/datamgr/cli/install\<close>): the
  config map of feature states, the config map of blocked resources, the images of the
  servers, and the version checks. Config maps that are written live in \<open>w_config_maps\<close>.

  \<open>install_env\<close> is the code outside the repository: the init containers of a deployment, the
  parsing of the Velero server's arguments (pflag) and Velero's own feature set.
\<close>

record install_env =
  i_init_containers :: "nat \<Rightarrow> key \<Rightarrow> goerr + container list"
  i_features_arg :: "string list \<Rightarrow> string"  \<comment> \<open>the value of --features, empty if there is none\<close>
  i_feature_enabled :: "string list \<Rightarrow> string \<Rightarrow> bool"

section \<open>Constants\<close>

definition VeleroDeployment :: string where "VeleroDeployment = ''velero''"
definition VeleroMinVersion :: string where "VeleroMinVersion = ''v1.5.1''"
definition VeleroPluginForVsphere :: string where "VeleroPluginForVsphere = ''velero-plugin-for-vsphere''"
definition VSphereLocalModeFeature :: string where "VSphereLocalModeFeature = ''EnableLocalMode''"
definition DataManagerForPlugin :: string where "DataManagerForPlugin = ''data-manager-for-plugin''"
definition BackupDriverForPlugin :: string where "BackupDriverForPlugin = ''backup-driver''"

definition ResourcesToBlock :: "string list" where
  "ResourcesToBlock = [
     ''addressbindings.crd.nsx.vmware.com'', ''agentinstalls.installers.tmc.cloud.vmware.com'',
     ''availabilityzones.topology.tanzu.vmware.com'', ''aviloadbalancerconfigs.netoperator.vmware.com'',
     ''blockaffinities.crd.projectcalico.org'', ''ccsplugins.appplatform.wcp.vmware.com'',
     ''certificaterequests.cert-manager.io'', ''certificates.cert-manager.io'',
     ''challenges.acme.cert-manager.io'', ''clusterclasses.cluster.x-k8s.io'',
     ''clusterissuers.cert-manager.io'', ''clusternetworkinfos.nsx.vmware.com'',
     ''clusterresourcesetbindings.addons.cluster.x-k8s.io'',
     ''clusterresourcesets.addons.cluster.x-k8s.io'', ''clusters.cluster.x-k8s.io'',
     ''cnscsisvfeaturestates.cns.vmware.com'', ''cnsfileaccessconfigs.cns.vmware.com'',
     ''cnsfilevolumeclients.cns.vmware.com'', ''cnsnodevmattachments.cns.vmware.com'',
     ''cnsregistervolumes.cns.vmware.com'', ''cnsvolumemetadatas.cns.vmware.com'',
     ''compatibilities.run.tanzu.vmware.com'', ''contentlibraryproviders.vmoperator.vmware.com'',
     ''contentsourcebindings.vmoperator.vmware.com'', ''contentsources.vmoperator.vmware.com'',
     ''drainrequests.psp.wcp.vmware.com'', ''gatewayclasses.networking.x-k8s.io'',
     ''gateways.networking.x-k8s.io'', ''haproxyloadbalancerconfigs.netoperator.vmware.com'',
     ''httproutes.networking.x-k8s.io'', ''imagedisks.imagecontroller.vmware.com'',
     ''installoptions.appplatform.wcp.vmware.com'', ''installrequirements.appplatform.wcp.vmware.com'',
     ''ipaddressallocations.crd.nsx.vmware.com'', ''ipamblocks.crd.projectcalico.org'',
     ''ipamconfigs.crd.projectcalico.org'', ''ipamhandles.crd.projectcalico.org'',
     ''ipblocksinfos.crd.nsx.vmware.com'', ''ippools.crd.projectcalico.org'',
     ''ippools.netoperator.vmware.com'', ''ippools.nsx.vmware.com'', ''issuers.cert-manager.io'',
     ''kubeadmconfigs.bootstrap.cluster.x-k8s.io'', ''kubeadmconfigtemplates.bootstrap.cluster.x-k8s.io'',
     ''kubeadmcontrolplanes.controlplane.cluster.x-k8s.io'',
     ''kuberneteslicenses.licenseoperator.vmware.com'', ''loadbalancerconfigs.netoperator.vmware.com'',
     ''loadbalancers.vmware.com'', ''machinedeployments.cluster.x-k8s.io'',
     ''machinehealthchecks.cluster.x-k8s.io'', ''machinepools.exp.cluster.x-k8s.io'',
     ''machines.cluster.x-k8s.io'', ''machinesets.cluster.x-k8s.io'', ''members.registryagent.vmware.com'',
     ''namespacenetworkinfos.nsx.vmware.com'', ''ncpconfigs.nsx.vmware.com'',
     ''networkinfos.crd.nsx.vmware.com'', ''networkinterfaces.netoperator.vmware.com'',
     ''networks.netoperator.vmware.com'', ''nsxerrors.nsx.vmware.com'', ''nsxlocks.nsx.vmware.com'',
     ''nsxnetworkinterfaces.nsx.vmware.com'', ''nsxnetworkconfigurations.nsx.vmware.com'',
     ''nsxserviceaccounts.nsx.vmware.com'', ''orders.acme.cert-manager.io'',
     ''packages.data.packaging.carvel.dev'', ''packagemetadatas.data.packaging.carvel.dev'',
     ''persistenceinstanceinfoes.psp.wcp.vmware.com'',
     ''persistenceserviceconfigurations.psp.wcp.vmware.com'', ''projects.registryagent.vmware.com'',
     ''providerserviceaccounts.run.tanzu.vmware.com'', ''psprecencyrequests.psp.wcp.vmware.com'',
     ''pvcdisruptionbudgets.psp.wcp.vmware.com'', ''registries.registryagent.vmware.com'',
     ''resourcecheckreports.psp.wcp.vmware.com'', ''resourcechecks.psp.wcp.vmware.com'',
     ''routesets.nsx.vmware.com'', ''securitypolicies.crd.nsx.vmware.com'',
     ''securitypolicies.nsx.vmware.com'', ''statefuldrainnodes.psp.wcp.vmware.com'',
     ''statefulreadynodes.psp.wcp.vmware.com'', ''staticroutes.crd.nsx.vmware.com'',
     ''storagepolicies.appplatform.wcp.vmware.com'', ''storagepolicies.psp.wcp.vmware.com'',
     ''storagepools.cns.vmware.com'', ''subnetports.crd.nsx.vmware.com'', ''subnets.crd.nsx.vmware.com'',
     ''subnetsets.crd.nsx.vmware.com'', ''supervisorservices.appplatform.wcp.vmware.com'',
     ''tanzukubernetesaddons.run.tanzu.vmware.com'', ''tanzukubernetesclusters.run.tanzu.vmware.com'',
     ''tanzukubernetesreleases.run.tanzu.vmware.com'', ''tcproutes.networking.x-k8s.io'',
     ''tkgserviceconfigurations.run.tanzu.vmware.com'', ''vcuiplugins.appplatform.wcp.vmware.com'',
     ''veleroservices.veleroappoperator.vmware.com'',
     ''virtualmachineclassbindings.vmoperator.vmware.com'',
     ''virtualmachineclasses.vmoperator.vmware.com'', ''virtualmachineimages.vmoperator.vmware.com'',
     ''virtualmachineservices.vmoperator.vmware.com'',
     ''virtualmachinesetresourcepolicies.vmoperator.vmware.com'',
     ''virtualmachines.vmoperator.vmware.com'', ''virtualnetworkinterfaces.vmware.com'',
     ''virtualnetworks.vmware.com'', ''vmxnet3networkinterfaces.netoperator.vmware.com'',
     ''vpcnetworkconfigurations.crd.nsx.vmware.com'',
     ''vspheredistributednetworks.netoperator.vmware.com'',
     ''wcpclusters.infrastructure.cluster.vmware.com'', ''wcpnamespaces.appplatform.wcp.vmware.com'',
     ''wcpmachines.infrastructure.cluster.vmware.com'',
     ''wcpmachinetemplates.infrastructure.cluster.vmware.com'',
     ''webconsolerequests.vmoperator.vmware.com'', ''backuprepositories.backupdriver.cnsdp.vmware.com'',
     ''backuprepositoryclaims.backupdriver.cnsdp.vmware.com'',
     ''clonefromsnapshots.backupdriver.cnsdp.vmware.com'',
     ''deletesnapshots.backupdriver.cnsdp.vmware.com'', ''downloads.datamover.cnsdp.vmware.com'',
     ''snapshots.backupdriver.cnsdp.vmware.com'', ''uploads.datamover.cnsdp.vmware.com'',
     ''storagequotaperiodicsyncs.cns.vmware.com'', ''storagepolicyusages.cns.vmware.com'',
     ''storagepolicyquotas.cns.vmware.com'', ''storagequotas.cns.vmware.com'']"

section \<open>Velero's version and features\<close>

definition GetVeleroVersion :: "env \<Rightarrow> string \<Rightarrow> (world, goerr + string) state" where
  "GetVeleroVersion E ns = do {
     d \<leftarrow> ask (\<lambda>n. e_deployment E n (ns, VeleroDeployment));
     State_Monad.return (case d of Inl e \<Rightarrow> Inl e | Inr cs \<Rightarrow> Inr (GetVersionFromImage cs ''velero''))
   }"

text \<open>The arguments after the first; a container without any makes the slice expression panic.\<close>

fun container_args :: "container list \<Rightarrow> string \<Rightarrow> goerr + string list" where
  "container_args [] containerName = Inr []"
| "container_args (c # cs) containerName =
     (if containerName = ct_Name c then
        (case ct_Args c of
           [] \<Rightarrow> Inl (GoPanic ''slice bounds out of range'')
         | _ # args \<Rightarrow> Inr args)
      else container_args cs containerName)"

definition GetFeatureFlagsFromImage :: "install_env \<Rightarrow> container list \<Rightarrow> string \<Rightarrow> goerr + string list" where
  "GetFeatureFlagsFromImage N containers containerName =
     (case container_args containers containerName of
        Inl e \<Rightarrow> Inl e
      | Inr args \<Rightarrow> if args = [] then Inr [] else Inr (split_on (CHR '','') (i_features_arg N args)))"

definition GetVeleroFeatureFlags :: "env \<Rightarrow> install_env \<Rightarrow> string \<Rightarrow> (world, goerr + string list) state" where
  "GetVeleroFeatureFlags E N ns = do {
     d \<leftarrow> ask (\<lambda>n. e_deployment E n (ns, VeleroDeployment));
     State_Monad.return (case d of Inl e \<Rightarrow> Inl e | Inr cs \<Rightarrow> GetFeatureFlagsFromImage N cs ''velero'')
   }"

definition CheckVeleroVersion :: "env \<Rightarrow> string \<Rightarrow> (world, bool) state" where
  "CheckVeleroVersion E ns = do {
     v \<leftarrow> GetVeleroVersion E ns;
     State_Monad.return (case v of
         Inl _ \<Rightarrow> False
       | Inr ver \<Rightarrow> ver \<noteq> '''' \<and> CompareVersion E ver VeleroMinVersion = -1)
   }"

definition CheckVSphereCSIDriverVersion :: "env \<Rightarrow> ClusterFlavor \<Rightarrow> (world, goerr option) state" where
  "CheckVSphereCSIDriverVersion E clusterFlavor =
     (if clusterFlavor \<noteq> VSphere then State_Monad.return None
      else do {
        v \<leftarrow> GetCSIInstalledVersion E;
        State_Monad.return (case v of
            Inl e \<Rightarrow> Some e
          | Inr ver \<Rightarrow>
              if CompareVersion E ver CsiMinVersion < 0 then Some (ErrMsg
                (''The version of vSphere CSI controller '' @ ver @ '' is below the minimum requirement v1.0.2''))
              else None)
      })"

section \<open>The feature states\<close>

definition format_bool :: "bool \<Rightarrow> string" where
  "format_bool b = (if b then ''true'' else ''false'')"

text \<open>
  The data that is written: local mode follows Velero's features, the other two flags keep
  what the existing config map says.
\<close>

definition feature_states :: "string list \<Rightarrow> (string \<rightharpoonup> string) \<Rightarrow> (string \<rightharpoonup> string)" where
  "feature_states features old =
     [VSphereLocalModeFlag \<mapsto> format_bool (contains (join (CHR '','') features) VSphereLocalModeFeature),
      DecoupleVSphereCSIDriverFlag \<mapsto>
        (case old DecoupleVSphereCSIDriverFlag of None \<Rightarrow> format_bool True | Some v \<Rightarrow> v),
      CSIMigratedVolumeSupportFlag \<mapsto>
        (case old CSIMigratedVolumeSupportFlag of None \<Rightarrow> format_bool False | Some v \<Rightarrow> v)]"

definition write_result :: "goerr + 'a \<Rightarrow> goerr option" where
  "write_result r = (case r of Inl e \<Rightarrow> Some e | Inr _ \<Rightarrow> None)"

definition CreateFeatureStateConfigMap :: "env \<Rightarrow> string list \<Rightarrow> string \<Rightarrow> (world, goerr option) state" where
  "CreateFeatureStateConfigMap E features veleroNs = do {
     let k = (veleroNs, VSpherePluginFeatureStates);
     got \<leftarrow> cr_get w_config_maps E k;
     (case got of
        Inl e \<Rightarrow>
          if \<not> is_not_found e then State_Monad.return (Some e)
          else do {
            r \<leftarrow> cr_create w_config_maps w_config_maps_update id E k (feature_states features Map.empty);
            State_Monad.return (write_result r)
          }
      | Inr old \<Rightarrow> do {
          r \<leftarrow> cr_modify w_config_maps w_config_maps_update E k (\<lambda>_. feature_states features old);
          State_Monad.return (write_result r)
        })
   }"

section \<open>The blocked resources\<close>

definition block_list_data :: "(string \<times> bool) list \<Rightarrow> (string \<rightharpoonup> string)" where
  "block_list_data toBlock = map_of (map (\<lambda>(r, b). (r, format_bool b)) toBlock)"

definition CreateBlockListConfigMap :: "env \<Rightarrow> string \<Rightarrow> (string \<times> bool) list \<Rightarrow> (world, goerr option) state" where
  "CreateBlockListConfigMap E veleroNs toBlock = do {
     let k = (veleroNs, ResourcesToBlockListName);
     got \<leftarrow> cr_get w_config_maps E k;
     (case got of
        Inl e \<Rightarrow>
          if \<not> is_not_found e then State_Monad.return (Some e)
          else do {
            r \<leftarrow> cr_create w_config_maps w_config_maps_update id E k (block_list_data toBlock);
            State_Monad.return (write_result r)
          }
      | Inr _ \<Rightarrow> State_Monad.return None)
   }"

definition blocked_by_default :: "(string \<times> bool) list" where
  "blocked_by_default = map (\<lambda>r. (r, True)) ResourcesToBlock"

section \<open>Images\<close>

text \<open>The first init container that runs the plugin's image; empty if there is none.\<close>

fun plugin_image :: "container list \<Rightarrow> string" where
  "plugin_image [] = ''''"
| "plugin_image (c # cs) =
     (if GetComponentFromImage (ct_Image c) ''Container'' = VeleroPluginForVsphere then ct_Image c
      else plugin_image cs)"

definition sibling_image :: "string \<Rightarrow> string \<Rightarrow> string" where
  "sibling_image img targetContainer =
     (let repo = GetComponentFromImage img ''Repository'';
          tag = GetComponentFromImage img ''Version'';
          withRepo = (if repo \<noteq> '''' then repo @ ''/'' @ targetContainer else targetContainer)
      in if tag \<noteq> '''' then withRepo @ '':'' @ tag else withRepo)"

definition GetCompatibleRepoAndTagFromPluginImage ::
  "install_env \<Rightarrow> string \<Rightarrow> string \<Rightarrow> (world, goerr + string) state" where
  "GetCompatibleRepoAndTagFromPluginImage N ns targetContainer = do {
     d \<leftarrow> ask (\<lambda>n. i_init_containers N n (ns, VeleroDeployment));
     State_Monad.return (case d of
         Inl _ \<Rightarrow> Inl (ErrMsg (''Failed to get velero deployment in namespace '' @ ns))
       | Inr cs \<Rightarrow>
           if plugin_image cs = '''' then Inl (ErrMsg
             ''The plugin, velero-plugin-for-vsphere, was not added as an init container of Velero deployment'')
           else Inr (sibling_image (plugin_image cs) targetContainer))
   }"

definition CheckPluginImageRepo ::
  "install_env \<Rightarrow> string \<Rightarrow> string \<Rightarrow> string \<Rightarrow> (world, string \<times> goerr option) state" where
  "CheckPluginImageRepo N ns defaultImage serverType = do {
     r \<leftarrow> GetCompatibleRepoAndTagFromPluginImage N ns serverType;
     State_Monad.return (case r of Inl e \<Rightarrow> (defaultImage, Some e) | Inr img \<Rightarrow> (img, None))
   }"

section \<open>The installers' checks\<close>

record install_options =
  io_Namespace :: string
  io_Image :: string
  io_MasterAffinity :: bool
  io_HostNetwork :: bool
  io_SkipInstall :: bool

definition RetrieveClusterFlavor :: "env \<Rightarrow> string \<Rightarrow> (world, goerr + ClusterFlavor) state" where
  "RetrieveClusterFlavor E ns = do {
     cl \<leftarrow> connect id id E;
     (case cl of
        Some e \<Rightarrow> State_Monad.return (Inl e)
      | None \<Rightarrow> do { f \<leftarrow> retrieveClusterFlavor E ns; State_Monad.return (Inr f) })
   }"

definition CheckClusterFlavorForBackupDriver ::
  "env \<Rightarrow> install_options \<Rightarrow> (world, goerr + (ClusterFlavor \<times> install_options)) state" where
  "CheckClusterFlavorForBackupDriver E opts = do {
     r \<leftarrow> RetrieveClusterFlavor E (io_Namespace opts);
     State_Monad.return (case r of
         Inl e \<Rightarrow> Inl (ErrWrap ''Failed to get cluster flavor for backup-driver'' e)
       | Inr f \<Rightarrow> Inr (f, if f = Supervisor then opts\<lparr>io_MasterAffinity := True, io_HostNetwork := True\<rparr> else opts))
   }"

text \<open>An error of reading the features is only printed, and none are assumed.\<close>

definition CheckFeatureFlagsForBackupDriver ::
  "env \<Rightarrow> install_env \<Rightarrow> install_options \<Rightarrow> (world, goerr option) state" where
  "CheckFeatureFlagsForBackupDriver E N opts = do {
     r \<leftarrow> GetVeleroFeatureFlags E N (io_Namespace opts);
     (case r of
        Inl e \<Rightarrow> if is_panic e then State_Monad.return (Some e)
                  else CreateFeatureStateConfigMap E [] (io_Namespace opts)
      | Inr flags \<Rightarrow> CreateFeatureStateConfigMap E flags (io_Namespace opts))
   }"

text \<open>The part of \<^verbatim>\<open>Run\<close> before the manifests are generated: checks and config maps.\<close>

definition backupdriver_prerequisites ::
  "env \<Rightarrow> install_env \<Rightarrow> install_options \<Rightarrow> (world, goerr + install_options) state" where
  "backupdriver_prerequisites E N opts = do {
     _ \<leftarrow> CheckVeleroVersion E (io_Namespace opts);
     (img, _) \<leftarrow> CheckPluginImageRepo N (io_Namespace opts) (io_Image opts) BackupDriverForPlugin;
     r \<leftarrow> CheckClusterFlavorForBackupDriver E (opts\<lparr>io_Image := img\<rparr>);
     (case r of
        Inl e \<Rightarrow> State_Monad.return (Inl e)
      | Inr (_, opts') \<Rightarrow> do {
          f \<leftarrow> CheckFeatureFlagsForBackupDriver E N opts';
          (case f of
             Some e \<Rightarrow> State_Monad.return (Inl e)
           | None \<Rightarrow> do {
               b \<leftarrow> CreateBlockListConfigMap E (io_Namespace opts') blocked_by_default;
               State_Monad.return (case b of Some e \<Rightarrow> Inl e | None \<Rightarrow> Inr opts')
             })
        })
   }"

definition CheckClusterFlavorForDataManager ::
  "env \<Rightarrow> install_options \<Rightarrow> (world, install_options) state" where
  "CheckClusterFlavorForDataManager E opts = do {
     r \<leftarrow> RetrieveClusterFlavor E (io_Namespace opts);
     State_Monad.return (case r of
         Inl _ \<Rightarrow> opts
       | Inr f \<Rightarrow> if f = TkgGuest \<or> f = Supervisor then opts\<lparr>io_SkipInstall := True\<rparr> else opts)
   }"

definition CheckFeatureFlagsForDataManager ::
  "env \<Rightarrow> install_env \<Rightarrow> install_options \<Rightarrow> (world, goerr + install_options) state" where
  "CheckFeatureFlagsForDataManager E N opts = do {
     r \<leftarrow> GetVeleroFeatureFlags E N (io_Namespace opts);
     State_Monad.return (case r of
         Inl e \<Rightarrow> if is_panic e then Inl e else
                    Inr (if i_feature_enabled N [] VSphereLocalModeFeature then opts\<lparr>io_SkipInstall := True\<rparr> else opts)
       | Inr flags \<Rightarrow>
           Inr (if i_feature_enabled N flags VSphereLocalModeFeature then opts\<lparr>io_SkipInstall := True\<rparr> else opts))
   }"

text \<open>The checks of the data manager's installer; \<open>io_SkipInstall\<close> ends it before the rest.\<close>

definition datamgr_prerequisites ::
  "env \<Rightarrow> install_env \<Rightarrow> install_options \<Rightarrow> (world, goerr + install_options) state" where
  "datamgr_prerequisites E N opts = do {
     opts1 \<leftarrow> CheckClusterFlavorForDataManager E opts;
     r \<leftarrow> CheckFeatureFlagsForDataManager E N opts1;
     (case r of
        Inl e \<Rightarrow> State_Monad.return (Inl e)
      | Inr opts2 \<Rightarrow>
          if io_SkipInstall opts2 then State_Monad.return (Inr opts2)
          else do {
            _ \<leftarrow> CheckVeleroVersion E (io_Namespace opts2);
            (img, _) \<leftarrow> CheckPluginImageRepo N (io_Namespace opts2) (io_Image opts2) DataManagerForPlugin;
            State_Monad.return (Inr (opts2\<lparr>io_Image := img\<rparr>))
          })
   }"

end
