(* ===== verification/Plugin_Actions.thy ===== *)
theory Plugin_Actions
  imports Plugin_Util
begin

text \<open>
  The item actions Velero calls (\<^verbatim>\<open>pkg/plugin/backup_pvc_action_plugin.go\<close>,
  \<^verbatim>\<open>restore_pvc_action_plugin.go\<close>, \<^verbatim>\<open>delete_pvc_action_plugin.go\<close>) with the claiming of a
  repository for a backup storage location (\<^verbatim>\<open>pkg/utils/utils.go\<close>,
  \<^verbatim>\<open>pkg/backuprepository\<close>). An action that waits takes \<open>fuel\<close>; \<open>None\<close> is an action that
  is still waiting.
\<close>

section \<open>The repository of a backup storage location\<close>

definition CloudCredentialSecretName :: string where "CloudCredentialSecretName = ''cloud-credentials''"

fun translate_params ::
  "params \<Rightarrow> string list \<Rightarrow> (string \<rightharpoonup> string) \<Rightarrow> goerr + (string \<rightharpoonup> string)" where
  "translate_params ps [] m = Inr m"
| "translate_params ps (k # ks) m =
     (case ps k of
        Some (PStr v) \<Rightarrow> translate_params ps ks (m(k \<mapsto> v))
      | _ \<Rightarrow> Inl (ErrMsg ''Failed to translate s3 repository parameter value''))"

text \<open>
  The first value of the secret goes through a temporary file, because that is what the AWS
  library reads.
\<close>

definition add_credentials ::
  "plugin_env \<Rightarrow> string \<Rightarrow> (string \<rightharpoonup> string) \<Rightarrow> (world, goerr + (string \<rightharpoonup> string)) state" where
  "add_credentials P value m = do {
     created \<leftarrow> ask (p_file P);
     (case created of
        Some e \<Rightarrow> State_Monad.return (Inl (ErrWrap ''Failed to create temp file to extract aws credentials'' e))
      | None \<Rightarrow> do {
     written \<leftarrow> ask (p_file P);
     (case written of
        Some e \<Rightarrow> State_Monad.return (Inl (ErrWrap ''Failed to write aws credentials into temp file.'' e))
      | None \<Rightarrow> do {
     closed \<leftarrow> ask (p_file P);
     (case closed of
        Some e \<Rightarrow> State_Monad.return (Inl (ErrWrap ''Failed to close into temp file.'' e))
      | None \<Rightarrow> do {
          c \<leftarrow> ask (\<lambda>n. p_aws_credentials P n value (case m ''profile'' of None \<Rightarrow> '''' | Some p \<Rightarrow> p));
          State_Monad.return (case c of
              Inl e \<Rightarrow> Inl e
            | Inr (keyId, secret) \<Rightarrow>
                Inr (m(''aws_access_key_id'' \<mapsto> keyId, ''aws_secret_access_key'' \<mapsto> secret)))
        })})})
   }"

text \<open>
  Without \<^verbatim>\<open>VELERO_NAMESPACE\<close> the function returns the nil error of the client construction,
  and the parameters have no credentials.
\<close>

definition RetrieveParamsFromBSL ::
  "env \<Rightarrow> plugin_env \<Rightarrow> string \<Rightarrow> (world, goerr + (string \<rightharpoonup> string)) state" where
  "RetrieveParamsFromBSL E P bslName = do {
     r \<leftarrow> RetrieveVSLFromVeleroBSLs E True Map.empty bslName;
     (case r of
        Inl e \<Rightarrow> State_Monad.return (Inl e)
      | Inr s3RepoParams \<Rightarrow> do {
     keys \<leftarrow> ask (\<lambda>n. p_range P n (dom s3RepoParams));
     (case translate_params s3RepoParams keys Map.empty of
        Inl e \<Rightarrow> State_Monad.return (Inl e)
      | Inr m \<Rightarrow> do {
     cl \<leftarrow> ask (e_client E);
     (case cl of
        Some e \<Rightarrow> State_Monad.return (Inl (ErrWrap ''Failed to retrieve the k8s clientset'' e))
      | None \<Rightarrow>
     (case e_velero_ns E of
        None \<Rightarrow> State_Monad.return (Inr m)
      | Some veleroNs \<Rightarrow> do {
          s \<leftarrow> ask (\<lambda>n. e_secret E n (veleroNs, CloudCredentialSecretName));
          (case s of
             Inl e \<Rightarrow> State_Monad.return (Inl e)
           | Inr [] \<Rightarrow> State_Monad.return (Inr m)
           | Inr (value # _) \<Rightarrow> add_credentials P value m)
        }))})})
   }"

definition RetrieveBSLFromBackup ::
  "env \<Rightarrow> plugin_env \<Rightarrow> bool \<Rightarrow> string \<Rightarrow> (world, goerr + string) state" where
  "RetrieveBSLFromBackup E P configGiven backupName = do {
     cl \<leftarrow> (if configGiven then ask (e_client E)
           else connect (ErrWrap ''Could not retrieve in-cluster config'') id E);
     (case cl of
        Some e \<Rightarrow> State_Monad.return (Inl e)
      | None \<Rightarrow>
          (case e_velero_ns E of
             None \<Rightarrow> State_Monad.return (Inr '''')
           | Some veleroNs \<Rightarrow> ask (\<lambda>n. p_backup_location P n (veleroNs, backupName))))
   }"

definition RetrieveBackupRepositoryFromBSL ::
  "env \<Rightarrow> plugin_env \<Rightarrow> nat \<Rightarrow> string \<Rightarrow> string \<Rightarrow> string \<Rightarrow> (world, (goerr + string) option) state" where
  "RetrieveBackupRepositoryFromBSL E P fuel bslName pvcNamespace veleroNs = do {
     ps \<leftarrow> RetrieveParamsFromBSL E P bslName;
     (case ps of
        Inl e \<Rightarrow> State_Monad.return (Some (Inl e))
      | Inr m \<Rightarrow> ClaimBackupRepository E fuel False S3RepositoryDriver m [pvcNamespace] veleroNs)
   }"

text \<open>In local mode nothing is copied, and no repository is claimed.\<close>

definition repository_unless_local ::
  "env \<Rightarrow> plugin_env \<Rightarrow> nat \<Rightarrow> string \<Rightarrow> string \<Rightarrow> string \<Rightarrow> (world, (goerr + string) option) state" where
  "repository_unless_local E P fuel bslName pvcNamespace veleroNs = do {
     isLocalMode \<leftarrow> IsFeatureEnabled E VSphereLocalModeFlag False;
     (if isLocalMode then State_Monad.return (Some (Inr ''''))
      else RetrieveBackupRepositoryFromBSL E P fuel bslName pvcNamespace veleroNs)
   }"

section \<open>Which resources the actions apply to\<close>

definition block_list_or_empty :: "env \<Rightarrow> (world, goerr + (string \<rightharpoonup> string)) state" where
  "block_list_or_empty E = do {
     r \<leftarrow> RetrieveBlockListConfigMap E;
     State_Monad.return (case r of
         Inl e \<Rightarrow> if \<not> is_not_found e then Inl e else Inr Map.empty
       | Inr m \<Rightarrow> Inr m)
   }"

definition backup_AppliesTo :: "env \<Rightarrow> plugin_env \<Rightarrow> (world, goerr + string list) state" where
  "backup_AppliesTo E P = do {
     r \<leftarrow> block_list_or_empty E;
     (case r of
        Inl e \<Rightarrow> State_Monad.return (Inl e)
      | Inr m \<Rightarrow> do { rs \<leftarrow> GetResources P m; State_Monad.return (Inr rs) })
   }"

definition restore_AppliesTo :: "env \<Rightarrow> plugin_env \<Rightarrow> (world, goerr + string list) state" where
  "restore_AppliesTo E P = do {
     r \<leftarrow> block_list_or_empty E;
     (case r of
        Inl e \<Rightarrow> State_Monad.return (Inl e)
      | Inr m \<Rightarrow> do {
          blocked \<leftarrow> ask (\<lambda>n. p_range P n (dom m));
          onRestore \<leftarrow> ask (\<lambda>n. p_range P n (set ResourcesToBlockOnRestore));
          State_Monad.return (Inr (''persistentvolumeclaims'' # blocked @ onRestore))
        })
   }"

definition delete_AppliesTo :: "string list" where
  "delete_AppliesTo = [''persistentvolumeclaims'']"


section \<open>Backup\<close>

text \<open>
  What becomes of a claim, judged by its volume: it is snapshotted, left to Velero as it is,
  or refused. Claims of foreign volumes are left alone, except when migrated volumes are
  supported: then they are refused.
\<close>

datatype volume_decision = TakeSnapshot | LeaveAlone | RefuseVolume string

definition judge_volume :: "bool \<Rightarrow> PersistentVolumeClaim \<Rightarrow> PersistentVolume \<Rightarrow> volume_decision" where
  "judge_volume migratedSupport pvc pv =
     (let what = ''skipping '' @ pvc_Namespace pvc @ ''/'' @ pvc_Name pvc @ '', associated PV '' @ vol_Name pv in
      if migratedSupport then
        (if vol_CSI pv = None \<and> \<not> IsMigratedCSIVolume pv then
           RefuseVolume (what @ '' is not a CSI volume, nor a migrated volume'')
         else if vol_CSI pv \<noteq> None \<and> fst (the (vol_CSI pv)) \<noteq> VSphereCSIDriverName then
           RefuseVolume (what @ '' is not a vSphere CSI volume'')
         else TakeSnapshot)
      else
        (case vol_CSI pv of
           None \<Rightarrow> LeaveAlone
         | Some (driver, _) \<Rightarrow> if driver \<noteq> VSphereCSIDriverName then LeaveAlone else TakeSnapshot))"

definition backup_wait_phases :: "SnapshotPhase list" where
  "backup_wait_phases = [SnapshotPhaseSnapshotted, SnapshotPhaseSnapshotFailed, SnapshotPhaseUploaded,
     SnapshotPhaseUploading, SnapshotPhaseUploadFailed, SnapshotPhaseCanceling, SnapshotPhaseCanceled,
     SnapshotPhaseCleanupFailed]"

text \<open>The phases that make the backup of the item fail, with the message.\<close>

definition snapshot_failure :: "Snapshot \<Rightarrow> goerr option" where
  "snapshot_failure s =
     (let msg = snt_Message (sn_Status s) in
      case snapshot_state s of
        SnapshotPhaseSnapshotFailed \<Rightarrow> Some (ErrMsg (''Failed to create a Snapshot CR: Phase=SnapshotFailed, err='' @ msg))
      | SnapshotPhaseUploadFailed \<Rightarrow> Some (ErrMsg (''Failed to upload a Snapshot: Phase=UploadFailed, err='' @ msg))
      | SnapshotPhaseCanceled \<Rightarrow> Some (ErrMsg (''Snapshot upload canceled: Phase=Canceled, err='' @ msg))
      | _ \<Rightarrow> None)"

definition health_annotations :: "string list" where
  "health_annotations = [AnnVolumeHealth, AnnVolumeHealthTS]"

definition persist_snapshot :: "plugin_env \<Rightarrow> PersistentVolumeClaim \<Rightarrow> Snapshot \<Rightarrow> goerr + unstructured" where
  "persist_snapshot P pvc s =
     (case GetAnnotationFromSnapshot P s of
        Inl e \<Rightarrow> Inl e
      | Inr annotation \<Rightarrow>
          p_pvc_to P (AddAnnotations
            [ItemSnapshotLabel \<mapsto> annotation, PluginVersionLabel \<mapsto> p_version P]
            (RemoveAnnotations health_annotations pvc)))"

text \<open>From the claimed repository on: take the snapshot and put it into the item.\<close>

definition backup_snapshot ::
  "env \<Rightarrow> plugin_env \<Rightarrow> nat \<Rightarrow> Backup \<Rightarrow> PersistentVolumeClaim \<Rightarrow> string \<Rightarrow>
   (world, (goerr + unstructured) option) state" where
  "backup_snapshot E P fuel backup pvc repository = do {
     r \<leftarrow> SnapshotRef E P fuel
       \<lparr>tr_APIGroup = Some '''', tr_Kind = pvc_Kind pvc, tr_Name = pvc_Name pvc\<rparr>
       (pvc_Namespace pvc) repository [SnapshotBackupLabel \<mapsto> bk_Name backup] backup_wait_phases;
     State_Monad.return (case r of
         None \<Rightarrow> None
       | Some (Inl e) \<Rightarrow> Some (Inl e)
       | Some (Inr s) \<Rightarrow>
           Some (case snapshot_failure s of
               Some e \<Rightarrow> Inl e
             | None \<Rightarrow> persist_snapshot P pvc s))
   }"

definition backup_volume ::
  "env \<Rightarrow> plugin_env \<Rightarrow> nat \<Rightarrow> unstructured \<Rightarrow> Backup \<Rightarrow> PersistentVolumeClaim \<Rightarrow> PersistentVolume \<Rightarrow> string \<Rightarrow>
   (world, (goerr + unstructured) option) state" where
  "backup_volume E P fuel item backup pvc pv veleroNs = do {
     migrated \<leftarrow> IsFeatureEnabled E CSIMigratedVolumeSupportFlag False;
     (case judge_volume migrated pvc pv of
        RefuseVolume msg \<Rightarrow> State_Monad.return (Some (Inl (ErrMsg msg)))
      | LeaveAlone \<Rightarrow> State_Monad.return (Some (Inr item))
      | TakeSnapshot \<Rightarrow> do {
          cl \<leftarrow> ask (e_client E);
          (case cl of
             Some e \<Rightarrow> State_Monad.return (Some (Inl e))
           | None \<Rightarrow> do {
               repo \<leftarrow> repository_unless_local E P fuel (bk_StorageLocation backup) (pvc_Namespace pvc) veleroNs;
               (case repo of
                  None \<Rightarrow> State_Monad.return None
                | Some (Inl e) \<Rightarrow> State_Monad.return (Some (Inl e))
                | Some (Inr repository) \<Rightarrow> backup_snapshot E P fuel backup pvc repository)
             })
        })
   }"

definition backup_claim ::
  "env \<Rightarrow> plugin_env \<Rightarrow> nat \<Rightarrow> unstructured \<Rightarrow> Backup \<Rightarrow> PersistentVolumeClaim \<Rightarrow>
   (world, (goerr + unstructured) option) state" where
  "backup_claim E P fuel item backup pvc =
     (case e_velero_ns E of
        None \<Rightarrow> State_Monad.return (Some (Inl (ErrMsg ''Failed to lookup the ENV variable for velero namespace'')))
      | Some veleroNs \<Rightarrow> do {
     cl \<leftarrow> connect id id E;
     (case cl of
        Some e \<Rightarrow> State_Monad.return (Some (Inl e))
      | None \<Rightarrow> do {
     got \<leftarrow> GetPVForPVC P pvc;
     (case got of
        Inl e \<Rightarrow> State_Monad.return (Some (Inl e))
      | Inr pv \<Rightarrow> do {
     fs \<leftarrow> IsPVCBackedUpByFsBackup P (pvc_Namespace pvc) (pvc_Name pvc)
             (bk_DefaultVolumesToFsBackup backup = Some True);
     (case fs of
        Inl e \<Rightarrow> State_Monad.return (Some (Inl e))
      | Inr isFsBackupUsed \<Rightarrow>
          if isFsBackupUsed then State_Monad.return (Some (Inr item))
          else backup_volume E P fuel item backup pvc pv veleroNs)
     })})})"

definition backup_Execute ::
  "env \<Rightarrow> plugin_env \<Rightarrow> nat \<Rightarrow> unstructured \<Rightarrow> Backup \<Rightarrow> (world, (goerr + unstructured) option) state" where
  "backup_Execute E P fuel item backup =
     (if bk_SnapshotVolumes backup = Some False then State_Monad.return (Some (Inr item))
      else do {
        b \<leftarrow> IsObjectBlocked E P item;
        (case b of
           Inl e \<Rightarrow> State_Monad.return (Some (Inl (ErrWrap ''Failed during IsObjectBlocked check'' e)))
         | Inr (blocked, crdName) \<Rightarrow>
             if blocked then State_Monad.return (Some (Inl (ErrMsg
               (''Resource CRD '' @ crdName @ '' is blocked in backup, skipping''))))
             else (case p_pvc_from P (un_Content item) of
                Inl e \<Rightarrow> State_Monad.return (Some (Inl e))
              | Inr pvc \<Rightarrow> backup_claim E P fuel item backup pvc))
      })"

section \<open>Delete\<close>

definition delete_wait_phases :: "DeleteSnapshotPhase list" where
  "delete_wait_phases = [DeleteSnapshotPhaseCompleted, DeleteSnapshotPhaseFailed]"

definition delete_failure :: "DeleteSnapshot \<Rightarrow> goerr option" where
  "delete_failure d =
     (if delete_state d = DeleteSnapshotPhaseFailed then Some (ErrMsg
        (''Failed to create a DeleteSnapshot CR: Phase=Failed, err='' @ dt_Message (d_Status d)))
      else None)"

definition delete_snapshot_of ::
  "env \<Rightarrow> plugin_env \<Rightarrow> nat \<Rightarrow> Backup \<Rightarrow> PersistentVolumeClaim \<Rightarrow> Snapshot \<Rightarrow> (world, goerr option option) state" where
  "delete_snapshot_of E P fuel backup pvc itemSnapshot =
     (case e_velero_ns E of
        None \<Rightarrow> State_Monad.return (Some (Some (ErrMsg ''failed to lookup the ENV variable for velero namespace'')))
      | Some veleroNs \<Rightarrow> do {
     cl \<leftarrow> connect id id E;
     (case cl of
        Some e \<Rightarrow> State_Monad.return (Some (Some e))
      | None \<Rightarrow> do {
     cl2 \<leftarrow> ask (e_client E);
     (case cl2 of
        Some e \<Rightarrow> State_Monad.return (Some (Some e))
      | None \<Rightarrow> do {
     repo \<leftarrow> repository_unless_local E P fuel (bk_StorageLocation backup) (pvc_Namespace pvc) veleroNs;
     (case repo of
        None \<Rightarrow> State_Monad.return None
      | Some (Inl e) \<Rightarrow> State_Monad.return (Some (Some e))
      | Some (Inr repository) \<Rightarrow> do {
          r \<leftarrow> DeleteSnapshotRef E P fuel (snt_SnapshotID (sn_Status itemSnapshot)) veleroNs repository
                 delete_wait_phases;
          State_Monad.return (case r of
              None \<Rightarrow> None
            | Some (Inl e) \<Rightarrow> Some (Some e)
            | Some (Inr d) \<Rightarrow> Some (delete_failure d))
        })})})})"

definition delete_Execute ::
  "env \<Rightarrow> plugin_env \<Rightarrow> nat \<Rightarrow> unstructured \<Rightarrow> Backup \<Rightarrow> (world, goerr option option) state" where
  "delete_Execute E P fuel item backup = do {
     b \<leftarrow> IsObjectBlocked E P item;
     (case b of
        Inl e \<Rightarrow> State_Monad.return (Some (Some (ErrWrap ''Failed during IsObjectBlocked check'' e)))
      | Inr (blocked, crdName) \<Rightarrow>
          if blocked then State_Monad.return (Some (Some (ErrMsg
            (''Resource CRD '' @ crdName @ '' is blocked, skipping''))))
          else (case p_pvc_from P (un_Content item) of
             Inl e \<Rightarrow> State_Monad.return (Some (Some e))
           | Inr pvc \<Rightarrow>
          (case Option.bind (pvc_Annotations pvc) (\<lambda>m. m ItemSnapshotLabel) of
             None \<Rightarrow> State_Monad.return (Some None)
           | Some annotation \<Rightarrow>
          (case GetSnapshotFromPVCAnnotation P annotation of
             Inl e \<Rightarrow> State_Monad.return (Some (Some e))
           | Inr itemSnapshot \<Rightarrow> delete_snapshot_of E P fuel backup pvc itemSnapshot))))
   }"


section \<open>Restore\<close>

definition unchanged_item :: "unstructured \<Rightarrow> RestoreOutput" where
  "unchanged_item item = \<lparr>ro_UpdatedItem = Some item, ro_SkipRestore = False\<rparr>"

definition skip_restore :: RestoreOutput where
  "skip_restore = \<lparr>ro_UpdatedItem = None, ro_SkipRestore = True\<rparr>"

text \<open>
  A pod of a supervisor cluster is restored without the annotations that tie it to its old
  virtual machine. Its metadata is built anew from name, namespace, labels and the remaining
  annotations; everything else of the metadata is dropped.
\<close>

definition keep_annotations :: "(string \<rightharpoonup> string) \<Rightarrow> (string \<rightharpoonup> string)" where
  "keep_annotations m = (\<lambda>k. if k \<in> set PodAnnotationsToSkip then None else m k)"

definition createPod :: "plugin_env \<Rightarrow> unstructured \<Rightarrow> goerr + RestoreOutput" where
  "createPod P item =
     (case p_pod_from P (un_Content item) of
        Inl e \<Rightarrow> Inl e
      | Inr pod \<Rightarrow>
     (case pd_Annotations pod of
        Some m \<Rightarrow>
          if m VMwareSystemVMUUID \<noteq> None then
            (let kept = keep_annotations m;
                 pod' = pod\<lparr>pd_Annotations := (if kept = Map.empty then None else Some kept), pd_OtherMeta := ''''\<rparr>
             in case p_pod_to P pod' of
                  Inl e \<Rightarrow> Inl e
                | Inr item' \<Rightarrow> Inr (unchanged_item item'))
          else Inr \<lparr>ro_UpdatedItem = None, ro_SkipRestore = False\<rparr>
      | None \<Rightarrow> Inr \<lparr>ro_UpdatedItem = None, ro_SkipRestore = False\<rparr>))"

definition clone_wait_phases :: "ClonePhase list" where
  "clone_wait_phases = [ClonePhaseCompleted, ClonePhaseFailed]"

definition clone_outcome :: "CloneFromSnapshot \<Rightarrow> goerr + RestoreOutput" where
  "clone_outcome c =
     (if clone_state c = ClonePhaseFailed then Inl (ErrMsg
        (''Failed to create a CloneFromSnapshot CR: Phase=Failed, err='' @ clt_Message (cl_Status c)))
      else Inr skip_restore)"

text \<open>The request for the volume, once the snapshot has its final metadata.\<close>

definition restore_volume ::
  "env \<Rightarrow> plugin_env \<Rightarrow> nat \<Rightarrow> RestoreInput \<Rightarrow> PersistentVolumeClaim \<Rightarrow> string \<Rightarrow> string \<Rightarrow> Snapshot \<Rightarrow>
   (world, (goerr + RestoreOutput) option) state" where
  "restore_volume E P fuel input pvc targetNamespace veleroNs itemSnapshot = do {
     bsl \<leftarrow> RetrieveBSLFromBackup E P True (ri_BackupName input);
     (case bsl of
        Inl e \<Rightarrow> State_Monad.return (Some (Inl e))
      | Inr bslName \<Rightarrow> do {
     repo \<leftarrow> repository_unless_local E P fuel bslName (pvc_Namespace pvc) veleroNs;
     (case repo of
        None \<Rightarrow> State_Monad.return None
      | Some (Inl e) \<Rightarrow> State_Monad.return (Some (Inl e))
      | Some (Inr repository) \<Rightarrow> do {
          r \<leftarrow> CloneFromSnapshopRef E P fuel (snt_SnapshotID (sn_Status itemSnapshot))
                 (snt_Metadata (sn_Status itemSnapshot))
                 (tr_APIGroup (sns_Reference (sn_Spec itemSnapshot)))
                 (tr_Kind (sns_Reference (sn_Spec itemSnapshot)))
                 targetNamespace repository clone_wait_phases;
          State_Monad.return (case r of
              None \<Rightarrow> None
            | Some (Inl e) \<Rightarrow> Some (Inl e)
            | Some (Inr c) \<Rightarrow> Some (clone_outcome c))
        })})
   }"

text \<open>The storage class of the restored claim: mapped if there is a mapping, then checked.\<close>

definition map_storage_class ::
  "env \<Rightarrow> plugin_env \<Rightarrow> string \<Rightarrow> Snapshot \<Rightarrow> (world, goerr + Snapshot) state" where
  "map_storage_class E P veleroNs itemSnapshot = do {
     m \<leftarrow> RetrieveStorageClassMapping E P True veleroNs;
     (case m of
        Inl e \<Rightarrow> State_Monad.return (Inl (ErrMsg
          (''Failed to retrieve storage class mapping information : '' @ error_string e)))
      | Inr mapping \<Rightarrow> do {
     mapped \<leftarrow> (case mapping of
         None \<Rightarrow> State_Monad.return (Inr itemSnapshot)
       | Some f \<Rightarrow> if dom f = {} then State_Monad.return (Inr itemSnapshot)
                    else UpdateSnapshotWithNewStorageClass E P True (Some itemSnapshot) f);
     (case mapped of
        Inl e \<Rightarrow> State_Monad.return (Inl e)
      | Inr s \<Rightarrow> do {
          v \<leftarrow> ValidateRestoreStorageClass E P True (Some s);
          State_Monad.return (case v of Some e \<Rightarrow> Inl e | None \<Rightarrow> Inr s)
        })})
   }"

definition restore_snapshot ::
  "env \<Rightarrow> plugin_env \<Rightarrow> nat \<Rightarrow> RestoreInput \<Rightarrow> unstructured \<Rightarrow> PersistentVolumeClaim \<Rightarrow> string \<Rightarrow> Snapshot \<Rightarrow>
   (world, (goerr + RestoreOutput) option) state" where
  "restore_snapshot E P fuel input item pvc targetNamespace itemSnapshot =
     (case e_velero_ns E of
        None \<Rightarrow> State_Monad.return (Some (Inl (ErrMsg ''failed to lookup the ENV variable for velero namespace'')))
      | Some veleroNs \<Rightarrow> do {
     cl \<leftarrow> connect id id E;
     (case cl of
        Some e \<Rightarrow> State_Monad.return (Some (Inl e))
      | None \<Rightarrow> do {
     cl2 \<leftarrow> ask (e_client E);
     (case cl2 of
        Some e \<Rightarrow> State_Monad.return (Some (Inl e))
      | None \<Rightarrow> do {
     (bSkipPVC, err) \<leftarrow> SkipPVCCreation E P True (Some pvc) targetNamespace;
     (case err of
        Some e \<Rightarrow> State_Monad.return (Some (Inl e))
      | None \<Rightarrow>
          if bSkipPVC then State_Monad.return (Some (Inr (unchanged_item item)))
          else do {
            m \<leftarrow> map_storage_class E P veleroNs itemSnapshot;
            (case m of
               Inl e \<Rightarrow> State_Monad.return (Some (Inl e))
             | Inr s \<Rightarrow> restore_volume E P fuel input pvc targetNamespace veleroNs s)
          })})})})"

text \<open>The target namespace, and the snapshot with the namespace in its metadata.\<close>

definition map_namespace ::
  "plugin_env \<Rightarrow> RestoreInput \<Rightarrow> PersistentVolumeClaim \<Rightarrow> Snapshot \<Rightarrow> goerr + (string \<times> Snapshot)" where
  "map_namespace P input pvc itemSnapshot =
     (case ri_NamespaceMapping input (pvc_Namespace pvc) of
        None \<Rightarrow> Inr (pvc_Namespace pvc, itemSnapshot)
      | Some targetNamespace \<Rightarrow>
          (case UpdateSnapshotWithNewNamespace P itemSnapshot targetNamespace of
             Inl e \<Rightarrow> Inl e
           | Inr s \<Rightarrow> Inr (targetNamespace, s)))"

definition restore_claim ::
  "env \<Rightarrow> plugin_env \<Rightarrow> nat \<Rightarrow> RestoreInput \<Rightarrow> (world, (goerr + RestoreOutput) option) state" where
  "restore_claim E P fuel input =
     (case p_pvc_from P (un_Content (ri_Item input)) of
        Inl e \<Rightarrow> State_Monad.return (Some (Inl e))
      | Inr pvc0 \<Rightarrow>
     (let pvc = RemoveAnnotations health_annotations pvc0 in
      case p_pvc_to P pvc of
        Inl e \<Rightarrow> State_Monad.return (Some (Inl e))
      | Inr item \<Rightarrow>
          if ri_RestorePVs input = Some False then State_Monad.return (Some (Inr (unchanged_item item)))
          else (case Option.bind (pvc_Annotations pvc) (\<lambda>m. m ItemSnapshotLabel) of
             None \<Rightarrow> State_Monad.return (Some (Inr (unchanged_item item)))
           | Some annotation \<Rightarrow>
          (case GetSnapshotFromPVCAnnotation P annotation of
             Inl e \<Rightarrow> State_Monad.return (Some (Inl e))
           | Inr itemSnapshot \<Rightarrow>
          (case map_namespace P input pvc itemSnapshot of
             Inl e \<Rightarrow> State_Monad.return (Some (Inl e))
           | Inr (targetNamespace, s) \<Rightarrow> restore_snapshot E P fuel input item pvc targetNamespace s)))))"

definition restore_Execute ::
  "env \<Rightarrow> plugin_env \<Rightarrow> nat \<Rightarrow> RestoreInput \<Rightarrow> (world, (goerr + RestoreOutput) option) state" where
  "restore_Execute E P fuel input = do {
     b \<leftarrow> IsObjectBlocked E P (ri_ItemFromBackup input);
     (case b of
        Inl e \<Rightarrow> State_Monad.return (Some (Inl (ErrWrap ''Failed during IsObjectBlocked check'' e)))
      | Inr (listed, crdName) \<Rightarrow>
          if listed \<or> IsResourceBlockedOnRestore crdName then
            (if crdName = ''pods'' then State_Monad.return (Some (createPod P (ri_Item input)))
             else if IsResourceBlockedOnRestore crdName then State_Monad.return (Some (Inr skip_restore))
             else State_Monad.return (Some (Inl (ErrMsg
               (''Resource CRD '' @ crdName @ '' is blocked in restore, skipping'')))))
          else restore_claim E P fuel input)
   }"


section \<open>Evaluation\<close>

lemma plural_of_claim [simp]: "plural_of_kind ''PersistentVolumeClaim'' = ''persistentvolumeclaims''"
  by code_simp

lemma sample_annotation [simp]: "b64_std_encode ''{}'' = ''e30=''" "b64_std_decode ''e30='' = Some ''{}''"
  by code_simp+

lemmas plugin_evals [evals] =
  GetSnapshotFromPVCAnnotation_def GetAnnotationFromSnapshot_def RemoveAnnotations_def AddAnnotations_def
  set_metadata_def UpdateSnapshotWithNewNamespace_def GetKubeClient_def RetrieveStorageClassMapping_def
  claim_has_class_def ValidateRestoreStorageClass_def WaitForFirstConsumer_def UnstructuredToCRDName_def
  RetrieveBlockListConfigMap_def IsResourceBlocked_def IsResourceBlockedOnRestore_def
  ResourcesToBlockOnRestore_def IsObjectBlocked_def parse_bool_def ClaimBound_def VSphereCSIDriverName_def
  GetPVForPVC_def pods_using_def GetPodsUsingPVC_def IsPVCBackedUpByFsBackup_def SkipPVCCreation_def
  RetrieveBSLFromBackup_def repository_unless_local_def velero_namespace_def VSpherePluginFeatureStates_def
  VSphereLocalModeFlag_def file_request_def awaited_def AppendVeleroExcludeLabels_def build_meta_def
  SnapshotRef_def WaitForPhases_def ForSnapshot_def announce_snapshot_def no_snapshot_status_def
  DeleteSnapshotRef_def WaitForDeleteSnapshotPhases_def ForDeleteSnapshot_def announce_delete_def no_delete_status_def
  CloneFromSnapshopRef_def WaitForClonePhases_def ForCloneFromSnapshot_def announce_clone_def no_clone_status_def
  date_clone_def judge_volume_def backup_wait_phases_def snapshot_failure_def health_annotations_def
  persist_snapshot_def backup_snapshot_def backup_volume_def backup_claim_def backup_Execute_def
  delete_wait_phases_def delete_failure_def delete_snapshot_of_def delete_Execute_def
  unchanged_item_def skip_restore_def clone_wait_phases_def clone_outcome_def restore_volume_def
  map_storage_class_def restore_snapshot_def map_namespace_def restore_claim_def restore_Execute_def

end
