(* ===== verification/Plugin_Correctness.thy ===== *)
theory Plugin_Correctness
  imports Plugin_Actions Cluster_Config
begin

text \<open>
  What the item actions do to the cluster and to the item, and where they do not do what they
  are meant to. The frame lemmas say which parts of the world each helper leaves alone; the
  three \<open>\<dots>_effect\<close> lemmas say what a request adds.
\<close>

section \<open>Frames\<close>

lemma keeps_GetKubeClient [frame]:
  assumes "\<And>w n. I w \<Longrightarrow> I (w\<lparr>w_tick := n\<rparr>)"
  shows "keeps I (GetKubeClient E g)"
  unfolding GetKubeClient_def by (intro keeps_rules frame) (use assms in auto)

lemma keeps_RetrieveBlockListConfigMap [frame]:
  assumes "\<And>w n. I w \<Longrightarrow> I (w\<lparr>w_tick := n\<rparr>)"
  shows "keeps I (RetrieveBlockListConfigMap E)"
  unfolding RetrieveBlockListConfigMap_def by (intro keeps_rules frame) (use assms in auto)

lemma keeps_IsObjectBlocked [frame]:
  assumes "\<And>w n. I w \<Longrightarrow> I (w\<lparr>w_tick := n\<rparr>)"
  shows "keeps I (IsObjectBlocked E P item)"
  unfolding IsObjectBlocked_def by (intro keeps_rules frame) (use assms in auto)

lemma keeps_IsPVCBackedUpByFsBackup [frame]:
  assumes "\<And>w n. I w \<Longrightarrow> I (w\<lparr>w_tick := n\<rparr>)"
  shows "keeps I (IsPVCBackedUpByFsBackup P ns name d)"
  unfolding IsPVCBackedUpByFsBackup_def GetPodsUsingPVC_def by (intro keeps_rules frame) (use assms in auto)

lemma keeps_SkipPVCCreation [frame]:
  assumes "\<And>w n. I w \<Longrightarrow> I (w\<lparr>w_tick := n\<rparr>)"
  shows "keeps I (SkipPVCCreation E P g pvc ns)"
  unfolding SkipPVCCreation_def by (intro keeps_rules frame) (use assms in auto)

lemma keeps_RetrieveStorageClassMapping [frame]:
  assumes "\<And>w n. I w \<Longrightarrow> I (w\<lparr>w_tick := n\<rparr>)"
  shows "keeps I (RetrieveStorageClassMapping E P g ns)"
  unfolding RetrieveStorageClassMapping_def by (intro keeps_rules frame) (use assms in auto)

lemma keeps_ValidateRestoreStorageClass [frame]:
  assumes "\<And>w n. I w \<Longrightarrow> I (w\<lparr>w_tick := n\<rparr>)"
  shows "keeps I (ValidateRestoreStorageClass E P g s)"
  unfolding ValidateRestoreStorageClass_def by (intro keeps_rules frame) (use assms in auto)

lemma keeps_RetrieveParamsFromBSL [frame]:
  assumes "\<And>w n. I w \<Longrightarrow> I (w\<lparr>w_tick := n\<rparr>)"
  shows "keeps I (RetrieveParamsFromBSL E P b)"
proof -
  have secret: "keeps I (case s of Inl e \<Rightarrow> State_Monad.return (Inl e) | Inr [] \<Rightarrow> State_Monad.return (Inr m)
      | Inr (value # vs) \<Rightarrow> add_credentials P value m)" for s :: "goerr + string list" and m
    by (cases s; simp split: list.splits)
       (auto simp: add_credentials_def intro!: keeps_rules frame assms split: list.splits)
  show ?thesis
    unfolding RetrieveParamsFromBSL_def by (intro keeps_rules frame secret) (use assms in auto)
qed

lemma keeps_RetrieveBSLFromBackup [frame]:
  assumes "\<And>w n. I w \<Longrightarrow> I (w\<lparr>w_tick := n\<rparr>)"
  shows "keeps I (RetrieveBSLFromBackup E P g b)"
  unfolding RetrieveBSLFromBackup_def by (intro keeps_rules frame) (use assms in auto)

text \<open>Claiming a repository creates at most a claim.\<close>

lemma keeps_cr_create:
  assumes "\<And>w n. I w \<Longrightarrow> I (w\<lparr>w_tick := n\<rparr>)" and "\<And>w f. I w \<Longrightarrow> I (upd f w)"
  shows "keeps I (cr_create sel upd admit E k x)"
  using assms by (auto simp: triple_def cr_create_def Let_def split: fate.splits option.splits)

lemma keeps_wait_claim [frame]:
  assumes "\<And>w n. I w \<Longrightarrow> I (w\<lparr>w_tick := n\<rparr>)"
  shows "keeps I (wait_claim E svc names fuel)"
proof (induction fuel)
  case (Suc fuel)
  show ?case unfolding wait_claim.simps by (intro keeps_rules frame Suc.IH) (use assms in auto)
qed (simp add: triple_return)

lemma keeps_ClaimBackupRepository:
  assumes tick: "\<And>w n. I w \<Longrightarrow> I (w\<lparr>w_tick := n\<rparr>)" and brcs: "\<And>w f. I w \<Longrightarrow> I (w_brcs_update f w)"
  shows "keeps I (ClaimBackupRepository E fuel False driver ps nss ns)"
proof -
  have create: "keeps I (create_claim E False k c)" for k c
    unfolding create_claim_def Let_def by (simp, rule keeps_cr_create) (use tick brcs in auto)
  have names: "keeps I (case names of [] \<Rightarrow> m | n # ns' \<Rightarrow> f n ns')"
    if "keeps I m" "\<And>n ns'. keeps I (f n ns')" for names :: "string list" and m f
    using that by (cases names) auto
  show ?thesis
    unfolding ClaimBackupRepository_def
    by (intro keeps_rules frame create names) (use tick in auto)
qed

lemma keeps_repository_unless_local:
  assumes "\<And>w n. I w \<Longrightarrow> I (w\<lparr>w_tick := n\<rparr>)" and "\<And>w f. I w \<Longrightarrow> I (w_brcs_update f w)"
  shows "keeps I (repository_unless_local E P fuel b ns veleroNs)"
  unfolding repository_unless_local_def RetrieveBackupRepositoryFromBSL_def
  by (intro keeps_rules frame keeps_ClaimBackupRepository) (use assms in auto)


section \<open>What a request adds\<close>

text \<open>\<open>adds_one ns good S0 S\<close>: the objects \<open>S\<close> are \<open>S0\<close>, or \<open>S0\<close> and one new object in \<open>ns\<close>.\<close>

definition adds_one :: "string \<Rightarrow> ('o \<Rightarrow> bool) \<Rightarrow> (key \<Rightarrow> 'o option) \<Rightarrow> (key \<Rightarrow> 'o option) \<Rightarrow> bool" where
  "adds_one ns good S0 S \<longleftrightarrow>
     S = S0 \<or> (\<exists>name y. S0 (ns, name) = None \<and> good y \<and> S = S0((ns, name) \<mapsto> y))"

lemma adds_one_refl [simp]: "adds_one ns good S0 S0"
  by (simp add: adds_one_def)

lemma adds_oneI: "S0 (ns, name) = None \<Longrightarrow> good y \<Longrightarrow> adds_one ns good S0 (S0((ns, name) \<mapsto> y))"
  by (auto simp: adds_one_def)

lemma upd_witness [simp]: "(\<exists>y. good y \<and> S0(k \<mapsto> x) = S0(k \<mapsto> y)) \<longleftrightarrow> good x"
  by (metis fun_upd_eqD option.inject)

lemma adds_one_keeps: "adds_one ns good S0 S \<Longrightarrow> S0 k = Some y \<Longrightarrow> S k = Some y"
  by (auto simp: adds_one_def)

definition snapshot_request ::
  "TypedLocalObjectReference \<Rightarrow> string \<Rightarrow> (string \<rightharpoonup> string) \<Rightarrow> Snapshot \<Rightarrow> bool" where
  "snapshot_request ref repo labels s \<longleftrightarrow>
     sns_Reference (sn_Spec s) = ref \<and> sns_BackupRepository (sn_Spec s) = repo \<and>
     sns_SnapshotCancel (sn_Spec s) = False \<and>
     om_Labels (sn_Meta s) = AppendVeleroExcludeLabels labels \<and>
     snapshot_state s \<in> {SnapshotPhaseUnset, SnapshotPhaseNew}"

definition delete_request :: "string \<Rightarrow> string \<Rightarrow> DeleteSnapshot \<Rightarrow> bool" where
  "delete_request snapshotID repo d \<longleftrightarrow>
     ds_SnapshotID (d_Spec d) = snapshotID \<and> ds_BackupRepository (d_Spec d) = repo \<and>
     delete_state d \<in> {DeleteSnapshotPhaseUnset, DeleteSnapshotPhaseNew}"

text \<open>The status of a restore request is dated later, so only its specification is fixed.\<close>

definition clone_request :: "string \<Rightarrow> string \<Rightarrow> string option \<Rightarrow> string \<Rightarrow> string \<Rightarrow> CloneFromSnapshot \<Rightarrow> bool" where
  "clone_request snapshotID metadata apiGroup kind repo c \<longleftrightarrow>
     cl_Spec c = \<lparr>cls_SnapshotID = snapshotID, cls_Metadata = metadata, cls_APIGroup = apiGroup,
       cls_Kind = kind, cls_BackupRepository = repo, cls_CloneCancel = False\<rparr>"

lemmas request_defs =
  ForSnapshot_def ForDeleteSnapshot_def ForCloneFromSnapshot_def build_meta_def
  announce_snapshot_def announce_delete_def announce_clone_def
  no_snapshot_status_def no_delete_status_def no_clone_status_def
  snapshot_request_def delete_request_def clone_request_def

lemma filed_requests [simp]:
  "snapshot_request ref repo labels (ForSnapshot ns name labels repo ref False)"
  "snapshot_request ref repo labels (announce_snapshot (ForSnapshot ns name labels repo ref False)
     (ForSnapshot ns name labels repo ref False))"
  "delete_request snapshotID repo (ForDeleteSnapshot ns name snapshotID repo)"
  "delete_request snapshotID repo (announce_delete (ForDeleteSnapshot ns name snapshotID repo)
     (ForDeleteSnapshot ns name snapshotID repo))"
  "clone_request snapshotID md grp kind repo (ForCloneFromSnapshot ns name snapshotID md grp kind repo)"
  "clone_request snapshotID md grp kind repo (announce_clone (ForCloneFromSnapshot ns name snapshotID md grp kind repo)
     (ForCloneFromSnapshot ns name snapshotID md grp kind repo))"
  by (simp_all add: request_defs)

lemma SnapshotRef_effect:
  assumes tick: "\<And>w n. I w \<Longrightarrow> I (w\<lparr>w_tick := n\<rparr>)" and upd: "\<And>w f. I w \<Longrightarrow> I (w_snapshots_update f w)"
  shows "triple (\<lambda>w. I w \<and> w_snapshots w = S0) (SnapshotRef E P fuel ref ns repo labels phases)
    (\<lambda>_ w. I w \<and> adds_one ns (snapshot_request ref repo labels) S0 (w_snapshots w))"
    (is "triple ?pre _ (\<lambda>_. ?post)")
proof -
  have wait: "keeps ?post (WaitForPhases P fuel s phases)" for s
    unfolding WaitForPhases_def by (rule keeps_wait_phases) (use tick in auto)
  have filing: "triple ?pre (file_request w_snapshots w_snapshots_update announce_snapshot cm um E (ns, name)
      (ForSnapshot ns name labels repo ref False)) (\<lambda>_. ?post)" for cm um name
    by (rule triple_weaken [OF snapshot_requests.file_triple [OF tick upd]])
       (auto intro!: adds_oneI)
  have "triple ?pre (ask (e_uuid E)) (\<lambda>_. ?pre)" by (rule keeps_ask) (use tick in auto)
  then show ?thesis
    unfolding SnapshotRef_def Let_def
    by (intro triple_bind [of ?pre _ "\<lambda>_. ?pre"] triple_case_sum triple_bind [OF filing] triple_bind [OF wait] triple_return)
       auto
qed

lemma DeleteSnapshotRef_effect:
  assumes tick: "\<And>w n. I w \<Longrightarrow> I (w\<lparr>w_tick := n\<rparr>)" and upd: "\<And>w f. I w \<Longrightarrow> I (w_deletes_update f w)"
  shows "triple (\<lambda>w. I w \<and> w_deletes w = S0) (DeleteSnapshotRef E P fuel snapshotID ns repo phases)
    (\<lambda>_ w. I w \<and> adds_one ns (delete_request snapshotID repo) S0 (w_deletes w))"
    (is "triple ?pre _ (\<lambda>_. ?post)")
proof -
  have wait: "keeps ?post (WaitForDeleteSnapshotPhases P fuel s phases)" for s
    unfolding WaitForDeleteSnapshotPhases_def by (rule keeps_wait_phases) (use tick in auto)
  have filing: "triple ?pre (file_request w_deletes w_deletes_update announce_delete cm um E (ns, name)
      (ForDeleteSnapshot ns name snapshotID repo)) (\<lambda>_. ?post)" for cm um name
    by (rule triple_weaken [OF delete_requests.file_triple [OF tick upd]])
       (auto intro!: adds_oneI)
  have "triple ?pre (ask (e_uuid E)) (\<lambda>_. ?pre)" by (rule keeps_ask) (use tick in auto)
  then show ?thesis
    unfolding DeleteSnapshotRef_def Let_def
    by (intro triple_bind [of ?pre _ "\<lambda>_. ?pre"] triple_case_sum triple_bind [OF filing] triple_bind [OF wait] triple_return)
       auto
qed

text \<open>Dating changes the status of the request only.\<close>

lemma date_clone_effect:
  assumes tick: "\<And>w n. I w \<Longrightarrow> I (w\<lparr>w_tick := n\<rparr>)" and upd: "\<And>w f. I w \<Longrightarrow> I (w_clones_update f w)"
    and good: "\<And>y st. good y \<Longrightarrow> good (y\<lparr>cl_Status := st\<rparr>)"
  shows "keeps (\<lambda>w. I w \<and> (\<exists>y. good y \<and> w_clones w = S0((ns, name) \<mapsto> y))) (date_clone E (ns, name) c)"
proof -
  have "keeps (\<lambda>w. I w \<and> (\<exists>y. good y \<and> w_clones w = S0((ns, name) \<mapsto> y)))
    (cr_modify w_clones w_clones_update E (ns, name) (\<lambda>cur. cur\<lparr>cl_Status := st\<rparr>))" for st
  proof (rule keeps_cr_modify)
    fix w x
    assume inv: "I w \<and> (\<exists>y. good y \<and> w_clones w = S0((ns, name) \<mapsto> y))" and x: "w_clones w (ns, name) = Some x"
    then have "good x" "w_clones w = S0((ns, name) \<mapsto> x)" by auto
    with inv show "I (w_clones_update (\<lambda>m. m((ns, name) \<mapsto> x\<lparr>cl_Status := st\<rparr>)) (w\<lparr>w_tick := Suc (w_tick w)\<rparr>)) \<and>
      (\<exists>y. good y \<and> w_clones (w_clones_update (\<lambda>m. m((ns, name) \<mapsto> x\<lparr>cl_Status := st\<rparr>))
        (w\<lparr>w_tick := Suc (w_tick w)\<rparr>)) = S0((ns, name) \<mapsto> y))"
      by (intro conjI upd tick exI [of _ "x\<lparr>cl_Status := st\<rparr>"] good) auto
  qed (use tick in auto)
  then show ?thesis
    unfolding date_clone_def by (intro keeps_rules frame) (use tick in auto)
qed

lemma CloneFromSnapshopRef_effect:
  assumes tick: "\<And>w n. I w \<Longrightarrow> I (w\<lparr>w_tick := n\<rparr>)" and upd: "\<And>w f. I w \<Longrightarrow> I (w_clones_update f w)"
  shows "triple (\<lambda>w. I w \<and> w_clones w = S0) (CloneFromSnapshopRef E P fuel snapshotID md grp kind ns repo phases)
    (\<lambda>_ w. I w \<and> adds_one ns (clone_request snapshotID md grp kind repo) S0 (w_clones w))"
    (is "triple ?pre _ (\<lambda>_. ?post)")
proof -
  let ?good = "clone_request snapshotID md grp kind repo"
  let ?mid = "\<lambda>name w. I w \<and> (\<exists>y. ?good y \<and> w_clones w = S0((ns, name) \<mapsto> y))"
  let ?filed = "\<lambda>name r w. I w \<and> (case r of Inl _ \<Rightarrow> adds_one ns ?good S0 (w_clones w)
                                    | Inr _ \<Rightarrow> S0 (ns, name) = None \<and> ?mid name w)"
  have filing: "triple ?pre (file_request w_clones w_clones_update announce_clone cm um E (ns, name)
      (ForCloneFromSnapshot ns name snapshotID md grp kind repo)) (?filed name)" for cm um name
  proof (rule triple_weaken [OF clone_requests.file_triple [where I = I, OF tick upd, of S0]])
    fix r w
    let ?x = "ForCloneFromSnapshot ns name snapshotID md grp kind repo"
    assume post: "I w \<and> (w_clones w = S0 \<or> S0 (ns, name) = None \<and>
        (w_clones w = S0((ns, name) \<mapsto> ?x) \<or> w_clones w = S0((ns, name) \<mapsto> announce_clone ?x ?x))) \<and>
      (\<forall>y. r = Inr y \<longrightarrow> S0 (ns, name) = None \<and> y = announce_clone ?x ?x \<and> w_clones w = S0((ns, name) \<mapsto> y))"
    show "?filed name r w"
    proof (cases r)
      case (Inl e)
      from post have "adds_one ns ?good S0 (w_clones w)"
        using adds_oneI [of S0 ns name ?good] filed_requests(5,6) adds_one_refl by metis
      with conjunct1 [OF post] show ?thesis unfolding Inl sum.case by (rule conjI)
    next
      case (Inr y)
      have new: "S0 (ns, name) = None \<and> y = announce_clone ?x ?x \<and> w_clones w = S0((ns, name) \<mapsto> y)"
        by (rule spec [OF conjunct2 [OF conjunct2 [OF post]], of y, THEN mp, OF Inr])
      then have "?good y" by simp
      with new conjunct1 [OF post] show ?thesis unfolding Inr sum.case by metis
    qed
  qed simp_all
  have wait: "keeps (?mid name) (WaitForClonePhases P fuel s phases)" for s name
    unfolding WaitForClonePhases_def by (rule keeps_wait_phases) (use tick in auto)
  have date: "keeps (?mid name) (date_clone E (ns, name) c)" for name c
    by (rule date_clone_effect [OF tick upd]) (auto simp: clone_request_def)
  let ?wait = "\<lambda>msg name written. State_Monad.bind (WaitForClonePhases P fuel written phases)
         (\<lambda>r. case awaited msg r of
             None \<Rightarrow> State_Monad.return None
           | Some (Inl e) \<Rightarrow> State_Monad.return (Some (Inl e))
           | Some (Inr c) \<Rightarrow> State_Monad.bind (date_clone E (ns, name) c) (\<lambda>d. State_Monad.return (Some d)))"
  have inner: "keeps (?mid name) (?wait msg name written)" for msg name written
    by (intro keeps_bind wait date triple_case_option triple_case_sum triple_return)
  have rest: "triple (?filed name r) (case r of Inl e \<Rightarrow> State_Monad.return (Some (Inl e))
     | Inr written \<Rightarrow> ?wait msg name written) (\<lambda>_. ?post)" for name r msg
  proof (cases r)
    case (Inl e)
    then show ?thesis by (simp add: triple_return)
  next
    case (Inr written)
    show ?thesis
    proof (cases "S0 (ns, name) = None")
      case True
      show ?thesis unfolding Inr sum.case
        by (rule triple_weaken [OF inner [of name]]) (use adds_oneI [of S0 ns name ?good] True in metis)+
    next
      case False
      then show ?thesis unfolding Inr sum.case triple_def by blast
    qed
  qed
  have "triple ?pre (ask (e_uuid E)) (\<lambda>_. ?pre)" by (rule keeps_ask) (use tick in auto)
  then show ?thesis
    unfolding CloneFromSnapshopRef_def
    by (intro triple_bind [of ?pre _ "\<lambda>_. ?pre"] triple_case_sum triple_bind [OF filing] rest triple_return)
       auto
qed


section \<open>Backup\<close>

text \<open>Everything but the requests, the repository claims and the call counter is as in \<open>w0\<close>.\<close>

definition same_rest :: "world \<Rightarrow> world \<Rightarrow> bool" where
  "same_rest w0 w \<longleftrightarrow>
     w_trace w = w_trace w0 \<and> w_uploads w = w_uploads w0 \<and> w_downloads w = w_downloads w0 \<and>
     w_svc_snapshots w = w_svc_snapshots w0 \<and> w_brs w = w_brs w0 \<and> w_svc_brcs w = w_svc_brcs w0 \<and>
     w_ongoing w = w_ongoing w0 \<and> w_svcSnapshotMap w = w_svcSnapshotMap w0 \<and>
     w_config_maps w = w_config_maps w0"

lemma same_rest_simps [simp]:
  "same_rest w w"
  "same_rest w0 (w\<lparr>w_tick := n\<rparr>) = same_rest w0 w"
  "same_rest w0 (w_brcs_update f w) = same_rest w0 w"
  "same_rest w0 (w_snapshots_update g w) = same_rest w0 w"
  "same_rest w0 (w_deletes_update h w) = same_rest w0 w"
  "same_rest w0 (w_clones_update i w) = same_rest w0 w"
  by (simp_all add: same_rest_def)

text \<open>The volume of a claim that is snapshotted.\<close>

definition vsphere_volume :: "plugin_env \<Rightarrow> PersistentVolumeClaim \<Rightarrow> bool" where
  "vsphere_volume P pvc \<longleftrightarrow> pvc_VolumeName pvc \<noteq> '''' \<and> pvc_Phase pvc = ClaimBound \<and>
     (\<exists>n pv. p_get_pv P n (pvc_VolumeName pvc) = Inr pv \<and>
        ((\<exists>h. vol_CSI pv = Some (VSphereCSIDriverName, h)) \<or> vol_CSI pv = None \<and> IsMigratedCSIVolume pv))"

lemma judge_volume_vsphere:
  "judge_volume m pvc pv = TakeSnapshot \<Longrightarrow>
   (\<exists>h. vol_CSI pv = Some (VSphereCSIDriverName, h)) \<or> vol_CSI pv = None \<and> IsMigratedCSIVolume pv"
  by (cases "vol_CSI pv") (auto simp: judge_volume_def Let_def split: if_splits)

lemma GetPVForPVC_result:
  assumes "\<And>w n. I w \<Longrightarrow> I (w\<lparr>w_tick := n\<rparr>)"
  shows "triple I (GetPVForPVC P pvc) (\<lambda>r w. I w \<and> (\<forall>pv. r = Inr pv \<longrightarrow>
    pvc_VolumeName pvc \<noteq> '''' \<and> pvc_Phase pvc = ClaimBound \<and> (\<exists>n. p_get_pv P n (pvc_VolumeName pvc) = Inr pv)))"
  using assms by (auto simp: triple_def GetPVForPVC_def split: sum.splits)

definition claim_reference :: "PersistentVolumeClaim \<Rightarrow> TypedLocalObjectReference" where
  "claim_reference pvc = \<lparr>tr_APIGroup = Some '''', tr_Kind = pvc_Kind pvc, tr_Name = pvc_Name pvc\<rparr>"

definition backup_post :: "plugin_env \<Rightarrow> Backup \<Rightarrow> PersistentVolumeClaim \<Rightarrow> world \<Rightarrow> world \<Rightarrow> bool" where
  "backup_post P backup pvc w0 w \<longleftrightarrow>
     same_rest w0 w \<and> w_deletes w = w_deletes w0 \<and> w_clones w = w_clones w0 \<and>
     (w_snapshots w = w_snapshots w0 \<or>
      vsphere_volume P pvc \<and>
      (\<exists>repo. adds_one (pvc_Namespace pvc)
         (snapshot_request (claim_reference pvc) repo [SnapshotBackupLabel \<mapsto> bk_Name backup])
         (w_snapshots w0) (w_snapshots w)))"

abbreviation nothing_filed :: "world \<Rightarrow> world \<Rightarrow> bool" where
  "nothing_filed w0 w \<equiv> same_rest w0 w \<and> w_deletes w = w_deletes w0 \<and> w_clones w = w_clones w0 \<and>
     w_snapshots w = w_snapshots w0"

lemma backup_snapshot_effect:
  assumes "vsphere_volume P pvc"
  shows "triple (nothing_filed w0) (backup_snapshot E P fuel backup pvc repo) (\<lambda>_. backup_post P backup pvc w0)"
proof -
  let ?I = "\<lambda>w. same_rest w0 w \<and> w_deletes w = w_deletes w0 \<and> w_clones w = w_clones w0"
  have "triple (\<lambda>w. ?I w \<and> w_snapshots w = w_snapshots w0)
      (SnapshotRef E P fuel (claim_reference pvc) (pvc_Namespace pvc) repo [SnapshotBackupLabel \<mapsto> bk_Name backup]
         backup_wait_phases)
      (\<lambda>_ w. ?I w \<and> adds_one (pvc_Namespace pvc)
         (snapshot_request (claim_reference pvc) repo [SnapshotBackupLabel \<mapsto> bk_Name backup])
         (w_snapshots w0) (w_snapshots w))"
    by (rule SnapshotRef_effect) auto
  then have "triple (nothing_filed w0)
      (SnapshotRef E P fuel (claim_reference pvc) (pvc_Namespace pvc) repo [SnapshotBackupLabel \<mapsto> bk_Name backup]
         backup_wait_phases) (\<lambda>_. backup_post P backup pvc w0)"
    by (rule triple_weaken) (use assms in \<open>auto simp: backup_post_def\<close>)
  then show ?thesis
    unfolding backup_snapshot_def claim_reference_def [symmetric]
    by (rule triple_bind) (simp add: triple_return)
qed

lemma backup_volume_effect:
  assumes "pvc_VolumeName pvc \<noteq> ''''" and "pvc_Phase pvc = ClaimBound"
    and "p_get_pv P n (pvc_VolumeName pvc) = Inr pv"
  shows "triple (nothing_filed w0) (backup_volume E P fuel item backup pvc pv ns) (\<lambda>_. backup_post P backup pvc w0)"
proof -
  have idle: "triple (nothing_filed w0) (State_Monad.return x) (\<lambda>_. backup_post P backup pvc w0)"
    for x :: "(goerr + unstructured) option"
    by (rule triple_return) (simp add: backup_post_def)
  have flag: "keeps (nothing_filed w0) (IsFeatureEnabled E CSIMigratedVolumeSupportFlag False)"
    by (rule keeps_IsFeatureEnabled) simp
  have client: "keeps (nothing_filed w0) (ask (e_client E))" by (rule keeps_ask) simp
  have repo: "keeps (nothing_filed w0) (repository_unless_local E P fuel b x ns)" for b x
    by (rule keeps_repository_unless_local) simp_all
  have decide: "triple (nothing_filed w0) (case d of
        RefuseVolume msg \<Rightarrow> m1 msg | LeaveAlone \<Rightarrow> m2 | TakeSnapshot \<Rightarrow> m3) Q"
    if "\<And>msg. triple (nothing_filed w0) (m1 msg) Q" "triple (nothing_filed w0) m2 Q"
      "d = TakeSnapshot \<Longrightarrow> triple (nothing_filed w0) m3 Q"
    for d m1 m2 m3 and Q :: "(goerr + unstructured) option \<Rightarrow> world \<Rightarrow> bool"
    using that by (cases d) auto
  have taken: "vsphere_volume P pvc" if "judge_volume m pvc pv = TakeSnapshot" for m
    using judge_volume_vsphere [OF that] assms by (auto simp: vsphere_volume_def)
  show ?thesis
    unfolding backup_volume_def
    by (intro triple_bind [OF flag] decide triple_bind [OF client] triple_bind [OF repo]
        triple_case_option triple_case_sum idle backup_snapshot_effect taken)
qed

lemma backup_claim_effect:
  "triple (nothing_filed w0) (backup_claim E P fuel item backup pvc) (\<lambda>_. backup_post P backup pvc w0)"
proof -
  have idle: "triple (nothing_filed w0) (State_Monad.return x) (\<lambda>_. backup_post P backup pvc w0)"
    for x :: "(goerr + unstructured) option"
    by (rule triple_return) (simp add: backup_post_def)
  have cl: "keeps (nothing_filed w0) (connect id id E)" by (rule keeps_connect) simp
  have fs: "keeps (nothing_filed w0) (IsPVCBackedUpByFsBackup P a b d)" for a b d
    by (rule keeps_IsPVCBackedUpByFsBackup) simp
  have pv: "triple (nothing_filed w0) (GetPVForPVC P pvc) (\<lambda>r w. nothing_filed w0 w \<and> (\<forall>pv. r = Inr pv \<longrightarrow>
    pvc_VolumeName pvc \<noteq> '''' \<and> pvc_Phase pvc = ClaimBound \<and> (\<exists>n. p_get_pv P n (pvc_VolumeName pvc) = Inr pv)))"
    by (rule GetPVForPVC_result) simp
  let ?rest = "\<lambda>ns r. case r of Inl e \<Rightarrow> State_Monad.return (Some (Inl e)) | Inr pv \<Rightarrow>
     State_Monad.bind (IsPVCBackedUpByFsBackup P (pvc_Namespace pvc) (pvc_Name pvc) (bk_DefaultVolumesToFsBackup backup = Some True))
       (\<lambda>fs. case fs of Inl e \<Rightarrow> State_Monad.return (Some (Inl e)) | Inr isFsBackupUsed \<Rightarrow>
          if isFsBackupUsed then State_Monad.return (Some (Inr item))
          else backup_volume E P fuel item backup pvc pv ns)"
  have rest: "triple (\<lambda>w. nothing_filed w0 w \<and> (\<forall>pv. r = Inr pv \<longrightarrow>
      pvc_VolumeName pvc \<noteq> '''' \<and> pvc_Phase pvc = ClaimBound \<and> (\<exists>n. p_get_pv P n (pvc_VolumeName pvc) = Inr pv)))
    (?rest ns r) (\<lambda>_. backup_post P backup pvc w0)" for ns r
  proof (cases "\<forall>pv. r = Inr pv \<longrightarrow>
      pvc_VolumeName pvc \<noteq> '''' \<and> pvc_Phase pvc = ClaimBound \<and> (\<exists>n. p_get_pv P n (pvc_VolumeName pvc) = Inr pv)")
    case True
    then have "triple (nothing_filed w0) (?rest ns r) (\<lambda>_. backup_post P backup pvc w0)"
      by (cases r) (auto intro!: idle triple_bind [OF fs] triple_case_sum backup_volume_effect)
    then show ?thesis by (rule triple_weaken) auto
  next
    case False
    then show ?thesis unfolding triple_def by blast
  qed
  show ?thesis
    unfolding backup_claim_def
    by (intro triple_case_option triple_bind [OF cl] triple_bind [OF pv] rest idle)
qed

lemma backup_Execute_effect:
  "triple (nothing_filed w0) (backup_Execute E P fuel item backup)
     (\<lambda>_ w. nothing_filed w0 w \<or> bk_SnapshotVolumes backup \<noteq> Some False \<and>
        (\<exists>pvc. p_pvc_from P (un_Content item) = Inr pvc \<and> backup_post P backup pvc w0 w))"
proof (cases "bk_SnapshotVolumes backup = Some False")
  case True
  then show ?thesis by (simp add: backup_Execute_def triple_return)
next
  case False
  have blocked: "keeps (nothing_filed w0) (IsObjectBlocked E P item)" by (rule keeps_IsObjectBlocked) simp
  show ?thesis
    unfolding backup_Execute_def
    by (intro triple_if triple_bind [OF blocked] triple_case_sum triple_case_prod triple_return
        triple_weaken [OF backup_claim_effect [of w0]]) (use False in auto)
qed

text \<open>
  C4. Whatever happens, a run of the backup action requests at most one snapshot: it adds at
  most one new Snapshot, in the claim's namespace, for the claim, labelled with the backup's
  name and not to be cancelled, and only in a backup whose specification does not turn volume
  snapshots off and for a bound claim whose volume is a vSphere CSI volume or one migrated to
  it. No existing Snapshot is changed, and no other resource except
  repository claims is written.
\<close>

theorem backup_requests_one_snapshot:
  "let w' = snd (run_state (backup_Execute E P fuel item backup) w) in
   same_rest w w' \<and> w_deletes w' = w_deletes w \<and> w_clones w' = w_clones w \<and>
   (w_snapshots w' = w_snapshots w \<or>
    bk_SnapshotVolumes backup \<noteq> Some False \<and>
    (\<exists>pvc repo name s. p_pvc_from P (un_Content item) = Inr pvc \<and> vsphere_volume P pvc \<and>
       w_snapshots w (pvc_Namespace pvc, name) = None \<and>
       snapshot_request (claim_reference pvc) repo [SnapshotBackupLabel \<mapsto> bk_Name backup] s \<and>
       w_snapshots w' = (w_snapshots w)((pvc_Namespace pvc, name) \<mapsto> s)))"
proof -
  let ?w' = "snd (run_state (backup_Execute E P fuel item backup) w)"
  have "nothing_filed w ?w' \<or> bk_SnapshotVolumes backup \<noteq> Some False \<and>
      (\<exists>pvc. p_pvc_from P (un_Content item) = Inr pvc \<and> backup_post P backup pvc w ?w')"
    using tripleD [OF backup_Execute_effect, of w w E P fuel item backup] by (metis prod.collapse same_rest_simps(1))
  then show ?thesis
  proof
    assume "bk_SnapshotVolumes backup \<noteq> Some False \<and>
      (\<exists>pvc. p_pvc_from P (un_Content item) = Inr pvc \<and> backup_post P backup pvc w ?w')"
    then obtain pvc where "bk_SnapshotVolumes backup \<noteq> Some False" "p_pvc_from P (un_Content item) = Inr pvc"
      "backup_post P backup pvc w ?w'" by blast
    then show ?thesis unfolding Let_def backup_post_def adds_one_def by metis
  qed (simp add: Let_def)
qed


section \<open>Restore\<close>

text \<open>
  Protocol buffers are read back as they were written; the theorems that need it say so.
\<close>

definition pvc_codec :: "plugin_env \<Rightarrow> bool" where
  "pvc_codec P \<longleftrightarrow> (\<forall>c md. p_pvc_marshal P c = Inr md \<longrightarrow> p_pvc_unmarshal P md = Inr c)"

abbreviation claim_of :: "plugin_env \<Rightarrow> Snapshot \<Rightarrow> goerr + PersistentVolumeClaim" where
  "claim_of P s \<equiv> p_pvc_unmarshal P (snt_Metadata (sn_Status s))"

text \<open>Rewriting the metadata of a snapshot changes nothing else of it.\<close>

definition same_snapshot :: "Snapshot \<Rightarrow> Snapshot \<Rightarrow> bool" where
  "same_snapshot s0 s \<longleftrightarrow> sn_Spec s = sn_Spec s0 \<and> snt_SnapshotID (sn_Status s) = snt_SnapshotID (sn_Status s0)"

lemma same_snapshot_simps [simp]: "same_snapshot s s" "same_snapshot s (set_metadata md s)"
  by (simp_all add: same_snapshot_def set_metadata_def)

lemma same_snapshot_trans: "same_snapshot s0 s1 \<Longrightarrow> same_snapshot s1 s2 \<Longrightarrow> same_snapshot s0 s2"
  by (simp add: same_snapshot_def)

lemma metadata_set [simp]: "snt_Metadata (sn_Status (set_metadata md s)) = md"
  by (simp add: set_metadata_def)

definition target_namespace :: "RestoreInput \<Rightarrow> string \<Rightarrow> string" where
  "target_namespace input ns = (case ri_NamespaceMapping input ns of None \<Rightarrow> ns | Some ns' \<Rightarrow> ns')"

text \<open>The namespace in the metadata is replaced only if there is a mapping for the claim's.\<close>

definition renamed :: "RestoreInput \<Rightarrow> string \<Rightarrow> PersistentVolumeClaim \<Rightarrow> PersistentVolumeClaim" where
  "renamed input ns c = (case ri_NamespaceMapping input ns of None \<Rightarrow> c | Some ns' \<Rightarrow> c\<lparr>pvc_Namespace := ns'\<rparr>)"

lemma map_namespace_result:
  assumes "pvc_codec P" and "map_namespace P input pvc s0 = Inr (t, s)"
  shows "t = target_namespace input (pvc_Namespace pvc)" "same_snapshot s0 s"
    "claim_of P s = Inr c \<Longrightarrow> \<exists>c0. claim_of P s0 = Inr c0 \<and> c = renamed input (pvc_Namespace pvc) c0"
  using assms
  by (auto simp: map_namespace_def UpdateSnapshotWithNewNamespace_def target_namespace_def renamed_def
      pvc_codec_def split: option.splits sum.splits)

text \<open>
  What a mapping of storage classes asks for: the class it names for the class of the claim, a
  claim without a class being looked up under the name reserved for it, and the claim's own
  class where the mapping has no entry.
\<close>

definition class_key :: "PersistentVolumeClaim \<Rightarrow> string" where
  "class_key c = (case pvc_StorageClassName c of
     Some (x # xs) \<Rightarrow> x # xs | _ \<Rightarrow> ''com.vmware.cnsdp.emptystorageclass'')"

definition mapped_class :: "(string \<rightharpoonup> string) \<Rightarrow> PersistentVolumeClaim \<Rightarrow> string option" where
  "mapped_class f c = (case f (class_key c) of None \<Rightarrow> pvc_StorageClassName c | Some sc \<Rightarrow> Some sc)"

text \<open>
  The mapping in force: the data of the one config map in Velero's namespace with the labels of
  a storage class mapping for restores, and no entries where there is no such config map.
\<close>

definition class_mapping :: "env \<Rightarrow> plugin_env \<Rightarrow> (string \<rightharpoonup> string) \<Rightarrow> bool" where
  "class_mapping E P f \<longleftrightarrow> (\<exists>ns n maps. e_velero_ns E = Some ns \<and>
     p_config_maps P n ns ''velero.io/plugin-config,velero.io/change-storage-class=RestoreItemAction'' = Inr maps \<and>
     (maps = [] \<and> f = Map.empty \<or> (\<exists>name. maps = [(name, f)])))"

lemma class_key_old: "class_key c = old_class c"
  by (auto simp: class_key_def old_class_def claim_has_class_def EmptyStorageClass_def split: option.splits list.splits)

lemma mapped_class_renamed [simp]: "mapped_class f (renamed input ns c) = mapped_class f c"
  by (simp add: mapped_class_def class_key_def renamed_def split: option.splits)

lemma mapped_class_empty: "dom f = {} \<Longrightarrow> mapped_class f c = pvc_StorageClassName c"
  by (simp add: mapped_class_def)

lemma mapped_class_none: "f (old_class c) = None \<Longrightarrow> mapped_class f c = pvc_StorageClassName c"
  by (simp add: mapped_class_def class_key_old)

lemma mapped_class_some: "f (old_class c) = Some sc \<Longrightarrow> mapped_class f c = Some sc"
  by (simp add: mapped_class_def class_key_old)

abbreviation with_class :: "(string \<rightharpoonup> string) \<Rightarrow> PersistentVolumeClaim \<Rightarrow> PersistentVolumeClaim" where
  "with_class f c \<equiv> c\<lparr>pvc_StorageClassName := mapped_class f c\<rparr>"

lemma UpdateSnapshotWithNewStorageClass_result:
  assumes codec: "pvc_codec P" and tick: "\<And>w n. I w \<Longrightarrow> I (w\<lparr>w_tick := n\<rparr>)"
  shows "triple I (UpdateSnapshotWithNewStorageClass E P True (Some s1) f) (\<lambda>r w. I w \<and> (\<forall>s. r = Inr s \<longrightarrow>
    same_snapshot s1 s \<and> (\<forall>c. claim_of P s = Inr c \<longrightarrow>
      (\<exists>c1. claim_of P s1 = Inr c1 \<and> c = with_class f c1))))"
proof (rule tripleI)
  fix w r w'
  assume pre: "I w" and run: "run_state (UpdateSnapshotWithNewStorageClass E P True (Some s1) f) w = (r, w')"
  have inv: "I w'"
    using pre run tick
    by (auto simp: UpdateSnapshotWithNewStorageClass_def GetKubeClient_def split: sum.splits option.splits if_splits)
  have "same_snapshot s1 s \<and> (\<forall>c. claim_of P s = Inr c \<longrightarrow>
      (\<exists>c1. claim_of P s1 = Inr c1 \<and> c = with_class f c1))" if "r = Inr s" for s
    using run codec that
    by (auto simp: UpdateSnapshotWithNewStorageClass_def GetKubeClient_def pvc_codec_def
        mapped_class_none mapped_class_some split: sum.splits option.splits if_splits)
  with inv show "I w' \<and> (\<forall>s. r = Inr s \<longrightarrow>
    same_snapshot s1 s \<and> (\<forall>c. claim_of P s = Inr c \<longrightarrow>
      (\<exists>c1. claim_of P s1 = Inr c1 \<and> c = with_class f c1)))"
    by blast
qed

text \<open>A validated snapshot names a storage class that exists and binds at once.\<close>

definition binds_at_once :: "plugin_env \<Rightarrow> PersistentVolumeClaim \<Rightarrow> bool" where
  "binds_at_once P c \<longleftrightarrow> (\<exists>sc n mode. pvc_StorageClassName c = Some sc \<and> sc \<noteq> '''' \<and>
     p_storage_class P n sc = Inr mode \<and> mode \<noteq> Some WaitForFirstConsumer)"

lemma binds_at_onceI:
  "p_storage_class P n sc = Inr mode \<Longrightarrow> pvc_StorageClassName c = Some sc \<Longrightarrow> sc \<noteq> '''' \<Longrightarrow>
   mode \<noteq> Some WaitForFirstConsumer \<Longrightarrow> binds_at_once P c"
  by (auto simp: binds_at_once_def)

lemma ValidateRestoreStorageClass_result:
  assumes "\<And>w n. I w \<Longrightarrow> I (w\<lparr>w_tick := n\<rparr>)"
  shows "triple I (ValidateRestoreStorageClass E P True (Some s)) (\<lambda>r w. I w \<and> (r = None \<longrightarrow>
    (\<exists>c. claim_of P s = Inr c \<and> binds_at_once P c)))"
  using assms
  by (auto simp: triple_def ValidateRestoreStorageClass_def GetKubeClient_def claim_has_class_def
      intro: binds_at_onceI split: sum.splits option.splits if_splits)

lemma RetrieveStorageClassMapping_result:
  assumes "\<And>w n. I w \<Longrightarrow> I (w\<lparr>w_tick := n\<rparr>)" and "e_velero_ns E = Some ns"
  shows "triple I (RetrieveStorageClassMapping E P True ns)
    (\<lambda>r w. I w \<and> (\<forall>m. r = Inr m \<longrightarrow> class_mapping E P (case m of None \<Rightarrow> Map.empty | Some f \<Rightarrow> f)))"
proof (rule tripleI)
  fix w r w'
  assume pre: "I w" and run: "run_state (RetrieveStorageClassMapping E P True ns) w = (r, w')"
  have "I w'"
    using pre run assms(1) by (auto simp: RetrieveStorageClassMapping_def GetKubeClient_def split: option.splits)
  moreover have "class_mapping E P (case m of None \<Rightarrow> Map.empty | Some f \<Rightarrow> f)" if "r = Inr m" for m
    using run that assms(2)
    by (auto simp: RetrieveStorageClassMapping_def GetKubeClient_def StorageClassMappingSelector_def class_mapping_def
        split: option.splits sum.splits list.splits) metis+
  ultimately show "I w' \<and> (\<forall>m. r = Inr m \<longrightarrow> class_mapping E P (case m of None \<Rightarrow> Map.empty | Some f \<Rightarrow> f))"
    by blast
qed

lemma map_storage_class_result:
  assumes codec: "pvc_codec P" and tick: "\<And>w n. I w \<Longrightarrow> I (w\<lparr>w_tick := n\<rparr>)" and "e_velero_ns E = Some ns"
  shows "triple I (map_storage_class E P ns s1) (\<lambda>r w. I w \<and> (\<forall>s. r = Inr s \<longrightarrow> same_snapshot s1 s \<and>
    (\<exists>c1 f. claim_of P s1 = Inr c1 \<and> class_mapping E P f \<and> claim_of P s = Inr (with_class f c1) \<and>
       binds_at_once P (with_class f c1))))"
    (is "triple I _ (\<lambda>r w. I w \<and> (\<forall>s. r = Inr s \<longrightarrow> ?final s))")
proof -
  let ?f = "\<lambda>m. case m of None \<Rightarrow> Map.empty | Some f \<Rightarrow> f"
  let ?mid = "\<lambda>f s. same_snapshot s1 s \<and> (\<forall>c. claim_of P s = Inr c \<longrightarrow>
      (\<exists>c1. claim_of P s1 = Inr c1 \<and> c = with_class f c1))"
  have mapped: "triple I (case m of
         None \<Rightarrow> State_Monad.return (Inr s1)
       | Some f \<Rightarrow> if dom f = {} then State_Monad.return (Inr s1)
                    else UpdateSnapshotWithNewStorageClass E P True (Some s1) f)
       (\<lambda>r w. I w \<and> (\<forall>s. r = Inr s \<longrightarrow> ?mid (?f m) s))" for m
    using UpdateSnapshotWithNewStorageClass_result [where I = I, OF codec tick]
    by (cases m) (auto intro!: triple_return simp: mapped_class_empty)
  have validated: "triple (\<lambda>w. I w \<and> (\<forall>s. r = Inr s \<longrightarrow> ?mid f s)) (case r of Inl e \<Rightarrow> State_Monad.return (Inl e)
      | Inr s \<Rightarrow> State_Monad.bind (ValidateRestoreStorageClass E P True (Some s))
          (\<lambda>v. State_Monad.return (case v of Some e \<Rightarrow> Inl e | None \<Rightarrow> Inr s)))
      (\<lambda>r w. I w \<and> (\<forall>s. r = Inr s \<longrightarrow> ?final s))" if f: "class_mapping E P f" for r f
  proof (cases r)
    case (Inl e)
    then show ?thesis by (simp add: triple_return)
  next
    case (Inr s)
    have valid: "triple (\<lambda>w. I w \<and> ?mid f s) (ValidateRestoreStorageClass E P True (Some s))
      (\<lambda>r w. (I w \<and> ?mid f s) \<and> (r = None \<longrightarrow> (\<exists>c. claim_of P s = Inr c \<and> binds_at_once P c)))"
      by (rule ValidateRestoreStorageClass_result) (use tick in auto)
    show ?thesis unfolding Inr sum.case
      by (rule triple_weaken, rule triple_bind [OF valid], rule triple_return) (use f in \<open>auto intro!: exI [of _ f] split: option.splits\<close>)
  qed
  let ?rest = "\<lambda>m. case m of Inl e \<Rightarrow> State_Monad.return (Inl (ErrMsg
        (''Failed to retrieve storage class mapping information : '' @ error_string e))) | Inr mapping \<Rightarrow>
      State_Monad.bind (case mapping of
         None \<Rightarrow> State_Monad.return (Inr s1)
       | Some f \<Rightarrow> if dom f = {} then State_Monad.return (Inr s1)
                    else UpdateSnapshotWithNewStorageClass E P True (Some s1) f)
      (\<lambda>r. case r of Inl e \<Rightarrow> State_Monad.return (Inl e)
      | Inr s \<Rightarrow> State_Monad.bind (ValidateRestoreStorageClass E P True (Some s))
          (\<lambda>v. State_Monad.return (case v of Some e \<Rightarrow> Inl e | None \<Rightarrow> Inr s)))"
  have rest: "triple (\<lambda>w. I w \<and> (\<forall>m. r = Inr m \<longrightarrow> class_mapping E P (?f m))) (?rest r)
      (\<lambda>r w. I w \<and> (\<forall>s. r = Inr s \<longrightarrow> ?final s))" for r
  proof (cases "\<forall>m. r = Inr m \<longrightarrow> class_mapping E P (?f m)")
    case True
    then have "triple I (?rest r) (\<lambda>r w. I w \<and> (\<forall>s. r = Inr s \<longrightarrow> ?final s))"
      by (intro triple_case_sum triple_bind [OF mapped] validated triple_return) auto
    then show ?thesis by (rule triple_weaken) auto
  next
    case False
    then show ?thesis unfolding triple_def by blast
  qed
  show ?thesis
    unfolding map_storage_class_def
    by (intro triple_bind [OF RetrieveStorageClassMapping_result [where I = I, OF tick assms(3)]] rest)
qed


text \<open>The target has no claim of that name: the lookup failed as not found, or answered with another.\<close>

definition claim_absent :: "plugin_env \<Rightarrow> string \<Rightarrow> string \<Rightarrow> bool" where
  "claim_absent P ns name \<longleftrightarrow>
     (\<exists>n. case p_get_pvc P n (ns, name) of
        Inl e \<Rightarrow> is_not_found e
      | Inr got \<Rightarrow> (pvc_Namespace got, pvc_Name got) \<noteq> (ns, name))"

lemma claim_absentI:
  "p_get_pvc P n (ns, name) = Inl e \<Longrightarrow> is_not_found e \<Longrightarrow> claim_absent P ns name"
  "p_get_pvc P n (ns, name) = Inr got \<Longrightarrow> pvc_Namespace got \<noteq> ns \<Longrightarrow> claim_absent P ns name"
  "p_get_pvc P n (ns, name) = Inr got \<Longrightarrow> pvc_Name got \<noteq> name \<Longrightarrow> claim_absent P ns name"
  unfolding claim_absent_def by (force intro!: exI [of _ n])+

lemma SkipPVCCreation_result:
  assumes "\<And>w n. I w \<Longrightarrow> I (w\<lparr>w_tick := n\<rparr>)"
  shows "triple I (SkipPVCCreation E P True (Some pvc) ns)
    (\<lambda>(skip, err) w. I w \<and> (\<not> skip \<longrightarrow> claim_absent P ns (pvc_Name pvc)))"
  using assms
  by (auto simp: triple_def SkipPVCCreation_def GetKubeClient_def intro: claim_absentI split: sum.splits option.splits)

abbreviation no_restore_filed :: "world \<Rightarrow> world \<Rightarrow> bool" where
  "no_restore_filed w0 w \<equiv> same_rest w0 w \<and> w_snapshots w = w_snapshots w0 \<and> w_deletes w = w_deletes w0 \<and>
     w_clones w = w_clones w0"

text \<open>
  The request that restores the snapshot \<open>s0\<close> of an item into \<open>target\<close>: same snapshot, same
  kind, and metadata that decodes to the claim that was backed up, moved to the mapped
  namespace and given the storage class that the mapping in force asks for, a class that
  exists and binds at once.
\<close>

definition restores :: "env \<Rightarrow> plugin_env \<Rightarrow> RestoreInput \<Rightarrow> PersistentVolumeClaim \<Rightarrow> Snapshot \<Rightarrow> CloneFromSnapshot \<Rightarrow> bool" where
  "restores E P input pvc s0 c \<longleftrightarrow>
     cls_SnapshotID (cl_Spec c) = snt_SnapshotID (sn_Status s0) \<and>
     cls_APIGroup (cl_Spec c) = tr_APIGroup (sns_Reference (sn_Spec s0)) \<and>
     cls_Kind (cl_Spec c) = tr_Kind (sns_Reference (sn_Spec s0)) \<and>
     (\<exists>c0 f. claim_of P s0 = Inr c0 \<and> class_mapping E P f \<and>
        p_pvc_unmarshal P (cls_Metadata (cl_Spec c)) =
          Inr (with_class f (renamed input (pvc_Namespace pvc) c0)) \<and>
        binds_at_once P (with_class f c0))"

definition restore_post ::
  "env \<Rightarrow> plugin_env \<Rightarrow> RestoreInput \<Rightarrow> PersistentVolumeClaim \<Rightarrow> Snapshot \<Rightarrow> world \<Rightarrow> world \<Rightarrow> bool" where
  "restore_post E P input pvc s0 w0 w \<longleftrightarrow>
     same_rest w0 w \<and> w_snapshots w = w_snapshots w0 \<and> w_deletes w = w_deletes w0 \<and>
     (w_clones w = w_clones w0 \<or>
      (let target = target_namespace input (pvc_Namespace pvc) in
       claim_absent P target (pvc_Name pvc) \<and>
       adds_one target (restores E P input pvc s0) (w_clones w0) (w_clones w)))"

lemma adds_one_mono: "adds_one ns good S0 S \<Longrightarrow> (\<And>y. good y \<Longrightarrow> good' y) \<Longrightarrow> adds_one ns good' S0 S"
  by (auto simp: adds_one_def)

lemma restore_volume_effect:
  assumes good: "\<And>repo c. clone_request (snt_SnapshotID (sn_Status s)) (snt_Metadata (sn_Status s))
      (tr_APIGroup (sns_Reference (sn_Spec s))) (tr_Kind (sns_Reference (sn_Spec s))) repo c \<Longrightarrow>
      restores E P input pvc s0 c"
    and absent: "claim_absent P (target_namespace input (pvc_Namespace pvc)) (pvc_Name pvc)"
  shows "triple (no_restore_filed w0)
    (restore_volume E P fuel input pvc (target_namespace input (pvc_Namespace pvc)) ns s)
    (\<lambda>_. restore_post E P input pvc s0 w0)"
proof -
  let ?t = "target_namespace input (pvc_Namespace pvc)"
  let ?I = "\<lambda>w. same_rest w0 w \<and> w_snapshots w = w_snapshots w0 \<and> w_deletes w = w_deletes w0"
  have idle: "triple (no_restore_filed w0) (State_Monad.return x) (\<lambda>_. restore_post E P input pvc s0 w0)"
    for x :: "(goerr + RestoreOutput) option"
    by (rule triple_return) (simp add: restore_post_def)
  have bsl: "keeps (no_restore_filed w0) (RetrieveBSLFromBackup E P True b)" for b
    by (rule keeps_RetrieveBSLFromBackup) simp
  have repo: "keeps (no_restore_filed w0) (repository_unless_local E P fuel b x ns)" for b x
    by (rule keeps_repository_unless_local) simp_all
  have clone: "triple (no_restore_filed w0)
      (CloneFromSnapshopRef E P fuel (snt_SnapshotID (sn_Status s)) (snt_Metadata (sn_Status s))
         (tr_APIGroup (sns_Reference (sn_Spec s))) (tr_Kind (sns_Reference (sn_Spec s))) ?t r clone_wait_phases)
      (\<lambda>_. restore_post E P input pvc s0 w0)" for r
    by (rule triple_weaken [OF CloneFromSnapshopRef_effect [where I = ?I and ?S0.0 = "w_clones w0"]])
       (auto simp: restore_post_def Let_def absent dest: adds_one_mono [OF _ good])
  show ?thesis
    unfolding restore_volume_def
    by (intro triple_bind [OF bsl] triple_bind [OF repo] triple_bind [OF clone]
        triple_case_option triple_case_sum idle) (simp add: triple_return)
qed

lemma restores_final:
  assumes "same_snapshot s0 s1" and "same_snapshot s1 s"
    and c1: "\<And>c1. claim_of P s1 = Inr c1 \<Longrightarrow> \<exists>c0. claim_of P s0 = Inr c0 \<and> c1 = renamed input (pvc_Namespace pvc) c0"
    and "claim_of P s1 = Inr c1'" and f: "class_mapping E P f" and "claim_of P s = Inr (with_class f c1')"
    and bind: "binds_at_once P (with_class f c1')"
    and "clone_request (snt_SnapshotID (sn_Status s)) (snt_Metadata (sn_Status s))
      (tr_APIGroup (sns_Reference (sn_Spec s))) (tr_Kind (sns_Reference (sn_Spec s))) repo c"
  shows "restores E P input pvc s0 c"
proof -
  from c1 [OF assms(4)] obtain c0 where c0: "claim_of P s0 = Inr c0" "c1' = renamed input (pvc_Namespace pvc) c0"
    by blast
  have "binds_at_once P (with_class f c0)"
    using bind by (auto simp: binds_at_once_def c0(2))
  with c0 f assms show ?thesis
    unfolding restores_def clone_request_def same_snapshot_def by auto
qed

lemma restore_snapshot_effect:
  assumes codec: "pvc_codec P" and same: "same_snapshot s0 s1"
    and c1: "\<And>c1. claim_of P s1 = Inr c1 \<Longrightarrow> \<exists>c0. claim_of P s0 = Inr c0 \<and> c1 = renamed input (pvc_Namespace pvc) c0"
  shows "triple (no_restore_filed w0)
    (restore_snapshot E P fuel input item pvc (target_namespace input (pvc_Namespace pvc)) s1)
    (\<lambda>_. restore_post E P input pvc s0 w0)"
proof -
  let ?t = "target_namespace input (pvc_Namespace pvc)"
  let ?final = "\<lambda>s. same_snapshot s1 s \<and>
    (\<exists>c1 f. claim_of P s1 = Inr c1 \<and> class_mapping E P f \<and> claim_of P s = Inr (with_class f c1) \<and>
       binds_at_once P (with_class f c1))"
  have idle: "triple (no_restore_filed w0) (State_Monad.return x) (\<lambda>_. restore_post E P input pvc s0 w0)"
    for x :: "(goerr + RestoreOutput) option"
    by (rule triple_return) (simp add: restore_post_def)
  have cl: "keeps (no_restore_filed w0) (connect id id E)" by (rule keeps_connect) simp
  have cl2: "keeps (no_restore_filed w0) (ask (e_client E))" by (rule keeps_ask) simp
  have skip: "triple (no_restore_filed w0) (SkipPVCCreation E P True (Some pvc) ?t)
    (\<lambda>(skip, err) w. no_restore_filed w0 w \<and> (\<not> skip \<longrightarrow> claim_absent P ?t (pvc_Name pvc)))"
    by (rule SkipPVCCreation_result) simp
  have sc: "triple (no_restore_filed w0) (map_storage_class E P ns s1)
    (\<lambda>r w. no_restore_filed w0 w \<and> (\<forall>s. r = Inr s \<longrightarrow> ?final s))"
    if "e_velero_ns E = Some ns" for ns
    by (rule map_storage_class_result [OF codec _ that]) simp
  have vol: "triple (\<lambda>w. no_restore_filed w0 w \<and> (\<forall>s. r = Inr s \<longrightarrow> ?final s))
      (case r of Inl e \<Rightarrow> State_Monad.return (Some (Inl e))
       | Inr s \<Rightarrow> restore_volume E P fuel input pvc ?t ns s) (\<lambda>_. restore_post E P input pvc s0 w0)"
    if absent: "claim_absent P ?t (pvc_Name pvc)" for r :: "goerr + Snapshot" and ns
  proof (cases "\<forall>s. r = Inr s \<longrightarrow> ?final s")
    case True
    have "triple (no_restore_filed w0) (restore_volume E P fuel input pvc ?t ns s) (\<lambda>_. restore_post E P input pvc s0 w0)"
      if "r = Inr s" for s
    proof (rule restore_volume_effect [OF _ absent])
      fix repo c
      assume req: "clone_request (snt_SnapshotID (sn_Status s)) (snt_Metadata (sn_Status s))
        (tr_APIGroup (sns_Reference (sn_Spec s))) (tr_Kind (sns_Reference (sn_Spec s))) repo c"
      from True that obtain a f where ab: "same_snapshot s1 s" "claim_of P s1 = Inr a" "class_mapping E P f"
        "claim_of P s = Inr (with_class f a)" "binds_at_once P (with_class f a)"
        by blast
      show "restores E P input pvc s0 c"
        by (rule restores_final [OF same ab(1) c1 ab(2-5) req])
    qed
    then have "triple (no_restore_filed w0) (case r of Inl e \<Rightarrow> State_Monad.return (Some (Inl e))
       | Inr s \<Rightarrow> restore_volume E P fuel input pvc ?t ns s) (\<lambda>_. restore_post E P input pvc s0 w0)"
      by (intro triple_case_sum idle)
    then show ?thesis by (rule triple_weaken) auto
  next
    case False
    then show ?thesis unfolding triple_def by blast
  qed
  let ?go = "\<lambda>ns skip err. case err of Some e \<Rightarrow> State_Monad.return (Some (Inl e)) | None \<Rightarrow>
     if skip then State_Monad.return (Some (Inr (unchanged_item item)))
     else State_Monad.bind (map_storage_class E P ns s1)
       (\<lambda>m. case m of Inl e \<Rightarrow> State_Monad.return (Some (Inl e)) | Inr s \<Rightarrow> restore_volume E P fuel input pvc ?t ns s)"
  have go: "triple (\<lambda>w. no_restore_filed w0 w \<and> (\<not> skip \<longrightarrow> claim_absent P ?t (pvc_Name pvc)))
      (?go ns skip err) (\<lambda>_. restore_post E P input pvc s0 w0)" if "e_velero_ns E = Some ns" for ns skip err
  proof (cases "\<not> skip \<longrightarrow> claim_absent P ?t (pvc_Name pvc)")
    case True
    then have "triple (no_restore_filed w0) (?go ns skip err) (\<lambda>_. restore_post E P input pvc s0 w0)"
      by (intro triple_case_option triple_if idle triple_bind [OF sc [OF that]] vol) auto
    then show ?thesis by (rule triple_weaken) auto
  next
    case False
    then show ?thesis unfolding triple_def by blast
  qed
  have pair: "triple (case p of (skip, err) \<Rightarrow> \<lambda>w. no_restore_filed w0 w \<and> (\<not> skip \<longrightarrow> claim_absent P ?t (pvc_Name pvc)))
     (case p of (skip, err) \<Rightarrow> ?go ns skip err) (\<lambda>_. restore_post E P input pvc s0 w0)"
    if "e_velero_ns E = Some ns" for p ns
    by (cases p) (simp only: prod.case go [OF that])
  show ?thesis
  proof (cases "e_velero_ns E")
    case None
    then show ?thesis by (simp add: restore_snapshot_def idle)
  next
    case (Some ns)
    show ?thesis
      unfolding restore_snapshot_def Some option.case
      by (intro triple_case_option triple_bind [OF cl] triple_bind [OF cl2] triple_bind [OF skip] pair [OF Some] idle)
  qed
qed


lemma RemoveAnnotations_simps [simp]:
  "pvc_Namespace (RemoveAnnotations ks c) = pvc_Namespace c"
  "pvc_Name (RemoveAnnotations ks c) = pvc_Name c"
  by (simp_all add: RemoveAnnotations_def split: option.splits)

lemma fold_remove: "fold (\<lambda>k a. a(k := None)) ks m = (\<lambda>k. if k \<in> set ks then None else m k)"
  by (induction ks arbitrary: m) (auto simp: fun_eq_iff)

lemma RemoveAnnotations_lookup:
  "Option.bind (pvc_Annotations (RemoveAnnotations ks c)) (\<lambda>m. m k) =
     (if k \<in> set ks then None else Option.bind (pvc_Annotations c) (\<lambda>m. m k))"
  by (cases "pvc_Annotations c") (simp_all add: RemoveAnnotations_def fold_remove)

lemma snapshot_label_kept: "ItemSnapshotLabel \<notin> set health_annotations"
  by (simp add: ItemSnapshotLabel_def health_annotations_def AnnVolumeHealth_def AnnVolumeHealthTS_def)

text \<open>The snapshot that an item carries in its annotation.\<close>

definition carries :: "plugin_env \<Rightarrow> unstructured \<Rightarrow> PersistentVolumeClaim \<Rightarrow> Snapshot \<Rightarrow> bool" where
  "carries P item pvc s \<longleftrightarrow> p_pvc_from P (un_Content item) = Inr pvc \<and>
     (\<exists>m annotation. pvc_Annotations pvc = Some m \<and> m ItemSnapshotLabel = Some annotation \<and>
        GetSnapshotFromPVCAnnotation P annotation = Inr s)"

lemma restore_claim_effect:
  assumes codec: "pvc_codec P"
  shows "triple (no_restore_filed w0) (restore_claim E P fuel input) (\<lambda>_ w. no_restore_filed w0 w \<or>
    (\<exists>pvc s0. carries P (ri_Item input) pvc s0 \<and> restore_post E P input pvc s0 w0 w))"
    (is "triple _ _ (\<lambda>_. ?post)")
proof (cases "p_pvc_from P (un_Content (ri_Item input))")
  case (Inl e)
  then show ?thesis by (simp add: restore_claim_def triple_return)
next
  case (Inr pvc0)
  let ?pvc = "RemoveAnnotations health_annotations pvc0"
  have idle: "triple (no_restore_filed w0) (State_Monad.return x) (\<lambda>_. ?post)" for x :: "(goerr + RestoreOutput) option"
    by (rule triple_return) simp
  have moved: "triple (no_restore_filed w0) (restore_snapshot E P fuel input item ?pvc t s) (\<lambda>_. ?post)"
    if ann: "Option.bind (pvc_Annotations ?pvc) (\<lambda>m. m ItemSnapshotLabel) = Some annotation"
      and s0: "GetSnapshotFromPVCAnnotation P annotation = Inr s0"
      and ns: "map_namespace P input ?pvc s0 = Inr (t, s)" for annotation s0 t s item
  proof -
    have "Option.bind (pvc_Annotations pvc0) (\<lambda>m. m ItemSnapshotLabel) = Some annotation"
      using ann snapshot_label_kept by (simp add: RemoveAnnotations_lookup)
    then have "carries P (ri_Item input) pvc0 s0"
      using Inr s0 by (auto simp: carries_def Option.bind_eq_Some_conv)
    moreover have "restore_post E P input ?pvc s0 w0 w \<Longrightarrow> restore_post E P input pvc0 s0 w0 w" for w
      by (simp add: restore_post_def restores_def [abs_def])
    ultimately show ?thesis
      unfolding map_namespace_result(1) [OF codec ns]
      by (intro triple_weaken [OF restore_snapshot_effect [OF codec map_namespace_result(2,3) [OF codec ns]]]) blast+
  qed
  show ?thesis
    unfolding restore_claim_def Inr sum.case Let_def
    by (intro triple_case_sum triple_if triple_case_option triple_case_prod idle) (blast intro: moved)
qed

lemma restore_Execute_effect:
  assumes "pvc_codec P"
  shows "triple (no_restore_filed w0) (restore_Execute E P fuel input) (\<lambda>_ w. no_restore_filed w0 w \<or>
    (\<exists>pvc s0. carries P (ri_Item input) pvc s0 \<and> restore_post E P input pvc s0 w0 w))"
proof -
  have blocked: "keeps (no_restore_filed w0) (IsObjectBlocked E P x)" for x by (rule keeps_IsObjectBlocked) simp
  show ?thesis
    unfolding restore_Execute_def
    by (intro triple_bind [OF blocked] triple_case_sum triple_case_prod triple_if triple_return
        restore_claim_effect [OF assms]) auto
qed

text \<open>
  C5. A run of the restore action files at most one restore request and writes nothing else
  but repository claims. The request is a new object in the target namespace of the claim,
  which has no claim of that name yet; it names the snapshot the item carries, and its metadata
  decodes to the claim that was backed up, moved according to the namespace mapping and with
  the storage class that the config map for the mapping of classes gives for its own, which is
  its own where there is no config map or no entry, and which exists and does not wait for a
  first consumer.
\<close>

theorem restore_requests_the_backed_up_claim:
  assumes "pvc_codec P"
  shows "let w' = snd (run_state (restore_Execute E P fuel input) w) in
   same_rest w w' \<and> w_snapshots w' = w_snapshots w \<and> w_deletes w' = w_deletes w \<and>
   (w_clones w' = w_clones w \<or>
    (\<exists>pvc s0 name c. let target = target_namespace input (pvc_Namespace pvc) in
       carries P (ri_Item input) pvc s0 \<and> claim_absent P target (pvc_Name pvc) \<and>
       w_clones w (target, name) = None \<and> restores E P input pvc s0 c \<and>
       w_clones w' = (w_clones w)((target, name) \<mapsto> c)))"
proof -
  let ?w' = "snd (run_state (restore_Execute E P fuel input) w)"
  have "no_restore_filed w ?w' \<or> (\<exists>pvc s0. carries P (ri_Item input) pvc s0 \<and> restore_post E P input pvc s0 w ?w')"
    using tripleD [OF restore_Execute_effect [OF assms], of w w E fuel input] by (metis prod.collapse same_rest_simps(1))
  then show ?thesis
  proof
    assume "\<exists>pvc s0. carries P (ri_Item input) pvc s0 \<and> restore_post E P input pvc s0 w ?w'"
    then obtain pvc s0 where "carries P (ri_Item input) pvc s0" "restore_post E P input pvc s0 w ?w'" by blast
    then show ?thesis unfolding Let_def restore_post_def adds_one_def by metis
  qed (simp add: Let_def)
qed


lemma calm_pvc_codec: "pvc_codec calm_plugin"
  by (auto simp: pvc_codec_def intro: checked_roundtrip)

abbreviation sample_backed_up :: unstructured where
  "sample_backed_up \<equiv> claim_item ''app|data|gold|e30=''"

lemma sample_restore_files:
  "w_clones (snd (run_state (restore_Execute local_env calm_plugin (Suc 0) (sample_restore sample_backed_up)) empty_world))
     (''copy'', sample_uuid) \<noteq> None"
  by (simp add: evals)

theorem restore_requests_the_backed_up_claim_witness:
  "pvc_codec calm_plugin \<and>
   (\<exists>pvc s0 name c. carries calm_plugin sample_backed_up pvc s0 \<and>
      restores local_env calm_plugin (sample_restore sample_backed_up) pvc s0 c \<and>
      w_clones (snd (run_state (restore_Execute local_env calm_plugin (Suc 0) (sample_restore sample_backed_up)) empty_world))
        (target_namespace (sample_restore sample_backed_up) (pvc_Namespace pvc), name) = Some c)"
proof -
  let ?w' = "snd (run_state (restore_Execute local_env calm_plugin (Suc 0) (sample_restore sample_backed_up)) empty_world)"
  have "w_clones empty_world (''copy'', sample_uuid) = None" by (simp add: empty_world_def)
  then have "w_clones ?w' \<noteq> w_clones empty_world" using sample_restore_files by metis
  moreover have "ri_Item (sample_restore sample_backed_up) = sample_backed_up" by (simp add: sample_restore_def)
  ultimately obtain pvc s0 name c where
    "carries calm_plugin sample_backed_up pvc s0" "restores local_env calm_plugin (sample_restore sample_backed_up) pvc s0 c"
    "w_clones ?w' = (w_clones empty_world)
       ((target_namespace (sample_restore sample_backed_up) (pvc_Namespace pvc), name) \<mapsto> c)"
    using restore_requests_the_backed_up_claim [OF calm_pvc_codec, of local_env "Suc 0" "sample_restore sample_backed_up" empty_world]
    unfolding Let_def by metis
  then show ?thesis using calm_pvc_codec by (metis fun_upd_same)
qed

end
