(* ===== verification/Plugin_Roundtrip.thy ===== *)
theory Plugin_Roundtrip
  imports Plugin_Correctness
begin

text \<open>
  The item actions together: what a backup puts into the item is what a restore and a deletion
  take out of it. Then the waits: when they end, and with what; and the names by which
  resources are blocked.
\<close>

section \<open>The item a backup returns\<close>

text \<open>JSON and the unstructured form of an object are read back as they were written.\<close>

definition json_codec :: "plugin_env \<Rightarrow> bool" where
  "json_codec P \<longleftrightarrow> (\<forall>s t. p_snapshot_to_json P s = Inr t \<longrightarrow> p_snapshot_of_json P t = Inr s)"

definition item_codec :: "plugin_env \<Rightarrow> bool" where
  "item_codec P \<longleftrightarrow> (\<forall>c u. p_pvc_to P c = Inr u \<longrightarrow> p_pvc_from P (un_Content u) = Inr c)"

text \<open>
  A snapshot that was put into an annotation is read back from it unchanged: the base64
  text of its JSON form decodes to the same JSON form.
\<close>

theorem annotation_roundtrip:
  assumes "json_codec P" and "GetAnnotationFromSnapshot P s = Inr annotation"
  shows "GetSnapshotFromPVCAnnotation P annotation = Inr s"
  using assms
  by (auto simp: GetAnnotationFromSnapshot_def GetSnapshotFromPVCAnnotation_def json_codec_def
      b64_std_decode_encode split: sum.splits)

lemma calm_json_codec: "json_codec calm_plugin"
  by (auto simp: json_codec_def intro: checked_roundtrip)

theorem annotation_roundtrip_witness:
  "json_codec calm_plugin \<and> GetAnnotationFromSnapshot calm_plugin sample_snapshot = Inr ''e30='' \<and>
   GetSnapshotFromPVCAnnotation calm_plugin ''e30='' = Inr sample_snapshot"
proof -
  have "GetAnnotationFromSnapshot calm_plugin sample_snapshot = Inr ''e30=''"
    by (simp add: GetAnnotationFromSnapshot_def checked_def read_snapshot_def)
  with annotation_roundtrip [OF calm_json_codec this] calm_json_codec show ?thesis by simp
qed

text \<open>
  What comes back from a snapshot request was shown by the informer in a waited phase, under
  the name of a Snapshot that was not there before (\<open>S0\<close>) and that is the one Snapshot the
  request added.
\<close>

definition shown :: "plugin_env \<Rightarrow> SnapshotPhase list \<Rightarrow> Snapshot \<Rightarrow> bool" where
  "shown P phases s \<longleftrightarrow> snapshot_state s \<in> set phases \<and>
     (\<exists>n. p_snapshot_event P n = WatchAdded s \<or> p_snapshot_event P n = WatchUpdated s)"

definition filed_as ::
  "(Snapshot \<Rightarrow> bool) \<Rightarrow> key \<Rightarrow> (key \<Rightarrow> Snapshot option) \<Rightarrow> (key \<Rightarrow> Snapshot option) \<Rightarrow> bool" where
  "filed_as good k S0 S \<longleftrightarrow> S0 k = None \<and> (\<exists>y. good y \<and> S = S0(k \<mapsto> y))"

lemma awaited_Inr: "awaited msg r = Some (Inr x) \<longleftrightarrow> r = Some (Inr x)"
  by (auto simp: awaited_def split: option.splits sum.splits)

lemma WaitForPhases_result:
  assumes tick: "\<And>w n. I w \<Longrightarrow> I (w\<lparr>w_tick := n\<rparr>)"
  shows "triple I (WaitForPhases P fuel y phases)
    (\<lambda>r w. I w \<and> (\<forall>s. r = Some (Inr s) \<longrightarrow> shown P phases s \<and> snapshot_name s = snapshot_name y))"
proof (rule tripleI, intro conjI allI impI)
  fix w r w' s
  assume run: "run_state (WaitForPhases P fuel y phases) w = (r, w')"
  have "keeps I (WaitForPhases P fuel y phases)"
    unfolding WaitForPhases_def by (rule keeps_wait_phases) (rule tick)
  then show "I w'" if "I w" using run that by (blast dest: tripleD)
  assume r: "r = Some (Inr s)"
  from run have "fst (run_state (WaitForPhases P fuel y phases) w) = r" by simp
  then have "first_decision (p_snapshot_event P) (verdict snapshot_name snapshot_state (snapshot_name y) phases)
      (w_tick w) fuel = Some (Inr s)"
    by (simp add: WaitForPhases_def wait_phases_spec r)
  from first_decisionD [OF this] show "shown P phases s" "snapshot_name s = snapshot_name y"
    by (auto simp: verdict_Inr shown_def)
qed

lemma SnapshotRef_result:
  "triple (\<lambda>w. w_snapshots w = S0) (SnapshotRef E P fuel ref ns repo labels phases)
     (\<lambda>r w. \<forall>s. r = Some (Inr s) \<longrightarrow> shown P phases s \<and>
        filed_as (snapshot_request ref repo labels) (ns, snapshot_name s) S0 (w_snapshots w))"
    (is "triple ?pre _ ?post")
proof -
  have uuid: "triple ?pre (ask (e_uuid E)) (\<lambda>_. ?pre)" by (rule keeps_ask) simp
  let ?x = "\<lambda>name. ForSnapshot ns name labels repo ref False"
  let ?filed = "\<lambda>name y w. S0 (ns, name) = None \<and> y = announce_snapshot (?x name) (?x name) \<and>
    w_snapshots w = S0((ns, name) \<mapsto> y)"
  have filing: "triple ?pre (file_request w_snapshots w_snapshots_update announce_snapshot cm um E (ns, name) (?x name))
      (\<lambda>r w. \<forall>y. r = Inr y \<longrightarrow> ?filed name y w)" for cm um name
    by (rule triple_weaken [OF snapshot_requests.file_triple [where I = "\<lambda>_. True"]]) auto
  have waiting: "triple (\<lambda>w. \<forall>y. r = Inr y \<longrightarrow> ?filed name y w)
      (case r of Inl e \<Rightarrow> State_Monad.return (Some (Inl e)) | Inr written \<Rightarrow>
         State_Monad.bind (WaitForPhases P fuel written phases) (\<lambda>r. State_Monad.return (awaited msg r))) ?post"
    for r :: "goerr + Snapshot" and name msg
  proof (cases r)
    case (Inl e)
    then show ?thesis by (simp add: triple_return)
  next
    case (Inr y)
    have wait: "triple (?filed name y) (WaitForPhases P fuel y phases)
      (\<lambda>r w. ?filed name y w \<and> (\<forall>s. r = Some (Inr s) \<longrightarrow> shown P phases s \<and> snapshot_name s = snapshot_name y))"
      by (rule WaitForPhases_result) simp
    have named: "snapshot_name (announce_snapshot (?x name) (?x name)) = name" by (simp add: request_defs)
    show ?thesis unfolding Inr sum.case
      by (rule triple_weaken, rule triple_bind [OF wait], rule triple_return)
         (auto simp: awaited_Inr filed_as_def named)
  qed
  show ?thesis
    unfolding SnapshotRef_def Let_def
    by (intro triple_bind [OF uuid] triple_case_sum triple_bind [OF filing] waiting triple_return) simp
qed

text \<open>
  The item is the one that was given, or the claim with the snapshot in its annotation that was
  taken for the request this backup filed.
\<close>

definition taken_for ::
  "plugin_env \<Rightarrow> Backup \<Rightarrow> PersistentVolumeClaim \<Rightarrow> (key \<Rightarrow> Snapshot option) \<Rightarrow> (key \<Rightarrow> Snapshot option) \<Rightarrow>
   Snapshot \<Rightarrow> bool" where
  "taken_for P backup pvc S0 S s \<longleftrightarrow> shown P backup_wait_phases s \<and> snapshot_failure s = None \<and>
     (\<exists>repo. filed_as (snapshot_request (claim_reference pvc) repo [SnapshotBackupLabel \<mapsto> bk_Name backup])
        (pvc_Namespace pvc, snapshot_name s) S0 S)"

definition backed_up ::
  "plugin_env \<Rightarrow> Backup \<Rightarrow> unstructured \<Rightarrow> (key \<Rightarrow> Snapshot option) \<Rightarrow> unstructured \<Rightarrow> world \<Rightarrow> bool" where
  "backed_up P backup item S0 item' w \<longleftrightarrow> item' = item \<or>
     (\<exists>pvc s. p_pvc_from P (un_Content item) = Inr pvc \<and> taken_for P backup pvc S0 (w_snapshots w) s \<and>
        persist_snapshot P pvc s = Inr item')"

lemma backup_snapshot_result:
  assumes "p_pvc_from P (un_Content item) = Inr pvc"
  shows "triple (\<lambda>w. w_snapshots w = S0) (backup_snapshot E P fuel backup pvc repo)
    (\<lambda>r w. \<forall>item'. r = Some (Inr item') \<longrightarrow> backed_up P backup item S0 item' w)"
  unfolding backup_snapshot_def claim_reference_def [symmetric]
  by (intro triple_bind [OF SnapshotRef_result] triple_return)
     (use assms in \<open>auto simp: backed_up_def taken_for_def split: option.splits sum.splits\<close>)

lemma backup_claim_result:
  assumes "p_pvc_from P (un_Content item) = Inr pvc"
  shows "triple (\<lambda>w. w_snapshots w = S0) (backup_claim E P fuel item backup pvc)
    (\<lambda>r w. \<forall>item'. r = Some (Inr item') \<longrightarrow> backed_up P backup item S0 item' w)"
    (is "triple ?pre _ ?post")
proof -
  have judged: "triple ?pre (case judge_volume m pvc pv of
        RefuseVolume msg \<Rightarrow> State_Monad.return (Some (Inl (ErrMsg msg)))
      | LeaveAlone \<Rightarrow> State_Monad.return (Some (Inr item))
      | TakeSnapshot \<Rightarrow> take) ?post"
    if "triple ?pre take ?post" for m pv take
    using that by (cases "judge_volume m pvc pv") (auto intro!: triple_return simp: backed_up_def)
  have flag: "keeps ?pre (IsFeatureEnabled E f b)" for f b by (rule keeps_IsFeatureEnabled) simp
  have client: "keeps ?pre (ask (e_client E))" by (rule keeps_ask) simp
  have repo: "keeps ?pre (repository_unless_local E P fuel b x ns)" for b x ns
    by (rule keeps_repository_unless_local) simp_all
  have cl: "keeps ?pre (connect id id E)" by (rule keeps_connect) simp
  have fs: "keeps ?pre (IsPVCBackedUpByFsBackup P a b d)" for a b d
    by (rule keeps_IsPVCBackedUpByFsBackup) simp
  have pv: "keeps ?pre (GetPVForPVC P pvc)"
    by (rule triple_weaken [OF GetPVForPVC_result [where I = ?pre]]) auto
  show ?thesis
    unfolding backup_claim_def backup_volume_def
    by (intro judged triple_case_option triple_case_sum triple_if triple_bind [OF flag] triple_bind [OF client]
        triple_bind [OF repo] triple_bind [OF cl] triple_bind [OF fs] triple_bind [OF pv] triple_return
        backup_snapshot_result [OF assms]) (auto simp: backed_up_def)
qed

lemma backup_Execute_result:
  assumes "run_state (backup_Execute E P fuel item backup) w = (Some (Inr item'), w')"
  shows "backed_up P backup item (w_snapshots w) item' w'"
proof -
  let ?pre = "\<lambda>v. w_snapshots v = w_snapshots w"
  have blocked: "keeps ?pre (IsObjectBlocked E P item)" by (rule keeps_IsObjectBlocked) simp
  have "triple ?pre (backup_Execute E P fuel item backup)
      (\<lambda>r v. \<forall>item'. r = Some (Inr item') \<longrightarrow> backed_up P backup item (w_snapshots w) item' v)"
    unfolding backup_Execute_def
    by (intro triple_if triple_bind [OF blocked] triple_case_sum triple_case_prod triple_return
        backup_claim_result) (auto simp: backed_up_def)
  from tripleD [OF this _ assms] show ?thesis by simp
qed

lemma persisted_carries:
  assumes "json_codec P" "item_codec P" and "persist_snapshot P pvc s = Inr item'"
  shows "\<exists>pvc'. carries P item' pvc' s \<and> pvc_Namespace pvc' = pvc_Namespace pvc \<and> pvc_Name pvc' = pvc_Name pvc"
proof -
  from assms(3) obtain a where a: "GetAnnotationFromSnapshot P s = Inr a"
    by (auto simp: persist_snapshot_def split: sum.splits)
  let ?pvc = "AddAnnotations [ItemSnapshotLabel \<mapsto> a, PluginVersionLabel \<mapsto> p_version P]
    (RemoveAnnotations health_annotations pvc)"
  have "p_pvc_to P ?pvc = Inr item'" using assms(3) a by (simp add: persist_snapshot_def)
  then have item: "p_pvc_from P (un_Content item') = Inr ?pvc" using assms(2) by (simp add: item_codec_def)
  have "GetSnapshotFromPVCAnnotation P a = Inr s"
    using a assms(1) by (auto simp: GetAnnotationFromSnapshot_def GetSnapshotFromPVCAnnotation_def json_codec_def
        b64_std_decode_encode split: sum.splits)
  with item have "carries P item' ?pvc s"
    by (auto simp: carries_def AddAnnotations_def Let_def ItemSnapshotLabel_def PluginVersionLabel_def)
  then show ?thesis by (auto simp: AddAnnotations_def Let_def)
qed

lemma carries_unique: "carries P item pvc s \<Longrightarrow> carries P item pvc' s' \<Longrightarrow> pvc' = pvc \<and> s' = s"
  by (auto simp: carries_def)

text \<open>
  C6. Backup and restore fit together. Take any item a backup returned with a snapshot in it,
  and restore it any time later, in whatever state the cluster then is. The backup had filed
  exactly one Snapshot, a new one in the claim's namespace for the claim; a restore request
  that is now added is for the snapshot that the informer showed under that Snapshot's name, in
  a waited phase that is not a failure. It goes to the mapped namespace of the claim that was
  backed up, and its metadata decodes to the claim in that snapshot, moved accordingly and with
  the mapped storage class, which exists and binds at once.
\<close>

theorem backup_restore_roundtrip:
  assumes "pvc_codec P" "json_codec P" "item_codec P"
    and backup: "run_state (backup_Execute E P fuel item backup) w = (Some (Inr item'), w')" and "item' \<noteq> item"
    and restore: "run_state (restore_Execute E' P fuel' input) v = (r, v')" and "ri_Item input = item'"
    and added: "w_clones v' k = Some c" "w_clones v k \<noteq> Some c"
  shows "\<exists>pvc s repo y. p_pvc_from P (un_Content item) = Inr pvc \<and>
    w_snapshots w (pvc_Namespace pvc, snapshot_name s) = None \<and>
    w_snapshots w' = (w_snapshots w)((pvc_Namespace pvc, snapshot_name s) \<mapsto> y) \<and>
    snapshot_request (claim_reference pvc) repo [SnapshotBackupLabel \<mapsto> bk_Name backup] y \<and>
    shown P backup_wait_phases s \<and> snapshot_failure s = None \<and>
    fst k = target_namespace input (pvc_Namespace pvc) \<and> restores E' P input pvc s c"
proof -
  from backup_Execute_result [OF backup] \<open>item' \<noteq> item\<close> obtain pvc s where
    pvc: "p_pvc_from P (un_Content item) = Inr pvc" "taken_for P backup pvc (w_snapshots w) (w_snapshots w') s"
    "persist_snapshot P pvc s = Inr item'" by (auto simp: backed_up_def)
  obtain pvc' where pvc': "carries P item' pvc' s" "pvc_Namespace pvc' = pvc_Namespace pvc"
    using persisted_carries [OF assms(2,3) pvc(3)] by blast
  have "no_restore_filed v v' \<or> (\<exists>pvc s0. carries P item' pvc s0 \<and> restore_post E' P input pvc s0 v v')"
    using tripleD [OF restore_Execute_effect [OF assms(1)] _ restore] \<open>ri_Item input = item'\<close> by simp
  then obtain pvc'' s0 where "carries P item' pvc'' s0" "restore_post E' P input pvc'' s0 v v'"
    using added by auto
  with carries_unique [OF pvc'(1)] have "restore_post E' P input pvc' s v v'" by metis
  then have "fst k = target_namespace input (pvc_Namespace pvc') \<and> restores E' P input pvc' s c"
    using added by (auto simp: restore_post_def adds_one_def Let_def split: if_splits)
  moreover have "restores E' P input pvc' s c = restores E' P input pvc s c"
    by (simp add: restores_def pvc'(2))
  ultimately show ?thesis using pvc(1,2) pvc'(2) by (auto simp: taken_for_def filed_as_def)
qed

lemma calm_item_codec: "item_codec calm_plugin"
  by (auto simp: item_codec_def claim_item_def intro: checked_roundtrip split: sum.splits)

lemma sample_backup_run:
  "\<exists>w'. run_state (backup_Execute local_env calm_plugin (Suc 0) (claim_item ''app|data|gold'') sample_backup) empty_world =
     (Some (Inr sample_backed_up), w')"
  by (simp add: evals)

theorem backup_restore_roundtrip_witness:
  "\<exists>v' c pvc s. run_state (restore_Execute local_env calm_plugin (Suc 0) (sample_restore sample_backed_up)) empty_world =
       (Some (Inr skip_restore), v') \<and> w_clones v' (''copy'', sample_uuid) = Some c \<and>
     restores local_env calm_plugin (sample_restore sample_backed_up) pvc s c \<and> shown calm_plugin backup_wait_phases s"
proof -
  obtain w' where backup: "run_state (backup_Execute local_env calm_plugin (Suc 0) (claim_item ''app|data|gold'')
      sample_backup) empty_world = (Some (Inr sample_backed_up), w')"
    using sample_backup_run by blast
  have out: "fst (run_state (restore_Execute local_env calm_plugin (Suc 0) (sample_restore sample_backed_up)) empty_world)
      = Some (Inr skip_restore)"
    by (simp add: evals)
  obtain v' where restore: "run_state (restore_Execute local_env calm_plugin (Suc 0) (sample_restore sample_backed_up))
      empty_world = (Some (Inr skip_restore), v')"
    using out by (metis prod.collapse)
  then obtain c where c: "w_clones v' (''copy'', sample_uuid) = Some c" using sample_restore_files by auto
  have "claim_item ''app|data|gold|e30='' \<noteq> claim_item ''app|data|gold''" by (simp add: claim_item_def)
  from backup_restore_roundtrip [OF calm_pvc_codec calm_json_codec calm_item_codec backup this restore _ c]
  show ?thesis using restore c by (fastforce simp: sample_restore_def empty_world_def)
qed


section \<open>When the wait for a request ends\<close>

text \<open>The run of a request whose name is free, with an answering API server: two writes, then the wait.\<close>

lemma SnapshotRef_waits:
  assumes "\<And>n. e_fate E n = Accepted" and "e_uuid E (w_tick w) = Inr u"
    and "w_snapshots w (ns, ''snap-'' @ u) = None"
  shows "fst (run_state (SnapshotRef E P fuel ref ns repo labels phases) w) =
    awaited ''Failed to wait for expected snapshot phases''
      (first_decision (p_snapshot_event P) (verdict snapshot_name snapshot_state (''snap-'' @ u) phases)
         (w_tick w + 3) fuel)"
proof -
  let ?name = "''snap-'' @ u" and ?w = "w\<lparr>w_tick := Suc (w_tick w)\<rparr>"
  let ?x = "ForSnapshot ns ?name labels repo ref False"
  have free: "w_snapshots ?w (ns, ?name) = None" using assms(3) by simp
  obtain w1 where filing: "run_state (file_request w_snapshots w_snapshots_update announce_snapshot
      ''Failed to create snapshot record'' ''Failed to update status of snapshot record''
      E (ns, ?name) ?x) ?w = (Inr (announce_snapshot ?x ?x), w1)"
    and tick: "w_tick w1 = Suc (Suc (w_tick ?w))"
    using snapshot_requests.file_accepted [where E = E, OF assms(1) free] by blast
  have name: "snapshot_name (announce_snapshot ?x ?x) = ?name"
    by (simp add: announce_snapshot_def ForSnapshot_def build_meta_def)
  have "fst (run_state (SnapshotRef E P fuel ref ns repo labels phases) w) =
    awaited ''Failed to wait for expected snapshot phases''
      (fst (run_state (WaitForPhases P fuel (announce_snapshot ?x ?x) phases) w1))"
    using filing
    by (simp only: SnapshotRef_def Let_def run_state_bind run_ask assms(2) sum.case prod.case split: prod.splits)
       (auto simp: split_beta)
  then show ?thesis
    by (simp only: WaitForPhases_def wait_phases_spec tick name) (simp add: numeral_3_eq_3)
qed


text \<open>
  C21. A snapshot request is answered: if the API server answers and the name is free, then as
  soon as the informer shows the request in one of the waited phases, and before that neither
  showed it in such a phase nor reported its deletion nor ended with the context, the call
  returns the Snapshot in exactly that state. Events of other objects and of other phases that
  come before do not matter.
\<close>

theorem snapshot_request_answered:
  assumes "\<And>n. e_fate E n = Accepted" and "e_uuid E (w_tick w) = Inr u"
    and "w_snapshots w (ns, ''snap-'' @ u) = None"
    and "p_snapshot_event P (w_tick w + 3 + i) \<in> {WatchAdded s, WatchUpdated s}"
    and "snapshot_name s = ''snap-'' @ u" and "snapshot_state s \<in> set phases"
    and "\<And>j t. j < i \<Longrightarrow> p_snapshot_event P (w_tick w + 3 + j) \<in> {WatchAdded t, WatchUpdated t} \<Longrightarrow>
           snapshot_name t \<noteq> ''snap-'' @ u \<or> snapshot_state t \<notin> set phases"
    and "\<And>j t. j < i \<Longrightarrow> p_snapshot_event P (w_tick w + 3 + j) = WatchDeleted t \<Longrightarrow> snapshot_name t \<noteq> ''snap-'' @ u"
    and "\<And>j. j < i \<Longrightarrow> p_snapshot_event P (w_tick w + 3 + j) \<noteq> WatchDone"
    and "i < fuel"
  shows "fst (run_state (SnapshotRef E P fuel ref ns repo labels phases) w) = Some (Inr s)"
proof -
  let ?v = "verdict snapshot_name snapshot_state (''snap-'' @ u) phases"
  have decided: "?v (p_snapshot_event P (w_tick w + 3 + i)) = Some (Inr s)"
    using assms(4-6) by (simp only: verdict_Inr) auto
  have "?v (p_snapshot_event P (w_tick w + 3 + j)) = None" if "j < i" for j
    using assms(7-9) [OF that] by (cases "p_snapshot_event P (w_tick w + 3 + j)") auto
  from first_decision_found [where events = "p_snapshot_event P" and decide = ?v, OF decided this assms(10)] show ?thesis
    by (simp only: SnapshotRef_waits [where E = E, OF assms(1-3)] awaited_Inr)
qed

text \<open>
  The witness has three events of no interest before the answer: another request's, the
  deletion of another request, and the request itself in a phase that is not waited for.
\<close>

definition other_snapshot :: Snapshot where
  "other_snapshot = sample_snapshot\<lparr>sn_Meta := (sn_Meta sample_snapshot)\<lparr>om_Name := ''snap-x''\<rparr>\<rparr>"

definition busy_plugin :: plugin_env where
  "busy_plugin = calm_plugin\<lparr>p_snapshot_event := (\<lambda>n.
     if n = 3 then WatchAdded other_snapshot
     else if n = 4 then WatchDeleted other_snapshot
     else if n = 5 then WatchAdded (sample_snapshot
       \<lparr>sn_Status := (sn_Status sample_snapshot)\<lparr>snt_Phase := SnapshotPhaseUploadFailedAfterRetry\<rparr>\<rparr>)
     else WatchUpdated sample_snapshot)\<rparr>"

theorem snapshot_request_answered_witness:
  "fst (run_state (SnapshotRef calm busy_plugin 4 (claim_reference (sample_claim ''app'' ''data'' ''gold''))
     ''app'' '''' Map.empty backup_wait_phases) empty_world) = Some (Inr sample_snapshot)"
  by (rule snapshot_request_answered [where i = 3 and u = sample_uuid])
     (auto simp: empty_world_def sample_snapshot_def sample_uuid_def backup_wait_phases_def busy_plugin_def
        other_snapshot_def split: if_splits)

text \<open>
  A request that is deleted while its client waits does not give the client the error the
  handler prepared: the client panics on the nil item. The whole plugin process goes down with
  it.
\<close>

theorem deleted_request_panics:
  assumes "\<And>n. e_fate E n = Accepted" and "e_uuid E (w_tick w) = Inr u"
    and "w_snapshots w (ns, ''snap-'' @ u) = None"
    and "p_snapshot_event P (w_tick w + 3 + i) = WatchDeleted s" and "snapshot_name s = ''snap-'' @ u"
    and "\<And>j. j < i \<Longrightarrow> verdict snapshot_name snapshot_state (''snap-'' @ u) phases
           (p_snapshot_event P (w_tick w + 3 + j)) = None"
    and "i < fuel"
  shows "\<exists>e. fst (run_state (SnapshotRef E P fuel ref ns repo labels phases) w) = Some (Inl e) \<and> is_panic e"
proof -
  have "verdict snapshot_name snapshot_state (''snap-'' @ u) phases (p_snapshot_event P (w_tick w + 3 + i)) =
    Some (Inl nil_item)"
    using assms(4,5) by simp
  from first_decision_found [where events = "p_snapshot_event P" and start = "w_tick w + 3" and decide = "verdict snapshot_name snapshot_state (''snap-'' @ u) phases", OF this assms(6,7)] show ?thesis
    by (simp add: SnapshotRef_waits [where E = E, OF assms(1-3)] awaited_def nil_item_def wrap_error_def)
qed

definition deleting_plugin :: plugin_env where
  "deleting_plugin = calm_plugin\<lparr>p_snapshot_event := (\<lambda>n. WatchDeleted sample_snapshot)\<rparr>"

theorem deleted_request_panics_witness:
  "\<exists>e. fst (run_state (SnapshotRef calm deleting_plugin (Suc 0) (claim_reference (sample_claim ''app'' ''data'' ''gold''))
     ''app'' '''' Map.empty backup_wait_phases) empty_world) = Some (Inl e) \<and> is_panic e"
  by (rule deleted_request_panics [where i = 0 and u = sample_uuid and s = sample_snapshot])
     (simp_all add: empty_world_def sample_snapshot_def sample_uuid_def deleting_plugin_def)

text \<open>
  The backup action does not wait for the phase of an upload that was given up: if the
  informer shows the Snapshot only in that phase, the action never returns, however long it
  waits. \<open>None\<close> for every bound on the number of events is a wait without end.
\<close>

theorem given_up_upload_is_not_awaited:
  assumes "\<And>n. e_fate E n = Accepted" and "e_uuid E (w_tick w) = Inr u"
    and "w_snapshots w (pvc_Namespace pvc, ''snap-'' @ u) = None"
    and "\<And>n. \<exists>s. p_snapshot_event P n \<in> {WatchAdded s, WatchUpdated s} \<and>
           (snapshot_name s = ''snap-'' @ u \<longrightarrow> snapshot_state s = SnapshotPhaseUploadFailedAfterRetry)"
  shows "fst (run_state (backup_snapshot E P fuel backup pvc repo) w) = None"
proof -
  let ?v = "verdict snapshot_name snapshot_state (''snap-'' @ u) backup_wait_phases"
  have "?v (p_snapshot_event P n) = None" for n
    using assms(4) [of n] by (auto simp: backup_wait_phases_def)
  then have "first_decision (p_snapshot_event P) ?v (w_tick w + 3) fuel = None"
    by (auto simp: first_decision_def find_None_iff split: option.splits)
  then have none: "fst (run_state (SnapshotRef E P fuel ref (pvc_Namespace pvc) repo labels backup_wait_phases) w) = None"
    for ref labels
    by (simp only: SnapshotRef_waits [where E = E, OF assms(1-3)] awaited_def option.case)
  show ?thesis
    using none
    by (simp only: backup_snapshot_def run_state_bind run_state_return split_beta fst_conv) simp
qed

definition given_up_plugin :: plugin_env where
  "given_up_plugin = calm_plugin\<lparr>p_snapshot_event := (\<lambda>n. WatchAdded (sample_snapshot
     \<lparr>sn_Status := (sn_Status sample_snapshot)\<lparr>snt_Phase := SnapshotPhaseUploadFailedAfterRetry\<rparr>\<rparr>))\<rparr>"

theorem given_up_upload_is_not_awaited_witness:
  "fst (run_state (backup_snapshot calm given_up_plugin 1000 sample_backup (sample_claim ''app'' ''data'' ''gold'') '''')
     empty_world) = None"
  by (rule given_up_upload_is_not_awaited [where u = sample_uuid])
     (simp_all add: empty_world_def sample_uuid_def given_up_plugin_def)

end
