(* ===== verification/Install_Correctness.thy ===== *)
theory Install_Correctness
  imports Install_Config Plugin_Roundtrip
begin

text \<open>
  The config maps the installer writes, as the running plugin reads them; the images of the
  servers; and which resources and volumes the actions pass over.
\<close>

section \<open>Feature states\<close>

lemma parse_format_bool [simp]: "parse_bool (format_bool b) = Some b"
  by (simp add: parse_bool_def format_bool_def)

lemma flags_differ [simp]:
  "VSphereLocalModeFlag \<noteq> DecoupleVSphereCSIDriverFlag" "VSphereLocalModeFlag \<noteq> CSIMigratedVolumeSupportFlag"
  "DecoupleVSphereCSIDriverFlag \<noteq> CSIMigratedVolumeSupportFlag"
  "DecoupleVSphereCSIDriverFlag \<noteq> VSphereLocalModeFlag" "CSIMigratedVolumeSupportFlag \<noteq> VSphereLocalModeFlag"
  "CSIMigratedVolumeSupportFlag \<noteq> DecoupleVSphereCSIDriverFlag"
  "VSphereLocalModeFlag \<noteq> ''''" "DecoupleVSphereCSIDriverFlag \<noteq> ''''" "CSIMigratedVolumeSupportFlag \<noteq> ''''"
  by (simp_all add: VSphereLocalModeFlag_def DecoupleVSphereCSIDriverFlag_def CSIMigratedVolumeSupportFlag_def)

lemma feature_states_at [simp]:
  "feature_states features old VSphereLocalModeFlag =
     Some (format_bool (contains (join (CHR '','') features) VSphereLocalModeFeature))"
  "feature_states features old DecoupleVSphereCSIDriverFlag =
     Some (case old DecoupleVSphereCSIDriverFlag of None \<Rightarrow> ''true'' | Some v \<Rightarrow> v)"
  "feature_states features old CSIMigratedVolumeSupportFlag =
     Some (case old CSIMigratedVolumeSupportFlag of None \<Rightarrow> ''false'' | Some v \<Rightarrow> v)"
  by (simp_all add: feature_states_def format_bool_def split: option.splits)

definition stored_data :: "world \<Rightarrow> key \<Rightarrow> (string \<rightharpoonup> string)" where
  "stored_data w k = (case w_config_maps w k of None \<Rightarrow> Map.empty | Some m \<Rightarrow> m)"

lemma CreateFeatureStateConfigMap_stores:
  assumes "run_state (CreateFeatureStateConfigMap E features ns) w = (None, w')"
  shows "w_config_maps w' = (w_config_maps w)((ns, VSpherePluginFeatureStates) \<mapsto>
    feature_states features (stored_data w (ns, VSpherePluginFeatureStates)))"
  using assms
  by (auto simp: CreateFeatureStateConfigMap_def cr_get_def cr_create_def cr_modify_def Let_def write_result_def
      stored_data_def split: fate.splits option.splits if_splits)

text \<open>The value a flag has for the running plugin, if its text is \<open>v\<close>.\<close>

definition flag_value :: "bool \<Rightarrow> string \<Rightarrow> bool" where
  "flag_value d v = (case parse_bool v of None \<Rightarrow> d | Some b \<Rightarrow> b)"

text \<open>
  C22. What the installer writes is what the plugin reads. After the config map of feature
  states was written, and if the API server serves it, local mode is on exactly if Velero's
  features mention it; the other two flags have the values the user gave them in an earlier
  config map, and otherwise their defaults, true for the decoupled driver and false for
  migrated volumes. No other config map is touched.
\<close>

theorem feature_states_read_back:
  assumes stored: "run_state (CreateFeatureStateConfigMap E features ns) w = (None, w')"
    and served: "\<And>n. e_config_map E n (velero_namespace E, VSpherePluginFeatureStates) =
      Inr (stored_data w' (ns, VSpherePluginFeatureStates))"
  shows "(fst (run_state (IsFeatureEnabled E VSphereLocalModeFlag d) v) \<longleftrightarrow>
      contains (join (CHR '','') features) VSphereLocalModeFeature) \<and>
    (fst (run_state (IsFeatureEnabled E DecoupleVSphereCSIDriverFlag d) v) \<longleftrightarrow>
      (case stored_data w (ns, VSpherePluginFeatureStates) DecoupleVSphereCSIDriverFlag of
         None \<Rightarrow> True | Some t \<Rightarrow> flag_value d t)) \<and>
    (fst (run_state (IsFeatureEnabled E CSIMigratedVolumeSupportFlag d) v) \<longleftrightarrow>
      (case stored_data w (ns, VSpherePluginFeatureStates) CSIMigratedVolumeSupportFlag of
         None \<Rightarrow> False | Some t \<Rightarrow> flag_value d t)) \<and>
    (\<forall>k. k \<noteq> (ns, VSpherePluginFeatureStates) \<longrightarrow> w_config_maps w' k = w_config_maps w k)"
proof -
  let ?old = "stored_data w (ns, VSpherePluginFeatureStates)"
  have "stored_data w' (ns, VSpherePluginFeatureStates) = feature_states features ?old"
    using CreateFeatureStateConfigMap_stores [OF stored] by (simp add: stored_data_def)
  then have data: "e_config_map E n (velero_namespace E, VSpherePluginFeatureStates) =
      Inr (feature_states features ?old)" for n
    using served by simp
  have bools: "parse_bool ''true'' = Some True" "parse_bool ''false'' = Some False"
    by (simp_all add: parse_bool_def)
  show ?thesis
    using CreateFeatureStateConfigMap_stores [OF stored]
    by (simp add: IsFeatureEnabled_def data bools flag_value_def split: option.splits)
qed

definition local_features :: env where
  "local_features = calm\<lparr>e_config_map := (\<lambda>n k. Inr (feature_states [''EnableLocalMode''] Map.empty))\<rparr>"

theorem feature_states_read_back_witness:
  "fst (run_state (IsFeatureEnabled local_features VSphereLocalModeFlag False) empty_world) \<and>
   fst (run_state (IsFeatureEnabled local_features DecoupleVSphereCSIDriverFlag False) empty_world)"
proof -
  let ?run = "run_state (CreateFeatureStateConfigMap local_features [''EnableLocalMode''] ''velero'') empty_world"
  have none: "fst ?run = None"
    by (simp add: CreateFeatureStateConfigMap_def local_features_def write_result_def evals)
  have run: "?run = (None, snd ?run)" using none by (metis prod.collapse)
  have old: "stored_data empty_world k = Map.empty" for k by (simp add: stored_data_def empty_world_def)
  have "stored_data (snd ?run) (''velero'', VSpherePluginFeatureStates) = feature_states [''EnableLocalMode''] Map.empty"
    using CreateFeatureStateConfigMap_stores [OF run] by (simp add: stored_data_def empty_world_def)
  then have "e_config_map local_features n (velero_namespace local_features, VSpherePluginFeatureStates) =
      Inr (stored_data (snd ?run) (''velero'', VSpherePluginFeatureStates))" for n
    by (simp add: local_features_def)
  from feature_states_read_back [OF run this, of False empty_world]
  show ?thesis by (simp add: old VSphereLocalModeFeature_def)
qed


section \<open>Blocked resources\<close>

lemma map_of_formatted: "map_of (map (\<lambda>(r, b). (r, format_bool b)) xs) r = map_option format_bool (map_of xs r)"
  by (induction xs) auto

lemma default_block_list:
  "IsResourceBlocked r (block_list_data blocked_by_default) \<longleftrightarrow> r \<in> set ResourcesToBlock"
proof -
  have entry: "map_of (map (\<lambda>r. (r, True)) xs) r = (if r \<in> set xs then Some True else None)" for xs :: "string list"
    by (induction xs) auto
  have "parse_bool '''' = None" by (simp add: parse_bool_def)
  then show ?thesis
    unfolding IsResourceBlocked_def block_list_data_def map_of_formatted blocked_by_default_def entry
    by simp
qed

text \<open>
  The installer leaves an existing list of blocked resources as it is. A list it creates
  blocks, for the running plugin, exactly the resources of the built-in table.
\<close>

theorem block_list_installed:
  assumes "run_state (CreateBlockListConfigMap E ns blocked_by_default) w = (None, w')"
  shows "(case w_config_maps w (ns, ResourcesToBlockListName) of
      Some m \<Rightarrow> w_config_maps w' = w_config_maps w
    | None \<Rightarrow> (\<exists>m. w_config_maps w' = (w_config_maps w)((ns, ResourcesToBlockListName) \<mapsto> m) \<and>
        (\<forall>r. IsResourceBlocked r m \<longleftrightarrow> r \<in> set ResourcesToBlock)))"
  using assms
  by (auto simp: CreateBlockListConfigMap_def cr_get_def cr_create_def Let_def write_result_def default_block_list
      intro!: exI [of _ "block_list_data blocked_by_default"] split: fate.splits option.splits if_splits)

theorem block_list_installed_witness:
  "\<exists>m. w_config_maps (snd (run_state (CreateBlockListConfigMap calm ''velero'' blocked_by_default) empty_world))
     (''velero'', ResourcesToBlockListName) = Some m \<and> IsResourceBlocked ''uploads.datamover.cnsdp.vmware.com'' m"
proof -
  let ?run = "run_state (CreateBlockListConfigMap calm ''velero'' blocked_by_default) empty_world"
  have "fst ?run = None"
    by (simp add: CreateBlockListConfigMap_def write_result_def cr_get_def cr_create_def Let_def empty_world_def)
  then have "?run = (None, snd ?run)" by (metis prod.collapse)
  from block_list_installed [OF this]
  have "\<exists>m. w_config_maps (snd ?run) = (w_config_maps empty_world)((''velero'', ResourcesToBlockListName) \<mapsto> m) \<and>
      (\<forall>r. IsResourceBlocked r m \<longleftrightarrow> r \<in> set ResourcesToBlock)"
    by (simp add: empty_world_def)
  moreover have "''uploads.datamover.cnsdp.vmware.com'' \<in> set ResourcesToBlock" by code_simp
  ultimately show ?thesis by (metis fun_upd_same)
qed

text \<open>
  The table names resources by their plural. The plugin forms the plural of a kind by its own
  rule, an \<open>s\<close> or \<open>ies\<close>; these are kinds of the table for which the rule gives another
  name than the table has.
\<close>

definition misnamed :: "(string \<times> string \<times> string) list" where
  "misnamed = [
     (''ClusterClass'', ''cluster.x-k8s.io'', ''clusterclasses.cluster.x-k8s.io''),
     (''GatewayClass'', ''networking.x-k8s.io'', ''gatewayclasses.networking.x-k8s.io''),
     (''VirtualMachineClass'', ''vmoperator.vmware.com'', ''virtualmachineclasses.vmoperator.vmware.com'')]"

lemma misnamed_entries:
  "list_all (\<lambda>(kind, grp, entry). grp \<noteq> '''' \<and> entry \<in> set ResourcesToBlock \<and>
     plural_of_kind kind @ ''.'' @ grp \<notin> set ResourcesToBlock) misnamed"
  by code_simp

text \<open>
  Kinds that end in \<open>class\<close> slip through the built-in table. An object of kind
  ClusterClass, GatewayClass or VirtualMachineClass is not blocked by the list the installer
  creates, although the list has an entry for its resource: the plugin looks it up under
  a plural with three s.
\<close>

theorem class_kinds_are_not_blocked:
  assumes "(kind, grp, entry) \<in> set misnamed"
    and "un_Kind item = Inr kind" and "un_APIVersion item = Inr v" and "p_group_version P v = Some (grp, ver)"
    and "e_velero_ns E = Some ns" and "\<And>n. e_client E n = None"
    and "\<And>n. e_config_map E n (ns, ResourcesToBlockListName) = Inr (block_list_data blocked_by_default)"
  shows "entry \<in> set ResourcesToBlock \<and>
    (\<exists>name. fst (run_state (IsObjectBlocked E P item) w) = Inr (False, name))"
proof -
  have "grp \<noteq> ''''" "entry \<in> set ResourcesToBlock" "plural_of_kind kind @ ''.'' @ grp \<notin> set ResourcesToBlock"
    using misnamed_entries assms(1) by (auto simp: list_all_iff)
  with assms(2-7) show ?thesis
    by (simp add: IsObjectBlocked_def UnstructuredToCRDName_def RetrieveBlockListConfigMap_def connect_def
        default_block_list Let_def)
qed

definition listing_env :: env where
  "listing_env = calm\<lparr>e_config_map := (\<lambda>n k. Inr (block_list_data blocked_by_default))\<rparr>"

theorem class_kinds_are_not_blocked_witness:
  "\<exists>name. fst (run_state (IsObjectBlocked listing_env calm_plugin
     \<lparr>un_APIVersion = Inr ''cluster.x-k8s.io/v1beta1'', un_Kind = Inr ''ClusterClass'', un_Content = ''''\<rparr>)
     empty_world) = Inr (False, name)"
proof -
  let ?item = "\<lparr>un_APIVersion = Inr ''cluster.x-k8s.io/v1beta1'', un_Kind = Inr ''ClusterClass'', un_Content = ''''\<rparr>"
  have "(''ClusterClass'', ''cluster.x-k8s.io'', ''clusterclasses.cluster.x-k8s.io'') \<in> set misnamed"
    by (simp add: misnamed_def)
  from class_kinds_are_not_blocked [OF this, of ?item "''cluster.x-k8s.io/v1beta1''" calm_plugin "''v1beta1''"
      listing_env "''velero''" empty_world]
  show ?thesis by (simp add: listing_env_def)
qed

section \<open>Volumes of the file system backup\<close>

lemma Contains_iff: "Contains xs k \<longleftrightarrow> k \<in> set xs"
  by (induction xs) auto

lemma volume_of_claim_None: "volume_of_claim vs c = None \<longleftrightarrow> (\<forall>v \<in> set vs. snd v \<noteq> Some c)"
  by (induction vs c rule: volume_of_claim.induct) auto

lemma pods_using_iff: "p \<in> set (pods_using c pods) \<longleftrightarrow> p \<in> set pods \<and> volume_of_claim (pd_Volumes p) c \<noteq> None"
  by (auto simp: pods_using_def volume_of_claim_None)

lemma fs_backed_spec:
  assumes "\<And>p. p \<in> set ps \<Longrightarrow> volume_of_claim (pd_Volumes p) c \<noteq> None"
  shows "fs_backed P c d ps =
    Inr (\<exists>p \<in> set ps. the (volume_of_claim (pd_Volumes p) c) \<in> set (p_fs_volumes P p d))"
  using assms
proof (induction ps)
  case (Cons p ps)
  then obtain v where "volume_of_claim (pd_Volumes p) c = Some v" by force
  with Cons show ?case by (auto simp: GetPodVolumeNameForPVC_def Contains_iff Let_def)
qed simp

text \<open>
  A claim is left to the file system backup exactly if some pod of its namespace uses it
  and the first of the pod's volumes that refers to the claim is among the volumes Velero backs
  up through the file system; once the pods are listed, the check cannot fail.
\<close>

theorem fs_backup_decision:
  "fst (run_state (IsPVCBackedUpByFsBackup P ns c d) w) =
     (case p_pods P (w_tick w) ns of
        Inl e \<Rightarrow> Inl e
      | Inr pods \<Rightarrow> Inr (\<exists>p \<in> set pods. \<exists>v. volume_of_claim (pd_Volumes p) c = Some v \<and>
                                 v \<in> set (p_fs_volumes P p d)))"
proof (cases "p_pods P (w_tick w) ns")
  case (Inr pods)
  have "fs_backed P c d (pods_using c pods) =
    Inr (\<exists>p \<in> set (pods_using c pods). the (volume_of_claim (pd_Volumes p) c) \<in> set (p_fs_volumes P p d))"
    by (rule fs_backed_spec) (simp add: pods_using_iff)
  also have "(\<exists>p \<in> set (pods_using c pods). the (volume_of_claim (pd_Volumes p) c) \<in> set (p_fs_volumes P p d)) \<longleftrightarrow>
    (\<exists>p \<in> set pods. \<exists>v. volume_of_claim (pd_Volumes p) c = Some v \<and> v \<in> set (p_fs_volumes P p d))"
    unfolding Bex_def pods_using_iff by (metis option.collapse option.discI option.sel)
  finally show ?thesis
    using Inr by (simp add: IsPVCBackedUpByFsBackup_def GetPodsUsingPVC_def)
qed (simp add: IsPVCBackedUpByFsBackup_def GetPodsUsingPVC_def)


section \<open>Images\<close>

definition tagged :: "string \<Rightarrow> (string \<rightharpoonup> string)" where
  "tagged s = (case cut_first (CHR '':'') s of
      Some (name, tag) \<Rightarrow> [''Version'' \<mapsto> tag, ''Container'' \<mapsto> name]
    | None \<Rightarrow> [''Container'' \<mapsto> s])"

lemma components_tagged:
  assumes "img \<noteq> ''''"
  shows "GetComponentsFromImage img =
    (case cut_last (CHR ''/'') img of None \<Rightarrow> tagged img | Some (r, rest) \<Rightarrow> (tagged rest)(''Repository'' \<mapsto> r))"
  using assms
  by (auto simp: GetComponentsFromImage_def tagged_def Let_def fun_eq_iff split: option.splits)

lemma tagged_Repository [simp]: "tagged s ''Repository'' = None"
  by (simp add: tagged_def split: option.splits)

lemma tagged_sibling:
  assumes "CHR '':'' \<notin> set target" and "\<And>t. tagged s ''Version'' = Some t \<Longrightarrow> t \<noteq> ''''"
  shows "tagged (case tagged s ''Version'' of None \<Rightarrow> target | Some t \<Rightarrow> target @ '':'' @ t) =
    (tagged s)(''Container'' \<mapsto> target)"
  using assms
  by (cases "cut_first (CHR '':'') s") (auto simp: tagged_def cut_first_append cut_first_None [THEN iffD2])

text \<open>
  The image of a server is the plugin's image under another name: same repository, same
  tag. This holds for every image reference, with or without repository and tag, unless one of
  them is the empty string.
\<close>

theorem sibling_image_components:
  assumes "CHR ''/'' \<notin> set target" and "CHR '':'' \<notin> set target" and "target \<noteq> ''''" and "img \<noteq> ''''"
    and "GetComponentsFromImage img ''Version'' \<noteq> Some ''''"
    and "GetComponentsFromImage img ''Repository'' \<noteq> Some ''''"
  shows "GetComponentsFromImage (sibling_image img target) = (GetComponentsFromImage img)(''Container'' \<mapsto> target)"
proof -
  define rest where "rest = (case cut_last (CHR ''/'') img of None \<Rightarrow> img | Some (r, rest) \<Rightarrow> rest)"
  let ?new = "case tagged rest ''Version'' of None \<Rightarrow> target | Some t \<Rightarrow> target @ '':'' @ t"
  have version: "GetComponentsFromImage img ''Version'' = tagged rest ''Version''"
    using components_tagged [OF assms(4)] by (auto simp: rest_def split: option.splits)
  have no_slash: "CHR ''/'' \<notin> set rest"
    by (auto simp: rest_def cut_last_None dest: cut_last_SomeD split: option.splits)
  then have no_slash': "CHR ''/'' \<notin> set ?new"
    using assms(1) by (auto simp: tagged_def dest!: cut_first_SomeD split: option.splits)
  have tag: "tagged ?new = (tagged rest)(''Container'' \<mapsto> target)"
    by (rule tagged_sibling) (use assms(2,5) version in auto)
  have new: "?new \<noteq> ''''" using assms(3) by (simp split: option.splits)
  show ?thesis
  proof (cases "cut_last (CHR ''/'') img")
    case None
    then have img: "GetComponentsFromImage img = tagged rest"
      using components_tagged [OF assms(4)] by (simp add: rest_def)
    have "sibling_image img target = ?new"
      using assms(5) by (auto simp: sibling_image_def GetComponentFromImage_def img Let_def split: option.splits)
    moreover have "cut_last (CHR ''/'') ?new = None" using no_slash' unfolding cut_last_None .
    ultimately show ?thesis using components_tagged [OF new] tag img by simp
  next
    case (Some rr)
    then obtain r where r: "cut_last (CHR ''/'') img = Some (r, rest)" by (cases rr) (simp add: rest_def)
    then have img: "GetComponentsFromImage img = (tagged rest)(''Repository'' \<mapsto> r)"
      using components_tagged [OF assms(4)] by simp
    then have "r \<noteq> ''''" using assms(6) by simp
    then have sib: "sibling_image img target = r @ CHR ''/'' # ?new"
      using assms(5) by (auto simp: sibling_image_def GetComponentFromImage_def img Let_def split: option.splits)
    have "cut_last (CHR ''/'') (sibling_image img target) = Some (r, ?new)"
      unfolding sib by (rule cut_last_append [OF no_slash'])
    moreover have "sibling_image img target \<noteq> ''''" by (simp add: sib)
    ultimately show ?thesis using components_tagged [of "sibling_image img target"] tag img by auto
  qed
qed

theorem sibling_image_components_witness:
  "GetComponentsFromImage (sibling_image ''registry:5000/vmware/velero-plugin-for-vsphere:v1.5.1'' ''backup-driver'')
     ''Version'' = Some ''v1.5.1''"
proof -
  let ?img = "''registry:5000/vmware/velero-plugin-for-vsphere:v1.5.1''"
  have "GetComponentsFromImage ?img ''Version'' = Some ''v1.5.1''"
    "GetComponentsFromImage ?img ''Repository'' = Some ''registry:5000/vmware''"
    by (simp_all add: GetComponentsFromImage_def)
  with sibling_image_components [of "''backup-driver''" ?img] show ?thesis by simp
qed

end
