(* ===== verification/Paravirt.thy ===== *)
theory Paravirt
  imports Snapshot_Utils
begin

text \<open>
  Protected entities of a guest cluster (\<^verbatim>\<open>pkg/paravirt\<close>): the volumes of a guest cluster
  are claims of the supervisor cluster, so taking, deleting and restoring a snapshot means
  filing the request in the supervisor cluster, waiting for it there, and, for a restore,
  binding a guest volume and a guest claim to the supervisor claim that came out.

  Two clusters are involved, each with its own API server: \<open>clusters\<close> holds the world of the
  guest, the world of the supervisor, and the volumes and claims the code creates in the
  guest. A program on one of the worlds is run there by \<open>in_guest\<close> and \<open>in_svc\<close>; the
  environments \<open>G\<close> and \<open>S\<close> are those of the guest and of the supervisor, \<open>P\<close> has the
  informers of the supervisor, and \<open>X\<close> the code outside the repository that only this
  package calls.
\<close>

section \<open>State\<close>

record guest_volume =
  gv_Name :: string
  gv_AccessModes :: "string list"
  gv_Capacity :: string
  gv_Driver :: string
  gv_VolumeHandle :: string
  gv_ClaimRef :: key

record guest_claim =
  gcl_Namespace :: string
  gcl_Name :: string
  gcl_Labels :: "string \<rightharpoonup> string"
  gcl_AccessModes :: "string list"
  gcl_Resources :: string
  gcl_VolumeMode :: "string option"
  gcl_VolumeName :: string

record clusters =
  gc :: world
  svc :: world
  gc_volumes :: "string \<Rightarrow> guest_volume option"
  gc_claims :: "key \<Rightarrow> guest_claim option"

text \<open>The fields of a claim that only this package reads.\<close>

record svc_claim = PersistentVolumeClaim +
  sc_Labels :: "string \<rightharpoonup> string"
  sc_AccessModes :: "string list"
  sc_Resources :: string
  sc_VolumeMode :: "string option"
  sc_Capacity :: string

record paravirt_env =
  x_build_config :: "nat \<Rightarrow> string \<Rightarrow> string \<Rightarrow> goerr + string"  \<comment> \<open>clientcmd.BuildConfigFromFlags\<close>
  x_new_client :: "nat \<Rightarrow> string option \<Rightarrow> goerr option"  \<comment> \<open>NewForConfig, None is a nil configuration\<close>
  x_list_pvs :: "nat \<Rightarrow> goerr + PersistentVolume list"
  x_s3_md :: "nat \<Rightarrow> peid \<Rightarrow> goerr option"  \<comment> \<open>Astrolabe's S3 transports\<close>
  x_s3_combined :: "nat \<Rightarrow> peid \<Rightarrow> goerr option"
  x_new_peid :: "string \<Rightarrow> string \<Rightarrow> peid"
  x_claim_peid :: "string \<Rightarrow> string \<Rightarrow> peid"  \<comment> \<open>NewProtectedEntityIDFromPVCName\<close>
  x_namespaced_snapshot :: "string \<Rightarrow> string \<Rightarrow> string \<Rightarrow> string \<Rightarrow> peid"
    \<comment> \<open>NewProtectedEntityIDWithNamespaceAndSnapshot: type, name, namespace, snapshot\<close>
  x_provisioner :: string  \<comment> \<open>pvc.VSphereCSIProvisioner\<close>
  x_marshal :: "svc_claim \<Rightarrow> goerr + string"
  x_unmarshal :: "string \<Rightarrow> goerr + svc_claim"
  x_svc_claim :: "nat \<Rightarrow> key \<Rightarrow> goerr + svc_claim"
  x_wait_bound :: "nat \<Rightarrow> key \<Rightarrow> goerr option"  \<comment> \<open>WaitForPersistentVolumeClaimPhase\<close>
  x_failed_volume :: guest_volume  \<comment> \<open>what the client returns beside an error\<close>

section \<open>Programs on one of the clusters\<close>

definition zoom :: "('c \<Rightarrow> 's) \<Rightarrow> (('s \<Rightarrow> 's) \<Rightarrow> 'c \<Rightarrow> 'c) \<Rightarrow> ('s, 'a) state \<Rightarrow> ('c, 'a) state" where
  "zoom sel upd m = State (\<lambda>c. let (r, s) = run_state m (sel c) in (r, upd (\<lambda>_. s) c))"

text \<open>
  A part of a state: reading it after writing it gives what was written. Then what a program
  does to the part alone is what it does to the part of the whole, and whatever does not
  depend on the part is kept.
\<close>

locale part =
  fixes sel :: "'c \<Rightarrow> 's" and upd :: "('s \<Rightarrow> 's) \<Rightarrow> 'c \<Rightarrow> 'c"
  assumes read_back: "sel (upd f c) = f (sel c)"
begin

lemma run_zoom [simp]:
  "fst (run_state (zoom sel upd m) c) = fst (run_state m (sel c))"
  "snd (run_state (zoom sel upd m) c) = upd (\<lambda>_. snd (run_state m (sel c))) c"
  by (simp_all add: zoom_def split: prod.splits)

lemma triple_zoom:
  assumes "triple Q m R" and "\<And>c s. J c \<Longrightarrow> J (upd (\<lambda>_. s) c)"
  shows "triple (\<lambda>c. Q (sel c) \<and> J c) (zoom sel upd m) (\<lambda>r c. R r (sel c) \<and> J c)"
  using assms by (simp add: triple_def read_back)

lemma keeps_zoom:
  assumes "\<And>c s. J c \<Longrightarrow> J (upd (\<lambda>_. s) c)"
  shows "keeps J (zoom sel upd m)"
  using assms by (simp add: triple_def)

end

abbreviation in_guest :: "(world, 'a) state \<Rightarrow> (clusters, 'a) state" where
  "in_guest \<equiv> zoom gc gc_update"

abbreviation in_svc :: "(world, 'a) state \<Rightarrow> (clusters, 'a) state" where
  "in_svc \<equiv> zoom svc svc_update"

interpretation guest: part gc gc_update
  by unfold_locales simp

interpretation supervisor: part svc svc_update
  by unfold_locales simp

text \<open>Creating an object in the guest, with the three fates of a request.\<close>

definition guest_create ::
  "(clusters \<Rightarrow> 'k \<Rightarrow> 'o option) \<Rightarrow> ((('k \<Rightarrow> 'o option) \<Rightarrow> ('k \<Rightarrow> 'o option)) \<Rightarrow> clusters \<Rightarrow> clusters) \<Rightarrow>
   env \<Rightarrow> 'k \<Rightarrow> 'o \<Rightarrow> (clusters, goerr + 'o) state" where
  "guest_create sel upd G k x = do {
     fate \<leftarrow> in_guest (ask (e_fate G));
     State (\<lambda>c.
       (case fate of
          Refused e \<Rightarrow> (Inl (ErrAPI e), c)
        | Accepted \<Rightarrow> (case sel c k of
              None \<Rightarrow> (Inr x, upd (\<lambda>m. m(k \<mapsto> x)) c)
            | Some _ \<Rightarrow> (Inl (ErrAPI (OtherStatus ''already exists'')), c))
        | AnswerLost e \<Rightarrow> (Inl (ErrAPI e), if sel c k = None then upd (\<lambda>m. m(k \<mapsto> x)) c else c)))
   }"

section \<open>The type manager\<close>

definition ParaVirtPETypePrefix :: string where "ParaVirtPETypePrefix = ''paravirt''"
definition ParaVirtPETypeSep :: string where "ParaVirtPETypeSep = ''-''"
definition ParaVirtEntityTypePersistentVolume :: string where "ParaVirtEntityTypePersistentVolume = ''pv''"

text \<open>The clients are named by the configuration they were built from.\<close>

record paravirt_petm =
  pm_entityType :: string
  pm_gcKubeClient :: string
  pm_gcBackupDriverClient :: string
  pm_svcKubeClient :: "string option"
  pm_svcBackupDriverClient :: "string option"
  pm_svcNamespace :: string

text \<open>The parameter map: None is a key that is missing or has a value of another type.\<close>

record paravirt_params =
  pp_entityType :: "string option"
  pp_restConfig :: "string option"
  pp_masterURL :: string
  pp_kubeconfigPath :: string
  pp_svcConfig :: "string option"
  pp_svcMasterURL :: string
  pp_svcKubeconfigPath :: string
  pp_svcNamespace :: "string option"

definition bad_assertion :: goerr where
  "bad_assertion = GoPanic ''interface conversion''"

text \<open>
  Without \<^verbatim>\<open>svcConfig\<close> the supervisor's configuration is built into the variable of the
  guest's, and the clients of the supervisor get the nil configuration.
\<close>

definition guest_config :: "paravirt_env \<Rightarrow> paravirt_params \<Rightarrow> (world, goerr + string) state" where
  "guest_config X ps =
     (case pp_restConfig ps of
        Some c \<Rightarrow> State_Monad.return (Inr c)
      | None \<Rightarrow> ask (\<lambda>n. x_build_config X n (pp_masterURL ps) (pp_kubeconfigPath ps)))"

definition svc_config :: "paravirt_env \<Rightarrow> paravirt_params \<Rightarrow> string \<Rightarrow> (world, goerr + (string \<times> string option)) state" where
  "svc_config X ps config =
     (case pp_svcConfig ps of
        Some c \<Rightarrow> State_Monad.return (Inr (config, Some c))
      | None \<Rightarrow> do {
          r \<leftarrow> ask (\<lambda>n. x_build_config X n (pp_svcMasterURL ps) (pp_svcKubeconfigPath ps));
          State_Monad.return (case r of Inl e \<Rightarrow> Inl e | Inr c \<Rightarrow> Inr (c, None))
        })"

definition NewParaVirtProtectedEntityTypeManagerFromConfig ::
  "paravirt_env \<Rightarrow> paravirt_params \<Rightarrow> (world, goerr + paravirt_petm) state" where
  "NewParaVirtProtectedEntityTypeManagerFromConfig X ps =
     (case pp_entityType ps of
        None \<Rightarrow> State_Monad.return (Inl bad_assertion)
      | Some entityType \<Rightarrow> do {
     guest \<leftarrow> guest_config X ps;
     (case guest of
        Inl e \<Rightarrow> State_Monad.return (Inl e)
      | Inr gcConfig \<Rightarrow> do {
     gcKube \<leftarrow> ask (\<lambda>n. x_new_client X n (Some gcConfig));
     (case gcKube of
        Some e \<Rightarrow> State_Monad.return (Inl e)
      | None \<Rightarrow> do {
     sup \<leftarrow> svc_config X ps gcConfig;
     (case sup of
        Inl e \<Rightarrow> State_Monad.return (Inl e)
      | Inr (config, svcConfig) \<Rightarrow> do {
     svcKube \<leftarrow> ask (\<lambda>n. x_new_client X n svcConfig);
     (case svcKube of
        Some e \<Rightarrow> State_Monad.return (Inl e)
      | None \<Rightarrow> do {
     svcDriver \<leftarrow> ask (\<lambda>n. x_new_client X n svcConfig);
     (case svcDriver of
        Some e \<Rightarrow> State_Monad.return (Inl e)
      | None \<Rightarrow> do {
     gcDriver \<leftarrow> ask (\<lambda>n. x_new_client X n (Some config));
     State_Monad.return (case gcDriver of
        Some e \<Rightarrow> Inl e
      | None \<Rightarrow>
          (case pp_svcNamespace ps of
             None \<Rightarrow> Inl bad_assertion
           | Some ns \<Rightarrow> Inr \<lparr>pm_entityType = entityType, pm_gcKubeClient = gcConfig,
               pm_gcBackupDriverClient = config, pm_svcKubeClient = svcConfig,
               pm_svcBackupDriverClient = svcConfig, pm_svcNamespace = ns\<rparr>))
     })})})})})})"

definition GetTypeName :: "paravirt_petm \<Rightarrow> string" where
  "GetTypeName M = ParaVirtPETypePrefix @ ParaVirtPETypeSep @ pm_entityType M"

definition getDataTransports :: "paravirt_env \<Rightarrow> peid \<Rightarrow> (world, goerr option) state" where
  "getDataTransports X i = do {
     md \<leftarrow> ask (\<lambda>n. x_s3_md X n i);
     (case md of
        Some e \<Rightarrow> State_Monad.return (Some (ErrWrap ''Could not create S3 md transport'' e))
      | None \<Rightarrow> do {
          combined \<leftarrow> ask (\<lambda>n. x_s3_combined X n i);
          State_Monad.return (case combined of
              Some e \<Rightarrow> Some (ErrWrap ''Could not create S3 combined transport'' e)
            | None \<Rightarrow> None)
        })
   }"

text \<open>An entity is its identifier here; the transports are Astrolabe's and never read.\<close>

definition newParaVirtProtectedEntity :: "paravirt_env \<Rightarrow> peid \<Rightarrow> (world, goerr + peid) state" where
  "newParaVirtProtectedEntity X i = do {
     r \<leftarrow> getDataTransports X i;
     State_Monad.return (case r of Some e \<Rightarrow> Inl e | None \<Rightarrow> Inr i)
   }"

definition GetProtectedEntities ::
  "paravirt_env \<Rightarrow> paravirt_petm \<Rightarrow> (world, goerr + peid list) state" where
  "GetProtectedEntities X M =
     (if pm_entityType M \<noteq> ParaVirtEntityTypePersistentVolume then
        State_Monad.return (Inl (ErrMsg (''The PE type, '' @ pm_entityType M @ '', is not supported'')))
      else do {
        r \<leftarrow> ask (x_list_pvs X);
        State_Monad.return (case r of
            Inl e \<Rightarrow> Inl (ErrWrap ''Could not list PVs'' e)
          | Inr pvs \<Rightarrow> Inr (map (\<lambda>pv. x_new_peid X (GetTypeName M) (vol_Name pv))
              (filter (\<lambda>pv. \<not> (vol_CSI pv = None \<or> fst (the (vol_CSI pv)) \<noteq> x_provisioner X)) pvs)))
      })"


section \<open>The entity\<close>

record entity_info =
  ei_ID :: peid
  ei_Name :: string
  ei_Size :: int

definition getVolumeHandleFromPV :: "plugin_env \<Rightarrow> paravirt_env \<Rightarrow> peid \<Rightarrow> (world, goerr + string) state" where
  "getVolumeHandleFromPV P X i = do {
     r \<leftarrow> ask (\<lambda>n. p_get_pv P n (pe_id i));
     State_Monad.return (case r of
         Inl e \<Rightarrow> Inl (ErrWrap (''Could not retrieve pv with name '' @ pe_id i) e)
       | Inr pv \<Rightarrow>
           if vol_CSI pv = None \<or> fst (the (vol_CSI pv)) \<noteq> x_provisioner X
           then Inl (ErrMsg (''Unexpected pv '' @ pe_id i @ '' retrieved''))
           else Inr (snd (the (vol_CSI pv))))
   }"

definition GetInfo ::
  "plugin_env \<Rightarrow> paravirt_env \<Rightarrow> paravirt_petm \<Rightarrow> peid \<Rightarrow> (world, goerr + entity_info) state" where
  "GetInfo P X M i =
     (if pm_entityType M = ParaVirtEntityTypePersistentVolume then do {
        r \<leftarrow> getVolumeHandleFromPV P X i;
        State_Monad.return (case r of
            Inl e \<Rightarrow> Inl e
          | Inr name \<Rightarrow> Inr \<lparr>ei_ID = i, ei_Name = name, ei_Size = - 1\<rparr>)
      } else State_Monad.return (Inr \<lparr>ei_ID = i, ei_Name = '''', ei_Size = - 1\<rparr>))"

definition GetCombinedInfo ::
  "plugin_env \<Rightarrow> paravirt_env \<Rightarrow> paravirt_petm \<Rightarrow> peid \<Rightarrow> (world, goerr + entity_info list) state" where
  "GetCombinedInfo P X M i = do {
     r \<leftarrow> GetInfo P X M i;
     State_Monad.return (case r of Inl e \<Rightarrow> Inl e | Inr info \<Rightarrow> Inr [info])
   }"

text \<open>The parameters of the entity's PVC: None if missing or not a string.\<close>

record snapshot_params =
  sp_BackupRepository :: "string option"
  sp_BackupName :: "string option"

definition supervisor_snapshot_phases :: "SnapshotPhase list" where
  "supervisor_snapshot_phases = [SnapshotPhaseSnapshotted, SnapshotPhaseSnapshotFailed]"

text \<open>
  The result is the identifier of the snapshot and, through the parameter map, the name of the
  supervisor's Snapshot.
\<close>

definition snapshot_result :: "env \<Rightarrow> string \<Rightarrow> Snapshot \<Rightarrow> goerr + (string \<times> string)" where
  "snapshot_result G name s =
     (if snapshot_state s = SnapshotPhaseSnapshotFailed then Inl (ErrMsg
        (''ParaVirtProtectedEntity: Failed to create Snapshot for '' @ name @ '' State: SnapshotFailed''))
      else (case e_parse_peid G (snt_SnapshotID (sn_Status s)) of
          Inl e \<Rightarrow> Inl e
        | Inr q \<Rightarrow> Inr (pe_snapshot q, snapshot_name s)))"

definition paravirt_Snapshot ::
  "env \<Rightarrow> env \<Rightarrow> plugin_env \<Rightarrow> paravirt_env \<Rightarrow> paravirt_petm \<Rightarrow> nat \<Rightarrow> peid \<Rightarrow> snapshot_params \<Rightarrow>
   (clusters, (goerr + (string \<times> string)) option) state" where
  "paravirt_Snapshot G S P X M fuel i ps = do {
     info \<leftarrow> in_guest (GetInfo P X M i);
     (case info of
        Inl e \<Rightarrow> State_Monad.return (Some (Inl e))
      | Inr peInfo \<Rightarrow>
     (case sp_BackupName ps of
        None \<Rightarrow> State_Monad.return (Some (Inl bad_assertion))
      | Some backupName \<Rightarrow> do {
     r \<leftarrow> in_svc (SnapshotRef S P fuel
       \<lparr>tr_APIGroup = Some '''', tr_Kind = ''PersistentVolumeClaim'', tr_Name = ei_Name peInfo\<rparr>
       (pm_svcNamespace M)
       (case sp_BackupRepository ps of None \<Rightarrow> ''INVALID_BR_NAME'' | Some b \<Rightarrow> b)
       [SnapshotBackupLabel \<mapsto> backupName] supervisor_snapshot_phases);
     State_Monad.return (case r of
         None \<Rightarrow> None
       | Some (Inl e) \<Rightarrow> Some (Inl e)
       | Some (Inr s) \<Rightarrow> Some (snapshot_result G (ei_Name peInfo) s))
     }))
   }"

definition paravirt_ListSnapshots :: "peid \<Rightarrow> string list" where
  "paravirt_ListSnapshots i = []"

definition supervisor_delete_phases :: "DeleteSnapshotPhase list" where
  "supervisor_delete_phases = [DeleteSnapshotPhaseCompleted, DeleteSnapshotPhaseFailed]"

text \<open>The phase with which the deletion ended is not looked at.\<close>

definition paravirt_DeleteSnapshot ::
  "env \<Rightarrow> env \<Rightarrow> plugin_env \<Rightarrow> paravirt_env \<Rightarrow> paravirt_petm \<Rightarrow> nat \<Rightarrow> peid \<Rightarrow> string \<Rightarrow> string option \<Rightarrow>
   (clusters, (goerr + bool) option) state" where
  "paravirt_DeleteSnapshot G S P X M fuel i snapshotToDelete backupRepositoryName = do {
     r \<leftarrow> in_svc (DeleteSnapshotRef S P fuel
       (e_print_peid G (x_namespaced_snapshot X (e_pvc_type G) (pe_id i) (pm_svcNamespace M) snapshotToDelete))
       (pm_svcNamespace M)
       (case backupRepositoryName of None \<Rightarrow> ''INVALID_BR_NAME'' | Some b \<Rightarrow> b)
       supervisor_delete_phases);
     State_Monad.return (case r of
         None \<Rightarrow> None
       | Some (Inl e) \<Rightarrow> Some (Inl e)
       | Some (Inr d) \<Rightarrow> Some (Inr True))
   }"

section \<open>Restoring\<close>

text \<open>
  The nested identifier is decoded as in the snapshot manager, but the result is the encoded
  identifier of the volume's snapshot, and the type it stops at is the literal \<open>ivd\<close>.
\<close>

partial_function (option) paravirt_decodeSnapshotID :: "env \<Rightarrow> string \<Rightarrow> (goerr + string) option" where
  "paravirt_decodeSnapshotID G snapshotID =
     (case b64_decode snapshotID of
        None \<Rightarrow> Some (Inl (ErrWrap (''Could not decode snapshot ID encoded string '' @ snapshotID)
                  (ErrMsg ''illegal base64 data'')))
      | Some bytes \<Rightarrow>
        (case e_parse_peid G bytes of
           Inl e \<Rightarrow> Some (Inl (ErrWrap (''Could not translate decoded snapshotID '' @ bytes @ '' into pe-id'') e))
         | Inr p \<Rightarrow>
           (if e_has_snapshot G p \<and> pe_type p \<noteq> ''ivd'' then paravirt_decodeSnapshotID G (pe_snapshot p)
            else Some (Inr (b64_encode (e_print_peid G p))))))"

definition convertSnapshotID :: "env \<Rightarrow> peid \<Rightarrow> string \<Rightarrow> string \<Rightarrow> goerr + string" where
  "convertSnapshotID G sourceSnapshotID svcPVCNamespace svcPVCName =
     (case or_overflow (paravirt_decodeSnapshotID G (pe_snapshot sourceSnapshotID)) of
        Inl e \<Rightarrow> Inl (wrap_error ''failed to retrieve decoded snapshot id'' e)
      | Inr snapIDDecoded \<Rightarrow>
          Inr (''pvc:'' @ svcPVCNamespace @ ''/'' @ svcPVCName @ '':'' @ snapIDDecoded))"

text \<open>
  The claim of the supervisor is the backed-up claim of the guest under a new name. For a claim
  without a storage class the function wraps a nil error, which is nil: the caller gets the nil
  claim \<open>None\<close> and no error.
\<close>

definition getSuperPVCandGuestPVCName ::
  "env \<Rightarrow> paravirt_env \<Rightarrow> paravirt_petm \<Rightarrow> string \<Rightarrow>
   (world, goerr + (svc_claim option \<times> key \<times> (string \<rightharpoonup> string))) state" where
  "getSuperPVCandGuestPVCName G X M metadata =
     (case x_unmarshal X metadata of
        Inl e \<Rightarrow> State_Monad.return (Inl (ErrWrap ''failed to unmarshal metadata to get PVC'' e))
      | Inr claim \<Rightarrow> do {
          uuid \<leftarrow> ask (e_uuid G);
          State_Monad.return (case uuid of
              Inl e \<Rightarrow> Inl (ErrWrap (''could not generate PVC name in the Supervisor Cluster for Guest Cluster PVC ''
                @ pvc_Name claim @ ''/'' @ pvc_Namespace claim) e)
            | Inr u \<Rightarrow>
                if length (pvc_Name claim) < 4 then Inl (GoPanic ''slice bounds out of range'')
                else if pvc_StorageClassName claim = None then Inr (None, ('''', ''''), Map.empty)
                else Inr (Some (claim\<lparr>pvc_Name := take 4 (pvc_Name claim) @ ''-'' @ u,
                       pvc_Namespace := pm_svcNamespace M, sc_Labels := Map.empty\<rparr>),
                     (pvc_Namespace claim, pvc_Name claim), sc_Labels claim))
        })"

text \<open>The error of the creation is dropped; the volume is then what the client returned beside it.\<close>

definition createGuestPV ::
  "env \<Rightarrow> paravirt_env \<Rightarrow> key \<Rightarrow> svc_claim \<Rightarrow> (clusters, goerr + guest_volume) state" where
  "createGuestPV G X gcPVC svcPVC = do {
     uuid \<leftarrow> in_guest (ask (e_uuid G));
     (case uuid of
        Inl e \<Rightarrow> State_Monad.return (Inl (ErrWrap
          (''could not generate PV name in the Guest Cluster for Supervisor Cluster PVC '' @
           pvc_Namespace svcPVC @ ''/'' @ pvc_Name svcPVC) e))
      | Inr u \<Rightarrow> do {
          r \<leftarrow> guest_create gc_volumes gc_volumes_update G (''pvc-'' @ u)
            \<lparr>gv_Name = ''pvc-'' @ u, gv_AccessModes = sc_AccessModes svcPVC, gv_Capacity = sc_Capacity svcPVC,
             gv_Driver = x_provisioner X, gv_VolumeHandle = pvc_Name svcPVC, gv_ClaimRef = gcPVC\<rparr>;
          State_Monad.return (case r of Inl _ \<Rightarrow> Inr (x_failed_volume X) | Inr v \<Rightarrow> Inr v)
        })
   }"

text \<open>Here the error and the answer are both local to the test; the claim stays as it was built.\<close>

definition createGuestPVC ::
  "env \<Rightarrow> paravirt_env \<Rightarrow> key \<Rightarrow> (string \<rightharpoonup> string) \<Rightarrow> string \<Rightarrow> svc_claim \<Rightarrow>
   (clusters, goerr + guest_claim) state" where
  "createGuestPVC G X gcPVC gcPVCLabels gcPVName svcPVC = do {
     let claim = \<lparr>gcl_Namespace = fst gcPVC, gcl_Name = snd gcPVC, gcl_Labels = gcPVCLabels,
       gcl_AccessModes = sc_AccessModes svcPVC, gcl_Resources = sc_Resources svcPVC,
       gcl_VolumeMode = sc_VolumeMode svcPVC, gcl_VolumeName = gcPVName\<rparr>;
     _ \<leftarrow> guest_create gc_claims gc_claims_update G gcPVC claim;
     bound \<leftarrow> in_guest (ask (\<lambda>n. x_wait_bound X n gcPVC));
     State_Monad.return (case bound of
         Some e \<Rightarrow> Inl (ErrMsg (''pvc '' @ fst gcPVC @ ''/'' @ snd gcPVC @ '' did not become Bound: '' @ error_string e))
       | None \<Rightarrow> Inr claim)
   }"

definition carry_over :: "CloneFromSnapshot \<Rightarrow> CloneFromSnapshot \<Rightarrow> CloneFromSnapshot" where
  "carry_over svcClone c = c\<lparr>cl_Status := (cl_Status c)\<lparr>
     clt_Phase := clone_state svcClone,
     clt_Message := clt_Message (cl_Status svcClone),
     clt_ResourceHandle := clt_ResourceHandle (cl_Status svcClone)\<rparr>\<rparr>"

definition updateGuestCloneFromSnapshotStatusWithSupervisor ::
  "env \<Rightarrow> key \<Rightarrow> CloneFromSnapshot \<Rightarrow> (world, goerr option) state" where
  "updateGuestCloneFromSnapshotStatusWithSupervisor G k svcClone = do {
     got \<leftarrow> cr_get w_clones G k;
     (case got of
        Inl e \<Rightarrow> State_Monad.return (Some (ErrWrap ''failed to get cloneFromSnapshot record in Guest Cluster'' e))
      | Inr c \<Rightarrow> do {
          r \<leftarrow> cr_modify w_clones w_clones_update G k
            (\<lambda>cur. cur\<lparr>cl_Status := cl_Status (carry_over svcClone c)\<rparr>);
          State_Monad.return (case r of Inl e \<Rightarrow> Some e | Inr _ \<Rightarrow> None)
        })
   }"


definition svc_repository :: "env \<Rightarrow> string \<Rightarrow> (world, goerr + string) state" where
  "svc_repository G backupRepositoryName =
     (if backupRepositoryName \<noteq> '''' \<and> backupRepositoryName \<noteq> WithoutBackupRepository then do {
        r \<leftarrow> GetBackupRepositoryFromBackupRepositoryName G backupRepositoryName;
        State_Monad.return (case r of
            Inl e \<Rightarrow> Inl (ErrWrap ''failed to retrieve backupRepository'' e)
          | Inr br \<Rightarrow> Inr (if br_SvcBackupRepositoryName br \<noteq> '''' \<and>
                             br_SvcBackupRepositoryName br \<noteq> WithoutBackupRepository
                          then br_SvcBackupRepositoryName br else backupRepositoryName))
      } else State_Monad.return (Inr backupRepositoryName))"

definition supervisor_clone_phases :: "ClonePhase list" where
  "supervisor_clone_phases = [ClonePhaseCompleted, ClonePhaseFailed, ClonePhaseCanceled]"

definition clone_error :: "CloneFromSnapshot \<Rightarrow> goerr option" where
  "clone_error c =
     (let what = om_Namespace (cl_Meta c) @ ''/'' @ clone_name c in
      if clone_state c = ClonePhaseFailed then
        Some (ErrMsg (''CloneFromSnapshot failed in the Supervisor Cluster: '' @ what))
      else if clone_state c = ClonePhaseCanceled then
        Some (ErrMsg (''CloneFromSnapshot is canceled: '' @ what @ '' in the Supervisor Cluster''))
      else None)"

text \<open>The request in the supervisor cluster, and the claim that came out of it.\<close>

definition clone_in_supervisor ::
  "env \<Rightarrow> env \<Rightarrow> plugin_env \<Rightarrow> paravirt_env \<Rightarrow> paravirt_petm \<Rightarrow> nat \<Rightarrow> peid \<Rightarrow> svc_claim \<Rightarrow> string \<Rightarrow>
   (world, (goerr + (CloneFromSnapshot \<times> svc_claim)) option) state" where
  "clone_in_supervisor G S P X M fuel sourceSnapshotID svcPVC repository =
     (case x_marshal X svcPVC of
        Inl e \<Rightarrow> State_Monad.return (Some (Inl (ErrWrap
          (''Could not marshal SVC PVC data for '' @ pvc_Name svcPVC @ ''/'' @ pvc_Namespace svcPVC) e)))
      | Inr svcPVCData \<Rightarrow>
     (case convertSnapshotID G sourceSnapshotID (pvc_Namespace svcPVC) (pvc_Name svcPVC) of
        Inl e \<Rightarrow> State_Monad.return (Some (Inl e))
      | Inr newSnapshotID \<Rightarrow> do {
     r \<leftarrow> CloneFromSnapshopRef S P fuel newSnapshotID svcPVCData (Some '''') ''PersistentVolumeClaim''
            (pm_svcNamespace M) repository supervisor_clone_phases;
     (case r of
        None \<Rightarrow> State_Monad.return None
      | Some (Inl e) \<Rightarrow> State_Monad.return (Some (Inl e))
      | Some (Inr svcClone) \<Rightarrow>
     (case clone_error svcClone of
        Some e \<Rightarrow> State_Monad.return (Some (Inl e))
      | None \<Rightarrow> do {
          got \<leftarrow> ask (\<lambda>n. x_svc_claim X n (pm_svcNamespace M, pvc_Name svcPVC));
          State_Monad.return (Some (case got of
              Inl e \<Rightarrow> Inl (ErrWrap ''Failed to get PVC from Supervisor Cluster'' e)
            | Inr updated \<Rightarrow> Inr (svcClone, updated)))
        }))
     }))"

text \<open>The guest's side: volume, claim, status of the guest's request, entity.\<close>

definition bind_in_guest ::
  "env \<Rightarrow> paravirt_env \<Rightarrow> key \<Rightarrow> (string \<rightharpoonup> string) \<Rightarrow> key \<Rightarrow> CloneFromSnapshot \<Rightarrow> svc_claim \<Rightarrow>
   (clusters, goerr + peid) state" where
  "bind_in_guest G X gcPVC gcPVCLabels cloneKey svcClone svcPVC = do {
     volume \<leftarrow> createGuestPV G X gcPVC svcPVC;
     (case volume of
        Inl e \<Rightarrow> State_Monad.return (Inl e)
      | Inr gcPV \<Rightarrow> do {
     claim \<leftarrow> createGuestPVC G X gcPVC gcPVCLabels (gv_Name gcPV) svcPVC;
     (case claim of
        Inl e \<Rightarrow> State_Monad.return (Inl e)
      | Inr c \<Rightarrow> do {
     err \<leftarrow> in_guest (updateGuestCloneFromSnapshotStatusWithSupervisor G cloneKey svcClone);
     (case err of
        Some e \<Rightarrow> State_Monad.return (Inl e)
      | None \<Rightarrow> in_guest (newParaVirtProtectedEntity X (x_claim_peid X (gcl_Namespace c) (gcl_Name c))))
     })})
   }"

text \<open>
  With the nil claim the function panics: in the serialisation, or else when it reads the
  claim's namespace.
\<close>

definition CreateFromMetadata ::
  "env \<Rightarrow> env \<Rightarrow> plugin_env \<Rightarrow> paravirt_env \<Rightarrow> paravirt_petm \<Rightarrow> nat \<Rightarrow> string \<Rightarrow> peid \<Rightarrow> key \<Rightarrow> string \<Rightarrow>
   (clusters, (goerr + peid) option) state" where
  "CreateFromMetadata G S P X M fuel metadata sourceSnapshotID cloneKey backupRepositoryName = do {
     repo \<leftarrow> in_guest (svc_repository G backupRepositoryName);
     (case repo of
        Inl e \<Rightarrow> State_Monad.return (Some (Inl e))
      | Inr repository \<Rightarrow> do {
     names \<leftarrow> in_guest (getSuperPVCandGuestPVCName G X M metadata);
     (case names of
        Inl e \<Rightarrow> State_Monad.return (Some (Inl e))
      | Inr (None, _, _) \<Rightarrow> State_Monad.return (Some (Inl (GoPanic ''nil pointer dereference'')))
      | Inr (Some svcPVC, gcPVC, gcPVCLabels) \<Rightarrow> do {
     cloned \<leftarrow> in_svc (clone_in_supervisor G S P X M fuel sourceSnapshotID svcPVC repository);
     (case cloned of
        None \<Rightarrow> State_Monad.return None
      | Some (Inl e) \<Rightarrow> State_Monad.return (Some (Inl e))
      | Some (Inr (svcClone, updated)) \<Rightarrow> do {
          r \<leftarrow> bind_in_guest G X gcPVC gcPVCLabels cloneKey svcClone updated;
          State_Monad.return (Some r)
        })
     })})
   }"

end
