(* ===== verification/Paravirt_Correctness.thy ===== *)
theory Paravirt_Correctness
  imports Paravirt Plugin_Correctness Snapshot_Manager_Correctness
begin

text \<open>
  Properties of the guest cluster's entities: snapshots, deletions and restores are filed once,
  in the supervisor's namespace and nowhere else; a restored guest claim is bound to a guest
  volume that stands for the supervisor's claim; the identifier sent to the supervisor names
  the same snapshot of the same disk. Four error paths do not report what happened.
\<close>

lemma run_zoom_pair:
  "run_state (zoom sel upd m) c = (fst (run_state m (sel c)), upd (\<lambda>_. snd (run_state m (sel c))) c)"
  by (simp add: zoom_def split: prod.splits)

section \<open>The identifier for the supervisor\<close>

lemma paravirt_decode_agrees:
  assumes "e_ivd_type G = ''ivd''" and "decodePeIdFromSnapshotID G sid = Some r"
  shows "\<exists>r'. paravirt_decodeSnapshotID G sid = Some r' \<and>
    (case r of Inr p \<Rightarrow> r' = Inr (b64_encode (e_print_peid G p)) | Inl _ \<Rightarrow> isl r')"
proof -
  let ?P = "\<lambda>G sid r. e_ivd_type G = ''ivd'' \<longrightarrow> (\<exists>r'. paravirt_decodeSnapshotID G sid = Some r' \<and>
    (case r of Inr p \<Rightarrow> r' = Inr (b64_encode (e_print_peid G p)) | Inl _ \<Rightarrow> isl r'))"
  have "?P G sid r"
  proof (rule decodePeIdFromSnapshotID.raw_induct [where P = ?P, OF _ assms(2)], intro impI)
    fix decode E s q
    assume IH: "\<And>E s q. decode E s = Some q \<Longrightarrow> ?P E s q" and ivd: "e_ivd_type E = ''ivd''"
      and step: "(case b64_decode s of
        None \<Rightarrow> Some (Inl (ErrWrap (''decodePeIdFromSnapshotID: Could not decode snapshot ID encoded string ''
                  @ s) (ErrMsg ''illegal base64 data'')))
      | Some bytes \<Rightarrow>
        (case e_parse_peid E bytes of
           Inl e \<Rightarrow> Some (Inl (ErrWrap (''decodePeIdFromSnapshotID: Could not translate decoded snapshotID ''
                     @ bytes @ '' into pe-id'') e))
         | Inr p \<Rightarrow>
           (if e_has_snapshot E p \<and> pe_type p \<noteq> e_ivd_type E then decode E (pe_snapshot p)
            else Some (Inr p)))) = Some q"
    show "\<exists>r'. paravirt_decodeSnapshotID E s = Some r' \<and>
      (case q of Inr p \<Rightarrow> r' = Inr (b64_encode (e_print_peid E p)) | Inl _ \<Rightarrow> isl r')"
      using step IH [of E _ q] ivd
      by (subst paravirt_decodeSnapshotID.simps) (cases q; auto split: option.splits sum.splits if_splits)
  qed
  with assms(1) show ?thesis by simp
qed

text \<open>
  The identifier a guest's restore sends to the supervisor names the same snapshot of the
  same disk: if the source is the nested identifier of a snapshot of the disk \<open>base\<close>, at any
  depth, the converted identifier is that of the supervisor's claim followed by a snapshot
  identifier that the supervisor's own snapshot manager decodes to \<open>base\<close> again.
\<close>

theorem converted_snapshot_names_the_disk:
  assumes "e_ivd_type G = ''ivd''" and "pe_type base = ''ivd''" and "pe_snapshot src = nested G base ps"
    and "\<forall>q \<in> set (layers G base ps). e_parse_peid G (e_print_peid G q) = Inr q"
    and "\<forall>q \<in> set (butlast (layers G base ps)). e_has_snapshot G q \<and> pe_type q \<noteq> ''ivd''"
  shows "\<exists>sid. convertSnapshotID G src ns name = Inr (''pvc:'' @ ns @ ''/'' @ name @ '':'' @ sid) \<and>
    decodePeIdFromSnapshotID G sid = Some (Inr base)"
proof -
  have "decodePeIdFromSnapshotID G (nested G base ps) = Some (Inr base)"
    by (rule conjunct1 [OF decode_layers]) (use assms in auto)
  from paravirt_decode_agrees [OF assms(1) this]
  have "paravirt_decodeSnapshotID G (pe_snapshot src) = Some (Inr (b64_encode (e_print_peid G base)))"
    using assms(3) by simp
  moreover have "base \<in> set (layers G base ps)" by (induction ps) simp_all
  then have "decodePeIdFromSnapshotID G (b64_encode (e_print_peid G base)) = Some (Inr base)"
    using decode_layers [of G base "[]"] assms(1,2,4) by simp
  ultimately show ?thesis by (simp add: convertSnapshotID_def or_overflow_def)
qed

theorem converted_snapshot_names_the_disk_witness:
  "\<exists>sid. convertSnapshotID calm (with_snapshot claim_of_volume (nested calm volume [claim_of_volume])) ''svc'' ''claim-1'' =
      Inr (''pvc:svc/claim-1:'' @ sid) \<and> decodePeIdFromSnapshotID calm sid = Some (Inr volume)"
proof -
  have "nested calm volume [] = ''aXZkfHZ8cw''"
    by (simp add: volume_def calm_print_def b64_encode_def b64_char_def char_of_def bit_0)
  with converted_snapshot_names_the_disk [of calm volume
      "with_snapshot claim_of_volume (nested calm volume [claim_of_volume])" "[claim_of_volume]" "''svc''" "''claim-1''"]
  show ?thesis
    by (simp add: volume_def claim_of_volume_def calm_print_def calm_parse_def with_snapshot_def)
qed


section \<open>Snapshots\<close>

text \<open>
  The supervisor's claim behind a guest volume: the handle of a volume of the vSphere driver,
  read at the \<open>n\<close>-th call.
\<close>

definition supervisor_claim :: "plugin_env \<Rightarrow> paravirt_env \<Rightarrow> paravirt_petm \<Rightarrow> peid \<Rightarrow> nat \<Rightarrow> string option" where
  "supervisor_claim P X M i n =
     (if pm_entityType M \<noteq> ParaVirtEntityTypePersistentVolume then Some ''''
      else (case p_get_pv P n (pe_id i) of
          Inl _ \<Rightarrow> None
        | Inr pv \<Rightarrow> (case vol_CSI pv of
            None \<Rightarrow> None
          | Some (driver, h) \<Rightarrow> if driver = x_provisioner X then Some h else None)))"

lemma GetInfo_names_claim:
  assumes "fst (run_state (GetInfo P X M i) w) = Inr peInfo"
  shows "supervisor_claim P X M i (w_tick w) = Some (ei_Name peInfo)"
  using assms
  by (auto simp: GetInfo_def getVolumeHandleFromPV_def supervisor_claim_def split: if_splits sum.splits option.splits)

lemma GetInfo_reads: "\<exists>n. snd (run_state (GetInfo P X M i) w) = w\<lparr>w_tick := n\<rparr>"
  by (auto simp: GetInfo_def getVolumeHandleFromPV_def intro: exI [of _ "w_tick w"])

definition only_snapshots_differ :: "world \<Rightarrow> world \<Rightarrow> bool" where
  "only_snapshots_differ w0 w \<longleftrightarrow>
     same_rest w0 w \<and> w_deletes w = w_deletes w0 \<and> w_clones w = w_clones w0 \<and> w_brcs w = w_brcs w0"

lemma only_snapshots_differ_simps [simp]:
  "only_snapshots_differ w w"
  "only_snapshots_differ w0 (w\<lparr>w_tick := n\<rparr>) = only_snapshots_differ w0 w"
  "only_snapshots_differ w0 (w_snapshots_update f w) = only_snapshots_differ w0 w"
  by (simp_all add: only_snapshots_differ_def same_rest_def)

text \<open>
  C25. A snapshot of a guest volume is one request to the supervisor and nothing else: whatever
  happens, the guest cluster is left as it is; in the supervisor at most one Snapshot is added,
  in the namespace of the guest, for the claim the volume stands for, labelled with the backup;
  every other object is untouched.
\<close>

theorem guest_snapshot_is_one_request:
  "\<exists>n w. snd (run_state (paravirt_Snapshot G S P X M fuel i ps) c) = c\<lparr>gc := (gc c)\<lparr>w_tick := n\<rparr>, svc := w\<rparr> \<and>
     only_snapshots_differ (svc c) w \<and>
     adds_one (pm_svcNamespace M)
       (\<lambda>s. \<exists>h repo backup. supervisor_claim P X M i (w_tick (gc c)) = Some h \<and> sp_BackupName ps = Some backup \<and>
          snapshot_request \<lparr>tr_APIGroup = Some '''', tr_Kind = ''PersistentVolumeClaim'', tr_Name = h\<rparr> repo
            [SnapshotBackupLabel \<mapsto> backup] s)
       (w_snapshots (svc c)) (w_snapshots w)"
proof -
  obtain n where guest: "snd (run_state (GetInfo P X M i) (gc c)) = (gc c)\<lparr>w_tick := n\<rparr>"
    using GetInfo_reads by blast
  show ?thesis
  proof (cases "fst (run_state (GetInfo P X M i) (gc c))")
    case (Inl e)
    then show ?thesis
      by (intro exI [of _ n] exI [of _ "svc c"]) (simp add: paravirt_Snapshot_def run_zoom_pair guest)
  next
    case (Inr peInfo)
    note handle = GetInfo_names_claim [OF Inr]
    show ?thesis
    proof (cases "sp_BackupName ps")
      case None
      with Inr show ?thesis
        by (intro exI [of _ n] exI [of _ "svc c"]) (simp add: paravirt_Snapshot_def run_zoom_pair guest)
    next
      case (Some backup)
      let ?repo = "case sp_BackupRepository ps of None \<Rightarrow> ''INVALID_BR_NAME'' | Some b \<Rightarrow> b"
      let ?ref = "\<lparr>tr_APIGroup = Some '''', tr_Kind = ''PersistentVolumeClaim'', tr_Name = ei_Name peInfo\<rparr>"
      let ?run = "run_state (SnapshotRef S P fuel ?ref (pm_svcNamespace M) ?repo [SnapshotBackupLabel \<mapsto> backup]
        supervisor_snapshot_phases) (svc c)"
      have effect: "only_snapshots_differ (svc c) (snd ?run) \<and>
        adds_one (pm_svcNamespace M) (snapshot_request ?ref ?repo [SnapshotBackupLabel \<mapsto> backup])
          (w_snapshots (svc c)) (w_snapshots (snd ?run))"
        by (rule tripleD [OF SnapshotRef_effect [where I = "only_snapshots_differ (svc c)"], of "svc c"])
           (auto simp: prod_eq_iff)
      have "snd (run_state (paravirt_Snapshot G S P X M fuel i ps) c) =
          c\<lparr>gc := (gc c)\<lparr>w_tick := n\<rparr>, svc := snd ?run\<rparr>"
        using Inr Some by (simp add: paravirt_Snapshot_def run_zoom_pair guest)
      with effect handle Some show ?thesis
        by (intro exI [of _ n] exI [of _ "snd ?run"]) (auto simp: adds_one_def)
    qed
  qed
qed


section \<open>Restores\<close>

text \<open>A restore request that is answered shows one of the waited phases.\<close>

lemma CloneFromSnapshopRef_phase:
  assumes "run_state (CloneFromSnapshopRef E P fuel sid md grp kind ns repo phases) w = (Some (Inr y), w')"
  shows "clone_state y \<in> set phases"
proof -
  have waited: "clone_state x \<in> set phases"
    if "run_state (WaitForClonePhases P fuel z phases) w1 = (Some (Inr x), w2)" for x z w1 w2
  proof -
    from that have "first_decision (p_clone_event P) (verdict clone_name clone_state (clone_name z) phases)
        (w_tick w1) fuel = Some (Inr x)"
      by (simp add: WaitForClonePhases_def flip: wait_phases_spec)
    from first_decisionD [OF this] show ?thesis by (auto simp: verdict_Inr)
  qed
  have dated: "clone_state y = clone_state x" if "run_state (date_clone E k x) w1 = (Inr y, w2)" for k x w1 w2
    using that
    by (auto simp: date_clone_def clock_now_def cr_modify_def Let_def split: sum.splits fate.splits option.splits prod.splits)
  show ?thesis
    using assms
    by (auto simp: CloneFromSnapshopRef_def awaited_def dest!: waited dated
        split: sum.splits option.splits prod.splits)
qed

lemma getSuper_result:
  assumes "x_unmarshal X metadata = Inr claim"
    and "fst (run_state (getSuperPVCandGuestPVCName G X M metadata) w) = Inr (Some s, k, labels)"
  shows "\<exists>u. s = claim\<lparr>pvc_Name := take 4 (pvc_Name claim) @ ''-'' @ u, pvc_Namespace := pm_svcNamespace M,
      sc_Labels := Map.empty\<rparr> \<and> k = (pvc_Namespace claim, pvc_Name claim) \<and> labels = sc_Labels claim"
  using assms by (auto simp: getSuperPVCandGuestPVCName_def split: sum.splits if_splits)

lemma clone_in_supervisor_result:
  assumes "run_state (clone_in_supervisor G S P X M fuel src s repo) w = (Some (Inr (svcClone, updated)), w')"
  shows "clone_state svcClone = ClonePhaseCompleted \<and> (\<exists>n. x_svc_claim X n (pm_svcNamespace M, pvc_Name s) = Inr updated)"
  using assms
  by (auto simp: clone_in_supervisor_def clone_error_def Let_def supervisor_clone_phases_def
      dest!: CloneFromSnapshopRef_phase
      split: sum.splits option.splits if_splits prod.splits)


lemma guest_create_accepted:
  assumes "\<And>n. e_fate G n = Accepted" and "sel (gc_update f c) k = None"
    and "f = (\<lambda>_. (gc c)\<lparr>w_tick := Suc (w_tick (gc c))\<rparr>)"
  shows "run_state (guest_create sel upd G k x) c = (Inr x, upd (\<lambda>m. m(k \<mapsto> x)) (gc_update f c))"
  using assms by (simp add: guest_create_def run_zoom_pair)

lemma createGuestPV_made:
  assumes "\<And>n. e_fate G n = Accepted" and "\<forall>n u. e_uuid G n = Inr u \<longrightarrow> gc_volumes c (''pvc-'' @ u) = None"
    and "run_state (createGuestPV G X k s) c = (Inr v, c')"
  shows "gc_volumes c' = (gc_volumes c)(gv_Name v \<mapsto> v) \<and> gv_ClaimRef v = k \<and> gv_Driver v = x_provisioner X \<and>
    gv_VolumeHandle v = pvc_Name s \<and> gc_claims c' = gc_claims c \<and> svc c' = svc c \<and> w_clones (gc c') = w_clones (gc c)"
proof -
  obtain u where u: "e_uuid G (w_tick (gc c)) = Inr u"
    using assms(3) by (cases "e_uuid G (w_tick (gc c))") (auto simp: createGuestPV_def run_zoom_pair)
  with assms(2) have "gc_volumes c (''pvc-'' @ u) = None" by simp
  with assms(1,3) u show ?thesis
    by (auto simp: createGuestPV_def run_zoom_pair guest_create_accepted)
qed

lemma createGuestPVC_made:
  assumes "\<And>n. e_fate G n = Accepted" and "gc_claims c k = None"
    and "run_state (createGuestPVC G X k labels vname s) c = (Inr g, c')"
  shows "gc_claims c' = (gc_claims c)(k \<mapsto> g) \<and> gcl_Namespace g = fst k \<and> gcl_Name g = snd k \<and> gcl_Labels g = labels \<and>
    gcl_VolumeName g = vname \<and> gc_volumes c' = gc_volumes c \<and> svc c' = svc c \<and> w_clones (gc c') = w_clones (gc c)"
  using assms
  by (auto simp: createGuestPVC_def run_zoom_pair guest_create_accepted Let_def split: option.splits)

lemma updateGuestClone_made:
  assumes "\<And>n. e_fate G n = Accepted"
    and "run_state (updateGuestCloneFromSnapshotStatusWithSupervisor G k svcClone) w = (None, w')"
  shows "\<exists>c. w_clones w k = Some c \<and> w_clones w' = (w_clones w)(k \<mapsto> carry_over svcClone c)"
  using assms
  by (auto simp: updateGuestCloneFromSnapshotStatusWithSupervisor_def cr_get_def cr_modify_def Let_def carry_over_def
      split: option.splits)

lemma newEntity_reads:
  assumes "run_state (newParaVirtProtectedEntity X i) w = (r, w')"
  shows "\<exists>n. w' = w\<lparr>w_tick := n\<rparr>" "r = Inr p \<Longrightarrow> p = i"
  using assms
  by (auto simp: newParaVirtProtectedEntity_def getDataTransports_def split: option.splits)

lemma bind_in_guest_made:
  assumes accepted: "\<And>n. e_fate G n = Accepted"
    and fresh: "\<forall>n u. e_uuid G n = Inr u \<longrightarrow> gc_volumes c (''pvc-'' @ u) = None"
    and "gc_claims c k = None"
    and "run_state (bind_in_guest G X k labels ck svcClone s) c = (Inr p, c')"
  shows "\<exists>g v old. gc_claims c' = (gc_claims c)(k \<mapsto> g) \<and> gcl_Labels g = labels \<and>
    gc_volumes c' = (gc_volumes c)(gcl_VolumeName g \<mapsto> v) \<and> gv_ClaimRef v = k \<and> gv_Driver v = x_provisioner X \<and>
    gv_VolumeHandle v = pvc_Name s \<and> svc c' = svc c \<and> w_clones (gc c) ck = Some old \<and>
    w_clones (gc c') = (w_clones (gc c))(ck \<mapsto> carry_over svcClone old) \<and> p = x_claim_peid X (fst k) (snd k)"
proof -
  obtain v c1 where v: "run_state (createGuestPV G X k s) c = (Inr v, c1)"
    using assms(4) by (auto simp: bind_in_guest_def split: sum.splits prod.splits)
  note pv = createGuestPV_made [OF accepted fresh v]
  obtain g c2 where g: "run_state (createGuestPVC G X k labels (gv_Name v) s) c1 = (Inr g, c2)"
    using assms(4) v by (auto simp: bind_in_guest_def split: sum.splits prod.splits)
  have "gc_claims c1 k = None" using pv assms(3) by simp
  note pvc = createGuestPVC_made [OF accepted this g]
  obtain w where w: "run_state (updateGuestCloneFromSnapshotStatusWithSupervisor G ck svcClone) (gc c2) = (None, w)"
    using assms(4) v g
    by (cases "run_state (updateGuestCloneFromSnapshotStatusWithSupervisor G ck svcClone) (gc c2)")
       (auto simp: bind_in_guest_def run_zoom_pair split: option.splits)
  from updateGuestClone_made [OF accepted this] obtain old where
    old: "w_clones (gc c2) ck = Some old" "w_clones w = (w_clones (gc c2))(ck \<mapsto> carry_over svcClone old)" by blast
  obtain r w' where new: "run_state (newParaVirtProtectedEntity X (x_claim_peid X (gcl_Namespace g) (gcl_Name g))) w = (r, w')"
    by fastforce
  have c': "c' = c2\<lparr>gc := w'\<rparr>" "r = Inr p"
    using assms(4) v g w new by (simp_all add: bind_in_guest_def run_zoom_pair)
  obtain n where "w' = w\<lparr>w_tick := n\<rparr>" using newEntity_reads(1) [OF new] by blast
  with c' newEntity_reads(2) [OF new c'(2)] pv pvc old show ?thesis
    by (intro exI [of _ g] exI [of _ v] exI [of _ old]) auto
qed

text \<open>What a restore adds in the supervisor cluster: one request for the converted snapshot.\<close>

definition restore_requested ::
  "env \<Rightarrow> paravirt_env \<Rightarrow> paravirt_petm \<Rightarrow> peid \<Rightarrow> svc_claim \<Rightarrow> world \<Rightarrow> world \<Rightarrow> bool" where
  "restore_requested G X M src s w0 w \<longleftrightarrow>
     adds_one (pm_svcNamespace M)
       (\<lambda>r. \<exists>data sid repo. x_marshal X s = Inr data \<and>
          convertSnapshotID G src (pvc_Namespace s) (pvc_Name s) = Inr sid \<and>
          clone_request sid data (Some '''') ''PersistentVolumeClaim'' repo r)
       (w_clones w0) (w_clones w)"

lemma clone_in_supervisor_effect:
  "restore_requested G X M src s w (snd (run_state (clone_in_supervisor G S P X M fuel src s repo) w))"
proof (cases "x_marshal X s")
  case (Inl e)
  then show ?thesis by (simp add: clone_in_supervisor_def restore_requested_def)
next
  case data: (Inr data)
  show ?thesis
  proof (cases "convertSnapshotID G src (pvc_Namespace s) (pvc_Name s)")
    case (Inl e)
    with data show ?thesis by (simp add: clone_in_supervisor_def restore_requested_def)
  next
    case (Inr sid)
    let ?run = "CloneFromSnapshopRef S P fuel sid data (Some '''') ''PersistentVolumeClaim'' (pm_svcNamespace M) repo
      supervisor_clone_phases"
    have "adds_one (pm_svcNamespace M) (clone_request sid data (Some '''') ''PersistentVolumeClaim'' repo)
        (w_clones w) (w_clones (snd (run_state ?run w)))"
      by (rule tripleD [OF CloneFromSnapshopRef_effect [where I = "\<lambda>_. True" and ?S0.0 = "w_clones w"],
            THEN conjunct2, of w]) (auto simp: prod_eq_iff)
    with data Inr have "restore_requested G X M src s w (snd (run_state ?run w))"
      by (auto simp: restore_requested_def adds_one_def)
    moreover have "w_clones (snd (run_state (clone_in_supervisor G S P X M fuel src s repo) w)) =
        w_clones (snd (run_state ?run w))"
      using data Inr by (auto simp: clone_in_supervisor_def split: prod.splits option.splits sum.splits)
    ultimately show ?thesis by (simp add: restore_requested_def)
  qed
qed

lemma guest_reads:
  "w_clones (snd (run_state (svc_repository G repo) w)) = w_clones w"
  "w_clones (snd (run_state (getSuperPVCandGuestPVCName G X M metadata) w)) = w_clones w"
proof -
  have "keeps (\<lambda>w'. w_clones w' = w_clones w) (svc_repository G repo)"
    unfolding svc_repository_def by (intro keeps_rules frame) auto
  then show "w_clones (snd (run_state (svc_repository G repo) w)) = w_clones w" by (simp add: triple_def)
  show "w_clones (snd (run_state (getSuperPVCandGuestPVCName G X M metadata) w)) = w_clones w"
    by (simp add: getSuperPVCandGuestPVCName_def split: sum.splits)
qed

text \<open>
  C24. What a restore in a guest cluster leaves behind, under three conditions: the guest's API
  server accepts every write, the namespace has no claim of that name yet, and the name drawn
  for the volume is free. Then a restore that returns an entity has created the claim of the
  backup with its labels and naming a new volume; the volume is reserved for that claim and its
  handle is the supervisor's claim, which was restored under a fresh name from the converted
  identifier of the source snapshot; and the guest's request shows the phase Completed. Without
  the conditions none of this follows from success: an error of creating the volume is dropped
  (see \<open>refused_volume_is_reported_restored\<close>), and a claim that is there is taken as it is.
\<close>

theorem guest_restore_binds_supervisor_claim:
  assumes "\<forall>n. e_fate G n = Accepted"
    and "\<forall>n u. e_uuid G n = Inr u \<longrightarrow> gc_volumes c (''pvc-'' @ u) = None"
    and claim: "x_unmarshal X metadata = Inr claim"
    and "gc_claims c (pvc_Namespace claim, pvc_Name claim) = None"
    and run: "run_state (CreateFromMetadata G S P X M fuel metadata src ck repo) c = (Some (Inr p), c')"
  shows "\<exists>g v u n updated s old new.
    gc_claims c' = (gc_claims c)((pvc_Namespace claim, pvc_Name claim) \<mapsto> g) \<and> gcl_Labels g = sc_Labels claim \<and>
    gc_volumes c' = (gc_volumes c)(gcl_VolumeName g \<mapsto> v) \<and> gv_ClaimRef v = (pvc_Namespace claim, pvc_Name claim) \<and>
    gv_Driver v = x_provisioner X \<and> gv_VolumeHandle v = pvc_Name updated \<and>
    s = claim\<lparr>pvc_Name := take 4 (pvc_Name claim) @ ''-'' @ u, pvc_Namespace := pm_svcNamespace M, sc_Labels := Map.empty\<rparr> \<and>
    x_svc_claim X n (pm_svcNamespace M, pvc_Name s) = Inr updated \<and>
    restore_requested G X M src s (svc c) (svc c') \<and>
    w_clones (gc c) ck = Some old \<and> clone_state new = ClonePhaseCompleted \<and>
    w_clones (gc c') = (w_clones (gc c))(ck \<mapsto> new) \<and> p = x_claim_peid X (pvc_Namespace claim) (pvc_Name claim)"
proof -
  obtain repository w1 where w1: "run_state (svc_repository G repo) (gc c) = (Inr repository, w1)"
    using run
    by (cases "run_state (svc_repository G repo) (gc c)")
       (auto simp: CreateFromMetadata_def run_zoom_pair split: sum.splits)
  obtain s k labels w2 where w2: "run_state (getSuperPVCandGuestPVCName G X M metadata) w1 = (Inr (Some s, k, labels), w2)"
    using run w1
    by (cases "run_state (getSuperPVCandGuestPVCName G X M metadata) w1")
       (auto simp: CreateFromMetadata_def run_zoom_pair split: sum.splits prod.splits option.splits)
  from getSuper_result [OF claim, of G M w1 s k labels] w2 obtain u where
    s: "s = claim\<lparr>pvc_Name := take 4 (pvc_Name claim) @ ''-'' @ u, pvc_Namespace := pm_svcNamespace M, sc_Labels := Map.empty\<rparr>"
    and k: "k = (pvc_Namespace claim, pvc_Name claim)" and labels: "labels = sc_Labels claim" by auto
  obtain svcClone updated w3 where
    w3: "run_state (clone_in_supervisor G S P X M fuel src s repository) (svc c) = (Some (Inr (svcClone, updated)), w3)"
    using run w1 w2
    by (cases "run_state (clone_in_supervisor G S P X M fuel src s repository) (svc c)")
       (auto simp: CreateFromMetadata_def run_zoom_pair split: sum.splits prod.splits option.splits)
  let ?c = "c\<lparr>gc := w2, svc := w3\<rparr>"
  have bind: "run_state (bind_in_guest G X k labels ck svcClone updated) ?c = (Inr p, c')"
    using run w1 w2 w3
    by (auto simp: CreateFromMetadata_def run_zoom_pair split: prod.splits)
  obtain g v old where made: "gc_claims c' = (gc_claims ?c)(k \<mapsto> g)" "gcl_Labels g = labels"
    "gc_volumes c' = (gc_volumes ?c)(gcl_VolumeName g \<mapsto> v)" "gv_ClaimRef v = k" "gv_Driver v = x_provisioner X"
    "gv_VolumeHandle v = pvc_Name updated" "svc c' = svc ?c" "w_clones (gc ?c) ck = Some old"
    "w_clones (gc c') = (w_clones (gc ?c))(ck \<mapsto> carry_over svcClone old)" "p = x_claim_peid X (fst k) (snd k)"
    using bind_in_guest_made [OF _ _ _ bind] assms(1,2,4) k by auto
  have clones: "w_clones w2 = w_clones (gc c)"
    using guest_reads(1) [of G repo "gc c"] guest_reads(2) [of G X M metadata w1] w1 w2 by simp
  have effect: "restore_requested G X M src s (svc c) w3"
    using clone_in_supervisor_effect [of G X M src s "svc c" S P fuel repository] w3 by simp
  obtain n where finished: "clone_state svcClone = ClonePhaseCompleted" "x_svc_claim X n (pm_svcNamespace M, pvc_Name s) = Inr updated"
    using clone_in_supervisor_result [OF w3] by blast
  have state: "clone_state (carry_over svcClone old) = ClonePhaseCompleted" using finished(1) by (simp add: carry_over_def)
  show ?thesis
    using made clones effect finished(2) state s k labels
    by (intro exI [of _ g] exI [of _ v] exI [of _ u] exI [of _ n] exI [of _ updated] exI [of _ s] exI [of _ old]
        exI [of _ "carry_over svcClone old"]) simp
qed


subsection \<open>A concrete pair of clusters\<close>

definition sample_guest_claim :: svc_claim where
  "sample_guest_claim = \<lparr>pvc_Namespace = ''app'', pvc_Name = ''data'', pvc_Kind = ''PersistentVolumeClaim'',
     pvc_Annotations = None, pvc_StorageClassName = Some ''gold'', pvc_VolumeName = '''', pvc_Phase = '''', pvc_Other = '''',
     sc_Labels = [''tier'' \<mapsto> ''db''], sc_AccessModes = [''ReadWriteOnce''], sc_Resources = ''5Gi'', sc_VolumeMode = None,
     sc_Capacity = ''5Gi''\<rparr>"

definition empty_guest_volume :: guest_volume where
  "empty_guest_volume = \<lparr>gv_Name = '''', gv_AccessModes = [], gv_Capacity = '''', gv_Driver = '''',
     gv_VolumeHandle = '''', gv_ClaimRef = ('''', '''')\<rparr>"

definition calm_paravirt :: paravirt_env where
  "calm_paravirt = \<lparr>
     x_build_config = (\<lambda>n url path. Inr path),
     x_new_client = (\<lambda>n c. if c = None then Some (GoPanic ''nil pointer dereference'') else None),
     x_list_pvs = (\<lambda>n. Inr [sample_volume]),
     x_s3_md = (\<lambda>n i. None),
     x_s3_combined = (\<lambda>n i. None),
     x_new_peid = (\<lambda>t i. \<lparr>pe_type = t, pe_id = i, pe_snapshot = ''''\<rparr>),
     x_claim_peid = (\<lambda>ns name. \<lparr>pe_type = ''pvc'', pe_id = ns @ ''/'' @ name, pe_snapshot = ''''\<rparr>),
     x_namespaced_snapshot = (\<lambda>t name ns sid. \<lparr>pe_type = t, pe_id = ns @ ''/'' @ name, pe_snapshot = sid\<rparr>),
     x_provisioner = ''csi.vsphere.vmware.com'',
     x_marshal = (\<lambda>s. Inr ''claim''),
     x_unmarshal = (\<lambda>t. if t = ''claim'' then Inr sample_guest_claim else Inl (ErrMsg ''no claim'')),
     x_svc_claim = (\<lambda>n k. Inr (sample_guest_claim\<lparr>pvc_Namespace := fst k, pvc_Name := snd k\<rparr>)),
     x_wait_bound = (\<lambda>n k. None),
     x_failed_volume = empty_guest_volume\<rparr>"

lemma calm_paravirt_answers [simp]:
  "x_build_config calm_paravirt = (\<lambda>n url path. Inr path)"
  "x_new_client calm_paravirt = (\<lambda>n c. if c = None then Some (GoPanic ''nil pointer dereference'') else None)"
  "x_s3_md calm_paravirt = (\<lambda>n i. None)"
  "x_s3_combined calm_paravirt = (\<lambda>n i. None)"
  "x_claim_peid calm_paravirt = (\<lambda>ns name. \<lparr>pe_type = ''pvc'', pe_id = ns @ ''/'' @ name, pe_snapshot = ''''\<rparr>)"
  "x_namespaced_snapshot calm_paravirt = (\<lambda>t name ns sid. \<lparr>pe_type = t, pe_id = ns @ ''/'' @ name, pe_snapshot = sid\<rparr>)"
  "x_provisioner calm_paravirt = ''csi.vsphere.vmware.com''"
  "x_marshal calm_paravirt = (\<lambda>s. Inr ''claim'')"
  "x_unmarshal calm_paravirt = (\<lambda>t. if t = ''claim'' then Inr sample_guest_claim else Inl (ErrMsg ''no claim''))"
  "x_svc_claim calm_paravirt = (\<lambda>n k. Inr (sample_guest_claim\<lparr>pvc_Namespace := fst k, pvc_Name := snd k\<rparr>))"
  "x_wait_bound calm_paravirt = (\<lambda>n k. None)"
  "x_failed_volume calm_paravirt = empty_guest_volume"
  by (simp_all add: calm_paravirt_def)

definition sample_petm :: paravirt_petm where
  "sample_petm = \<lparr>pm_entityType = ''pv'', pm_gcKubeClient = ''guest'', pm_gcBackupDriverClient = ''guest'',
     pm_svcKubeClient = Some ''svc'', pm_svcBackupDriverClient = Some ''svc'', pm_svcNamespace = ''svc-ns''\<rparr>"

definition sample_clusters :: clusters where
  "sample_clusters = \<lparr>gc = empty_world\<lparr>w_clones := [(''app'', ''restore'') \<mapsto> ForCloneFromSnapshot ''app'' ''restore'' ''id'' '''' None '''' '''']\<rparr>,
     svc = empty_world, gc_volumes = Map.empty, gc_claims = Map.empty\<rparr>"

definition sample_source :: peid where
  "sample_source = \<lparr>pe_type = ''pvc'', pe_id = ''app/data'', pe_snapshot = ''aXZkfHZ8cw''\<rparr>"

lemma sample_source_decoded [simp]: "paravirt_decodeSnapshotID calm ''aXZkfHZ8cw'' = Some (Inr ''aXZkfHZ8cw'')"
  by (subst paravirt_decodeSnapshotID.simps)
     (simp add: b64_decode_def b64_value_def b64_encode_def b64_char_def char_of_def bit_0 calm_parse_def calm_print_def)

lemmas paravirt_evals [evals] =
  zoom_def guest_create_def bad_assertion_def getDataTransports_def newParaVirtProtectedEntity_def
  ParaVirtEntityTypePersistentVolume_def getVolumeHandleFromPV_def GetInfo_def supervisor_snapshot_phases_def
  snapshot_result_def paravirt_Snapshot_def supervisor_delete_phases_def paravirt_DeleteSnapshot_def
  convertSnapshotID_def getSuperPVCandGuestPVCName_def createGuestPV_def createGuestPVC_def carry_over_def
  updateGuestCloneFromSnapshotStatusWithSupervisor_def svc_repository_def supervisor_clone_phases_def clone_error_def
  clone_in_supervisor_def bind_in_guest_def CreateFromMetadata_def sample_guest_claim_def empty_guest_volume_def
  sample_petm_def sample_clusters_def sample_source_def or_overflow_def

lemma sample_restore_runs:
  "\<exists>c'. run_state (CreateFromMetadata calm calm calm_plugin calm_paravirt sample_petm (Suc 0) ''claim'' sample_source
     (''app'', ''restore'') '''') sample_clusters =
     (Some (Inr \<lparr>pe_type = ''pvc'', pe_id = ''app/data'', pe_snapshot = ''''\<rparr>), c')"
  by (simp add: evals)

theorem guest_restore_binds_supervisor_claim_witness:
  "\<exists>g v c'. gc_claims c' (''app'', ''data'') = Some g \<and> gc_volumes c' (gcl_VolumeName g) = Some v \<and>
     gv_ClaimRef v = (''app'', ''data'') \<and>
     run_state (CreateFromMetadata calm calm calm_plugin calm_paravirt sample_petm (Suc 0) ''claim'' sample_source
       (''app'', ''restore'') '''') sample_clusters =
       (Some (Inr \<lparr>pe_type = ''pvc'', pe_id = ''app/data'', pe_snapshot = ''''\<rparr>), c')"
proof -
  obtain c' where run: "run_state (CreateFromMetadata calm calm calm_plugin calm_paravirt sample_petm (Suc 0) ''claim''
      sample_source (''app'', ''restore'') '''') sample_clusters =
    (Some (Inr \<lparr>pe_type = ''pvc'', pe_id = ''app/data'', pe_snapshot = ''''\<rparr>), c')"
    using sample_restore_runs by blast
  have claim: "x_unmarshal calm_paravirt ''claim'' = Inr sample_guest_claim" by simp
  have "\<exists>g v. gc_claims c' (''app'', ''data'') = Some g \<and> gc_volumes c' (gcl_VolumeName g) = Some v \<and>
      gv_ClaimRef v = (''app'', ''data'')"
    using guest_restore_binds_supervisor_claim [OF _ _ claim _ run]
    by (auto simp: sample_guest_claim_def sample_clusters_def)
  with run show ?thesis by blast
qed

section \<open>Error paths\<close>

text \<open>
  The failure of creating the guest's volume is dropped: if that one request is refused and
  everything else goes well, the restore is reported as successful although no volume was
  created, and the claim names the volume of the empty answer.
\<close>

theorem refused_volume_is_reported_restored:
  assumes "e_uuid G (w_tick (gc c)) = Inr u"
    and "\<forall>n. e_fate G n = (if n = Suc (w_tick (gc c)) then Refused e else Accepted)"
    and "\<forall>n i. x_wait_bound X n k = None \<and> x_s3_md X n i = None \<and> x_s3_combined X n i = None"
    and "gc_claims c k = None" and "w_clones (gc c) ck = Some old"
  shows "\<exists>c' g. run_state (bind_in_guest G X k labels ck svcClone s) c = (Inr (x_claim_peid X (fst k) (snd k)), c') \<and>
    gc_volumes c' = gc_volumes c \<and> gc_claims c' k = Some g \<and> gcl_VolumeName g = gv_Name (x_failed_volume X)"
  using assms
  by (simp add: bind_in_guest_def createGuestPV_def createGuestPVC_def guest_create_def run_zoom_pair Let_def
      updateGuestCloneFromSnapshotStatusWithSupervisor_def cr_get_def cr_modify_def newParaVirtProtectedEntity_def
      getDataTransports_def)

theorem refused_volume_is_reported_restored_witness:
  "\<exists>c' g. run_state (bind_in_guest (calm\<lparr>e_fate := (\<lambda>n. if n = 1 then Refused (OtherStatus ''quota'') else Accepted)\<rparr>)
       calm_paravirt (''app'', ''data'') Map.empty (''app'', ''restore'') sample_clone sample_guest_claim) sample_clusters =
       (Inr \<lparr>pe_type = ''pvc'', pe_id = ''app/data'', pe_snapshot = ''''\<rparr>, c') \<and>
     gc_volumes c' = Map.empty \<and> gc_claims c' (''app'', ''data'') = Some g \<and> gcl_VolumeName g = ''''"
  using refused_volume_is_reported_restored [of "calm\<lparr>e_fate := (\<lambda>n. if n = 1 then Refused (OtherStatus ''quota'') else Accepted)\<rparr>"
      sample_clusters sample_uuid "OtherStatus ''quota''" calm_paravirt "(''app'', ''data'')" "(''app'', ''restore'')" _
      Map.empty sample_clone sample_guest_claim]
  by (simp add: sample_clusters_def empty_guest_volume_def sample_uuid_def empty_world_def)

text \<open>
  A claim with a name of fewer than four characters, or without a storage class, cannot be
  restored in a guest cluster: instead of returning an error the restore panics, before
  anything is requested or created.
\<close>

theorem unrestorable_claim_panics:
  assumes "x_unmarshal X metadata = Inr claim"
    and "length (pvc_Name claim) < 4 \<or> pvc_StorageClassName claim = None"
    and "fst (run_state (svc_repository G repo) (gc c)) = Inr r" and "\<forall>n. \<exists>u. e_uuid G n = Inr u"
  shows "\<exists>msg w. run_state (CreateFromMetadata G S P X M fuel metadata src ck repo) c =
    (Some (Inl (GoPanic msg)), c\<lparr>gc := w\<rparr>)"
proof -
  obtain w where w: "run_state (svc_repository G repo) (gc c) = (Inr r, w)"
    using assms(3) by (metis prod.collapse)
  obtain u where u: "e_uuid G (w_tick w) = Inr u" using assms(4) by blast
  show ?thesis
    using assms(1,2) w u by (auto simp: CreateFromMetadata_def run_zoom_pair getSuperPVCandGuestPVCName_def)
qed

theorem unrestorable_claim_panics_witness:
  "\<exists>msg w. run_state (CreateFromMetadata calm calm calm_plugin
      (calm_paravirt\<lparr>x_unmarshal := (\<lambda>t. Inr (sample_guest_claim\<lparr>pvc_Name := ''db''\<rparr>))\<rparr>) sample_petm (Suc 0) ''claim''
      sample_source (''app'', ''restore'') '''') sample_clusters = (Some (Inl (GoPanic msg)), sample_clusters\<lparr>gc := w\<rparr>)"
  by (rule unrestorable_claim_panics [where claim = "sample_guest_claim\<lparr>pvc_Name := ''db''\<rparr>"])
     (simp_all add: svc_repository_def)

end
