(* ===== verification/VSphere_Client.thy ===== *)
theory VSphere_Client
  imports S3_Repository
begin

text \<open>
  The connections to vCenter (\<^verbatim>\<open>pkg/common/vsphere\<close>): the object that holds the session
  and the clients built on it (\<^verbatim>\<open>virtual_center.go\<close>), the managers that call the VSLM
  and CNS services and log in again when the session has expired (\<^verbatim>\<open>vslm_manager.go\<close>,
  \<^verbatim>\<open>cns_manager.go\<close>), and the configuration they are built from
  (\<^verbatim>\<open>vcenter_utils.go\<close>).

  The code shares these objects through pointers, and a connection changes the configuration
  it was built from, so \<open>vsphere\<close> is a store: configurations and centers live at addresses,
  govmomi clients are numbered. A VSLM or CNS client is named by the govmomi client it was
  built on. \<open>V\<close> is the code outside the repository: govmomi, the virtual disk library and the
  vCenter behind them, each answer a function of the number of the call.
\<close>

section \<open>State\<close>

type_synonym addr = nat

record VirtualCenterConfig =
  cfg_Scheme :: string
  cfg_Host :: string
  cfg_Port :: int
  cfg_Username :: string
  cfg_Password :: string
  cfg_ClusterId :: string
  cfg_RoundTripperCount :: int
  cfg_VCClientTimeout :: int

record VirtualCenter =
  vc_Config :: "addr option"
  vc_Client :: "addr option"
  vc_CnsClient :: "addr option"
  vc_VslmClient :: "addr option"

record VslmManager =
  vm_virtualCenter :: addr
  vm_vsom :: "addr option"

record CnsManager =
  cm_virtualCenter :: addr
  cm_cnsClient :: "addr option"

record IVDProtectedEntityTypeManager =
  im_vcenterConfig :: "addr option"
  im_vcenter :: "addr option"
  im_vslmManager :: "VslmManager option"
  im_cnsManager :: "CnsManager option"

text \<open>
  What the store keeps of a govmomi client is its URL (\<^verbatim>\<open>url.Host\<close> and
  \<^verbatim>\<open>url.Hostname()\<close>).
\<close>

record url =
  url_Host :: string
  url_Hostname :: string

text \<open>Objects of the storage services.\<close>

type_synonym vim_id = string
type_synonym task = string
type_synonym opaque = string  \<comment> \<open>a value the code only hands on\<close>

record VStorageObject =
  vso_Id :: vim_id
  vso_Name :: string
  vso_CapacityInMB :: "64 word"
  vso_Datastore :: string  \<comment> \<open>the reference of the backing's datastore, as String() prints it\<close>

type_synonym labels = "(string \<times> string) list"

record CnsVolumeCreateSpec =
  cs_Name :: string
  cs_VolumeType :: string
  cs_Datastores :: "string list"
  cs_ClusterType :: string
  cs_ClusterId :: string
  cs_VSphereUser :: string
  cs_EntityName :: string
  cs_EntityType :: string
  cs_Labels :: labels
  cs_CapacityInMb :: "64 word"

text \<open>The calls of the two services, with their arguments.\<close>

datatype service_call =
    CallCreateSnapshot vim_id string
  | CallDeleteSnapshot vim_id vim_id
  | CallRetrieveSnapshotInfo vim_id
  | CallRetrieve vim_id
  | CallRetrieveSnapshotDetails vim_id vim_id
  | CallUpdateMetadata vim_id labels "string list"
  | CallRetrieveMetadata vim_id "vim_id option" string
  | CallCreateDiskFromSnapshot vim_id vim_id string
  | CallListObjects "(string \<times> string \<times> string list) list" int
  | CallCreateDisk opaque
  | CallClone vim_id string bool labels
  | CallDelete vim_id
  | CallCreateVolume "CnsVolumeCreateSpec list"
  | CallDeleteVolume "vim_id list" bool
  | CallQueryVolume opaque

text \<open>The trace: logins, logouts, calls with the client they went through, what the
  tasks of vCenter completed, data written to disks.\<close>

datatype vevent =
    EvLogin addr string string
  | EvLogout addr
  | EvCall "addr option" service_call
  | EvDiskWritten string string
  | EvVddkInit string
  | EvEndAccess string
  | EvSnapshotTaken vim_id vim_id
  | EvSnapshotRemoved vim_id vim_id

record vsphere =
  vs_tick :: nat
  vs_trace :: "vevent list"
  vs_next :: addr
  vs_configs :: "addr \<Rightarrow> VirtualCenterConfig option"
  vs_centers :: "addr \<Rightarrow> VirtualCenter option"
  vs_clients :: "addr \<Rightarrow> url option"
  vs_petm :: IVDProtectedEntityTypeManager

section \<open>The code outside the repository\<close>

record vcalls =
  c_task :: "nat \<Rightarrow> addr \<Rightarrow> service_call \<Rightarrow> goerr + task"
  c_snapshots :: "nat \<Rightarrow> addr \<Rightarrow> service_call \<Rightarrow> goerr + vim_id list"
  c_object :: "nat \<Rightarrow> addr \<Rightarrow> service_call \<Rightarrow> goerr + VStorageObject"
  c_details :: "nat \<Rightarrow> addr \<Rightarrow> service_call \<Rightarrow> goerr + opaque"
  c_labels :: "nat \<Rightarrow> addr \<Rightarrow> service_call \<Rightarrow> goerr + labels"
  c_ids :: "nat \<Rightarrow> addr \<Rightarrow> service_call \<Rightarrow> goerr + vim_id list"
  c_result :: "nat \<Rightarrow> addr \<Rightarrow> service_call \<Rightarrow> goerr + opaque"

record venv =
  v_calls :: vcalls
  v_parse_url :: "string \<Rightarrow> goerr + url"  \<comment> \<open>soap.ParseURL\<close>
  v_new_vim :: "nat \<Rightarrow> url \<Rightarrow> goerr option"  \<comment> \<open>vim25.NewClient\<close>
  v_use_vsan :: "nat \<Rightarrow> url \<Rightarrow> goerr option"  \<comment> \<open>UseServiceVersion\<close>
  v_login :: "nat \<Rightarrow> url \<Rightarrow> string \<Rightarrow> string \<Rightarrow> goerr option"
  v_logout :: "nat \<Rightarrow> addr \<Rightarrow> goerr option"
  v_session :: "nat \<Rightarrow> addr \<Rightarrow> goerr + (string \<times> string) option"  \<comment> \<open>UserSession: name and key\<close>
  v_new_vslm :: "nat \<Rightarrow> addr \<Rightarrow> goerr option"  \<comment> \<open>vslm.NewClient\<close>
  v_new_cns :: "nat \<Rightarrow> addr \<Rightarrow> goerr option"  \<comment> \<open>cns.NewClient\<close>
  v_create_config_file :: "nat \<Rightarrow> (string \<rightharpoonup> string) \<Rightarrow> goerr + string"  \<comment> \<open>util.CreateConfigFile\<close>
  v_delete_config_file :: "nat \<Rightarrow> string \<Rightarrow> goerr option"
  v_vddk_init :: "nat \<Rightarrow> string \<Rightarrow> goerr option"  \<comment> \<open>disklib.InitEx\<close>

definition vask :: "(nat \<Rightarrow> 'a) \<Rightarrow> (vsphere, 'a) state" where
  "vask f = State (\<lambda>s. (f (vs_tick s), s\<lparr>vs_tick := Suc (vs_tick s)\<rparr>))"

definition vemit :: "vevent \<Rightarrow> (vsphere, unit) state" where
  "vemit ev = State (\<lambda>s. ((), s\<lparr>vs_trace := vs_trace s @ [ev]\<rparr>))"

definition vread :: "(vsphere \<Rightarrow> 'a) \<Rightarrow> (vsphere, 'a) state" where
  "vread f = State (\<lambda>s. (f s, s))"

definition vmodify :: "(vsphere \<Rightarrow> vsphere) \<Rightarrow> (vsphere, unit) state" where
  "vmodify f = State (\<lambda>s. ((), f s))"

definition fresh :: "(vsphere, addr) state" where
  "fresh = State (\<lambda>s. (vs_next s, s\<lparr>vs_next := Suc (vs_next s)\<rparr>))"

definition nil_deref :: goerr where
  "nil_deref = GoPanic ''invalid memory address or nil pointer dereference''"

definition set_center :: "addr \<Rightarrow> (VirtualCenter \<Rightarrow> VirtualCenter) \<Rightarrow> (vsphere, unit) state" where
  "set_center a f = vmodify (\<lambda>s. s\<lparr>vs_centers := (vs_centers s)(a := map_option f (vs_centers s a))\<rparr>)"

definition set_config :: "addr \<Rightarrow> (VirtualCenterConfig \<Rightarrow> VirtualCenterConfig) \<Rightarrow> (vsphere, unit) state" where
  "set_config a f = vmodify (\<lambda>s. s\<lparr>vs_configs := (vs_configs s)(a := map_option f (vs_configs s a))\<rparr>)"

definition set_petm :: "(IVDProtectedEntityTypeManager \<Rightarrow> IVDProtectedEntityTypeManager) \<Rightarrow> (vsphere, unit) state" where
  "set_petm f = vmodify (vs_petm_update f)"

text \<open>Following a pointer; a dangling one does not occur in Go and counts as nil here.\<close>

definition center_at :: "addr \<Rightarrow> (vsphere, goerr + VirtualCenter) state" where
  "center_at a = vread (\<lambda>s. case vs_centers s a of None \<Rightarrow> Inl nil_deref | Some c \<Rightarrow> Inr c)"

definition config_of :: "addr \<Rightarrow> (vsphere, goerr + (addr \<times> VirtualCenterConfig)) state" where
  "config_of a = vread (\<lambda>s.
     case Option.bind (vs_centers s a) vc_Config of
       None \<Rightarrow> Inl nil_deref
     | Some k \<Rightarrow> (case vs_configs s k of None \<Rightarrow> Inl nil_deref | Some cfg \<Rightarrow> Inr (k, cfg)))"

section \<open>Configuration\<close>

definition DefaultScheme :: string where "DefaultScheme = ''https''"
definition DefaultRoundTripperCount :: int where "DefaultRoundTripperCount = 3"
definition DefaultVCClientTimeoutInMinutes :: int where "DefaultVCClientTimeoutInMinutes = 30"
definition DefaultAuthErrorRetryCount :: nat where "DefaultAuthErrorRetryCount = 1"

definition HostVcParamKey :: string where "HostVcParamKey = ''VirtualCenter''"
definition UserVcParamKey :: string where "UserVcParamKey = ''user''"
definition PasswordVcParamKey :: string where "PasswordVcParamKey = ''password''"
definition PortVcParamKey :: string where "PortVcParamKey = ''port''"
definition ClusterVcParamKey :: string where "ClusterVcParamKey = ''cluster-id''"

definition vc_GetStringFromParamsMap :: "params \<Rightarrow> string \<Rightarrow> goerr + string" where
  "vc_GetStringFromParamsMap ps k =
     (case ps k of
        Some (PStr v) \<Rightarrow> Inr v
      | Some _ \<Rightarrow> Inl (ErrMsg (''Value for params key '' @ k @ '' is not a string''))
      | None \<Rightarrow> Inl (ErrMsg (''No such key '' @ k @ '' in params map'')))"

definition GetVirtualCenterConfigFromParams :: "params \<Rightarrow> goerr + VirtualCenterConfig" where
  "GetVirtualCenterConfigFromParams ps =
     (case vc_GetStringFromParamsMap ps HostVcParamKey of
        Inl e \<Rightarrow> Inl e
      | Inr vcHost \<Rightarrow>
     (case vc_GetStringFromParamsMap ps PortVcParamKey of
        Inl e \<Rightarrow> Inl e
      | Inr vcHostPortStr \<Rightarrow>
     (case atoi vcHostPortStr of
        None \<Rightarrow> Inl (ErrMsg (''strconv.Atoi: parsing '' @ vcHostPortStr))
      | Some vcHostPort \<Rightarrow>
     (case vc_GetStringFromParamsMap ps UserVcParamKey of
        Inl e \<Rightarrow> Inl e
      | Inr vcUser \<Rightarrow>
     (case vc_GetStringFromParamsMap ps PasswordVcParamKey of
        Inl e \<Rightarrow> Inl e
      | Inr vcPassword \<Rightarrow>
     (case vc_GetStringFromParamsMap ps ClusterVcParamKey of
        Inl e \<Rightarrow> Inl e
      | Inr clusterId \<Rightarrow>
          Inr \<lparr>cfg_Scheme = ''https'', cfg_Host = vcHost, cfg_Port = vcHostPort,
            cfg_Username = vcUser, cfg_Password = vcPassword, cfg_ClusterId = clusterId,
            cfg_RoundTripperCount = 0, cfg_VCClientTimeout = DefaultVCClientTimeoutInMinutes\<rparr>))))))"

text \<open>The new configuration is dereferenced only when there is an old one.\<close>

definition CheckIfVirtualCenterConfigChanged ::
  "VirtualCenterConfig option \<Rightarrow> VirtualCenterConfig option \<Rightarrow> goerr + bool" where
  "CheckIfVirtualCenterConfigChanged oldVcConfig newVcConfig =
     (case oldVcConfig of
        None \<Rightarrow> Inr True
      | Some old \<Rightarrow>
          (case newVcConfig of
             None \<Rightarrow> Inl nil_deref
           | Some new \<Rightarrow> Inr (cfg_Host old \<noteq> cfg_Host new \<or> cfg_Username old \<noteq> cfg_Username new \<or>
               cfg_Password old \<noteq> cfg_Password new)))"

fun CheckForVcAuthFaults :: "goerr \<Rightarrow> bool" where
  "CheckForVcAuthFaults (ErrSoapFault f s t) \<longleftrightarrow> f = NotAuthenticated \<or> f = InvalidLogin"
| "CheckForVcAuthFaults _ \<longleftrightarrow> False"

section \<open>Sessions\<close>

text \<open>\<^verbatim>\<open>net.JoinHostPort\<close> and \<^verbatim>\<open>strconv.Itoa\<close>.\<close>

definition itoa :: "int \<Rightarrow> string" where
  "itoa i = (if i < 0 then ''-'' @ decimal (nat (- i)) else decimal (nat i))"

definition JoinHostPort :: "string \<Rightarrow> string \<Rightarrow> string" where
  "JoinHostPort host port =
     (if CHR '':'' \<in> set host then ''['' @ host @ '']:'' @ port else host @ '':'' @ port)"

definition login :: "venv \<Rightarrow> addr \<Rightarrow> url \<Rightarrow> VirtualCenterConfig \<Rightarrow> (vsphere, goerr option) state" where
  "login V client u cfg = do {
     r \<leftarrow> vask (\<lambda>n. v_login V n u (cfg_Username cfg) (cfg_Password cfg));
     vemit (EvLogin client (cfg_Username cfg) (cfg_Password cfg));
     State_Monad.return r
   }"

text \<open>
  The session read back after the login is only logged, but a nil session without an error is
  dereferenced there.
\<close>

definition new_session :: "venv \<Rightarrow> addr \<Rightarrow> VirtualCenterConfig \<Rightarrow> url \<Rightarrow> (vsphere, goerr + addr) state" where
  "new_session V k cfg u = do {
     client \<leftarrow> fresh;
     vmodify (\<lambda>s. s\<lparr>vs_clients := (vs_clients s)(client \<mapsto> u)\<rparr>);
     unless_err (login V client u cfg) (do {
       ses \<leftarrow> vask (\<lambda>n. v_session V n client);
       (case ses of
          Inr None \<Rightarrow> State_Monad.return (Inl nil_deref)
        | _ \<Rightarrow> do {
            set_config k (\<lambda>cfg. if cfg_RoundTripperCount cfg = 0
              then cfg\<lparr>cfg_RoundTripperCount := DefaultRoundTripperCount\<rparr> else cfg);
            State_Monad.return (Inr client)
          })
     })
   }"

definition newClient :: "venv \<Rightarrow> addr \<Rightarrow> (vsphere, goerr + addr) state" where
  "newClient V a =
     then_ok (config_of a) (\<lambda>(k, cfg). do {
       set_config k (\<lambda>cfg. if cfg_Scheme cfg = '''' then cfg\<lparr>cfg_Scheme := DefaultScheme\<rparr> else cfg);
       (case v_parse_url V (JoinHostPort (cfg_Host cfg) (itoa (cfg_Port cfg))) of
          Inl e \<Rightarrow> State_Monad.return (Inl e)
        | Inr u \<Rightarrow>
            unless_err (vask (\<lambda>n. v_new_vim V n u)) (do {
              sv \<leftarrow> vask (\<lambda>n. v_use_vsan V n u);
              (case sv of
                 Some e \<Rightarrow> if cfg_Host cfg \<noteq> ''127.0.0.1'' then State_Monad.return (Inl e)
                           else new_session V k cfg u
               | None \<Rightarrow> new_session V k cfg u)
            }))
     })"

text \<open>
  Storing the result of \<^verbatim>\<open>newClient\<close>: an error leaves nil in the field, a panic leaves it
  alone. The same holds for the CNS client; the VSLM client is stored only on success.
\<close>

definition renew_client :: "venv \<Rightarrow> addr \<Rightarrow> (vsphere, goerr + addr) state" where
  "renew_client V a = do {
     r \<leftarrow> newClient V a;
     (case r of
        Inl e \<Rightarrow> do {
          (if is_panic e then State_Monad.return () else set_center a (vc_Client_update (\<lambda>_. None)));
          State_Monad.return (Inl e)
        }
      | Inr client \<Rightarrow> do {
          set_center a (vc_Client_update (\<lambda>_. Some client));
          State_Monad.return (Inr client)
        })
   }"

definition newVslmClient :: "venv \<Rightarrow> addr \<Rightarrow> (vsphere, goerr option) state" where
  "newVslmClient V client = vask (\<lambda>n. v_new_vslm V n client)"

definition newCnsClient :: "venv \<Rightarrow> addr \<Rightarrow> (vsphere, goerr option) state" where
  "newCnsClient V client = vask (\<lambda>n. v_new_cns V n client)"

definition renew_vslm :: "venv \<Rightarrow> addr \<Rightarrow> addr \<Rightarrow> (vsphere, goerr + unit) state" where
  "renew_vslm V a client =
     unless_err (newVslmClient V client) (do {
       set_center a (vc_VslmClient_update (\<lambda>_. Some client));
       State_Monad.return (Inr ())
     })"

definition renew_cns :: "venv \<Rightarrow> addr \<Rightarrow> addr \<Rightarrow> (vsphere, goerr + unit) state" where
  "renew_cns V a client = do {
     r \<leftarrow> newCnsClient V client;
     set_center a (vc_CnsClient_update (\<lambda>_. if r = None then Some client else None));
     State_Monad.return (case r of Some e \<Rightarrow> Inl e | None \<Rightarrow> Inr ())
   }"

definition clients_of :: "addr \<Rightarrow> (vsphere, goerr + (addr option \<times> addr option)) state" where
  "clients_of a = then_ok (center_at a) (\<lambda>c. State_Monad.return (Inr (vc_VslmClient c, vc_CnsClient c)))"

text \<open>\<open>ensure\<close>: create the clients that are missing; \<open>renew\<close>: create all of them again.\<close>

definition ensure_clients :: "venv \<Rightarrow> addr \<Rightarrow> (vsphere, goerr + addr) state" where
  "ensure_clients V a =
     then_ok (center_at a) (\<lambda>c.
     then_ok (case vc_Client c of None \<Rightarrow> renew_client V a | Some client \<Rightarrow> State_Monad.return (Inr client)) (\<lambda>client.
     then_ok (if vc_VslmClient c = None then renew_vslm V a client else State_Monad.return (Inr ())) (\<lambda>_.
     then_ok (if vc_CnsClient c = None then renew_cns V a client else State_Monad.return (Inr ())) (\<lambda>_.
     State_Monad.return (Inr client)))))"

definition renew_clients :: "venv \<Rightarrow> addr \<Rightarrow> (vsphere, goerr + unit) state" where
  "renew_clients V a =
     then_ok (renew_client V a) (\<lambda>client.
     then_ok (renew_vslm V a client) (\<lambda>_.
     renew_cns V a client))"

definition Connect :: "venv \<Rightarrow> addr \<Rightarrow> (vsphere, goerr + (addr option \<times> addr option)) state" where
  "Connect V a =
     then_ok (ensure_clients V a) (\<lambda>client.
     then_ok (vask (\<lambda>n. v_session V n client)) (\<lambda>userSession.
     (case userSession of
        Some _ \<Rightarrow> clients_of a
      | None \<Rightarrow> then_ok (renew_clients V a) (\<lambda>_. clients_of a))))"

definition Disconnect :: "venv \<Rightarrow> addr \<Rightarrow> (vsphere, goerr option) state" where
  "Disconnect V a = do {
     r \<leftarrow> center_at a;
     (case r of
        Inl e \<Rightarrow> State_Monad.return (Some e)
      | Inr c \<Rightarrow> do {
          set_center a (vc_VslmClient_update (\<lambda>_. None));
          set_center a (vc_CnsClient_update (\<lambda>_. None));
          (case vc_Client c of
             None \<Rightarrow> State_Monad.return None
           | Some client \<Rightarrow> do {
               err \<leftarrow> vask (\<lambda>n. v_logout V n client);
               (case err of
                  Some e \<Rightarrow> State_Monad.return (Some e)
                | None \<Rightarrow> do {
                    vemit (EvLogout client);
                    set_center a (vc_Client_update (\<lambda>_. None));
                    State_Monad.return (if vc_Config c = None then Some nil_deref else None)
                  })
             })
        })
   }"

definition GetVirtualCenter ::
  "venv \<Rightarrow> addr option \<Rightarrow> (vsphere, goerr + (addr \<times> addr option \<times> addr option)) state" where
  "GetVirtualCenter V config = do {
     a \<leftarrow> fresh;
     vmodify (\<lambda>s. s\<lparr>vs_centers := (vs_centers s)(a \<mapsto>
       \<lparr>vc_Config = config, vc_Client = None, vc_CnsClient = None, vc_VslmClient = None\<rparr>)\<rparr>);
     then_ok (Connect V a) (\<lambda>(vslmClient, cnsClient).
       State_Monad.return (Inr (a, vslmClient, cnsClient)))
   }"

section \<open>Calls of the two services\<close>

text \<open>
  \<^verbatim>\<open>processError\<close> of both managers: after an authentication fault of the first call the
  center is connected again and the client refreshed. The retry loop calls once more with
  that client; the client stored in the manager stays as it is. \<open>pick\<close> chooses the VSLM or
  the CNS client; \<open>None\<close> as a result is the nil the loop returns if it falls through.
\<close>

definition processError ::
  "venv \<Rightarrow> (addr option \<times> addr option \<Rightarrow> addr option) \<Rightarrow> addr \<Rightarrow> nat \<Rightarrow> goerr \<Rightarrow>
   (vsphere, goerr + addr option) state" where
  "processError V pick vc invokeCount apiError =
     (if invokeCount > DefaultAuthErrorRetryCount then State_Monad.return (Inl apiError)
      else if CheckForVcAuthFaults apiError
      then then_ok (Connect V vc) (\<lambda>cs. State_Monad.return (Inr (pick cs)))
      else State_Monad.return (Inl apiError))"

text \<open>One remote call; a nil client is dereferenced.\<close>

definition call_service ::
  "(nat \<Rightarrow> addr \<Rightarrow> service_call \<Rightarrow> goerr + 'r) \<Rightarrow> service_call \<Rightarrow> addr option \<Rightarrow> (vsphere, goerr + 'r) state" where
  "call_service answer c client =
     (case client of
        None \<Rightarrow> State_Monad.return (Inl nil_deref)
      | Some k \<Rightarrow> do {
          vemit (EvCall client c);
          vask (\<lambda>n. answer n k c)
        })"

function auth_loop ::
  "venv \<Rightarrow> (addr option \<times> addr option \<Rightarrow> addr option) \<Rightarrow> addr \<Rightarrow>
   (addr option \<Rightarrow> (vsphere, goerr + 'r) state) \<Rightarrow> nat \<Rightarrow> addr option \<Rightarrow> (vsphere, goerr + 'r option) state" where
  "auth_loop V pick vc call invokeCount cached =
     (if invokeCount \<le> DefaultAuthErrorRetryCount then do {
        r \<leftarrow> call cached;
        (case r of
           Inr x \<Rightarrow> State_Monad.return (Inr (Some x))
         | Inl e \<Rightarrow>
             (if is_panic e then State_Monad.return (Inl e)
              else then_ok (processError V pick vc (Suc invokeCount) e)
                (auth_loop V pick vc call (Suc invokeCount))))
      }
      else State_Monad.return (Inr None))"
  by pat_completeness auto
termination
  by (relation "measure (\<lambda>(V, pick, vc, call, invokeCount, cached). Suc DefaultAuthErrorRetryCount - invokeCount)") auto

declare auth_loop.simps [simp del]

definition vslm_call ::
  "venv \<Rightarrow> VslmManager \<Rightarrow> (vcalls \<Rightarrow> nat \<Rightarrow> addr \<Rightarrow> service_call \<Rightarrow> goerr + 'r) \<Rightarrow> service_call \<Rightarrow>
   (vsphere, goerr + 'r option) state" where
  "vslm_call V M answer c =
     auth_loop V fst (vm_virtualCenter M) (call_service (answer (v_calls V)) c) 0 (vm_vsom M)"

definition cns_call ::
  "venv \<Rightarrow> CnsManager \<Rightarrow> (vcalls \<Rightarrow> nat \<Rightarrow> addr \<Rightarrow> service_call \<Rightarrow> goerr + 'r) \<Rightarrow> service_call \<Rightarrow>
   (vsphere, goerr + 'r option) state" where
  "cns_call V M answer c =
     auth_loop V snd (cm_virtualCenter M) (call_service (answer (v_calls V)) c) 0 (cm_cnsClient M)"

definition vslm_CreateSnapshot :: "venv \<Rightarrow> VslmManager \<Rightarrow> vim_id \<Rightarrow> string \<Rightarrow> (vsphere, goerr + task option) state" where
  "vslm_CreateSnapshot V M i description = vslm_call V M c_task (CallCreateSnapshot i description)"

definition vslm_DeleteSnapshot :: "venv \<Rightarrow> VslmManager \<Rightarrow> vim_id \<Rightarrow> vim_id \<Rightarrow> (vsphere, goerr + task option) state" where
  "vslm_DeleteSnapshot V M i snap = vslm_call V M c_task (CallDeleteSnapshot i snap)"

definition vslm_RetrieveSnapshotInfo :: "venv \<Rightarrow> VslmManager \<Rightarrow> vim_id \<Rightarrow> (vsphere, goerr + vim_id list option) state" where
  "vslm_RetrieveSnapshotInfo V M i = vslm_call V M c_snapshots (CallRetrieveSnapshotInfo i)"

definition vslm_Retrieve :: "venv \<Rightarrow> VslmManager \<Rightarrow> vim_id \<Rightarrow> (vsphere, goerr + VStorageObject option) state" where
  "vslm_Retrieve V M i = vslm_call V M c_object (CallRetrieve i)"

definition vslm_RetrieveSnapshotDetails :: "venv \<Rightarrow> VslmManager \<Rightarrow> vim_id \<Rightarrow> vim_id \<Rightarrow> (vsphere, goerr + opaque option) state" where
  "vslm_RetrieveSnapshotDetails V M i snap = vslm_call V M c_details (CallRetrieveSnapshotDetails i snap)"

definition vslm_UpdateMetadata ::
  "venv \<Rightarrow> VslmManager \<Rightarrow> vim_id \<Rightarrow> labels \<Rightarrow> string list \<Rightarrow> (vsphere, goerr + task option) state" where
  "vslm_UpdateMetadata V M i md deleteKeys = vslm_call V M c_task (CallUpdateMetadata i md deleteKeys)"

definition vslm_RetrieveMetadata ::
  "venv \<Rightarrow> VslmManager \<Rightarrow> vim_id \<Rightarrow> vim_id option \<Rightarrow> string \<Rightarrow> (vsphere, goerr + labels option) state" where
  "vslm_RetrieveMetadata V M i snap prefix = vslm_call V M c_labels (CallRetrieveMetadata i snap prefix)"

text \<open>Profile, encryption and path are nil and empty in the only call.\<close>

definition vslm_CreateDiskFromSnapshot ::
  "venv \<Rightarrow> VslmManager \<Rightarrow> vim_id \<Rightarrow> vim_id \<Rightarrow> string \<Rightarrow> (vsphere, goerr + task option) state" where
  "vslm_CreateDiskFromSnapshot V M i snap name = vslm_call V M c_task (CallCreateDiskFromSnapshot i snap name)"

definition vslm_ListObjectsForSpec ::
  "venv \<Rightarrow> VslmManager \<Rightarrow> (string \<times> string \<times> string list) list \<Rightarrow> int \<Rightarrow> (vsphere, goerr + vim_id list option) state" where
  "vslm_ListObjectsForSpec V M query maxResult = vslm_call V M c_ids (CallListObjects query maxResult)"

definition vslm_CreateDisk :: "venv \<Rightarrow> VslmManager \<Rightarrow> opaque \<Rightarrow> (vsphere, goerr + task option) state" where
  "vslm_CreateDisk V M spec = vslm_call V M c_task (CallCreateDisk spec)"

definition vslm_Clone ::
  "venv \<Rightarrow> VslmManager \<Rightarrow> vim_id \<Rightarrow> string \<Rightarrow> bool \<Rightarrow> labels \<Rightarrow> (vsphere, goerr + task option) state" where
  "vslm_Clone V M i name keepAfterDeleteVm md = vslm_call V M c_task (CallClone i name keepAfterDeleteVm md)"

definition vslm_Delete :: "venv \<Rightarrow> VslmManager \<Rightarrow> vim_id \<Rightarrow> (vsphere, goerr + task option) state" where
  "vslm_Delete V M i = vslm_call V M c_task (CallDelete i)"

definition cns_CreateVolume ::
  "venv \<Rightarrow> CnsManager \<Rightarrow> CnsVolumeCreateSpec list \<Rightarrow> (vsphere, goerr + task option) state" where
  "cns_CreateVolume V M specs = cns_call V M c_task (CallCreateVolume specs)"

definition cns_DeleteVolume :: "venv \<Rightarrow> CnsManager \<Rightarrow> vim_id list \<Rightarrow> bool \<Rightarrow> (vsphere, goerr + task option) state" where
  "cns_DeleteVolume V M ids deleteDisk = cns_call V M c_task (CallDeleteVolume ids deleteDisk)"

definition cns_QueryVolume :: "venv \<Rightarrow> CnsManager \<Rightarrow> opaque \<Rightarrow> (vsphere, goerr + opaque option) state" where
  "cns_QueryVolume V M queryFilter = cns_call V M c_result (CallQueryVolume queryFilter)"

definition vslm_ResetManager :: "addr \<Rightarrow> addr option \<Rightarrow> VslmManager \<Rightarrow> VslmManager" where
  "vslm_ResetManager vcenter vsom M = M\<lparr>vm_virtualCenter := vcenter, vm_vsom := vsom\<rparr>"

definition cns_ResetManager :: "addr \<Rightarrow> addr option \<Rightarrow> CnsManager \<Rightarrow> CnsManager" where
  "cns_ResetManager vcenter cnsClient M = M\<lparr>cm_virtualCenter := vcenter, cm_cnsClient := cnsClient\<rparr>"

definition GetVslmManager :: "addr \<Rightarrow> addr option \<Rightarrow> VslmManager" where
  "GetVslmManager vc vsom = \<lparr>vm_virtualCenter = vc, vm_vsom = vsom\<rparr>"

definition GetCnsManager :: "addr \<Rightarrow> addr option \<Rightarrow> CnsManager" where
  "GetCnsManager vc cnsClient = \<lparr>cm_virtualCenter = vc, cm_cnsClient = cnsClient\<rparr>"

section \<open>The connections of the type manager\<close>

text \<open>
  \<^verbatim>\<open>ReloadConfig\<close> of \<^verbatim>\<open>pkg/ivd\<close>: with an empty parameter map it uses the last known
  configuration, otherwise the one in the map. The last step starts the disk library, with a
  settings file if the map has settings.
\<close>

definition install_managers :: "addr \<Rightarrow> addr option \<Rightarrow> addr option \<Rightarrow> (vsphere, unit) state" where
  "install_managers vc vslmClient cnsClient =
     set_petm (\<lambda>m. m\<lparr>im_vcenter := Some vc,
       im_vslmManager := Some (case im_vslmManager m of
           None \<Rightarrow> GetVslmManager vc vslmClient
         | Some M \<Rightarrow> vslm_ResetManager vc vslmClient M),
       im_cnsManager := Some (case im_cnsManager m of
           None \<Rightarrow> GetCnsManager vc cnsClient
         | Some M \<Rightarrow> cns_ResetManager vc cnsClient M)\<rparr>)"

definition vddkconfig :: string where "vddkconfig = ''vddk-config''"

definition vddk_config_file :: "venv \<Rightarrow> params \<Rightarrow> (vsphere, goerr + string) state" where
  "vddk_config_file V ps =
     (case ps vddkconfig of
        None \<Rightarrow> State_Monad.return (Inr '''')
      | Some (PMap m) \<Rightarrow> wrap_error ''Failed to create config file'' (vask (\<lambda>n. v_create_config_file V n m))
      | Some _ \<Rightarrow> State_Monad.return (Inl (GoPanic ''interface conversion'')))"

definition init_vddk :: "venv \<Rightarrow> params \<Rightarrow> (vsphere, goerr option) state" where
  "init_vddk V ps = do {
     file \<leftarrow> vddk_config_file V ps;
     (case file of
        Inl e \<Rightarrow> State_Monad.return (Some e)
      | Inr path \<Rightarrow> do {
          r \<leftarrow> vask (\<lambda>n. v_vddk_init V n path);
          (case r of
             Some e \<Rightarrow> State_Monad.return (Some (ErrWrap ''Could not initialize VDDK during config reload'' e))
           | None \<Rightarrow> do {
               vemit (EvVddkInit path);
               (if path = '''' then State_Monad.return None
                else do {
                  d \<leftarrow> vask (\<lambda>n. v_delete_config_file V n path);
                  State_Monad.return (map_option (ErrWrap ''Failed to delete config file'') d)
                })
             })
        })
   }"

text \<open>The configuration a reload works with: an address, nil if none is known.\<close>

definition reload_target :: "params \<Rightarrow> (vsphere, goerr + addr option) state" where
  "reload_target ps =
     (if ps = Map.empty then do {
        m \<leftarrow> vread vs_petm;
        State_Monad.return (Inr (im_vcenterConfig m))
      }
      else (case GetVirtualCenterConfigFromParams ps of
          Inl e \<Rightarrow> State_Monad.return (Inl e)
        | Inr cfg \<Rightarrow> do {
            k \<leftarrow> fresh;
            vmodify (\<lambda>s. s\<lparr>vs_configs := (vs_configs s)(k \<mapsto> cfg)\<rparr>);
            State_Monad.return (Inr (Some k))
          }))"

definition config_changed :: "addr option \<Rightarrow> (vsphere, goerr + bool) state" where
  "config_changed newVcConfig = vread (\<lambda>s.
     CheckIfVirtualCenterConfigChanged
       (Option.bind (im_vcenterConfig (vs_petm s)) (vs_configs s)) (Option.bind newVcConfig (vs_configs s)))"

text \<open>A failed disconnection of the old center is logged; a panic in it is not caught.\<close>

definition drop_old_center :: "venv \<Rightarrow> (vsphere, goerr + unit) state" where
  "drop_old_center V = do {
     m \<leftarrow> vread vs_petm;
     (case im_vcenter m of
        None \<Rightarrow> State_Monad.return (Inr ())
      | Some a \<Rightarrow> do {
          r \<leftarrow> Disconnect V a;
          State_Monad.return (case r of
              Some e \<Rightarrow> if is_panic e then Inl e else Inr ()
            | None \<Rightarrow> Inr ())
        })
   }"

definition establish :: "venv \<Rightarrow> params \<Rightarrow> addr option \<Rightarrow> (vsphere, goerr option) state" where
  "establish V ps newVcConfig = do {
     got \<leftarrow> GetVirtualCenter V newVcConfig;
     (case got of
        Inl e \<Rightarrow> State_Monad.return (Some e)
      | Inr (vc, vslmClient, cnsClient) \<Rightarrow> do {
          install_managers vc vslmClient cnsClient;
          init_vddk V ps
        })
   }"

definition ReloadConfig :: "venv \<Rightarrow> params \<Rightarrow> (vsphere, goerr option) state" where
  "ReloadConfig V ps = do {
     target \<leftarrow> reload_target ps;
     (case target of
        Inl e \<Rightarrow> State_Monad.return (Some e)
      | Inr newVcConfig \<Rightarrow> do {
          changed \<leftarrow> config_changed newVcConfig;
          (case changed of
             Inl e \<Rightarrow> State_Monad.return (Some e)
           | Inr False \<Rightarrow> do {
               m \<leftarrow> vread vs_petm;
               (if im_vcenter m \<noteq> None then State_Monad.return None
                else establish V ps newVcConfig)
             }
           | Inr True \<Rightarrow> do {
               set_petm (im_vcenterConfig_update (\<lambda>_. newVcConfig));
               dropped \<leftarrow> drop_old_center V;
               (case dropped of
                  Inl e \<Rightarrow> State_Monad.return (Some e)
                | Inr _ \<Rightarrow> establish V ps newVcConfig)
             })
        })
   }"

definition CheckVcenterConnections :: "venv \<Rightarrow> (vsphere, goerr option) state" where
  "CheckVcenterConnections V = do {
     m \<leftarrow> vread vs_petm;
     (if im_vcenter m = None \<or> im_vslmManager m = None \<or> im_cnsManager m = None
      then ReloadConfig V Map.empty
      else State_Monad.return None)
   }"

text \<open>The constructor: an error of the first load is logged, the manager is returned as it is.\<close>

definition no_petm :: IVDProtectedEntityTypeManager where
  "no_petm = \<lparr>im_vcenterConfig = None, im_vcenter = None, im_vslmManager = None, im_cnsManager = None\<rparr>"

definition NewIVDProtectedEntityTypeManager :: "venv \<Rightarrow> params \<Rightarrow> (vsphere, goerr option) state" where
  "NewIVDProtectedEntityTypeManager V ps = do {
     set_petm (\<lambda>_. no_petm);
     r \<leftarrow> ReloadConfig V ps;
     State_Monad.return (case r of
         Some e \<Rightarrow> if is_panic e then Some e else None
       | None \<Rightarrow> None)
   }"

end
