(* ===== verification/Cns_Volumes.thy ===== *)
theory Cns_Volumes
  imports VSphere_Client
begin

text \<open>
  Provisioning a volume for a restore
  (\<^verbatim>\<open>pkg/ivd/ivd_protected_entity_type_manager_util.go\<close>): which hosts run the nodes of
  the cluster, which datastores all of them share, the labels a volume keeps when it moves to
  another cluster, and the request to the CNS service. \<open>I\<close> has the answers of the Kubernetes
  API server, of govmomi's finder and property collector, and of the disk library.
\<close>

section \<open>Data\<close>

type_synonym mo_ref = string  \<comment> \<open>a managed object reference\<close>

record metadata =
  md_VirtualStorageObject :: VStorageObject
  md_Datastore :: string
  md_ExtendedMetadata :: labels

text \<open>An answer of the finder, whose \<^verbatim>\<open>NotFoundError\<close> the code tells apart.\<close>

datatype 'a found = Found 'a | NoneFound | FindFails goerr

text \<open>The properties of a virtual machine; \<^verbatim>\<open>Guest\<close> and \<^verbatim>\<open>Runtime.Host\<close> are pointers.\<close>

record vm_mo =
  vm_GuestHostName :: "string option"
  vm_RuntimeHost :: "mo_ref option"

record path_element =
  el_Parent :: "mo_ref option"
  el_Name :: string
  el_Type :: string

text \<open>The \<^verbatim>\<open>info\<close> property of a datastore; the NAS part is a pointer.\<close>

datatype ds_info = NilInfo | NasInfo "string option" | OtherInfo

datatype cns_result = CnsFault string | CnsVolume vim_id

datatype task_result = TaskObject VStorageObject | TaskID vim_id | TaskOther

record data_transport =
  dt_type :: string
  dt_params :: "string \<rightharpoonup> string"

text \<open>What a reader delivers: the data its successive reads return, and how it ends (None is EOF).\<close>

record reader =
  rd_chunks :: "string list"
  rd_end :: "goerr option"

record ConnectParams =
  cp_serverName :: string
  cp_thumbPrint :: string
  cp_userName :: string
  cp_password :: string
  cp_fcdId :: string
  cp_ds :: string
  cp_fcdssId :: string
  cp_flag :: "32 word"
  cp_readOnly :: bool
  cp_mode :: string

record ienv =
  i_new_peid :: "string \<Rightarrow> string \<Rightarrow> peid"  \<comment> \<open>NewProtectedEntityID\<close>
  i_has_snapshot :: "peid \<Rightarrow> bool"
  i_print_peid :: "peid \<Rightarrow> string"
  i_s3_data :: "peid \<Rightarrow> goerr + data_transport"
  i_s3_md :: "peid \<Rightarrow> goerr + data_transport"
  i_s3_combined :: "peid \<Rightarrow> goerr + data_transport"
  i_wait :: "nat \<Rightarrow> task \<Rightarrow> goerr + task_result"  \<comment> \<open>Task.Wait, WaitNonDefault\<close>
  i_is_reset :: "goerr \<Rightarrow> bool"  \<comment> \<open>util.IsConnectionResetError\<close>
  i_polls :: "nat \<Rightarrow> nat"
  i_open :: "nat \<Rightarrow> ConnectParams \<Rightarrow> (string \<times> nat) + reader"  \<comment> \<open>virtual_disks.Open: text and code of the error\<close>
  i_write :: "nat \<Rightarrow> ConnectParams \<Rightarrow> string \<Rightarrow> nat \<times> goerr option"
  i_thumbprint :: "nat \<Rightarrow> url \<Rightarrow> goerr + string"
  i_flag_skipz :: "32 word"
  i_flag_read_only :: "32 word"
  i_flag_unbuffered :: "32 word"
  i_marshal :: "metadata \<Rightarrow> goerr + string"
  i_unmarshal :: "string \<Rightarrow> metadata \<times> goerr option"
  i_order :: "nat \<Rightarrow> string list \<Rightarrow> string list"  \<comment> \<open>the order in which a map is iterated\<close>
  i_in_cluster :: "nat \<Rightarrow> goerr option"
  i_clientset :: "nat \<Rightarrow> goerr option"
  i_nodes :: "nat \<Rightarrow> goerr + (string \<times> string) list"  \<comment> \<open>name and UID\<close>
  i_datacenters :: "nat \<Rightarrow> goerr + string list"
  i_vms :: "nat \<Rightarrow> string \<Rightarrow> mo_ref list found"
  i_vm_properties :: "nat \<Rightarrow> mo_ref list \<Rightarrow> goerr + vm_mo list"
  i_ancestors :: "nat \<Rightarrow> mo_ref \<Rightarrow> goerr + path_element list"
  i_datastores :: "nat \<Rightarrow> string \<Rightarrow> mo_ref list found"
  i_ds_type :: "nat \<Rightarrow> mo_ref \<Rightarrow> goerr + string"
  i_ds_info :: "nat \<Rightarrow> mo_ref \<Rightarrow> goerr + ds_info"
  i_attached :: "nat \<Rightarrow> mo_ref \<Rightarrow> goerr + mo_ref list"
  i_nfs41 :: string  \<comment> \<open>names of govmomi: file systems, volume, cluster and entity types\<close>
  i_nfs :: string
  i_block :: string
  i_kubernetes :: string
  i_pv_entity :: string
  i_task_info :: "nat \<Rightarrow> task \<Rightarrow> goerr + opaque"
  i_task_result :: "nat \<Rightarrow> opaque \<Rightarrow> goerr + cns_result option"

section \<open>Hosts of the node VMs\<close>

fun dc_path :: "path_element list \<Rightarrow> string \<Rightarrow> string" where
  "dc_path [] p = p"
| "dc_path (e # es) p =
     (if el_Parent e = None then dc_path es p
      else let p' = p @ ''/'' @ el_Name e in if el_Type e = ''Datacenter'' then p' else dc_path es p')"

definition findDatacenterPath :: "ienv \<Rightarrow> mo_ref \<Rightarrow> (vsphere, goerr + string) state" where
  "findDatacenterPath I r =
     then_ok (vask (\<lambda>n. i_ancestors I n r)) (\<lambda>pathElements. State_Monad.return (Inr (dc_path pathElements '''')))"

fun node_names :: "(string \<times> string) list \<Rightarrow> goerr + string list" where
  "node_names [] = Inr []"
| "node_names ((name, uid) # ns) =
     (if name = '''' then Inl (ErrMsg (''One of the node VM with uid, '' @ uid @ '', in the cluster has empty node name''))
      else (case node_names ns of Inl e \<Rightarrow> Inl e | Inr names \<Rightarrow> Inr (name # names)))"

primrec vms_of_datacenters :: "ienv \<Rightarrow> string list \<Rightarrow> mo_ref list \<Rightarrow> (vsphere, goerr + mo_ref list) state" where
  "vms_of_datacenters I [] refs = State_Monad.return (Inr refs)"
| "vms_of_datacenters I (dc # dcs) refs = do {
     r \<leftarrow> vask (\<lambda>n. i_vms I n (dc @ ''/vm/...''));
     (case r of
        NoneFound \<Rightarrow> vms_of_datacenters I dcs refs
      | FindFails e \<Rightarrow> State_Monad.return (Inl e)
      | Found vms \<Rightarrow> vms_of_datacenters I dcs (refs @ vms))
   }"

text \<open>The hosts of the VMs that are nodes, each host once; nil properties are dereferenced.\<close>

fun node_hosts :: "string list \<Rightarrow> vm_mo list \<Rightarrow> mo_ref list \<Rightarrow> goerr + mo_ref list" where
  "node_hosts names [] hosts = Inr hosts"
| "node_hosts names (vm # vms) hosts =
     (case vm_GuestHostName vm of
        None \<Rightarrow> Inl nil_deref
      | Some h \<Rightarrow>
          (if h \<notin> set names then node_hosts names vms hosts
           else (case vm_RuntimeHost vm of
               None \<Rightarrow> Inl nil_deref
             | Some host \<Rightarrow> node_hosts names vms (if host \<in> set hosts then hosts else hosts @ [host]))))"

definition findHostsOfNodeVMs :: "ienv \<Rightarrow> (vsphere, goerr + mo_ref list) state" where
  "findHostsOfNodeVMs I =
     unless_err (vask (i_clientset I)) (
     then_ok (vask (i_nodes I)) (\<lambda>nodes.
     (case node_names nodes of
        Inl e \<Rightarrow> State_Monad.return (Inl e)
      | Inr names \<Rightarrow>
     then_ok (vask (i_datacenters I)) (\<lambda>dcs.
     then_ok (vms_of_datacenters I dcs []) (\<lambda>refs.
     then_ok (vask (\<lambda>n. i_vm_properties I n refs)) (\<lambda>vms.
     State_Monad.return (node_hosts names vms [])))))))"

section \<open>Shared datastores\<close>

text \<open>Hosts whose datacenter cannot be found are skipped; the paths are the keys of a map.\<close>

primrec datacenter_paths :: "ienv \<Rightarrow> mo_ref list \<Rightarrow> string list \<Rightarrow> (vsphere, string list) state" where
  "datacenter_paths I [] paths = State_Monad.return paths"
| "datacenter_paths I (host # hosts) paths = do {
     r \<leftarrow> findDatacenterPath I host;
     datacenter_paths I hosts (case r of Inl _ \<Rightarrow> paths | Inr p \<Rightarrow> List.insert p paths)
   }"

primrec datastores_of_paths :: "ienv \<Rightarrow> string list \<Rightarrow> mo_ref list \<Rightarrow> (vsphere, goerr + mo_ref list) state" where
  "datastores_of_paths I [] dss = State_Monad.return (Inr dss)"
| "datastores_of_paths I (dcPath # paths) dss = do {
     r \<leftarrow> vask (\<lambda>n. i_datastores I n (dcPath @ ''/datastore/...''));
     (case r of
        NoneFound \<Rightarrow> datastores_of_paths I paths dss
      | FindFails e \<Rightarrow> State_Monad.return (Inl e)
      | Found ds \<Rightarrow> datastores_of_paths I paths (dss @ ds))
   }"

text \<open>
  May a volume be placed on this kind of datastore? An error of a question means no; \<open>Inl\<close> is
  a panic on a nil property.
\<close>

definition nfs_allowed :: "ienv \<Rightarrow> mo_ref \<Rightarrow> (vsphere, goerr + bool) state" where
  "nfs_allowed I ds = do {
     r \<leftarrow> vask (\<lambda>n. i_ds_info I n ds);
     State_Monad.return (case r of
         Inl _ \<Rightarrow> Inr False
       | Inr NilInfo \<Rightarrow> Inl nil_deref
       | Inr OtherInfo \<Rightarrow> Inr False
       | Inr (NasInfo None) \<Rightarrow> Inl nil_deref
       | Inr (NasInfo (Some remoteHost)) \<Rightarrow> Inr (\<not> contains remoteHost ''eng.vmware.com''))
   }"

definition type_allowed :: "ienv \<Rightarrow> mo_ref \<Rightarrow> (vsphere, goerr + bool) state" where
  "type_allowed I ds = do {
     r \<leftarrow> vask (\<lambda>n. i_ds_type I n ds);
     (case r of
        Inl _ \<Rightarrow> State_Monad.return (Inr False)
      | Inr dsType \<Rightarrow>
          (if dsType = i_nfs41 I then State_Monad.return (Inr False)
           else if dsType = i_nfs I then nfs_allowed I ds
           else State_Monad.return (Inr True)))
   }"

definition eligible :: "mo_ref list \<Rightarrow> mo_ref list \<Rightarrow> bool" where
  "eligible hosts attachedHosts \<longleftrightarrow>
     (if length attachedHosts < length hosts then False else list_all (\<lambda>h. h \<in> set attachedHosts) hosts)"

primrec shared_datastores :: "ienv \<Rightarrow> mo_ref list \<Rightarrow> mo_ref list \<Rightarrow> mo_ref list \<Rightarrow> (vsphere, goerr + mo_ref list) state" where
  "shared_datastores I hosts [] dsList = State_Monad.return (Inr dsList)"
| "shared_datastores I hosts (ds # dss) dsList =
     then_ok (type_allowed I ds) (\<lambda>allowed.
       (if \<not> allowed then shared_datastores I hosts dss dsList
        else do {
          r \<leftarrow> vask (\<lambda>n. i_attached I n ds);
          shared_datastores I hosts dss
            (case r of
               Inl _ \<Rightarrow> dsList
             | Inr attachedHosts \<Rightarrow> if eligible hosts attachedHosts then dsList @ [ds] else dsList)
        }))"

definition findSharedDatastoresFromAllNodeVMs :: "ienv \<Rightarrow> (vsphere, goerr + mo_ref list) state" where
  "findSharedDatastoresFromAllNodeVMs I =
     then_ok (findHostsOfNodeVMs I) (\<lambda>hosts.
     (if hosts = [] then State_Monad.return (Inl (ErrMsg ''No hosts can be found for node VMs''))
      else do {
        keys \<leftarrow> datacenter_paths I hosts [];
        paths \<leftarrow> vask (\<lambda>n. i_order I n keys);
        then_ok (datastores_of_paths I paths []) (\<lambda>dss. shared_datastores I hosts dss [])
      }))"

section \<open>Labels\<close>

definition clusterId_label :: string where "clusterId_label = ''cns.containerCluster.clusterId''"
definition vSphereUser_label :: string where "vSphereUser_label = ''cns.containerCluster.vSphereUser''"

definition fillInClusterSpecificParams :: "VirtualCenterConfig \<Rightarrow> string \<rightharpoonup> string" where
  "fillInClusterSpecificParams cfg = [clusterId_label \<mapsto> cfg_ClusterId cfg, vSphereUser_label \<mapsto> cfg_Username cfg]"

text \<open>The reserved labels come first, in the order the map is iterated.\<close>

definition relabel :: "(string \<rightharpoonup> string) \<Rightarrow> string list \<Rightarrow> labels \<Rightarrow> labels" where
  "relabel reserved order ls =
     map (\<lambda>k. (k, the (reserved k))) order @
     map (\<lambda>(k, v). (k, case reserved k of Some v' \<Rightarrow> v' | None \<Rightarrow> v)) ls"

definition FilterLabelsFromMetadataForVslmAPIs ::
  "ienv \<Rightarrow> metadata \<Rightarrow> VirtualCenterConfig \<Rightarrow> (vsphere, metadata) state" where
  "FilterLabelsFromMetadataForVslmAPIs I md cfg = do {
     order \<leftarrow> vask (\<lambda>n. i_order I n [clusterId_label, vSphereUser_label]);
     State_Monad.return (md\<lparr>md_ExtendedMetadata :=
       relabel (fillInClusterSpecificParams cfg) order (md_ExtendedMetadata md)\<rparr>)
   }"

definition has_prefix :: "string \<Rightarrow> string \<Rightarrow> bool" where
  "has_prefix s p \<longleftrightarrow> take (length p) s = p"

definition FilterLabelsFromMetadataForCnsAPIs :: "metadata \<Rightarrow> string \<Rightarrow> metadata" where
  "FilterLabelsFromMetadataForCnsAPIs md p =
     md\<lparr>md_ExtendedMetadata := filter (\<lambda>(k, v). \<not> has_prefix k p) (md_ExtendedMetadata md)\<rparr>"

section \<open>Creating the volume\<close>

definition volume_spec :: "ienv \<Rightarrow> VirtualCenterConfig \<Rightarrow> metadata \<Rightarrow> mo_ref list \<Rightarrow> CnsVolumeCreateSpec" where
  "volume_spec I cfg md dsList =
     (let vso = md_VirtualStorageObject md; reserved = fillInClusterSpecificParams cfg in
      \<lparr>cs_Name = vso_Name vso, cs_VolumeType = i_block I, cs_Datastores = dsList,
       cs_ClusterType = i_kubernetes I, cs_ClusterId = the (reserved clusterId_label),
       cs_VSphereUser = the (reserved vSphereUser_label), cs_EntityName = vso_Name vso,
       cs_EntityType = i_pv_entity I, cs_Labels = md_ExtendedMetadata md,
       cs_CapacityInMb = vso_CapacityInMB vso\<rparr>)"

definition created_volume :: "cns_result option \<Rightarrow> goerr + vim_id" where
  "created_volume r =
     (case r of
        None \<Rightarrow> Inl (ErrMsg ''Empty create task results'')
      | Some (CnsFault msg) \<Rightarrow> Inl (ErrMsg msg)
      | Some (CnsVolume i) \<Rightarrow> Inr i)"

text \<open>A nil pointer result is dereferenced by the caller.\<close>

definition deref :: "('s, goerr + 'a option) state \<Rightarrow> ('s, goerr + 'a) state" where
  "deref m = then_ok m (\<lambda>r. State_Monad.return (case r of None \<Rightarrow> Inl nil_deref | Some x \<Rightarrow> Inr x))"

definition createCnsVolumeWithClusterConfig ::
  "venv \<Rightarrow> ienv \<Rightarrow> VirtualCenterConfig \<Rightarrow> addr option \<Rightarrow> CnsManager option \<Rightarrow> metadata \<Rightarrow>
   (vsphere, goerr + vim_id) state" where
  "createCnsVolumeWithClusterConfig V I cfg client cnsManager md =
     (if client = None then State_Monad.return (Inl nil_deref)
      else
        then_ok (findSharedDatastoresFromAllNodeVMs I) (\<lambda>dsList.
        (case cnsManager of
           None \<Rightarrow> State_Monad.return (Inl nil_deref)
         | Some M \<Rightarrow>
        then_ok (deref (cns_CreateVolume V M [volume_spec I cfg md dsList])) (\<lambda>createTask.
        then_ok (vask (\<lambda>n. i_task_info I n createTask)) (\<lambda>info.
        then_ok (vask (\<lambda>n. i_task_result I n info)) (\<lambda>result.
        State_Monad.return (created_volume result)))))))"

definition CreateCnsVolumeInCluster ::
  "venv \<Rightarrow> ienv \<Rightarrow> VirtualCenterConfig option \<Rightarrow> addr option \<Rightarrow> CnsManager option \<Rightarrow> metadata \<Rightarrow>
   (vsphere, goerr + vim_id) state" where
  "CreateCnsVolumeInCluster V I vcConfig client cnsManager md =
     unless_err (vask (i_in_cluster I))
       (case vcConfig of
          None \<Rightarrow> State_Monad.return (Inl nil_deref)
        | Some cfg \<Rightarrow> createCnsVolumeWithClusterConfig V I cfg client cnsManager md)"

end
