(* ===== verification/Ivd_Entity.thy ===== *)
theory Ivd_Entity
  imports Cns_Volumes
begin

text \<open>
  Protected entities that are first class disks of vCenter
  (\<^verbatim>\<open>pkg/ivd/ivd_protected_entity.go\<close> and the operations of
  \<^verbatim>\<open>ivd_protected_entity_type_manager.go\<close>): taking, listing and deleting snapshots of a
  disk, reading and writing its data through the virtual disk library, its metadata, and
  copying a source to a new or an existing disk.

  An entity is its identifier together with its data transports; the source of a copy is an
  entity of any kind, known through the answers of its methods.
\<close>

section \<open>Identifiers and entities\<close>

definition NewVimIDFromPEID :: "peid \<Rightarrow> vim_id" where
  "NewVimIDFromPEID p = (if pe_type p = ''ivd'' then pe_id p else '''')"

definition NewVimSnapshotIDFromPEID :: "ienv \<Rightarrow> peid \<Rightarrow> vim_id" where
  "NewVimSnapshotIDFromPEID I p = (if i_has_snapshot I p then pe_snapshot p else '''')"

definition newProtectedEntityID :: "ienv \<Rightarrow> vim_id \<Rightarrow> peid" where
  "newProtectedEntityID I i = i_new_peid I ''ivd'' i"

record IVDProtectedEntity =
  ivd_id :: peid
  ivd_data :: "data_transport list"
  ivd_metadata :: "data_transport list"
  ivd_combined :: "data_transport list"

definition no_entity :: IVDProtectedEntity where
  "no_entity = \<lparr>ivd_id = no_peid, ivd_data = [], ivd_metadata = [], ivd_combined = []\<rparr>"

definition petm_config :: "(vsphere, goerr + VirtualCenterConfig) state" where
  "petm_config = vread (\<lambda>s.
     case Option.bind (im_vcenterConfig (vs_petm s)) (vs_configs s) of None \<Rightarrow> Inl nil_deref | Some cfg \<Rightarrow> Inr cfg)"

text \<open>The direct transport names the disk, the snapshot and the host of vCenter.\<close>

definition vadp_params :: "string \<Rightarrow> peid \<Rightarrow> string \<rightharpoonup> string" where
  "vadp_params host p =
     (if pe_snapshot p \<noteq> '''' then [''id'' \<mapsto> pe_id p, ''snapshotID'' \<mapsto> pe_snapshot p] else [''id'' \<mapsto> pe_id p])
       (''vcenter'' \<mapsto> host)"

definition ivd_getDataTransports ::
  "ienv \<Rightarrow> peid \<Rightarrow> (vsphere, goerr + (data_transport list \<times> data_transport list \<times> data_transport list)) state" where
  "ivd_getDataTransports I p =
     then_ok petm_config (\<lambda>cfg. State_Monad.return
       (case i_s3_data I p of
          Inl e \<Rightarrow> Inl (ErrWrap ''Could not create S3 data transport'' e)
        | Inr dataS3 \<Rightarrow>
       (case i_s3_md I p of
          Inl e \<Rightarrow> Inl (ErrWrap ''Could not create S3 md transport'' e)
        | Inr mdS3 \<Rightarrow>
       (case i_s3_combined I p of
          Inl e \<Rightarrow> Inl (ErrWrap ''Could not create S3 combined transport'' e)
        | Inr combinedS3 \<Rightarrow>
            Inr ([\<lparr>dt_type = ''vadp'', dt_params = vadp_params (cfg_Host cfg) p\<rparr>, dataS3], [mdS3], [combinedS3])))))"

definition newIVDProtectedEntity :: "ienv \<Rightarrow> peid \<Rightarrow> (vsphere, goerr + IVDProtectedEntity) state" where
  "newIVDProtectedEntity I p =
     then_ok (ivd_getDataTransports I p) (\<lambda>(d, m, c). State_Monad.return
       (Inr \<lparr>ivd_id = p, ivd_data = d, ivd_metadata = m, ivd_combined = c\<rparr>))"

definition as_step :: "('s, goerr option) state \<Rightarrow> ('s, goerr + unit) state" where
  "as_step m = unless_err m (State_Monad.return (Inr ()))"

definition ivd_GetProtectedEntity :: "venv \<Rightarrow> ienv \<Rightarrow> peid \<Rightarrow> (vsphere, goerr + IVDProtectedEntity) state" where
  "ivd_GetProtectedEntity V I p = unless_err (CheckVcenterConnections V) (newIVDProtectedEntity I p)"

definition with_vslm :: "(VslmManager \<Rightarrow> (vsphere, goerr + 'a) state) \<Rightarrow> (vsphere, goerr + 'a) state" where
  "with_vslm f = do {
     m \<leftarrow> vread vs_petm;
     (case im_vslmManager m of None \<Rightarrow> State_Monad.return (Inl nil_deref) | Some M \<Rightarrow> f M)
   }"

definition ivd_GetProtectedEntities :: "venv \<Rightarrow> ienv \<Rightarrow> (vsphere, goerr + peid list) state" where
  "ivd_GetProtectedEntities V I =
     unless_err (CheckVcenterConnections V) (
     then_ok (with_vslm (\<lambda>M. deref (vslm_ListObjectsForSpec V M [(''createTime'', ''greaterThan'', [''0''])] 1000))) (\<lambda>ids.
     State_Monad.return (Inr (map (newProtectedEntityID I) ids))))"

section \<open>Information\<close>

record ivd_info =
  ii_ID :: peid
  ii_Name :: string
  ii_Size :: "64 word"
  ii_data :: "data_transport list"

definition ivd_GetInfo :: "venv \<Rightarrow> IVDProtectedEntity \<Rightarrow> (vsphere, goerr + ivd_info) state" where
  "ivd_GetInfo V e =
     unless_err (CheckVcenterConnections V) (
     then_ok (wrap_error ''Retrieve failed'' (with_vslm (\<lambda>M. deref (vslm_Retrieve V M (pe_id (ivd_id e)))))) (\<lambda>vso.
     State_Monad.return (Inr \<lparr>ii_ID = ivd_id e, ii_Name = vso_Name vso,
       ii_Size = vso_CapacityInMB vso * 1024 * 1024, ii_data = ivd_data e\<rparr>)))"

definition ivd_GetCombinedInfo :: "venv \<Rightarrow> IVDProtectedEntity \<Rightarrow> (vsphere, goerr + ivd_info list) state" where
  "ivd_GetCombinedInfo V e = then_ok (ivd_GetInfo V e) (\<lambda>i. State_Monad.return (Inr [i]))"

text \<open>The error of reading the labels is dropped: the metadata then has none.\<close>

definition getMetadata :: "venv \<Rightarrow> ienv \<Rightarrow> IVDProtectedEntity \<Rightarrow> (vsphere, goerr + metadata) state" where
  "getMetadata V I e =
     then_ok (with_vslm (\<lambda>M. deref (vslm_Retrieve V M (pe_id (ivd_id e))))) (\<lambda>vso. do {
       labels \<leftarrow> with_vslm (\<lambda>M. vslm_RetrieveMetadata V M (pe_id (ivd_id e))
         (if i_has_snapshot I (ivd_id e) then Some (pe_snapshot (ivd_id e)) else None) '''');
       State_Monad.return (case labels of
           Inl err \<Rightarrow> if is_panic err then Inl err
             else Inr \<lparr>md_VirtualStorageObject = vso, md_Datastore = vso_Datastore vso, md_ExtendedMetadata = []\<rparr>
         | Inr ls \<Rightarrow> Inr \<lparr>md_VirtualStorageObject = vso, md_Datastore = vso_Datastore vso,
             md_ExtendedMetadata = (case ls of None \<Rightarrow> [] | Some xs \<Rightarrow> xs)\<rparr>)
     })"

definition getMetadataBuf :: "venv \<Rightarrow> ienv \<Rightarrow> IVDProtectedEntity \<Rightarrow> (vsphere, goerr + string) state" where
  "getMetadataBuf V I e =
     then_ok (wrap_error ''Retrieve failed'' (getMetadata V I e)) (\<lambda>md. State_Monad.return (i_marshal I md))"

definition ivd_GetMetadataReader :: "venv \<Rightarrow> ienv \<Rightarrow> IVDProtectedEntity \<Rightarrow> (vsphere, goerr + string) state" where
  "ivd_GetMetadataReader V I e = unless_err (CheckVcenterConnections V) (getMetadataBuf V I e)"

definition no_metadata :: metadata where
  "no_metadata = \<lparr>md_VirtualStorageObject = \<lparr>vso_Id = '''', vso_Name = '''', vso_CapacityInMB = 0, vso_Datastore = ''''\<rparr>,
     md_Datastore = '''', md_ExtendedMetadata = []\<rparr>"

text \<open>
  Reading metadata returns what could be decoded beside the error. The reader of the source is
  the outcome of reading it to its end; \<open>None\<close> is a nil reader.
\<close>

definition readMetadataFromReader ::
  "ienv \<Rightarrow> (goerr + string) option \<Rightarrow> metadata \<times> goerr option" where
  "readMetadataFromReader I r =
     (case r of
        None \<Rightarrow> (no_metadata, Some nil_deref)
      | Some (Inl e) \<Rightarrow> (no_metadata, Some (ErrWrap ''ReadAll failed'' e))
      | Some (Inr buf) \<Rightarrow> i_unmarshal I buf)"

section \<open>Snapshots\<close>

text \<open>
  How an error of the snapshot task is taken: retry (\<open>Inr False\<close>) or give up. The counters are
  those of the closure: attempts with a task, failed checks, and the result.
\<close>

record snapshot_vars =
  sv_retVal :: vim_id
  sv_retryCount :: nat
  sv_detailErrs :: nat

fun transient_create :: "goerr \<Rightarrow> bool" where
  "transient_create (ErrVimFault f t) \<longleftrightarrow> f = InvalidState \<or> f = VslmSyncFault \<or> f = FaultNotFound"
| "transient_create _ \<longleftrightarrow> False"

definition create_failed :: "ienv \<Rightarrow> peid \<Rightarrow> nat \<Rightarrow> goerr \<Rightarrow> goerr + bool" where
  "create_failed I p retries e =
     (if transient_create e \<or> i_is_reset I e then Inr False
      else Inl (ErrWrap (''Failed at waiting for the CreateSnapshot invocation on IVD Protected Entity, '' @
             i_print_peid I p @ '', Retry-Count: '' @ decimal retries) e))"

text \<open>The known race: the new snapshot is not found when its details are asked for.\<close>

fun known_race :: "goerr \<Rightarrow> bool" where
  "known_race (ErrSoapFault f s t) \<longleftrightarrow> contains s ''A specified parameter was not correct: snapshotId''"
| "known_race _ \<longleftrightarrow> False"

definition check_snapshot ::
  "venv \<Rightarrow> peid \<Rightarrow> vim_id \<Rightarrow> snapshot_vars \<Rightarrow> (vsphere, (goerr + bool) \<times> snapshot_vars) state" where
  "check_snapshot V p snap l = do {
     r \<leftarrow> with_vslm (\<lambda>M. vslm_RetrieveSnapshotDetails V M (NewVimIDFromPEID p) snap);
     State_Monad.return (case r of
         Inl e \<Rightarrow>
           (if is_panic e then (Inl e, l)
            else if known_race e then (Inr False, l\<lparr>sv_detailErrs := Suc (sv_detailErrs l)\<rparr>)
            else (Inr True, l\<lparr>sv_detailErrs := Suc (sv_detailErrs l), sv_retVal := snap\<rparr>))
       | Inr _ \<Rightarrow> (Inr True, l\<lparr>sv_retVal := snap\<rparr>))
   }"

definition snapshot_ivd_attempt ::
  "venv \<Rightarrow> ienv \<Rightarrow> peid \<Rightarrow> snapshot_vars \<Rightarrow> (vsphere, (goerr + bool) \<times> snapshot_vars) state" where
  "snapshot_ivd_attempt V I p l = do {
     conn \<leftarrow> CheckVcenterConnections V;
     (case conn of
        Some e \<Rightarrow> State_Monad.return (if is_panic e then Inl e else Inr False, l)
      | None \<Rightarrow> do {
          t \<leftarrow> with_vslm (\<lambda>M. deref (vslm_CreateSnapshot V M (NewVimIDFromPEID p) ''AstrolabeSnapshot''));
          (case t of
             Inl e \<Rightarrow> State_Monad.return (Inl (if is_panic e then e else
               ErrWrap (''Failed to create a task for the CreateSnapshot invocation on IVD Protected Entity, '' @
                 i_print_peid I p) e), l)
           | Inr vslmTask \<Rightarrow> do {
               let l = l\<lparr>sv_retryCount := Suc (sv_retryCount l)\<rparr>;
               r \<leftarrow> vask (\<lambda>n. i_wait I n vslmTask);
               (case r of
                  Inl e \<Rightarrow> State_Monad.return (create_failed I p (sv_retryCount l) e, l)
                | Inr (TaskID snap) \<Rightarrow> do {
                    vemit (EvSnapshotTaken (NewVimIDFromPEID p) snap);
                    check_snapshot V p snap l
                  }
                | Inr _ \<Rightarrow> State_Monad.return (Inl (GoPanic ''interface conversion''), l))
             })
        })
   }"

definition ivd_Snapshot :: "venv \<Rightarrow> ienv \<Rightarrow> peid \<Rightarrow> (vsphere, goerr + vim_id) state" where
  "ivd_Snapshot V I p = do {
     n \<leftarrow> vask (i_polls I);
     (err, l) \<leftarrow> poll_immediate n (snapshot_ivd_attempt V I p) \<lparr>sv_retVal = '''', sv_retryCount = 0, sv_detailErrs = 0\<rparr>;
     State_Monad.return (case err of Some e \<Rightarrow> Inl e | None \<Rightarrow> Inr (sv_retVal l))
   }"

definition ivd_ListSnapshots :: "venv \<Rightarrow> peid \<Rightarrow> (vsphere, goerr + vim_id list) state" where
  "ivd_ListSnapshots V p =
     unless_err (CheckVcenterConnections V) (
     wrap_error ''RetrieveSnapshotInfo failed'' (
     then_ok (with_vslm (\<lambda>M. vslm_RetrieveSnapshotInfo V M (NewVimIDFromPEID p))) (\<lambda>r.
     State_Monad.return (Inr (case r of None \<Rightarrow> [] | Some ids \<Rightarrow> ids)))))"

section \<open>Deleting a snapshot\<close>

text \<open>What the fault of a delete task means: already gone, try again, or an error.\<close>

datatype delete_verdict = Gone | TryAgain | Fails

fun delete_fault :: "goerr \<Rightarrow> delete_verdict" where
  "delete_fault (ErrVimFault InvalidArgument t) = Gone"
| "delete_fault (ErrVimFault FaultNotFound t) = Gone"
| "delete_fault (ErrVimFault InvalidState t) = TryAgain"
| "delete_fault (ErrVimFault TaskInProgress t) = TryAgain"
| "delete_fault (ErrVimFault FileLocked t) = TryAgain"
| "delete_fault _ = Fails"

fun disk_not_found :: "goerr \<Rightarrow> bool" where
  "disk_not_found (ErrSoapFault f s t) \<longleftrightarrow> f = FaultNotFound"
| "disk_not_found _ \<longleftrightarrow> False"

definition delete_wait_failed :: "ienv \<Rightarrow> peid \<Rightarrow> vim_id \<Rightarrow> goerr \<Rightarrow> goerr + bool" where
  "delete_wait_failed I p snap e =
     (case delete_fault e of
        Gone \<Rightarrow> Inr True
      | TryAgain \<Rightarrow> Inr False
      | Fails \<Rightarrow> if i_is_reset I e then Inr False
          else Inl (ErrWrap (''Failed at waiting for the DeleteSnapshot invocation on IVD Protected Entity, '' @
                 i_print_peid I p @ '', with input arg, '' @ snap) e))"

definition delete_ivd_attempt ::
  "venv \<Rightarrow> ienv \<Rightarrow> peid \<Rightarrow> vim_id \<Rightarrow> unit \<Rightarrow> (vsphere, (goerr + bool) \<times> unit) state" where
  "delete_ivd_attempt V I p snap l = do {
     conn \<leftarrow> CheckVcenterConnections V;
     (case conn of
        Some e \<Rightarrow> State_Monad.return (if is_panic e then Inl e else Inr False, ())
      | None \<Rightarrow> do {
          t \<leftarrow> with_vslm (\<lambda>M. deref (vslm_DeleteSnapshot V M (NewVimIDFromPEID p) snap));
          (case t of
             Inl e \<Rightarrow> State_Monad.return
               (if is_panic e then Inl e
                else if disk_not_found e then Inr True
                else Inl (ErrWrap (''Failed to create a task for the DeleteSnapshot invocation on IVD Protected Entity, '' @
                  i_print_peid I p @ '', with input arg, '' @ snap) e), ())
           | Inr vslmTask \<Rightarrow> do {
               r \<leftarrow> vask (\<lambda>n. i_wait I n vslmTask);
               (case r of
                  Inl e \<Rightarrow> State_Monad.return (delete_wait_failed I p snap e, ())
                | Inr _ \<Rightarrow> do {
                    vemit (EvSnapshotRemoved (NewVimIDFromPEID p) snap);
                    State_Monad.return (Inr True, ())
                  })
             })
        })
   }"

definition ivd_DeleteSnapshot :: "venv \<Rightarrow> ienv \<Rightarrow> peid \<Rightarrow> vim_id \<Rightarrow> (vsphere, goerr + bool) state" where
  "ivd_DeleteSnapshot V I p snap = do {
     n \<leftarrow> vask (i_polls I);
     (err, _) \<leftarrow> poll_immediate n (delete_ivd_attempt V I p snap) ();
     State_Monad.return (case err of Some e \<Rightarrow> Inl e | None \<Rightarrow> Inr True)
   }"

section \<open>Data\<close>

text \<open>
  Connecting to the disk: the center is connected first (logging in again if needed), then
  the disk is looked up for its datastore.
\<close>

definition trim_prefix :: "string \<Rightarrow> string \<Rightarrow> string" where
  "trim_prefix s p = (if has_prefix s p then drop (length p) s else s)"

definition center_url :: "addr \<Rightarrow> (vsphere, goerr + url) state" where
  "center_url a = vread (\<lambda>s.
     case Option.bind (Option.bind (vs_centers s a) vc_Client) (vs_clients s) of None \<Rightarrow> Inl nil_deref | Some u \<Rightarrow> Inr u)"

definition connect_params :: "ienv \<Rightarrow> peid \<Rightarrow> bool \<Rightarrow> url \<Rightarrow> VirtualCenterConfig \<Rightarrow> VStorageObject \<Rightarrow> string \<Rightarrow> ConnectParams" where
  "connect_params I p readOnly u cfg vso thumbPrint =
     \<lparr>cp_serverName = url_Hostname u, cp_thumbPrint = thumbPrint, cp_userName = cfg_Username cfg,
      cp_password = cfg_Password cfg, cp_fcdId = pe_id p, cp_ds = trim_prefix (vso_Datastore vso) ''Datastore:'',
      cp_fcdssId = (if i_has_snapshot I p then pe_snapshot p else ''''),
      cp_flag = (if readOnly then or (i_flag_skipz I) (i_flag_read_only I) else i_flag_unbuffered I),
      cp_readOnly = readOnly, cp_mode = ''nbd''\<rparr>"

definition getDiskConnectionParams :: "venv \<Rightarrow> ienv \<Rightarrow> peid \<Rightarrow> bool \<Rightarrow> (vsphere, goerr + ConnectParams) state" where
  "getDiskConnectionParams V I p readOnly = do {
     m \<leftarrow> vread vs_petm;
     (case im_vcenter m of
        None \<Rightarrow> State_Monad.return (Inl nil_deref)
      | Some a \<Rightarrow>
          then_ok (Connect V a) (\<lambda>_.
          then_ok (center_url a) (\<lambda>u.
          then_ok (config_of a) (\<lambda>(k, cfg).
          then_ok (with_vslm (\<lambda>M. deref (vslm_Retrieve V M (NewVimIDFromPEID p)))) (\<lambda>vso.
          then_ok (vask (\<lambda>n. i_thumbprint I n u)) (\<lambda>thumbPrint.
          State_Monad.return (Inr (connect_params I p readOnly u cfg vso thumbPrint))))))))
   }"

text \<open>
  The text of the disk library's error is the format string of the message; texts with a
  percent sign are not covered.
\<close>

definition vix_error :: "string \<times> nat \<Rightarrow> goerr" where
  "vix_error ve = ErrMsg (fst ve @ '' with error code: '' @ decimal (snd ve))"

definition ivd_GetDataReader :: "venv \<Rightarrow> ienv \<Rightarrow> peid \<Rightarrow> (vsphere, goerr + reader) state" where
  "ivd_GetDataReader V I p =
     unless_err (CheckVcenterConnections V) (
     then_ok (getDiskConnectionParams V I p True) (\<lambda>P. do {
       r \<leftarrow> vask (\<lambda>n. i_open I n P);
       (case r of
          Inr d \<Rightarrow> State_Monad.return (Inr d)
        | Inl ve \<Rightarrow>
            (if snd ve = 20005 then do {
               vemit (EvEndAccess (cp_fcdId P));
               r' \<leftarrow> vask (\<lambda>n. i_open I n P);
               State_Monad.return (case r' of Inl ve' \<Rightarrow> Inl (vix_error ve') | Inr d \<Rightarrow> Inr d)
             }
             else State_Monad.return (Inl (vix_error ve))))
     }))"

definition getDataWriter :: "venv \<Rightarrow> ienv \<Rightarrow> peid \<Rightarrow> (vsphere, goerr + ConnectParams) state" where
  "getDataWriter V I p =
     then_ok (getDiskConnectionParams V I p False) (\<lambda>P. do {
       r \<leftarrow> vask (\<lambda>n. i_open I n P);
       State_Monad.return (case r of Inl ve \<Rightarrow> Inl (vix_error ve) | Inr _ \<Rightarrow> Inr P)
     })"

text \<open>
  \<^verbatim>\<open>io.CopyBuffer\<close> into a \<^verbatim>\<open>bufio.Writer\<close> is the writer's \<^verbatim>\<open>ReadFrom\<close> (the
  source offers only \<^verbatim>\<open>Read\<close>, the disk only \<^verbatim>\<open>Write\<close>): the buffer is filled by reads of
  at most its free space and written when it is full. A hundred empty reads in a row end the
  copy. Nothing writes the buffer at the end unless it happens to be full. A reader is the
  data of its reads and then, in a read of its own, its end; a source whose last read brings
  data and an error together is not covered.
\<close>

definition ErrShortWrite :: goerr where "ErrShortWrite = ErrMsg ''short write''"
definition ErrNoProgress :: goerr where "ErrNoProgress = ErrMsg ''multiple Read calls return no data or error''"
definition copy_buffer_size :: nat where "copy_buffer_size = 1024 * 1024"

definition flush :: "ienv \<Rightarrow> ConnectParams \<Rightarrow> string \<Rightarrow> (vsphere, goerr option \<times> string) state" where
  "flush I P buf =
     (if buf = [] then State_Monad.return (None, [])
      else do {
        (n, err) \<leftarrow> vask (\<lambda>t. i_write I t P buf);
        vemit (EvDiskWritten (cp_fcdId P) (take n buf));
        (let err' = (if n < length buf \<and> err = None then Some ErrShortWrite else err) in
         State_Monad.return (err', if err' = None then [] else drop n buf))
      })"

function read_from ::
  "ienv \<Rightarrow> ConnectParams \<Rightarrow> nat \<Rightarrow> string \<Rightarrow> nat \<Rightarrow> nat \<Rightarrow> string list \<Rightarrow> goerr option \<Rightarrow>
   (vsphere, nat \<times> goerr option) state" where
  "read_from I P sz buf written empties chunks ending = do {
     (ferr, buf) \<leftarrow> (if sz \<le> length buf then flush I P buf else State_Monad.return (None, buf));
     (case ferr of
        Some e \<Rightarrow> State_Monad.return (written, Some e)
      | None \<Rightarrow>
          (case chunks of
             [] \<Rightarrow>
               (case ending of
                  Some e \<Rightarrow> State_Monad.return (written, Some e)
                | None \<Rightarrow>
                    (if sz \<le> length buf then do {
                       (e, _) \<leftarrow> flush I P buf;
                       State_Monad.return (written, e)
                     }
                     else State_Monad.return (written, None)))
           | c # cs \<Rightarrow>
               (if c = [] then
                  (if 100 \<le> Suc empties then State_Monad.return (written, Some ErrNoProgress)
                   else read_from I P sz buf written (Suc empties) cs ending)
                else
                  (let m = min (sz - length buf) (length c) in
                   if m = 0 then State_Monad.return (written, Some ErrNoProgress)
                   else read_from I P sz (buf @ take m c) (written + m) 0
                     (if drop m c = [] then cs else drop m c # cs) ending))))
   }"
  by pat_completeness auto
termination
  by (relation "measure (\<lambda>(I, P, sz, buf, written, empties, chunks, ending). length chunks + length (concat chunks))")
    (auto simp: Let_def)

declare read_from.simps [simp del]

definition ivd_copy :: "venv \<Rightarrow> ienv \<Rightarrow> peid \<Rightarrow> reader option \<Rightarrow> (vsphere, goerr + nat) state" where
  "ivd_copy V I p dataReader =
     then_ok (getDataWriter V I p) (\<lambda>P.
       (case dataReader of
          None \<Rightarrow> State_Monad.return (Inl nil_deref)
        | Some d \<Rightarrow> do {
            (bytesWritten, err) \<leftarrow> read_from I P copy_buffer_size [] 0 0 (rd_chunks d) (rd_end d);
            State_Monad.return (case err of
                Some e \<Rightarrow> Inl (ErrWrap (''Failed in CopyBuffer, bytes written = '' @ decimal bytesWritten) e)
              | None \<Rightarrow> Inr bytesWritten)
          }))"

section \<open>Copying a source\<close>

text \<open>
  The source of a copy. It may be a disk of the same type manager, whose readers and
  information are the operations above and call vCenter themselves; or an entity of another
  type manager (of the repository in object storage), whose code is not in these files and
  gives answers.
\<close>

record source_pe =
  src_ID :: peid
  src_Info :: "nat \<Rightarrow> goerr + ivd_info"
  src_Data :: "nat \<Rightarrow> goerr + reader option"
  src_Metadata :: "nat \<Rightarrow> goerr + (goerr + string) option"

datatype source = IvdSource IVDProtectedEntity | OtherSource source_pe

primrec source_GetID :: "source \<Rightarrow> peid" where
  "source_GetID (IvdSource e) = ivd_id e"
| "source_GetID (OtherSource x) = src_ID x"

primrec source_GetInfo :: "venv \<Rightarrow> source \<Rightarrow> (vsphere, goerr + ivd_info) state" where
  "source_GetInfo V (IvdSource e) = ivd_GetInfo V e"
| "source_GetInfo V (OtherSource x) = vask (src_Info x)"

primrec source_GetDataReader :: "venv \<Rightarrow> ienv \<Rightarrow> source \<Rightarrow> (vsphere, goerr + reader option) state" where
  "source_GetDataReader V I (IvdSource e) =
     then_ok (ivd_GetDataReader V I (ivd_id e)) (\<lambda>d. State_Monad.return (Inr (Some d)))"
| "source_GetDataReader V I (OtherSource x) = vask (src_Data x)"

primrec source_GetMetadataReader :: "venv \<Rightarrow> ienv \<Rightarrow> source \<Rightarrow> (vsphere, goerr + (goerr + string) option) state" where
  "source_GetMetadataReader V I (IvdSource e) =
     then_ok (ivd_GetMetadataReader V I e) (\<lambda>buf. State_Monad.return (Inr (Some (Inr buf))))"
| "source_GetMetadataReader V I (OtherSource x) = vask (src_Metadata x)"

text \<open>The metadata are read, but neither an error of that nor the metadata matter to what follows.\<close>

definition ivd_Overwrite :: "venv \<Rightarrow> ienv \<Rightarrow> peid \<Rightarrow> source \<Rightarrow> (vsphere, goerr + unit) state" where
  "ivd_Overwrite V I p src =
     (if pe_type (source_GetID src) \<noteq> ''ivd'' then State_Monad.return (Inl (ErrMsg ''Overwrite source must be an ivd''))
      else
        unless_err (CheckVcenterConnections V) (
        then_ok (wrap_error ''Could not retrieve metadata reader'' (source_GetMetadataReader V I src)) (\<lambda>metadataReader.
        then_ok (wrap_error ''Could not retrieve data reader'' (source_GetDataReader V I src)) (\<lambda>dataReader.
        (if metadataReader = None then State_Monad.return (Inl nil_deref)
         else then_ok (wrap_error (''Data copy failed from PE '' @ i_print_peid I p @ '', to PE '' @ i_print_peid I (source_GetID src))
             (ivd_copy V I p dataReader)) (\<lambda>_. State_Monad.return (Inr ())))))))"

text \<open>Is one of the source's transports the disk in this vCenter? The center is dereferenced when asked for.\<close>

primrec our_vc :: "data_transport list \<Rightarrow> (vsphere, goerr + bool) state" where
  "our_vc [] = State_Monad.return (Inr False)"
| "our_vc (d # ds) =
     (if dt_type d = ''vadp'' \<and> dt_params d ''vcenter'' \<noteq> None then do {
        m \<leftarrow> vread vs_petm;
        then_ok (case im_vcenter m of None \<Rightarrow> State_Monad.return (Inl nil_deref) | Some a \<Rightarrow> center_url a) (\<lambda>u.
          if dt_params d ''vcenter'' = Some (url_Host u) then State_Monad.return (Inr True) else our_vc ds)
      }
      else our_vc ds)"

text \<open>Does the disk exist here? Only a SOAP fault other than NotFound is an error.\<close>

definition exists_here :: "venv \<Rightarrow> peid \<Rightarrow> (vsphere, goerr + bool) state" where
  "exists_here V p = do {
     r \<leftarrow> with_vslm (\<lambda>M. vslm_Retrieve V M (NewVimIDFromPEID p));
     State_Monad.return (case r of
         Inr _ \<Rightarrow> Inr True
       | Inl (ErrSoapFault f s t) \<Rightarrow>
           if f = FaultNotFound then Inr False else Inl (ErrWrap ''Retrieve failed'' (ErrSoapFault f s t))
       | Inl e \<Rightarrow> if is_panic e then Inl e else Inr True)
   }"

text \<open>
  The disk is here: it is created from its snapshot, or cloned. The error of building the
  entity of the new disk is overwritten.
\<close>

definition wait_object :: "ienv \<Rightarrow> task \<Rightarrow> (vsphere, goerr + VStorageObject) state" where
  "wait_object I t =
     then_ok (vask (\<lambda>n. i_wait I n t)) (\<lambda>r. State_Monad.return
       (case r of TaskObject vso \<Rightarrow> Inr vso | _ \<Rightarrow> Inl (GoPanic ''interface conversion'')))"

definition update_labels ::
  "venv \<Rightarrow> ienv \<Rightarrow> bool \<Rightarrow> VStorageObject \<Rightarrow> metadata \<Rightarrow> IVDProtectedEntity \<Rightarrow> (vsphere, goerr + IVDProtectedEntity) state" where
  "update_labels V I hasSnapshot newVSO md retPE =
     (if hasSnapshot then
        then_ok (with_vslm (\<lambda>M. deref (vslm_UpdateMetadata V M (vso_Id newVSO) (md_ExtendedMetadata md) []))) (\<lambda>updateTask.
        then_ok (vask (\<lambda>n. i_wait I n updateTask)) (\<lambda>_.
        State_Monad.return (Inr retPE)))
      else State_Monad.return (Inr retPE))"

definition copy_local :: "venv \<Rightarrow> ienv \<Rightarrow> ivd_info \<Rightarrow> metadata \<Rightarrow> (vsphere, goerr + IVDProtectedEntity) state" where
  "copy_local V I info md0 =
     then_ok petm_config (\<lambda>cfg. do {
       md \<leftarrow> FilterLabelsFromMetadataForVslmAPIs I md0 cfg;
       (let p = ii_ID info; hasSnapshot = i_has_snapshot I p in
        then_ok (if hasSnapshot
          then wrap_error ''CreateDiskFromSnapshot failed'' (with_vslm (\<lambda>M. deref
            (vslm_CreateDiskFromSnapshot V M (NewVimIDFromPEID p) (NewVimSnapshotIDFromPEID I p) (ii_Name info))))
          else with_vslm (\<lambda>M. deref
            (vslm_Clone V M (NewVimIDFromPEID p) (ii_Name info) True (md_ExtendedMetadata md)))) (\<lambda>createTask.
        then_ok (wait_object I createTask) (\<lambda>newVSO. do {
          r \<leftarrow> newIVDProtectedEntity I (newProtectedEntityID I (vso_Id newVSO));
          (case r of
             Inl e \<Rightarrow> if is_panic e then State_Monad.return (Inl e) else update_labels V I hasSnapshot newVSO md no_entity
           | Inr retPE \<Rightarrow> update_labels V I hasSnapshot newVSO md retPE)
        })))
     })"

text \<open>The disk is not here: a new volume is provisioned and the data copied into it.\<close>

definition copy_remote ::
  "venv \<Rightarrow> ienv \<Rightarrow> metadata \<Rightarrow> reader option \<Rightarrow> (vsphere, goerr + IVDProtectedEntity) state" where
  "copy_remote V I md0 dataReader = do {
     (let md = FilterLabelsFromMetadataForCnsAPIs md0 ''cns'' in do {
     s \<leftarrow> vread id;
     (case im_vcenter (vs_petm s) of
        None \<Rightarrow> State_Monad.return (Inl nil_deref)
      | Some a \<Rightarrow>
          then_ok (wrap_error ''CreateDisk failed'' (CreateCnsVolumeInCluster V I
            (Option.bind (im_vcenterConfig (vs_petm s)) (vs_configs s))
            (Option.bind (vs_centers s a) vc_Client) (im_cnsManager (vs_petm s)) md)) (\<lambda>volumeVimID.
          then_ok (wrap_error ''CreateDisk failed'' (newIVDProtectedEntity I (newProtectedEntityID I volumeVimID))) (\<lambda>retPE.
          then_ok (wrap_error ''Failed to copy data from data source to newly-provisioned IVD protected entity''
            (ivd_copy V I (ivd_id retPE) dataReader)) (\<lambda>_.
          State_Monad.return (Inr retPE)))))
     })
   }"

definition copyInt ::
  "venv \<Rightarrow> ienv \<Rightarrow> ivd_info \<Rightarrow> reader option \<Rightarrow> (goerr + string) option \<Rightarrow> (vsphere, goerr + IVDProtectedEntity) state" where
  "copyInt V I info dataReader metadataReader =
     (if pe_type (ii_ID info) \<noteq> ''ivd'' then State_Monad.return (Inl (ErrMsg ''Copy source must be an ivd''))
      else
        then_ok (our_vc (ii_data info)) (\<lambda>ourVC.
        then_ok (if ourVC then exists_here V (ii_ID info) else State_Monad.return (Inr False)) (\<lambda>existsInOurVC.
        (case readMetadataFromReader I metadataReader of
           (md, Some e) \<Rightarrow> State_Monad.return (Inl e)
         | (md, None) \<Rightarrow>
             if ourVC \<and> existsInOurVC then copy_local V I info md
             else copy_remote V I md dataReader))))"

definition ivd_Copy :: "venv \<Rightarrow> ienv \<Rightarrow> source \<Rightarrow> (vsphere, goerr + IVDProtectedEntity) state" where
  "ivd_Copy V I src =
     then_ok (wrap_error ''GetInfo failed'' (source_GetInfo V src)) (\<lambda>info.
     then_ok (wrap_error ''GetDataReader failed'' (source_GetDataReader V I src)) (\<lambda>dataReader.
     then_ok (wrap_error ''GetMetadataReader failed'' (source_GetMetadataReader V I src)) (\<lambda>metadataReader.
     wrap_error ''copyInt failed'' (copyInt V I info dataReader metadataReader))))"

end
