(* ===== verification/VSphere_Correctness.thy ===== *)
theory VSphere_Correctness
  imports VSphere_Client
begin

text \<open>
  What the connections to vCenter guarantee: a successful connection has all its clients, on
  one session if the center was coherent; a call is repeated at most once, after an
  authentication fault, and its success always has a value; a reload with a new configuration
  moves the type manager and both service managers to a center built from it. And where the
  guarantees end: clients of a dead session that survive a failed login, a failed password
  rotation that is never repeated, and a manager without configuration that panics on use.
\<close>

section \<open>Running the primitives\<close>

lemma run_vprims [simp]:
  "run_state (vask f) s = (f (vs_tick s), s\<lparr>vs_tick := Suc (vs_tick s)\<rparr>)"
  "run_state (vemit ev) s = ((), s\<lparr>vs_trace := vs_trace s @ [ev]\<rparr>)"
  "run_state (vread g) s = (g s, s)"
  "run_state (vmodify h) s = ((), h s)"
  "run_state fresh s = (vs_next s, s\<lparr>vs_next := Suc (vs_next s)\<rparr>)"
  "run_state (set_center a fc) s = ((), s\<lparr>vs_centers := (vs_centers s)(a := map_option fc (vs_centers s a))\<rparr>)"
  "run_state (set_config a fk) s = ((), s\<lparr>vs_configs := (vs_configs s)(a := map_option fk (vs_configs s a))\<rparr>)"
  "run_state (set_petm fm) s = ((), s\<lparr>vs_petm := fm (vs_petm s)\<rparr>)"
  by (simp_all add: vask_def vemit_def vread_def vmodify_def fresh_def set_center_def set_config_def set_petm_def)

lemma run_center_at [simp]:
  "run_state (center_at a) s = (case vs_centers s a of None \<Rightarrow> Inl nil_deref | Some c \<Rightarrow> Inr c, s)"
  by (simp add: center_at_def)

lemmas early_returns = run_then_ok run_unless_err run_wrap_error

lemma nil_deref_panics [simp]: "is_panic nil_deref"
  by (simp add: nil_deref_def)

lemma keeps_vprims:
  "(\<And>s. I s \<Longrightarrow> I (s\<lparr>vs_tick := Suc (vs_tick s)\<rparr>)) \<Longrightarrow> keeps I (vask f)"
  "keeps I (vread g)"
  "(\<And>s. I s \<Longrightarrow> I (s\<lparr>vs_trace := vs_trace s @ [ev]\<rparr>)) \<Longrightarrow> keeps I (vemit ev)"
  "(\<And>s. I s \<Longrightarrow> I (h s)) \<Longrightarrow> keeps I (vmodify h)"
  "(\<And>s. I s \<Longrightarrow> I (s\<lparr>vs_next := Suc (vs_next s)\<rparr>)) \<Longrightarrow> keeps I fresh"
  "(\<And>s. I s \<Longrightarrow> I (s\<lparr>vs_configs := (vs_configs s)(k := map_option fk (vs_configs s k))\<rparr>)) \<Longrightarrow> keeps I (set_config k fk)"
  "(\<And>s. I s \<Longrightarrow> I (s\<lparr>vs_centers := (vs_centers s)(a := map_option fc (vs_centers s a))\<rparr>)) \<Longrightarrow> keeps I (set_center a fc)"
  "(\<And>s. I s \<Longrightarrow> I (s\<lparr>vs_petm := fm (vs_petm s)\<rparr>)) \<Longrightarrow> keeps I (set_petm fm)"
  by (simp_all add: triple_def)

lemma keeps_center_at: "keeps I (center_at a)" "keeps I (config_of a)" "keeps I (clients_of a)"
  by (auto simp: triple_def center_at_def config_of_def clients_of_def early_returns split: sum.splits option.splits)

lemmas vkeeps = keeps_vprims keeps_center_at keeps_rules early_return_rules

section \<open>What a connection leaves alone\<close>

text \<open>
  An invariant that survives the bookkeeping of a login survives a new client: the counters,
  the trace, the clients and the two defaults written into a configuration.
\<close>

definition session_stable :: "(vsphere \<Rightarrow> bool) \<Rightarrow> bool" where
  "session_stable I \<longleftrightarrow>
     (\<forall>s n. I s \<longrightarrow> I (s\<lparr>vs_tick := n\<rparr>)) \<and>
     (\<forall>s n. I s \<longrightarrow> vs_next s \<le> n \<longrightarrow> I (s\<lparr>vs_next := n\<rparr>)) \<and>
     (\<forall>s k u p. I s \<longrightarrow> I (s\<lparr>vs_trace := vs_trace s @ [EvLogin k u p]\<rparr>)) \<and>
     (\<forall>s m. I s \<longrightarrow> I (s\<lparr>vs_clients := m\<rparr>)) \<and>
     (\<forall>s k f. I s \<longrightarrow> (\<forall>c. cfg_Host (f c) = cfg_Host c \<and> cfg_Username (f c) = cfg_Username c \<and>
        cfg_Password (f c) = cfg_Password c \<and> cfg_Port (f c) = cfg_Port c \<and> cfg_ClusterId (f c) = cfg_ClusterId c) \<longrightarrow>
        I (s\<lparr>vs_configs := (vs_configs s)(k := map_option f (vs_configs s k))\<rparr>))"

lemma newClient_keeps: "session_stable I \<Longrightarrow> keeps I (newClient V a)"
  unfolding newClient_def new_session_def login_def
  by (intro vkeeps | auto simp: session_stable_def split: if_splits)+

lemma newClient_frame:
  assumes "run_state (newClient V a) s = (r, s')"
  shows "vs_centers s' = vs_centers s \<and> vs_petm s' = vs_petm s \<and> vs_next s \<le> vs_next s'"
proof -
  have "keeps (\<lambda>t. vs_centers t = vs_centers s \<and> vs_petm t = vs_petm s \<and> vs_next s \<le> vs_next t) (newClient V a)"
    by (rule newClient_keeps) (simp add: session_stable_def)
  from tripleD [OF this _ assms] show ?thesis by simp
qed

section \<open>Connections\<close>

lemma run_clients_of:
  "run_state (clients_of a) s =
     (case vs_centers s a of None \<Rightarrow> Inl nil_deref | Some c \<Rightarrow> Inr (vc_VslmClient c, vc_CnsClient c), s)"
  by (simp add: clients_of_def early_returns split: option.splits)

lemma renew_client_run:
  "run_state (renew_client V a) s =
     (case run_state (newClient V a) s of
        (Inl e, s') \<Rightarrow> (Inl e, if is_panic e then s'
           else s'\<lparr>vs_centers := (vs_centers s)(a := map_option (vc_Client_update (\<lambda>_. None)) (vs_centers s a))\<rparr>)
      | (Inr k, s') \<Rightarrow> (Inr k,
           s'\<lparr>vs_centers := (vs_centers s)(a := map_option (vc_Client_update (\<lambda>_. Some k)) (vs_centers s a))\<rparr>))"
  by (auto simp: renew_client_def split: prod.splits sum.splits dest!: newClient_frame)

lemma renew_vslm_run:
  "run_state (renew_vslm V a client) s =
     (case v_new_vslm V (vs_tick s) client of
        Some e \<Rightarrow> (Inl e, s\<lparr>vs_tick := Suc (vs_tick s)\<rparr>)
      | None \<Rightarrow> (Inr (), s\<lparr>vs_tick := Suc (vs_tick s),
          vs_centers := (vs_centers s)(a := map_option (vc_VslmClient_update (\<lambda>_. Some client)) (vs_centers s a))\<rparr>))"
  by (simp add: renew_vslm_def newVslmClient_def early_returns split: option.splits)

lemma renew_cns_run:
  "run_state (renew_cns V a client) s =
     (case v_new_cns V (vs_tick s) client of
        Some e \<Rightarrow> (Inl e, s\<lparr>vs_tick := Suc (vs_tick s),
          vs_centers := (vs_centers s)(a := map_option (vc_CnsClient_update (\<lambda>_. None)) (vs_centers s a))\<rparr>)
      | None \<Rightarrow> (Inr (), s\<lparr>vs_tick := Suc (vs_tick s),
          vs_centers := (vs_centers s)(a := map_option (vc_CnsClient_update (\<lambda>_. Some client)) (vs_centers s a))\<rparr>))"
  by (simp add: renew_cns_def newCnsClient_def split: option.splits)

text \<open>What a center looks like after its missing clients were created.\<close>

lemma ensure_clients_centers:
  assumes "run_state (ensure_clients V a) s = (Inr client, s')"
  obtains c where "vs_centers s a = Some c"
    and "vs_centers s' = (vs_centers s)(a \<mapsto> c\<lparr>vc_Client := Some client,
           vc_VslmClient := Some (case vc_VslmClient c of None \<Rightarrow> client | Some v \<Rightarrow> v),
           vc_CnsClient := Some (case vc_CnsClient c of None \<Rightarrow> client | Some v \<Rightarrow> v)\<rparr>)"
    and "\<forall>k. vc_Client c = Some k \<longrightarrow> client = k" and "vs_petm s' = vs_petm s"
    and "vs_next s \<le> vs_next s'"
proof -
  obtain c where c: "vs_centers s a = Some c"
    using assms by (auto simp: ensure_clients_def early_returns split: option.splits)
  show ?thesis
    using assms c
    by (intro that [OF c]; cases c)
      (auto simp: ensure_clients_def early_returns renew_client_run renew_vslm_run renew_cns_run fun_eq_iff
        split: prod.splits sum.splits option.splits if_splits dest!: newClient_frame)
qed

lemma renew_clients_centers:
  assumes "run_state (renew_clients V a) s = (r, s')"
  shows "vs_petm s' = vs_petm s \<and> vs_next s \<le> vs_next s' \<and>
    (\<forall>b. b \<noteq> a \<longrightarrow> vs_centers s' b = vs_centers s b) \<and>
    (r = Inr () \<longrightarrow> (\<exists>client. vs_centers s' a = map_option (\<lambda>c. c\<lparr>vc_Client := Some client,
       vc_VslmClient := Some client, vc_CnsClient := Some client\<rparr>) (vs_centers s a)))"
  using assms
  by (auto simp: renew_clients_def early_returns renew_client_run renew_vslm_run renew_cns_run option.map_comp comp_def
      split: prod.splits sum.splits option.splits if_splits dest!: newClient_frame)

text \<open>What a connection leaves of the past: time goes on, the trace grows, credentials stay.\<close>

abbreviation creds :: "VirtualCenterConfig \<Rightarrow> string \<times> string" where
  "creds cfg \<equiv> (cfg_Username cfg, cfg_Password cfg)"

definition later :: "vsphere \<Rightarrow> vsphere \<Rightarrow> bool" where
  "later s t \<longleftrightarrow> vs_tick s \<le> vs_tick t \<and> (\<exists>pre. vs_trace t = vs_trace s @ pre) \<and>
     (\<forall>k. map_option creds (vs_configs t k) = map_option creds (vs_configs s k))"

lemma defaults_keep_creds:
  "cfg_Username (if b then cfg\<lparr>cfg_Scheme := x\<rparr> else cfg) = cfg_Username cfg"
  "cfg_Password (if b then cfg\<lparr>cfg_Scheme := x\<rparr> else cfg) = cfg_Password cfg"
  "cfg_Username (if b then cfg\<lparr>cfg_RoundTripperCount := n\<rparr> else cfg) = cfg_Username cfg"
  "cfg_Password (if b then cfg\<lparr>cfg_RoundTripperCount := n\<rparr> else cfg) = cfg_Password cfg"
  by simp_all

lemma ensure_clients_later:
  assumes "run_state (ensure_clients V a) s = (r, t)"
  shows "later s t"
proof -
  have "keeps (later s) (ensure_clients V a)"
    unfolding ensure_clients_def renew_client_def renew_vslm_def renew_cns_def newVslmClient_def newCnsClient_def
      newClient_def new_session_def login_def
    by (intro vkeeps | auto simp: later_def option.map_comp comp_def defaults_keep_creds)+
  from tripleD [OF this _ assms] show ?thesis by (simp add: later_def)
qed

text \<open>A new client has logged in with the credentials of the center's configuration.\<close>

definition logged_in :: "venv \<Rightarrow> VirtualCenter \<Rightarrow> vsphere \<Rightarrow> vsphere \<Rightarrow> addr \<Rightarrow> bool" where
  "logged_in V c s s' client \<longleftrightarrow> (\<exists>k cfg u t pre. vc_Config c = Some k \<and> vs_configs s k = Some cfg \<and>
     vs_tick s \<le> t \<and> t < vs_tick s' \<and> v_login V t u (cfg_Username cfg) (cfg_Password cfg) = None \<and>
     vs_next s \<le> client \<and>
     vs_trace s' = vs_trace s @ pre @ [EvLogin client (cfg_Username cfg) (cfg_Password cfg)])"

lemma newClient_logged_in:
  assumes "run_state (newClient V a) s = (Inr client, s')" and "vs_centers s a = Some c"
  shows "logged_in V c s s' client"
proof -
  obtain k cfg where k: "vc_Config c = Some k" "vs_configs s k = Some cfg"
    using assms by (auto simp: newClient_def config_of_def early_returns split: option.splits)
  have "\<exists>u. v_login V (vs_tick s + 2) u (cfg_Username cfg) (cfg_Password cfg) = None \<and> vs_tick s' = vs_tick s + 4 \<and>
      client = vs_next s \<and> vs_trace s' = vs_trace s @ [EvLogin client (cfg_Username cfg) (cfg_Password cfg)]"
    using assms k
    by (auto simp: newClient_def config_of_def new_session_def login_def early_returns
        split: sum.splits option.splits if_splits)
  then obtain u where "v_login V (vs_tick s + 2) u (cfg_Username cfg) (cfg_Password cfg) = None" "vs_tick s' = vs_tick s + 4"
      "client = vs_next s" "vs_trace s' = vs_trace s @ [] @ [EvLogin client (cfg_Username cfg) (cfg_Password cfg)]"
    by auto
  with k show ?thesis unfolding logged_in_def
    by (intro exI [of _ k] exI [of _ cfg] exI [of _ u] exI [of _ "vs_tick s + 2"] exI [of _ "[]"]) simp
qed

lemma renew_clients_logged_in:
  assumes "run_state (renew_clients V a) s = (Inr (), s')" and "vs_centers s a = Some c"
  shows "\<exists>client c'. vs_centers s' a = Some c' \<and> vc_Client c' = Some client \<and> logged_in V c s s' client"
proof -
  from assms obtain client s1 where new: "run_state (newClient V a) s = (Inr client, s1)"
    by (auto simp: renew_clients_def early_returns renew_client_run split: prod.splits sum.splits)
  have in1: "logged_in V c s s1 client" by (rule newClient_logged_in [OF new assms(2)])
  from assms new have "vs_tick s' = vs_tick s1 + 2 \<and> vs_trace s' = vs_trace s1 \<and>
      vs_centers s' a = Some (c\<lparr>vc_Client := Some client, vc_VslmClient := Some client, vc_CnsClient := Some client\<rparr>)"
    by (auto simp: renew_clients_def early_returns renew_client_run renew_vslm_run renew_cns_run
        split: option.splits)
  with in1 show ?thesis by (fastforce simp: logged_in_def)
qed

text \<open>
  The session behind a connection is alive: it was asked for in this connection, last of all,
  and there was a user session; or the client was made in this connection and its login was
  the last one and succeeded.
\<close>

definition live_session :: "venv \<Rightarrow> VirtualCenter \<Rightarrow> vsphere \<Rightarrow> vsphere \<Rightarrow> addr \<Rightarrow> bool" where
  "live_session V c s s' client \<longleftrightarrow>
     (vs_tick s < vs_tick s' \<and> (\<exists>u. v_session V (vs_tick s' - 1) client = Inr (Some u))) \<or> logged_in V c s s' client"

lemma logged_in_later:
  assumes "logged_in V c s1 s' client" and "later s s1" and "vs_next s \<le> vs_next s1"
  shows "logged_in V c s s' client"
proof -
  from assms(1) obtain k cfg u t pre where x: "vc_Config c = Some k" "vs_configs s1 k = Some cfg"
    "vs_tick s1 \<le> t" "t < vs_tick s'" "v_login V t u (cfg_Username cfg) (cfg_Password cfg) = None"
    "vs_next s1 \<le> client" "vs_trace s' = vs_trace s1 @ pre @ [EvLogin client (cfg_Username cfg) (cfg_Password cfg)]"
    by (auto simp: logged_in_def)
  from assms(2) have "map_option creds (vs_configs s1 k) = map_option creds (vs_configs s k)" by (simp add: later_def)
  then obtain cfg' where "vs_configs s k = Some cfg'" "cfg_Username cfg' = cfg_Username cfg" "cfg_Password cfg' = cfg_Password cfg"
    using x(2) by (cases "vs_configs s k") auto
  moreover from assms(2) obtain pre' where "vs_trace s1 = vs_trace s @ pre'" "vs_tick s \<le> vs_tick s1"
    by (auto simp: later_def)
  ultimately show ?thesis
    using x assms(3) unfolding logged_in_def
    by (intro exI [of _ k] exI [of _ cfg'] exI [of _ u] exI [of _ t] exI [of _ "pre' @ pre"]) auto
qed

text \<open>A center is coherent if its clients are built on the session it has.\<close>

definition coherent :: "VirtualCenter \<Rightarrow> bool" where
  "coherent c \<longleftrightarrow> (\<forall>k. vc_VslmClient c = Some k \<or> vc_CnsClient c = Some k \<longrightarrow> vc_Client c = Some k)"

lemma connect_centers:
  assumes "run_state (Connect V a) s = (Inr (v, n), s')"
  obtains c c' client where "vs_centers s a = Some c" and "vs_centers s' = (vs_centers s)(a \<mapsto> c')"
    and "vc_Client c' = Some client" and "vc_VslmClient c' = v" and "vc_CnsClient c' = n"
    and "v \<noteq> None" and "n \<noteq> None" and "coherent c \<longrightarrow> v = Some client \<and> n = Some client"
    and "vc_Config c' = vc_Config c" and "vs_petm s' = vs_petm s" and "vs_next s \<le> vs_next s'"
    and "live_session V c s s' client"
proof -
  from assms obtain client s1 where ens: "run_state (ensure_clients V a) s = (Inr client, s1)"
    by (auto simp: Connect_def elim!: then_ok_Inr)
  then obtain c where c: "vs_centers s a = Some c"
    and s1: "vs_centers s1 = (vs_centers s)(a \<mapsto> c\<lparr>vc_Client := Some client,
           vc_VslmClient := Some (case vc_VslmClient c of None \<Rightarrow> client | Some v \<Rightarrow> v),
           vc_CnsClient := Some (case vc_CnsClient c of None \<Rightarrow> client | Some v \<Rightarrow> v)\<rparr>)"
    and k: "\<forall>k. vc_Client c = Some k \<longrightarrow> client = k"
    and frame: "vs_petm s1 = vs_petm s" "vs_next s \<le> vs_next s1"
    by (rule ensure_clients_centers)
  note passed = ensure_clients_later [OF ens]
  show thesis
  proof (cases "v_session V (vs_tick s1) client")
    case (Inl e)
    with assms ens show thesis by (simp add: Connect_def early_returns)
  next
    case (Inr u)
    show thesis
    proof (cases u)
      case None
      let ?t = "s1\<lparr>vs_tick := Suc (vs_tick s1)\<rparr>"
      from assms ens Inr None obtain s2 where ren: "run_state (renew_clients V a) ?t = (Inr (), s2)"
        and out: "run_state (clients_of a) s2 = (Inr (v, n), s')"
        by (auto simp: Connect_def early_returns split: prod.splits sum.splits)
      from renew_clients_centers [OF ren] s1 obtain cl where
        cl: "vs_centers s2 = (vs_centers s)(a \<mapsto> c\<lparr>vc_Client := Some cl, vc_VslmClient := Some cl, vc_CnsClient := Some cl\<rparr>)"
        by (auto simp: fun_eq_iff)
      then have "vs_petm s2 = vs_petm s \<and> vs_next s \<le> vs_next s2"
        using renew_clients_centers [OF ren] frame by simp
      moreover have "logged_in V c s s2 cl"
      proof -
        obtain client' c' where made: "vs_centers s2 a = Some c'" "vc_Client c' = Some client'"
          "logged_in V (c\<lparr>vc_Client := Some client,
             vc_VslmClient := Some (case vc_VslmClient c of None \<Rightarrow> client | Some v \<Rightarrow> v),
             vc_CnsClient := Some (case vc_CnsClient c of None \<Rightarrow> client | Some v \<Rightarrow> v)\<rparr>) ?t s2 client'"
          using renew_clients_logged_in [OF ren] s1 by auto
        then have "client' = cl" using cl by auto
        with made(3) have "logged_in V c ?t s2 cl" by (simp add: logged_in_def)
        then show ?thesis by (rule logged_in_later) (use passed frame in \<open>auto simp: later_def\<close>)
      qed
      ultimately show thesis
        using out c cl
        by (intro that [where c = c and client = cl and
              c' = "c\<lparr>vc_Client := Some cl, vc_VslmClient := Some cl, vc_CnsClient := Some cl\<rparr>"])
          (auto simp: run_clients_of live_session_def)
    next
      case (Some x)
      with assms ens Inr s1 have "s' = s1\<lparr>vs_tick := Suc (vs_tick s1)\<rparr>"
        and "v = Some (case vc_VslmClient c of None \<Rightarrow> client | Some v \<Rightarrow> v)"
        and "n = Some (case vc_CnsClient c of None \<Rightarrow> client | Some v \<Rightarrow> v)"
        by (auto simp: Connect_def early_returns run_clients_of)
      moreover have "live_session V c s (s1\<lparr>vs_tick := Suc (vs_tick s1)\<rparr>) client"
        using passed Inr Some by (simp add: live_session_def later_def)
      ultimately show thesis
        using s1 c k frame
        by (intro that [where c = c and client = client and
              c' = "c\<lparr>vc_Client := Some client, vc_VslmClient := v, vc_CnsClient := n\<rparr>"])
          (auto simp: coherent_def split: option.splits)
    qed
  qed
qed

text \<open>A state with one center, and a vCenter that carries out everything.\<close>

definition calm_calls :: vcalls where
  "calm_calls = \<lparr>c_task = (\<lambda>n k c. Inr ''task''), c_snapshots = (\<lambda>n k c. Inr []),
     c_object = (\<lambda>n k c. Inr \<lparr>vso_Id = ''disk'', vso_Name = ''vol'', vso_CapacityInMB = 1, vso_Datastore = ''Datastore:ds1''\<rparr>),
     c_details = (\<lambda>n k c. Inr ''''), c_labels = (\<lambda>n k c. Inr []), c_ids = (\<lambda>n k c. Inr []),
     c_result = (\<lambda>n k c. Inr '''')\<rparr>"

definition calm_vcenter :: venv where
  "calm_vcenter = \<lparr>v_calls = calm_calls, v_parse_url = (\<lambda>h. Inr \<lparr>url_Host = h, url_Hostname = fst (the (cut_last (CHR '':'') h))\<rparr>),
     v_new_vim = (\<lambda>n u. None), v_use_vsan = (\<lambda>n u. None), v_login = (\<lambda>n u user pw. None),
     v_logout = (\<lambda>n k. None), v_session = (\<lambda>n k. Inr (Some (''admin'', ''key''))),
     v_new_vslm = (\<lambda>n k. None), v_new_cns = (\<lambda>n k. None), v_create_config_file = (\<lambda>n m. Inr ''/tmp/vddk''),
     v_delete_config_file = (\<lambda>n f. None), v_vddk_init = (\<lambda>n f. None)\<rparr>"

definition sample_config :: VirtualCenterConfig where
  "sample_config = \<lparr>cfg_Scheme = ''https'', cfg_Host = ''vc'', cfg_Port = 443, cfg_Username = ''admin'',
     cfg_Password = ''old'', cfg_ClusterId = ''c1'', cfg_RoundTripperCount = 3, cfg_VCClientTimeout = 30\<rparr>"

definition sample_center :: VirtualCenter where
  "sample_center = \<lparr>vc_Config = Some 0, vc_Client = Some 2, vc_CnsClient = Some 2, vc_VslmClient = Some 2\<rparr>"

definition sample_vsphere :: vsphere where
  "sample_vsphere = \<lparr>vs_tick = 0, vs_trace = [], vs_next = 3, vs_configs = [0 \<mapsto> sample_config],
     vs_centers = [1 \<mapsto> sample_center], vs_clients = [2 \<mapsto> \<lparr>url_Host = ''vc:443'', url_Hostname = ''vc''\<rparr>],
     vs_petm = \<lparr>im_vcenterConfig = Some 0, im_vcenter = Some 1,
       im_vslmManager = Some \<lparr>vm_virtualCenter = 1, vm_vsom = Some 2\<rparr>,
       im_cnsManager = Some \<lparr>cm_virtualCenter = 1, cm_cnsClient = Some 2\<rparr>\<rparr>\<rparr>"

lemmas vsphere_evals = calm_calls_def calm_vcenter_def sample_config_def sample_center_def sample_vsphere_def
  early_returns renew_client_run renew_vslm_run renew_cns_run run_clients_of newClient_def new_session_def login_def
  config_of_def ensure_clients_def renew_clients_def Connect_def Disconnect_def GetVirtualCenter_def

text \<open>
  C26. A connection that succeeds hands out a VSLM client and a CNS client that are not nil and
  are the ones stored in the center. The center then has a client with a live session: the last
  request of the connection asked for that client's user session and there was one, or the
  client is a new one whose login in this connection, with the credentials of the center's
  configuration, succeeded. If the stored clients were built on the center's client before, all
  of them are built on its client afterwards. No other center changes.
\<close>

theorem connect_returns_live_clients:
  assumes "run_state (Connect V a) s = (Inr (v, n), s')"
  shows "\<exists>c c' client. vs_centers s a = Some c \<and> vs_centers s' = (vs_centers s)(a \<mapsto> c') \<and>
    vc_Client c' = Some client \<and> live_session V c s s' client \<and>
    vc_VslmClient c' = v \<and> vc_CnsClient c' = n \<and> v \<noteq> None \<and> n \<noteq> None \<and>
    (coherent c \<longrightarrow> v = Some client \<and> n = Some client \<and> coherent c')"
  using assms by (rule connect_centers) (auto simp: coherent_def)

text \<open>The witness has a client whose session has expired, so that a new one must log in.\<close>

definition expired_vcenter :: venv where
  "expired_vcenter = calm_vcenter\<lparr>v_session := (\<lambda>n k. Inr (if k = 2 then None else Some (''admin'', ''key'')))\<rparr>"

theorem connect_returns_live_clients_witness:
  "\<exists>c'. vs_centers (snd (run_state (Connect expired_vcenter 1) sample_vsphere)) = (vs_centers sample_vsphere)(1 \<mapsto> c') \<and>
    vc_Client c' = Some 3 \<and> vc_VslmClient c' = Some 3 \<and> vc_CnsClient c' = Some 3 \<and>
    live_session expired_vcenter sample_center sample_vsphere
      (snd (run_state (Connect expired_vcenter 1) sample_vsphere)) 3"
proof -
  have "run_state (Connect expired_vcenter 1) sample_vsphere =
    (Inr (Some 3, Some 3), snd (run_state (Connect expired_vcenter 1) sample_vsphere))"
    by (simp add: vsphere_evals expired_vcenter_def)
  from connect_returns_live_clients [OF this] show ?thesis
    by (auto simp: coherent_def sample_vsphere_def sample_center_def)
qed

section \<open>Stale clients\<close>

lemma connect_live_session:
  assumes "vs_centers s a = Some c" and "vc_Client c = Some k" and "vc_VslmClient c = Some v" and "vc_CnsClient c = Some n"
    and "v_session V (vs_tick s) k = Inr (Some u)"
  shows "run_state (Connect V a) s = (Inr (Some v, Some n), s\<lparr>vs_tick := Suc (vs_tick s)\<rparr>)"
  using assms by (simp add: Connect_def ensure_clients_def early_returns run_clients_of)

lemma connect_expired_session:
  assumes "vs_centers s a = Some c" and "vc_Client c = Some k" and "vc_VslmClient c = Some v" and "vc_CnsClient c = Some n"
    and "v_session V (vs_tick s) k = Inr None"
    and "run_state (newClient V a) (s\<lparr>vs_tick := Suc (vs_tick s)\<rparr>) = (Inl e, s1)" and "\<not> is_panic e"
  shows "run_state (Connect V a) s = (Inl e, s1\<lparr>vs_centers := (vs_centers s)(a \<mapsto> c\<lparr>vc_Client := None\<rparr>)\<rparr>)"
  using assms by (simp add: Connect_def ensure_clients_def renew_clients_def early_returns renew_client_run)

lemma connect_without_session:
  assumes "vs_centers s a = Some c" and "vc_Client c = None" and "vc_VslmClient c = Some v" and "vc_CnsClient c = Some n"
    and "run_state (newClient V a) s = (Inr k, s1)" and "v_session V (vs_tick s1) k = Inr (Some u)"
  shows "run_state (Connect V a) s = (Inr (Some v, Some n),
    s1\<lparr>vs_tick := Suc (vs_tick s1), vs_centers := (vs_centers s)(a \<mapsto> c\<lparr>vc_Client := Some k\<rparr>)\<rparr>)"
  using assms by (simp add: Connect_def ensure_clients_def early_returns renew_client_run run_clients_of)

lemma stale_clients:
  assumes c: "vs_centers s a = Some c" "vc_Client c = Some k" "vc_VslmClient c = Some k" "vc_CnsClient c = Some k"
    and expired: "v_session V (vs_tick s) k = Inr None"
    and failed: "run_state (newClient V a) (s\<lparr>vs_tick := Suc (vs_tick s)\<rparr>) = (Inl e, s1)" "\<not> is_panic e"
    and again: "run_state (Connect V a) s = (r, s2)"
    and login: "run_state (newClient V a) s2 = (Inr k', s3)" "v_session V (vs_tick s3) k' = Inr (Some u)"
    and s4: "run_state (Connect V a) s2 = (r', s4)"
  shows "r = Inl e" and "r' = Inr (Some k, Some k)"
    and "vs_centers s4 a = Some (c\<lparr>vc_Client := Some k'\<rparr>)"
    and "\<forall>t u'. vs_centers t a = vs_centers s4 a \<longrightarrow> v_session V (vs_tick t) k' = Inr (Some u') \<longrightarrow>
           fst (run_state (Connect V a) t) = Inr (Some k, Some k)"
proof -
  from connect_expired_session [OF c expired failed] again
  have "r = Inl e" and s2: "s2 = s1\<lparr>vs_centers := (vs_centers s)(a \<mapsto> c\<lparr>vc_Client := None\<rparr>)\<rparr>" by simp_all
  then show "r = Inl e" by simp
  have run: "run_state (Connect V a) s2 = (Inr (Some k, Some k),
    s3\<lparr>vs_tick := Suc (vs_tick s3), vs_centers := (vs_centers s2)(a \<mapsto> c\<lparr>vc_Client := None, vc_Client := Some k'\<rparr>)\<rparr>)"
    using c login by (intro connect_without_session) (simp_all add: s2)
  with s4 show "r' = Inr (Some k, Some k)" and s4': "vs_centers s4 a = Some (c\<lparr>vc_Client := Some k'\<rparr>)"
    by (auto simp: s2)
  with c show "\<forall>t u'. vs_centers t a = vs_centers s4 a \<longrightarrow> v_session V (vs_tick t) k' = Inr (Some u') \<longrightarrow>
           fst (run_state (Connect V a) t) = Inr (Some k, Some k)"
    by (auto simp: connect_live_session [where c = "c\<lparr>vc_Client := Some k'\<rparr>"])
qed

text \<open>
  C29. If the session of a center has expired and logging in again fails once, the next
  connection that succeeds returns the VSLM and CNS clients of the expired session, although
  the center has a new one; and so does every later connection, as long as the new session is
  alive.
\<close>

theorem stale_clients_after_failed_login:
  assumes c: "vs_centers s a = Some c" "vc_Client c = Some k" "vc_VslmClient c = Some k" "vc_CnsClient c = Some k"
    and expired: "v_session V (vs_tick s) k = Inr None"
    and failed: "run_state (newClient V a) (s\<lparr>vs_tick := Suc (vs_tick s)\<rparr>) = (Inl e, s1)" "\<not> is_panic e"
    and again: "run_state (Connect V a) s = (r, s2)"
    and login: "run_state (newClient V a) s2 = (Inr k', s3)" "v_session V (vs_tick s3) k' = Inr (Some u)"
    and s4: "run_state (Connect V a) s2 = (r', s4)"
  shows "r = Inl e \<and> r' = Inr (Some k, Some k) \<and> vs_centers s4 a = Some (c\<lparr>vc_Client := Some k'\<rparr>) \<and>
    (\<forall>t u'. vs_centers t a = vs_centers s4 a \<longrightarrow> v_session V (vs_tick t) k' = Inr (Some u') \<longrightarrow>
       fst (run_state (Connect V a) t) = Inr (Some k, Some k))"
  using stale_clients [OF assms] by blast

text \<open>The first session check finds the session expired, the first login is refused.\<close>

definition expiring_vcenter :: venv where
  "expiring_vcenter = calm_vcenter\<lparr>v_session := (\<lambda>n k. if n = 0 then Inr None else Inr (Some (''admin'', ''key''))),
     v_login := (\<lambda>n u user pw. if n = 3 then Some (ErrSoapFault InvalidLogin '''' ''refused'') else None)\<rparr>"

theorem stale_clients_after_failed_login_witness:
  "vs_centers (snd (run_state (Connect expiring_vcenter 1) (snd (run_state (Connect expiring_vcenter 1) sample_vsphere)))) 1
     = Some (sample_center\<lparr>vc_Client := Some 4\<rparr>) \<and>
   fst (run_state (Connect expiring_vcenter 1) (snd (run_state (Connect expiring_vcenter 1) sample_vsphere)))
     = Inr (Some 2, Some 2)"
proof -
  obtain r s2 r' s4 where runs: "run_state (Connect expiring_vcenter 1) sample_vsphere = (r, s2)"
    "run_state (Connect expiring_vcenter 1) s2 = (r', s4)" by fastforce
  obtain e s1 where failed: "run_state (newClient expiring_vcenter 1) (sample_vsphere\<lparr>vs_tick := Suc (vs_tick sample_vsphere)\<rparr>)
      = (Inl e, s1)" "\<not> is_panic e"
    by (simp add: vsphere_evals expiring_vcenter_def)
  obtain u s3 where login: "run_state (newClient expiring_vcenter 1) s2 = (Inr 4, s3)"
    "v_session expiring_vcenter (vs_tick s3) 4 = Inr (Some u)"
    using runs(1) by (auto simp: vsphere_evals expiring_vcenter_def)
  have "r = Inl e \<and> r' = Inr (Some 2, Some 2) \<and> vs_centers s4 1 = Some (sample_center\<lparr>vc_Client := Some 4\<rparr>) \<and>
    (\<forall>t u'. vs_centers t 1 = vs_centers s4 1 \<longrightarrow> v_session expiring_vcenter (vs_tick t) 4 = Inr (Some u') \<longrightarrow>
       fst (run_state (Connect expiring_vcenter 1) t) = Inr (Some 2, Some 2))"
    by (rule stale_clients_after_failed_login [OF _ _ _ _ _ failed runs(1) login runs(2)])
      (simp_all add: sample_vsphere_def sample_center_def expiring_vcenter_def)
  with runs show ?thesis by simp
qed

section \<open>Repeated calls\<close>

fun is_call :: "vevent \<Rightarrow> bool" where
  "is_call (EvCall k c) \<longleftrightarrow> True"
| "is_call _ \<longleftrightarrow> False"

lemma connect_keeps:
  assumes "session_stable I"
    and "\<And>s f. I s \<Longrightarrow> I (s\<lparr>vs_centers := (vs_centers s)(a := map_option f (vs_centers s a))\<rparr>)"
  shows "keeps I (Connect V a)"
proof -
  have tick: "I s \<Longrightarrow> I (s\<lparr>vs_tick := n\<rparr>)" for s n
    using assms(1) by (simp add: session_stable_def)
  show ?thesis
    unfolding Connect_def ensure_clients_def renew_clients_def renew_client_def renew_vslm_def renew_cns_def
      newVslmClient_def newCnsClient_def
    by (intro vkeeps newClient_keeps assms tick | assumption)+
qed

text \<open>A connection writes logins into the trace and nothing else, and leaves the managers alone.\<close>

lemma connect_trace:
  assumes "run_state (Connect V a) s = (r, s')"
  shows "\<exists>t. vs_trace s' = vs_trace s @ t \<and> filter is_call t = []" and "vs_petm s' = vs_petm s"
    and "vs_next s \<le> vs_next s'"
proof -
  have "keeps (\<lambda>u. (\<exists>t. vs_trace u = vs_trace s @ t \<and> filter is_call t = []) \<and> vs_petm u = vs_petm s \<and>
      vs_next s \<le> vs_next u) (Connect V a)"
    by (rule connect_keeps) (auto simp: session_stable_def)
  from tripleD [OF this _ assms]
  show "\<exists>t. vs_trace s' = vs_trace s @ t \<and> filter is_call t = []" "vs_petm s' = vs_petm s" "vs_next s \<le> vs_next s'"
    by simp_all
qed

lemma auth_loop_last:
  "run_state (auth_loop V pick vc call (Suc 0) cached) s =
     (case run_state (call cached) s of (Inr x, s') \<Rightarrow> (Inr (Some x), s') | (Inl e, s') \<Rightarrow> (Inl e, s'))"
  by (subst auth_loop.simps)
    (auto simp: DefaultAuthErrorRetryCount_def processError_def early_returns split: prod.splits sum.splits)

lemma auth_loop_run:
  "run_state (auth_loop V pick vc call 0 cached) s =
     (case run_state (call cached) s of
        (Inr x, s1) \<Rightarrow> (Inr (Some x), s1)
      | (Inl e, s1) \<Rightarrow>
          (if is_panic e \<or> \<not> CheckForVcAuthFaults e then (Inl e, s1)
           else (case run_state (Connect V vc) s1 of
               (Inl e', s2) \<Rightarrow> (Inl e', s2)
             | (Inr cs, s2) \<Rightarrow>
                 (case run_state (call (pick cs)) s2 of
                    (Inr x, s3) \<Rightarrow> (Inr (Some x), s3)
                  | (Inl e2, s3) \<Rightarrow> (Inl e2, s3)))))"
  by (subst auth_loop.simps)
    (auto simp: DefaultAuthErrorRetryCount_def processError_def early_returns auth_loop_last split: prod.splits sum.splits)

lemma call_service_run:
  "run_state (call_service answer c client) s =
     (case client of
        None \<Rightarrow> (Inl nil_deref, s)
      | Some k \<Rightarrow> (answer (vs_tick s) k c, s\<lparr>vs_trace := vs_trace s @ [EvCall (Some k) c], vs_tick := Suc (vs_tick s)\<rparr>))"
  by (simp add: call_service_def split: option.splits)

lemma keeps_auth_loop:
  assumes "\<And>k. keeps I (call k)" and "keeps I (Connect V vc)"
  shows "keeps I (auth_loop V pick vc call n client)"
  using assms
proof (induction V pick vc call n client rule: auth_loop.induct)
  case (1 V pick vc call n client)
  show ?case
  proof (cases "n \<le> DefaultAuthErrorRetryCount")
    case True
    then show ?thesis
      unfolding auth_loop.simps [of V pick vc call n client] processError_def
      by (auto intro!: vkeeps "1.IH" "1.prems")
  next
    case False
    then show ?thesis by (simp add: auth_loop.simps triple_return)
  qed
qed

lemma auth_loop_calls:
  assumes "run_state (auth_loop V pick vc (call_service answer c) 0 client) s = (r, s')"
  shows "\<exists>t. vs_trace s' = vs_trace s @ t \<and> length (filter is_call t) \<le> 2 \<and>
      (\<forall>k d. EvCall k d \<in> set t \<longrightarrow> d = c) \<and>
      (length (filter is_call t) = 2 \<longrightarrow>
         (\<exists>k e. client = Some k \<and> answer (vs_tick s) k c = Inl e \<and> CheckForVcAuthFaults e))"
    and "r \<noteq> Inr None" and "vs_petm s' = vs_petm s"
proof -
  have calls: "filter is_call t = [] \<Longrightarrow> EvCall k d \<notin> set t" for t k d
    by (auto simp: filter_empty_conv)
  show "\<exists>t. vs_trace s' = vs_trace s @ t \<and> length (filter is_call t) \<le> 2 \<and>
      (\<forall>k d. EvCall k d \<in> set t \<longrightarrow> d = c) \<and>
      (length (filter is_call t) = 2 \<longrightarrow>
         (\<exists>k e. client = Some k \<and> answer (vs_tick s) k c = Inl e \<and> CheckForVcAuthFaults e))"
    using assms
    by (auto simp: auth_loop_run call_service_run calls split: prod.splits sum.splits option.splits if_splits
        dest!: connect_trace(1))
  show "r \<noteq> Inr None" "vs_petm s' = vs_petm s"
    using assms
    by (auto simp: auth_loop_run call_service_run split: prod.splits sum.splits option.splits if_splits
        dest!: connect_trace(2))
qed

text \<open>
  C28. A call of the VSLM service is made at most twice, the second time only if the first one
  was answered with an authentication fault; what is called is the same both times. The loop
  never falls through: a result without an error is never nil. The client stored in the
  manager is not replaced by the refreshed one, so that after the session has expired every
  call goes through the dead client first.
\<close>

theorem vslm_calls_twice_at_most:
  assumes "run_state (vslm_call V M answer c) s = (r, s')"
  shows "r \<noteq> Inr None \<and> vs_petm s' = vs_petm s \<and>
    (\<exists>t. vs_trace s' = vs_trace s @ t \<and> length (filter is_call t) \<le> 2 \<and>
      (\<forall>k d. EvCall k d \<in> set t \<longrightarrow> d = c) \<and>
      (length (filter is_call t) = 2 \<longrightarrow>
         (\<exists>k e. vm_vsom M = Some k \<and> answer (v_calls V) (vs_tick s) k c = Inl e \<and> CheckForVcAuthFaults e)))"
  using auth_loop_calls [OF assms [unfolded vslm_call_def]] by blast

text \<open>The first call is answered with \<open>NotAuthenticated\<close>.\<close>

definition logged_out_vcenter :: venv where
  "logged_out_vcenter = calm_vcenter\<lparr>v_calls := calm_calls\<lparr>c_task :=
     (\<lambda>n k c. if n = 0 then Inl (ErrSoapFault NotAuthenticated '''' '''') else Inr ''task'')\<rparr>\<rparr>"

theorem vslm_calls_twice_at_most_witness:
  "\<exists>s'. run_state (vslm_call logged_out_vcenter (GetVslmManager 1 (Some 2)) c_task (CallDelete ''disk'')) sample_vsphere
      = (Inr (Some ''task''), s') \<and> Inr (Some ''task'') \<noteq> (Inr None :: goerr + task option) \<and>
    vs_petm s' = vs_petm sample_vsphere \<and> length (filter is_call (vs_trace s')) = 2 \<and>
    (\<exists>t. vs_trace s' = vs_trace sample_vsphere @ t \<and> length (filter is_call t) \<le> 2)"
proof -
  obtain r s' where run: "run_state (vslm_call logged_out_vcenter (GetVslmManager 1 (Some 2)) c_task (CallDelete ''disk''))
      sample_vsphere = (r, s')" by fastforce
  then have "r = Inr (Some ''task'')" and "length (filter is_call (vs_trace s')) = 2"
    by (auto simp: vslm_call_def auth_loop_run call_service_run GetVslmManager_def logged_out_vcenter_def vsphere_evals)
  with vslm_calls_twice_at_most [OF run] run show ?thesis by blast
qed

section \<open>The connections of the type manager\<close>

definition allocated :: "vsphere \<Rightarrow> bool" where
  "allocated s \<longleftrightarrow> (\<forall>a. vs_centers s a \<noteq> None \<or> vs_configs s a \<noteq> None \<longrightarrow> a < vs_next s)"

text \<open>
  The center and both service managers are there together, at the same center, with clients;
  the configuration the manager remembers exists.
\<close>

definition connections_wf :: "vsphere \<Rightarrow> bool" where
  "connections_wf s \<longleftrightarrow> allocated s \<and>
     (\<forall>k. im_vcenterConfig (vs_petm s) = Some k \<longrightarrow> vs_configs s k \<noteq> None) \<and>
     (case im_vcenter (vs_petm s) of
        None \<Rightarrow> im_vslmManager (vs_petm s) = None \<and> im_cnsManager (vs_petm s) = None
      | Some a \<Rightarrow> vs_centers s a \<noteq> None \<and>
          (\<exists>v n. im_vslmManager (vs_petm s) = Some \<lparr>vm_virtualCenter = a, vm_vsom = Some v\<rparr> \<and>
                 im_cnsManager (vs_petm s) = Some \<lparr>cm_virtualCenter = a, cm_cnsClient = Some n\<rparr>))"

lemma wf_frames:
  "connections_wf s \<Longrightarrow> connections_wf (s\<lparr>vs_tick := n\<rparr>)"
  "connections_wf s \<Longrightarrow> connections_wf (s\<lparr>vs_trace := t\<rparr>)"
  "connections_wf s \<Longrightarrow> connections_wf (s\<lparr>vs_clients := m\<rparr>)"
  "connections_wf s \<Longrightarrow> vs_next s \<le> n \<Longrightarrow> connections_wf (s\<lparr>vs_next := n\<rparr>)"
  "connections_wf s \<Longrightarrow> connections_wf (s\<lparr>vs_centers := (vs_centers s)(a := map_option f (vs_centers s a))\<rparr>)"
  "connections_wf s \<Longrightarrow> connections_wf (s\<lparr>vs_configs := (vs_configs s)(a := map_option g (vs_configs s a))\<rparr>)"
  by (fastforce simp: connections_wf_def allocated_def split: option.splits)+

lemma wf_session_stable: "session_stable connections_wf"
  by (auto simp: session_stable_def intro!: wf_frames)

lemma connect_wf: "keeps connections_wf (Connect V a)"
  by (intro connect_keeps wf_session_stable wf_frames)

lemma disconnect_frame:
  assumes "run_state (Disconnect V a) s = (r, s')"
  shows "vs_petm s' = vs_petm s \<and> vs_configs s' = vs_configs s \<and> vs_next s' = vs_next s \<and>
    (\<exists>f. vs_centers s' = (vs_centers s)(a := map_option f (vs_centers s a)) \<and> (\<forall>c. vc_Config (f c) = vc_Config c))"
proof (cases "vs_centers s a")
  case None
  with assms show ?thesis by (auto simp: Disconnect_def fun_eq_iff intro!: exI [of _ id])
next
  case (Some c)
  with assms show ?thesis
    by (auto simp: Disconnect_def option.map_comp split: option.splits
        intro!: exI [of _ "\<lambda>c. c\<lparr>vc_Client := vc_Client (the (vs_centers s' a)), vc_CnsClient := None, vc_VslmClient := None\<rparr>"])
qed

lemma disconnect_wf:
  assumes "run_state (Disconnect V a) s = (r, s')" and "connections_wf s"
  shows "connections_wf s'"
proof -
  from disconnect_frame [OF assms(1)] obtain f where
    "vs_centers s' = (vs_centers s)(a := map_option f (vs_centers s a))" by blast
  with wf_frames(5) [OF assms(2), of a f] disconnect_frame [OF assms(1)] show ?thesis
    unfolding connections_wf_def allocated_def by (simp cong: option.case_cong)
qed

lemma init_vddk_frame:
  assumes "run_state (init_vddk V ps) s = (r, s')"
  shows "vs_petm s' = vs_petm s \<and> vs_configs s' = vs_configs s \<and> vs_centers s' = vs_centers s \<and> vs_next s' = vs_next s"
  using assms
  by (auto simp: init_vddk_def vddk_config_file_def early_returns split: option.splits sum.splits pval.splits if_splits)

text \<open>A new center: its address is new, its clients are built on its own session.\<close>

lemma GetVirtualCenter_run:
  assumes "run_state (GetVirtualCenter V config) s = (r, s')" and "connections_wf s"
  shows "connections_wf s' \<and> vs_petm s' = vs_petm s \<and>
    (\<forall>a v n. r = Inr (a, v, n) \<longrightarrow> a = vs_next s \<and>
       (\<exists>c client. vs_centers s' a = Some c \<and> vc_Config c = config \<and> vc_Client c = Some client \<and>
          v = Some client \<and> n = Some client))"
proof -
  let ?new = "\<lparr>vc_Config = config, vc_Client = None, vc_CnsClient = None, vc_VslmClient = None\<rparr>"
  let ?s = "s\<lparr>vs_next := Suc (vs_next s), vs_centers := (vs_centers s)(vs_next s \<mapsto> ?new)\<rparr>"
  have wf: "connections_wf ?s"
    using assms(2) by (fastforce simp: connections_wf_def allocated_def less_Suc_eq split: option.splits)
  obtain q where con: "run_state (Connect V (vs_next s)) ?s = (q, s')"
    using assms(1) by (auto simp: GetVirtualCenter_def early_returns split: prod.splits sum.splits)
  then have r: "r = (case q of Inl e \<Rightarrow> Inl e | Inr (v, n) \<Rightarrow> Inr (vs_next s, v, n))"
    using assms(1) by (auto simp: GetVirtualCenter_def early_returns split: prod.splits sum.splits)
  have "connections_wf s'" by (rule tripleD [OF connect_wf wf con])
  moreover have "vs_petm s' = vs_petm s" using connect_trace(2) [OF con] by simp
  moreover have "\<exists>c client. vs_centers s' (vs_next s) = Some c \<and> vc_Config c = config \<and> vc_Client c = Some client \<and>
      v = Some client \<and> n = Some client" if "q = Inr (v, n)" for v n
    using con [unfolded that]
    by (rule connect_centers) (auto simp: coherent_def)
  ultimately show ?thesis by (auto simp: r split: sum.splits)
qed

lemma install_managers_wf:
  assumes "connections_wf s" and "vs_centers s a \<noteq> None" and "v \<noteq> None" and "n \<noteq> None"
  shows "connections_wf (snd (run_state (install_managers a v n) s))"
  using assms
  by (auto simp: install_managers_def connections_wf_def allocated_def GetVslmManager_def GetCnsManager_def vslm_ResetManager_def
      cns_ResetManager_def split: option.splits)

text \<open>What is left of a reload once the old center was dropped.\<close>

lemma establish_run:
  assumes "run_state (establish V ps config) s = (r, s')" and "connections_wf s"
  shows "connections_wf s'" and "im_vcenterConfig (vs_petm s') = im_vcenterConfig (vs_petm s)"
    and "r = None \<Longrightarrow> \<exists>c client. im_vcenter (vs_petm s') = Some (vs_next s) \<and> vs_centers s' (vs_next s) = Some c \<and>
       vc_Config c = config \<and> vc_Client c = Some client \<and>
       im_vslmManager (vs_petm s') = Some \<lparr>vm_virtualCenter = vs_next s, vm_vsom = Some client\<rparr> \<and>
       im_cnsManager (vs_petm s') = Some \<lparr>cm_virtualCenter = vs_next s, cm_cnsClient = Some client\<rparr>"
proof -
  obtain q s1 where get: "run_state (GetVirtualCenter V config) s = (q, s1)" by fastforce
  note g = GetVirtualCenter_run [OF get assms(2)]
  have "connections_wf s' \<and> im_vcenterConfig (vs_petm s') = im_vcenterConfig (vs_petm s) \<and>
    (r = None \<longrightarrow> (\<exists>c client. im_vcenter (vs_petm s') = Some (vs_next s) \<and> vs_centers s' (vs_next s) = Some c \<and>
       vc_Config c = config \<and> vc_Client c = Some client \<and>
       im_vslmManager (vs_petm s') = Some \<lparr>vm_virtualCenter = vs_next s, vm_vsom = Some client\<rparr> \<and>
       im_cnsManager (vs_petm s') = Some \<lparr>cm_virtualCenter = vs_next s, cm_cnsClient = Some client\<rparr>))"
  proof (cases q)
    case (Inl e)
    with assms(1) get g show ?thesis by (auto simp: establish_def)
  next
    case (Inr x)
    obtain a v n where x: "x = (a, v, n)" by (cases x)
    with g Inr obtain c client where c: "a = vs_next s" "vs_centers s1 a = Some c" "vc_Config c = config"
      "vc_Client c = Some client" "v = Some client" "n = Some client" by blast
    let ?s2 = "snd (run_state (install_managers a v n) s1)"
    have wf: "connections_wf ?s2" using g c by (intro install_managers_wf) simp_all
    have vddk: "run_state (init_vddk V ps) ?s2 = (r, s')"
      using assms(1) get Inr x by (simp add: establish_def split: prod.splits)
    have "connections_wf s'"
      using init_vddk_frame [OF vddk] wf unfolding connections_wf_def allocated_def by (simp cong: option.case_cong)
    with init_vddk_frame [OF vddk] g c show ?thesis
      by (auto simp: install_managers_def GetVslmManager_def GetCnsManager_def vslm_ResetManager_def
          cns_ResetManager_def split: option.splits)
  qed
  then show "connections_wf s'" "im_vcenterConfig (vs_petm s') = im_vcenterConfig (vs_petm s)"
    "r = None \<Longrightarrow> \<exists>c client. im_vcenter (vs_petm s') = Some (vs_next s) \<and> vs_centers s' (vs_next s) = Some c \<and>
       vc_Config c = config \<and> vc_Client c = Some client \<and>
       im_vslmManager (vs_petm s') = Some \<lparr>vm_virtualCenter = vs_next s, vm_vsom = Some client\<rparr> \<and>
       im_cnsManager (vs_petm s') = Some \<lparr>cm_virtualCenter = vs_next s, cm_cnsClient = Some client\<rparr>"
    by simp_all
qed

lemma reload_target_run:
  assumes "run_state (reload_target ps) s = (r, s')" and "connections_wf s"
  shows "connections_wf s' \<and> vs_petm s' = vs_petm s \<and> vs_centers s' = vs_centers s \<and>
    (\<forall>k. r = Inr (Some k) \<longrightarrow> vs_configs s' k \<noteq> None) \<and>
    (\<forall>k. vs_configs s k \<noteq> None \<longrightarrow> vs_configs s' k = vs_configs s k) \<and>
    (\<forall>cfg. ps \<noteq> Map.empty \<longrightarrow> GetVirtualCenterConfigFromParams ps = Inr cfg \<longrightarrow>
       r = Inr (Some (vs_next s)) \<and> vs_configs s' (vs_next s) = Some cfg)"
proof -
  from assms(2) have free: "vs_configs s (vs_next s) = None"
    by (auto simp: connections_wf_def allocated_def)
  have "connections_wf (s\<lparr>vs_next := Suc (vs_next s), vs_configs := (vs_configs s)(vs_next s \<mapsto> cfg)\<rparr>)" for cfg
    using assms(2) by (fastforce simp: connections_wf_def allocated_def less_Suc_eq split: option.splits)
  with assms free show ?thesis
    by (auto simp: reload_target_def split: if_splits sum.splits) (auto simp: connections_wf_def)
qed

lemma drop_old_center_run:
  assumes "run_state (drop_old_center V) s = (r, s')" and "connections_wf s"
  shows "connections_wf s'" and "vs_petm s' = vs_petm s \<and> vs_configs s' = vs_configs s \<and> vs_next s' = vs_next s"
    and "\<forall>a c. vs_centers s a = Some c \<longrightarrow> (\<exists>c'. vs_centers s' a = Some c' \<and> vc_Config c' = vc_Config c)"
proof -
  show "connections_wf s'"
    using assms by (auto simp: drop_old_center_def split: option.splits prod.splits if_splits dest: disconnect_wf)
  show "vs_petm s' = vs_petm s \<and> vs_configs s' = vs_configs s \<and> vs_next s' = vs_next s"
    and "\<forall>a c. vs_centers s a = Some c \<longrightarrow> (\<exists>c'. vs_centers s' a = Some c' \<and> vc_Config c' = vc_Config c)"
    using assms by (auto simp: drop_old_center_def split: option.splits prod.splits if_splits dest!: disconnect_frame)
qed

text \<open>The three ways through a reload.\<close>

lemma ReloadConfig_cases:
  assumes run: "run_state (ReloadConfig V ps) s = (r, s')" and wf: "connections_wf s"
  obtains (refused) e where "r = Some e" and "connections_wf s'" and "vs_petm s' = vs_petm s"
    | (unchanged) k where "r = None" and "connections_wf s'" and "vs_petm s' = vs_petm s"
        and "im_vcenter (vs_petm s) \<noteq> None" and "vs_centers s' = vs_centers s"
    | (dropped) e k t where "r = Some e" and "connections_wf s'"
        and "vs_petm s' = (vs_petm s)\<lparr>im_vcenterConfig := k\<rparr>"
    | (established) t k where "run_state (establish V ps k) t = (r, s')" and "connections_wf t"
        and "vs_petm t = (vs_petm s)\<lparr>im_vcenterConfig := im_vcenterConfig (vs_petm t)\<rparr>"
        and "\<forall>cfg. ps \<noteq> Map.empty \<longrightarrow> GetVirtualCenterConfigFromParams ps = Inr cfg \<longrightarrow>
           k = Some (vs_next s) \<and> vs_configs t (vs_next s) = Some cfg"
proof -
  obtain q s1 where t: "run_state (reload_target ps) s = (q, s1)" by fastforce
  note tr = reload_target_run [OF t wf]
  show thesis
  proof (cases q)
    case (Inl e)
    with run t tr show thesis by (intro refused [of e]) (simp_all add: ReloadConfig_def)
  next
    case (Inr k)
    let ?ch = "fst (run_state (config_changed k) s1)"
    have ch: "run_state (config_changed k) s1 = (?ch, s1)" by (simp add: config_changed_def)
    show thesis
    proof (cases ?ch)
      case (Inl e)
      with run t tr Inr ch show thesis by (intro refused [of e]) (simp_all add: ReloadConfig_def)
    next
      case (Inr changed)
      show thesis
      proof (cases changed)
        case False
        show thesis
        proof (cases "im_vcenter (vs_petm s1) = None")
          case True
          with run t tr \<open>q = Inr k\<close> ch Inr False show thesis
            by (intro established [of k s1]) (auto simp: ReloadConfig_def)
        next
          case v: False
          with run t tr \<open>q = Inr k\<close> ch Inr False show thesis
            by (intro unchanged) (auto simp: ReloadConfig_def)
        qed
      next
        case True
        let ?s2 = "s1\<lparr>vs_petm := (vs_petm s1)\<lparr>im_vcenterConfig := k\<rparr>\<rparr>"
        have wf2: "connections_wf ?s2"
          using tr \<open>q = Inr k\<close> unfolding connections_wf_def allocated_def by (auto cong: option.case_cong)
        obtain d s3 where d: "run_state (drop_old_center V) ?s2 = (d, s3)" by fastforce
        note dr = drop_old_center_run [OF d wf2]
        show thesis
        proof (cases d)
          case (Inl e)
          with run t tr \<open>q = Inr k\<close> ch Inr True d dr \<open>?ch = Inr changed\<close> show thesis
            by (intro dropped [of e k]) (auto simp: ReloadConfig_def)
        next
          case d': (Inr u)
          with run t tr \<open>q = Inr k\<close> ch True d dr \<open>?ch = Inr changed\<close> show thesis
            by (intro established [of k s3]) (auto simp: ReloadConfig_def)
        qed
      qed
    qed
  qed
qed

lemma ReloadConfig_wf:
  assumes "run_state (ReloadConfig V ps) s = (r, s')" and "connections_wf s"
  shows "connections_wf s'" and "r = None \<Longrightarrow> im_vcenter (vs_petm s') \<noteq> None"
  by (rule ReloadConfig_cases [OF assms]; auto dest: establish_run(1) establish_run(3))+

lemma connections_kept:
  assumes "connections_wf s"
  shows "connections_wf (snd (run_state (NewIVDProtectedEntityTypeManager V ps) s))"
    and "connections_wf (snd (run_state (ReloadConfig V ps) s))"
    and "run_state (CheckVcenterConnections V) s = (r, s') \<Longrightarrow> connections_wf s' \<and>
      (r = None \<longrightarrow> (\<exists>a v n. im_vcenter (vs_petm s') = Some a \<and>
         im_vslmManager (vs_petm s') = Some \<lparr>vm_virtualCenter = a, vm_vsom = Some v\<rparr> \<and>
         im_cnsManager (vs_petm s') = Some \<lparr>cm_virtualCenter = a, cm_cnsClient = Some n\<rparr>))"
proof -
  have "connections_wf (s\<lparr>vs_petm := no_petm\<rparr>)"
    using assms by (simp add: connections_wf_def allocated_def no_petm_def)
  then show "connections_wf (snd (run_state (NewIVDProtectedEntityTypeManager V ps) s))"
    by (auto simp: NewIVDProtectedEntityTypeManager_def split: prod.splits dest: ReloadConfig_wf)
  show "connections_wf (snd (run_state (ReloadConfig V ps) s))"
    using assms ReloadConfig_wf by (cases "run_state (ReloadConfig V ps) s") fastforce
  have split: "connections_wf t \<Longrightarrow> im_vcenter (vs_petm t) \<noteq> None \<Longrightarrow> \<exists>a v n. im_vcenter (vs_petm t) = Some a \<and>
         im_vslmManager (vs_petm t) = Some \<lparr>vm_virtualCenter = a, vm_vsom = Some v\<rparr> \<and>
         im_cnsManager (vs_petm t) = Some \<lparr>cm_virtualCenter = a, cm_cnsClient = Some n\<rparr>" for t
    by (auto simp: connections_wf_def)
  assume run: "run_state (CheckVcenterConnections V) s = (r, s')"
  have "connections_wf s' \<and> (r = None \<longrightarrow> im_vcenter (vs_petm s') \<noteq> None)"
  proof (cases "im_vcenter (vs_petm s) = None \<or> im_vslmManager (vs_petm s) = None \<or> im_cnsManager (vs_petm s) = None")
    case True
    with run have "run_state (ReloadConfig V Map.empty) s = (r, s')" by (simp add: CheckVcenterConnections_def)
    with assms ReloadConfig_wf show ?thesis by metis
  next
    case False
    with run assms show ?thesis by (auto simp: CheckVcenterConnections_def)
  qed
  with split show "connections_wf s' \<and> (r = None \<longrightarrow> (\<exists>a v n. im_vcenter (vs_petm s') = Some a \<and>
         im_vslmManager (vs_petm s') = Some \<lparr>vm_virtualCenter = a, vm_vsom = Some v\<rparr> \<and>
         im_cnsManager (vs_petm s') = Some \<lparr>cm_virtualCenter = a, cm_cnsClient = Some n\<rparr>))" by blast
qed

text \<open>
  C27. Once constructed, the type manager has its center and both service managers together or
  not at all, all at the same center and with clients that are not nil: constructing it
  establishes this, reloading and checking the connections keep it, whatever fails, and after
  a check that succeeds they are there.
\<close>

theorem connections_stay_complete:
  assumes "connections_wf s"
  shows "connections_wf (snd (run_state (NewIVDProtectedEntityTypeManager V ps) s)) \<and>
    connections_wf (snd (run_state (ReloadConfig V ps) s)) \<and>
    (\<forall>r s'. run_state (CheckVcenterConnections V) s = (r, s') \<longrightarrow> connections_wf s' \<and>
      (r = None \<longrightarrow> (\<exists>a v n. im_vcenter (vs_petm s') = Some a \<and>
         im_vslmManager (vs_petm s') = Some \<lparr>vm_virtualCenter = a, vm_vsom = Some v\<rparr> \<and>
         im_cnsManager (vs_petm s') = Some \<lparr>cm_virtualCenter = a, cm_cnsClient = Some n\<rparr>)))"
  using connections_kept [OF assms] by blast

lemma sample_wf: "connections_wf sample_vsphere"
  by (auto simp: sample_vsphere_def connections_wf_def allocated_def)

theorem connections_stay_complete_witness:
  "connections_wf (snd (run_state (ReloadConfig calm_vcenter Map.empty) sample_vsphere))"
  using connections_stay_complete [OF sample_wf] by blast

section \<open>Changing the configuration\<close>

definition same_account :: "VirtualCenterConfig \<Rightarrow> VirtualCenterConfig \<Rightarrow> bool" where
  "same_account c d \<longleftrightarrow> cfg_Host c = cfg_Host d \<and> cfg_Port c = cfg_Port d \<and> cfg_Username c = cfg_Username d \<and>
     cfg_Password c = cfg_Password d \<and> cfg_ClusterId c = cfg_ClusterId d"

lemma account_stable:
  "session_stable (\<lambda>s. \<exists>d. vs_configs s k = Some d \<and> same_account cfg d)"
  by (auto simp: session_stable_def same_account_def)

lemma establish_account:
  assumes "run_state (establish V ps config) s = (r, s')" and "vs_configs s k = Some cfg"
  shows "\<exists>d. vs_configs s' k = Some d \<and> same_account cfg d"
proof -
  let ?I = "\<lambda>s. \<exists>d. vs_configs s k = Some d \<and> same_account cfg d"
  have "keeps ?I (Connect V a)" for a by (rule connect_keeps [OF account_stable]) simp
  then have "keeps ?I (GetVirtualCenter V config)"
    unfolding GetVirtualCenter_def by (intro vkeeps) simp_all
  moreover have "keeps ?I (init_vddk V ps)"
    by (rule tripleI) (auto dest!: init_vddk_frame)
  ultimately have "keeps ?I (establish V ps config)"
    unfolding establish_def install_managers_def by (intro vkeeps) simp_all
  from tripleD [OF this _ assms(1)] assms(2) show ?thesis by (auto simp: same_account_def)
qed

text \<open>A reload with changed parameters, up to the new center.\<close>

lemma ReloadConfig_changed:
  assumes wf: "connections_wf s" and ps: "ps \<noteq> Map.empty" "GetVirtualCenterConfigFromParams ps = Inr cfg"
    and changed: "CheckIfVirtualCenterConfigChanged (Option.bind (im_vcenterConfig (vs_petm s)) (vs_configs s)) (Some cfg) = Inr True"
  obtains t and d :: "goerr + unit" where "run_state (ReloadConfig V ps) s =
      (case d of Inl e \<Rightarrow> (Some e, t) | Inr _ \<Rightarrow> run_state (establish V ps (Some (vs_next s))) t)"
    and "connections_wf t" and "vs_petm t = (vs_petm s)\<lparr>im_vcenterConfig := Some (vs_next s)\<rparr>"
    and "vs_configs t (vs_next s) = Some cfg" and "vs_next s \<le> vs_next t"
    and "\<forall>a c. vs_centers s a = Some c \<longrightarrow> (\<exists>c'. vs_centers t a = Some c' \<and> vc_Config c' = vc_Config c)"
proof -
  let ?k = "vs_next s"
  let ?s2 = "s\<lparr>vs_next := Suc ?k, vs_configs := (vs_configs s)(?k \<mapsto> cfg), vs_petm := (vs_petm s)\<lparr>im_vcenterConfig := Some ?k\<rparr>\<rparr>"
  have wf2: "connections_wf ?s2"
    using wf by (fastforce simp: connections_wf_def allocated_def less_Suc_eq split: option.splits)
  have old: "Option.bind (im_vcenterConfig (vs_petm s)) ((vs_configs s)(?k \<mapsto> cfg)) =
      Option.bind (im_vcenterConfig (vs_petm s)) (vs_configs s)"
    using wf by (cases "im_vcenterConfig (vs_petm s)") (fastforce simp: connections_wf_def allocated_def)+
  obtain d t where d: "run_state (drop_old_center V) ?s2 = (d, t)" by fastforce
  note dr = drop_old_center_run [OF d wf2]
  show thesis
  proof (rule that [of t d])
    show "run_state (ReloadConfig V ps) s =
      (case d of Inl e \<Rightarrow> (Some e, t) | Inr _ \<Rightarrow> run_state (establish V ps (Some (vs_next s))) t)"
      using ps changed d
      by (simp add: ReloadConfig_def reload_target_def config_changed_def old split: sum.splits)
  qed (use dr in auto)
qed

lemma reload_new_center:
  assumes wf: "connections_wf s" and ps: "ps \<noteq> Map.empty" "GetVirtualCenterConfigFromParams ps = Inr cfg"
    and changed: "CheckIfVirtualCenterConfigChanged (Option.bind (im_vcenterConfig (vs_petm s)) (vs_configs s)) (Some cfg) = Inr True"
    and run: "run_state (ReloadConfig V ps) s = (None, s')"
  shows "\<exists>a k c client d. im_vcenter (vs_petm s') = Some a \<and> vs_centers s a = None \<and>
    im_vcenterConfig (vs_petm s') = Some k \<and> vs_configs s' k = Some d \<and> same_account cfg d \<and>
    vs_centers s' a = Some c \<and> vc_Config c = Some k \<and> vc_Client c = Some client \<and>
    im_vslmManager (vs_petm s') = Some \<lparr>vm_virtualCenter = a, vm_vsom = Some client\<rparr> \<and>
    im_cnsManager (vs_petm s') = Some \<lparr>cm_virtualCenter = a, cm_cnsClient = Some client\<rparr>"
proof -
  obtain t and d :: "goerr + unit" where t: "run_state (ReloadConfig V ps) s =
      (case d of Inl e \<Rightarrow> (Some e, t) | Inr _ \<Rightarrow> run_state (establish V ps (Some (vs_next s))) t)"
    and wft: "connections_wf t" and pt: "vs_petm t = (vs_petm s)\<lparr>im_vcenterConfig := Some (vs_next s)\<rparr>"
    and kt: "vs_configs t (vs_next s) = Some cfg" and nt: "vs_next s \<le> vs_next t"
    by (rule ReloadConfig_changed [OF wf ps changed])
  from run t have est: "run_state (establish V ps (Some (vs_next s))) t = (None, s')" by (auto split: sum.splits)
  have "vs_centers s (vs_next t) = None"
    using wf nt by (auto simp: connections_wf_def allocated_def)
  with establish_run(2) [OF est wft] establish_run(3) [OF est wft] establish_account [OF est kt] pt show ?thesis by auto
qed

text \<open>
  A reload that finds a new host, user or password in the parameters and succeeds leaves
  the type manager with a new center that is connected with the new account, and both service
  managers at that center with clients of its session; the configuration the manager
  remembers is the center's own.
\<close>

theorem reload_moves_to_new_center:
  assumes wf: "connections_wf s" and ps: "ps \<noteq> Map.empty" "GetVirtualCenterConfigFromParams ps = Inr cfg"
    and changed: "CheckIfVirtualCenterConfigChanged (Option.bind (im_vcenterConfig (vs_petm s)) (vs_configs s)) (Some cfg) = Inr True"
    and run: "run_state (ReloadConfig V ps) s = (None, s')"
  shows "\<exists>a k c client d. im_vcenter (vs_petm s') = Some a \<and> vs_centers s a = None \<and>
    im_vcenterConfig (vs_petm s') = Some k \<and> vs_configs s' k = Some d \<and> same_account cfg d \<and>
    vs_centers s' a = Some c \<and> vc_Config c = Some k \<and> vc_Client c = Some client \<and>
    im_vslmManager (vs_petm s') = Some \<lparr>vm_virtualCenter = a, vm_vsom = Some client\<rparr> \<and>
    im_cnsManager (vs_petm s') = Some \<lparr>cm_virtualCenter = a, cm_cnsClient = Some client\<rparr>"
  by (rule reload_new_center [OF assms])

text \<open>The password of the sample center has been changed.\<close>

definition rotated_params :: params where
  "rotated_params = [''VirtualCenter'' \<mapsto> PStr ''vc'', ''port'' \<mapsto> PStr ''443'', ''user'' \<mapsto> PStr ''admin'',
     ''password'' \<mapsto> PStr ''new'', ''cluster-id'' \<mapsto> PStr ''c1'']"

definition rotated_config :: VirtualCenterConfig where
  "rotated_config = sample_config\<lparr>cfg_Password := ''new'', cfg_RoundTripperCount := 0\<rparr>"

lemma rotated_params_config: "GetVirtualCenterConfigFromParams rotated_params = Inr rotated_config"
  by (simp add: GetVirtualCenterConfigFromParams_def vc_GetStringFromParamsMap_def rotated_params_def rotated_config_def
      sample_config_def HostVcParamKey_def PortVcParamKey_def UserVcParamKey_def PasswordVcParamKey_def
      ClusterVcParamKey_def DefaultVCClientTimeoutInMinutes_def atoi_def)

lemma rotated_changed:
  "CheckIfVirtualCenterConfigChanged (Option.bind (im_vcenterConfig (vs_petm sample_vsphere)) (vs_configs sample_vsphere))
     (Some rotated_config) = Inr True"
  by (simp add: CheckIfVirtualCenterConfigChanged_def sample_vsphere_def rotated_config_def sample_config_def)

lemmas reload_evals = vsphere_evals rotated_params_config rotated_changed ReloadConfig_def reload_target_def
  config_changed_def drop_old_center_def establish_def install_managers_def init_vddk_def vddk_config_file_def

lemma rotated_reload: "fst (run_state (ReloadConfig calm_vcenter rotated_params) sample_vsphere) = None"
proof -
  have ne: "rotated_params \<noteq> Map.empty" by (simp add: rotated_params_def)
  then show ?thesis
    by (simp add: reload_evals rotated_config_def CheckIfVirtualCenterConfigChanged_def)
      (simp add: rotated_params_def vddkconfig_def)
qed

theorem reload_moves_to_new_center_witness:
  "\<exists>a. im_vcenter (vs_petm (snd (run_state (ReloadConfig calm_vcenter rotated_params) sample_vsphere))) = Some a \<and>
     vs_centers sample_vsphere a = None"
proof -
  have ne: "rotated_params \<noteq> Map.empty" by (simp add: rotated_params_def)
  have "run_state (ReloadConfig calm_vcenter rotated_params) sample_vsphere =
      (None, snd (run_state (ReloadConfig calm_vcenter rotated_params) sample_vsphere))"
    using rotated_reload by (metis prod.collapse)
  from reload_moves_to_new_center [OF sample_wf ne rotated_params_config rotated_changed this] show ?thesis by blast
qed

lemma newClient_refused:
  assumes "vs_centers s a = Some c" and "vc_Config c = Some k" and "vs_configs s k = Some cfg"
    and "\<forall>n u. v_login V n u (cfg_Username cfg) (cfg_Password cfg) \<noteq> None"
  shows "\<exists>e s'. run_state (newClient V a) s = (Inl e, s')"
  using assms
  by (auto simp: newClient_def config_of_def new_session_def login_def early_returns split: sum.splits option.splits)
    (metis option.distinct(1))+

text \<open>A refused login leaves the manager and the other centers as they are.\<close>

lemma establish_refused:
  assumes run: "run_state (establish V ps (Some k)) t = (r, s')" and wf: "connections_wf t"
    and cfg: "vs_configs t k = Some cfg" and a: "vs_centers t a \<noteq> None"
    and refused: "\<forall>n u. v_login V n u (cfg_Username cfg) (cfg_Password cfg) \<noteq> None"
  shows "r \<noteq> None \<and> vs_petm s' = vs_petm t \<and> vs_centers s' a = vs_centers t a"
proof -
  let ?new = "\<lparr>vc_Config = Some k, vc_Client = None, vc_CnsClient = None, vc_VslmClient = None\<rparr>"
  let ?t = "t\<lparr>vs_next := Suc (vs_next t), vs_centers := (vs_centers t)(vs_next t \<mapsto> ?new)\<rparr>"
  obtain e s1 where new: "run_state (newClient V (vs_next t)) ?t = (Inl e, s1)"
    using newClient_refused [of ?t "vs_next t" ?new k cfg V] cfg refused by auto
  have ne: "a \<noteq> vs_next t" using a wf by (auto simp: connections_wf_def allocated_def)
  have "run_state (GetVirtualCenter V (Some k)) t =
    (Inl e, if is_panic e then s1 else s1\<lparr>vs_centers := (vs_centers t)(vs_next t \<mapsto> ?new\<lparr>vc_Client := None\<rparr>)\<rparr>)"
    using new by (simp add: GetVirtualCenter_def Connect_def ensure_clients_def early_returns renew_client_run)
  with run newClient_frame [OF new] ne show ?thesis by (auto simp: establish_def split: if_splits)
qed

lemma reload_same_account:
  assumes "connections_wf s" and "ps \<noteq> Map.empty" and "GetVirtualCenterConfigFromParams ps = Inr cfg"
    and "im_vcenterConfig (vs_petm s) = Some k" and "vs_configs s k = Some d" and "same_account cfg d"
    and "im_vcenter (vs_petm s) \<noteq> None"
  shows "\<exists>s'. run_state (ReloadConfig V ps) s = (None, s') \<and> vs_petm s' = vs_petm s \<and> vs_centers s' = vs_centers s"
proof -
  have "k < vs_next s" using assms(1,5) by (auto simp: connections_wf_def allocated_def)
  with assms show ?thesis
    by (simp add: ReloadConfig_def reload_target_def config_changed_def CheckIfVirtualCenterConfigChanged_def same_account_def)
qed

text \<open>
  A refused login leaves the manager settled on the new account, although it and its services
  are still at the old center: the next reload with the same parameters finds nothing changed.
\<close>

definition settled_on :: "VirtualCenterConfig \<Rightarrow> vsphere \<Rightarrow> bool" where
  "settled_on cfg s \<longleftrightarrow> connections_wf s \<and> im_vcenter (vs_petm s) \<noteq> None \<and>
     (\<exists>k d. im_vcenterConfig (vs_petm s) = Some k \<and> vs_configs s k = Some d \<and> same_account cfg d)"

definition same_connections :: "vsphere \<Rightarrow> vsphere \<Rightarrow> bool" where
  "same_connections s s' \<longleftrightarrow>
     im_vcenter (vs_petm s') = im_vcenter (vs_petm s) \<and> im_vslmManager (vs_petm s') = im_vslmManager (vs_petm s) \<and>
     im_cnsManager (vs_petm s') = im_cnsManager (vs_petm s) \<and>
     (\<forall>a c. im_vcenter (vs_petm s) = Some a \<and> vs_centers s a = Some c \<longrightarrow>
        (\<exists>c'. vs_centers s' a = Some c' \<and> vc_Config c' = vc_Config c))"

lemma reload_refused:
  assumes wf: "connections_wf s" and old: "im_vcenter (vs_petm s) = Some a" "vs_centers s a = Some c"
    and ps: "ps \<noteq> Map.empty" "GetVirtualCenterConfigFromParams ps = Inr cfg"
    and changed: "CheckIfVirtualCenterConfigChanged (Option.bind (im_vcenterConfig (vs_petm s)) (vs_configs s)) (Some cfg) = Inr True"
    and refused: "\<forall>n u. v_login V n u (cfg_Username cfg) (cfg_Password cfg) \<noteq> None"
    and run: "run_state (ReloadConfig V ps) s = (r, s1)"
  shows "r \<noteq> None" and "settled_on cfg s1" and "same_connections s s1"
proof -
  let ?k = "vs_next s"
  obtain t and d :: "goerr + unit" where t: "run_state (ReloadConfig V ps) s =
      (case d of Inl e \<Rightarrow> (Some e, t) | Inr _ \<Rightarrow> run_state (establish V ps (Some ?k)) t)"
    and wft: "connections_wf t" and pt: "vs_petm t = (vs_petm s)\<lparr>im_vcenterConfig := Some ?k\<rparr>"
    and kt: "vs_configs t ?k = Some cfg"
    and ct: "\<forall>a c. vs_centers s a = Some c \<longrightarrow> (\<exists>c'. vs_centers t a = Some c' \<and> vc_Config c' = vc_Config c)"
    by (rule ReloadConfig_changed [OF wf ps changed])
  from ct old have at: "vs_centers t a \<noteq> None" by auto
  have s1: "r \<noteq> None \<and> vs_petm s1 = vs_petm t \<and> vs_centers s1 a = vs_centers t a \<and> connections_wf s1 \<and>
      (\<exists>d. vs_configs s1 ?k = Some d \<and> same_account cfg d)"
  proof (cases d)
    case (Inl e)
    with t run wft kt show ?thesis by (auto simp: same_account_def)
  next
    case (Inr u)
    with t run have est: "run_state (establish V ps (Some ?k)) t = (r, s1)" by simp
    from establish_refused [OF est wft kt at refused] establish_run(1) [OF est wft] establish_account [OF est kt]
    show ?thesis by simp
  qed
  then show "r \<noteq> None" by blast
  from s1 pt old show "settled_on cfg s1" by (auto simp: settled_on_def)
  from s1 pt old ct show "same_connections s s1" by (simp add: same_connections_def)
qed

lemma reload_settled:
  assumes "settled_on cfg s" and "ps \<noteq> Map.empty" and "GetVirtualCenterConfigFromParams ps = Inr cfg"
  shows "\<exists>s'. run_state (ReloadConfig V ps) s = (None, s') \<and> settled_on cfg s' \<and> same_connections s s'"
proof -
  from assms(1) obtain k d where kd: "connections_wf s" "im_vcenter (vs_petm s) \<noteq> None"
    "im_vcenterConfig (vs_petm s) = Some k" "vs_configs s k = Some d" "same_account cfg d"
    by (auto simp: settled_on_def)
  from reload_same_account [OF kd(1) assms(2,3) kd(3-5) kd(2)] obtain s' where
    run: "run_state (ReloadConfig V ps) s = (None, s')" "vs_petm s' = vs_petm s" "vs_centers s' = vs_centers s"
    by blast
  from kd(4) kd(1) have "k < vs_next s" by (auto simp: connections_wf_def allocated_def)
  with run(1) kd assms(2,3) have "vs_configs s' k = Some d"
    by (auto simp: ReloadConfig_def reload_target_def config_changed_def CheckIfVirtualCenterConfigChanged_def same_account_def)
  moreover have "connections_wf s'" by (rule ReloadConfig_wf(1) [OF run(1) kd(1)])
  ultimately show ?thesis using run kd by (auto simp: settled_on_def same_connections_def)
qed

lemma same_connections_trans:
  "same_connections s t \<Longrightarrow> same_connections t u \<Longrightarrow> same_connections s u"
  unfolding same_connections_def by (metis (no_types, lifting))

definition refusing_vcenter :: venv where
  "refusing_vcenter = calm_vcenter\<lparr>v_login := (\<lambda>n u user pw. Some (ErrSoapFault InvalidLogin '''' ''refused''))\<rparr>"

text \<open>
  If the parameters of the constructor cannot be parsed, it logs that it will retry on the
  first access and returns the manager; the first access then dereferences the configuration
  that was never stored, and the process panics.
\<close>

theorem unconfigured_manager_panics:
  assumes "ps \<noteq> Map.empty" and "GetVirtualCenterConfigFromParams ps = Inl e" and "\<not> is_panic e"
    and "run_state (NewIVDProtectedEntityTypeManager V ps) s = (r, s1)"
  shows "r = None \<and> fst (run_state (CheckVcenterConnections V) s1) = Some nil_deref"
  using assms
  by (auto simp: NewIVDProtectedEntityTypeManager_def ReloadConfig_def reload_target_def CheckVcenterConnections_def
      no_petm_def config_changed_def CheckIfVirtualCenterConfigChanged_def drop_old_center_def establish_def
      GetVirtualCenter_def Connect_def ensure_clients_def early_returns renew_client_run newClient_def config_of_def)


theorem unconfigured_manager_panics_witness:
  "\<exists>s1. run_state (NewIVDProtectedEntityTypeManager calm_vcenter [''user'' \<mapsto> PStr ''admin'']) sample_vsphere = (None, s1) \<and>
     fst (run_state (CheckVcenterConnections calm_vcenter) s1) = Some nil_deref"
proof -
  obtain r s1 where run: "run_state (NewIVDProtectedEntityTypeManager calm_vcenter [''user'' \<mapsto> PStr ''admin'']) sample_vsphere
      = (r, s1)" by fastforce
  have "r = None \<and> fst (run_state (CheckVcenterConnections calm_vcenter) s1) = Some nil_deref"
    by (rule unconfigured_manager_panics [OF _ _ _ run])
      (simp add: GetVirtualCenterConfigFromParams_def vc_GetStringFromParamsMap_def HostVcParamKey_def)+
  with run show ?thesis by blast
qed

end
