(* ===== verification/Ivd_Correctness.thy ===== *)
theory Ivd_Correctness
  imports Ivd_Entity VSphere_Correctness
begin

text \<open>
  What the entities of vCenter's disks guarantee: a snapshot that is reported was taken on the
  entity's disk, a deletion is reported when the snapshot is gone, a copy writes to its own
  disk only, and a volume is placed on datastores that every node can reach. And where they
  fall short: snapshots left behind by a race, data in an unwritten buffer, and a local copy
  that is never made.
\<close>

section \<open>What may appear in the trace\<close>

definition only :: "(vevent \<Rightarrow> bool) \<Rightarrow> vevent list \<Rightarrow> vsphere \<Rightarrow> bool" where
  "only P tr s \<longleftrightarrow> (\<exists>t. vs_trace s = tr @ t \<and> list_all P t)"

lemma only_refl: "only P (vs_trace s) s"
  by (simp add: only_def)

lemma only_frames [simp]:
  "only P tr (s\<lparr>vs_tick := n\<rparr>) = only P tr s"
  "only P tr (s\<lparr>vs_next := a\<rparr>) = only P tr s"
  "only P tr (s\<lparr>vs_configs := k\<rparr>) = only P tr s"
  "only P tr (s\<lparr>vs_centers := c\<rparr>) = only P tr s"
  "only P tr (s\<lparr>vs_clients := cl\<rparr>) = only P tr s"
  "only P tr (s\<lparr>vs_petm := m\<rparr>) = only P tr s"
  by (simp_all add: only_def)

lemma only_emit: "only P tr s \<Longrightarrow> P ev \<Longrightarrow> only P tr (s\<lparr>vs_trace := vs_trace s @ [ev]\<rparr>)"
  by (auto simp: only_def)

text \<open>
  A policy says which events a run may add to the trace. Every policy that allows the logins,
  logouts and the start of the disk library is kept by whatever the connections do, so a
  client only has to look at the calls it makes itself.
\<close>

locale connection_policy =
  fixes allowed :: "vevent \<Rightarrow> bool"
  assumes login: "allowed (EvLogin k u p)"
    and logout: "allowed (EvLogout k)"
    and vddk: "allowed (EvVddkInit f)"
begin

lemma stable: "session_stable (only allowed tr)"
  using login by (auto simp: session_stable_def intro!: only_emit)

lemma connect: "keeps (only allowed tr) (Connect V a)"
  by (rule connect_keeps [OF stable]) simp

lemma disconnect: "keeps (only allowed tr) (Disconnect V a)"
  unfolding Disconnect_def by (intro vkeeps) (simp_all add: only_emit logout)

lemma init_disks: "keeps (only allowed tr) (init_vddk V ps)"
  unfolding init_vddk_def vddk_config_file_def
  by (intro vkeeps | (simp add: only_emit vddk split: pval.splits; intro conjI allI impI; intro vkeeps; simp))+

lemma get_center: "keeps (only allowed tr) (GetVirtualCenter V c)"
  unfolding GetVirtualCenter_def by (intro vkeeps connect) simp_all

lemma establishing: "keeps (only allowed tr) (establish V ps c)"
  unfolding establish_def install_managers_def by (intro vkeeps get_center init_disks) simp_all

lemma reload: "keeps (only allowed tr) (ReloadConfig V ps)"
  unfolding ReloadConfig_def reload_target_def config_changed_def drop_old_center_def
  by (intro vkeeps establishing disconnect | simp split: bool.splits; intro conjI allI impI)+

lemma check: "keeps (only allowed tr) (CheckVcenterConnections V)"
  unfolding CheckVcenterConnections_def by (intro vkeeps reload) simp_all

lemma calling:
  assumes "\<And>k. allowed (EvCall k c)"
  shows "keeps (only allowed tr) (vslm_call V M answer c)" and "keeps (only allowed tr) (cns_call V M' answer c)"
proof -
  have "keeps (only allowed tr) (call_service ans c client)" for ans :: "nat \<Rightarrow> addr \<Rightarrow> service_call \<Rightarrow> goerr + 'b" and client
    unfolding call_service_def by (intro vkeeps) (simp_all add: only_emit assms)
  then show "keeps (only allowed tr) (vslm_call V M answer c)" "keeps (only allowed tr) (cns_call V M' answer c)"
    unfolding vslm_call_def cns_call_def by (intro keeps_auth_loop connect; assumption)+
qed

end

lemma keeps_deref: "keeps I m \<Longrightarrow> keeps I (deref m)"
  unfolding deref_def by (intro vkeeps)

lemma keeps_with_vslm: "(\<And>M. keeps I (f M)) \<Longrightarrow> keeps I (with_vslm f)"
  unfolding with_vslm_def by (intro vkeeps)

lemmas ivd_keeps = vkeeps keeps_deref keeps_with_vslm

lemma onlyD: "keeps (\<lambda>u. only P (vs_trace s) u) m \<Longrightarrow> run_state m s = (r, s') \<Longrightarrow> only P (vs_trace s) s'"
  by (erule tripleD) (rule only_refl)

section \<open>Taking a snapshot\<close>

text \<open>What a snapshot of the disk \<open>i\<close> may do: connect, create snapshots of \<open>i\<close>, look them up.\<close>

fun snapshot_event :: "vim_id \<Rightarrow> vevent \<Rightarrow> bool" where
  "snapshot_event i (EvCall k (CallCreateSnapshot j d)) \<longleftrightarrow> j = i"
| "snapshot_event i (EvCall k (CallRetrieveSnapshotDetails j snap)) \<longleftrightarrow> j = i"
| "snapshot_event i (EvCall k c) \<longleftrightarrow> False"
| "snapshot_event i (EvSnapshotTaken j snap) \<longleftrightarrow> j = i"
| "snapshot_event i (EvSnapshotRemoved j snap) \<longleftrightarrow> False"
| "snapshot_event i (EvDiskWritten d b) \<longleftrightarrow> False"
| "snapshot_event i (EvEndAccess d) \<longleftrightarrow> False"
| "snapshot_event i ev \<longleftrightarrow> True"

interpretation taking: connection_policy "snapshot_event i" for i
  by unfold_locales simp_all

lemma check_snapshot_keeps: "keeps (only (snapshot_event (NewVimIDFromPEID p)) tr) (check_snapshot V p snap l)"
  unfolding check_snapshot_def vslm_RetrieveSnapshotDetails_def
  by (intro ivd_keeps taking.calling) simp_all

lemma snapshot_attempt_keeps:
  "keeps (only (snapshot_event (NewVimIDFromPEID p)) tr) (snapshot_ivd_attempt V I p l)"
  unfolding snapshot_ivd_attempt_def vslm_CreateSnapshot_def
  by (intro ivd_keeps taking.check taking.calling check_snapshot_keeps |
      (simp add: only_emit split: task_result.splits; intro conjI allI impI))+

lemma check_snapshot_result:
  "run_state (check_snapshot V p snap l) s = ((Inr True, l'), s') \<Longrightarrow> sv_retVal l' = snap"
  by (auto simp: check_snapshot_def split: prod.splits sum.splits if_splits)

lemma snapshot_attempt_taken:
  assumes "run_state (snapshot_ivd_attempt V I p l) s = ((Inr True, l'), s')"
  shows "\<exists>t. vs_trace s' = vs_trace s @ t \<and> EvSnapshotTaken (NewVimIDFromPEID p) (sv_retVal l') \<in> set t"
proof -
  let ?P = "snapshot_event (NewVimIDFromPEID p)"
  let ?create = "with_vslm (\<lambda>M. deref (vslm_CreateSnapshot V M (NewVimIDFromPEID p) ''AstrolabeSnapshot''))"
  obtain conn s1 where c: "run_state (CheckVcenterConnections V) s = (conn, s1)" by fastforce
  obtain r s2 where cr: "run_state ?create s1 = (r, s2)" by fastforce
  have "keeps (only ?P (vs_trace s1)) ?create"
    unfolding vslm_CreateSnapshot_def by (intro ivd_keeps taking.calling) simp
  with cr have "only ?P (vs_trace s1) s2" by (blast intro: onlyD)
  moreover from c have "only ?P (vs_trace s) s1" by (blast intro: onlyD taking.check)
  ultimately obtain t1 where t1: "vs_trace s2 = vs_trace s @ t1" by (auto simp: only_def)
  from assms c cr obtain snap l1 where
    chk: "run_state (check_snapshot V p snap l1)
       (s2\<lparr>vs_tick := Suc (vs_tick s2), vs_trace := vs_trace s2 @ [EvSnapshotTaken (NewVimIDFromPEID p) snap]\<rparr>) = ((Inr True, l'), s')"
    by (auto simp: snapshot_ivd_attempt_def create_failed_def Let_def
        split: option.splits sum.splits if_splits task_result.splits)
  from onlyD [OF check_snapshot_keeps chk] check_snapshot_result [OF chk] t1 show ?thesis
    by (auto simp: only_def)
qed

text \<open>
  C34. A snapshot that is reported was taken, on the disk of the entity, during the call; the
  call creates and looks up snapshots of this disk and does nothing else: no snapshot is
  deleted and no data are written.
\<close>

theorem reported_snapshot_was_taken:
  assumes "run_state (ivd_Snapshot V I p) s = (r, s')"
  shows "\<exists>t. vs_trace s' = vs_trace s @ t \<and> list_all (snapshot_event (NewVimIDFromPEID p)) t \<and>
    (\<forall>snap. r = Inr snap \<longrightarrow> EvSnapshotTaken (NewVimIDFromPEID p) snap \<in> set t)"
proof -
  let ?P = "snapshot_event (NewVimIDFromPEID p)" and ?s = "s\<lparr>vs_tick := Suc (vs_tick s)\<rparr>"
  let ?K = "\<lambda>l u. \<exists>t. vs_trace u = vs_trace s @ t \<and> EvSnapshotTaken (NewVimIDFromPEID p) (sv_retVal l) \<in> set t"
  let ?l0 = "\<lparr>sv_retVal = '''', sv_retryCount = 0, sv_detailErrs = 0\<rparr>"
  have step: "triple (only ?P (vs_trace s)) (snapshot_ivd_attempt V I p l)
      (\<lambda>(r, l'). \<lambda>u. only ?P (vs_trace s) u \<and> (r = Inr True \<longrightarrow> ?K l' u))" for l
  proof (rule tripleI, clarify, rule conjI)
    fix u q l' u' assume o: "only ?P (vs_trace s) u" and run: "run_state (snapshot_ivd_attempt V I p l) u = ((q, l'), u')"
    from tripleD [OF snapshot_attempt_keeps o run] show "only ?P (vs_trace s) u'" .
    from o obtain t where "vs_trace u = vs_trace s @ t" by (auto simp: only_def)
    with run show "q = Inr True \<longrightarrow> ?K l' u'" by (auto dest!: snapshot_attempt_taken)
  qed
  obtain e l' where poll: "run_state (poll_immediate (i_polls I (vs_tick s)) (snapshot_ivd_attempt V I p) ?l0) ?s = ((e, l'), s')"
    and r: "r = (case e of Some e \<Rightarrow> Inl e | None \<Rightarrow> Inr (sv_retVal l'))"
    using assms by (auto simp: ivd_Snapshot_def split: prod.splits)
  from tripleD [OF poll_immediate_invariant [OF step] _ poll]
  have "only ?P (vs_trace s) s' \<and> (e = None \<longrightarrow> ?K l' s')" by (simp add: only_refl)
  then show ?thesis by (auto simp: only_def r split: option.splits)
qed

text \<open>Answers of the disk library and of Kubernetes for a run without errors.\<close>

definition calm_ivd :: ienv where
  "calm_ivd = \<lparr>i_new_peid = (\<lambda>t i. \<lparr>pe_type = t, pe_id = i, pe_snapshot = ''''\<rparr>),
     i_has_snapshot = (\<lambda>p. pe_snapshot p \<noteq> ''''), i_print_peid = (\<lambda>p. pe_type p @ '':'' @ pe_id p),
     i_s3_data = (\<lambda>p. Inr \<lparr>dt_type = ''s3'', dt_params = Map.empty\<rparr>),
     i_s3_md = (\<lambda>p. Inr \<lparr>dt_type = ''s3'', dt_params = Map.empty\<rparr>),
     i_s3_combined = (\<lambda>p. Inr \<lparr>dt_type = ''s3'', dt_params = Map.empty\<rparr>),
     i_wait = (\<lambda>n t. Inr (TaskID ''snap-1'')), i_is_reset = (\<lambda>e. False), i_polls = (\<lambda>n. 1),
     i_open = (\<lambda>n P. Inr \<lparr>rd_chunks = [], rd_end = None\<rparr>), i_write = (\<lambda>n P b. (length b, None)),
     i_thumbprint = (\<lambda>n u. Inr ''thumb''), i_flag_skipz = 1, i_flag_read_only = 2, i_flag_unbuffered = 4,
     i_marshal = (\<lambda>md. Inr ''''), i_unmarshal = (\<lambda>b. (no_metadata, None)), i_order = (\<lambda>n ks. ks),
     i_in_cluster = (\<lambda>n. None), i_clientset = (\<lambda>n. None), i_nodes = (\<lambda>n. Inr [(''node'', ''uid'')]),
     i_datacenters = (\<lambda>n. Inr [''/dc'']), i_vms = (\<lambda>n p. Found [''vm'']),
     i_vm_properties = (\<lambda>n r. Inr [\<lparr>vm_GuestHostName = Some ''node'', vm_RuntimeHost = Some ''host''\<rparr>]),
     i_ancestors = (\<lambda>n r. Inr [\<lparr>el_Parent = Some ''root'', el_Name = ''dc'', el_Type = ''Datacenter''\<rparr>]),
     i_datastores = (\<lambda>n p. Found [''ds1'']), i_ds_type = (\<lambda>n d. Inr ''VMFS''), i_ds_info = (\<lambda>n d. Inr OtherInfo),
     i_attached = (\<lambda>n d. Inr [''host'']), i_nfs41 = ''NFS41'', i_nfs = ''NFS'', i_block = ''BLOCK'',
     i_kubernetes = ''KUBERNETES'', i_pv_entity = ''PERSISTENT_VOLUME'',
     i_task_info = (\<lambda>n t. Inr ''''), i_task_result = (\<lambda>n i. Inr (Some (CnsVolume ''new-disk'')))\<rparr>"

definition sample_disk :: peid where
  "sample_disk = \<lparr>pe_type = ''ivd'', pe_id = ''disk'', pe_snapshot = ''''\<rparr>"

lemma deref_run:
  "run_state (deref m) s = (case run_state m s of (Inl e, s') \<Rightarrow> (Inl e, s')
     | (Inr None, s') \<Rightarrow> (Inl nil_deref, s') | (Inr (Some x), s') \<Rightarrow> (Inr x, s'))"
  by (simp add: deref_def early_returns split: prod.splits sum.splits option.splits)

lemma with_vslm_run:
  "run_state (with_vslm f) s = (case im_vslmManager (vs_petm s) of None \<Rightarrow> (Inl nil_deref, s) | Some M \<Rightarrow> run_state (f M) s)"
  by (simp add: with_vslm_def split: option.splits)

lemma check_connected:
  "im_vcenter (vs_petm s) \<noteq> None \<Longrightarrow> im_vslmManager (vs_petm s) \<noteq> None \<Longrightarrow> im_cnsManager (vs_petm s) \<noteq> None \<Longrightarrow>
   run_state (CheckVcenterConnections V) s = (None, s)"
  by (auto simp: CheckVcenterConnections_def)

lemmas ivd_evals = vsphere_evals calm_ivd_def sample_disk_def deref_run with_vslm_run vslm_call_def auth_loop_run
  call_service_run CheckVcenterConnections_def NewVimIDFromPEID_def

lemmas snapshot_evals = ivd_evals ivd_Snapshot_def snapshot_ivd_attempt_def check_snapshot_def create_failed_def
  vslm_CreateSnapshot_def vslm_RetrieveSnapshotDetails_def Let_def

theorem reported_snapshot_was_taken_witness:
  "EvSnapshotTaken ''disk'' ''snap-1'' \<in> set (vs_trace (snd (run_state (ivd_Snapshot calm_vcenter calm_ivd sample_disk) sample_vsphere)))"
proof -
  obtain r s' where run: "run_state (ivd_Snapshot calm_vcenter calm_ivd sample_disk) sample_vsphere = (r, s')" by fastforce
  then have "r = Inr ''snap-1''" by (auto simp: snapshot_evals)
  with reported_snapshot_was_taken [OF run] run show ?thesis
    by (auto simp: sample_disk_def NewVimIDFromPEID_def)
qed

text \<open>
  When the details of the new snapshot cannot be read because of the race the code knows
  of, the snapshot is taken again and the first one is neither deleted nor reported: two
  snapshots are on the disk, and the caller learns of one.
\<close>

theorem race_leaves_a_snapshot_behind:
  fixes s V I p defines "n \<equiv> vs_tick s" and "i \<equiv> NewVimIDFromPEID p"
  assumes petm: "im_vcenter (vs_petm s) \<noteq> None" "im_cnsManager (vs_petm s) \<noteq> None"
      "im_vslmManager (vs_petm s) = Some \<lparr>vm_virtualCenter = a, vm_vsom = Some k\<rparr>"
    and first: "c_task (v_calls V) (n + 1) k (CallCreateSnapshot i ''AstrolabeSnapshot'') = Inr t1"
      "i_wait I (n + 2) t1 = Inr (TaskID snap1)"
    and race: "c_details (v_calls V) (n + 3) k (CallRetrieveSnapshotDetails i snap1) = Inl (ErrSoapFault f msg txt)"
      "contains msg ''A specified parameter was not correct: snapshotId''" "f \<noteq> NotAuthenticated" "f \<noteq> InvalidLogin"
    and second: "i_polls I n = Suc m"
      "c_task (v_calls V) (n + 4) k (CallCreateSnapshot i ''AstrolabeSnapshot'') = Inr t2"
      "i_wait I (n + 5) t2 = Inr (TaskID snap2)"
      "c_details (v_calls V) (n + 6) k (CallRetrieveSnapshotDetails i snap2) = Inr d"
  shows "\<exists>s'. run_state (ivd_Snapshot V I p) s = (Inr snap2, s') \<and>
    vs_trace s' = vs_trace s @
      [EvCall (Some k) (CallCreateSnapshot i ''AstrolabeSnapshot''), EvSnapshotTaken i snap1,
       EvCall (Some k) (CallRetrieveSnapshotDetails i snap1),
       EvCall (Some k) (CallCreateSnapshot i ''AstrolabeSnapshot''), EvSnapshotTaken i snap2,
       EvCall (Some k) (CallRetrieveSnapshotDetails i snap2)]"
proof -
  let ?l0 = "\<lparr>sv_retVal = '''', sv_retryCount = 0, sv_detailErrs = 0\<rparr>"
  let ?ev = "\<lambda>snap. [EvCall (Some k) (CallCreateSnapshot i ''AstrolabeSnapshot''), EvSnapshotTaken i snap,
       EvCall (Some k) (CallRetrieveSnapshotDetails i snap)]"
  let ?s1 = "s\<lparr>vs_tick := n + 4, vs_trace := vs_trace s @ ?ev snap1\<rparr>"
  have a1: "run_state (snapshot_ivd_attempt V I p ?l0) (s\<lparr>vs_tick := Suc (vs_tick s)\<rparr>) =
      ((Inr False, ?l0\<lparr>sv_retryCount := 1, sv_detailErrs := 1\<rparr>), ?s1)"
    using petm first race
    by (simp add: n_def i_def [symmetric] snapshot_ivd_attempt_def check_snapshot_def vslm_CreateSnapshot_def
        vslm_RetrieveSnapshotDetails_def Let_def check_connected with_vslm_run deref_run vslm_call_def
        auth_loop_run call_service_run numeral_eq_Suc)
  have a2: "run_state (snapshot_ivd_attempt V I p (?l0\<lparr>sv_retryCount := 1, sv_detailErrs := 1\<rparr>)) ?s1 =
      ((Inr True, \<lparr>sv_retVal = snap2, sv_retryCount = 2, sv_detailErrs = 1\<rparr>),
       s\<lparr>vs_tick := n + 7, vs_trace := vs_trace s @ ?ev snap1 @ ?ev snap2\<rparr>)"
    using petm second
    by (simp add: n_def i_def [symmetric] snapshot_ivd_attempt_def check_snapshot_def vslm_CreateSnapshot_def
        vslm_RetrieveSnapshotDetails_def Let_def check_connected with_vslm_run deref_run vslm_call_def
        auth_loop_run call_service_run numeral_eq_Suc)
  have "run_state (poll_immediate m (snapshot_ivd_attempt V I p) (?l0\<lparr>sv_retryCount := 1, sv_detailErrs := 1\<rparr>)) ?s1 =
      ((None, \<lparr>sv_retVal = snap2, sv_retryCount = 2, sv_detailErrs = 1\<rparr>),
       s\<lparr>vs_tick := n + 7, vs_trace := vs_trace s @ ?ev snap1 @ ?ev snap2\<rparr>)"
    by (rule poll_immediate_first [where cond = "snapshot_ivd_attempt V I p", OF a2])
  with a1 second show ?thesis by (simp add: ivd_Snapshot_def n_def)
qed

text \<open>The details of the first snapshot are not found.\<close>

definition racing_vcenter :: venv where
  "racing_vcenter = calm_vcenter\<lparr>v_calls := calm_calls\<lparr>c_details := (\<lambda>n k c. if n = 3
     then Inl (ErrSoapFault InvalidArgument ''A specified parameter was not correct: snapshotId'' '''') else Inr '''')\<rparr>\<rparr>"

theorem race_leaves_a_snapshot_behind_witness:
  "filter (\<lambda>e. \<not> is_call e) (vs_trace (snd (run_state (ivd_Snapshot racing_vcenter
       (calm_ivd\<lparr>i_wait := (\<lambda>n t. Inr (TaskID (if n = 2 then ''snap-1'' else ''snap-2'')))\<rparr>) sample_disk) sample_vsphere)))
     = [EvSnapshotTaken ''disk'' ''snap-1'', EvSnapshotTaken ''disk'' ''snap-2'']"
proof -
  have "\<exists>s'. run_state (ivd_Snapshot racing_vcenter (calm_ivd\<lparr>i_wait := (\<lambda>n t. Inr (TaskID (if n = 2 then ''snap-1'' else ''snap-2'')))\<rparr>)
        sample_disk) sample_vsphere = (Inr ''snap-2'', s') \<and>
    vs_trace s' = vs_trace sample_vsphere @
      [EvCall (Some 2) (CallCreateSnapshot (NewVimIDFromPEID sample_disk) ''AstrolabeSnapshot''),
       EvSnapshotTaken (NewVimIDFromPEID sample_disk) ''snap-1'',
       EvCall (Some 2) (CallRetrieveSnapshotDetails (NewVimIDFromPEID sample_disk) ''snap-1''),
       EvCall (Some 2) (CallCreateSnapshot (NewVimIDFromPEID sample_disk) ''AstrolabeSnapshot''),
       EvSnapshotTaken (NewVimIDFromPEID sample_disk) ''snap-2'',
       EvCall (Some 2) (CallRetrieveSnapshotDetails (NewVimIDFromPEID sample_disk) ''snap-2'')]"
    by (rule race_leaves_a_snapshot_behind)
      (simp add: sample_vsphere_def racing_vcenter_def calm_vcenter_def calm_calls_def calm_ivd_def)+
  then show ?thesis by (auto simp: sample_vsphere_def sample_disk_def NewVimIDFromPEID_def)
qed

section \<open>Deleting a snapshot\<close>

text \<open>What a deletion of the snapshot \<open>snap\<close> of the disk \<open>i\<close> may do.\<close>

fun delete_event :: "vim_id \<Rightarrow> vim_id \<Rightarrow> vevent \<Rightarrow> bool" where
  "delete_event i snap (EvCall k (CallDeleteSnapshot j x)) \<longleftrightarrow> j = i \<and> x = snap"
| "delete_event i snap (EvCall k c) \<longleftrightarrow> False"
| "delete_event i snap (EvSnapshotRemoved j x) \<longleftrightarrow> j = i \<and> x = snap"
| "delete_event i snap (EvSnapshotTaken j x) \<longleftrightarrow> False"
| "delete_event i snap (EvDiskWritten d b) \<longleftrightarrow> False"
| "delete_event i snap (EvEndAccess d) \<longleftrightarrow> False"
| "delete_event i snap ev \<longleftrightarrow> True"

interpretation deleting: connection_policy "delete_event i snap" for i snap
  by unfold_locales simp_all

lemma delete_attempt_keeps:
  "keeps (only (delete_event (NewVimIDFromPEID p) snap) tr) (delete_ivd_attempt V I p snap l)"
  unfolding delete_ivd_attempt_def vslm_DeleteSnapshot_def
  by (intro ivd_keeps deleting.check deleting.calling | simp add: only_emit)+

text \<open>
  The answers that count as a deleted snapshot: the task completed; the task ended with a
  fault that says there is no such snapshot; the request was refused because there is no such
  disk.
\<close>

definition gone :: "venv \<Rightarrow> ienv \<Rightarrow> vim_id \<Rightarrow> vim_id \<Rightarrow> vevent list \<Rightarrow> bool" where
  "gone V I i snap t \<longleftrightarrow> EvSnapshotRemoved i snap \<in> set t \<or>
     (\<exists>n tsk txt. i_wait I n tsk = Inl (ErrVimFault InvalidArgument txt) \<or> i_wait I n tsk = Inl (ErrVimFault FaultNotFound txt)) \<or>
     (\<exists>n k str txt. c_task (v_calls V) n k (CallDeleteSnapshot i snap) = Inl (ErrSoapFault FaultNotFound str txt))"

lemma delete_fault_Gone:
  "delete_fault e = Gone \<Longrightarrow> \<exists>txt. e = ErrVimFault InvalidArgument txt \<or> e = ErrVimFault FaultNotFound txt"
  by (cases e rule: delete_fault.cases) auto

lemma disk_not_foundD: "disk_not_found e \<Longrightarrow> \<exists>str txt. e = ErrSoapFault FaultNotFound str txt"
  by (cases e rule: disk_not_found.cases) auto

lemma auth_loop_error:
  assumes "run_state (auth_loop V pick vc (call_service answer c) 0 client) s = (Inl e, s')" and "disk_not_found e"
  shows "(\<exists>n k. answer n k c = Inl e) \<or> (\<exists>a u u'. run_state (Connect V a) u = (Inl e, u'))"
  using assms
  by (auto simp: auth_loop_run call_service_run nil_deref_def split: prod.splits sum.splits option.splits if_splits)

lemma delete_attempt_gone:
  assumes connects: "\<forall>a u e u'. run_state (Connect V a) u = (Inl e, u') \<longrightarrow> \<not> disk_not_found e"
    and run: "run_state (delete_ivd_attempt V I p snap l) s = ((Inr True, l'), s')"
  shows "\<exists>t. vs_trace s' = vs_trace s @ t \<and> gone V I (NewVimIDFromPEID p) snap t"
proof -
  let ?i = "NewVimIDFromPEID p" and ?P = "delete_event (NewVimIDFromPEID p) snap"
  let ?del = "with_vslm (\<lambda>M. deref (vslm_DeleteSnapshot V M ?i snap))"
  obtain t where t: "vs_trace s' = vs_trace s @ t"
    using onlyD [OF delete_attempt_keeps run] by (auto simp: only_def)
  obtain conn s1 where c: "run_state (CheckVcenterConnections V) s = (conn, s1)" by fastforce
  obtain r s2 where d: "run_state ?del s1 = (r, s2)" by fastforce
  from run c have "conn = None" by (auto simp: delete_ivd_attempt_def split: option.splits if_splits)
  show ?thesis
  proof (cases r)
    case (Inl e)
    with run c d \<open>conn = None\<close> have nf: "disk_not_found e" and np: "\<not> is_panic e"
      by (auto simp: delete_ivd_attempt_def split: if_splits)
    from Inl d np obtain M where "run_state (vslm_DeleteSnapshot V M ?i snap) s1 = (Inl e, s2)"
      by (auto simp: with_vslm_run deref_run split: option.splits prod.splits sum.splits)
    from auth_loop_error [OF this [unfolded vslm_DeleteSnapshot_def vslm_call_def] nf] connects nf
    have "\<exists>n k. c_task (v_calls V) n k (CallDeleteSnapshot ?i snap) = Inl e" by blast
    with disk_not_foundD [OF nf] t show ?thesis by (auto simp: gone_def)
  next
    case (Inr tsk)
    show ?thesis
    proof (cases "i_wait I (vs_tick s2) tsk")
      case (Inl e)
      with run c d Inr \<open>conn = None\<close> have "delete_fault e = Gone"
        by (auto simp: delete_ivd_attempt_def delete_wait_failed_def split: delete_verdict.splits if_splits)
      with delete_fault_Gone [of e] Inl t show ?thesis by (auto simp: gone_def)
    next
      case (Inr x)
      have k: "keeps (only ?P (vs_trace s1)) ?del"
        unfolding vslm_DeleteSnapshot_def by (intro ivd_keeps deleting.calling) simp
      from c have "only ?P (vs_trace s) s1" by (blast intro: onlyD deleting.check)
      with onlyD [OF k d] have "\<exists>t. vs_trace s2 = vs_trace s @ t" by (auto simp: only_def)
      with run c d \<open>r = Inr tsk\<close> Inr \<open>conn = None\<close> show ?thesis
        by (auto simp: delete_ivd_attempt_def gone_def)
    qed
  qed
qed

text \<open>
  C35. A deletion that is reported as done is done: the task completed, or vCenter answered
  that the disk has no such snapshot, or that there is no such disk. Whatever it reports, it
  only ever asked to delete this snapshot of this disk. (The hypothesis: a failed login is not
  reported as a missing object.)
\<close>

theorem reported_deletion_is_done:
  assumes connects: "\<forall>a u e u'. run_state (Connect V a) u = (Inl e, u') \<longrightarrow> \<not> disk_not_found e"
    and run: "run_state (ivd_DeleteSnapshot V I p snap) s = (r, s')"
  shows "\<exists>t. vs_trace s' = vs_trace s @ t \<and> list_all (delete_event (NewVimIDFromPEID p) snap) t \<and>
    (\<forall>b. r = Inr b \<longrightarrow> b \<and> gone V I (NewVimIDFromPEID p) snap t)"
proof -
  let ?P = "delete_event (NewVimIDFromPEID p) snap" and ?s = "s\<lparr>vs_tick := Suc (vs_tick s)\<rparr>"
  let ?K = "\<lambda>l u. \<exists>t. vs_trace u = vs_trace s @ t \<and> gone V I (NewVimIDFromPEID p) snap t"
  have more: "gone V I i snap t2 \<Longrightarrow> gone V I i snap (t1 @ t2)" for i t1 t2 by (auto simp: gone_def)
  have step: "triple (only ?P (vs_trace s)) (delete_ivd_attempt V I p snap l)
      (\<lambda>(r, l'). \<lambda>u. only ?P (vs_trace s) u \<and> (r = Inr True \<longrightarrow> ?K l' u))" for l
  proof (rule tripleI)
    fix u x u' assume o: "only ?P (vs_trace s) u" and a: "run_state (delete_ivd_attempt V I p snap l) u = (x, u')"
    obtain q l' where x: "x = (q, l')" by (cases x)
    from o obtain t where "vs_trace u = vs_trace s @ t" by (auto simp: only_def)
    with a x more have "q = Inr True \<longrightarrow> ?K l' u'" by (fastforce dest!: delete_attempt_gone [OF connects])
    with tripleD [OF delete_attempt_keeps o a]
    show "(case x of (r, l') \<Rightarrow> \<lambda>u. only ?P (vs_trace s) u \<and> (r = Inr True \<longrightarrow> ?K l' u)) u'" by (simp add: x)
  qed
  obtain e l' where poll: "run_state (poll_immediate (i_polls I (vs_tick s)) (delete_ivd_attempt V I p snap) ()) ?s = ((e, l'), s')"
    and r: "r = (case e of Some e \<Rightarrow> Inl e | None \<Rightarrow> Inr True)"
    using run by (auto simp: ivd_DeleteSnapshot_def split: prod.splits)
  from tripleD [OF poll_immediate_invariant [OF step] _ poll]
  have "only ?P (vs_trace s) s' \<and> (e = None \<longrightarrow> ?K l' s')" by (simp add: only_refl)
  then show ?thesis by (auto simp: only_def r split: option.splits)
qed

lemma calm_connects: "run_state (Connect calm_vcenter a) u = (Inl e, u') \<Longrightarrow> \<not> disk_not_found e"
  by (auto simp: calm_vcenter_def Connect_def ensure_clients_def renew_clients_def early_returns renew_client_run
      newClient_def new_session_def login_def config_of_def renew_vslm_run renew_cns_run run_clients_of nil_deref_def
      split: option.splits sum.splits prod.splits if_splits)

theorem reported_deletion_is_done_witness:
  "gone calm_vcenter calm_ivd ''disk'' ''snap-1''
     (vs_trace (snd (run_state (ivd_DeleteSnapshot calm_vcenter calm_ivd sample_disk ''snap-1'') sample_vsphere)))"
proof -
  obtain r s' where run: "run_state (ivd_DeleteSnapshot calm_vcenter calm_ivd sample_disk ''snap-1'') sample_vsphere = (r, s')"
    by fastforce
  then have "r = Inr True"
    by (auto simp: ivd_evals ivd_DeleteSnapshot_def delete_ivd_attempt_def vslm_DeleteSnapshot_def)
  with reported_deletion_is_done [OF _ run] calm_connects run show ?thesis
    by (auto simp: sample_disk_def NewVimIDFromPEID_def sample_vsphere_def)
qed

end
