(* ===== verification/Ivd_Copy_Correctness.thy ===== *)
theory Ivd_Copy_Correctness
  imports Ivd_Correctness
begin

text \<open>
  Copying data to disks and placing new volumes: what reaches the disk, what else a copy
  touches, which datastores a new volume may be placed on, and which way a copy takes.
\<close>

section \<open>The buffered copy\<close>

definition written_to :: "string \<Rightarrow> vevent list \<Rightarrow> string" where
  "written_to d tr = concat (map (\<lambda>e. case e of EvDiskWritten d' b \<Rightarrow> if d' = d then b else [] | _ \<Rightarrow> []) tr)"

lemma written_to_append [simp]: "written_to d (t @ u) = written_to d t @ written_to d u"
  by (simp add: written_to_def)

lemma written_to_write [simp]: "written_to d [EvDiskWritten d b] = b"
  by (simp add: written_to_def)

lemma flush_complete:
  assumes "\<forall>n b. i_write I n P b = (length b, None)"
  shows "run_state (flush I P buf) s = ((None, []), if buf = [] then s else
    s\<lparr>vs_tick := Suc (vs_tick s), vs_trace := vs_trace s @ [EvDiskWritten (cp_fcdId P) buf]\<rparr>)"
  using assms by (simp add: flush_def)

text \<open>The part of the data that fills whole buffers.\<close>

definition whole_buffers :: "nat \<Rightarrow> string \<Rightarrow> string" where
  "whole_buffers sz xs = take (sz * (length xs div sz)) xs"

lemma whole_buffers_short: "length xs < sz \<Longrightarrow> whole_buffers sz xs = []"
  by (simp add: whole_buffers_def)

lemma whole_buffers_Cons:
  assumes "length buf = sz" and "0 < sz"
  shows "whole_buffers sz (buf @ xs) = buf @ whole_buffers sz xs"
proof -
  have "(sz + length xs) div sz = Suc (length xs div sz)"
    using assms(2) by (simp add: div_add_self1 del: div_mult_self1)
  then show ?thesis using assms(1) by (simp add: whole_buffers_def)
qed

lemma read_from_complete:
  assumes "\<forall>n b. i_write I n P b = (length b, None)" and "0 < sz" and "length buf \<le> sz" and "[] \<notin> set chunks"
  shows "\<exists>s'. run_state (read_from I P sz buf w e chunks None) s = ((w + length (concat chunks), None), s') \<and>
    written_to (cp_fcdId P) (vs_trace s') = written_to (cp_fcdId P) (vs_trace s) @
      whole_buffers sz (buf @ concat chunks)"
  using assms(3,4)
proof (induction "length chunks + length (concat chunks)" arbitrary: buf w e chunks s rule: less_induct)
  case less
  note fl = flush_complete [OF assms(1)]
  let ?out = "\<lambda>buf s. if sz \<le> length buf then ([], s\<lparr>vs_tick := Suc (vs_tick s),
      vs_trace := vs_trace s @ [EvDiskWritten (cp_fcdId P) buf]\<rparr>) else (buf, s)"
  obtain buf1 s1 where b1: "?out buf s = (buf1, s1)" by fastforce
  have len1: "length buf1 < sz" using b1 assms(2) by (auto split: if_splits)
  have wr1: "written_to (cp_fcdId P) (vs_trace s1) @ whole_buffers sz (buf1 @ xs) =
      written_to (cp_fcdId P) (vs_trace s) @ whole_buffers sz (buf @ xs)" for xs
    using b1 less.prems(1) whole_buffers_Cons [of buf sz xs] assms(2) by (auto split: if_splits)
  have top: "run_state (if sz \<le> length buf then flush I P buf else State_Monad.return (None, buf)) s = ((None, buf1), s1)"
    using b1 assms(2) by (auto simp: fl split: if_splits)
  show ?case
  proof (cases chunks)
    case Nil
    with top len1 have "run_state (read_from I P sz buf w e chunks None) s = ((w, None), s1)"
      by (subst read_from.simps) simp
    with wr1 [of "[]"] Nil whole_buffers_short [OF len1] show ?thesis by simp
  next
    case (Cons c cs)
    let ?m = "min (sz - length buf1) (length c)"
    let ?rest = "if drop ?m c = [] then cs else drop ?m c # cs"
    from Cons less.prems(2) have c: "c \<noteq> []" by auto
    with len1 have m: "0 < ?m" by simp
    have cat: "take ?m c @ concat ?rest = concat chunks" using Cons by auto
    have "length ?rest + length (concat ?rest) < length chunks + length (concat chunks)"
      using Cons m c by auto
    moreover have "length (buf1 @ take ?m c) \<le> sz" using len1 by simp
    moreover have "[] \<notin> set ?rest" using less.prems(2) Cons by auto
    ultimately obtain s' where IH: "run_state (read_from I P sz (buf1 @ take ?m c) (w + ?m) 0 ?rest None) s1 =
        ((w + ?m + length (concat ?rest), None), s')"
      and wr: "written_to (cp_fcdId P) (vs_trace s') = written_to (cp_fcdId P) (vs_trace s1) @
        whole_buffers sz ((buf1 @ take ?m c) @ concat ?rest)"
      using less.hyps by blast
    have "run_state (read_from I P sz buf w e chunks None) s =
        run_state (read_from I P sz (buf1 @ take ?m c) (w + ?m) 0 ?rest None) s1"
      using top m c Cons by (subst read_from.simps) (simp add: Let_def)
    moreover have "w + ?m + length (concat ?rest) = w + length (concat chunks)" using cat [THEN arg_cong, of length] by simp
    moreover have "(buf1 @ take ?m c) @ concat ?rest = buf1 @ concat chunks" using cat by (metis append.assoc)
    ultimately show ?thesis using IH wr wr1 [of "concat chunks"] by metis
  qed
qed

lemma getDataWriter_disk:
  "run_state (getDataWriter V I p) s = (Inr P, s') \<Longrightarrow> cp_fcdId P = pe_id p"
  by (auto simp: getDataWriter_def getDiskConnectionParams_def connect_params_def early_returns
      split: prod.splits sum.splits option.splits)

lemma whole_buffers_written:
  assumes open_disk: "run_state (getDataWriter V I p) s = (Inr P, s1)"
    and writes: "\<forall>n b. i_write I n P b = (length b, None)"
    and source: "rd_end d = None" "[] \<notin> set (rd_chunks d)" "content = concat (rd_chunks d)"
  shows "\<exists>s'. run_state (ivd_copy V I p (Some d)) s = (Inr (length content), s') \<and>
    written_to (pe_id p) (vs_trace s') = written_to (pe_id p) (vs_trace s1) @ whole_buffers copy_buffer_size content"
    and "whole_buffers copy_buffer_size content = content \<longleftrightarrow> copy_buffer_size dvd length content"
proof -
  have "0 < copy_buffer_size" by (simp add: copy_buffer_size_def)
  from read_from_complete [OF writes this _ source(2), of "[]" 0 0 s1] obtain s' where
    "run_state (read_from I P copy_buffer_size [] 0 0 (rd_chunks d) None) s1 = ((length content, None), s')"
    "written_to (cp_fcdId P) (vs_trace s') = written_to (cp_fcdId P) (vs_trace s1) @ whole_buffers copy_buffer_size content"
    using source(3) by auto
  with open_disk source(1) getDataWriter_disk [OF open_disk]
  show "\<exists>s'. run_state (ivd_copy V I p (Some d)) s = (Inr (length content), s') \<and>
    written_to (pe_id p) (vs_trace s') = written_to (pe_id p) (vs_trace s1) @ whole_buffers copy_buffer_size content"
    by (simp add: ivd_copy_def early_returns)
  show "whole_buffers copy_buffer_size content = content \<longleftrightarrow> copy_buffer_size dvd length content"
  proof
    assume "whole_buffers copy_buffer_size content = content"
    then have "length content \<le> copy_buffer_size * (length content div copy_buffer_size)"
      by (simp add: whole_buffers_def)
    then have "length content = copy_buffer_size * (length content div copy_buffer_size)"
      using times_div_less_eq_dividend [of copy_buffer_size "length content"] by linarith
    then show "copy_buffer_size dvd length content" by (metis dvd_triv_left)
  qed (simp add: whole_buffers_def)
qed

text \<open>
  C36. When every write to the disk succeeds, a copy reports all the data of its source as
  written, but only the part that fills whole buffers of 1 MiB reaches the disk: the rest
  stays in the buffer, which nothing flushes. The data on the disk are complete exactly if
  their length is a multiple of 1 MiB.
\<close>

theorem copy_writes_whole_buffers:
  assumes open_disk: "run_state (getDataWriter V I p) s = (Inr P, s1)"
    and writes: "\<forall>n b. i_write I n P b = (length b, None)"
    and source: "rd_end d = None" "[] \<notin> set (rd_chunks d)" "content = concat (rd_chunks d)"
  shows "(\<exists>s'. run_state (ivd_copy V I p (Some d)) s = (Inr (length content), s') \<and>
    written_to (pe_id p) (vs_trace s') = written_to (pe_id p) (vs_trace s1) @ whole_buffers copy_buffer_size content) \<and>
    (whole_buffers copy_buffer_size content = content \<longleftrightarrow> copy_buffer_size dvd length content)"
  using whole_buffers_written [OF assms] by blast

text \<open>Three bytes are copied without an error, and none is on the disk.\<close>

theorem copy_writes_whole_buffers_witness:
  "\<exists>s'. run_state (ivd_copy calm_vcenter calm_ivd sample_disk (Some \<lparr>rd_chunks = [''abc''], rd_end = None\<rparr>)) sample_vsphere
     = (Inr 3, s') \<and> written_to ''disk'' (vs_trace s') = []"
proof -
  obtain r s1 where run: "run_state (getDataWriter calm_vcenter calm_ivd sample_disk) sample_vsphere = (r, s1)" by fastforce
  then have "\<exists>P. r = Inr P" and s1: "written_to ''disk'' (vs_trace s1) = []"
    by (auto simp: ivd_evals getDataWriter_def getDiskConnectionParams_def center_url_def config_of_def
        connect_params_def vslm_Retrieve_def written_to_def)
  then obtain P where P: "r = Inr P" by blast
  from copy_writes_whole_buffers [of calm_vcenter calm_ivd sample_disk sample_vsphere P s1
      "\<lparr>rd_chunks = [''abc''], rd_end = None\<rparr>" "''abc''"] run P s1
  show ?thesis
    by (simp add: calm_ivd_def sample_disk_def whole_buffers_short copy_buffer_size_def numeral_3_eq_3)
qed

section \<open>What a copy touches\<close>

text \<open>
  What overwriting the disk of the entity \<open>p\<close> may do: connect, look the disk up, write to it;
  and if the source is itself a disk of this vCenter, \<open>q\<close>, look that up with its labels and end
  the access to it that another process left behind.
\<close>

primrec source_disk :: "source \<Rightarrow> string option" where
  "source_disk (IvdSource e) = Some (pe_id (ivd_id e))"
| "source_disk (OtherSource x) = None"

fun overwrite_event :: "peid \<Rightarrow> string option \<Rightarrow> vevent \<Rightarrow> bool" where
  "overwrite_event p q (EvCall k (CallRetrieve i)) \<longleftrightarrow> i = NewVimIDFromPEID p \<or> q = Some i"
| "overwrite_event p q (EvCall k (CallRetrieveMetadata i snap key)) \<longleftrightarrow> q = Some i"
| "overwrite_event p q (EvCall k c) \<longleftrightarrow> False"
| "overwrite_event p q (EvDiskWritten d b) \<longleftrightarrow> d = pe_id p"
| "overwrite_event p q (EvSnapshotTaken i x) \<longleftrightarrow> False"
| "overwrite_event p q (EvSnapshotRemoved i x) \<longleftrightarrow> False"
| "overwrite_event p q (EvEndAccess d) \<longleftrightarrow> q = Some d"
| "overwrite_event p q ev \<longleftrightarrow> True"

interpretation overwriting: connection_policy "overwrite_event p q" for p q
  by unfold_locales simp_all

lemma keeps_read_from:
  assumes "\<And>b. keeps J (flush I P b)"
  shows "keeps J (read_from I P sz buf w e chunks ending)"
proof (induction "length chunks + length (concat chunks)" arbitrary: buf w e chunks rule: less_induct)
  case less
  show ?case
    unfolding read_from.simps [of I P sz buf w e chunks ending] Let_def
    by (cases chunks) (auto intro!: vkeeps assms less.hyps split: option.splits)
qed

lemma getDataWriter_keeps: "keeps (only (overwrite_event p q) tr) (getDataWriter V I p)"
  unfolding getDataWriter_def getDiskConnectionParams_def center_url_def vslm_Retrieve_def
  by (intro ivd_keeps overwriting.connect overwriting.calling) simp_all

lemma ivd_copy_keeps: "keeps (only (overwrite_event p q) tr) (ivd_copy V I p d)"
proof (rule tripleI)
  fix s r s' assume o: "only (overwrite_event p q) tr s" and run: "run_state (ivd_copy V I p d) s = (r, s')"
  obtain x s1 where w: "run_state (getDataWriter V I p) s = (x, s1)" by fastforce
  have s1: "only (overwrite_event p q) tr s1" by (rule tripleD [OF getDataWriter_keeps o w])
  show "only (overwrite_event p q) tr s'"
  proof (cases x)
    case (Inl e)
    with run w s1 show ?thesis by (simp add: ivd_copy_def early_returns)
  next
    case (Inr P)
    have "keeps (only (overwrite_event p q) tr) (flush I P b)" for b
      using getDataWriter_disk [OF w [unfolded Inr]]
      unfolding flush_def by (intro vkeeps) (simp_all add: only_emit)
    then have "keeps (only (overwrite_event p q) tr) (read_from I P z b n m cs en)" for z b n m cs en
      by (rule keeps_read_from)
    moreover have "s' = s1 \<or> (\<exists>y z b n m cs en. run_state (read_from I P z b n m cs en) s1 = (y, s'))"
      using run w Inr by (auto simp: ivd_copy_def early_returns split: option.splits prod.splits)
    ultimately show ?thesis using s1 by (metis tripleD)
  qed
qed

lemma disk_params_disk:
  "run_state (getDiskConnectionParams V I p b) s = (Inr P, s') \<Longrightarrow> cp_fcdId P = pe_id p"
  by (auto simp: getDiskConnectionParams_def connect_params_def early_returns
      split: prod.splits sum.splits option.splits)

lemma disk_params_keeps:
  assumes "NewVimIDFromPEID r = NewVimIDFromPEID p \<or> q = Some (NewVimIDFromPEID r)"
  shows "keeps (only (overwrite_event p q) tr) (getDiskConnectionParams V I r b)"
  unfolding getDiskConnectionParams_def center_url_def vslm_Retrieve_def
  by (intro ivd_keeps overwriting.connect overwriting.calling) (use assms in simp_all)

lemma data_reader_keeps:
  assumes "pe_type r = ''ivd''"
  shows "keeps (only (overwrite_event p (Some (pe_id r))) tr) (ivd_GetDataReader V I r)"
    (is "keeps ?only _")
proof -
  have vim: "NewVimIDFromPEID r = pe_id r" using assms by (simp add: NewVimIDFromPEID_def)
  let ?open = "\<lambda>P. do {
       x \<leftarrow> vask (\<lambda>n. i_open I n P);
       (case x of
          Inr d \<Rightarrow> State_Monad.return (Inr d)
        | Inl ve \<Rightarrow>
            (if snd ve = 20005 then do {
               vemit (EvEndAccess (cp_fcdId P));
               y \<leftarrow> vask (\<lambda>n. i_open I n P);
               State_Monad.return (case y of Inl ve' \<Rightarrow> Inl (vix_error ve') | Inr d \<Rightarrow> Inr d)
             }
             else State_Monad.return (Inl (vix_error ve))))
     }"
  have opens: "keeps ?only (?open P)" if "cp_fcdId P = pe_id r" for P
    by (intro vkeeps) (use that in \<open>simp_all add: only_emit\<close>)
  have whole: "keeps ?only (then_ok (getDiskConnectionParams V I r True) ?open)"
  proof (rule tripleI)
    fix s x s'
    assume pre: "?only s" and run: "run_state (then_ok (getDiskConnectionParams V I r True) ?open) s = (x, s')"
    obtain y s1 where y: "run_state (getDiskConnectionParams V I r True) s = (y, s1)" by fastforce
    have s1: "?only s1" by (rule tripleD [OF disk_params_keeps pre y]) (simp add: vim)
    show "?only s'"
    proof (cases y)
      case (Inl e)
      with run y s1 show ?thesis by (simp add: early_returns)
    next
      case (Inr P)
      have "run_state (?open P) s1 = (x, s')" using run y Inr by (simp only: run_then_ok prod.case sum.case)
      then show ?thesis
        by (rule tripleD [OF opens [OF disk_params_disk [OF y [unfolded Inr]]] s1])
    qed
  qed
  show ?thesis
    unfolding ivd_GetDataReader_def by (rule keeps_unless_err [OF overwriting.check whole])
qed

lemma metadata_reader_keeps:
  "keeps (only (overwrite_event p (Some (pe_id (ivd_id e)))) tr) (ivd_GetMetadataReader V I e)"
  unfolding ivd_GetMetadataReader_def getMetadataBuf_def getMetadata_def vslm_Retrieve_def vslm_RetrieveMetadata_def
  by (intro ivd_keeps overwriting.check overwriting.calling) simp_all

lemma source_readers_keep:
  assumes "pe_type (source_GetID src) = ''ivd''"
  shows "keeps (only (overwrite_event p (source_disk src)) tr) (source_GetDataReader V I src)"
    and "keeps (only (overwrite_event p (source_disk src)) tr) (source_GetMetadataReader V I src)"
  using assms data_reader_keeps metadata_reader_keeps
  by (cases src; auto intro!: ivd_keeps)+

text \<open>
  C37. Overwriting a disk writes to this disk only: whatever the source and whatever fails, it
  writes no data elsewhere and takes or deletes no snapshot. It calls vCenter only to look the
  disk up and, if the source is itself a disk of this vCenter, to look up that disk and its
  labels; and it may end the access to the source disk when it cannot be opened.
\<close>

theorem overwrite_touches_only_its_disk:
  "\<exists>t. vs_trace (snd (run_state (ivd_Overwrite V I p src) s)) = vs_trace s @ t \<and>
     list_all (overwrite_event p (source_disk src)) t"
proof (cases "pe_type (source_GetID src) = ''ivd''")
  case True
  have "keeps (only (overwrite_event p (source_disk src)) (vs_trace s)) (ivd_Overwrite V I p src)"
    unfolding ivd_Overwrite_def
    by (intro ivd_keeps ivd_copy_keeps overwriting.check source_readers_keep [OF True]) simp_all
  from keeps_run [OF this only_refl] show ?thesis by (simp add: only_def)
qed (simp add: ivd_Overwrite_def)

section \<open>Placing a volume\<close>

lemma node_hosts_distinct: "node_hosts names vms hosts = Inr hs \<Longrightarrow> distinct hosts \<Longrightarrow> distinct hs"
  by (induction names vms hosts rule: node_hosts.induct) (auto split: option.splits if_splits)

text \<open>The comparison of lengths that precedes the loop over the hosts never decides anything.\<close>

lemma eligible_iff:
  assumes "distinct hosts"
  shows "eligible hosts attached \<longleftrightarrow> set hosts \<subseteq> set attached"
proof -
  have "set hosts \<subseteq> set attached \<Longrightarrow> length hosts \<le> length attached"
    using assms by (metis List.finite_set card_length card_mono distinct_card le_trans)
  then have "length attached < length hosts \<Longrightarrow> \<not> set hosts \<subseteq> set attached" by linarith
  then show ?thesis unfolding eligible_def list_all_iff by auto
qed

definition placeable :: "ienv \<Rightarrow> (mo_ref \<Rightarrow> goerr + string) \<Rightarrow> (mo_ref \<Rightarrow> goerr + ds_info) \<Rightarrow> mo_ref \<Rightarrow> bool" where
  "placeable I ty info ds \<longleftrightarrow>
     (\<exists>t. ty ds = Inr t \<and> t \<noteq> i_nfs41 I \<and>
        (t = i_nfs I \<longrightarrow> (\<exists>h. info ds = Inr (NasInfo (Some h)) \<and> \<not> contains h ''eng.vmware.com'')))"

lemma type_allowed_run:
  assumes "i_ds_type I = (\<lambda>_. ty)" and "i_ds_info I = (\<lambda>_. info)" and "info ds \<noteq> Inr NilInfo" and "info ds \<noteq> Inr (NasInfo None)"
  shows "\<exists>n. run_state (type_allowed I ds) s = (Inr (placeable I ty info ds), s\<lparr>vs_tick := n\<rparr>)"
  using assms
  by (auto simp: type_allowed_def nfs_allowed_def placeable_def split: sum.splits ds_info.splits option.splits)

lemma shared_datastores_run:
  assumes "distinct hosts"
    and answers: "i_ds_type I = (\<lambda>_. ty)" "i_ds_info I = (\<lambda>_. info)" "i_attached I = (\<lambda>_. att)"
    and infos: "\<forall>ds \<in> set dss. info ds \<noteq> Inr NilInfo \<and> info ds \<noteq> Inr (NasInfo None)"
  shows "fst (run_state (shared_datastores I hosts dss dsList) s) =
    Inr (dsList @ filter (\<lambda>ds. placeable I ty info ds \<and> (\<exists>a. att ds = Inr a \<and> set hosts \<subseteq> set a)) dss)"
  using infos
proof (induction dss arbitrary: dsList s)
  case (Cons ds dss)
  note el = eligible_iff [OF assms(1)]
  obtain n where "run_state (type_allowed I ds) s = (Inr (placeable I ty info ds), s\<lparr>vs_tick := n\<rparr>)"
    using type_allowed_run [OF answers(1,2), of ds s] Cons.prems by auto
  with Cons answers(3) show ?case
    by (auto simp: early_returns el split: sum.splits)
qed simp

text \<open>
  What vCenter and the cluster answer while a place is looked for: the nodes, the datacenters,
  the virtual machines under a path and their properties, the datacenter above a host, the
  datastores under a path, and of a datastore its type, its information and the hosts attached.
\<close>

record inventory =
  inv_nodes :: "(string \<times> string) list"
  inv_datacenters :: "string list"
  inv_vms :: "string \<Rightarrow> mo_ref list found"
  inv_properties :: "mo_ref list \<Rightarrow> vm_mo list"
  inv_ancestors :: "mo_ref \<Rightarrow> goerr + path_element list"
  inv_datastores :: "string \<Rightarrow> mo_ref list found"
  inv_type :: "mo_ref \<Rightarrow> goerr + string"
  inv_info :: "mo_ref \<Rightarrow> goerr + ds_info"
  inv_attached :: "mo_ref \<Rightarrow> goerr + mo_ref list"

definition answers_from :: "ienv \<Rightarrow> inventory \<Rightarrow> bool" where
  "answers_from I v \<longleftrightarrow> i_clientset I = (\<lambda>_. None) \<and> i_nodes I = (\<lambda>_. Inr (inv_nodes v)) \<and>
     i_datacenters I = (\<lambda>_. Inr (inv_datacenters v)) \<and> i_vms I = (\<lambda>_. inv_vms v) \<and>
     i_vm_properties I = (\<lambda>_ refs. Inr (inv_properties v refs)) \<and> i_ancestors I = (\<lambda>_. inv_ancestors v) \<and>
     i_datastores I = (\<lambda>_. inv_datastores v) \<and> i_ds_type I = (\<lambda>_. inv_type v) \<and> i_ds_info I = (\<lambda>_. inv_info v) \<and>
     i_attached I = (\<lambda>_. inv_attached v) \<and> (\<forall>n ks. set (i_order I n ks) = set ks)"

fun listed :: "'a list found \<Rightarrow> 'a list" where
  "listed (Found xs) = xs"
| "listed _ = []"

text \<open>The virtual machines that are nodes of the cluster, and the hosts they run on.\<close>

definition all_vms :: "inventory \<Rightarrow> vm_mo list" where
  "all_vms v = inv_properties v (concat (map (\<lambda>dc. listed (inv_vms v (dc @ ''/vm/...''))) (inv_datacenters v)))"

definition is_node :: "inventory \<Rightarrow> vm_mo \<Rightarrow> bool" where
  "is_node v vm \<longleftrightarrow> (\<exists>name uid. (name, uid) \<in> set (inv_nodes v) \<and> vm_GuestHostName vm = Some name)"

definition hosts_of_nodes :: "inventory \<Rightarrow> mo_ref set" where
  "hosts_of_nodes v = {h. \<exists>vm \<in> set (all_vms v). is_node v vm \<and> vm_RuntimeHost vm = Some h}"

text \<open>The datastores of the datacenters in which a node runs.\<close>

definition datastores_near_nodes :: "inventory \<Rightarrow> mo_ref set" where
  "datastores_near_nodes v = {ds. \<exists>h els. h \<in> hosts_of_nodes v \<and> inv_ancestors v h = Inr els \<and>
     ds \<in> set (listed (inv_datastores v (dc_path els '''' @ ''/datastore/...'')))}"

text \<open>
  An inventory that can be read: every node has a name, no listing fails, every virtual machine
  shows its guest and its host, some node is found, and no property that is used is nil.
\<close>

definition readable :: "inventory \<Rightarrow> bool" where
  "readable v \<longleftrightarrow> (\<forall>(name, uid) \<in> set (inv_nodes v). name \<noteq> '''') \<and>
     (\<forall>path e. inv_vms v path \<noteq> FindFails e \<and> inv_datastores v path \<noteq> FindFails e) \<and>
     (\<forall>vm \<in> set (all_vms v). vm_GuestHostName vm \<noteq> None \<and> vm_RuntimeHost vm \<noteq> None) \<and> hosts_of_nodes v \<noteq> {} \<and>
     (\<forall>ds. inv_info v ds \<noteq> Inr NilInfo \<and> inv_info v ds \<noteq> Inr (NasInfo None))"

lemma node_names_map: "\<forall>(name, uid) \<in> set ns. name \<noteq> '''' \<Longrightarrow> node_names ns = Inr (map fst ns)"
  by (induction ns rule: node_names.induct) auto

lemma vms_of_datacenters_run:
  assumes "i_vms I = (\<lambda>_. vms)" and "\<forall>path e. vms path \<noteq> FindFails e"
  shows "\<exists>n. run_state (vms_of_datacenters I dcs refs) s =
    (Inr (refs @ concat (map (\<lambda>dc. listed (vms (dc @ ''/vm/...''))) dcs)), s\<lparr>vs_tick := n\<rparr>)"
proof (induction dcs arbitrary: refs s)
  case Nil
  show ?case by (auto intro!: exI [of _ "vs_tick s"])
next
  case (Cons dc dcs)
  let ?s = "s\<lparr>vs_tick := Suc (vs_tick s)\<rparr>"
  show ?case
    using assms Cons [of refs ?s] Cons [of "refs @ listed (vms (dc @ ''/vm/...''))" ?s]
    by (cases "vms (dc @ ''/vm/...'')") auto
qed

lemma node_hosts_run:
  assumes "\<forall>vm \<in> set vms. vm_GuestHostName vm \<noteq> None \<and> vm_RuntimeHost vm \<noteq> None"
  shows "\<exists>hs. node_hosts names vms hosts = Inr hs \<and>
    set hs = set hosts \<union> {h. \<exists>vm \<in> set vms. the (vm_GuestHostName vm) \<in> set names \<and> vm_RuntimeHost vm = Some h}"
  using assms
proof (induction vms arbitrary: hosts)
  case (Cons vm vms)
  then obtain g h where "vm_GuestHostName vm = Some g" "vm_RuntimeHost vm = Some h" by auto
  with Cons.IH [of hosts] Cons.IH [of "if h \<in> set hosts then hosts else hosts @ [h]"] Cons.prems show ?case
    by (cases "g \<in> set names") auto
qed simp

lemma findHosts_run:
  assumes "answers_from I v" and "readable v"
  shows "\<exists>hosts n. run_state (findHostsOfNodeVMs I) s = (Inr hosts, s\<lparr>vs_tick := n\<rparr>) \<and> distinct hosts \<and>
    set hosts = hosts_of_nodes v"
proof -
  let ?names = "map fst (inv_nodes v)"
  have named: "node_names (inv_nodes v) = Inr ?names" using assms(2) by (intro node_names_map) (simp add: readable_def)
  obtain hs where hs: "node_hosts ?names (all_vms v) [] = Inr hs"
    "set hs = set [] \<union> {h. \<exists>vm \<in> set (all_vms v). the (vm_GuestHostName vm) \<in> set ?names \<and> vm_RuntimeHost vm = Some h}"
    using node_hosts_run [of "all_vms v" ?names "[]"] assms(2) by (auto simp: readable_def)
  have "the (vm_GuestHostName vm) \<in> set ?names \<longleftrightarrow> is_node v vm" if vm: "vm \<in> set (all_vms v)" for vm
  proof -
    obtain g where "vm_GuestHostName vm = Some g" using assms(2) vm by (auto simp: readable_def)
    then show ?thesis by (simp add: is_node_def image_iff Bex_def)
  qed
  then have set: "set hs = hosts_of_nodes v" using hs(2) by (auto simp: hosts_of_nodes_def)
  obtain n where "run_state (vms_of_datacenters I (inv_datacenters v) []) (s\<lparr>vs_tick := Suc (Suc (Suc (vs_tick s)))\<rparr>) =
      (Inr (concat (map (\<lambda>dc. listed (inv_vms v (dc @ ''/vm/...''))) (inv_datacenters v))), s\<lparr>vs_tick := n\<rparr>)"
    using vms_of_datacenters_run [of I "inv_vms v" "inv_datacenters v" "[]" "s\<lparr>vs_tick := Suc (Suc (Suc (vs_tick s)))\<rparr>"] assms
    by (auto simp: answers_from_def readable_def)
  then have "run_state (findHostsOfNodeVMs I) s = (Inr hs, s\<lparr>vs_tick := Suc n\<rparr>)"
    using assms(1) named hs(1) by (simp add: findHostsOfNodeVMs_def early_returns answers_from_def all_vms_def)
  with set node_hosts_distinct [OF hs(1)] show ?thesis by auto
qed

lemma datacenter_paths_run:
  assumes "i_ancestors I = (\<lambda>_. anc)"
  shows "\<exists>n ps. run_state (datacenter_paths I hosts paths) s = (ps, s\<lparr>vs_tick := n\<rparr>) \<and>
    set ps = set paths \<union> {dc_path els '''' | els h. h \<in> set hosts \<and> anc h = Inr els}"
proof (induction hosts arbitrary: paths s)
  case Nil
  show ?case by (auto intro!: exI [of _ "vs_tick s"])
next
  case (Cons h hosts)
  let ?paths = "case anc h of Inl _ \<Rightarrow> paths | Inr els \<Rightarrow> List.insert (dc_path els '''') paths"
  obtain n ps where "run_state (datacenter_paths I hosts ?paths) (s\<lparr>vs_tick := Suc (vs_tick s)\<rparr>) = (ps, s\<lparr>vs_tick := n\<rparr>)"
    "set ps = set ?paths \<union> {dc_path els '''' | els h. h \<in> set hosts \<and> anc h = Inr els}"
    using Cons [of ?paths "s\<lparr>vs_tick := Suc (vs_tick s)\<rparr>"] by auto
  with assms show ?case
    by (intro exI [of _ n] exI [of _ ps]) (auto simp: findDatacenterPath_def early_returns split: sum.splits)
qed

lemma datastores_of_paths_run:
  assumes "i_datastores I = (\<lambda>_. dss)" and "\<forall>path e. dss path \<noteq> FindFails e"
  shows "\<exists>n. run_state (datastores_of_paths I paths found) s =
    (Inr (found @ concat (map (\<lambda>p. listed (dss (p @ ''/datastore/...''))) paths)), s\<lparr>vs_tick := n\<rparr>)"
proof (induction paths arbitrary: found s)
  case Nil
  show ?case by (auto intro!: exI [of _ "vs_tick s"])
next
  case (Cons p paths)
  let ?s = "s\<lparr>vs_tick := Suc (vs_tick s)\<rparr>"
  show ?case
    using assms Cons [of found ?s] Cons [of "found @ listed (dss (p @ ''/datastore/...''))" ?s]
    by (cases "dss (p @ ''/datastore/...'')") auto
qed

text \<open>
  C38. The datastores a new volume may be placed on. If the inventory can be read, the search
  succeeds with a list of the datastores of the datacenters in which a node of the cluster runs
  from which exactly those are kept that are of a supported kind (no NFS 4.1, NFS only outside
  one domain) and attached to every host on which a virtual machine runs whose guest has the
  name of a node; virtual machines that are no nodes do not matter.
\<close>

theorem shared_datastores_reference:
  assumes "answers_from I v" and "readable v"
  shows "\<exists>dss. set dss = datastores_near_nodes v \<and>
    fst (run_state (findSharedDatastoresFromAllNodeVMs I) s) =
      Inr (filter (\<lambda>ds. placeable I (inv_type v) (inv_info v) ds \<and>
        (\<exists>a. inv_attached v ds = Inr a \<and> hosts_of_nodes v \<subseteq> set a)) dss)"
proof -
  obtain hosts n where hosts: "run_state (findHostsOfNodeVMs I) s = (Inr hosts, s\<lparr>vs_tick := n\<rparr>)" "distinct hosts"
    "set hosts = hosts_of_nodes v" using findHosts_run [OF assms] by blast
  then have some: "hosts \<noteq> []" using assms(2) by (auto simp: readable_def)
  obtain m ps where ps: "run_state (datacenter_paths I hosts []) (s\<lparr>vs_tick := n\<rparr>) = (ps, s\<lparr>vs_tick := m\<rparr>)"
    "set ps = {dc_path els '''' | els h. h \<in> hosts_of_nodes v \<and> inv_ancestors v h = Inr els}"
    using datacenter_paths_run [of I "inv_ancestors v" hosts "[]" "s\<lparr>vs_tick := n\<rparr>"] assms(1) hosts(3)
    by (auto simp: answers_from_def)
  let ?paths = "i_order I m ps"
  let ?dss = "concat (map (\<lambda>p. listed (inv_datastores v (p @ ''/datastore/...''))) ?paths)"
  obtain k where dss: "run_state (datastores_of_paths I ?paths []) (s\<lparr>vs_tick := Suc m\<rparr>) = (Inr ?dss, s\<lparr>vs_tick := k\<rparr>)"
    using datastores_of_paths_run [of I "inv_datastores v" ?paths "[]" "s\<lparr>vs_tick := Suc m\<rparr>"] assms
    by (auto simp: answers_from_def readable_def)
  have "fst (run_state (findSharedDatastoresFromAllNodeVMs I) s) = fst (run_state (shared_datastores I hosts ?dss []) (s\<lparr>vs_tick := k\<rparr>))"
    using hosts(1) some ps(1) dss by (simp add: findSharedDatastoresFromAllNodeVMs_def early_returns)
  also have "\<dots> = Inr (filter (\<lambda>ds. placeable I (inv_type v) (inv_info v) ds \<and>
        (\<exists>a. inv_attached v ds = Inr a \<and> hosts_of_nodes v \<subseteq> set a)) ?dss)"
    using shared_datastores_run [OF hosts(2), of I "inv_type v" "inv_info v" "inv_attached v" ?dss "[]"] assms hosts(3)
    by (simp add: answers_from_def readable_def)
  finally have "fst (run_state (findSharedDatastoresFromAllNodeVMs I) s) =
    Inr (filter (\<lambda>ds. placeable I (inv_type v) (inv_info v) ds \<and>
        (\<exists>a. inv_attached v ds = Inr a \<and> hosts_of_nodes v \<subseteq> set a)) ?dss)" .
  moreover have "set ?dss = datastores_near_nodes v"
  proof -
    have "set ?paths = set ps" using assms(1) by (simp add: answers_from_def)
    then show ?thesis using ps(2) by (fastforce simp: datastores_near_nodes_def)
  qed
  ultimately show ?thesis by blast
qed

text \<open>
  Two nodes on two hosts and a virtual machine on a third host that is no node: one datastore is
  attached to the hosts of the nodes only, the other to one of them and to the third.
\<close>

definition small_inventory :: inventory where
  "small_inventory = \<lparr>inv_nodes = [(''n1'', ''u1''), (''n2'', ''u2'')], inv_datacenters = [''/dc''],
     inv_vms = (\<lambda>p. Found [''vm1'', ''vm2'', ''vm3'']),
     inv_properties = (\<lambda>r. [\<lparr>vm_GuestHostName = Some ''n1'', vm_RuntimeHost = Some ''h1''\<rparr>,
       \<lparr>vm_GuestHostName = Some ''n2'', vm_RuntimeHost = Some ''h2''\<rparr>,
       \<lparr>vm_GuestHostName = Some ''other'', vm_RuntimeHost = Some ''h3''\<rparr>]),
     inv_ancestors = (\<lambda>h. Inr [\<lparr>el_Parent = Some ''root'', el_Name = ''dc'', el_Type = ''Datacenter''\<rparr>]),
     inv_datastores = (\<lambda>p. Found [''ds1'', ''ds2'']), inv_type = (\<lambda>d. Inr ''VMFS''), inv_info = (\<lambda>d. Inr OtherInfo),
     inv_attached = (\<lambda>d. Inr (if d = ''ds1'' then [''h1'', ''h2''] else [''h2'', ''h3'']))\<rparr>"

definition small_vcenter :: ienv where
  "small_vcenter = calm_ivd\<lparr>i_nodes := (\<lambda>_. Inr (inv_nodes small_inventory)), i_vms := (\<lambda>_. inv_vms small_inventory),
     i_vm_properties := (\<lambda>_ r. Inr (inv_properties small_inventory r)), i_datastores := (\<lambda>_. inv_datastores small_inventory),
     i_attached := (\<lambda>_. inv_attached small_inventory)\<rparr>"

lemma small_inventory_hosts: "hosts_of_nodes small_inventory = {''h1'', ''h2''}"
  by (auto simp: hosts_of_nodes_def all_vms_def is_node_def small_inventory_def)

theorem shared_datastores_reference_witness:
  "\<exists>ds. fst (run_state (findSharedDatastoresFromAllNodeVMs small_vcenter) sample_vsphere) = Inr ds \<and> set ds = {''ds1''}"
proof -
  have "answers_from small_vcenter small_inventory"
    by (simp add: answers_from_def small_vcenter_def small_inventory_def calm_ivd_def)
  moreover have "readable small_inventory"
    by (simp add: readable_def small_inventory_hosts) (simp add: all_vms_def small_inventory_def)
  ultimately obtain dss where dss: "set dss = datastores_near_nodes small_inventory"
    "fst (run_state (findSharedDatastoresFromAllNodeVMs small_vcenter) sample_vsphere) =
      Inr (filter (\<lambda>ds. placeable small_vcenter (inv_type small_inventory) (inv_info small_inventory) ds \<and>
        (\<exists>a. inv_attached small_inventory ds = Inr a \<and> hosts_of_nodes small_inventory \<subseteq> set a)) dss)"
    using shared_datastores_reference by blast
  have "set dss = {''ds1'', ''ds2''}"
    unfolding dss(1) datastores_near_nodes_def small_inventory_hosts by (auto simp: small_inventory_def)
  moreover have "placeable small_vcenter (inv_type small_inventory) (inv_info small_inventory) ds" for ds
    by (simp add: placeable_def small_inventory_def small_vcenter_def calm_ivd_def)
  moreover have "(\<exists>a. inv_attached small_inventory ds = Inr a \<and> hosts_of_nodes small_inventory \<subseteq> set a) \<longleftrightarrow> ds = ''ds1''" for ds
    unfolding small_inventory_hosts by (simp add: small_inventory_def)
  ultimately show ?thesis unfolding dss(2) by auto
qed

text \<open>Which value a label has afterwards: the cluster's own for the reserved ones.\<close>

lemma relabel_lookup:
  assumes "set order = dom reserved"
  shows "map_of (relabel reserved order ls) k = (case reserved k of Some v \<Rightarrow> Some v | None \<Rightarrow> map_of ls k)"
proof -
  have first: "map_of (map (\<lambda>k. (k, the (reserved k))) order) k = reserved k"
    by (cases "reserved k") (auto simp: map_of_map_restrict assms restrict_map_def dom_def)
  show ?thesis
    by (cases "reserved k"; induction ls)
      (auto simp: relabel_def map_add_def first split: option.splits)
qed

section \<open>Copies inside one vCenter\<close>

text \<open>The client of a center was built from the host and the port of the center's configuration.\<close>

definition address :: "VirtualCenterConfig \<Rightarrow> string" where
  "address cfg = JoinHostPort (cfg_Host cfg) (itoa (cfg_Port cfg))"

definition url_ok :: "venv \<Rightarrow> addr \<Rightarrow> addr \<Rightarrow> vsphere \<Rightarrow> bool" where
  "url_ok V a kc s \<longleftrightarrow> (\<exists>c cfg. vs_centers s a = Some c \<and> vc_Config c = Some kc \<and> vs_configs s kc = Some cfg \<and>
     (\<forall>k. vc_Client c = Some k \<longrightarrow> k < vs_next s \<and> (\<exists>u. vs_clients s k = Some u \<and> v_parse_url V (address cfg) = Inr u)))"

lemma url_ok_tick [simp]: "url_ok V a kc (s\<lparr>vs_tick := n\<rparr>) = url_ok V a kc s"
  by (simp add: url_ok_def)

lemma url_ok_center:
  "url_ok V a kc s \<Longrightarrow> \<forall>c. vc_Client (f c) = vc_Client c \<and> vc_Config (f c) = vc_Config c \<Longrightarrow>
   url_ok V a kc (s\<lparr>vs_centers := (vs_centers s)(a := map_option f (vs_centers s a))\<rparr>)"
  by (auto simp: url_ok_def)

lemma newClient_url:
  assumes "run_state (newClient V a) s = (r, s')" and "url_ok V a kc s"
  shows "url_ok V a kc s' \<and> (\<forall>k. r = Inr k \<longrightarrow> k < vs_next s' \<and>
    (\<exists>cfg u. vs_configs s' kc = Some cfg \<and> vs_clients s' k = Some u \<and> v_parse_url V (address cfg) = Inr u))"
  using assms
  by (auto simp: newClient_def config_of_def new_session_def login_def early_returns url_ok_def address_def less_Suc_eq
      split: sum.splits option.splits if_splits prod.splits)

lemma renew_client_url: "keeps (url_ok V a kc) (renew_client V a)"
proof (rule tripleI)
  fix s r s' assume ok: "url_ok V a kc s" and run: "run_state (renew_client V a) s = (r, s')"
  obtain q s1 where n: "run_state (newClient V a) s = (q, s1)" by fastforce
  from newClient_url [OF n ok] newClient_frame [OF n] run n show "url_ok V a kc s'"
    by (auto simp: renew_client_run url_ok_def split: sum.splits if_splits)
qed

lemma connect_url: "keeps (url_ok V a kc) (Connect V a)"
  unfolding Connect_def ensure_clients_def renew_clients_def renew_vslm_def renew_cns_def newVslmClient_def newCnsClient_def
  by (intro vkeeps renew_client_url) (simp_all add: url_ok_center)

lemma establish_url:
  assumes run: "run_state (establish V ps (Some kc)) s = (None, s')" and wf: "connections_wf s" and cfg: "vs_configs s kc \<noteq> None"
  shows "url_ok V (vs_next s) kc s'"
proof -
  let ?new = "\<lparr>vc_Config = Some kc, vc_Client = None, vc_CnsClient = None, vc_VslmClient = None\<rparr>"
  let ?s = "s\<lparr>vs_next := Suc (vs_next s), vs_centers := (vs_centers s)(vs_next s \<mapsto> ?new)\<rparr>"
  obtain q s1 where con: "run_state (Connect V (vs_next s)) ?s = (q, s1)" by fastforce
  have "url_ok V (vs_next s) kc ?s" using cfg by (auto simp: url_ok_def)
  from tripleD [OF connect_url this con] have ok: "url_ok V (vs_next s) kc s1" .
  from run con obtain a v n s2 where inst: "run_state (install_managers a v n) s1 = ((), s2)"
    and dv: "run_state (init_vddk V ps) s2 = (None, s')"
    by (auto simp: establish_def GetVirtualCenter_def early_returns split: sum.splits prod.splits)
  have "vs_clients s' = vs_clients s2"
    using dv by (auto simp: init_vddk_def vddk_config_file_def early_returns
        split: option.splits sum.splits pval.splits if_splits)
  with init_vddk_frame [OF dv] inst ok show ?thesis by (auto simp: install_managers_def url_ok_def)
qed

lemma JoinHostPort_longer: "JoinHostPort host port \<noteq> host"
  by (auto simp: JoinHostPort_def dest: arg_cong [where f = length])

text \<open>
  C39. A copy never uses the disk it finds in its own vCenter: the data transports of an entity
  name the host of vCenter, while the copy compares them with the host and port of the
  client's URL. After a successful reload, the copy of an entity whose transports were made by
  the same manager provisions a new volume and copies the data, and never creates the disk
  from its local snapshot. (The hypotheses: parsing a URL keeps host and port, and the S3
  transport is not of the direct kind.)
\<close>

theorem local_copy_is_never_made:
  assumes parse: "\<forall>h u. v_parse_url V h = Inr u \<longrightarrow> url_Host u = h"
    and s3: "\<forall>p t. i_s3_data I p = Inr t \<longrightarrow> dt_type t \<noteq> ''vadp''"
    and wf: "connections_wf s" and ps: "ps \<noteq> Map.empty" "GetVirtualCenterConfigFromParams ps = Inr cfg"
    and changed: "CheckIfVirtualCenterConfigChanged (Option.bind (im_vcenterConfig (vs_petm s)) (vs_configs s)) (Some cfg) = Inr True"
    and reload: "run_state (ReloadConfig V ps) s = (None, s1)"
    and transports: "run_state (ivd_getDataTransports I p) s1 = (Inr (data, md, combined), s2)"
    and info: "ii_data info = data" "pe_type (ii_ID info) = ''ivd''"
  shows "run_state (copyInt V I info dataReader mdReader) s1 =
    (case readMetadataFromReader I mdReader of
       (m, Some e) \<Rightarrow> (Inl e, s1)
     | (m, None) \<Rightarrow> run_state (copy_remote V I m dataReader) s1)"
proof -
  let ?k = "vs_next s"
  obtain t and d :: "goerr + unit" where t: "run_state (ReloadConfig V ps) s =
      (case d of Inl e \<Rightarrow> (Some e, t) | Inr _ \<Rightarrow> run_state (establish V ps (Some ?k)) t)"
    and wft: "connections_wf t" and pt: "vs_petm t = (vs_petm s)\<lparr>im_vcenterConfig := Some ?k\<rparr>"
    and kt: "vs_configs t ?k = Some cfg"
    by (rule ReloadConfig_changed [OF wf ps changed])
  from reload t have est: "run_state (establish V ps (Some ?k)) t = (None, s1)" by (auto split: sum.splits)
  from establish_run(3) [OF est wft] obtain c client where a: "im_vcenter (vs_petm s1) = Some (vs_next t)"
    and cl: "vs_centers s1 (vs_next t) = Some c" "vc_Client c = Some client" by auto
  from establish_run(2) [OF est wft] pt have k: "im_vcenterConfig (vs_petm s1) = Some ?k" by simp
  from establish_url [OF est wft] kt cl obtain cfg1 u where cfg1: "vs_configs s1 ?k = Some cfg1"
    "vs_clients s1 client = Some u" "v_parse_url V (address cfg1) = Inr u"
    by (auto simp: url_ok_def)
  have host: "url_Host u = address cfg1" using parse cfg1(3) by blast
  have vc: "dt_params dt ''vcenter'' \<noteq> Some (url_Host u)"
    if "dt = \<lparr>dt_type = ''vadp'', dt_params = vadp_params (cfg_Host cfg1) p\<rparr>" for dt
    using that host not_sym [OF JoinHostPort_longer [of "cfg_Host cfg1" "itoa (cfg_Port cfg1)"]]
    by (simp add: vadp_params_def address_def)
  from transports k cfg1(1) obtain dataS3 where "i_s3_data I p = Inr dataS3"
    "data = [\<lparr>dt_type = ''vadp'', dt_params = vadp_params (cfg_Host cfg1) p\<rparr>, dataS3]"
    by (auto simp: ivd_getDataTransports_def petm_config_def early_returns split: sum.splits)
  with s3 vc a cl cfg1 have "run_state (our_vc data) s1 = (Inr False, s1)"
    by (auto simp: center_url_def early_returns)
  with info show ?thesis by (simp add: copyInt_def early_returns split: prod.splits option.splits)
qed

theorem local_copy_is_never_made_witness:
  "\<exists>s1 info. run_state (ReloadConfig calm_vcenter rotated_params) sample_vsphere = (None, s1) \<and>
     run_state (copyInt calm_vcenter calm_ivd info (Some \<lparr>rd_chunks = [], rd_end = None\<rparr>) (Some (Inr ''''))) s1 =
     run_state (copy_remote calm_vcenter calm_ivd no_metadata (Some \<lparr>rd_chunks = [], rd_end = None\<rparr>)) s1"
proof -
  have ne: "rotated_params \<noteq> Map.empty" by (simp add: rotated_params_def)
  obtain r s1 where run: "run_state (ReloadConfig calm_vcenter rotated_params) sample_vsphere = (r, s1)" by fastforce
  then have "r = None" using rotated_reload by simp
  obtain q s2 where tr: "run_state (ivd_getDataTransports calm_ivd sample_disk) s1 = (q, s2)" by fastforce
  from reload_new_center [OF sample_wf ne rotated_params_config rotated_changed run [unfolded \<open>r = None\<close>]] tr
  obtain dt m c where q: "q = Inr (dt, m, c)"
    by (auto simp: ivd_getDataTransports_def petm_config_def early_returns calm_ivd_def)
  have "run_state (copyInt calm_vcenter calm_ivd \<lparr>ii_ID = sample_disk, ii_Name = '''', ii_Size = 0, ii_data = dt\<rparr>
      (Some \<lparr>rd_chunks = [], rd_end = None\<rparr>) (Some (Inr ''''))) s1 =
    (case readMetadataFromReader calm_ivd (Some (Inr '''')) of
       (m, Some e) \<Rightarrow> (Inl e, s1)
     | (m, None) \<Rightarrow> run_state (copy_remote calm_vcenter calm_ivd m (Some \<lparr>rd_chunks = [], rd_end = None\<rparr>)) s1)"
    by (rule local_copy_is_never_made [OF _ _ sample_wf ne rotated_params_config rotated_changed
          run [unfolded \<open>r = None\<close>] tr [unfolded q]])
      (simp_all add: calm_vcenter_def calm_ivd_def sample_disk_def)
  with run \<open>r = None\<close> show ?thesis
    by (auto simp: readMetadataFromReader_def calm_ivd_def)
qed

end
