(* ===== verification/Reload_Workers.thy ===== *)
theory Reload_Workers
  imports VSphere_Correctness Paravirt Upload_Controller Backup_Driver
begin

text \<open>
  How a changed vCenter secret reaches the type managers: the reload operations of the data
  mover and of the snapshot manager (\<^verbatim>\<open>pkg/dataMover\<close>, \<^verbatim>\<open>pkg/snapshotmgr\<close>), the
  controller that runs them in the data manager (\<^verbatim>\<open>pkg/controller/vc_config_controller.go\<close>)
  and the secret worker of the backup driver
  (\<^verbatim>\<open>pkg/backupdriver/backup_driver_controller_base.go\<close>).

  A process has two type managers for vCenter disks, built separately: one in the data mover,
  one behind the snapshot manager. Its state has a part for each, and the cluster it talks to.
  The backup driver has only the second.
\<close>

section \<open>The state of a process\<close>

record agent =
  ag_world :: world
  ag_mover :: vsphere
  ag_snap :: vsphere

interpretation agent_world: part ag_world ag_world_update
  by unfold_locales simp

interpretation agent_mover: part ag_mover ag_mover_update
  by unfold_locales simp

interpretation agent_snap: part ag_snap ag_snap_update
  by unfold_locales simp

abbreviation in_world :: "(world, 'a) state \<Rightarrow> (agent, 'a) state" where
  "in_world \<equiv> zoom ag_world ag_world_update"

abbreviation in_mover :: "(vsphere, 'a) state \<Rightarrow> (agent, 'a) state" where
  "in_mover \<equiv> zoom ag_mover ag_mover_update"

abbreviation in_snap :: "(vsphere, 'a) state \<Rightarrow> (agent, 'a) state" where
  "in_snap \<equiv> zoom ag_snap ag_snap_update"

text \<open>
  The dynamic type of a type manager, which the code asserts: the manager of \<^verbatim>\<open>pkg/ivd\<close>
  or another one; and what is registered under the name \<^verbatim>\<open>ivd\<close> with the snapshot manager:
  such a manager, or the wrapper that hands data movement to the data manager.
\<close>

datatype base_petm = IvdManager | OtherManager

record DataManagerProtectedEntityTypeManager =
  dmp_base :: base_petm
  dmp_upload :: bool

datatype registered_petm =
    Unwrapped base_petm
  | Wrapped DataManagerProtectedEntityTypeManager

section \<open>Reloading a manager\<close>

definition ReloadDataMoverIvdPetmConfig :: "venv \<Rightarrow> base_petm \<Rightarrow> params \<Rightarrow> (vsphere, goerr option) state" where
  "ReloadDataMoverIvdPetmConfig V petm ps =
     (case petm of
        OtherManager \<Rightarrow> State_Monad.return (Some (ErrMsg
          ''Called with non IVDProtectedEntityTypeManager protected entity type manager''))
      | IvdManager \<Rightarrow> ReloadConfig V ps)"

definition wrap_failure :: "string \<Rightarrow> goerr option \<Rightarrow> goerr option" where
  "wrap_failure msg r = map_option (\<lambda>e. if is_panic e then e else ErrWrap msg e) r"

definition ReloadDmIvdPetm ::
  "venv \<Rightarrow> DataManagerProtectedEntityTypeManager \<Rightarrow> params \<Rightarrow> (vsphere, goerr option) state" where
  "ReloadDmIvdPetm V dm ps =
     (case dmp_base dm of
        IvdManager \<Rightarrow> do {
          r \<leftarrow> ReloadConfig V ps;
          State_Monad.return (wrap_failure ''Failed to Reload IVD Config in datapetm.'' r)
        }
      | OtherManager \<Rightarrow> State_Monad.return None)"

definition ReloadSnapshotManagerIvdPetmConfig ::
  "venv \<Rightarrow> registered_petm option \<Rightarrow> params \<Rightarrow> (vsphere, goerr option) state" where
  "ReloadSnapshotManagerIvdPetmConfig V petm ps =
     (case petm of
        None \<Rightarrow> State_Monad.return (Some (ErrMsg
          ''Failed to retrieve IVD Protected Type Manager from Snapshot Manager''))
      | Some (Wrapped dm) \<Rightarrow> do {
          r \<leftarrow> ReloadDmIvdPetm V dm ps;
          State_Monad.return (wrap_failure ''Failed to Reload IVD Config in SnapshotManager.'' r)
        }
      | Some (Unwrapped _) \<Rightarrow> State_Monad.return (Some (ErrMsg
          ''Failed to find ivd petm associated with snapshot manager.'')))"

section \<open>The controller of the vCenter configuration\<close>

text \<open>A nil data mover or snapshot manager is \<open>None\<close>.\<close>

record vcConfigController =
  vcc_dataMover :: "base_petm option"
  vcc_snapMgr :: "registered_petm option option"

definition processVcConfigSecretItem ::
  "env \<Rightarrow> venv \<Rightarrow> vcConfigController \<Rightarrow> key \<Rightarrow> (agent, goerr option) state" where
  "processVcConfigSecretItem E V C k = do {
     got \<leftarrow> in_world (RetrieveVcConfigSecret E False Map.empty);
     (case got of
        Inl e \<Rightarrow> State_Monad.return (Some e)
      | Inr ivdParams \<Rightarrow> do {
          mover \<leftarrow> (case vcc_dataMover C of
              None \<Rightarrow> State_Monad.return None
            | Some petm \<Rightarrow> in_mover (ReloadDataMoverIvdPetmConfig V petm ivdParams));
          (case mover of
             Some e \<Rightarrow> State_Monad.return (Some e)
           | None \<Rightarrow> (case vcc_snapMgr C of
                 None \<Rightarrow> State_Monad.return None
               | Some petm \<Rightarrow> in_snap (ReloadSnapshotManagerIvdPetmConfig V petm ivdParams)))
        })
   }"

definition vc_exponentialBackoffHandler :: "key \<Rightarrow> (agent, goerr option) state" where
  "vc_exponentialBackoffHandler k = do {
     in_world (emit (EvQueueAddAfter ''vc-config'' k (60 * nanos_per_second)));
     State_Monad.return None
   }"

definition vc_config_worker ::
  "env \<Rightarrow> venv \<Rightarrow> vcConfigController \<Rightarrow> key option \<Rightarrow> (agent, goerr + bool) state" where
  "vc_config_worker E V C =
     processNextWorkItem (\<lambda>ev. in_world (emit ev)) ''vc-config'' (processVcConfigSecretItem E V C)
       vc_exponentialBackoffHandler"

text \<open>
  What an event handler of the secret informer may be given: a secret, a nil pointer to one, an
  object of another type, or the last known state of a deleted object.
\<close>

datatype informer_object =
    SecretObject key
  | NilSecret
  | OtherObject
  | DeletedFinalStateUnknown "informer_object option"

definition secret_key :: "informer_object \<Rightarrow> key option" where
  "secret_key obj =
     (case (case obj of DeletedFinalStateUnknown (Some x) \<Rightarrow> x | _ \<Rightarrow> obj) of
        SecretObject k \<Rightarrow> Some k
      | _ \<Rightarrow> None)"

definition enqueueVcConfigSecret :: "informer_object \<Rightarrow> (world, unit) state" where
  "enqueueVcConfigSecret obj =
     (case secret_key obj of
        Some k \<Rightarrow> enqueue ''vc-config'' k
      | None \<Rightarrow> State_Monad.return ())"

text \<open>The controller's event handler: events of objects that the filter refuses are dropped.\<close>

definition on_secret_event :: "(key \<Rightarrow> bool) \<Rightarrow> key \<Rightarrow> (world, unit) state" where
  "on_secret_event watched k =
     (if watched k then enqueueVcConfigSecret (SecretObject k) else State_Monad.return ())"

section \<open>The secret worker of the backup driver\<close>

definition syncSecretByKey ::
  "env \<Rightarrow> venv \<Rightarrow> registered_petm option \<Rightarrow> key \<Rightarrow> (agent, goerr option) state" where
  "syncSecretByKey E V petm k = do {
     got \<leftarrow> in_world (RetrieveVcConfigSecret E False Map.empty);
     (case got of
        Inl e \<Rightarrow> State_Monad.return (Some e)
      | Inr ps \<Rightarrow> in_snap (ReloadSnapshotManagerIvdPetmConfig V petm ps))
   }"

definition secretWorker ::
  "env \<Rightarrow> venv \<Rightarrow> registered_petm option \<Rightarrow> key option \<Rightarrow> (agent, goerr option) state" where
  "secretWorker E V petm =
     drive_worker (\<lambda>ev. in_world (emit ev)) ''backup-driver-secret-queue'' (syncSecretByKey E V petm)"

definition enqueueSecret :: "informer_object \<Rightarrow> (world, unit) state" where
  "enqueueSecret obj =
     (case secret_key obj of
        Some k \<Rightarrow> emit (EvQueueAdd ''backup-driver-secret-queue'' k)
      | None \<Rightarrow> State_Monad.return ())"

section \<open>What reaches the managers\<close>

lemma keeps_vc_secret_candidates [frame]:
  assumes "\<And>w n. I w \<Longrightarrow> I (w\<lparr>w_tick := n\<rparr>)"
  shows "keeps I (vc_secret_candidates E flavor)"
  unfolding vc_secret_candidates_def GetSecretNamespaceAndName_def GetCSIInstalledVersion_def
  by (cases flavor; simp; intro keeps_rules frame) (use assms in auto)

lemma keeps_RetrieveVcConfigSecret [frame]:
  assumes "\<And>w n. I w \<Longrightarrow> I (w\<lparr>w_tick := n\<rparr>)"
  shows "keeps I (RetrieveVcConfigSecret E g ps)"
proof -
  have "keeps I (first_secret E err ks)" for err ks
    using assms by (induction ks arbitrary: err) (auto intro!: keeps_rules frame)
  then show ?thesis
    unfolding RetrieveVcConfigSecret_def retrieveClusterFlavor_def GetClusterTypeFromConfig_def GetCSIClusterType_def
    by (intro keeps_rules frame) (use assms in auto)
qed

lemma retrieved_params_nonempty:
  assumes "run_state (RetrieveVcConfigSecret E False Map.empty) w = (Inr ps, w')"
  shows "ps \<noteq> Map.empty"
proof -
  have kept: "qs k \<noteq> None \<Longrightarrow> fold vc_params vcs qs k \<noteq> None" for vcs qs k
    by (induction vcs arbitrary: qs) (auto simp: vc_params_def)
  have "ParseConfig E vals Map.empty = Inr ps \<Longrightarrow> ps ''cluster-id'' \<noteq> None" for vals
    using kept by (auto simp: ParseConfig_def split: list.splits sum.splits)
  with assms show ?thesis
    by (auto simp: RetrieveVcConfigSecret_def split: option.splits sum.splits if_splits prod.splits)
qed

text \<open>A type manager and its services at one center that is logged in with an account.\<close>

definition on_account :: "VirtualCenterConfig \<Rightarrow> vsphere \<Rightarrow> bool" where
  "on_account cfg s \<longleftrightarrow> (\<exists>a k c client d. im_vcenter (vs_petm s) = Some a \<and>
     im_vcenterConfig (vs_petm s) = Some k \<and> vs_configs s k = Some d \<and> same_account cfg d \<and>
     vs_centers s a = Some c \<and> vc_Config c = Some k \<and> vc_Client c = Some client \<and>
     im_vslmManager (vs_petm s) = Some \<lparr>vm_virtualCenter = a, vm_vsom = Some client\<rparr> \<and>
     im_cnsManager (vs_petm s) = Some \<lparr>cm_virtualCenter = a, cm_cnsClient = Some client\<rparr>)"

definition differs_from :: "VirtualCenterConfig \<Rightarrow> vsphere \<Rightarrow> bool" where
  "differs_from cfg s \<longleftrightarrow> CheckIfVirtualCenterConfigChanged
     (Option.bind (im_vcenterConfig (vs_petm s)) (vs_configs s)) (Some cfg) = Inr True"

lemma reload_on_account:
  assumes "connections_wf s" and "ps \<noteq> Map.empty" and "GetVirtualCenterConfigFromParams ps = Inr cfg"
    and "differs_from cfg s" and "run_state (ReloadConfig V ps) s = (None, s')"
  shows "on_account cfg s'"
  using reload_new_center [OF assms(1-3) _ assms(5)] assms(4) unfolding differs_from_def on_account_def by blast

lemma snap_reload_None:
  assumes "run_state (ReloadSnapshotManagerIvdPetmConfig V (Some (Wrapped \<lparr>dmp_base = IvdManager, dmp_upload = u\<rparr>)) ps) s
      = (None, s')"
  shows "run_state (ReloadConfig V ps) s = (None, s')"
  using assms
  by (auto simp: ReloadSnapshotManagerIvdPetmConfig_def ReloadDmIvdPetm_def wrap_failure_def split: prod.splits)

text \<open>The controller the data manager builds: both managers are those of \<^verbatim>\<open>pkg/ivd\<close>.\<close>

definition full_controller :: vcConfigController where
  "full_controller = \<lparr>vcc_dataMover = Some IvdManager,
     vcc_snapMgr = Some (Some (Wrapped \<lparr>dmp_base = IvdManager, dmp_upload = True\<rparr>))\<rparr>"

lemma processed_both:
  assumes "fst (run_state (RetrieveVcConfigSecret E False Map.empty) (ag_world s)) = Inr ps"
    and "run_state (processVcConfigSecretItem E V full_controller k) s = (None, s')"
  shows "run_state (ReloadConfig V ps) (ag_mover s) = (None, ag_mover s')"
    and "run_state (ReloadConfig V ps) (ag_snap s) = (None, ag_snap s')"
  using assms
  by (cases "run_state (ReloadConfig V ps) (ag_mover s)";
      force simp: processVcConfigSecretItem_def full_controller_def ReloadDataMoverIvdPetmConfig_def zoom_def
        split: prod.splits option.splits dest!: snap_reload_None)+

text \<open>
  C30. When the data manager processes a changed vCenter secret without an error, both its type
  managers, that of the data mover and that of the snapshot manager, are at a center that is
  logged in with the account of the secret, and so are their VSLM and CNS services.
\<close>

theorem secret_reaches_both_managers:
  assumes "connections_wf (ag_mover s)" and "connections_wf (ag_snap s)"
    and "fst (run_state (RetrieveVcConfigSecret E False Map.empty) (ag_world s)) = Inr ps"
    and "GetVirtualCenterConfigFromParams ps = Inr cfg"
    and "differs_from cfg (ag_mover s)" and "differs_from cfg (ag_snap s)"
    and "run_state (processVcConfigSecretItem E V full_controller k) s = (None, s')"
  shows "on_account cfg (ag_mover s') \<and> on_account cfg (ag_snap s')"
proof -
  have ne: "ps \<noteq> Map.empty" using assms(3) by (metis prod.collapse retrieved_params_nonempty)
  note reloads = processed_both [OF assms(3,7)]
  from reload_on_account [OF assms(1) ne assms(4,5) reloads(1)] reload_on_account [OF assms(2) ne assms(4,6) reloads(2)]
  show ?thesis by simp
qed

section \<open>A rotation that is refused\<close>

lemma snap_reload_run:
  assumes "run_state (ReloadConfig V ps) s = (r, s')"
  shows "\<exists>r'. run_state (ReloadSnapshotManagerIvdPetmConfig V
      (Some (Wrapped \<lparr>dmp_base = IvdManager, dmp_upload = u\<rparr>)) ps) s = (r', s') \<and> (r' = None \<longleftrightarrow> r = None) \<and>
    ((\<forall>e. r = Some e \<longrightarrow> \<not> is_panic e) \<longrightarrow> (\<forall>e. r' = Some e \<longrightarrow> \<not> is_panic e))"
  using assms
  by (cases r) (simp_all add: ReloadSnapshotManagerIvdPetmConfig_def ReloadDmIvdPetm_def wrap_failure_def)

text \<open>A secret that is read as \<open>ps\<close> now and later.\<close>

definition steady_secret :: "env \<Rightarrow> params \<Rightarrow> bool" where
  "steady_secret E ps \<longleftrightarrow> (\<forall>w. fst (run_state (RetrieveVcConfigSecret E False Map.empty) w) = Inr ps)"

lemma secret_read:
  assumes "steady_secret E ps"
  shows "\<exists>w'. run_state (RetrieveVcConfigSecret E False Map.empty) w = (Inr ps, w') \<and> w_trace w' = w_trace w"
proof -
  have "keeps (\<lambda>v. w_trace v = w_trace w) (RetrieveVcConfigSecret E False Map.empty)" by (rule frame) simp
  then have "w_trace (snd (run_state (RetrieveVcConfigSecret E False Map.empty) w)) = w_trace w" by (simp add: triple_def)
  moreover have "fst (run_state (RetrieveVcConfigSecret E False Map.empty) w) = Inr ps" using assms by (simp add: steady_secret_def)
  ultimately show ?thesis by (cases "run_state (RetrieveVcConfigSecret E False Map.empty) w") simp
qed

lemma process_mover_fails:
  assumes "steady_secret E ps" and "run_state (ReloadConfig V ps) (ag_mover s) = (Some e, m)"
  shows "\<exists>w. run_state (processVcConfigSecretItem E V full_controller k) s = (Some e, s\<lparr>ag_world := w, ag_mover := m\<rparr>) \<and>
    w_trace w = w_trace (ag_world s)"
proof -
  from secret_read [OF assms(1)] obtain w where "run_state (RetrieveVcConfigSecret E False Map.empty) (ag_world s) = (Inr ps, w)"
    and "w_trace w = w_trace (ag_world s)" by blast
  with assms(2) show ?thesis
    by (intro exI [of _ w]) (simp add: processVcConfigSecretItem_def full_controller_def ReloadDataMoverIvdPetmConfig_def zoom_def)
qed

lemma process_mover_passes:
  assumes "steady_secret E ps" and "run_state (ReloadConfig V ps) (ag_mover s) = (None, m)"
    and "run_state (ReloadConfig V ps) (ag_snap s) = (r, n)"
  shows "\<exists>w r'. run_state (processVcConfigSecretItem E V full_controller k) s =
      (r', s\<lparr>ag_world := w, ag_mover := m, ag_snap := n\<rparr>) \<and>
    w_trace w = w_trace (ag_world s) \<and> (r' = None \<longleftrightarrow> r = None) \<and>
    ((\<forall>e. r = Some e \<longrightarrow> \<not> is_panic e) \<longrightarrow> (\<forall>e. r' = Some e \<longrightarrow> \<not> is_panic e))"
proof -
  from secret_read [OF assms(1)] obtain w where w: "run_state (RetrieveVcConfigSecret E False Map.empty) (ag_world s) = (Inr ps, w)"
    and trace: "w_trace w = w_trace (ag_world s)" by blast
  obtain r' where snap: "run_state (ReloadSnapshotManagerIvdPetmConfig V
      (Some (Wrapped \<lparr>dmp_base = IvdManager, dmp_upload = True\<rparr>)) ps) (ag_snap s) = (r', n)"
    and r': "r' = None \<longleftrightarrow> r = None" "(\<forall>e. r = Some e \<longrightarrow> \<not> is_panic e) \<longrightarrow> (\<forall>e. r' = Some e \<longrightarrow> \<not> is_panic e)"
    using snap_reload_run [OF assms(3), of True] by (elim exE conjE) (rule that)
  from w snap assms(2) have "run_state (processVcConfigSecretItem E V full_controller k) s =
      (r', s\<lparr>ag_world := w, ag_mover := m, ag_snap := n\<rparr>)"
    by (simp add: processVcConfigSecretItem_def full_controller_def ReloadDataMoverIvdPetmConfig_def zoom_def)
  with trace r' show ?thesis by blast
qed

lemma worker_turn:
  assumes "run_state (processVcConfigSecretItem E V C k) s = (r, s1)" and "\<forall>e. r = Some e \<longrightarrow> \<not> is_panic e"
    and "run_state (vc_config_worker E V C (Some k)) s = (q, s')"
  shows "q = Inr True" and "s' = s1\<lparr>ag_world := (ag_world s1)\<lparr>w_trace := w_trace (ag_world s1) @
    [if r = None then EvQueueForget ''vc-config'' k else EvQueueAddAfter ''vc-config'' k (60 * nanos_per_second)]\<rparr>\<rparr>"
  using assms
  by (cases r; simp add: vc_config_worker_def processNextWorkItem_def vc_exponentialBackoffHandler_def zoom_def)+

text \<open>
  C33. A manager at a center, whose vCenter still refuses the credentials that the secret has
  now: the controller retries after a minute and after another one (the first turn fails in the
  data mover, the second in the snapshot manager), and takes the third turn for a success and
  forgets the item. Both type managers are then still at their old centers, with the services
  and configurations they had. The code means to reload the configuration until it succeeds.
\<close>

theorem refused_rotation_is_forgotten:
  assumes secret: "steady_secret E ps" "GetVirtualCenterConfigFromParams ps = Inr cfg"
    and wf: "connections_wf (ag_mover s)" "connections_wf (ag_snap s)"
    and mover: "im_vcenter (vs_petm (ag_mover s)) = Some a" "vs_centers (ag_mover s) a = Some c"
    and snap: "im_vcenter (vs_petm (ag_snap s)) = Some b" "vs_centers (ag_snap s) b = Some d"
    and changed: "differs_from cfg (ag_mover s)" "differs_from cfg (ag_snap s)"
    and refused: "\<forall>n u. v_login V n u (cfg_Username cfg) (cfg_Password cfg) \<noteq> None"
    and errors: "\<forall>e. fst (run_state (ReloadConfig V ps) (ag_mover s)) = Some e \<longrightarrow> \<not> is_panic e"
      "\<forall>e. fst (run_state (ReloadConfig V ps) (ag_snap s)) = Some e \<longrightarrow> \<not> is_panic e"
    and first: "run_state (vc_config_worker E V full_controller (Some k)) s = (q1, s1)"
    and second: "run_state (vc_config_worker E V full_controller (Some k)) s1 = (q2, s2)"
    and third: "run_state (vc_config_worker E V full_controller (Some k)) s2 = (q3, s3)"
  shows "q1 = Inr True \<and> q2 = Inr True \<and> q3 = Inr True \<and>
    w_trace (ag_world s3) = w_trace (ag_world s) @
      [EvQueueAddAfter ''vc-config'' k (60 * nanos_per_second), EvQueueAddAfter ''vc-config'' k (60 * nanos_per_second),
       EvQueueForget ''vc-config'' k] \<and>
    same_connections (ag_mover s) (ag_mover s3) \<and> same_connections (ag_snap s) (ag_snap s3)"
proof -
  have ne: "ps \<noteq> Map.empty"
    using secret(1) unfolding steady_secret_def by (metis prod.collapse retrieved_params_nonempty)
  note refused_at = reload_refused [OF _ _ _ ne secret(2) _ refused] and again = reload_settled [OF _ ne secret(2)]
  obtain e m1 where m1: "run_state (ReloadConfig V ps) (ag_mover s) = (Some e, m1)"
      "settled_on cfg m1" "same_connections (ag_mover s) m1"
    using refused_at [OF wf(1) mover] changed(1) unfolding differs_from_def by (metis option.exhaust prod.collapse)
  have e: "\<not> is_panic e" using errors(1) m1(1) by simp
  from process_mover_fails [OF secret(1) m1(1)] obtain w1 where
    "run_state (processVcConfigSecretItem E V full_controller k) s = (Some e, s\<lparr>ag_world := w1, ag_mover := m1\<rparr>)"
    "w_trace w1 = w_trace (ag_world s)" by blast
  with worker_turn [OF this(1) _ first] e
  have s1: "q1 = Inr True" "ag_mover s1 = m1" "ag_snap s1 = ag_snap s" "w_trace (ag_world s1) = w_trace (ag_world s) @
      [EvQueueAddAfter ''vc-config'' k (60 * nanos_per_second)]" by auto
  obtain m2 where m2: "run_state (ReloadConfig V ps) (ag_mover s1) = (None, m2)" "settled_on cfg m2" "same_connections m1 m2"
    using again [OF m1(2)] s1(2) by blast
  obtain e' n1 where n1: "run_state (ReloadConfig V ps) (ag_snap s1) = (Some e', n1)"
      "settled_on cfg n1" "same_connections (ag_snap s) n1"
    using refused_at [OF wf(2) snap] changed(2) s1(3) unfolding differs_from_def by (metis option.exhaust prod.collapse)
  have e': "\<not> is_panic e'" using errors(2) n1(1) s1 by simp
  from process_mover_passes [OF secret(1) m2(1) n1(1), of k] obtain w2 e2 where
    "run_state (processVcConfigSecretItem E V full_controller k) s1 = (Some e2, s1\<lparr>ag_world := w2, ag_mover := m2, ag_snap := n1\<rparr>)"
    "w_trace w2 = w_trace (ag_world s1)" "\<not> is_panic e2" using e' by auto
  with worker_turn [OF this(1) _ second]
  have s2: "q2 = Inr True" "ag_mover s2 = m2" "ag_snap s2 = n1" "w_trace (ag_world s2) = w_trace (ag_world s1) @
      [EvQueueAddAfter ''vc-config'' k (60 * nanos_per_second)]" by auto
  obtain m3 n2 where m3: "run_state (ReloadConfig V ps) (ag_mover s2) = (None, m3)" "same_connections m2 m3"
      and n2: "run_state (ReloadConfig V ps) (ag_snap s2) = (None, n2)" "same_connections n1 n2"
    using again [OF m2(2)] again [OF n1(2)] s2(2,3) by blast
  from process_mover_passes [OF secret(1) m3(1) n2(1), of k] obtain w3 where
    "run_state (processVcConfigSecretItem E V full_controller k) s2 = (None, s2\<lparr>ag_world := w3, ag_mover := m3, ag_snap := n2\<rparr>)"
    "w_trace w3 = w_trace (ag_world s2)" by auto
  with worker_turn [OF this(1) _ third]
  have s3: "q3 = Inr True" "ag_mover s3 = m3" "ag_snap s3 = n2" "w_trace (ag_world s3) = w_trace (ag_world s2) @
      [EvQueueForget ''vc-config'' k]" by auto
  from m1(3) m2(3) m3(2) n1(3) n2(2) s1 s2 s3 show ?thesis by (auto intro: same_connections_trans)
qed

section \<open>Samples\<close>

text \<open>A cluster whose secret has the new password of the sample center.\<close>

definition rotated_secret :: env where
  "rotated_secret = calm\<lparr>e_secret := (\<lambda>n k. Inr [''csi-vsphere.conf'']),
     e_gcfg := (\<lambda>v. Inr (''c1'', [(''vc'', ''admin'', ''new'', ''443'')]))\<rparr>"

definition sample_agent :: agent where
  "sample_agent = \<lparr>ag_world = empty_world, ag_mover = sample_vsphere, ag_snap = sample_vsphere\<rparr>"

lemma rotated_secret_steady: "steady_secret rotated_secret rotated_params"
  by (auto simp: steady_secret_def RetrieveVcConfigSecret_def connect_def retrieveClusterFlavor_def
      GetClusterTypeFromConfig_def GetCSIClusterType_def vc_secret_candidates_def IsFeatureEnabled_def
      GetSecretNamespaceAndName_def ParseConfig_def vc_params_def velero_namespace_def rotated_secret_def
      rotated_params_def parse_bool_def DecoupleVSphereCSIDriverFlag_def)

lemma rotated_differs: "differs_from rotated_config sample_vsphere"
  using rotated_changed by (simp add: differs_from_def)

lemma sample_agent_parts [simp]:
  "ag_world sample_agent = empty_world" "ag_mover sample_agent = sample_vsphere" "ag_snap sample_agent = sample_vsphere"
  by (simp_all add: sample_agent_def)

lemma sample_processed:
  "fst (run_state (processVcConfigSecretItem rotated_secret calm_vcenter full_controller k) sample_agent) = None"
proof -
  obtain m where "run_state (ReloadConfig calm_vcenter rotated_params) sample_vsphere = (None, m)"
    using rotated_reload by (metis prod.collapse)
  with process_mover_passes [OF rotated_secret_steady, of calm_vcenter sample_agent m None m k] show ?thesis by auto
qed

theorem secret_reaches_both_managers_witness:
  "on_account rotated_config (ag_snap (snd (run_state
     (processVcConfigSecretItem rotated_secret calm_vcenter full_controller (''velero'', ''s'')) sample_agent)))"
proof -
  let ?run = "run_state (processVcConfigSecretItem rotated_secret calm_vcenter full_controller (''velero'', ''s'')) sample_agent"
  have "?run = (None, snd ?run)" using sample_processed by (metis prod.collapse)
  from secret_reaches_both_managers [OF _ _ _ rotated_params_config _ _ this] rotated_secret_steady show ?thesis
    by (simp add: sample_wf rotated_differs steady_secret_def)
qed

lemma refused_reload:
  "fst (run_state (ReloadConfig refusing_vcenter rotated_params) sample_vsphere) =
     Some (ErrSoapFault InvalidLogin '''' ''refused'')"
proof -
  have ne: "rotated_params \<noteq> Map.empty" by (simp add: rotated_params_def)
  then show ?thesis
    by (simp add: reload_evals rotated_config_def CheckIfVirtualCenterConfigChanged_def refusing_vcenter_def)
qed

lemma sample_connected:
  "im_vcenter (vs_petm sample_vsphere) = Some 1" "vs_centers sample_vsphere (Suc 0) = Some sample_center"
  by (simp_all add: sample_vsphere_def)

lemma refusing: "v_login refusing_vcenter n u user pw \<noteq> None"
  by (simp add: refusing_vcenter_def)

theorem refused_rotation_is_forgotten_witness:
  "\<exists>s1 s2 s3. run_state (vc_config_worker rotated_secret refusing_vcenter full_controller (Some (''velero'', ''s''))) sample_agent
      = (Inr True, s1) \<and>
    run_state (vc_config_worker rotated_secret refusing_vcenter full_controller (Some (''velero'', ''s''))) s1 = (Inr True, s2) \<and>
    run_state (vc_config_worker rotated_secret refusing_vcenter full_controller (Some (''velero'', ''s''))) s2 = (Inr True, s3) \<and>
    last (w_trace (ag_world s3)) = EvQueueForget ''vc-config'' (''velero'', ''s'') \<and>
    im_vcenter (vs_petm (ag_mover s3)) = Some 1"
proof -
  let ?turn = "run_state (vc_config_worker rotated_secret refusing_vcenter full_controller (Some (''velero'', ''s'')))"
  obtain q1 s1 q2 s2 q3 s3 where runs: "?turn sample_agent = (q1, s1)" "?turn s1 = (q2, s2)" "?turn s2 = (q3, s3)"
    by (metis prod.collapse)
  have "q1 = Inr True \<and> q2 = Inr True \<and> q3 = Inr True \<and>
    w_trace (ag_world s3) = w_trace (ag_world sample_agent) @
      [EvQueueAddAfter ''vc-config'' (''velero'', ''s'') (60 * nanos_per_second),
       EvQueueAddAfter ''vc-config'' (''velero'', ''s'') (60 * nanos_per_second),
       EvQueueForget ''vc-config'' (''velero'', ''s'')] \<and>
    same_connections (ag_mover sample_agent) (ag_mover s3) \<and> same_connections (ag_snap sample_agent) (ag_snap s3)"
    by (rule refused_rotation_is_forgotten [OF rotated_secret_steady rotated_params_config _ _ _ _ _ _ _ _ _ _ _ runs])
      (simp add: sample_wf rotated_differs refused_reload sample_connected refusing)+
  with runs show ?thesis by (auto simp: same_connections_def sample_vsphere_def)
qed

end
