(* ===== verification/Supervisor_Access.thy ===== *)
theory Supervisor_Access
  imports Cluster_Config VSphere_Client
begin

text \<open>
  How a guest cluster reaches its supervisor cluster (\<^verbatim>\<open>pkg/utils/utils.go\<close>): the
  namespace and the secret the supervisor writes the credentials to, the configuration made
  from it, the parameters of the supervisor namespace, and the removal of a Snapshot there.

  A function that waits for the secret returns \<open>None\<close> while no event has arrived: the code
  waits without a limit. An event is an answer of \<open>svc_env\<close>, so no fuel is needed.
\<close>

section \<open>Data\<close>

definition BackupDriverNamespace :: string where "BackupDriverNamespace = ''velero-vsphere-plugin-backupdriver''"
definition PvApiEndpoint :: string where "PvApiEndpoint = ''supervisor.default.svc''"
definition PvPort :: string where "PvPort = ''6443''"
definition PvSecretName :: string where "PvSecretName = ''pvbackupdriver-provider-creds''"
definition VCuuidKey :: string where "VCuuidKey = ''vCenterUUID''"
definition SupervisorClusterIdKey :: string where "SupervisorClusterIdKey = ''SupervisorClusterId''"
definition SupervisorResourcePoolKey :: string where "SupervisorResourcePoolKey = ''SupervisorResourcePool''"

type_synonym secret_data = "string \<rightharpoonup> string"

record rest_config =
  rc_Host :: string
  rc_CAData :: string
  rc_BearerToken :: string

datatype pv_secret_event =
    SecretCreated secret_data
  | SecretDeleted
  | SecretUpdated
  | ContextDone goerr

record svc_env =
  x_namespace :: "nat \<Rightarrow> string \<Rightarrow> goerr + (string \<rightharpoonup> string)"  \<comment> \<open>the annotations of a namespace\<close>
  x_supervisor_namespace :: "nat \<Rightarrow> rest_config \<Rightarrow> string \<Rightarrow> goerr + (string \<rightharpoonup> string)"
  x_pv_secret :: "nat \<Rightarrow> goerr + secret_data"
  x_pv_event :: "nat \<Rightarrow> pv_secret_event option"  \<comment> \<open>the first event; None while there is none\<close>
  x_svc_client :: "nat \<Rightarrow> rest_config \<Rightarrow> goerr option"  \<comment> \<open>NewForConfig\<close>

section \<open>The namespace of the credentials\<close>

text \<open>\<open>configGiven\<close>: the caller passes a configuration, so none has to be loaded.\<close>

definition guest_client :: "env \<Rightarrow> bool \<Rightarrow> (goerr \<Rightarrow> goerr) \<Rightarrow> (world, goerr option) state" where
  "guest_client E configGiven wrapClient =
     (if configGiven then do { c \<leftarrow> ask (e_client E); State_Monad.return (map_option wrapClient c) }
      else connect (ErrWrap ''Could not retrieve in-cluster config'') wrapClient E)"

definition create_namespace :: "env \<Rightarrow> string \<Rightarrow> (world, goerr option) state" where
  "create_namespace E ns = do {
     fate \<leftarrow> ask (e_fate E);
     (case fate of
        Accepted \<Rightarrow> do { emit (EvNamespaceCreated ns); State_Monad.return None }
      | Refused e \<Rightarrow> State_Monad.return (Some (ErrAPI e))
      | AnswerLost e \<Rightarrow> do { emit (EvNamespaceCreated ns); State_Monad.return (Some (ErrAPI e)) })
   }"

definition checkAndCreateNamespace :: "env \<Rightarrow> svc_env \<Rightarrow> bool \<Rightarrow> string \<Rightarrow> (world, goerr option) state" where
  "checkAndCreateNamespace E X configGiven ns = do {
     cl \<leftarrow> guest_client E configGiven id;
     (case cl of
        Some e \<Rightarrow> State_Monad.return (Some e)
      | None \<Rightarrow> do {
          found \<leftarrow> ask (\<lambda>n. x_namespace X n ns);
          (case found of
             Inr _ \<Rightarrow> State_Monad.return None
           | Inl _ \<Rightarrow> create_namespace E ns)
        })
   }"

section \<open>The credentials\<close>

text \<open>
  The events of an update and of a deletion carry a nil item with the error; the type
  assertion on the item comes first and panics.
\<close>

definition waitForPvSecret :: "svc_env \<Rightarrow> (world, (goerr + secret_data) option) state" where
  "waitForPvSecret X = do {
     ev \<leftarrow> ask (x_pv_event X);
     State_Monad.return (map_option (\<lambda>e. case e of
         SecretCreated d \<Rightarrow> Inr d
       | SecretDeleted \<Rightarrow> Inl (GoPanic ''interface conversion'')
       | SecretUpdated \<Rightarrow> Inl (GoPanic ''interface conversion'')
       | ContextDone err \<Rightarrow> Inl err) ev)
   }"

definition data_of :: "secret_data \<Rightarrow> string \<Rightarrow> string" where
  "data_of d k = (case d k of Some v \<Rightarrow> v | None \<Rightarrow> '''')"

definition supervisor_config :: "secret_data \<Rightarrow> rest_config \<times> string" where
  "supervisor_config d =
     (\<lparr>rc_Host = ''https://'' @ JoinHostPort PvApiEndpoint PvPort, rc_CAData = data_of d ''ca.crt'',
       rc_BearerToken = data_of d ''token''\<rparr>,
      data_of d ''namespace'')"

definition pv_secret :: "svc_env \<Rightarrow> (world, (goerr + secret_data) option) state" where
  "pv_secret X = do {
     s \<leftarrow> ask (x_pv_secret X);
     (case s of
        Inr d \<Rightarrow> State_Monad.return (Some (Inr d))
      | Inl _ \<Rightarrow> waitForPvSecret X)
   }"

definition GetSupervisorConfig ::
  "env \<Rightarrow> svc_env \<Rightarrow> bool \<Rightarrow> (world, (goerr + (rest_config \<times> string)) option) state" where
  "GetSupervisorConfig E X configGiven = do {
     cl \<leftarrow> guest_client E configGiven (ErrWrap ''Could not retrieve in-cluster config client'');
     (case cl of
        Some e \<Rightarrow> State_Monad.return (Some (Inl e))
      | None \<Rightarrow> do {
          ns \<leftarrow> checkAndCreateNamespace E X True BackupDriverNamespace;
          (case ns of
             Some e \<Rightarrow> State_Monad.return (Some (Inl e))
           | None \<Rightarrow> do {
               s \<leftarrow> pv_secret X;
               State_Monad.return (map_option (map_sum id supervisor_config) s)
             })
        })
   }"

section \<open>The parameters of the supervisor namespace\<close>

text \<open>\<^verbatim>\<open>strings.Split(s, sep)[0]\<close> for a separator of several characters.\<close>

fun before :: "string \<Rightarrow> string \<Rightarrow> string" where
  "before sep [] = []"
| "before sep (c # s) = (if take (length sep) (c # s) = sep then [] else c # before sep s)"

definition resource_pool_param :: "(string \<rightharpoonup> string) \<Rightarrow> (string \<rightharpoonup> string) \<Rightarrow> (string \<rightharpoonup> string)" where
  "resource_pool_param annotations ps =
     (case annotations ''vmware-system-resource-pool'' of
        None \<Rightarrow> ps
      | Some resPool \<Rightarrow> ps(SupervisorResourcePoolKey \<mapsto> resPool))"

definition cluster_params :: "(string \<rightharpoonup> string) \<Rightarrow> (string \<rightharpoonup> string) \<Rightarrow> (string \<rightharpoonup> string)" where
  "cluster_params annotations ps =
     (case annotations ''ncp/extpoolid'' of
        None \<Rightarrow> ps
      | Some svcClusterInfo \<Rightarrow>
          (case split_on (CHR '':'') svcClusterInfo of
             clusterId # vcInfo # _ \<Rightarrow>
               ps(SupervisorClusterIdKey \<mapsto> clusterId, VCuuidKey \<mapsto> before ''-ippool'' vcInfo)
           | _ \<Rightarrow> ps))"

definition supervisor_params :: "(string \<rightharpoonup> string) \<Rightarrow> (string \<rightharpoonup> string)" where
  "supervisor_params annotations = cluster_params annotations (resource_pool_param annotations Map.empty)"

definition GetSupervisorParameters ::
  "env \<Rightarrow> svc_env \<Rightarrow> rest_config option \<Rightarrow> string \<Rightarrow> (world, (goerr + (string \<rightharpoonup> string)) option) state" where
  "GetSupervisorParameters E X config ns = do {
     target \<leftarrow> (case config of
         Some c \<Rightarrow> if ns = '''' then GetSupervisorConfig E X False else State_Monad.return (Some (Inr (c, ns)))
       | None \<Rightarrow> GetSupervisorConfig E X False);
     (case target of
        None \<Rightarrow> State_Monad.return None
      | Some (Inl e) \<Rightarrow> State_Monad.return (Some (Inl e))
      | Some (Inr (c, svcNs)) \<Rightarrow> do {
          cl \<leftarrow> ask (\<lambda>n. x_svc_client X n c);
          (case cl of
             Some e \<Rightarrow> State_Monad.return (Some (Inl e))
           | None \<Rightarrow> do {
               r \<leftarrow> ask (\<lambda>n. x_supervisor_namespace X n c svcNs);
               State_Monad.return (Some (map_sum id supervisor_params r))
             })
        })
   }"

section \<open>Removing a Snapshot of the supervisor\<close>

text \<open>The world is that of the guest; \<open>w_svc_snapshots\<close> are the Snapshots of the supervisor.\<close>

definition DeleteSvcSnapshot ::
  "env \<Rightarrow> svc_env \<Rightarrow> string \<Rightarrow> key \<Rightarrow> bool \<Rightarrow> (world, goerr option option) state" where
  "DeleteSvcSnapshot E X svcSnapshotName gcSnapshot configGiven =
     (if svcSnapshotName = '''' then State_Monad.return (Some (Some (ErrMsg
        (''No corresponding supervisor cluster snapshot CR name for guest cluster snapshot '' @
         fst gcSnapshot @ ''/'' @ snd gcSnapshot))))
      else do {
        cfg \<leftarrow> GetSupervisorConfig E X configGiven;
        (case cfg of
           None \<Rightarrow> State_Monad.return None
         | Some (Inl e) \<Rightarrow> State_Monad.return (Some (Some e))
         | Some (Inr (svcConfig, svcNamespace)) \<Rightarrow>
             (if svcNamespace = '''' then State_Monad.return (Some (Some (ErrMsg ''Failed to retrieve svcNamespace'')))
              else do {
                cl \<leftarrow> ask (\<lambda>n. x_svc_client X n svcConfig);
                (case cl of
                   Some e \<Rightarrow> State_Monad.return (Some (Some e))
                 | None \<Rightarrow> do {
                     r \<leftarrow> cr_delete w_svc_snapshots w_svc_snapshots_update E (svcNamespace, svcSnapshotName);
                     State_Monad.return (Some (case r of
                         None \<Rightarrow> None
                       | Some e \<Rightarrow> if is_not_found e then None else Some e))
                   })
              }))
      })"

section \<open>Lemmas\<close>

lemma before_ippool:
  assumes "CHR ''i'' \<notin> set u"
  shows "before ''-ippool'' (u @ ''-ippool'' @ r) = u"
  using assms
proof (induction u)
  case (Cons c u)
  have "take (length ''-ippool'') (c # u @ ''-ippool'' @ r) \<noteq> ''-ippool''"
    using Cons.prems by (cases u) auto
  moreover have "before ''-ippool'' ((c # u) @ ''-ippool'' @ r) =
      (if take (length ''-ippool'') (c # u @ ''-ippool'' @ r) = ''-ippool'' then [] else c # before ''-ippool'' (u @ ''-ippool'' @ r))"
    by (simp only: append_Cons before.simps)
  ultimately show ?case using Cons by simp
qed simp

text \<open>
  The identifiers of the vCenter and of the supervisor are read back from an annotation of the
  documented format (cluster, colon, vCenter, address pool).
\<close>

lemma supervisor_params_read_back:
  assumes "CHR '':'' \<notin> set cluster" and "CHR '':'' \<notin> set vc" and "CHR '':'' \<notin> set pool" and "CHR ''i'' \<notin> set vc"
    and "annotations ''ncp/extpoolid'' = Some (cluster @ '':'' @ vc @ ''-ippool-'' @ pool)"
  shows "supervisor_params annotations SupervisorClusterIdKey = Some cluster \<and>
    supervisor_params annotations VCuuidKey = Some vc"
proof -
  have "split_on (CHR '':'') (cluster @ '':'' @ vc @ ''-ippool-'' @ pool) = [cluster, vc @ ''-ippool-'' @ pool]"
    using split_on_two [of "CHR '':''" cluster "vc @ ''-ippool-'' @ pool"] assms(1-3) by simp
  moreover have "before ''-ippool'' (vc @ ''-ippool-'' @ pool) = vc"
    using before_ippool [OF assms(4), of "''-'' @ pool"] by simp
  ultimately show ?thesis using assms(5)
    by (simp add: supervisor_params_def cluster_params_def SupervisorClusterIdKey_def VCuuidKey_def)
qed

lemma keeps_create_namespace [frame]:
  assumes "\<And>w n. I w \<Longrightarrow> I (w\<lparr>w_tick := n\<rparr>)" and "\<And>w t. I w \<Longrightarrow> I (w\<lparr>w_trace := t\<rparr>)"
  shows "keeps I (create_namespace E ns)"
  using assms by (auto simp: create_namespace_def triple_def split: fate.splits)

lemma keeps_GetSupervisorConfig [frame]:
  assumes "\<And>w n. I w \<Longrightarrow> I (w\<lparr>w_tick := n\<rparr>)" and "\<And>w t. I w \<Longrightarrow> I (w\<lparr>w_trace := t\<rparr>)"
  shows "keeps I (GetSupervisorConfig E X g)"
  unfolding GetSupervisorConfig_def guest_client_def checkAndCreateNamespace_def pv_secret_def waitForPvSecret_def
  by (intro keeps_rules frame) (use assms in auto)

text \<open>
  A Snapshot of the supervisor is gone after a removal that is reported as done, whether or not
  it was there, and no other Snapshot is touched.
\<close>

lemma DeleteSvcSnapshot_removes:
  assumes "run_state (DeleteSvcSnapshot E X name gc g) w = (Some None, w')"
    and "\<forall>n e. e_fate E n = Refused e \<longrightarrow> \<not> is_not_found (ErrAPI e)"
  shows "\<exists>ns. w_svc_snapshots w' (ns, name) = None \<and>
    (\<forall>k. k \<noteq> (ns, name) \<longrightarrow> w_svc_snapshots w' k = w_svc_snapshots w k)"
proof -
  obtain r v where cfg: "run_state (GetSupervisorConfig E X g) w = (r, v)" by fastforce
  have "keeps (\<lambda>u. w_svc_snapshots u = w_svc_snapshots w) (GetSupervisorConfig E X g)" by (rule frame) auto
  with cfg have v: "w_svc_snapshots v = w_svc_snapshots w" unfolding triple_def by (metis snd_conv)
  show ?thesis
    using assms cfg v
    by (auto simp: DeleteSvcSnapshot_def cr_delete_def Let_def split: if_splits option.splits sum.splits prod.splits fate.splits)
qed

end
