(* ===== verification/Server_Startup.thy ===== *)
theory Server_Startup
  imports Reload_Workers Supervisor_Access Install_Config
begin

text \<open>
  How the two servers are put together: the data mover (\<^verbatim>\<open>pkg/dataMover\<close>), the snapshot
  manager (\<^verbatim>\<open>pkg/snapshotmgr\<close>) and the servers of the data manager and of the backup
  driver (\<^verbatim>\<open>pkg/cmd/datamgr/cli/server\<close>, \<^verbatim>\<open>pkg/cmd/backupdriver/cli/server\<close>).

  The code hands one parameter map to the constructors of both managers, and the first one
  adds what it reads from the secret to it. Maps are values here, so a constructor returns the
  map it has changed and the caller goes on with that one.

  Astrolabe's direct manager is the parameter \<open>s_direct\<close>: it is given the configuration of
  the type \<^verbatim>\<open>ivd\<close>, if there is one, and the initialiser that the code registers for it,
  and tells whether it has a manager of that type then. Configurations of clients are names.
\<close>

record server_env =
  s_vddk_maps :: "nat \<Rightarrow> string \<Rightarrow> goerr + (string \<times> (string \<rightharpoonup> string)) list"
    \<comment> \<open>the config maps with the label of the disk library, name and data\<close>
  s_direct :: "params option \<Rightarrow> (params \<Rightarrow> (vsphere, goerr option) state) \<Rightarrow> (vsphere, goerr + bool) state"
    \<comment> \<open>server.NewDirectProtectedEntityManagerFromParamMap\<close>
  s_password :: string  \<comment> \<open>VC_PASSWORD\<close>
  s_factory_namespace :: string  \<comment> \<open>f.Namespace()\<close>
  s_own_config :: string  \<comment> \<open>the configuration of the clients of the own cluster\<close>
  s_config_name :: "rest_config \<Rightarrow> string"

section \<open>The settings of the disk library\<close>

definition VddkConfigLabelKey :: string where "VddkConfigLabelKey = ''velero.io/vddk-config''"
definition VixDiskLib :: string where "VixDiskLib = ''vix-disk-lib''"

definition CreateKubeClientSet :: "env \<Rightarrow> (world, goerr option) state" where
  "CreateKubeClientSet E =
     connect (\<lambda>e. ErrMsg (''Could not get client config with err: '' @ error_string e))
       (ErrWrap ''Could not create kubernetes clientset'') E"

definition add_vddk_settings :: "(string \<rightharpoonup> string) \<Rightarrow> params \<Rightarrow> goerr + params" where
  "add_vddk_settings d ps =
     (case ps vddkconfig of
        None \<Rightarrow> Inr (ps(vddkconfig \<mapsto> PMap d))
      | Some (PMap m) \<Rightarrow> Inr (ps(vddkconfig \<mapsto> PMap (m ++ d)))
      | Some _ \<Rightarrow> if d = Map.empty then Inr ps else Inl (GoPanic ''interface conversion''))"

definition RetrieveVddkLogLevel :: "env \<Rightarrow> server_env \<Rightarrow> params \<Rightarrow> (world, goerr + params) state" where
  "RetrieveVddkLogLevel E S ps = unless_err (CreateKubeClientSet E)
     (case e_velero_ns E of
        None \<Rightarrow> State_Monad.return (Inl (ErrMsg ''Failed to lookup the ENV variable for velero namespace''))
      | Some veleroNs \<Rightarrow> then_ok (ask (\<lambda>n. s_vddk_maps S n veleroNs)) (\<lambda>items.
          State_Monad.return (case items of
              [] \<Rightarrow> Inr ps
            | [(name, d)] \<Rightarrow> add_vddk_settings d ps
            | _ \<Rightarrow> Inl (ErrMsg (''found more than one ConfigMap matching label selector '' @
                VddkConfigLabelKey @ ''='' @ VixDiskLib @ '': ['' @ join (CHR '' '') (map fst items) @ '']'')))))"

section \<open>The data mover\<close>

definition GetIVDPETMFromParamsMap :: "venv \<Rightarrow> params \<Rightarrow> (vsphere, goerr + base_petm) state" where
  "GetIVDPETMFromParamsMap V ps =
     unless_err (NewIVDProtectedEntityTypeManager V ps) (State_Monad.return (Inr IvdManager))"

text \<open>The result is the type manager of the mover; its registry of uploads starts empty.\<close>

definition NewDataMoverFromCluster :: "env \<Rightarrow> venv \<Rightarrow> params \<Rightarrow> (agent, goerr + base_petm) state" where
  "NewDataMoverFromCluster E V ps =
     then_ok (if ps HostVcParamKey = None then in_world (RetrieveVcConfigSecret E False ps)
              else State_Monad.return (Inr ps))
       (\<lambda>params. then_ok (in_mover (GetIVDPETMFromParamsMap V params)) (\<lambda>petm. do {
          in_world (State (\<lambda>w. ((), w\<lparr>w_ongoing := Map.empty\<rparr>)));
          State_Monad.return (Inr petm)
        }))"

section \<open>The snapshot manager\<close>

definition VolumeSnapshotterLocalMode :: string where "VolumeSnapshotterLocalMode = ''LocalMode''"
definition VolumeSnapshotterManagerLocation :: string where
  "VolumeSnapshotterManagerLocation = ''SnapshotManagerLocation''"
definition VolumeSnapshotterPlugin :: string where "VolumeSnapshotterPlugin = ''Plugin''"
definition VolumeSnapshotterDataServer :: string where "VolumeSnapshotterDataServer = ''DataServer''"

record pvc_config =
  pvc_restConfig :: "string option"
  pvc_svcConfig :: "string option"
  pvc_svcNamespace :: "string option"

text \<open>\<^verbatim>\<open>configInfo.PEConfigs\<close>, with the two types the code puts there.\<close>

record pe_configs =
  pc_ivd :: "params option"
  pc_pvc :: "pvc_config option"

record SnapshotManager =
  sm_config :: "string \<rightharpoonup> string"
  sm_ivd :: "registered_petm option"
  sm_s3PETM :: "s3_settings option"
  sm_paravirt :: "paravirt_petm option"
  sm_clusterFlavor :: ClusterFlavor

definition ivd_configuration :: "env \<Rightarrow> bool \<Rightarrow> ClusterFlavor \<Rightarrow> params option \<Rightarrow> (world, goerr + params option) state" where
  "ivd_configuration E configGiven clusterFlavor ivd =
     (case (if clusterFlavor \<noteq> TkgGuest \<and> ivd = None then Some Map.empty else ivd) of
        None \<Rightarrow> State_Monad.return (Inr None)
      | Some ps \<Rightarrow>
          (if ps HostVcParamKey = None
           then then_ok (RetrieveVcConfigSecret E configGiven ps) (\<lambda>ps'. State_Monad.return (Inr (Some ps')))
           else State_Monad.return (Inr (Some ps))))"

definition remote_storage :: "env \<Rightarrow> bool \<Rightarrow> params \<Rightarrow> (string \<rightharpoonup> string) \<Rightarrow> (world, goerr + s3_settings) state" where
  "remote_storage E configGiven s3RepoParams config =
     then_ok (case (config ''region'', config ''bucket'') of
         (Some region, Some bucket) \<Rightarrow>
           State_Monad.return (Inr (s3RepoParams(''region'' \<mapsto> PStr region, ''bucket'' \<mapsto> PStr bucket)))
       | _ \<Rightarrow> RetrieveVSLFromVeleroBSLs E configGiven s3RepoParams DefaultS3BackupLocation)
       (GetS3PETMFromParamsMap E)"

definition paravirt_configuration :: "pvc_config option \<Rightarrow> paravirt_params" where
  "paravirt_configuration pvc = \<lparr>pp_entityType = Some ParaVirtEntityTypePersistentVolume,
     pp_restConfig = Option.bind pvc pvc_restConfig, pp_masterURL = '''', pp_kubeconfigPath = '''',
     pp_svcConfig = Option.bind pvc pvc_svcConfig, pp_svcMasterURL = '''', pp_svcKubeconfigPath = '''',
     pp_svcNamespace = Option.bind pvc pvc_svcNamespace\<rparr>"

definition when_ok :: "bool \<Rightarrow> ('s, goerr + 'a) state \<Rightarrow> ('s, goerr + 'a option) state" where
  "when_ok c m = (if c then then_ok m (\<lambda>x. State_Monad.return (Inr (Some x))) else State_Monad.return (Inr None))"

definition NewDataManagerProtectedEntityTypeManager :: "base_petm \<Rightarrow> bool \<Rightarrow> DataManagerProtectedEntityTypeManager" where
  "NewDataManagerProtectedEntityTypeManager sourcePETM upload = \<lparr>dmp_base = sourcePETM, dmp_upload = upload\<rparr>"

definition NewSnapshotManagerFromConfig ::
  "env \<Rightarrow> server_env \<Rightarrow> paravirt_env \<Rightarrow> venv \<Rightarrow> bool \<Rightarrow> pe_configs \<Rightarrow> params \<Rightarrow> (string \<rightharpoonup> string) \<Rightarrow>
   (agent, goerr + (SnapshotManager \<times> pe_configs)) state" where
  "NewSnapshotManagerFromConfig E S X V configGiven pe s3RepoParams config =
     then_ok (in_world (GetClusterFlavor E configGiven)) (\<lambda>clusterFlavor.
     then_ok (in_world (ivd_configuration E configGiven clusterFlavor (pc_ivd pe))) (\<lambda>ivd.
     let isLocalMode = GetBool (case config VolumeSnapshotterLocalMode of Some v \<Rightarrow> v | None \<Rightarrow> '''') False;
         initRemoteStorage = (clusterFlavor = VSphere)
     in then_ok (in_snap (s_direct S ivd (NewIVDProtectedEntityTypeManager V))) (\<lambda>hasIvd.
     then_ok (in_world (when_ok (\<not> isLocalMode \<and> initRemoteStorage) (remote_storage E configGiven s3RepoParams config))) (\<lambda>s3.
     then_ok (in_world (when_ok (clusterFlavor = TkgGuest)
         (NewParaVirtProtectedEntityTypeManagerFromConfig X (paravirt_configuration (pc_pvc pe))))) (\<lambda>paravirt.
     State_Monad.return (Inr
       (\<lparr>sm_config = config,
         sm_ivd = (if hasIvd then Some (Wrapped (NewDataManagerProtectedEntityTypeManager IvdManager True)) else None),
         sm_s3PETM = s3, sm_paravirt = paravirt, sm_clusterFlavor = clusterFlavor\<rparr>,
        pe\<lparr>pc_ivd := ivd\<rparr>)))))))"

text \<open>A value copied under a key that is missing is nil, and the key is there then.\<close>

definition copy_keys :: "params \<Rightarrow> string list \<Rightarrow> params" where
  "copy_keys ps ks = fold (\<lambda>k m. m(k \<mapsto> (case ps k of Some v \<Rightarrow> v | None \<Rightarrow> PNonStr))) ks Map.empty"

definition NewSnapshotManagerFromCluster ::
  "env \<Rightarrow> server_env \<Rightarrow> paravirt_env \<Rightarrow> venv \<Rightarrow> params \<Rightarrow> (string \<rightharpoonup> string) \<Rightarrow> (agent, goerr + SnapshotManager) state" where
  "NewSnapshotManagerFromCluster E S X V ps config =
     (let s3RepoParams = (if ps ''region'' = None then Map.empty
            else copy_keys ps [''region'', ''bucket'', ''s3ForcePathStyle'', ''s3Url'']);
          ivdParams = (if ps HostVcParamKey = None then Map.empty
            else copy_keys ps [HostVcParamKey, UserVcParamKey, PasswordVcParamKey, PortVcParamKey, ClusterVcParamKey])
      in then_ok (NewSnapshotManagerFromConfig E S X V False \<lparr>pc_ivd = Some ivdParams, pc_pvc = None\<rparr> s3RepoParams config)
           (\<lambda>(mgr, _). State_Monad.return (Inr mgr)))"

section \<open>The data manager\<close>

record datamgr_config =
  dc_vCenter :: string
  dc_port :: string
  dc_user :: string
  dc_clusterId :: string
  dc_vcConfigFromSecret :: bool

definition getVCConfigParams :: "datamgr_config \<Rightarrow> string \<Rightarrow> params \<Rightarrow> goerr + params" where
  "getVCConfigParams config passwd ps =
     (if dc_vCenter config = '''' then Inl (ErrMsg ''getVCConfigParams: parameter vcenter-address not provided'')
      else if dc_user config = '''' then Inl (ErrMsg ''getVCConfigParams: parameter vcenter-user not provided'')
      else if dc_clusterId config = '''' then Inl (ErrMsg ''getVCConfigParams: parameter vcenter-user not provided'')
      else Inr (ps(HostVcParamKey \<mapsto> PStr (dc_vCenter config), UserVcParamKey \<mapsto> PStr (dc_user config),
             PasswordVcParamKey \<mapsto> PStr passwd, ClusterVcParamKey \<mapsto> PStr (dc_clusterId config),
             PortVcParamKey \<mapsto> PStr (dc_port config))))"

record datamgr_server =
  ds_namespace :: string
  ds_dataMover :: base_petm
  ds_snapManager :: SnapshotManager
  ds_externalDataMgr :: bool
  ds_vcConfigSecret :: bool

definition datamgr_newServer ::
  "env \<Rightarrow> server_env \<Rightarrow> paravirt_env \<Rightarrow> venv \<Rightarrow> datamgr_config \<Rightarrow> (agent, goerr + datamgr_server) state" where
  "datamgr_newServer E S X V config =
     unless_err (in_world (ask (e_client E))) (
     unless_err (in_world (ask (e_client E))) (
     unless_err (in_world (ask (e_client E))) (
     then_ok (in_world (GetClusterFlavor E True)) (\<lambda>clusterFlavor.
     then_ok (State_Monad.return (if dc_vcConfigFromSecret config then Inr Map.empty
         else getVCConfigParams config (s_password S) Map.empty)) (\<lambda>ivdParams.
     then_ok (in_world (RetrieveVddkLogLevel E S ivdParams)) (\<lambda>ivdParams.
     then_ok (NewSnapshotManagerFromConfig E S X V True \<lparr>pc_ivd = Some ivdParams, pc_pvc = None\<rparr> Map.empty
         [VolumeSnapshotterManagerLocation \<mapsto> VolumeSnapshotterDataServer]) (\<lambda>(snapshotMgr, peConfigs).
     let externalDataMgr = (clusterFlavor \<noteq> VSphere);
         ivdParams = (case pc_ivd peConfigs of Some ps \<Rightarrow> ps | None \<Rightarrow> ivdParams)
     in then_ok (NewDataMoverFromCluster E V ivdParams) (\<lambda>clusterDataMover.
     State_Monad.return (Inr \<lparr>ds_namespace = s_factory_namespace S, ds_dataMover = clusterDataMover,
       ds_snapManager = snapshotMgr, ds_externalDataMgr = externalDataMgr,
       ds_vcConfigSecret = dc_vcConfigFromSecret config\<rparr>)))))))))"

definition namespaceExists :: "svc_env \<Rightarrow> string \<Rightarrow> (world, goerr option) state" where
  "namespaceExists N ns = do {
     r \<leftarrow> ask (\<lambda>n. x_namespace N n ns);
     State_Monad.return (case r of Inl e \<Rightarrow> Some e | Inr _ \<Rightarrow> None)
   }"

text \<open>The controllers a server starts; an upload controller knows whether the data manager is remote.\<close>

datatype controller =
    RunUploadController bool
  | RunDownloadController
  | RunVcConfigController vcConfigController
  | RunBackupDriverController

definition datamgr_runControllers :: "datamgr_server \<Rightarrow> controller list" where
  "datamgr_runControllers s =
     (if \<not> ds_externalDataMgr s \<and> ds_vcConfigSecret s
      then [RunVcConfigController \<lparr>vcc_dataMover = Some (ds_dataMover s), vcc_snapMgr = Some (sm_ivd (ds_snapManager s))\<rparr>]
      else []) @
     [RunUploadController (ds_externalDataMgr s), RunDownloadController]"

definition datamgr_run :: "svc_env \<Rightarrow> datamgr_server \<Rightarrow> (world, goerr + controller list) state" where
  "datamgr_run N s = unless_err (namespaceExists N (ds_namespace s))
     (State_Monad.return (Inr (datamgr_runControllers s)))"

section \<open>The backup driver\<close>

text \<open>
  The configuration of the claims: that of the own cluster and, in a guest cluster, that of
  the supervisor. \<open>None\<close> is a server that waits for the secret of the supervisor.
\<close>

record backupdriver_server =
  bs_namespace :: string
  bs_svcConfig :: "rest_config option"
  bs_svcNamespace :: string
  bs_snapManager :: SnapshotManager

definition guest_clients :: "svc_env \<Rightarrow> rest_config \<Rightarrow> (world, goerr + unit) state" where
  "guest_clients N svcConfig =
     unless_err (ask (\<lambda>n. x_svc_client N n svcConfig)) (
     unless_err (ask (\<lambda>n. x_svc_client N n svcConfig)) (
     unless_err (ask (\<lambda>n. x_svc_client N n svcConfig)) (State_Monad.return (Inr ()))))"

definition await :: "('s, (goerr + 'a) option) state \<Rightarrow> ('a \<Rightarrow> ('s, (goerr + 'b) option) state) \<Rightarrow>
    ('s, (goerr + 'b) option) state" where
  "await m f = do {
     r \<leftarrow> m;
     (case r of
        None \<Rightarrow> State_Monad.return None
      | Some (Inl e) \<Rightarrow> State_Monad.return (Some (Inl e))
      | Some (Inr x) \<Rightarrow> f x)
   }"

definition at_once :: "('s, goerr + 'a) state \<Rightarrow> ('s, (goerr + 'a) option) state" where
  "at_once m = do { r \<leftarrow> m; State_Monad.return (Some r) }"

text \<open>The configuration of the supervisor; its parameters are read only to be logged.\<close>

definition connect_supervisor ::
  "env \<Rightarrow> svc_env \<Rightarrow> ClusterFlavor \<Rightarrow> (world, (goerr + (rest_config \<times> string) option) option) state" where
  "connect_supervisor E N clusterFlavor =
     (if clusterFlavor = TkgGuest
      then await (GetSupervisorConfig E N True) (\<lambda>(svcConfig, svcNamespace).
        await (at_once (guest_clients N svcConfig)) (\<lambda>_. do {
          r \<leftarrow> GetSupervisorParameters E N (Some svcConfig) svcNamespace;
          State_Monad.return (case r of
              None \<Rightarrow> None
            | Some (Inl e) \<Rightarrow> if is_panic e then Some (Inl e) else Some (Inr (Some (svcConfig, svcNamespace)))
            | Some (Inr _) \<Rightarrow> Some (Inr (Some (svcConfig, svcNamespace))))
        }))
      else State_Monad.return (Some (Inr None)))"

text \<open>The clients of the own cluster: configuration, Kubernetes, plugin, backup driver, data mover.\<close>

definition driver_clients :: "env \<Rightarrow> (world, goerr + unit) state" where
  "driver_clients E =
     then_ok (do {
       c \<leftarrow> ask (e_client E);
       State_Monad.return (case c of
           Some e \<Rightarrow> Inl (ErrMsg (''failed to create config: '' @ error_string e))
         | None \<Rightarrow> Inr ())
     }) (\<lambda>_.
     unless_err (ask (e_client E)) (
     unless_err (ask (e_client E)) (
     unless_err (ask (e_client E)) (
     unless_err (ask (e_client E)) (State_Monad.return (Inr ()))))))"

definition driver_manager_config :: "bool \<Rightarrow> (rest_config \<times> string) option \<Rightarrow> (string \<rightharpoonup> string)" where
  "driver_manager_config localMode superv =
     [VolumeSnapshotterManagerLocation \<mapsto> VolumeSnapshotterDataServer,
      VolumeSnapshotterLocalMode \<mapsto> (if superv = None then format_bool localMode else ''true'')]"

definition driver_pvc_config :: "server_env \<Rightarrow> (rest_config \<times> string) option \<Rightarrow> pvc_config" where
  "driver_pvc_config S superv = \<lparr>pvc_restConfig = Some (s_own_config S),
     pvc_svcConfig = map_option (\<lambda>(c, ns). s_config_name S c) superv, pvc_svcNamespace = map_option snd superv\<rparr>"

definition backupdriver_newServer ::
  "env \<Rightarrow> server_env \<Rightarrow> svc_env \<Rightarrow> paravirt_env \<Rightarrow> venv \<Rightarrow> (agent, (goerr + backupdriver_server) option) state" where
  "backupdriver_newServer E S N X V =
     await (at_once (in_world (driver_clients E))) (\<lambda>_. do {
     localMode \<leftarrow> in_world (IsFeatureEnabled E VSphereLocalModeFlag False);
     await (at_once (in_world (GetClusterFlavor E True))) (\<lambda>clusterFlavor.
     await (in_world (connect_supervisor E N clusterFlavor)) (\<lambda>superv.
     await (at_once (NewSnapshotManagerFromConfig E S X V True
         \<lparr>pc_ivd = None, pc_pvc = Some (driver_pvc_config S superv)\<rparr> Map.empty (driver_manager_config localMode superv)))
       (\<lambda>(snapshotMgr, _).
     State_Monad.return (Some (Inr \<lparr>bs_namespace = s_factory_namespace S, bs_svcConfig = map_option fst superv,
       bs_svcNamespace = (case superv of Some (_, ns) \<Rightarrow> ns | None \<Rightarrow> ''''), bs_snapManager = snapshotMgr\<rparr>)))))
     })"

definition backupdriver_run :: "svc_env \<Rightarrow> backupdriver_server \<Rightarrow> (world, goerr + controller list) state" where
  "backupdriver_run N s = unless_err (namespaceExists N (bs_namespace s))
     (State_Monad.return (Inr [RunBackupDriverController]))"

end
