(* ===== verification/Installer.thy ===== *)
theory Installer
  imports Server_Startup
begin

text \<open>
  The two installers (\<^verbatim>\<open>pkg/install\<close>, \<^verbatim>\<open>pkg/cmd/datamgr/cli/install\<close>,
  \<^verbatim>\<open>pkg/cmd/backupdriver/cli/install\<close>): the pods of the servers, the list of resources,
  creating them, and waiting until they are ready. The checks that come first are in
  \<^verbatim>\<open>Install_Config\<close>.

  The state is a \<open>site\<close>: the \<open>world\<close> of the checks and the objects that the dynamic
  client creates, by resource, namespace and name. Their status changes while the installer
  waits, so it is not part of the state: every poll asks the environment anew.

  \<open>installer_env\<close> is the code outside the repository: the values set by the linker, the
  definitions the build generates, the conversions of the Kubernetes runtime, the file system,
  and the API server's answers about the status of the objects. A conversion from the
  unstructured form fails or gives the part of the object that the code reads.
\<close>

section \<open>Pods and manifests\<close>

datatype env_source = EnvValue string | EnvField string | EnvSecretKey string string

datatype volume_source = EmptyDir | SecretVolume string

datatype pull_policy = PullAlways | PullIfNotPresent

record toleration =
  tol_Effect :: string
  tol_Key :: string
  tol_Operator :: string
  tol_Value :: string

text \<open>What \<^verbatim>\<open>ParseCPUAndMemoryResources\<close> makes of the four limits; only passed on.\<close>

record pod_resources =
  pr_CPURequest :: string
  pr_MemRequest :: string
  pr_CPULimit :: string
  pr_MemLimit :: string

record pod_container =
  pc_Name :: string
  pc_Image :: string
  pc_PullPolicy :: pull_policy
  pc_Command :: "string list"
  pc_Args :: "string list"
  pc_VolumeMounts :: "(string \<times> string) list"
  pc_Env :: "(string \<times> env_source) list"
  pc_Resources :: "pod_resources option"

record pod_template =
  pt_Labels :: "string \<rightharpoonup> string"
  pt_Annotations :: "string \<rightharpoonup> string"
  pt_RestartPolicy :: "string option"
  pt_ServiceAccountName :: string
  pt_RunAsUser :: int
  pt_Volumes :: "(string \<times> volume_source) list"
  pt_Container :: pod_container  \<comment> \<open>the only one, Containers[0]\<close>
  pt_Tolerations :: "toleration list"
  pt_NodeSelector :: "string \<rightharpoonup> string"
  pt_HostNetwork :: bool

datatype manifest_spec =
    WorkloadSpec "string \<rightharpoonup> string" pod_template  \<comment> \<open>selector and template\<close>
  | DefinitionSpec string  \<comment> \<open>the text of a resource definition\<close>

record manifest =
  mf_APIVersion :: string
  mf_Kind :: string
  mf_Namespace :: string
  mf_Name :: string
  mf_Labels :: "string \<rightharpoonup> string"
  mf_Spec :: manifest_spec

section \<open>State and environment\<close>

type_synonym okey = "string \<times> string \<times> string"  \<comment> \<open>resource, namespace and name\<close>

record site =
  st_world :: world
  st_objects :: "okey \<Rightarrow> manifest option"

abbreviation at_site :: "(world, 'a) state \<Rightarrow> (site, 'a) state" where
  "at_site \<equiv> zoom st_world st_world_update"

interpretation site: part st_world st_world_update
  by unfold_locales simp

record crd_condition =
  cc_Type :: string
  cc_Status :: string

record deployment_condition =
  dc_Type :: string
  dc_Status :: string
  dc_LastTransitionTime :: "seconds option"  \<comment> \<open>None for the zero time\<close>

record daemonset_status =
  dst_NumberAvailable :: int
  dst_DesiredNumberScheduled :: int

datatype file_stat = FileAbsent | StatFailed goerr | FilePresent

record installer_env =
  n_version :: string  \<comment> \<open>buildinfo.Version\<close>
  n_registry :: string  \<comment> \<open>buildinfo.Registry\<close>
  n_crds :: "manifest list"  \<comment> \<open>the generated definitions\<close>
  n_to_unstructured :: "manifest \<Rightarrow> goerr option"
  n_crd :: "nat \<Rightarrow> string \<Rightarrow> goerr + (goerr + crd_condition list)"
  n_deployment :: "nat \<Rightarrow> key \<Rightarrow> goerr + (goerr + deployment_condition list)"
  n_daemonset :: "nat \<Rightarrow> key \<Rightarrow> goerr + (goerr + daemonset_status)"
  n_nodes :: "nat \<Rightarrow> goerr + nat"
  n_namespace :: "nat \<Rightarrow> string \<Rightarrow> goerr option"
  n_stat :: "nat \<Rightarrow> string \<Rightarrow> file_stat"
  n_abs :: "string \<Rightarrow> goerr + string"
  n_read_file :: "nat \<Rightarrow> string \<Rightarrow> goerr + string"
  n_parse_resources :: "pod_resources \<Rightarrow> goerr + pod_resources"
  n_print :: "nat \<Rightarrow> manifest list \<Rightarrow> goerr option"

section \<open>Names and images\<close>

definition kindToResource :: "string \<Rightarrow> string" where
  "kindToResource kind = (case map_of [
     (''CustomResourceDefinition'', ''customresourcedefinitions''),
     (''Namespace'', ''namespaces''),
     (''ClusterRoleBinding'', ''clusterrolebindings''),
     (''ServiceAccount'', ''serviceaccounts''),
     (''Deployment'', ''deployments''),
     (''DaemonSet'', ''daemonsets''),
     (''Secret'', ''secrets''),
     (''BackupStorageLocation'', ''backupstoragelocations''),
     (''VolumeSnapshotLocation'', ''volumesnapshotlocations'')] kind of Some r \<Rightarrow> r | None \<Rightarrow> '''')"

definition CRDsList :: "string list" where
  "CRDsList = [''backupstoragelocations.velero.io'', ''volumesnapshotlocations.velero.io'']"

definition DefaultImageRegistry :: string where "DefaultImageRegistry = ''vsphereveleroplugin''"

definition imageVersion :: "installer_env \<Rightarrow> string" where
  "imageVersion N = (if n_version N = '''' then ''latest'' else n_version N)"

definition imageRegistry :: "installer_env \<Rightarrow> string" where
  "imageRegistry N = (if n_registry N = '''' then DefaultImageRegistry else n_registry N)"

definition DefaultDatamgrImage :: "installer_env \<Rightarrow> string" where
  "DefaultDatamgrImage N = imageRegistry N @ ''/'' @ DataManagerForPlugin @ '':'' @ imageVersion N"

definition DefaultBackupDriverImage :: "installer_env \<Rightarrow> string" where
  "DefaultBackupDriverImage N = imageRegistry N @ ''/'' @ BackupDriverForPlugin @ '':'' @ imageVersion N"

definition resource_labels :: "string \<rightharpoonup> string" where
  "resource_labels = [''component'' \<mapsto> ''velero'']"

section \<open>The pods of the servers\<close>

record podTemplateConfig =
  ptc_image :: string
  ptc_envVars :: "(string \<times> env_source) list"
  ptc_restoreOnly :: bool
  ptc_annotations :: "string \<rightharpoonup> string"
  ptc_resources :: "pod_resources option"
  ptc_withSecret :: bool
  ptc_masterAffinity :: bool
  ptc_hostNetwork :: bool

type_synonym podTemplateOption = "podTemplateConfig \<Rightarrow> podTemplateConfig"

definition WithImage :: "string \<Rightarrow> podTemplateOption" where
  "WithImage img c = c\<lparr>ptc_image := img\<rparr>"

definition WithAnnotations :: "(string \<rightharpoonup> string) \<Rightarrow> podTemplateOption" where
  "WithAnnotations annotations c = c\<lparr>ptc_annotations := annotations\<rparr>"

definition WithSecret :: "bool \<Rightarrow> podTemplateOption" where
  "WithSecret secretPresent c = c\<lparr>ptc_withSecret := secretPresent\<rparr>"

definition WithRestoreOnly :: podTemplateOption where
  "WithRestoreOnly c = c\<lparr>ptc_restoreOnly := True\<rparr>"

definition WithResources :: "pod_resources \<Rightarrow> podTemplateOption" where
  "WithResources resources c = c\<lparr>ptc_resources := Some resources\<rparr>"

definition WithMasterNodeAffinity :: "bool \<Rightarrow> podTemplateOption" where
  "WithMasterNodeAffinity affinity c = c\<lparr>ptc_masterAffinity := affinity\<rparr>"

definition WithHostNetwork :: "bool \<Rightarrow> podTemplateOption" where
  "WithHostNetwork hostNetwork c = c\<lparr>ptc_hostNetwork := hostNetwork\<rparr>"

definition WithEnvFromSecretKey :: "string \<Rightarrow> string \<Rightarrow> string \<Rightarrow> podTemplateOption" where
  "WithEnvFromSecretKey varName secret k c =
     c\<lparr>ptc_envVars := ptc_envVars c @ [(varName, EnvSecretKey secret k)]\<rparr>"

text \<open>The configuration that a list of options makes of the default image, applied in order.\<close>

definition template_config :: "string \<Rightarrow> podTemplateOption list \<Rightarrow> podTemplateConfig" where
  "template_config img opts = fold (\<lambda>opt c. opt c) opts
     \<lparr>ptc_image = img, ptc_envVars = [], ptc_restoreOnly = False, ptc_annotations = Map.empty,
      ptc_resources = None, ptc_withSecret = False, ptc_masterAffinity = False, ptc_hostNetwork = False\<rparr>"

definition pullPolicy :: "string \<Rightarrow> pull_policy" where
  "pullPolicy img = (case split_on (CHR '':'') img of
      [_, tag] \<Rightarrow> if tag \<noteq> ''latest'' then PullIfNotPresent else PullAlways
    | _ \<Rightarrow> PullAlways)"

definition server_container :: "string \<Rightarrow> string \<Rightarrow> podTemplateConfig \<Rightarrow> pod_container" where
  "server_container name command c = \<lparr>pc_Name = name, pc_Image = ptc_image c,
     pc_PullPolicy = pullPolicy (ptc_image c), pc_Command = [command], pc_Args = [''server''],
     pc_VolumeMounts = [(''scratch'', ''/scratch'')],
     pc_Env = [(''NODE_NAME'', EnvField ''spec.nodeName''),
               (''VELERO_NAMESPACE'', EnvField ''metadata.namespace''),
               (''VELERO_SCRATCH_DIR'', EnvValue ''/scratch''),
               (''LD_LIBRARY_PATH'', EnvValue ''/vddkLibs'')],
     pc_Resources = ptc_resources c\<rparr>"

definition server_pod :: "string \<Rightarrow> string option \<Rightarrow> podTemplateConfig \<Rightarrow> pod_container \<Rightarrow> pod_template" where
  "server_pod name restart c ctr = \<lparr>pt_Labels = [''name'' \<mapsto> name, ''component'' \<mapsto> ''velero''],
     pt_Annotations = ptc_annotations c, pt_RestartPolicy = restart, pt_ServiceAccountName = ''velero'',
     pt_RunAsUser = 0, pt_Volumes = [(''scratch'', EmptyDir)], pt_Container = ctr,
     pt_Tolerations = [], pt_NodeSelector = Map.empty, pt_HostNetwork = False\<rparr>"

definition mount_credentials :: "pod_template \<Rightarrow> pod_template" where
  "mount_credentials t =
     (let ctr = pt_Container t in
      t\<lparr>pt_Volumes := pt_Volumes t @ [(''cloud-credentials'', SecretVolume ''cloud-credentials'')],
        pt_Container := ctr\<lparr>
          pc_VolumeMounts := pc_VolumeMounts ctr @ [(''cloud-credentials'', ''/credentials'')],
          pc_Env := pc_Env ctr @ [(''GOOGLE_APPLICATION_CREDENTIALS'', EnvValue ''/credentials/cloud''),
                                  (''AWS_SHARED_CREDENTIALS_FILE'', EnvValue ''/credentials/cloud''),
                                  (''AZURE_CREDENTIALS_FILE'', EnvValue ''/credentials/cloud'')]\<rparr>\<rparr>)"

definition add_env_vars :: "(string \<times> env_source) list \<Rightarrow> pod_template \<Rightarrow> pod_template" where
  "add_env_vars envVars t =
     (let ctr = pt_Container t in t\<lparr>pt_Container := ctr\<lparr>pc_Env := pc_Env ctr @ envVars\<rparr>\<rparr>)"

definition DaemonSet :: "installer_env \<Rightarrow> string \<Rightarrow> podTemplateOption list \<Rightarrow> manifest" where
  "DaemonSet N namespace opts =
     (let name = ''datamgr-for-vsphere-plugin'';
          c = template_config (DefaultDatamgrImage N) opts;
          t0 = server_pod name None c (server_container name ''/datamgr'' c);
          t1 = (if ptc_withSecret c then mount_credentials t0 else t0)
      in \<lparr>mf_APIVersion = ''apps/v1'', mf_Kind = ''DaemonSet'', mf_Namespace = namespace, mf_Name = name,
          mf_Labels = resource_labels,
          mf_Spec = WorkloadSpec [''name'' \<mapsto> name] (add_env_vars (ptc_envVars c) t1)\<rparr>)"

definition run_on_masters :: "pod_template \<Rightarrow> pod_template" where
  "run_on_masters t = t\<lparr>
     pt_Tolerations := pt_Tolerations t @
       [\<lparr>tol_Effect = ''NoSchedule'', tol_Key = ''node-role.kubernetes.io/master'', tol_Operator = ''Exists'', tol_Value = ''''\<rparr>,
        \<lparr>tol_Effect = ''NoSchedule'', tol_Key = ''node-role.kubernetes.io/control-plane'', tol_Operator = ''Exists'', tol_Value = ''''\<rparr>,
        \<lparr>tol_Effect = ''NoSchedule'', tol_Key = ''kubeadmNode'', tol_Operator = ''Equal'', tol_Value = ''master''\<rparr>],
     pt_NodeSelector := [''node-role.kubernetes.io/control-plane'' \<mapsto> '''']\<rparr>"

definition Deployment :: "installer_env \<Rightarrow> string \<Rightarrow> podTemplateOption list \<Rightarrow> manifest" where
  "Deployment N namespace opts =
     (let name = ''backup-driver'';
          c = template_config (DefaultBackupDriverImage N) opts;
          t0 = server_pod name (Some ''Always'') c (server_container name ''/backup-driver'' c);
          t1 = (if ptc_masterAffinity c then run_on_masters t0 else t0);
          t2 = (if ptc_hostNetwork c then t1\<lparr>pt_HostNetwork := True\<rparr> else t1)
      in \<lparr>mf_APIVersion = ''apps/v1'', mf_Kind = ''Deployment'', mf_Namespace = namespace, mf_Name = name,
          mf_Labels = resource_labels,
          mf_Spec = WorkloadSpec [''name'' \<mapsto> name] (add_env_vars (ptc_envVars c) t2)\<rparr>)"

section \<open>The lists of resources\<close>

record PodOptions =
  po_Namespace :: string
  po_Image :: string
  po_ProviderName :: string
  po_Bucket :: string
  po_Prefix :: string
  po_PodAnnotations :: "string \<rightharpoonup> string"
  po_PodResources :: pod_resources
  po_SecretData :: string
  po_SecretAdd :: bool
  po_MasterAffinity :: bool
  po_HostNetwork :: bool
  po_Features :: "string list"

text \<open>An object that cannot be converted is left out: the callers ignore the error.\<close>

definition appendUnstructured :: "installer_env \<Rightarrow> manifest list \<Rightarrow> manifest \<Rightarrow> manifest list" where
  "appendUnstructured N resources obj =
     (case n_to_unstructured N obj of Some _ \<Rightarrow> resources | None \<Rightarrow> resources @ [obj])"

definition AllCRDs :: "installer_env \<Rightarrow> manifest list" where
  "AllCRDs N = fold (\<lambda>crd resources. appendUnstructured N resources (crd\<lparr>mf_Labels := resource_labels\<rparr>)) (n_crds N) []"

definition AllDatamgrResources :: "installer_env \<Rightarrow> PodOptions \<Rightarrow> bool \<Rightarrow> manifest list" where
  "AllDatamgrResources N po withCRDs =
     appendUnstructured N (if withCRDs then AllCRDs N else [])
       (DaemonSet N (po_Namespace po) [WithAnnotations (po_PodAnnotations po), WithImage (po_Image po),
          WithResources (po_PodResources po), WithSecret (po_SecretAdd po)])"

definition AllBackupDriverResources :: "installer_env \<Rightarrow> PodOptions \<Rightarrow> bool \<Rightarrow> manifest list" where
  "AllBackupDriverResources N po withCRDs =
     appendUnstructured N (if withCRDs then AllCRDs N else [])
       (Deployment N (po_Namespace po) [WithAnnotations (po_PodAnnotations po), WithImage (po_Image po),
          WithResources (po_PodResources po), WithMasterNodeAffinity (po_MasterAffinity po),
          WithHostNetwork (po_HostNetwork po)])"

record ResourceGroup =
  rg_CRDResources :: "manifest list"
  rg_OtherResources :: "manifest list"

primrec group_from :: "ResourceGroup \<Rightarrow> manifest list \<Rightarrow> ResourceGroup" where
  "group_from rg [] = rg"
| "group_from rg (r # rs) =
     (if mf_Kind r = ''CustomResourceDefinition''
      then group_from (rg\<lparr>rg_CRDResources := rg_CRDResources rg @ [r]\<rparr>) rs
      else group_from (rg\<lparr>rg_OtherResources := rg_OtherResources rg @ [r]\<rparr>) rs)"

definition GroupResources :: "manifest list \<Rightarrow> ResourceGroup" where
  "GroupResources resources = group_from \<lparr>rg_CRDResources = [], rg_OtherResources = []\<rparr> resources"

section \<open>Creating resources\<close>

fun is_already_exists :: "goerr \<Rightarrow> bool" where
  "is_already_exists (ErrAPI e) \<longleftrightarrow> e = OtherStatus ''already exists''"
| "is_already_exists _ \<longleftrightarrow> False"

definition object_key :: "manifest \<Rightarrow> okey" where
  "object_key m = (kindToResource (mf_Kind m), mf_Namespace m, mf_Name m)"

text \<open>The dynamic client's request, with the three fates of a request to the API server.\<close>

definition create_object :: "env \<Rightarrow> manifest \<Rightarrow> (site, goerr option) state" where
  "create_object E m = State (\<lambda>s.
     let s' = s\<lparr>st_world := (st_world s)\<lparr>w_tick := Suc (w_tick (st_world s))\<rparr>\<rparr>;
         stored = s'\<lparr>st_objects := (st_objects s)(object_key m := Some m)\<rparr>
     in (case e_fate E (w_tick (st_world s)) of
           Refused e \<Rightarrow> (Some (ErrAPI e), s')
         | Accepted \<Rightarrow> (case st_objects s (object_key m) of
               None \<Rightarrow> (None, stored)
             | Some _ \<Rightarrow> (Some (ErrAPI (OtherStatus ''already exists'')), s'))
         | AnswerLost e \<Rightarrow> (case st_objects s (object_key m) of
               None \<Rightarrow> (Some (ErrAPI e), stored)
             | Some _ \<Rightarrow> (Some (ErrAPI e), s'))))"

definition createResource :: "env \<Rightarrow> manifest \<Rightarrow> (site, goerr option) state" where
  "createResource E r = do {
     let ident = mf_Kind r @ ''/'' @ mf_Name r;
     c \<leftarrow> at_site (ask (e_client E));
     (case c of
        Some e \<Rightarrow> State_Monad.return (Some (ErrWrap (''Error creating client for resource '' @ ident) e))
      | None \<Rightarrow> do {
          err \<leftarrow> create_object E r;
          State_Monad.return (case err of
              None \<Rightarrow> None
            | Some e \<Rightarrow>
                if is_already_exists e then None
                else Some (ErrWrap (''Error creating resource '' @ ident) e))
        })
   }"

primrec create_all :: "env \<Rightarrow> manifest list \<Rightarrow> (site, goerr option) state" where
  "create_all E [] = State_Monad.return None"
| "create_all E (r # rs) = do {
     err \<leftarrow> createResource E r;
     (case err of Some e \<Rightarrow> State_Monad.return (Some e) | None \<Rightarrow> create_all E rs)
   }"

section \<open>Waiting for the definitions\<close>

definition crdIsReady :: "crd_condition list \<Rightarrow> bool" where
  "crdIsReady conditions \<longleftrightarrow>
     list_ex (\<lambda>cond. cc_Type cond = ''Established'') conditions \<and>
     list_ex (\<lambda>cond. cc_Type cond = ''NamesAccepted'') conditions"

text \<open>
  The loop over the names inside the poll: \<open>Some\<close> result when the attempt ends there. The
  definitions found are appended to the list that all attempts share.
\<close>

primrec find_crds ::
  "installer_env \<Rightarrow> string list \<Rightarrow> crd_condition list list \<Rightarrow>
   (world, (goerr + bool) option \<times> crd_condition list list) state" where
  "find_crds N [] foundCRDs = State_Monad.return (None, foundCRDs)"
| "find_crds N (k # ks) foundCRDs = do {
     r \<leftarrow> ask (\<lambda>n. n_crd N n k);
     (case r of
        Inl e \<Rightarrow>
          if is_not_found e then State_Monad.return (Some (Inr False), foundCRDs)
          else State_Monad.return (Some (Inl (ErrWrap (''error waiting for '' @ k @ '' to be ready'') e)), foundCRDs)
      | Inr (Inl e) \<Rightarrow>
          State_Monad.return (Some (Inl (ErrWrap (''error converting '' @ k @ '' from unstructured'') e)), foundCRDs)
      | Inr (Inr crd) \<Rightarrow> find_crds N ks (foundCRDs @ [crd]))
   }"

definition crds_attempt ::
  "installer_env \<Rightarrow> string list \<Rightarrow> crd_condition list list \<times> bool \<Rightarrow>
   (world, (goerr + bool) \<times> (crd_condition list list \<times> bool)) state" where
  "crds_attempt N crdKinds l = do {
     (stop, foundCRDs) \<leftarrow> find_crds N crdKinds (fst l);
     State_Monad.return (case stop of
         Some r \<Rightarrow> (r, (foundCRDs, snd l))
       | None \<Rightarrow>
           if length foundCRDs \<noteq> length crdKinds then (Inr False, (foundCRDs, snd l))
           else if list_all crdIsReady foundCRDs then (Inr True, (foundCRDs, True))
           else (Inr False, (foundCRDs, snd l)))
   }"

text \<open>The error of the poll is assigned and never returned.\<close>

definition crdsAreReady :: "env \<Rightarrow> installer_env \<Rightarrow> string list \<Rightarrow> (world, bool \<times> goerr option) state" where
  "crdsAreReady E N crdKinds = do {
     c \<leftarrow> ask (e_client E);
     (case c of
        Some e \<Rightarrow> State_Monad.return
          (False, Some (ErrWrap ''Error creating client for CustomResourceDefinition polling'' e))
      | None \<Rightarrow> do {
          n \<leftarrow> ask (e_polls E);
          (_, l) \<leftarrow> poll_immediate n (crds_attempt N crdKinds) ([], False);
          State_Monad.return (snd l, None)
        })
   }"

definition Install :: "env \<Rightarrow> installer_env \<Rightarrow> manifest list \<Rightarrow> (site, goerr option) state" where
  "Install E N resources = do {
     let rg = GroupResources resources;
     err \<leftarrow> create_all E (rg_CRDResources rg);
     (case err of
        Some e \<Rightarrow> State_Monad.return (Some e)
      | None \<Rightarrow> do {
          (_, err) \<leftarrow> at_site (crdsAreReady E N CRDsList);
          (case err of
             Some e \<Rightarrow> State_Monad.return
               (Some (if e = ErrWaitTimeout then ErrMsg ''timeout reached, CRDs not ready'' else e))
           | None \<Rightarrow> create_all E (rg_OtherResources rg))
        })
   }"

section \<open>Waiting for the servers\<close>

definition isAvailable :: "env \<Rightarrow> deployment_condition \<Rightarrow> (world, bool) state" where
  "isAvailable E c =
     (if dc_Type c = ''Available'' \<and> dc_Status c = ''True'' then
        (case dc_LastTransitionTime c of
           None \<Rightarrow> State_Monad.return False
         | Some t \<Rightarrow> do {
             now \<leftarrow> clock_now E;
             State_Monad.return ((t + 10) * nanos_per_second < now)
           })
      else State_Monad.return False)"

primrec count_available :: "env \<Rightarrow> deployment_condition list \<Rightarrow> int \<Rightarrow> (world, int) state" where
  "count_available E [] observations = State_Monad.return observations"
| "count_available E (c # cs) observations = do {
     b \<leftarrow> isAvailable E c;
     count_available E cs (if b then observations + 1 else observations)
   }"

text \<open>
  The locals of both waits are the number of ready observations and the answer. The counter
  is an \<^verbatim>\<open>int32\<close>; the loop ends once it exceeds 4.
\<close>

definition enough_observations :: "int \<Rightarrow> bool \<Rightarrow> (goerr + bool) \<times> (int \<times> bool)" where
  "enough_observations readyObservations isReady =
     (if readyObservations > 4 then (Inr True, (readyObservations, True))
      else (Inr False, (readyObservations, isReady)))"

definition deployment_attempt ::
  "env \<Rightarrow> installer_env \<Rightarrow> string \<Rightarrow> int \<times> bool \<Rightarrow> (world, (goerr + bool) \<times> (int \<times> bool)) state" where
  "deployment_attempt E N namespace l = do {
     r \<leftarrow> ask (\<lambda>n. n_deployment N n (namespace, ''backup-driver''));
     (case r of
        Inl e \<Rightarrow>
          if is_not_found e then State_Monad.return (Inr False, l)
          else State_Monad.return (Inl (ErrWrap ''error waiting for deployment to be ready'' e), l)
      | Inr (Inl e) \<Rightarrow>
          State_Monad.return (Inl (ErrWrap ''error converting deployment from unstructured'' e), l)
      | Inr (Inr conditions) \<Rightarrow> do {
          readyObservations \<leftarrow> count_available E conditions (fst l);
          State_Monad.return (enough_observations readyObservations (snd l))
        })
   }"

definition DeploymentIsReady :: "env \<Rightarrow> installer_env \<Rightarrow> string \<Rightarrow> (world, bool \<times> goerr option) state" where
  "DeploymentIsReady E N namespace = do {
     c \<leftarrow> ask (e_client E);
     (case c of
        Some e \<Rightarrow> State_Monad.return (False, Some (ErrWrap ''Error creating client for deployment polling'' e))
      | None \<Rightarrow> do {
          n \<leftarrow> ask (e_polls E);
          (err, l) \<leftarrow> poll_immediate n (deployment_attempt E N namespace) (0, False);
          State_Monad.return (snd l, err)
        })
   }"

definition daemonset_attempt ::
  "installer_env \<Rightarrow> string \<Rightarrow> int \<times> bool \<Rightarrow> (world, (goerr + bool) \<times> (int \<times> bool)) state" where
  "daemonset_attempt N namespace l = do {
     r \<leftarrow> ask (\<lambda>n. n_daemonset N n (namespace, ''datamgr-for-vsphere-plugin''));
     State_Monad.return (case r of
         Inl e \<Rightarrow>
           if is_not_found e then (Inr False, l)
           else (Inl (ErrWrap ''error waiting for daemonset to be ready'' e), l)
       | Inr (Inl e) \<Rightarrow> (Inl (ErrWrap ''error converting daemonset from unstructured'' e), l)
       | Inr (Inr st) \<Rightarrow>
           enough_observations
             (if dst_NumberAvailable st = dst_DesiredNumberScheduled st then fst l + 1 else fst l) (snd l))
   }"

text \<open>
  The time allowed is one minute per node. For no nodes it is zero, which
  \<^verbatim>\<open>wait.PollImmediate\<close> takes as no limit: then \<open>None\<close> stands for a call that has not
  returned after the attempts given by the environment.
\<close>

definition DaemonSetIsReady ::
  "env \<Rightarrow> installer_env \<Rightarrow> string \<Rightarrow> nat \<Rightarrow> (world, (bool \<times> goerr option) option) state" where
  "DaemonSetIsReady E N namespace nNodes = do {
     c \<leftarrow> ask (e_client E);
     (case c of
        Some e \<Rightarrow> State_Monad.return (Some (False, Some (ErrWrap ''Error creating client for daemonset polling'' e)))
      | None \<Rightarrow> do {
          n \<leftarrow> ask (e_polls E);
          (err, l) \<leftarrow> poll_immediate n (daemonset_attempt N namespace) (0, False);
          State_Monad.return (if nNodes = 0 \<and> err = Some ErrWaitTimeout then None else Some (snd l, err))
        })
   }"

section \<open>The commands\<close>

text \<open>
  The options of both commands: the ones the checks read and change are in \<open>fo_base\<close>. The
  backup driver's command has no bucket, provider, secret and dry run; its values stay at the
  defaults.
\<close>

record command_options =
  fo_base :: install_options
  fo_BucketName :: string
  fo_Prefix :: string
  fo_ProviderName :: string
  fo_PodAnnotations :: "string \<rightharpoonup> string"
  fo_Resources :: pod_resources
  fo_SecretFile :: string
  fo_NoSecret :: bool
  fo_DryRun :: bool

definition default_options :: "string \<Rightarrow> command_options" where
  "default_options img = \<lparr>fo_base = \<lparr>io_Namespace = ''velero'', io_Image = img, io_MasterAffinity = False,
       io_HostNetwork = False, io_SkipInstall = False\<rparr>,
     fo_BucketName = '''', fo_Prefix = '''', fo_ProviderName = '''', fo_PodAnnotations = Map.empty,
     fo_Resources = \<lparr>pr_CPURequest = ''0'', pr_MemRequest = ''0'', pr_CPULimit = ''0'', pr_MemLimit = ''0''\<rparr>,
     fo_SecretFile = '''', fo_NoSecret = False, fo_DryRun = False\<rparr>"

definition datamgr_NewInstallOptions :: "installer_env \<Rightarrow> command_options" where
  "datamgr_NewInstallOptions N = default_options (DefaultDatamgrImage N)"

definition backupdriver_NewInstallOptions :: "installer_env \<Rightarrow> command_options" where
  "backupdriver_NewInstallOptions N = default_options (DefaultBackupDriverImage N)"

text \<open>The namespace of the pod the command runs in, taken from its service account.\<close>

definition namespace_file :: string where
  "namespace_file = ''/var/run/secrets/kubernetes.io/serviceaccount/namespace''"

definition Complete :: "env \<Rightarrow> installer_env \<Rightarrow> command_options \<Rightarrow> (world, goerr + command_options) state" where
  "Complete E N opts = do {
     st \<leftarrow> ask (\<lambda>n. n_stat N n namespace_file);
     (case st of
        FileAbsent \<Rightarrow> State_Monad.return (Inr opts)
      | StatFailed e \<Rightarrow> State_Monad.return (Inl e)
      | FilePresent \<Rightarrow>
          then_ok (ask (\<lambda>n. n_read_file N n namespace_file)) (\<lambda>namespace.
          unless_err (connect id id E) (
          unless_err (ask (\<lambda>n. n_namespace N n namespace))
            (State_Monad.return (Inr (opts\<lparr>fo_base := (fo_base opts)\<lparr>io_Namespace := namespace\<rparr>\<rparr>))))))
   }"

definition read_secret :: "installer_env \<Rightarrow> command_options \<Rightarrow> (world, goerr + string) state" where
  "read_secret N opts =
     (if fo_SecretFile opts \<noteq> '''' \<and> \<not> fo_NoSecret opts then
        (case n_abs N (fo_SecretFile opts) of
           Inl e \<Rightarrow> State_Monad.return (Inl e)
         | Inr realPath \<Rightarrow> ask (\<lambda>n. n_read_file N n realPath))
      else State_Monad.return (Inr ''''))"

definition AsDatamgrOptions :: "installer_env \<Rightarrow> command_options \<Rightarrow> (world, goerr + PodOptions) state" where
  "AsDatamgrOptions N opts =
     then_ok (read_secret N opts) (\<lambda>secretData.
     State_Monad.return (case n_parse_resources N (fo_Resources opts) of
         Inl e \<Rightarrow> Inl e
       | Inr podResources \<Rightarrow> Inr
           \<lparr>po_Namespace = io_Namespace (fo_base opts), po_Image = io_Image (fo_base opts),
            po_ProviderName = fo_ProviderName opts, po_Bucket = fo_BucketName opts, po_Prefix = fo_Prefix opts,
            po_PodAnnotations = fo_PodAnnotations opts, po_PodResources = podResources,
            po_SecretData = secretData, po_SecretAdd = True, po_MasterAffinity = False,
            po_HostNetwork = False, po_Features = []\<rparr>))"

definition AsBackupDriverOptions :: "installer_env \<Rightarrow> command_options \<Rightarrow> goerr + PodOptions" where
  "AsBackupDriverOptions N opts = (case n_parse_resources N (fo_Resources opts) of
       Inl e \<Rightarrow> Inl e
     | Inr podResources \<Rightarrow> Inr
         \<lparr>po_Namespace = io_Namespace (fo_base opts), po_Image = io_Image (fo_base opts),
          po_ProviderName = '''', po_Bucket = '''', po_Prefix = '''',
          po_PodAnnotations = fo_PodAnnotations opts, po_PodResources = podResources,
          po_SecretData = '''', po_SecretAdd = False, po_MasterAffinity = io_MasterAffinity (fo_base opts),
          po_HostNetwork = io_HostNetwork (fo_base opts), po_Features = []\<rparr>)"

definition getNumberOfNodes :: "installer_env \<Rightarrow> (world, goerr + nat) state" where
  "getNumberOfNodes N = ask (n_nodes N)"

text \<open>
  \<^verbatim>\<open>Run\<close> of both commands. The receiver's options are changed by the checks; the result of
  a run without an error is the options as it leaves them. \<open>None\<close> stands for a run that is
  still waiting for the daemon set.
\<close>

definition wrap_option :: "string \<Rightarrow> goerr option \<Rightarrow> goerr option" where
  "wrap_option msg = map_option (ErrWrap msg)"

definition wrapping :: "string \<Rightarrow> ('s, goerr option) state \<Rightarrow> ('s, goerr option) state" where
  "wrapping msg m = do { err \<leftarrow> m; State_Monad.return (wrap_option msg err) }"

definition datamgr_error :: "install_options \<Rightarrow> string" where
  "datamgr_error opts = [CHR 0x0A, CHR 0x0A] @ ''Error installing data manager. Use `kubectl logs daemonset/'' @ DataManagerForPlugin @
     '' -n '' @ io_Namespace opts @ ''` to check the logs''"

definition wait_for_datamgr ::
  "env \<Rightarrow> installer_env \<Rightarrow> command_options \<Rightarrow> nat \<Rightarrow> (site, (goerr + command_options) option) state" where
  "wait_for_datamgr E N opts nNodes = do {
     r \<leftarrow> at_site (DaemonSetIsReady E N (io_Namespace (fo_base opts)) nNodes);
     State_Monad.return (case r of
         None \<Rightarrow> None
       | Some (_, Some e) \<Rightarrow> Some (Inl (ErrWrap (datamgr_error (fo_base opts)) e))
       | Some (_, None) \<Rightarrow> Some (Inr opts))
   }"

definition deploy_datamgr ::
  "env \<Rightarrow> installer_env \<Rightarrow> command_options \<Rightarrow> manifest list \<Rightarrow> (site, (goerr + command_options) option) state" where
  "deploy_datamgr E N opts resources =
     (if fo_DryRun opts then State_Monad.return (Some (Inr opts))
      else await (at_once (at_site (
             unless_err (ask (e_client E)) (
             Prelude.wrap_error ''Error while getting number of nodes in kubernetes cluster'' (getNumberOfNodes N)))))
        (\<lambda>nNodes.
        await (at_once (unless_err (wrapping (datamgr_error (fo_base opts)) (Install E N resources))
                 (State_Monad.return (Inr ()))))
        (\<lambda>_. wait_for_datamgr E N opts nNodes)))"

definition datamgr_Run ::
  "env \<Rightarrow> install_env \<Rightarrow> installer_env \<Rightarrow> command_options \<Rightarrow> (site, (goerr + command_options) option) state" where
  "datamgr_Run E I N opts =
     await (at_once (at_site (
       unless_err (wrapping ''Failed to get kubeClient'' (ask (e_client E)))
         (datamgr_prerequisites E I (fo_base opts)))))
     (\<lambda>base.
     let opts1 = opts\<lparr>fo_base := base\<rparr> in
     if io_SkipInstall base then State_Monad.return (Some (Inr opts1))
     else await (at_once (at_site (
            then_ok (AsDatamgrOptions N opts1) (\<lambda>vo.
            unless_err (ask (\<lambda>n. n_print N n (AllDatamgrResources N vo True)))
              (State_Monad.return (Inr (AllDatamgrResources N vo True)))))))
       (deploy_datamgr E N opts1))"

definition backupdriver_error :: "install_options \<Rightarrow> string" where
  "backupdriver_error opts = [CHR 0x0A, CHR 0x0A] @ ''Error installing backup-driver. Use `kubectl logs deploy/'' @ BackupDriverForPlugin @
     '' -n '' @ io_Namespace opts @ ''` to check the logs''"

definition deploy_backupdriver ::
  "env \<Rightarrow> installer_env \<Rightarrow> command_options \<Rightarrow> manifest list \<Rightarrow> (site, goerr + command_options) state" where
  "deploy_backupdriver E N opts resources =
     unless_err (at_site (ask (e_client E))) (
     unless_err (wrapping (backupdriver_error (fo_base opts)) (Install E N resources)) (do {
       (_, err) \<leftarrow> at_site (DeploymentIsReady E N (io_Namespace (fo_base opts)));
       State_Monad.return (case err of
           Some e \<Rightarrow> Inl (ErrWrap (backupdriver_error (fo_base opts)) e)
         | None \<Rightarrow> Inr opts)
     }))"

definition backupdriver_Run ::
  "env \<Rightarrow> install_env \<Rightarrow> installer_env \<Rightarrow> command_options \<Rightarrow> (site, goerr + command_options) state" where
  "backupdriver_Run E I N opts =
     then_ok (at_site (
       unless_err (wrapping ''Failed to get kubeClient'' (ask (e_client E)))
         (backupdriver_prerequisites E I (fo_base opts))))
     (\<lambda>base.
     let opts1 = opts\<lparr>fo_base := base\<rparr> in
     (case AsBackupDriverOptions N opts1 of
        Inl e \<Rightarrow> State_Monad.return (Inl e)
      | Inr vo \<Rightarrow>
          (let resources = AllBackupDriverResources N vo True in
           unless_err (at_site (ask (\<lambda>n. n_print N n resources)))
             (deploy_backupdriver E N opts1 resources))))"

text \<open>The commands: completing the options, then the run.\<close>

definition datamgr_install ::
  "env \<Rightarrow> install_env \<Rightarrow> installer_env \<Rightarrow> command_options \<Rightarrow> (site, (goerr + command_options) option) state" where
  "datamgr_install E I N opts = await (at_once (at_site (Complete E N opts))) (datamgr_Run E I N)"

definition backupdriver_install ::
  "env \<Rightarrow> install_env \<Rightarrow> installer_env \<Rightarrow> command_options \<Rightarrow> (site, goerr + command_options) state" where
  "backupdriver_install E I N opts = then_ok (at_site (Complete E N opts)) (backupdriver_Run E I N)"

end
