(* ===== verification/Startup_Correctness.thy ===== *)
theory Startup_Correctness
  imports Server_Startup Paravirt_Correctness
begin

text \<open>
  What holds of the servers when they have started: the two managers of the data manager know
  the same account, the controller of the vCenter configuration is given both of them, and the
  backup driver of a guest cluster works through its supervisor only.
\<close>

section \<open>Parts of a process\<close>

lemma in_world_run:
  assumes "run_state (in_world m) s = (r, s')"
  shows "ag_mover s' = ag_mover s \<and> ag_snap s' = ag_snap s \<and> run_state m (ag_world s) = (r, ag_world s')"
  using assms by (auto simp: zoom_def split: prod.splits)

lemma in_mover_run:
  assumes "run_state (in_mover m) s = (r, s')"
  shows "ag_world s' = ag_world s \<and> ag_snap s' = ag_snap s \<and> run_state m (ag_mover s) = (r, ag_mover s')"
  using assms by (auto simp: zoom_def split: prod.splits)

lemma in_snap_run:
  assumes "run_state (in_snap m) s = (r, s')"
  shows "ag_world s' = ag_world s \<and> ag_mover s' = ag_mover s \<and> run_state m (ag_snap s) = (r, ag_snap s')"
  using assms by (auto simp: zoom_def split: prod.splits)

lemma unless_err_Inr:
  assumes "run_state (unless_err m k) s = (Inr y, s'')"
  obtains s' where "run_state m s = (None, s')" and "run_state k s' = (Inr y, s'')"
  using assms by (auto simp: run_unless_err split: prod.splits option.splits)

section \<open>The account a manager starts with\<close>

definition remembers :: "VirtualCenterConfig \<Rightarrow> vsphere \<Rightarrow> bool" where
  "remembers cfg s \<longleftrightarrow> (\<exists>k d. im_vcenterConfig (vs_petm s) = Some k \<and> vs_configs s k = Some d \<and> same_account cfg d)"

lemma reload_remembers:
  assumes wf: "connections_wf s" and ps: "ps \<noteq> Map.empty" "GetVirtualCenterConfigFromParams ps = Inr cfg"
    and changed: "CheckIfVirtualCenterConfigChanged (Option.bind (im_vcenterConfig (vs_petm s)) (vs_configs s)) (Some cfg) = Inr True"
    and run: "run_state (ReloadConfig V ps) s = (r, s')"
  shows "remembers cfg s'"
proof -
  obtain t and d :: "goerr + unit" where t: "run_state (ReloadConfig V ps) s =
      (case d of Inl e \<Rightarrow> (Some e, t) | Inr _ \<Rightarrow> run_state (establish V ps (Some (vs_next s))) t)"
    and wft: "connections_wf t" and pt: "vs_petm t = (vs_petm s)\<lparr>im_vcenterConfig := Some (vs_next s)\<rparr>"
    and kt: "vs_configs t (vs_next s) = Some cfg"
    by (rule ReloadConfig_changed [OF wf ps changed])
  show ?thesis
  proof (cases d)
    case (Inl e)
    with t run pt kt show ?thesis by (auto simp: remembers_def same_account_def)
  next
    case (Inr u)
    with t run have est: "run_state (establish V ps (Some (vs_next s))) t = (r, s')" by simp
    from establish_run(2) [OF est wft] establish_account [OF est kt] pt show ?thesis by (auto simp: remembers_def)
  qed
qed

lemma same_account_iff:
  assumes "same_account a b"
  shows "same_account c a \<longleftrightarrow> same_account c b"
  using assms by (auto simp: same_account_def)

lemma new_manager_remembers:
  assumes wf: "connections_wf s" and ps: "ps \<noteq> Map.empty"
    and run: "run_state (NewIVDProtectedEntityTypeManager V ps) s = (r, s')"
  shows "remembers c s' \<longleftrightarrow> (\<exists>cfg. GetVirtualCenterConfigFromParams ps = Inr cfg \<and> same_account c cfg)"
proof -
  let ?s = "s\<lparr>vs_petm := no_petm\<rparr>"
  obtain q where reload: "run_state (ReloadConfig V ps) ?s = (q, s')"
    using run by (auto simp: NewIVDProtectedEntityTypeManager_def split: prod.splits)
  show ?thesis
  proof (cases "GetVirtualCenterConfigFromParams ps")
    case (Inl e)
    with reload ps show ?thesis by (auto simp: ReloadConfig_def reload_target_def remembers_def no_petm_def)
  next
    case (Inr cfg)
    have wf': "connections_wf ?s" using wf by (simp add: connections_wf_def allocated_def no_petm_def)
    have "CheckIfVirtualCenterConfigChanged (Option.bind (im_vcenterConfig (vs_petm ?s)) (vs_configs ?s)) (Some cfg) = Inr True"
      by (simp add: CheckIfVirtualCenterConfigChanged_def no_petm_def)
    from reload_remembers [OF wf' ps Inr this reload] Inr show ?thesis
      by (auto simp: remembers_def dest: same_account_iff)
  qed
qed

section \<open>The constructors\<close>

text \<open>Every secret that can be parsed names a vCenter.\<close>

definition secrets_name_a_center :: "env \<Rightarrow> bool" where
  "secrets_name_a_center E \<longleftrightarrow> (\<forall>v cid vcs. e_gcfg E v = Inr (cid, vcs) \<longrightarrow> vcs \<noteq> [])"

lemma retrieved_host:
  assumes "run_state (RetrieveVcConfigSecret E g ps) w = (Inr ps', w')" and "secrets_name_a_center E"
  shows "ps' HostVcParamKey \<noteq> None"
proof -
  have kept: "qs HostVcParamKey \<noteq> None \<Longrightarrow> fold vc_params vcs qs HostVcParamKey \<noteq> None" for vcs qs
    by (induction vcs arbitrary: qs) (auto simp: vc_params_def)
  have "vcs \<noteq> [] \<Longrightarrow> fold vc_params vcs qs HostVcParamKey \<noteq> None" for vcs qs
    using kept by (cases vcs) (auto simp: vc_params_def HostVcParamKey_def)
  then have "vals \<noteq> [] \<Longrightarrow> ParseConfig E vals ps = Inr ps' \<Longrightarrow> ps' HostVcParamKey \<noteq> None" for vals
    using assms(2) by (auto simp: ParseConfig_def secrets_name_a_center_def split: list.splits sum.splits)
  with assms(1) show ?thesis
    by (auto simp: RetrieveVcConfigSecret_def split: option.splits sum.splits if_splits prod.splits)
qed

lemma ivd_configuration_host:
  assumes "run_state (ivd_configuration E g flavor (Some ps)) w = (Inr ivd, w')" and "secrets_name_a_center E"
  shows "\<exists>ps'. ivd = Some ps' \<and> ps' HostVcParamKey \<noteq> None"
  using assms
  by (auto simp: ivd_configuration_def run_then_ok split: if_splits prod.splits sum.splits dest: retrieved_host)

lemma snapshot_manager_built:
  assumes "run_state (NewSnapshotManagerFromConfig E S X V g pe s3 config) s = (Inr (mgr, pe'), s')"
    and "pc_ivd pe = Some ps" and "secrets_name_a_center E"
  shows "\<exists>ps' hasIvd. pc_ivd pe' = Some ps' \<and> ps' HostVcParamKey \<noteq> None \<and> ag_mover s' = ag_mover s \<and>
    run_state (s_direct S (Some ps') (NewIVDProtectedEntityTypeManager V)) (ag_snap s) = (Inr hasIvd, ag_snap s') \<and>
    sm_ivd mgr = (if hasIvd then Some (Wrapped \<lparr>dmp_base = IvdManager, dmp_upload = True\<rparr>) else None)"
  using assms(1) unfolding NewSnapshotManagerFromConfig_def Let_def
  apply (elim then_ok_Inr)
  subgoal for flavor s1 ivd s2 hasIvd s3 r s4 p s5
    using ivd_configuration_host [of E g flavor ps "ag_world s1" ivd "ag_world s2"] assms(2,3)
    by (intro exI [of _ "the ivd"] exI [of _ hasIvd])
      (auto simp: NewDataManagerProtectedEntityTypeManager_def dest!: in_world_run in_snap_run)
  done

lemma data_mover_built:
  assumes "run_state (NewDataMoverFromCluster E V ps) s = (Inr petm, s')" and "ps HostVcParamKey \<noteq> None"
  shows "petm = IvdManager" and "ag_snap s' = ag_snap s"
    and "run_state (NewIVDProtectedEntityTypeManager V ps) (ag_mover s) = (None, ag_mover s')"
  using assms
  by (auto simp: NewDataMoverFromCluster_def GetIVDPETMFromParamsMap_def run_then_ok run_unless_err zoom_def
      split: prod.splits sum.splits option.splits)

section \<open>The data manager\<close>

text \<open>
  Astrolabe's direct manager runs the initialiser it was given on the configuration, and has a
  manager of the type if the initialiser reports no error; without a configuration it does neither.
\<close>

definition runs_initialiser :: "server_env \<Rightarrow> bool" where
  "runs_initialiser S \<longleftrightarrow> (\<forall>init. s_direct S None init = State_Monad.return (Inr False)) \<and> (\<forall>ps init. s_direct S (Some ps) init = do {
     r \<leftarrow> init ps;
     State_Monad.return (case r of
         None \<Rightarrow> Inr True
       | Some e \<Rightarrow> if is_panic e then Inl e else Inr False)
   })"

lemma initialised:
  assumes "runs_initialiser S"
    and "run_state (s_direct S (Some ps) (NewIVDProtectedEntityTypeManager V)) s = (Inr hasIvd, s')"
  shows "hasIvd" and "run_state (NewIVDProtectedEntityTypeManager V ps) s = (None, s')"
  using assms
  by (auto simp: runs_initialiser_def NewIVDProtectedEntityTypeManager_def split: prod.splits option.splits if_splits)

lemma data_manager_built:
  assumes "run_state (datamgr_newServer E S X V config) s = (Inr srv, s')"
    and "secrets_name_a_center E" and "runs_initialiser S"
  shows "\<exists>ps. ps \<noteq> Map.empty \<and>
    run_state (NewIVDProtectedEntityTypeManager V ps) (ag_snap s) = (None, ag_snap s') \<and>
    run_state (NewIVDProtectedEntityTypeManager V ps) (ag_mover s) = (None, ag_mover s') \<and>
    ds_dataMover srv = IvdManager \<and> ds_vcConfigSecret srv = dc_vcConfigFromSecret config \<and>
    sm_ivd (ds_snapManager srv) = Some (Wrapped \<lparr>dmp_base = IvdManager, dmp_upload = True\<rparr>)"
  using assms(1) unfolding datamgr_newServer_def
proof (elim unless_err_Inr then_ok_Inr, goal_cases)
  case (1 s1 s2 s3 flavor s4 ivdParams s5 ivdParams' s6 built s7)
  obtain mgr pe' where built: "built = (mgr, pe')" by fastforce
  note snap = 1(7) [unfolded built]
  from snapshot_manager_built [OF snap _ assms(2)] obtain ps hasIvd where ps: "pc_ivd pe' = Some ps"
    "ps HostVcParamKey \<noteq> None" "ag_mover s7 = ag_mover s6"
    and direct: "run_state (s_direct S (Some ps) (NewIVDProtectedEntityTypeManager V)) (ag_snap s6) = (Inr hasIvd, ag_snap s7)"
    and ivd: "sm_ivd mgr = (if hasIvd then Some (Wrapped \<lparr>dmp_base = IvdManager, dmp_upload = True\<rparr>) else None)"
    by auto
  note start = 1(1-4,6) [THEN in_world_run]
  have same: "ag_mover s6 = ag_mover s" "ag_snap s6 = ag_snap s" using start 1(5) by auto
  note ready = initialised [OF assms(3) direct]
  have mover: "run_state (then_ok (NewDataMoverFromCluster E V ps) (\<lambda>clusterDataMover.
      State_Monad.return (Inr \<lparr>ds_namespace = s_factory_namespace S, ds_dataMover = clusterDataMover,
        ds_snapManager = mgr, ds_externalDataMgr = (flavor \<noteq> VSphere),
        ds_vcConfigSecret = dc_vcConfigFromSecret config\<rparr>))) s7 = (Inr srv, s')"
    using 1(8) built ps(1) by (simp add: Let_def)
  then obtain petm s8 where dm: "run_state (NewDataMoverFromCluster E V ps) s7 = (Inr petm, s8)" and "s8 = s'"
    and srv: "srv = \<lparr>ds_namespace = s_factory_namespace S, ds_dataMover = petm, ds_snapManager = mgr,
      ds_externalDataMgr = (flavor \<noteq> VSphere), ds_vcConfigSecret = dc_vcConfigFromSecret config\<rparr>"
    by (auto elim!: then_ok_Inr)
  note dmb = data_mover_built [OF dm ps(2)]
  have "ps \<noteq> Map.empty" using ps(2) by auto
  with ready dmb same ps(3) srv ivd \<open>s8 = s'\<close> show ?case by (intro exI [of _ ps]) simp
qed

text \<open>
  C31. When the server of the data manager has started, its two type managers know the same
  vCenter account, or neither knows one: the data mover is built from the parameter map that
  the snapshot manager has filled from the secret. If the account comes from the secret of a
  vanilla cluster, the controller that is started for the secret reloads both managers.
\<close>

theorem data_manager_starts_consistently:
  assumes "run_state (datamgr_newServer E S X V config) s = (Inr srv, s')"
    and "connections_wf (ag_mover s)" and "connections_wf (ag_snap s)"
    and "secrets_name_a_center E" and "runs_initialiser S"
  shows "(\<forall>cfg. remembers cfg (ag_mover s') \<longleftrightarrow> remembers cfg (ag_snap s')) \<and>
    (dc_vcConfigFromSecret config \<and> \<not> ds_externalDataMgr srv \<longrightarrow>
       RunVcConfigController full_controller \<in> set (datamgr_runControllers srv))"
proof -
  from data_manager_built [OF assms(1,4,5)] obtain ps where ps: "ps \<noteq> Map.empty"
    "run_state (NewIVDProtectedEntityTypeManager V ps) (ag_snap s) = (None, ag_snap s')"
    "run_state (NewIVDProtectedEntityTypeManager V ps) (ag_mover s) = (None, ag_mover s')"
    and srv: "ds_dataMover srv = IvdManager" "ds_vcConfigSecret srv = dc_vcConfigFromSecret config"
      "sm_ivd (ds_snapManager srv) = Some (Wrapped \<lparr>dmp_base = IvdManager, dmp_upload = True\<rparr>)" by blast
  from new_manager_remembers [OF assms(2) ps(1,3)] new_manager_remembers [OF assms(3) ps(1,2)]
  have "remembers cfg (ag_mover s') \<longleftrightarrow> remembers cfg (ag_snap s')" for cfg by blast
  with srv show ?thesis by (simp add: datamgr_runControllers_def full_controller_def)
qed

section \<open>Samples\<close>

definition sample_server :: server_env where
  "sample_server = \<lparr>s_vddk_maps = (\<lambda>n ns. Inr []),
     s_direct = (\<lambda>ivd init. case ivd of
         None \<Rightarrow> State_Monad.return (Inr False)
       | Some ps \<Rightarrow> do {
           r \<leftarrow> init ps;
           State_Monad.return (case r of None \<Rightarrow> Inr True | Some e \<Rightarrow> if is_panic e then Inl e else Inr False)
         }),
     s_password = '''', s_factory_namespace = ''velero'', s_own_config = ''in-cluster'',
     s_config_name = rc_Host\<rparr>"

definition secret_config :: datamgr_config where
  "secret_config = \<lparr>dc_vCenter = '''', dc_port = ''443'', dc_user = '''', dc_clusterId = '''',
     dc_vcConfigFromSecret = True\<rparr>"

lemma sample_server_initialises: "runs_initialiser sample_server"
  by (simp add: runs_initialiser_def sample_server_def)

lemma rotated_names_a_center: "secrets_name_a_center rotated_secret"
  by (simp add: secrets_name_a_center_def rotated_secret_def)

lemma rotated_fate [simp]:
  "e_client rotated_secret = (\<lambda>n. None)" "e_velero_ns rotated_secret = Some ''velero''"
  by (simp_all add: rotated_secret_def)

lemma rotated_secret_read:
  "\<exists>w'. run_state (RetrieveVcConfigSecret rotated_secret True Map.empty) w = (Inr rotated_params, w')"
  by (auto simp: RetrieveVcConfigSecret_def retrieveClusterFlavor_def
      GetClusterTypeFromConfig_def GetCSIClusterType_def vc_secret_candidates_def IsFeatureEnabled_def
      GetSecretNamespaceAndName_def ParseConfig_def vc_params_def velero_namespace_def rotated_secret_def
      rotated_params_def parse_bool_def DecoupleVSphereCSIDriverFlag_def)

lemma rotated_flavor: "\<exists>w'. run_state (GetClusterFlavor rotated_secret True) w = (Inr VSphere, w')"
  by (simp add: GetClusterFlavor_def retrieveClusterFlavor_def GetClusterTypeFromConfig_def GetCSIClusterType_def
      velero_namespace_def rotated_secret_def)

definition sample_storage :: s3_settings where
  "sample_storage = \<lparr>s3_region = ''us-east-1'', s3_bucket = ''bucket'', s3_prefix = DefaultS3RepoPrefix,
     s3_endpoint = Some '''', s3_path_style = Some False, s3_credentials = None, s3_ca_bundle = None\<rparr>"

lemma rotated_storage:
  "fst (run_state (remote_storage rotated_secret True Map.empty [VolumeSnapshotterManagerLocation \<mapsto> v]) w) = Inr sample_storage"
  by (simp add: remote_storage_def run_then_ok VolumeSnapshotterManagerLocation_def evals rotated_secret_def sample_storage_def
      split: prod.splits sum.splits)

lemma first_reload:
  "fst (run_state (NewIVDProtectedEntityTypeManager calm_vcenter rotated_params) sample_vsphere) = None"
proof -
  have ne: "rotated_params \<noteq> Map.empty" by (simp add: rotated_params_def)
  then show ?thesis
    by (simp add: NewIVDProtectedEntityTypeManager_def no_petm_def reload_evals rotated_config_def CheckIfVirtualCenterConfigChanged_def)
      (simp add: rotated_params_def vddkconfig_def)
qed

lemma then_ok_goes:
  "fst (run_state m s) = Inr x \<Longrightarrow> run_state (then_ok m f) s = run_state (f x) (snd (run_state m s))"
  by (cases "run_state m s") (simp add: run_then_ok)

lemma unless_err_goes:
  "fst (run_state m s) = None \<Longrightarrow> run_state (unless_err m k) s = run_state k (snd (run_state m s))"
  by (cases "run_state m s") (simp add: run_unless_err)

lemma rotated_fsts [simp]:
  "fst (run_state (RetrieveVcConfigSecret rotated_secret True Map.empty) w) = Inr rotated_params"
  "fst (run_state (GetClusterFlavor rotated_secret True) w) = Inr VSphere"
  using rotated_secret_read [of w] rotated_flavor [of w] by auto

lemma sample_ivd_configuration:
  "fst (run_state (ivd_configuration rotated_secret True VSphere (Some Map.empty)) w) = Inr (Some rotated_params)"
  by (simp add: ivd_configuration_def then_ok_goes)

lemma sample_snapshot_manager:
  assumes "ag_snap s = sample_vsphere"
  shows "\<exists>mgr s'. run_state (NewSnapshotManagerFromConfig rotated_secret sample_server calm_paravirt calm_vcenter True
      \<lparr>pc_ivd = Some Map.empty, pc_pvc = None\<rparr> Map.empty [VolumeSnapshotterManagerLocation \<mapsto> VolumeSnapshotterDataServer]) s
    = (Inr (mgr, \<lparr>pc_ivd = Some rotated_params, pc_pvc = None\<rparr>), s') \<and> ag_mover s' = ag_mover s"
proof -
  have loc: "\<not> GetBool (case [VolumeSnapshotterManagerLocation \<mapsto> VolumeSnapshotterDataServer] VolumeSnapshotterLocalMode of
      Some v \<Rightarrow> v | None \<Rightarrow> '''') False"
    by (simp add: VolumeSnapshotterManagerLocation_def VolumeSnapshotterLocalMode_def GetBool_def parse_bool_def)
  have direct: "fst (run_state (s_direct sample_server (Some rotated_params) (NewIVDProtectedEntityTypeManager calm_vcenter)) sample_vsphere)
      = Inr True"
    using first_reload by (auto simp: sample_server_def split: prod.splits)
  have store: "fst (run_state (when_ok True (remote_storage rotated_secret True Map.empty
      [VolumeSnapshotterManagerLocation \<mapsto> VolumeSnapshotterDataServer])) w) = Inr (Some sample_storage)" for w
    by (simp add: when_ok_def then_ok_goes rotated_storage)
  show ?thesis
    using assms loc direct store
    by (auto simp: NewSnapshotManagerFromConfig_def then_ok_goes sample_ivd_configuration Let_def when_ok_def [of False])
qed

lemma sample_data_mover:
  assumes "ag_mover s = sample_vsphere"
  shows "\<exists>s'. run_state (NewDataMoverFromCluster E calm_vcenter rotated_params) s = (Inr IvdManager, s')"
proof -
  have host: "rotated_params HostVcParamKey \<noteq> None" by (simp add: rotated_params_def HostVcParamKey_def)
  have "fst (run_state (GetIVDPETMFromParamsMap calm_vcenter rotated_params) sample_vsphere) = Inr IvdManager"
    using first_reload by (simp add: GetIVDPETMFromParamsMap_def unless_err_goes)
  with host assms show ?thesis
    by (auto simp: NewDataMoverFromCluster_def then_ok_goes split: prod.splits)
qed

lemma sample_started:
  "\<exists>srv s'. run_state (datamgr_newServer rotated_secret sample_server calm_paravirt calm_vcenter secret_config) sample_agent
     = (Inr srv, s') \<and> \<not> ds_externalDataMgr srv"
proof -
  have vddk: "fst (run_state (RetrieveVddkLogLevel rotated_secret sample_server Map.empty) w) = Inr Map.empty" for w
    by (simp add: RetrieveVddkLogLevel_def CreateKubeClientSet_def connect_def unless_err_goes then_ok_goes sample_server_def)
  let ?w = "\<lambda>m s. snd (run_state (in_world m) s)"
  let ?s = "?w (RetrieveVddkLogLevel rotated_secret sample_server Map.empty) (?w (GetClusterFlavor rotated_secret True)
    (?w (ask (e_client rotated_secret)) (?w (ask (e_client rotated_secret)) (?w (ask (e_client rotated_secret)) sample_agent))))"
  have parts: "ag_snap ?s = sample_vsphere" "ag_mover ?s = sample_vsphere" by simp_all
  obtain mgr s6 where snap: "run_state (NewSnapshotManagerFromConfig rotated_secret sample_server calm_paravirt calm_vcenter True
      \<lparr>pc_ivd = Some Map.empty, pc_pvc = None\<rparr> Map.empty [VolumeSnapshotterManagerLocation \<mapsto> VolumeSnapshotterDataServer]) ?s
    = (Inr (mgr, \<lparr>pc_ivd = Some rotated_params, pc_pvc = None\<rparr>), s6)" and "ag_mover s6 = sample_vsphere"
    using sample_snapshot_manager [OF parts(1)] parts(2) by metis
  obtain s7 where mover: "run_state (NewDataMoverFromCluster rotated_secret calm_vcenter rotated_params) s6 = (Inr IvdManager, s7)"
    using sample_data_mover [OF \<open>ag_mover s6 = sample_vsphere\<close>] by blast
  show ?thesis
    using snap mover
    by (simp add: datamgr_newServer_def secret_config_def unless_err_goes then_ok_goes vddk Let_def)
qed

theorem data_manager_starts_consistently_witness:
  "\<exists>srv s'. run_state (datamgr_newServer rotated_secret sample_server calm_paravirt calm_vcenter secret_config) sample_agent
     = (Inr srv, s') \<and> (\<forall>cfg. remembers cfg (ag_mover s') \<longleftrightarrow> remembers cfg (ag_snap s')) \<and>
     RunVcConfigController full_controller \<in> set (datamgr_runControllers srv)"
proof -
  obtain srv s' where run: "run_state (datamgr_newServer rotated_secret sample_server calm_paravirt calm_vcenter secret_config)
      sample_agent = (Inr srv, s')" and own: "\<not> ds_externalDataMgr srv" using sample_started by blast
  from data_manager_starts_consistently [OF run _ _ rotated_names_a_center sample_server_initialises]
  have "(\<forall>cfg. remembers cfg (ag_mover s') \<longleftrightarrow> remembers cfg (ag_snap s')) \<and>
    (dc_vcConfigFromSecret secret_config \<and> \<not> ds_externalDataMgr srv \<longrightarrow>
       RunVcConfigController full_controller \<in> set (datamgr_runControllers srv))"
    by (simp add: sample_wf)
  with run own show ?thesis by (auto simp: secret_config_def)
qed

section \<open>The backup driver of a guest cluster\<close>

lemma await_Inr:
  assumes "run_state (await m f) s = (Some (Inr y), s'')"
  obtains x s' where "run_state m s = (Some (Inr x), s')" and "run_state (f x) s' = (Some (Inr y), s'')"
  using assms by (auto simp: await_def split: prod.splits option.splits sum.splits)

lemma at_once_run: "run_state (at_once m) s = (Some r, s') \<longleftrightarrow> run_state m s = (r, s')"
  by (auto simp: at_once_def split: prod.splits)

lemma when_ok_False: "run_state (when_ok False m) s = (r, s') \<longleftrightarrow> r = Inr None \<and> s' = s"
  by (auto simp: when_ok_def)

lemma paravirt_built:
  assumes "run_state (NewParaVirtProtectedEntityTypeManagerFromConfig X ps) w = (Inr pm, w')"
    and "pp_restConfig ps = Some c" and "pp_svcConfig ps = Some d"
  shows "pm_gcKubeClient pm = c \<and> pm_svcKubeClient pm = Some d \<and> pm_svcBackupDriverClient pm = Some d \<and>
    Some (pm_svcNamespace pm) = pp_svcNamespace ps"
  using assms
  by (auto simp: NewParaVirtProtectedEntityTypeManagerFromConfig_def guest_config_def svc_config_def
      split: option.splits prod.splits sum.splits)

lemma guest_manager_built:
  assumes "run_state (NewSnapshotManagerFromConfig E S X V g pe s3 config) s = (Inr (mgr, pe'), s')"
    and "pc_ivd pe = None" and "pc_pvc pe = Some \<lparr>pvc_restConfig = Some c, pvc_svcConfig = Some d, pvc_svcNamespace = Some ns\<rparr>"
    and "sm_clusterFlavor mgr = TkgGuest" and "runs_initialiser S"
  shows "sm_ivd mgr = None \<and> sm_s3PETM mgr = None \<and> ag_snap s' = ag_snap s \<and> ag_mover s' = ag_mover s \<and>
    (\<exists>pm. sm_paravirt mgr = Some pm \<and> pm_gcKubeClient pm = c \<and> pm_svcKubeClient pm = Some d \<and>
       pm_svcBackupDriverClient pm = Some d \<and> pm_svcNamespace pm = ns)"
  using assms(1) unfolding NewSnapshotManagerFromConfig_def Let_def
proof (elim then_ok_Inr, goal_cases)
  case (1 flavor s1 ivd s2 hasIvd s3 s3PETM s4 paravirt s5)
  have flavor: "flavor = TkgGuest" and mgr: "sm_ivd mgr = (if hasIvd then Some (Wrapped (NewDataManagerProtectedEntityTypeManager IvdManager True)) else None)"
      "sm_s3PETM mgr = s3PETM" "sm_paravirt mgr = paravirt" "s5 = s'"
    using 1(6) assms(4) by auto
  have ivd: "ivd = None" using in_world_run [OF 1(2)] assms(2) flavor by (simp add: ivd_configuration_def)
  have direct: "\<not> hasIvd" "ag_snap s3 = ag_snap s2" using in_snap_run [OF 1(3)] assms(5) ivd by (auto simp: runs_initialiser_def)
  have store: "s3PETM = None" using in_world_run [OF 1(4)] flavor by (simp add: when_ok_False)
  obtain pm w' where pm: "paravirt = Some pm"
    "run_state (NewParaVirtProtectedEntityTypeManagerFromConfig X (paravirt_configuration (pc_pvc pe))) (ag_world s4) = (Inr pm, w')"
    using in_world_run [OF 1(5)] flavor by (auto simp: when_ok_def elim!: then_ok_Inr)
  from paravirt_built [OF pm(2)] assms(3)
  have "pm_gcKubeClient pm = c \<and> pm_svcKubeClient pm = Some d \<and> pm_svcBackupDriverClient pm = Some d \<and> pm_svcNamespace pm = ns"
    by (simp add: paravirt_configuration_def)
  then show ?case
    using mgr direct store pm(1) in_world_run [OF 1(1)] in_world_run [OF 1(2)] in_snap_run [OF 1(3)]
      in_world_run [OF 1(4)] in_world_run [OF 1(5)] by simp
qed

text \<open>
  The secret that the supervisor writes for the guest, as the API server shows it or as an event
  brings it; and the entries of it that make a connection: a key that is missing reads as the
  empty string.
\<close>

definition supervisor_secret :: "svc_env \<Rightarrow> secret_data \<Rightarrow> bool" where
  "supervisor_secret N d \<longleftrightarrow> (\<exists>n. x_pv_secret N n = Inr d \<or> x_pv_event N n = Some (SecretCreated d))"

definition entry :: "secret_data \<Rightarrow> string \<Rightarrow> string" where
  "entry d k = (if k \<in> dom d then the (d k) else '''')"

lemma GetSupervisorConfig_reads:
  assumes "run_state (GetSupervisorConfig E N g) w = (Some (Inr (c, ns)), w')"
  shows "\<exists>d. supervisor_secret N d \<and> ns = entry d ''namespace'' \<and>
    c = \<lparr>rc_Host = ''https://supervisor.default.svc:6443'', rc_CAData = entry d ''ca.crt'', rc_BearerToken = entry d ''token''\<rparr>"
proof -
  from assms obtain r v v' where r: "run_state (pv_secret N) v = (Some r, v')" and "map_sum id supervisor_config r = Inr (c, ns)"
    by (auto simp: GetSupervisorConfig_def split: option.splits prod.splits)
  then obtain d where d: "run_state (pv_secret N) v = (Some (Inr d), v')" and c: "supervisor_config d = (c, ns)"
    by (cases r) auto
  from d have "supervisor_secret N d"
    by (auto simp: pv_secret_def waitForPvSecret_def supervisor_secret_def
        split: sum.splits option.splits pv_secret_event.splits) (metis pv_secret_event.exhaust)
  moreover have "data_of d k = entry d k" for k
    by (auto simp: data_of_def entry_def split: option.splits)
  ultimately show ?thesis
    using c by (auto simp: supervisor_config_def JoinHostPort_def PvApiEndpoint_def PvPort_def)
qed

lemma connect_supervisor_reads:
  assumes "run_state (connect_supervisor E N flavor) w = (Some (Inr (Some (c, ns))), w')"
  shows "\<exists>d. supervisor_secret N d \<and> ns = entry d ''namespace'' \<and>
    c = \<lparr>rc_Host = ''https://supervisor.default.svc:6443'', rc_CAData = entry d ''ca.crt'', rc_BearerToken = entry d ''token''\<rparr>"
proof -
  obtain v where "run_state (GetSupervisorConfig E N True) w = (Some (Inr (c, ns)), v)"
    using assms
    by (auto simp: connect_supervisor_def at_once_run split: if_splits option.splits sum.splits prod.splits elim!: await_Inr)
  then show ?thesis by (rule GetSupervisorConfig_reads)
qed

text \<open>
  C32. A backup driver that has started in a guest cluster has no manager for vCenter disks and
  no repository of its own, and has not contacted a vCenter: its snapshots go through the type
  manager for the supervisor. There is one secret written by the supervisor whose entry
  \<open>namespace\<close> is the namespace that manager's requests go to and whose entries \<open>token\<close> and
  \<open>ca.crt\<close> are the credentials its clients use at the supervisor's address.
\<close>

theorem guest_driver_works_through_supervisor:
  assumes run: "run_state (backupdriver_newServer E S N X V) s = (Some (Inr srv), s')"
    and guest: "bs_svcConfig srv = Some c" "sm_clusterFlavor (bs_snapManager srv) = TkgGuest"
    and direct: "runs_initialiser S"
  shows "sm_ivd (bs_snapManager srv) = None \<and> sm_s3PETM (bs_snapManager srv) = None \<and>
    ag_snap s' = ag_snap s \<and> ag_mover s' = ag_mover s \<and>
    (\<exists>pm d. sm_paravirt (bs_snapManager srv) = Some pm \<and> pm_gcKubeClient pm = s_own_config S \<and>
       pm_svcKubeClient pm = Some (s_config_name S c) \<and> pm_svcBackupDriverClient pm = Some (s_config_name S c) \<and>
       pm_svcNamespace pm = bs_svcNamespace srv \<and>
       supervisor_secret N d \<and> bs_svcNamespace srv = entry d ''namespace'' \<and>
       c = \<lparr>rc_Host = ''https://supervisor.default.svc:6443'', rc_CAData = entry d ''ca.crt'',
            rc_BearerToken = entry d ''token''\<rparr>)"
proof -
  from run obtain u s1 where c1: "run_state (in_world (driver_clients E)) s = (Inr u, s1)"
    and rest: "run_state (do {
       localMode \<leftarrow> in_world (IsFeatureEnabled E VSphereLocalModeFlag False);
       await (at_once (in_world (GetClusterFlavor E True))) (\<lambda>clusterFlavor.
       await (in_world (connect_supervisor E N clusterFlavor)) (\<lambda>superv.
       await (at_once (NewSnapshotManagerFromConfig E S X V True
           \<lparr>pc_ivd = None, pc_pvc = Some (driver_pvc_config S superv)\<rparr> Map.empty (driver_manager_config localMode superv)))
         (\<lambda>(snapshotMgr, _).
       State_Monad.return (Some (Inr \<lparr>bs_namespace = s_factory_namespace S, bs_svcConfig = map_option fst superv,
         bs_svcNamespace = (case superv of Some (_, ns) \<Rightarrow> ns | None \<Rightarrow> ''''), bs_snapManager = snapshotMgr\<rparr>)))))
       }) s1 = (Some (Inr srv), s')"
    unfolding backupdriver_newServer_def by (elim await_Inr) (auto simp: at_once_run)
  obtain localMode s2 where c2: "run_state (in_world (IsFeatureEnabled E VSphereLocalModeFlag False)) s1 = (localMode, s2)" by fastforce
  from rest c2 obtain superv mgr pe s3 s4 flavor where c3: "run_state (in_world (GetClusterFlavor E True)) s2 = (Inr flavor, s3)"
    and c4: "run_state (in_world (connect_supervisor E N flavor)) s3 = (Some (Inr superv), s4)"
    and c5: "run_state (NewSnapshotManagerFromConfig E S X V True
           \<lparr>pc_ivd = None, pc_pvc = Some (driver_pvc_config S superv)\<rparr> Map.empty (driver_manager_config localMode superv)) s4
        = (Inr (mgr, pe), s')"
    and srv: "srv = \<lparr>bs_namespace = s_factory_namespace S, bs_svcConfig = map_option fst superv,
         bs_svcNamespace = (case superv of Some (_, ns) \<Rightarrow> ns | None \<Rightarrow> ''''), bs_snapManager = mgr\<rparr>"
    by (auto simp: at_once_run elim!: await_Inr)
  from guest(1) srv obtain ns where superv: "superv = Some (c, ns)" by auto
  obtain d where "supervisor_secret N d" "ns = entry d ''namespace''"
    "c = \<lparr>rc_Host = ''https://supervisor.default.svc:6443'', rc_CAData = entry d ''ca.crt'', rc_BearerToken = entry d ''token''\<rparr>"
    using in_world_run [OF c4] connect_supervisor_reads superv by metis
  moreover from guest_manager_built [OF c5] direct guest(2) srv superv
  have "sm_ivd mgr = None \<and> sm_s3PETM mgr = None \<and> ag_snap s' = ag_snap s \<and> ag_mover s' = ag_mover s \<and>
    (\<exists>pm. sm_paravirt mgr = Some pm \<and> pm_gcKubeClient pm = s_own_config S \<and>
       pm_svcKubeClient pm = Some (s_config_name S c) \<and> pm_svcBackupDriverClient pm = Some (s_config_name S c) \<and>
       pm_svcNamespace pm = ns)"
    using in_world_run [OF c1] in_world_run [OF c2] in_world_run [OF c3] in_world_run [OF c4]
    by (simp add: driver_pvc_config_def)
  ultimately show ?thesis using srv superv by auto
qed

definition guest_cluster :: env where
  "guest_cluster = calm\<lparr>e_config_map := (\<lambda>n k. Inr [''cluster_flavor'' \<mapsto> ''GUEST'']) \<rparr>"

definition sample_supervisor :: svc_env where
  "sample_supervisor = \<lparr>x_namespace = (\<lambda>n ns. Inr Map.empty), x_supervisor_namespace = (\<lambda>n c ns. Inr Map.empty),
     x_pv_secret = (\<lambda>n. Inr [''namespace'' \<mapsto> ''guest-ns'', ''token'' \<mapsto> ''t'']), x_pv_event = (\<lambda>n. None),
     x_svc_client = (\<lambda>n c. None)\<rparr>"

lemma guest_cluster_answers [simp]:
  "e_client guest_cluster = (\<lambda>n. None)" "e_velero_ns guest_cluster = Some ''velero''"
  "e_config_map guest_cluster = (\<lambda>n k. Inr [''cluster_flavor'' \<mapsto> ''GUEST''])"
  by (simp_all add: guest_cluster_def)

lemma guest_flavor: "fst (run_state (GetClusterFlavor guest_cluster True) w) = Inr TkgGuest"
  by (simp add: GetClusterFlavor_def retrieveClusterFlavor_def GetClusterTypeFromConfig_def velero_namespace_def
      ConvertConfigClusterFlavor_def split: prod.splits)

lemma await_goes:
  "fst (run_state m s) = Some (Inr x) \<Longrightarrow> run_state (await m f) s = run_state (f x) (snd (run_state m s))"
  by (cases "run_state m s") (simp add: await_def)

lemma at_once_parts [simp]:
  "fst (run_state (at_once m) s) = Some (fst (run_state m s))" "snd (run_state (at_once m) s) = snd (run_state m s)"
  by (simp_all add: at_once_def split: prod.splits)

definition sample_svc_config :: rest_config where
  "sample_svc_config = \<lparr>rc_Host = ''https://supervisor.default.svc:6443'', rc_CAData = '''', rc_BearerToken = ''t''\<rparr>"

lemma sample_supervisor_config:
  "fst (run_state (GetSupervisorConfig guest_cluster sample_supervisor True) w) = Some (Inr (sample_svc_config, ''guest-ns''))"
  by (simp add: GetSupervisorConfig_def guest_client_def checkAndCreateNamespace_def pv_secret_def sample_supervisor_def
      supervisor_config_def data_of_def sample_svc_config_def JoinHostPort_def PvApiEndpoint_def PvPort_def split: prod.splits)

lemma sample_connected_supervisor:
  "fst (run_state (connect_supervisor guest_cluster sample_supervisor TkgGuest) w) =
     Some (Inr (Some (sample_svc_config, ''guest-ns'')))"
proof -
  have "fst (run_state (guest_clients sample_supervisor sample_svc_config) v) = Inr ()" for v
    by (simp add: guest_clients_def unless_err_goes sample_supervisor_def)
  moreover have "fst (run_state (GetSupervisorParameters guest_cluster sample_supervisor (Some sample_svc_config) ''guest-ns'') v)
      = Some (Inr (supervisor_params Map.empty))" for v
    by (simp add: GetSupervisorParameters_def sample_supervisor_def)
  moreover obtain v' where "run_state (GetSupervisorParameters guest_cluster sample_supervisor (Some sample_svc_config) ''guest-ns'')
      (snd (run_state (guest_clients sample_supervisor sample_svc_config)
        (snd (run_state (GetSupervisorConfig guest_cluster sample_supervisor True) w)))) = (Some (Inr (supervisor_params Map.empty)), v')"
    using calculation(2) by (metis prod.collapse)
  ultimately show ?thesis
    by (simp add: connect_supervisor_def await_goes sample_supervisor_config)
qed

definition sample_guest_petm :: paravirt_petm where
  "sample_guest_petm = \<lparr>pm_entityType = ''pv'', pm_gcKubeClient = ''in-cluster'', pm_gcBackupDriverClient = ''in-cluster'',
     pm_svcKubeClient = Some ''https://supervisor.default.svc:6443'',
     pm_svcBackupDriverClient = Some ''https://supervisor.default.svc:6443'', pm_svcNamespace = ''guest-ns''\<rparr>"

lemma sample_guest_manager:
  "fst (run_state (NewParaVirtProtectedEntityTypeManagerFromConfig calm_paravirt
     (paravirt_configuration (Some (driver_pvc_config sample_server (Some (sample_svc_config, ''guest-ns'')))))) w)
   = Inr sample_guest_petm"
  by (simp add: NewParaVirtProtectedEntityTypeManagerFromConfig_def guest_config_def svc_config_def paravirt_configuration_def
      driver_pvc_config_def sample_guest_petm_def sample_svc_config_def sample_server_def ParaVirtEntityTypePersistentVolume_def)

lemma sample_guest_snapshot_manager:
  "\<exists>mgr pe s'. run_state (NewSnapshotManagerFromConfig guest_cluster sample_server calm_paravirt calm_vcenter True
      \<lparr>pc_ivd = None, pc_pvc = Some (driver_pvc_config sample_server (Some (sample_svc_config, ''guest-ns'')))\<rparr> Map.empty
      config) s = (Inr (mgr, pe), s') \<and> sm_clusterFlavor mgr = TkgGuest"
proof -
  have ivd: "fst (run_state (ivd_configuration guest_cluster True TkgGuest None) w) = Inr None" for w
    by (simp add: ivd_configuration_def)
  have direct: "fst (run_state (s_direct sample_server None init) v) = Inr False" for init v by (simp add: sample_server_def)
  have petm: "fst (run_state (when_ok True (NewParaVirtProtectedEntityTypeManagerFromConfig calm_paravirt
     (paravirt_configuration (Some (driver_pvc_config sample_server (Some (sample_svc_config, ''guest-ns'')))))) ) w)
     = Inr (Some sample_guest_petm)" for w
    by (simp add: when_ok_def then_ok_goes sample_guest_manager)
  show ?thesis
    by (simp add: NewSnapshotManagerFromConfig_def then_ok_goes guest_flavor ivd direct petm Let_def when_ok_def [of False]
        then_ok_goes [where x = False])
qed

lemma guest_started:
  "\<exists>srv s'. run_state (backupdriver_newServer guest_cluster sample_server sample_supervisor calm_paravirt calm_vcenter) sample_agent
     = (Some (Inr srv), s') \<and> bs_svcConfig srv = Some sample_svc_config \<and>
     sm_clusterFlavor (bs_snapManager srv) = TkgGuest"
proof -
  have clients: "fst (run_state (driver_clients guest_cluster) w) = Inr ()" for w
    by (simp add: driver_clients_def then_ok_goes unless_err_goes)
  obtain l s2 where l: "run_state (in_world (IsFeatureEnabled guest_cluster VSphereLocalModeFlag False))
      (snd (run_state (in_world (driver_clients guest_cluster)) sample_agent)) = (l, s2)" by fastforce
  let ?s4 = "snd (run_state (in_world (connect_supervisor guest_cluster sample_supervisor TkgGuest))
    (snd (run_state (in_world (GetClusterFlavor guest_cluster True)) s2)))"
  obtain mgr pe s' where mgr: "run_state (NewSnapshotManagerFromConfig guest_cluster sample_server calm_paravirt calm_vcenter True
      \<lparr>pc_ivd = None, pc_pvc = Some (driver_pvc_config sample_server (Some (sample_svc_config, ''guest-ns'')))\<rparr> Map.empty
      (driver_manager_config l (Some (sample_svc_config, ''guest-ns'')))) ?s4 = (Inr (mgr, pe), s')"
    and "sm_clusterFlavor mgr = TkgGuest" using sample_guest_snapshot_manager by blast
  then show ?thesis using l mgr
    by (simp add: backupdriver_newServer_def await_goes clients guest_flavor sample_connected_supervisor)
qed

theorem guest_driver_works_through_supervisor_witness:
  "\<exists>srv s'. run_state (backupdriver_newServer guest_cluster sample_server sample_supervisor calm_paravirt calm_vcenter) sample_agent
     = (Some (Inr srv), s') \<and> sm_ivd (bs_snapManager srv) = None \<and> ag_snap s' = sample_vsphere \<and>
     bs_svcNamespace srv = ''guest-ns''"
proof -
  obtain srv s' where run: "run_state (backupdriver_newServer guest_cluster sample_server sample_supervisor calm_paravirt calm_vcenter)
      sample_agent = (Some (Inr srv), s')"
    and guest: "bs_svcConfig srv = Some sample_svc_config" "sm_clusterFlavor (bs_snapManager srv) = TkgGuest"
    using guest_started by blast
  have "supervisor_secret sample_supervisor d \<Longrightarrow> entry d ''namespace'' = ''guest-ns''" for d
    by (auto simp: supervisor_secret_def sample_supervisor_def entry_def)
  with guest_driver_works_through_supervisor [OF run guest sample_server_initialises] run show ?thesis by auto
qed

section \<open>The settings of the disk library\<close>

lemma reload_initialises_plain:
  assumes wf: "connections_wf s" and ps: "ps \<noteq> Map.empty" "GetVirtualCenterConfigFromParams ps = Inr cfg"
    and changed: "differs_from cfg s" and none: "ps vddkconfig = None"
    and run: "run_state (ReloadConfig V ps) s = (None, s')"
  shows "last (vs_trace s') = EvVddkInit ''''"
proof -
  obtain t and d :: "goerr + unit" where t: "run_state (ReloadConfig V ps) s =
      (case d of Inl e \<Rightarrow> (Some e, t) | Inr _ \<Rightarrow> run_state (establish V ps (Some (vs_next s))) t)"
    by (rule ReloadConfig_changed [OF wf ps changed [unfolded differs_from_def]])
  with run have "run_state (establish V ps (Some (vs_next s))) t = (None, s')" by (cases d) auto
  with none show ?thesis
    by (auto simp: establish_def init_vddk_def vddk_config_file_def vemit_def vask_def split: prod.splits sum.splits option.splits)
qed

lemma retrieved_without_settings:
  assumes "run_state (RetrieveVcConfigSecret E g Map.empty) w = (Inr ps, w')"
  shows "ps vddkconfig = None"
proof -
  have "qs vddkconfig = None \<Longrightarrow> fold vc_params vcs qs vddkconfig = None" for vcs qs
    by (induction vcs arbitrary: qs) (auto simp: vc_params_def vddkconfig_def)
  then have "ParseConfig E vals Map.empty = Inr ps \<Longrightarrow> ps vddkconfig = None" for vals
    by (auto simp: ParseConfig_def vddkconfig_def split: list.splits sum.splits)
  with assms show ?thesis
    by (auto simp: RetrieveVcConfigSecret_def split: option.splits sum.splits if_splits prod.splits)
qed

text \<open>
  The server is started with the settings of the disk library from a config map, but a reload
  works with the parameters of the secret alone: after a rotation that has succeeded the
  library has been started again without any settings, in both managers.
\<close>

theorem rotation_drops_disk_settings:
  assumes "connections_wf (ag_mover s)" and "connections_wf (ag_snap s)"
    and "fst (run_state (RetrieveVcConfigSecret E False Map.empty) (ag_world s)) = Inr ps"
    and "GetVirtualCenterConfigFromParams ps = Inr cfg"
    and "differs_from cfg (ag_mover s)" and "differs_from cfg (ag_snap s)"
    and "run_state (processVcConfigSecretItem E V full_controller k) s = (None, s')"
  shows "last (vs_trace (ag_mover s')) = EvVddkInit '''' \<and> last (vs_trace (ag_snap s')) = EvVddkInit ''''"
proof -
  have got: "run_state (RetrieveVcConfigSecret E False Map.empty) (ag_world s) =
      (Inr ps, snd (run_state (RetrieveVcConfigSecret E False Map.empty) (ag_world s)))" using assms(3) by (metis prod.collapse)
  from processed_both [OF assms(3,7)] retrieved_params_nonempty [OF got] retrieved_without_settings [OF got]
    reload_initialises_plain assms(1,2,4-6) show ?thesis by blast
qed

end
