(* ===== verification/Installer_Correctness.thy ===== *)
theory Installer_Correctness
  imports Installer Startup_Correctness
begin

text \<open>
  What the installers leave behind: a run without an error has created every resource of its
  list that was not there, and changed nothing else; a server counts as ready only after five
  observations; and the wait for the resource definitions gives up for good when they are not
  all ready the first time the first of them is seen.
\<close>

section \<open>Parts of a site\<close>

lemma at_site_run:
  assumes "run_state (at_site m) s = (r, s')"
  shows "st_objects s' = st_objects s \<and> run_state m (st_world s) = (r, st_world s')"
  using assms by (auto simp: zoom_def split: prod.splits)

lemma at_site_objects: "st_objects (snd (run_state (at_site m) s)) = st_objects s"
  using at_site_run [of m s] by (cases "run_state (at_site m) s") auto

lemma await_at_once_Inr:
  assumes "run_state (await (at_once m) f) s = (Some (Inr y), s'')"
  obtains x s' where "run_state m s = (Inr x, s')" and "run_state (f x) s' = (Some (Inr y), s'')"
  using assms
  by (auto simp: await_def at_once_def split: prod.splits option.splits sum.splits)

section \<open>Creating resources\<close>

text \<open>
  The reference for creating a list of resources: each is stored unless there is an object
  under its key. The API server answers that an object exists only if it does.
\<close>

definition conflicts_are_real :: "env \<Rightarrow> bool" where
  "conflicts_are_real E \<longleftrightarrow> (\<forall>n. e_fate E n \<noteq> Refused (OtherStatus ''already exists''))"

definition put_new :: "manifest \<Rightarrow> (okey \<Rightarrow> manifest option) \<Rightarrow> (okey \<Rightarrow> manifest option)" where
  "put_new m objs = (if objs (object_key m) = None then objs(object_key m := Some m) else objs)"

lemma createResource_stores:
  assumes "conflicts_are_real E" and "run_state (createResource E m) s = (None, s')"
  shows "st_objects s' = put_new m (st_objects s)"
  using assms
  by (auto simp: createResource_def create_object_def put_new_def Let_def conflicts_are_real_def zoom_def
      split: prod.splits option.splits fate.splits if_splits)

lemma create_all_stores:
  assumes "conflicts_are_real E"
  shows "run_state (create_all E ms) s = (None, s') \<Longrightarrow> st_objects s' = fold put_new ms (st_objects s)"
proof (induction ms arbitrary: s)
  case (Cons m ms)
  then obtain t where "run_state (createResource E m) s = (None, t)" and "run_state (create_all E ms) t = (None, s')"
    by (auto split: prod.splits option.splits)
  with Cons.IH createResource_stores [OF assms] show ?case by simp
qed simp

lemma group_from_filters:
  "rg_CRDResources (group_from rg ms) = rg_CRDResources rg @ filter (\<lambda>m. mf_Kind m = ''CustomResourceDefinition'') ms \<and>
   rg_OtherResources (group_from rg ms) = rg_OtherResources rg @ filter (\<lambda>m. mf_Kind m \<noteq> ''CustomResourceDefinition'') ms"
  by (induction ms arbitrary: rg) auto

definition install_order :: "manifest list \<Rightarrow> manifest list" where
  "install_order ms = filter (\<lambda>m. mf_Kind m = ''CustomResourceDefinition'') ms @
     filter (\<lambda>m. mf_Kind m \<noteq> ''CustomResourceDefinition'') ms"

lemma Install_stores:
  assumes "conflicts_are_real E" and "run_state (Install E N ms) s = (None, s')"
  shows "st_objects s' = fold put_new (install_order ms) (st_objects s)"
proof -
  let ?crds = "filter (\<lambda>m. mf_Kind m = ''CustomResourceDefinition'') ms"
  let ?rest = "filter (\<lambda>m. mf_Kind m \<noteq> ''CustomResourceDefinition'') ms"
  have g: "rg_CRDResources (GroupResources ms) = ?crds" "rg_OtherResources (GroupResources ms) = ?rest"
    by (simp_all add: GroupResources_def group_from_filters)
  from assms(2) obtain t b u where t: "run_state (create_all E ?crds) s = (None, t)"
    and u: "run_state (at_site (crdsAreReady E N CRDsList)) t = ((b, None), u)"
    and s': "run_state (create_all E ?rest) u = (None, s')"
    by (auto simp: Install_def Let_def g split: prod.splits option.splits)
  from create_all_stores [OF assms(1) t] create_all_stores [OF assms(1) s'] at_site_run [OF u]
  show ?thesis by (simp add: install_order_def)
qed

lemma put_new_keeps: "objs k = Some m \<Longrightarrow> put_new m' objs k = Some m"
  by (auto simp: put_new_def)

lemma fold_put_new_keeps: "objs k = Some m \<Longrightarrow> fold put_new ms objs k = Some m"
  by (induction ms arbitrary: objs) (simp_all add: put_new_keeps)

lemma fold_put_new_other: "k \<notin> object_key ` set ms \<Longrightarrow> fold put_new ms objs k = objs k"
proof (induction ms arbitrary: objs)
  case (Cons m ms)
  then have "put_new m objs k = objs k" by (simp add: put_new_def)
  with Cons show ?case by simp
qed simp

lemma fold_put_new_listed: "m \<in> set ms \<Longrightarrow> fold put_new ms objs (object_key m) \<noteq> None"
proof (induction ms arbitrary: objs)
  case (Cons m' ms)
  show ?case
  proof (cases "m = m'")
    case True
    obtain y where "put_new m' objs (object_key m') = Some y"
      by (cases "objs (object_key m')") (auto simp: put_new_def)
    with True show ?thesis by (simp add: fold_put_new_keeps)
  next
    case False
    with Cons show ?thesis by simp
  qed
qed simp

lemma fold_put_new_last:
  assumes "object_key m \<notin> object_key ` set ms" and "objs (object_key m) = None"
  shows "fold put_new (ms @ [m]) objs (object_key m) = Some m"
  using assms fold_put_new_other [OF assms(1)] by (simp add: put_new_def)

section \<open>The resources of the servers\<close>

text \<open>
  What the build and the Kubernetes runtime provide: the generated objects are resource
  definitions, and every object can be converted.
\<close>

definition sound_build :: "installer_env \<Rightarrow> bool" where
  "sound_build N \<longleftrightarrow> list_all (\<lambda>c. mf_Kind c = ''CustomResourceDefinition'') (n_crds N) \<and>
     (\<forall>m. n_to_unstructured N m = None)"

lemma AllCRDs_all: "sound_build N \<Longrightarrow> AllCRDs N = map (\<lambda>c. c\<lparr>mf_Labels := resource_labels\<rparr>) (n_crds N)"
proof -
  assume "sound_build N"
  then have step: "appendUnstructured N rs m = rs @ [m]" for rs m
    by (simp add: sound_build_def appendUnstructured_def)
  have "fold (\<lambda>crd resources. resources @ [crd\<lparr>mf_Labels := resource_labels\<rparr>]) cs rs =
      rs @ map (\<lambda>c. c\<lparr>mf_Labels := resource_labels\<rparr>) cs" for cs :: "manifest list" and rs
    by (induction cs arbitrary: rs) simp_all
  then show ?thesis by (simp add: AllCRDs_def step)
qed

lemma definition_resource: "kindToResource ''CustomResourceDefinition'' = ''customresourcedefinitions''"
  by (simp add: kindToResource_def)

text \<open>One workload after the definitions: the definitions and the workload are there then.\<close>

lemma definitions_and_workload:
  assumes N: "sound_build N" and d: "mf_Kind d \<noteq> ''CustomResourceDefinition''"
    and r: "kindToResource (mf_Kind d) \<noteq> ''customresourcedefinitions''"
    and objs: "objs' = fold put_new (install_order (AllCRDs N @ [d])) objs"
  shows "c \<in> set (n_crds N) \<Longrightarrow> objs' (object_key c) \<noteq> None"
    and "objs' (object_key d) = Some (case objs (object_key d) of Some x \<Rightarrow> x | None \<Rightarrow> d)"
    and "k \<noteq> object_key d \<Longrightarrow> k \<notin> object_key ` set (n_crds N) \<Longrightarrow> objs' k = objs k"
    and "objs k = Some x \<Longrightarrow> objs' k = Some x"
proof -
  let ?crds = "map (\<lambda>c. c\<lparr>mf_Labels := resource_labels\<rparr>) (n_crds N)"
  from N d have order: "install_order (AllCRDs N @ [d]) = ?crds @ [d]"
    by (simp add: install_order_def AllCRDs_all sound_build_def list_all_iff filter_map o_def)
  from N have keys: "object_key ` set ?crds = object_key ` set (n_crds N)"
    by (auto simp: object_key_def image_image)
  from N r have fresh: "object_key d \<notin> object_key ` set ?crds"
    by (auto simp: object_key_def sound_build_def list_all_iff definition_resource)
  show "c \<in> set (n_crds N) \<Longrightarrow> objs' (object_key c) \<noteq> None"
    using fold_put_new_listed [of "c\<lparr>mf_Labels := resource_labels\<rparr>" "?crds @ [d]" objs]
    by (simp add: objs order object_key_def)
  show "objs' (object_key d) = Some (case objs (object_key d) of Some x \<Rightarrow> x | None \<Rightarrow> d)"
    using fold_put_new_last [OF fresh, of objs]
    by (cases "objs (object_key d)") (simp_all add: objs order fold_put_new_keeps put_new_keeps)
  show "k \<noteq> object_key d \<Longrightarrow> k \<notin> object_key ` set (n_crds N) \<Longrightarrow> objs' k = objs k"
    using fold_put_new_other [of k "?crds @ [d]" objs] keys by (simp add: objs order)
  show "objs k = Some x \<Longrightarrow> objs' k = Some x"
    by (simp add: objs fold_put_new_keeps)
qed

text \<open>The container of a server's object.\<close>

fun workload_container :: "manifest_spec \<Rightarrow> pod_container option" where
  "workload_container (WorkloadSpec _ t) = Some (pt_Container t)"
| "workload_container (DefinitionSpec _) = None"

fun workload_template :: "manifest_spec \<Rightarrow> pod_template option" where
  "workload_template (WorkloadSpec _ t) = Some t"
| "workload_template (DefinitionSpec _) = None"

lemmas template_simps = template_config_def WithAnnotations_def WithImage_def WithResources_def WithSecret_def
  WithMasterNodeAffinity_def WithHostNetwork_def

lemma DaemonSet_facts:
  assumes "d = DaemonSet N ns [WithAnnotations an, WithImage img, WithResources res, WithSecret sec]"
  shows "object_key d = (''daemonsets'', ns, ''datamgr-for-vsphere-plugin'')" and "mf_Kind d = ''DaemonSet''"
    and "map_option pc_Image (workload_container (mf_Spec d)) = Some img"
    and "map_option pc_Resources (workload_container (mf_Spec d)) = Some (Some res)"
    and "map_option (\<lambda>t. (''cloud-credentials'', SecretVolume ''cloud-credentials'') \<in> set (pt_Volumes t))
           (workload_template (mf_Spec d)) = Some sec"
  using assms
  by (auto simp: DaemonSet_def Let_def object_key_def kindToResource_def template_simps add_env_vars_def
      mount_credentials_def server_pod_def server_container_def)

lemma Deployment_facts:
  assumes "d = Deployment N ns [WithAnnotations an, WithImage img, WithResources res,
    WithMasterNodeAffinity aff, WithHostNetwork host]"
  shows "object_key d = (''deployments'', ns, ''backup-driver'')" and "mf_Kind d = ''Deployment''"
    and "map_option pc_Image (workload_container (mf_Spec d)) = Some img"
    and "map_option pt_HostNetwork (workload_template (mf_Spec d)) = Some host"
    and "map_option (\<lambda>t. pt_NodeSelector t = Map.empty) (workload_template (mf_Spec d)) = Some (\<not> aff)"
  using assms
  by (auto simp: Deployment_def Let_def object_key_def kindToResource_def template_simps add_env_vars_def
      run_on_masters_def server_pod_def server_container_def)

text \<open>
  The pull policy takes the part after the only colon as the tag. An image of a registry with
  a port has two colons and is pulled at every start, whatever its tag is.
\<close>

lemma registry_port_always_pulls:
  assumes "CHR '':'' \<notin> set host"
  shows "pullPolicy (host @ '':'' @ port @ ''/'' @ name @ '':'' @ tag) = PullAlways"
proof -
  have "length (split_on (CHR '':'') (a @ CHR '':'' # b)) \<ge> 2" for a b
    by (induction a) (auto simp: Suc_le_eq split: list.splits)
  from this [of "port @ ''/'' @ name" tag]
  have "length (split_on (CHR '':'') (host @ '':'' @ port @ ''/'' @ name @ '':'' @ tag)) \<ge> 3"
    using assms by (simp add: split_on_append)
  then show ?thesis by (auto simp: pullPolicy_def split: list.splits)
qed

section \<open>The data manager\<close>

lemma unless_err_wrapping:
  assumes "run_state (unless_err (wrapping msg m) k) s = (Inr y, s'')"
  obtains s' where "run_state m s = (None, s')" and "run_state k s' = (Inr y, s'')"
  using assms by (auto simp: run_unless_err wrapping_def wrap_option_def split: prod.splits option.splits)

lemma deploy_datamgr_run:
  assumes E: "conflicts_are_real E" and run: "run_state (deploy_datamgr E N opts ms) s = (Some (Inr opts'), s')"
  shows "opts' = opts \<and>
    st_objects s' = (if fo_DryRun opts then st_objects s else fold put_new (install_order ms) (st_objects s))"
proof (cases "fo_DryRun opts")
  case True
  with run show ?thesis by (simp add: deploy_datamgr_def)
next
  case False
  with run obtain nNodes t u where t: "run_state (at_site (unless_err (ask (e_client E))
        (Prelude.wrap_error ''Error while getting number of nodes in kubernetes cluster'' (getNumberOfNodes N)))) s = (Inr nNodes, t)"
    and inst: "run_state (unless_err (wrapping (datamgr_error (fo_base opts)) (Install E N ms))
        (State_Monad.return (Inr ()))) t = (Inr (), u)"
    and wait: "run_state (wait_for_datamgr E N opts nNodes) u = (Some (Inr opts'), s')"
    by (auto simp: deploy_datamgr_def elim!: await_at_once_Inr)
  from inst have "run_state (Install E N ms) t = (None, u)"
    by (rule unless_err_wrapping) simp
  moreover from wait obtain r where "run_state (at_site (DaemonSetIsReady E N (io_Namespace (fo_base opts)) nNodes)) u = (r, s')"
    and "opts' = opts"
    by (auto simp: wait_for_datamgr_def split: prod.splits option.splits)
  ultimately show ?thesis
    using False at_site_run [OF t] at_site_run Install_stores [OF E] by fastforce
qed

text \<open>
  The run of the data manager's installer, from the options to the objects: what it does on a
  cluster where it skips, in a dry run, and otherwise.
\<close>

definition datamgr_manifest :: "installer_env \<Rightarrow> command_options \<Rightarrow> pod_resources \<Rightarrow> manifest" where
  "datamgr_manifest N opts res = DaemonSet N (io_Namespace (fo_base opts))
     [WithAnnotations (fo_PodAnnotations opts), WithImage (io_Image (fo_base opts)), WithResources res, WithSecret True]"

lemma AsDatamgrOptions_run:
  assumes N: "sound_build N" and run: "run_state (AsDatamgrOptions N opts) w = (Inr vo, w')"
  shows "\<exists>res. AllDatamgrResources N vo True = AllCRDs N @ [datamgr_manifest N opts res]"
proof -
  from run obtain secretData res where "vo = \<lparr>po_Namespace = io_Namespace (fo_base opts), po_Image = io_Image (fo_base opts),
      po_ProviderName = fo_ProviderName opts, po_Bucket = fo_BucketName opts, po_Prefix = fo_Prefix opts,
      po_PodAnnotations = fo_PodAnnotations opts, po_PodResources = res, po_SecretData = secretData, po_SecretAdd = True,
      po_MasterAffinity = False, po_HostNetwork = False, po_Features = []\<rparr>"
    unfolding AsDatamgrOptions_def
    by (elim then_ok_Inr) (auto split: sum.splits)
  with N have "AllDatamgrResources N vo True = AllCRDs N @ [datamgr_manifest N opts res]"
    by (simp add: AllDatamgrResources_def datamgr_manifest_def appendUnstructured_def sound_build_def)
  then show ?thesis by blast
qed

lemma datamgr_Run_objects:
  assumes E: "conflicts_are_real E" and N: "sound_build N"
    and run: "run_state (datamgr_Run E I N opts) s = (Some (Inr opts'), s')"
  shows "\<exists>res. st_objects s' = (if io_SkipInstall (fo_base opts') \<or> fo_DryRun opts' then st_objects s
    else fold put_new (install_order (AllCRDs N @ [datamgr_manifest N opts' res])) (st_objects s))"
proof -
  from run obtain base t where t: "run_state (at_site (unless_err (wrapping ''Failed to get kubeClient'' (ask (e_client E)))
        (datamgr_prerequisites E I (fo_base opts)))) s = (Inr base, t)"
    and rest: "run_state (let opts1 = opts\<lparr>fo_base := base\<rparr> in
       if io_SkipInstall base then State_Monad.return (Some (Inr opts1))
       else await (at_once (at_site (then_ok (AsDatamgrOptions N opts1) (\<lambda>vo.
            unless_err (ask (\<lambda>n. n_print N n (AllDatamgrResources N vo True)))
              (State_Monad.return (Inr (AllDatamgrResources N vo True)))))))
         (deploy_datamgr E N opts1)) t = (Some (Inr opts'), s')"
    unfolding datamgr_Run_def by (rule await_at_once_Inr)
  from at_site_run [OF t] have objs: "st_objects t = st_objects s" by simp
  let ?o = "opts\<lparr>fo_base := base\<rparr>"
  show ?thesis
  proof (cases "io_SkipInstall base")
    case True
    with rest objs show ?thesis by auto
  next
    case False
    with rest obtain ms u where u: "run_state (at_site (then_ok (AsDatamgrOptions N ?o) (\<lambda>vo.
            unless_err (ask (\<lambda>n. n_print N n (AllDatamgrResources N vo True)))
              (State_Monad.return (Inr (AllDatamgrResources N vo True)))))) t = (Inr ms, u)"
      and deploy: "run_state (deploy_datamgr E N ?o ms) u = (Some (Inr opts'), s')"
      by (auto simp: Let_def elim!: await_at_once_Inr)
    from at_site_run [OF u] obtain vo w' where vo: "run_state (AsDatamgrOptions N ?o) (st_world t) = (Inr vo, w')"
      and ms: "ms = AllDatamgrResources N vo True" and ou: "st_objects u = st_objects t"
      by (auto elim!: then_ok_Inr unless_err_Inr)
    from AsDatamgrOptions_run [OF N vo] ms obtain res where "ms = AllCRDs N @ [datamgr_manifest N ?o res]" by blast
    moreover from deploy_datamgr_run [OF E deploy] have "opts' = ?o" and
      "st_objects s' = (if fo_DryRun ?o then st_objects u else fold put_new (install_order ms) (st_objects u))"
      by auto
    ultimately show ?thesis using False objs ou by (intro exI [of _ res]) simp
  qed
qed

text \<open>
  C23. A run of the data manager's installer that ends without an error either skips (in a guest
  or supervisor cluster or in local mode) or is a dry run, and then creates no object at all; or
  afterwards every generated resource definition exists and the daemon set is in Velero's
  namespace: the one that was there before, unchanged, or a new one that runs the image of the
  options and mounts the cloud credentials. No other object has changed. The API server is
  assumed to answer that an object exists only if it does, and the generated objects to be
  resource definitions.
\<close>

theorem data_manager_is_installed:
  assumes "conflicts_are_real E" and "sound_build N"
    and "run_state (datamgr_install E I N opts) s = (Some (Inr opts'), s')"
    and "k = (''daemonsets'', io_Namespace (fo_base opts'), ''datamgr-for-vsphere-plugin'')"
  shows "if io_SkipInstall (fo_base opts') \<or> fo_DryRun opts' then st_objects s' = st_objects s
    else (\<forall>c \<in> set (n_crds N). st_objects s' (object_key c) \<noteq> None) \<and>
      (\<exists>d. st_objects s' k = Some d \<and>
        (case st_objects s k of
           Some old \<Rightarrow> d = old
         | None \<Rightarrow> map_option pc_Image (workload_container (mf_Spec d)) = Some (io_Image (fo_base opts')) \<and>
             map_option (\<lambda>t. (''cloud-credentials'', SecretVolume ''cloud-credentials'') \<in> set (pt_Volumes t))
               (workload_template (mf_Spec d)) = Some True)) \<and>
      (\<forall>k'. k' \<noteq> k \<longrightarrow> k' \<notin> object_key ` set (n_crds N) \<longrightarrow> st_objects s' k' = st_objects s k')"
proof -
  from assms(3) obtain opts1 t where t: "run_state (at_site (Complete E N opts)) s = (Inr opts1, t)"
    and run: "run_state (datamgr_Run E I N opts1) t = (Some (Inr opts'), s')"
    unfolding datamgr_install_def by (rule await_at_once_Inr)
  from at_site_run [OF t] have objs: "st_objects t = st_objects s" by simp
  from datamgr_Run_objects [OF assms(1,2) run] obtain res where
    r: "st_objects s' = (if io_SkipInstall (fo_base opts') \<or> fo_DryRun opts' then st_objects t
      else fold put_new (install_order (AllCRDs N @ [datamgr_manifest N opts' res])) (st_objects t))" by blast
  let ?d = "datamgr_manifest N opts' res"
  note facts = DaemonSet_facts [OF datamgr_manifest_def]
  have kinds: "mf_Kind ?d \<noteq> ''CustomResourceDefinition''" "kindToResource (mf_Kind ?d) \<noteq> ''customresourcedefinitions''"
    by (simp_all add: facts kindToResource_def)
  show ?thesis
  proof (cases "io_SkipInstall (fo_base opts') \<or> fo_DryRun opts'")
    case True
    with r objs show ?thesis by simp
  next
    case False
    with r objs have "st_objects s' = fold put_new (install_order (AllCRDs N @ [?d])) (st_objects s)" by simp
    note stored = definitions_and_workload [OF assms(2) kinds this]
    from stored(2) facts assms(4) have "st_objects s' k = Some (case st_objects s k of Some x \<Rightarrow> x | None \<Rightarrow> ?d)" by simp
    then show ?thesis
      using False stored(1) stored(3) facts assms(4) by (auto split: option.splits)
  qed
qed

section \<open>Waiting\<close>

text \<open>What one answer about the daemon set says.\<close>

definition daemonset_seen :: "installer_env \<Rightarrow> string \<Rightarrow> nat \<Rightarrow> bool" where
  "daemonset_seen N ns n = (case n_daemonset N n (ns, ''datamgr-for-vsphere-plugin'') of
      Inr (Inr st) \<Rightarrow> dst_NumberAvailable st = dst_DesiredNumberScheduled st
    | _ \<Rightarrow> False)"

definition seen_count :: "installer_env \<Rightarrow> string \<Rightarrow> nat \<Rightarrow> nat \<Rightarrow> nat" where
  "seen_count N ns t u = card {n \<in> {t..<u}. daemonset_seen N ns n}"

lemma seen_count_Suc:
  assumes "t \<le> u"
  shows "seen_count N ns t (Suc u) = seen_count N ns t u + (if daemonset_seen N ns u then 1 else 0)"
proof -
  have "{n \<in> {t..<Suc u}. daemonset_seen N ns n} =
      (if daemonset_seen N ns u then insert u {n \<in> {t..<u}. daemonset_seen N ns n}
       else {n \<in> {t..<u}. daemonset_seen N ns n})"
    using assms by (auto simp: less_Suc_eq)
  then show ?thesis by (simp add: seen_count_def)
qed

lemma daemonset_attempt_counts:
  "triple (\<lambda>w. t \<le> w_tick w \<and> fst l \<le> int (seen_count N ns t (w_tick w)) \<and> (snd l \<longrightarrow> 4 < fst l))
     (daemonset_attempt N ns l)
     (\<lambda>(r, l'). \<lambda>w. (t \<le> w_tick w \<and> fst l' \<le> int (seen_count N ns t (w_tick w)) \<and> (snd l' \<longrightarrow> 4 < fst l')) \<and>
        (r = Inr True \<longrightarrow> 4 < fst l'))"
proof (rule tripleI)
  fix w r w'
  assume pre: "t \<le> w_tick w \<and> fst l \<le> int (seen_count N ns t (w_tick w)) \<and> (snd l \<longrightarrow> 4 < fst l)"
    and run: "run_state (daemonset_attempt N ns l) w = (r, w')"
  from pre have "t \<le> w_tick w" by simp
  note more = seen_count_Suc [OF this, of N ns]
  from pre run show "(case r of (r, l') \<Rightarrow> \<lambda>w. (t \<le> w_tick w \<and> fst l' \<le> int (seen_count N ns t (w_tick w)) \<and>
      (snd l' \<longrightarrow> 4 < fst l')) \<and> (r = Inr True \<longrightarrow> 4 < fst l')) w'"
    by (auto simp: daemonset_attempt_def enough_observations_def more daemonset_seen_def split: sum.splits if_splits)
qed

text \<open>The daemon set counts as ready only after five answers in which all its pods were available.\<close>

lemma ready_after_five_observations:
  assumes "run_state (DaemonSetIsReady E N ns k) w = (Some (True, e), w')"
  shows "5 \<le> seen_count N ns (w_tick w) (w_tick w')"
proof -
  from assms obtain m l where p: "run_state (poll_immediate m (daemonset_attempt N ns) (0, False))
      (w\<lparr>w_tick := Suc (Suc (w_tick w))\<rparr>) = ((e, l), w')" and l: "snd l"
    by (auto simp: DaemonSetIsReady_def split: option.splits prod.splits if_splits)
  from tripleD [OF poll_immediate_invariant [OF daemonset_attempt_counts] _ p, of "w_tick w"]
  have "fst l \<le> int (seen_count N ns (w_tick w) (w_tick w')) \<and> (snd l \<longrightarrow> 4 < fst l)" by simp
  with l show ?thesis by simp
qed

text \<open>If every answer says so, it does count as ready, after the fifth.\<close>

lemma poll_daemonset_ready:
  assumes seen: "\<And>n. daemonset_seen N ns n"
  shows "0 \<le> c \<Longrightarrow> c \<le> 4 \<Longrightarrow> 4 - c \<le> int m \<Longrightarrow>
    fst (run_state (poll_immediate m (daemonset_attempt N ns) (c, False)) w) = (None, (5, True))"
proof (induction m arbitrary: c w)
  case (Suc m)
  obtain st where "n_daemonset N (w_tick w) (ns, ''datamgr-for-vsphere-plugin'') = Inr (Inr st)"
    and "dst_NumberAvailable st = dst_DesiredNumberScheduled st"
    using seen [of "w_tick w"] by (auto simp: daemonset_seen_def split: sum.splits)
  then have "run_state (daemonset_attempt N ns (c, False)) w = (enough_observations (c + 1) False, w\<lparr>w_tick := Suc (w_tick w)\<rparr>)"
    by (simp add: daemonset_attempt_def)
  with Suc.IH [of "c + 1"] Suc.prems show ?case by (cases "c = 4") (auto simp: enough_observations_def)
next
  case 0
  obtain st where "n_daemonset N (w_tick w) (ns, ''datamgr-for-vsphere-plugin'') = Inr (Inr st)"
    and "dst_NumberAvailable st = dst_DesiredNumberScheduled st"
    using seen [of "w_tick w"] by (auto simp: daemonset_seen_def split: sum.splits)
  with 0 show ?case by (auto simp: daemonset_attempt_def enough_observations_def)
qed

lemma daemonset_becomes_ready:
  assumes "\<And>n. daemonset_seen N ns n" and "\<And>n. 4 \<le> e_polls E n" and "e_client E (w_tick w) = None"
  shows "fst (run_state (DaemonSetIsReady E N ns k) w) = Some (True, None)"
proof -
  let ?v = "w\<lparr>w_tick := Suc (Suc (w_tick w))\<rparr>"
  let ?p = "run_state (poll_immediate (e_polls E (Suc (w_tick w))) (daemonset_attempt N ns) (0, False)) ?v"
  have "fst ?p = (None, (5, True))"
    using poll_daemonset_ready [OF assms(1), of 0 "e_polls E (Suc (w_tick w))"] assms(2) [of "Suc (w_tick w)"] by simp
  then obtain w' where "?p = ((None, (5, True)), w')" by (cases ?p) simp
  with assms(3) show ?thesis by (simp add: DaemonSetIsReady_def)
qed

subsection \<open>The resource definitions\<close>

definition shown_ready :: "goerr + (goerr + crd_condition list) \<Rightarrow> bool" where
  "shown_ready r = (case r of Inr (Inr conditions) \<Rightarrow> crdIsReady conditions | _ \<Rightarrow> False)"

lemma find_crds_grows:
  "run_state (find_crds N ks found) w = ((stop, found'), w') \<Longrightarrow>
     length found \<le> length found' \<and> (stop = None \<longrightarrow> length found' = length found + length ks)"
proof (induction ks arbitrary: found w)
  case (Cons k ks)
  then show ?case by (fastforce split: sum.splits if_splits)
qed simp

lemma find_crds_all:
  "run_state (find_crds N ks found) w = ((None, found'), w') \<Longrightarrow>
     \<exists>cs. found' = found @ cs \<and> length cs = length ks \<and> (\<forall>j < length ks. n_crd N (w_tick w + j) (ks ! j) = Inr (Inr (cs ! j)))"
proof (induction ks arbitrary: found w)
  case (Cons k ks)
  then obtain c where c: "n_crd N (w_tick w) k = Inr (Inr c)"
    and rest: "run_state (find_crds N ks (found @ [c])) (w\<lparr>w_tick := Suc (w_tick w)\<rparr>) = ((None, found'), w')"
    by (auto split: sum.splits if_splits)
  from Cons.IH [OF rest] obtain cs where cs: "found' = (found @ [c]) @ cs" "length cs = length ks"
    and all: "\<forall>j < length ks. n_crd N (Suc (w_tick w) + j) (ks ! j) = Inr (Inr (cs ! j))" by auto
  have "n_crd N (w_tick w + j) ((k # ks) ! j) = Inr (Inr ((c # cs) ! j))" if "j < length (k # ks)" for j
    using c all that by (cases j) auto
  with cs show ?case by (intro exI [of _ "c # cs"]) simp
qed simp

lemma crds_attempt_run:
  assumes "run_state (crds_attempt N ks l) w = (r, w')"
  obtains stop found where "run_state (find_crds N ks (fst l)) w = ((stop, found), w')"
    and "r = (case stop of Some r \<Rightarrow> (r, (found, snd l))
       | None \<Rightarrow> if length found \<noteq> length ks then (Inr False, (found, snd l))
           else if list_all crdIsReady found then (Inr True, (found, True)) else (Inr False, (found, snd l)))"
  using assms by (auto simp: crds_attempt_def split: prod.splits)

text \<open>Once something was found, no later attempt has as many entries as there are names.\<close>

lemma crds_attempt_stuck:
  assumes "ks \<noteq> []"
  shows "triple (\<lambda>w. fst l \<noteq> [] \<and> \<not> snd l) (crds_attempt N ks l)
    (\<lambda>(r, l'). \<lambda>w. (fst l' \<noteq> [] \<and> \<not> snd l') \<and> (r = Inr True \<longrightarrow> fst l' \<noteq> []))"
proof (rule tripleI)
  fix w r w'
  assume pre: "fst l \<noteq> [] \<and> \<not> snd l" and run: "run_state (crds_attempt N ks l) w = (r, w')"
  obtain stop found where f: "run_state (find_crds N ks (fst l)) w = ((stop, found), w')"
    and r: "r = (case stop of Some r \<Rightarrow> (r, (found, snd l))
       | None \<Rightarrow> if length found \<noteq> length ks then (Inr False, (found, snd l))
           else if list_all crdIsReady found then (Inr True, (found, True)) else (Inr False, (found, snd l)))"
    by (rule crds_attempt_run [OF run])
  from find_crds_grows [OF f] pre have "found \<noteq> []" and "stop = None \<longrightarrow> length found \<noteq> length ks" by auto
  with r pre show "(case r of (r, l') \<Rightarrow> \<lambda>w. (fst l' \<noteq> [] \<and> \<not> snd l') \<and> (r = Inr True \<longrightarrow> fst l' \<noteq> [])) w'"
    by (auto split: option.splits)
qed

lemma find_crds_no_success:
  "run_state (find_crds N ks found) w = ((stop, found'), w') \<Longrightarrow> stop \<noteq> Some (Inr True)"
  by (induction ks arbitrary: found w) (auto split: sum.splits if_splits)

lemma crds_first_attempt:
  assumes run: "run_state (crds_attempt N (k # ks) ([], False)) w = ((r, l), w')"
    and first: "n_crd N (w_tick w) k = Inr (Inr c)"
    and j: "j < length (k # ks)" "\<not> shown_ready (n_crd N (w_tick w + j) ((k # ks) ! j))"
  shows "r \<noteq> Inr True \<and> fst l \<noteq> [] \<and> \<not> snd l"
proof -
  obtain stop found where f: "run_state (find_crds N (k # ks) []) w = ((stop, found), w')"
    and r: "(r, l) = (case stop of Some r \<Rightarrow> (r, (found, False))
       | None \<Rightarrow> if length found \<noteq> length (k # ks) then (Inr False, (found, False))
           else if list_all crdIsReady found then (Inr True, (found, True)) else (Inr False, (found, False)))"
    by (rule crds_attempt_run [OF run], unfold fst_conv snd_conv)
  from f first have rest: "run_state (find_crds N ks [c]) (w\<lparr>w_tick := Suc (w_tick w)\<rparr>) = ((stop, found), w')" by simp
  from find_crds_grows [OF rest] have ne: "found \<noteq> []" by auto
  have stop: "\<not> list_all crdIsReady found" if "stop = None"
  proof -
    from find_crds_all f that obtain cs where "found = cs" "length cs = length (k # ks)"
      and "n_crd N (w_tick w + j) ((k # ks) ! j) = Inr (Inr (cs ! j))" using j(1) by fastforce
    with j show ?thesis by (auto simp: shown_ready_def list_all_length)
  qed
  have "stop \<noteq> Some (Inr True)" using find_crds_no_success [OF f] .
  with r ne stop show ?thesis by (auto split: option.splits if_splits)
qed

lemma crds_poll_gives_up:
  assumes first: "n_crd N (w_tick w) k = Inr (Inr c)"
    and j: "j < length (k # ks)" "\<not> shown_ready (n_crd N (w_tick w + j) ((k # ks) ! j))"
    and run: "run_state (poll_immediate n (crds_attempt N (k # ks)) ([], False)) w = ((e, l), w')"
  shows "\<not> snd l"
proof -
  obtain r l1 w1 where a: "run_state (crds_attempt N (k # ks) ([], False)) w = ((r, l1), w1)"
    by (metis prod.collapse)
  from crds_first_attempt [OF a first j] have r: "r \<noteq> Inr True" and l1: "fst l1 \<noteq> [] \<and> \<not> snd l1" by auto
  show ?thesis
  proof (cases n)
    case 0
    with run a l1 show ?thesis by (auto split: sum.splits)
  next
    case (Suc m)
    show ?thesis
    proof (cases r)
      case (Inl err)
      with run a l1 Suc show ?thesis by auto
    next
      case (Inr ok)
      with r run a Suc have "run_state (poll_immediate m (crds_attempt N (k # ks)) l1) w1 = ((e, l), w')" by auto
      from tripleD [OF poll_immediate_invariant [OF crds_attempt_stuck] _ this] l1 show ?thesis by simp
    qed
  qed
qed

lemma createResource_answered:
  assumes "\<And>n. e_fate E n = Accepted" and "\<And>n. e_client E n = None"
  shows "fst (run_state (createResource E m) s) = None"
  using assms by (simp add: createResource_def create_object_def Let_def zoom_def split: option.splits)

lemma create_all_answered:
  assumes "\<And>n. e_fate E n = Accepted" and "\<And>n. e_client E n = None"
  shows "fst (run_state (create_all E ms) s) = None"
  using createResource_answered [OF assms]
  by (induction ms arbitrary: s) (auto split: prod.splits option.splits, metis fst_conv option.distinct(1))

lemma crdsAreReady_no_error:
  assumes "e_client E (w_tick w) = None"
  shows "snd (fst (run_state (crdsAreReady E N ks) w)) = None"
  using assms by (simp add: crdsAreReady_def split: prod.splits)

lemma Install_answered:
  assumes "\<And>n. e_fate E n = Accepted" and "\<And>n. e_client E n = None"
  shows "fst (run_state (Install E N ms) s) = None"
proof -
  let ?rg = "GroupResources ms"
  obtain t where t: "run_state (create_all E (rg_CRDResources ?rg)) s = (None, t)"
    using create_all_answered [OF assms, of "rg_CRDResources ?rg" s] by (metis prod.collapse)
  obtain b e u where u: "run_state (at_site (crdsAreReady E N CRDsList)) t = ((b, e), u)" by (metis prod.collapse)
  with at_site_run [OF u] crdsAreReady_no_error [of E "st_world t" N CRDsList] assms(2) have "e = None" by simp
  with t u create_all_answered [OF assms] show ?thesis by (simp add: Install_def Let_def)
qed

text \<open>
  C40. The wait for the resource definitions appends what each attempt finds to one list and
  compares its length with the number of names. So if the first attempt finds the first
  definition but some definition is missing, unreadable or not ready, the answer is no, however
  soon the definitions become ready and however often it polls: with all of them found, the list
  is too long from then on. The answer comes without an error, and with an answering API server
  the installation goes on and succeeds whatever the definitions look like.
\<close>

theorem definitions_not_ready_are_given_up:
  assumes "\<And>n. e_fate E n = Accepted" and "\<And>n. e_client E n = None"
    and "n_crd N (w_tick w + 2) k = Inr (Inr c)"
    and "j < length (k # ks)" and "\<not> shown_ready (n_crd N (w_tick w + 2 + j) ((k # ks) ! j))"
  shows "fst (run_state (crdsAreReady E N (k # ks)) w) = (False, None) \<and> fst (run_state (Install E N ms) s) = None"
proof -
  let ?v = "w\<lparr>w_tick := Suc (Suc (w_tick w))\<rparr>"
  obtain e l w' where p: "run_state (poll_immediate (e_polls E (Suc (w_tick w))) (crds_attempt N (k # ks)) ([], False)) ?v
      = ((e, l), w')" by (metis prod.collapse)
  have "\<not> snd l" by (rule crds_poll_gives_up [OF _ assms(4) _ p]) (use assms(3,5) in simp_all)
  with p assms(2) Install_answered [OF assms(1,2)] show ?thesis by (simp add: crdsAreReady_def)
qed

section \<open>Samples\<close>

text \<open>
  A cluster in which the daemon set is available at once and the resource definitions of Velero
  are ready from the second attempt on.
\<close>

definition patient :: env where
  "patient = calm\<lparr>e_polls := (\<lambda>n. 9)\<rparr>"

definition plugin_added :: install_env where
  "plugin_added = \<lparr>
     i_init_containers = (\<lambda>n k. Inr [\<lparr>ct_Name = ''plugin'', ct_Image = ''registry/velero-plugin-for-vsphere:v1.5.1'',
       ct_Env = [], ct_Args = []\<rparr>]),
     i_features_arg = (\<lambda>args. ''''), i_feature_enabled = (\<lambda>features f. f \<in> set features)\<rparr>"

definition uploads_definition :: manifest where
  "uploads_definition = \<lparr>mf_APIVersion = ''apiextensions.k8s.io/v1'', mf_Kind = ''CustomResourceDefinition'',
     mf_Namespace = '''', mf_Name = ''uploads.datamover.cnsdp.vmware.com'', mf_Labels = Map.empty,
     mf_Spec = DefinitionSpec ''''\<rparr>"

definition sample_installer :: installer_env where
  "sample_installer = \<lparr>n_version = '''', n_registry = '''', n_crds = [uploads_definition], n_to_unstructured = (\<lambda>m. None),
     n_crd = (\<lambda>n k. Inr (Inr (if n < 4 then [] else
       [\<lparr>cc_Type = ''Established'', cc_Status = ''True''\<rparr>, \<lparr>cc_Type = ''NamesAccepted'', cc_Status = ''True''\<rparr>]))),
     n_deployment = (\<lambda>n k. Inl (ErrAPI (NotFound ''deployment''))),
     n_daemonset = (\<lambda>n k. Inr (Inr \<lparr>dst_NumberAvailable = 1, dst_DesiredNumberScheduled = 1\<rparr>)),
     n_nodes = (\<lambda>n. Inr 1), n_namespace = (\<lambda>n ns. None), n_stat = (\<lambda>n path. FileAbsent),
     n_abs = (\<lambda>path. Inr path), n_read_file = (\<lambda>n path. Inr ''''), n_parse_resources = (\<lambda>r. Inr r),
     n_print = (\<lambda>n ms. None)\<rparr>"

definition empty_site :: site where
  "empty_site = \<lparr>st_world = empty_world, st_objects = (\<lambda>k. None)\<rparr>"

lemma patient_answers [simp]:
  "e_fate patient = (\<lambda>n. Accepted)" "e_client patient = (\<lambda>n. None)" "e_polls patient = (\<lambda>n. 9)"
  "e_config_map patient = e_config_map calm" "e_deployment patient = e_deployment calm"
  "e_statefulset patient = e_statefulset calm"
  by (simp_all add: patient_def)

lemma patient_is_real: "conflicts_are_real patient"
  by (simp add: conflicts_are_real_def)

lemma sample_installer_sound: "sound_build sample_installer"
  by (simp add: sound_build_def sample_installer_def uploads_definition_def)

lemma sample_completed: "fst (run_state (Complete patient sample_installer opts) w) = Inr opts"
  by (simp add: Complete_def sample_installer_def)

definition datamgr_image :: string where
  "datamgr_image = ''registry/data-manager-for-plugin:v1.5.1''"

lemma sample_prerequisites:
  "fst (run_state (datamgr_prerequisites patient plugin_added (fo_base (datamgr_NewInstallOptions N))) w) =
     Inr ((fo_base (datamgr_NewInstallOptions N))\<lparr>io_Image := datamgr_image\<rparr>)"
  by (simp add: datamgr_prerequisites_def CheckClusterFlavorForDataManager_def RetrieveClusterFlavor_def connect_def
      retrieveClusterFlavor_def GetClusterTypeFromConfig_def GetCSIClusterType_def CheckFeatureFlagsForDataManager_def
      GetVeleroFeatureFlags_def plugin_added_def datamgr_NewInstallOptions_def default_options_def CheckVeleroVersion_def
      GetVeleroVersion_def CheckPluginImageRepo_def GetCompatibleRepoAndTagFromPluginImage_def sibling_image_def
      GetComponentFromImage_def GetComponentsFromImage_def VeleroPluginForVsphere_def DataManagerForPlugin_def
      datamgr_image_def VSphereLocalModeFeature_def)

lemma sample_seen: "daemonset_seen sample_installer ns n"
  by (simp add: daemonset_seen_def sample_installer_def)

lemma sample_deployed:
  assumes "\<not> fo_DryRun opts"
  shows "fst (run_state (deploy_datamgr patient sample_installer opts ms) s) = Some (Inr opts)"
proof -
  have nodes: "fst (run_state (unless_err (ask (e_client patient)) (Prelude.wrap_error msg (getNumberOfNodes sample_installer))) w) = Inr 1"
    for msg w
    by (simp add: run_unless_err run_wrap_error getNumberOfNodes_def sample_installer_def)
  have installed: "fst (run_state (unless_err (wrapping msg (Install patient sample_installer ms)) (State_Monad.return (Inr ()))) t) = Inr ()"
    for msg t
    using Install_answered [of patient sample_installer ms t]
    by (auto simp: run_unless_err wrapping_def wrap_option_def split: prod.splits)
  have ready: "fst (run_state (wait_for_datamgr patient sample_installer opts n) u) = Some (Inr opts)" for n u
    using daemonset_becomes_ready [of sample_installer "io_Namespace (fo_base opts)" patient "st_world u" n] sample_seen
    by (auto simp: wait_for_datamgr_def zoom_def split: prod.splits)
  show ?thesis
    unfolding deploy_datamgr_def
    using assms by (simp only: if_False await_goes at_once_parts site.run_zoom nodes installed ready)
qed

lemma sample_installed:
  "fst (run_state (datamgr_install patient plugin_added sample_installer (datamgr_NewInstallOptions sample_installer)) s) =
     Some (Inr ((datamgr_NewInstallOptions sample_installer)\<lparr>fo_base :=
       (fo_base (datamgr_NewInstallOptions sample_installer))\<lparr>io_Image := datamgr_image\<rparr>\<rparr>))"
proof -
  let ?opts = "datamgr_NewInstallOptions sample_installer"
  let ?base = "(fo_base ?opts)\<lparr>io_Image := datamgr_image\<rparr>"
  let ?o = "?opts\<lparr>fo_base := ?base\<rparr>"
  have skip: "\<not> io_SkipInstall ?base" "\<not> fo_DryRun ?o"
    by (simp_all add: datamgr_NewInstallOptions_def default_options_def)
  have checked: "fst (run_state (unless_err (wrapping msg (ask (e_client patient)))
      (datamgr_prerequisites patient plugin_added (fo_base ?opts))) w) = Inr ?base" for msg w
    by (simp add: unless_err_goes wrapping_def wrap_option_def sample_prerequisites)
  have listed: "\<exists>ms. fst (run_state (then_ok (AsDatamgrOptions sample_installer ?o) (\<lambda>vo.
      unless_err (ask (\<lambda>n. n_print sample_installer n (AllDatamgrResources sample_installer vo True)))
        (State_Monad.return (Inr (AllDatamgrResources sample_installer vo True))))) w) = Inr ms" for w
    by (simp add: AsDatamgrOptions_def read_secret_def sample_installer_def datamgr_NewInstallOptions_def default_options_def
        run_then_ok run_unless_err)
  have run: "fst (run_state (datamgr_Run patient plugin_added sample_installer ?opts) t) = Some (Inr ?o)" for t
  proof -
    let ?prog = "at_site (then_ok (AsDatamgrOptions sample_installer ?o) (\<lambda>vo.
      unless_err (ask (\<lambda>n. n_print sample_installer n (AllDatamgrResources sample_installer vo True)))
        (State_Monad.return (Inr (AllDatamgrResources sample_installer vo True)))))"
    have rest: "fst (run_state (await (at_once ?prog) (deploy_datamgr patient sample_installer ?o)) u) = Some (Inr ?o)" for u
    proof -
      obtain ms where "fst (run_state (at_once ?prog) u) = Some (Inr ms)"
        using listed [of "st_world u"] by auto
      then show ?thesis by (simp only: await_goes sample_deployed [OF skip(2)])
    qed
    have "fst (run_state (at_once (at_site (unless_err (wrapping ''Failed to get kubeClient'' (ask (e_client patient)))
        (datamgr_prerequisites patient plugin_added (fo_base ?opts))))) t) = Some (Inr ?base)"
      by (simp only: at_once_parts site.run_zoom checked)
    then show ?thesis
      unfolding datamgr_Run_def using rest skip(1) by (simp only: await_goes Let_def if_False)
  qed
  show ?thesis
    unfolding datamgr_install_def
    by (simp only: await_goes at_once_parts site.run_zoom sample_completed run)
qed

theorem data_manager_is_installed_witness:
  "\<exists>d. st_objects (snd (run_state (datamgr_install patient plugin_added sample_installer
       (datamgr_NewInstallOptions sample_installer)) empty_site))
     (''daemonsets'', ''velero'', ''datamgr-for-vsphere-plugin'') = Some d \<and>
     map_option pc_Image (workload_container (mf_Spec d)) = Some ''registry/data-manager-for-plugin:v1.5.1''"
proof -
  let ?opts = "datamgr_NewInstallOptions sample_installer"
  let ?o = "?opts\<lparr>fo_base := (fo_base ?opts)\<lparr>io_Image := datamgr_image\<rparr>\<rparr>"
  let ?run = "run_state (datamgr_install patient plugin_added sample_installer ?opts) empty_site"
  have run: "?run = (Some (Inr ?o), snd ?run)"
    using sample_installed [of empty_site] by (metis prod.collapse)
  have "\<not> (io_SkipInstall (fo_base ?o) \<or> fo_DryRun ?o)" "io_Namespace (fo_base ?o) = ''velero''"
    by (simp_all add: datamgr_NewInstallOptions_def default_options_def)
  with data_manager_is_installed [OF patient_is_real sample_installer_sound run refl]
  show ?thesis by (auto simp: empty_site_def datamgr_image_def)
qed

theorem definitions_not_ready_are_given_up_witness:
  "fst (run_state (crdsAreReady patient sample_installer CRDsList) empty_world) = (False, None) \<and>
   fst (run_state (Install patient sample_installer [uploads_definition]) empty_site) = None \<and>
   list_all (\<lambda>n. shown_ready (n_crd sample_installer n ''backupstoragelocations.velero.io'')) [4, 5, 6, 7]"
proof -
  have "fst (run_state (crdsAreReady patient sample_installer
        [''backupstoragelocations.velero.io'', ''volumesnapshotlocations.velero.io'']) empty_world) = (False, None) \<and>
      fst (run_state (Install patient sample_installer [uploads_definition]) empty_site) = None"
    by (rule definitions_not_ready_are_given_up [where j = 0 and c = "[]"])
      (simp_all add: sample_installer_def empty_world_def shown_ready_def crdIsReady_def)
  then show ?thesis
    by (simp add: CRDsList_def sample_installer_def shown_ready_def crdIsReady_def)
qed

section \<open>The backup driver\<close>

definition driver_manifest :: "installer_env \<Rightarrow> command_options \<Rightarrow> pod_resources \<Rightarrow> manifest" where
  "driver_manifest N opts res = Deployment N (io_Namespace (fo_base opts))
     [WithAnnotations (fo_PodAnnotations opts), WithImage (io_Image (fo_base opts)), WithResources res,
      WithMasterNodeAffinity (io_MasterAffinity (fo_base opts)), WithHostNetwork (io_HostNetwork (fo_base opts))]"

lemma deploy_backupdriver_run:
  assumes E: "conflicts_are_real E" and run: "run_state (deploy_backupdriver E N opts ms) s = (Inr opts', s')"
  shows "opts' = opts \<and> st_objects s' = fold put_new (install_order ms) (st_objects s)"
proof -
  from run obtain t where t: "run_state (at_site (ask (e_client E))) s = (None, t)"
    and rest: "run_state (unless_err (wrapping (backupdriver_error (fo_base opts)) (Install E N ms)) (do {
       (_, err) \<leftarrow> at_site (DeploymentIsReady E N (io_Namespace (fo_base opts)));
       State_Monad.return (case err of
           Some e \<Rightarrow> Inl (ErrWrap (backupdriver_error (fo_base opts)) e)
         | None \<Rightarrow> Inr opts) })) t = (Inr opts', s')"
    unfolding deploy_backupdriver_def by (rule unless_err_Inr)
  from rest obtain u where u: "run_state (Install E N ms) t = (None, u)"
    and last: "run_state (do {
       (_, err) \<leftarrow> at_site (DeploymentIsReady E N (io_Namespace (fo_base opts)));
       State_Monad.return (case err of
           Some e \<Rightarrow> Inl (ErrWrap (backupdriver_error (fo_base opts)) e)
         | None \<Rightarrow> Inr opts) }) u = (Inr opts', s')"
    by (rule unless_err_wrapping)
  from last obtain r where r: "run_state (at_site (DeploymentIsReady E N (io_Namespace (fo_base opts)))) u = (r, s')"
    and o: "opts' = opts" by (auto split: prod.splits option.splits)
  with at_site_run [OF t] at_site_run [OF r] Install_stores [OF E u] show ?thesis by simp
qed

lemma backupdriver_install_objects:
  assumes E: "conflicts_are_real E" and N: "sound_build N"
    and run: "run_state (backupdriver_install E I N opts) s = (Inr opts', s')"
  shows "\<exists>res. st_objects s' = fold put_new (install_order (AllCRDs N @ [driver_manifest N opts' res])) (st_objects s)"
proof -
  from run obtain opts0 t where t: "run_state (at_site (Complete E N opts)) s = (Inr opts0, t)"
    and run1: "run_state (backupdriver_Run E I N opts0) t = (Inr opts', s')"
    unfolding backupdriver_install_def by (rule then_ok_Inr)
  from run1 obtain base u where u: "run_state (at_site (unless_err (wrapping ''Failed to get kubeClient'' (ask (e_client E)))
        (backupdriver_prerequisites E I (fo_base opts0)))) t = (Inr base, u)"
    and run2: "run_state (let opts1 = opts0\<lparr>fo_base := base\<rparr> in
       (case AsBackupDriverOptions N opts1 of
          Inl e \<Rightarrow> State_Monad.return (Inl e)
        | Inr vo \<Rightarrow> (let resources = AllBackupDriverResources N vo True in
             unless_err (at_site (ask (\<lambda>n. n_print N n resources))) (deploy_backupdriver E N opts1 resources)))) u
       = (Inr opts', s')"
    unfolding backupdriver_Run_def by (rule then_ok_Inr)
  let ?o = "opts0\<lparr>fo_base := base\<rparr>"
  from run2 obtain vo where vo: "AsBackupDriverOptions N ?o = Inr vo"
    by (cases "AsBackupDriverOptions N ?o") (auto simp: Let_def)
  let ?ms = "AllBackupDriverResources N vo True"
  from run2 vo have "run_state (unless_err (at_site (ask (\<lambda>n. n_print N n ?ms))) (deploy_backupdriver E N ?o ?ms)) u
      = (Inr opts', s')" by (simp add: Let_def)
  then obtain v where v: "run_state (at_site (ask (\<lambda>n. n_print N n ?ms))) u = (None, v)"
    and d: "run_state (deploy_backupdriver E N ?o ?ms) v = (Inr opts', s')" by (rule unless_err_Inr)
  from deploy_backupdriver_run [OF E d] have o: "opts' = opts0\<lparr>fo_base := base\<rparr>"
    and objs: "st_objects s' = fold put_new (install_order ?ms) (st_objects v)" by auto
  from at_site_run [OF t] at_site_run [OF u] at_site_run [OF v] have same: "st_objects v = st_objects s" by simp
  from vo N o obtain res where list: "?ms = AllCRDs N @ [driver_manifest N opts' res]"
    by (auto simp: AsBackupDriverOptions_def AllBackupDriverResources_def driver_manifest_def appendUnstructured_def
        sound_build_def split: sum.splits)
  from objs list same show ?thesis by auto
qed

text \<open>
  The backup driver's installer, in the same way: the definitions and the deployment are there
  after a run without an error, and in a supervisor cluster a new deployment runs on the masters
  and in the host's network.
\<close>

lemma backup_driver_is_installed:
  assumes E: "conflicts_are_real E" and N: "sound_build N"
    and run: "run_state (backupdriver_install E I N opts) s = (Inr opts', s')"
    and k: "k = (''deployments'', io_Namespace (fo_base opts'), ''backup-driver'')"
  shows "(\<forall>c \<in> set (n_crds N). st_objects s' (object_key c) \<noteq> None) \<and>
    (\<exists>d. st_objects s' k = Some d \<and>
      (case st_objects s k of
         Some old \<Rightarrow> d = old
       | None \<Rightarrow> map_option pc_Image (workload_container (mf_Spec d)) = Some (io_Image (fo_base opts')) \<and>
           map_option pt_HostNetwork (workload_template (mf_Spec d)) = Some (io_HostNetwork (fo_base opts')) \<and>
           map_option (\<lambda>t. pt_NodeSelector t = Map.empty) (workload_template (mf_Spec d)) =
             Some (\<not> io_MasterAffinity (fo_base opts')))) \<and>
    (\<forall>k'. k' \<noteq> k \<longrightarrow> k' \<notin> object_key ` set (n_crds N) \<longrightarrow> st_objects s' k' = st_objects s k')"
proof -
  from backupdriver_install_objects [OF E N run] obtain res where
    objs: "st_objects s' = fold put_new (install_order (AllCRDs N @ [driver_manifest N opts' res])) (st_objects s)" by blast
  let ?d = "driver_manifest N opts' res"
  note facts = Deployment_facts [OF driver_manifest_def]
  have kinds: "mf_Kind ?d \<noteq> ''CustomResourceDefinition''" "kindToResource (mf_Kind ?d) \<noteq> ''customresourcedefinitions''"
    by (simp_all add: facts kindToResource_def)
  note stored = definitions_and_workload [OF N kinds objs]
  from stored(2) facts k have "st_objects s' k = Some (case st_objects s k of Some x \<Rightarrow> x | None \<Rightarrow> ?d)" by simp
  then show ?thesis using stored(1) stored(3) facts k by (auto split: option.splits)
qed

text \<open>
  The image given on the command line is used only when the plugin's own image is not found among
  the init containers of Velero.
\<close>

lemma image_option_is_ignored:
  assumes "\<And>n. i_init_containers I n (io_Namespace base, VeleroDeployment) = Inr cs" and "plugin_image cs \<noteq> ''''"
  shows "fst (run_state (CheckPluginImageRepo I (io_Namespace base) img server) w) =
    (sibling_image (plugin_image cs) server, None)"
  using assms by (simp add: CheckPluginImageRepo_def GetCompatibleRepoAndTagFromPluginImage_def)

end
