(* ===== verification/Driver_Wiring.thy ===== *)
theory Driver_Wiring
  imports Reload_Workers
begin

text \<open>
  How the backup driver is wired (\<^verbatim>\<open>NewBackupDriverController\<close> and \<^verbatim>\<open>Run\<close> of
  \<^verbatim>\<open>pkg/backupdriver/backup_driver_controller_base.go\<close>): which informers it waits for, which
  handler an event of an informer calls, and which queues its workers serve. The handlers and
  the workers themselves are in \<^verbatim>\<open>Backup_Driver\<close> and \<^verbatim>\<open>Reload_Workers\<close>.

  An event carries an object, or, for a deletion the informer has missed, the last state it
  knew of the object (\<^verbatim>\<open>cache.DeletedFinalStateUnknown\<close>), which may be nil. Informers are
  typed, so that a handler gets no object of another kind.
\<close>

datatype 'a delivered = Delivered 'a | LastKnown key "'a option"

datatype change = Added | Updated | Deleted

datatype watched_object =
    OnClaimOfVolume key
  | OnVolume key
  | OnRepository key
  | OnSnapshot key Snapshot
  | OnClone key
  | OnRepositoryClaim key BackupRepositoryClaim
  | OnDelete key
  | OnUpload key
  | OnSvcSnapshot key
  | OnSecret key

section \<open>Informers and queues\<close>

datatype informer =
    PVCs | PVs | BackupRepositories | BackupRepositoryClaims | Snapshots | CloneFromSnapshots
  | DeleteSnapshots | Uploads | SvcSnapshots | Secrets

fun informer_of :: "watched_object \<Rightarrow> informer" where
  "informer_of (OnClaimOfVolume _) = PVCs"
| "informer_of (OnVolume _) = PVs"
| "informer_of (OnRepository _) = BackupRepositories"
| "informer_of (OnSnapshot _ _) = Snapshots"
| "informer_of (OnClone _) = CloneFromSnapshots"
| "informer_of (OnRepositoryClaim _ _) = BackupRepositoryClaims"
| "informer_of (OnDelete _) = DeleteSnapshots"
| "informer_of (OnUpload _) = Uploads"
| "informer_of (OnSvcSnapshot _) = SvcSnapshots"
| "informer_of (OnSecret _) = Secrets"

definition cacheSyncs :: "driver \<Rightarrow> informer list" where
  "cacheSyncs C = [PVCs, PVs, BackupRepositories, BackupRepositoryClaims, Snapshots, CloneFromSnapshots,
     DeleteSnapshots, Uploads] @ (if dr_guest C then [SvcSnapshots] else [Secrets])"

definition driver_queues :: "string list" where
  "driver_queues = [''backup-driver-claim-queue'', ''backup-driver-snapshot-queue'', ''backup-driver-clone-queue'',
     ''backup-driver-brc-queue'', ''backup-driver-delete-snapshot-queue'', ''backup-driver-upload-queue'',
     ''backup-driver-svc-snapshot-queue'', ''backup-driver-secret-queue'']"

section \<open>Events\<close>

text \<open>The key of an object, of a missed deletion's too.\<close>

fun watched_key :: "watched_object \<Rightarrow> key" where
  "watched_key (OnClaimOfVolume k) = k"
| "watched_key (OnVolume k) = k"
| "watched_key (OnRepository k) = k"
| "watched_key (OnSnapshot k _) = k"
| "watched_key (OnClone k) = k"
| "watched_key (OnRepositoryClaim k _) = k"
| "watched_key (OnDelete k) = k"
| "watched_key (OnUpload k) = k"
| "watched_key (OnSvcSnapshot k) = k"
| "watched_key (OnSecret k) = k"

fun getKey :: "watched_object delivered \<Rightarrow> key" where
  "getKey (Delivered x) = watched_key x"
| "getKey (LastKnown k (Some x)) = watched_key x"
| "getKey (LastKnown k None) = k"

text \<open>
  The functions registered for the added, updated and deleted objects of each informer. The two
  that dequeue do not look into the last known state, the others do. The filter in front of the
  handler of secrets may be nil (\<open>None\<close>), and then calling it panics.
\<close>

definition quietly :: "(world, unit) state \<Rightarrow> (world, goerr option) state" where
  "quietly m = do { _ \<leftarrow> m; State_Monad.return None }"

definition filtered :: "(key \<Rightarrow> bool) option \<Rightarrow> key \<Rightarrow> (world, unit) state \<Rightarrow> (world, goerr option) state" where
  "filtered secret_filter k m =
     (case secret_filter of
        None \<Rightarrow> State_Monad.return (Some (GoPanic ''nil pointer dereference''))
      | Some f \<Rightarrow> if f k then quietly m else State_Monad.return None)"

fun handle_object ::
  "env \<Rightarrow> driver \<Rightarrow> (key \<Rightarrow> bool) option \<Rightarrow> change \<Rightarrow> bool \<Rightarrow> watched_object \<Rightarrow> (world, goerr option) state" where
  "handle_object E C secret_filter ch missed (OnSnapshot k s) =
     quietly (if ch = Deleted then delSnapshot C s else enqueueSnapshot k)"
| "handle_object E C secret_filter ch missed (OnClone k) =
     quietly (if ch = Added then enqueueCloneFromSnapshot k else State_Monad.return ())"
| "handle_object E C secret_filter ch missed (OnRepositoryClaim k brc) =
     quietly (if ch = Added then enqueueBackupRepositoryClaim k
              else if ch = Deleted \<and> \<not> missed then dequeBackupRepositoryClaim E k brc
              else State_Monad.return ())"
| "handle_object E C secret_filter ch missed (OnDelete k) =
     quietly (if ch \<noteq> Deleted then enqueueDeleteSnapshot k
              else if \<not> missed then dequeDeleteSnapshot E k
              else State_Monad.return ())"
| "handle_object E C secret_filter ch missed (OnUpload k) =
     quietly (if ch = Updated then updateUpload k else State_Monad.return ())"
| "handle_object E C secret_filter ch missed (OnSvcSnapshot k) =
     quietly (if dr_guest C \<and> ch = Updated then updateSvcSnapshot k else State_Monad.return ())"
| "handle_object E C secret_filter ch missed (OnSecret k) =
     (if dr_guest C then State_Monad.return None
      else filtered secret_filter k
        (if ch \<noteq> Deleted then enqueueSecret (SecretObject k) else State_Monad.return ()))"
| "handle_object E C secret_filter ch missed _ = State_Monad.return None"

definition handle_event ::
  "env \<Rightarrow> driver \<Rightarrow> (key \<Rightarrow> bool) option \<Rightarrow> change \<Rightarrow> watched_object delivered \<Rightarrow> (world, goerr option) state" where
  "handle_event E C secret_filter ch d =
     (case d of
        Delivered x \<Rightarrow> handle_object E C secret_filter ch False x
      | LastKnown _ None \<Rightarrow> State_Monad.return None
      | LastKnown _ (Some x) \<Rightarrow> handle_object E C secret_filter ch True x)"

text \<open>
  The constructor: the map of supervisor snapshots starts empty in a guest, and elsewhere the
  filter of the secrets is made.
\<close>

record wiring =
  wd_driver :: driver
  wd_cacheSyncs :: "informer list"
  wd_secret_filter :: "(key \<Rightarrow> bool) option"

definition NewBackupDriverController :: "env \<Rightarrow> driver \<Rightarrow> (world, wiring) state" where
  "NewBackupDriverController E C = do {
     f \<leftarrow> (if dr_guest C then do {
              update_world (\<lambda>w. w\<lparr>w_svcSnapshotMap := Map.empty\<rparr>);
              State_Monad.return None
            } else GetVcConfigSecretFilterFunc E);
     State_Monad.return \<lparr>wd_driver = C, wd_cacheSyncs = cacheSyncs C, wd_secret_filter = f\<rparr>
   }"

section \<open>Workers\<close>

text \<open>
  The queues that the goroutines started by \<^verbatim>\<open>Run\<close> serve, one entry per goroutine; none are
  started when the caches cannot be synced.
\<close>

definition workers_of_round :: "driver \<Rightarrow> string list" where
  "workers_of_round C = [''backup-driver-snapshot-queue'', ''backup-driver-clone-queue'', ''backup-driver-brc-queue'',
     ''backup-driver-delete-snapshot-queue'', ''backup-driver-upload-queue'',
     (if dr_guest C then ''backup-driver-svc-snapshot-queue'' else ''backup-driver-secret-queue'')]"

definition driver_Run :: "driver \<Rightarrow> (informer list \<Rightarrow> bool) \<Rightarrow> nat \<Rightarrow> string list" where
  "driver_Run C synced workers =
     (if \<not> synced (cacheSyncs C) then [] else concat (replicate workers (workers_of_round C)))"

section \<open>Every queue that is filled is served\<close>

definition served :: "string list \<Rightarrow> event \<Rightarrow> bool" where
  "served qs ev = (case ev of EvQueueAdd q k \<Rightarrow> q \<in> set qs | EvQueueForget q k \<Rightarrow> q \<in> set qs | _ \<Rightarrow> False)"

text \<open>
  What a handler adds to the trace: at most one operation on a queue, and that is one with a
  worker in this setup.
\<close>

definition at_most_one_served :: "string list \<Rightarrow> event list \<Rightarrow> event list \<Rightarrow> bool" where
  "at_most_one_served qs t t' \<longleftrightarrow> t' = t \<or> (\<exists>ev. t' = t @ [ev] \<and> served qs ev)"

lemmas handler_defs = enqueueSnapshot_def enqueueCloneFromSnapshot_def enqueueBackupRepositoryClaim_def
  enqueueDeleteSnapshot_def updateUpload_def delSnapshot_def dequeBackupRepositoryClaim_def dequeDeleteSnapshot_def
  updateSvcSnapshot_def enqueueSecret_def secret_key_def guest_snapshot_of_def update_world_def cr_delete_def

lemma filled_queues_are_served:
  "at_most_one_served (workers_of_round C) (w_trace w) (w_trace (snd (run_state (handle_object E C f ch m x) w)))"
  by (cases x)
    (auto simp: handler_defs quietly_def filtered_def at_most_one_served_def served_def workers_of_round_def Let_def split: fate.splits option.splits)

text \<open>The same for an event, with at least one round of workers after the caches have synced.\<close>

lemma events_are_served:
  assumes "synced (cacheSyncs C)" and "workers > 0"
  shows "at_most_one_served (driver_Run C synced workers) (w_trace w)
    (w_trace (snd (run_state (handle_event E C f ch d) w)))"
proof -
  from assms have same: "set (driver_Run C synced workers) = set (workers_of_round C)"
    by (auto simp: driver_Run_def)
  then have "served (driver_Run C synced workers) = served (workers_of_round C)"
    by (simp add: served_def fun_eq_iff split: event.splits)
  then have "at_most_one_served (driver_Run C synced workers) = at_most_one_served (workers_of_round C)"
    by (simp add: at_most_one_served_def fun_eq_iff)
  then show ?thesis
    by (auto simp: handle_event_def filled_queues_are_served at_most_one_served_def [of _ "w_trace w" "w_trace w"]
        split: delivered.splits option.splits)
qed

text \<open>Every queue but the claim queue, which nothing fills, is served in one of the setups.\<close>

lemma queues_of_the_setup:
  "set (workers_of_round C) \<subseteq> set driver_queues"
  "''backup-driver-claim-queue'' \<notin> set (workers_of_round C)"
  by (auto simp: workers_of_round_def driver_queues_def)

text \<open>
  When the deletion of a repository claim is missed and reported with the last known state, the
  repository of the claim stays; when it is seen, the repository is deleted.
\<close>

lemma missed_deletion_keeps_repository:
  "w_brs (snd (run_state (handle_event E C f Deleted (LastKnown k' x)) w)) = w_brs w"
proof (cases x)
  case (Some y)
  then show ?thesis
    by (cases y)
      (auto simp: handle_event_def delSnapshot_def update_world_def quietly_def filtered_def Let_def split: option.splits)
qed (simp add: handle_event_def)

lemma seen_deletion_deletes_repository:
  assumes "brc_BackupRepository brc \<noteq> ''''" and "e_fate E (w_tick w) = Accepted"
  shows "w_brs (snd (run_state (handle_event E C f Deleted (Delivered (OnRepositoryClaim k brc))) w))
    ('''', brc_BackupRepository brc) = None"
  using assms by (auto simp: handle_event_def handler_defs quietly_def Let_def split: option.splits)

text \<open>
  When the filter of the secrets cannot be made, the controller is built all the same, and the
  first event of any secret panics.
\<close>

lemma unfiltered_secret_panics:
  assumes "\<not> dr_guest C" and "e_client E (w_tick w) = Some e"
    and "run_state (NewBackupDriverController E C) w = (wd, w')"
  shows "fst (run_state (handle_event E (wd_driver wd) (wd_secret_filter wd) ch (Delivered (OnSecret k))) v) =
    Some (GoPanic ''nil pointer dereference'')"
  using assms
  by (auto simp: NewBackupDriverController_def GetVcConfigSecretFilterFunc_def connect_def handle_event_def filtered_def)

end
