(* ===== verification/Volume_Snapshotter.thy ===== *)
theory Volume_Snapshotter
  imports Server_Startup
begin

text \<open>
  The volume snapshotter of the plugin (\<^verbatim>\<open>pkg/plugin/volume_snapshotter_plugin.go\<close>), which
  Velero still calls for backups made by old versions of the plugin, and the entities through
  which the snapshot manager hands data movement to the data manager
  (\<^verbatim>\<open>pkg/snapshotmgr/data_manager_protected_entity.go\<close> and its type manager).

  A PersistentVolume comes and goes in Kubernetes' unstructured form; the two conversions are
  parameters. What the code reads of a volume is its CSI source.
\<close>

section \<open>Entities of the data manager\<close>

text \<open>
  An entity is its identifier and the type manager it belongs to. \<open>base\<close> is
  \<^verbatim>\<open>GetProtectedEntity\<close> of the wrapped type manager.
\<close>

record DataManagerProtectedEntity =
  dme_ID :: peid
  dme_petm :: DataManagerProtectedEntityTypeManager

definition dm_GetProtectedEntity ::
  "env \<Rightarrow> ('s, goerr + peid) state \<Rightarrow> DataManagerProtectedEntityTypeManager \<Rightarrow> peid \<Rightarrow>
   ('s, goerr + DataManagerProtectedEntity) state" where
  "dm_GetProtectedEntity E base dm i =
     then_ok (Prelude.wrap_error (''GetProtectedEntity from base PETM failed for PEID '' @ e_print_peid E i) base)
       (\<lambda>pe. State_Monad.return (Inr \<lparr>dme_ID = pe, dme_petm = dm\<rparr>))"

text \<open>Overwriting the entity with another one is a Download of that one into it.\<close>

definition dm_Overwrite ::
  "env \<Rightarrow> nat \<Rightarrow> DataManagerProtectedEntity \<Rightarrow> peid \<Rightarrow> params \<Rightarrow> (world, goerr option option) state" where
  "dm_Overwrite E fuel pe sourcePE ps = do {
     r \<leftarrow> CreateVolumeFromSnapshot E fuel sourcePE (dme_ID pe) ps;
     State_Monad.return (map_option snd r)
   }"

text \<open>The two copies are stubs: a nil entity and no error.\<close>

definition dm_Copy :: "DataManagerProtectedEntityTypeManager \<Rightarrow> DataManagerProtectedEntity option \<times> goerr option" where
  "dm_Copy dm = (None, None)"

definition dm_CopyFromInfo :: "DataManagerProtectedEntityTypeManager \<Rightarrow> DataManagerProtectedEntity option \<times> goerr option" where
  "dm_CopyFromInfo dm = (None, None)"

section \<open>The volume snapshotter\<close>

text \<open>A flavor that has not been determined yet is \<open>None\<close>; so is a nil manager.\<close>

record NewVolumeSnapshotter =
  vsn_config :: "(string \<rightharpoonup> string) option"
  vsn_snapMgr :: "SnapshotManager option"
  vsn_clusterFlavor :: "ClusterFlavor option"

text \<open>
  \<^verbatim>\<open>Init\<close> keeps the map it was given, and the entry it adds goes into the same map, unless
  the map was nil. The result has the error; the snapshotter is changed in any case.
\<close>

definition snapshotter_Init ::
  "env \<Rightarrow> server_env \<Rightarrow> paravirt_env \<Rightarrow> venv \<Rightarrow> (string \<rightharpoonup> string) option \<Rightarrow> NewVolumeSnapshotter \<Rightarrow>
   (agent, NewVolumeSnapshotter \<times> goerr option) state" where
  "snapshotter_Init E S X V config p = do {
     flavor \<leftarrow> in_world (GetClusterFlavor E False);
     (case flavor of
        Inl e \<Rightarrow> State_Monad.return (p\<lparr>vsn_config := config\<rparr>, Some e)
      | Inr clusterFlavor \<Rightarrow>
          (if clusterFlavor \<noteq> VSphere
           then State_Monad.return (p\<lparr>vsn_config := config, vsn_clusterFlavor := Some clusterFlavor\<rparr>, None)
           else
             let located = (case config of Some m \<Rightarrow> m | None \<Rightarrow> Map.empty)
                   (VolumeSnapshotterManagerLocation \<mapsto> VolumeSnapshotterPlugin);
                 q = p\<lparr>vsn_config := map_option (\<lambda>_. located) config, vsn_clusterFlavor := Some clusterFlavor\<rparr>
             in do {
               r \<leftarrow> NewSnapshotManagerFromCluster E S X V Map.empty located;
               State_Monad.return (case r of
                   Inl e \<Rightarrow> (q\<lparr>vsn_snapMgr := None\<rparr>, Some e)
                 | Inr mgr \<Rightarrow> (q\<lparr>vsn_snapMgr := Some mgr\<rparr>, None))
             }))
   }"

definition not_supported :: "string \<Rightarrow> goerr" where
  "not_supported operation = ErrMsg (''NotSupported: '' @ operation @
     '' of vsphere volume snapshots with version less than or prior to 1.0.2 are NOT supported in Supervisor and Guest Clusters.'')"

definition snapshotter_CreateVolumeFromSnapshot ::
  "env \<Rightarrow> nat \<Rightarrow> NewVolumeSnapshotter \<Rightarrow> string \<Rightarrow> (world, (goerr + string) option) state" where
  "snapshotter_CreateVolumeFromSnapshot E fuel p snapshotID =
     (if vsn_clusterFlavor p \<noteq> Some VSphere then State_Monad.return (Some (Inl (not_supported ''Restore'')))
      else (case e_parse_peid E snapshotID of
          Inl e \<Rightarrow> State_Monad.return (Some (Inl e))
        | Inr peId \<Rightarrow>
            (if vsn_snapMgr p = None then State_Monad.return (Some (Inl nil_deref))
             else do {
               r \<leftarrow> CreateVolumeFromSnapshot E fuel peId no_peid Map.empty;
               State_Monad.return (map_option (\<lambda>(returnPeId, err). case err of
                   Some e \<Rightarrow> Inl e
                 | None \<Rightarrow> Inr (pe_id returnPeId)) r)
             })))"

definition CnsBlockVolumeType :: string where "CnsBlockVolumeType = ''ivd''"

definition snapshotter_GetVolumeInfo :: "string \<Rightarrow> string \<times> int" where
  "snapshotter_GetVolumeInfo volumeID = (CnsBlockVolumeType, 100)"

definition snapshotter_IsVolumeReady :: "string \<Rightarrow> goerr + bool" where
  "snapshotter_IsVolumeReady volumeID = Inr True"

definition snapshotter_CreateSnapshot :: "string \<Rightarrow> goerr + string" where
  "snapshotter_CreateSnapshot volumeID = Inr ''''"

definition snapshotter_DeleteSnapshot :: "env \<Rightarrow> NewVolumeSnapshotter \<Rightarrow> string \<Rightarrow> (world, goerr option) state" where
  "snapshotter_DeleteSnapshot E p snapshotID =
     (if vsn_clusterFlavor p \<noteq> Some VSphere then State_Monad.return (Some (not_supported ''Delete''))
      else (case e_parse_peid E snapshotID of
          Inl e \<Rightarrow> State_Monad.return (Some e)
        | Inr peID \<Rightarrow>
            (if vsn_snapMgr p = None then State_Monad.return (Some nil_deref)
             else sm_deleteSnapshot E peID WithoutBackupRepository)))"

definition snapshotter_GetVolumeID :: "'u \<Rightarrow> goerr + string" where
  "snapshotter_GetVolumeID unstructuredPV = Inr ''''"

record csi_source =
  csi_Driver :: string
  csi_VolumeHandle :: string

record csi_volume =
  cv_Name :: string
  cv_CSI :: "csi_source option"
  cv_Rest :: string  \<comment> \<open>what the code does not look at\<close>

definition snapshotter_SetVolumeID ::
  "('u \<Rightarrow> goerr + csi_volume) \<Rightarrow> (csi_volume \<Rightarrow> goerr + 'u) \<Rightarrow> 'u \<Rightarrow> string \<Rightarrow> goerr + 'u" where
  "snapshotter_SetVolumeID fromUnstructured toUnstructured unstructuredPV volumeID =
     (case fromUnstructured unstructuredPV of
        Inl e \<Rightarrow> Inl e
      | Inr pv \<Rightarrow>
          (case cv_CSI pv of
             None \<Rightarrow> Inl (ErrMsg ''Spec.CSI not found'')
           | Some csi \<Rightarrow> toUnstructured (pv\<lparr>cv_CSI := Some (csi\<lparr>csi_VolumeHandle := volumeID\<rparr>)\<rparr>)))"

section \<open>Lemmas\<close>

text \<open>
  A volume that gets an identifier is the volume it was, with that handle, wherever the two
  conversions are inverse to each other.
\<close>

lemma SetVolumeID_read_back:
  assumes "\<forall>pv u. toU pv = Inr u \<longrightarrow> fromU u = Inr pv" and "snapshotter_SetVolumeID fromU toU u volumeID = Inr u'"
  obtains pv csi where "fromU u = Inr pv" and "cv_CSI pv = Some csi"
    and "fromU u' = Inr (pv\<lparr>cv_CSI := Some (csi\<lparr>csi_VolumeHandle := volumeID\<rparr>)\<rparr>)"
  using assms by (auto simp: snapshotter_SetVolumeID_def split: sum.splits option.splits)

text \<open>Outside a vanilla cluster nothing happens, and every call reports the error.\<close>

lemma snapshotter_unsupported:
  assumes "vsn_clusterFlavor p \<noteq> Some VSphere"
  shows "run_state (snapshotter_CreateVolumeFromSnapshot E fuel p i) w = (Some (Inl (not_supported ''Restore'')), w)"
    and "run_state (snapshotter_DeleteSnapshot E p i) w = (Some (not_supported ''Delete''), w)"
  using assms by (simp_all add: snapshotter_CreateVolumeFromSnapshot_def snapshotter_DeleteSnapshot_def)

text \<open>
  An initialisation that succeeds in a vanilla cluster leaves a manager, so that no later call
  panics for want of one; one that fails there leaves none, and the next call panics.
\<close>

lemma snapshotter_Init_manager:
  assumes "run_state (snapshotter_Init E S X V config p) s = ((q, r), s')" and "vsn_clusterFlavor q = Some VSphere"
    and "vsn_clusterFlavor p = None"
  shows "vsn_snapMgr q \<noteq> None \<longleftrightarrow> r = None"
  using assms
  by (auto simp: snapshotter_Init_def Let_def split: prod.splits sum.splits if_splits)

text \<open>
  Without the environment variable for Velero's namespace a restore reports success with an
  empty volume identifier: the manager returns its unset results.
\<close>

lemma restore_without_namespace:
  assumes "vsn_clusterFlavor p = Some VSphere" and "vsn_snapMgr p \<noteq> None" and "e_parse_peid E i = Inr peId"
    and "e_velero_ns E = None" and "\<forall>n. e_client E n = None"
  shows "fst (run_state (snapshotter_CreateVolumeFromSnapshot E fuel p i) w) = Some (Inr '''')"
  using assms
  by (simp add: snapshotter_CreateVolumeFromSnapshot_def CreateVolumeFromSnapshot_def connect_def no_peid_def)

end
