(* ===== verification/Spec2Isabelle.thy ===== *)
theory Spec2Isabelle
  imports Upload_Events Download_Correctness Repository_Correctness Snapshot_Manager_Correctness
    Install_Correctness Paravirt_Correctness Ivd_Copy_Correctness Installer_Correctness Driver_Wiring Volume_Snapshotter
begin

text \<open>
  A verification development for the Velero plugin for vSphere (the Go code under
  \<^verbatim>\<open>src/pkg\<close>).

  \<^bold>\<open>The program.\<close> Velero backs up and restores the objects of a Kubernetes cluster. For a
  persistent volume claim it calls the plugin's item actions (\<^verbatim>\<open>pkg/plugin\<close>). A backup
  files a Snapshot resource and stores what came back in an annotation of the claim; a restore
  reads the annotation and files a CloneFromSnapshot; a deletion files a DeleteSnapshot. The
  backup driver (\<^verbatim>\<open>pkg/backupdriver\<close>) answers these requests through the snapshot manager
  (\<^verbatim>\<open>pkg/snapshotmgr\<close>), which takes and deletes snapshots of protected entities and files
  Upload and Download resources for the transfer to and from an S3 repository. The data
  manager, one process per node, works through these with the upload and the download
  controller (\<^verbatim>\<open>pkg/controller\<close>) and the data mover (\<^verbatim>\<open>pkg/dataMover\<close>). Protected
  entities are disks of vCenter (\<^verbatim>\<open>pkg/ivd\<close> over \<^verbatim>\<open>pkg/common/vsphere\<close>) or, in a guest
  cluster, volumes that stand for claims of the supervisor cluster (\<^verbatim>\<open>pkg/paravirt\<close>). The
  installers (\<^verbatim>\<open>pkg/cmd\<close>) write the config maps the others read.

  \<^bold>\<open>How it is modelled.\<close> Stateful code is a program of the state monad and keeps the order of
  the calls of the source. A Go error is a value of \<open>goerr\<close>, a panic is \<open>GoPanic\<close> on its way
  up, the results \<^verbatim>\<open>(T, error)\<close> are \<open>goerr + T\<close>. Code that is not in the repository (the
  API server, Astrolabe, govmomi, the virtual disk library, informers, the clock) is a
  parameter: a record of functions, most of them functions of the number of the call, so that
  equal calls may be answered differently. Theorems hold for every such record unless they
  name a hypothesis. Five states are used:
  \<^item> \<open>world\<close> (\<^verbatim>\<open>Cluster\<close>): the stored custom resources and config maps, the data mover's
    registry of running uploads, the supervisor map, and a trace of effects outside the cluster;
  \<^item> \<open>clusters\<close> (\<^verbatim>\<open>Paravirt\<close>): a world for the guest and one for the supervisor, with the
    guest's volumes and claims; a program on one of them is lifted by \<open>zoom\<close>;
  \<^item> \<open>vsphere\<close> (\<^verbatim>\<open>VSphere_Client\<close>): a store of vCenter configurations, centers and clients at
    addresses, because the code shares them through pointers, the type manager's fields, and a
    trace of logins, calls and disk writes;
  \<^item> \<open>agent\<close> (\<^verbatim>\<open>Reload_Workers\<close>): a server process, with its world and the vsphere states of
    the data mover's and of the snapshot manager's type manager;
  \<^item> \<open>site\<close> (\<^verbatim>\<open>Installer\<close>): the world and the objects an installer creates.

  \<^bold>\<open>The theories\<close>, in the order of their imports, and the code they model:
  \<^item> \<^verbatim>\<open>Prelude\<close>: errors, Hoare triples and \<open>keeps\<close> (preservation of an invariant), early
    returns, \<^verbatim>\<open>wait.PollImmediate\<close>; \<^verbatim>\<open>Go_Strings\<close>: the string, number and base64 functions
    of Go's library, with round trips.
  \<^item> \<^verbatim>\<open>Api_Types\<close> (\<^verbatim>\<open>pkg/apis\<close>), \<^verbatim>\<open>Cluster\<close> (state, environment, requests to the API
    server with their three fates), \<^verbatim>\<open>S3_Repository\<close> and \<^verbatim>\<open>Cluster_Config\<close>
    (\<^verbatim>\<open>pkg/utils/utils.go\<close>), \<^verbatim>\<open>Patch\<close> (patching and its retry loop).
  \<^item> \<^verbatim>\<open>Data_Mover\<close>, \<^verbatim>\<open>Snapshot_Manager\<close>, \<^verbatim>\<open>Upload_Controller\<close>,
    \<^verbatim>\<open>Download_Controller\<close>, \<^verbatim>\<open>Backup_Repository\<close>, \<^verbatim>\<open>Backup_Driver\<close>: one theory per package
    or controller of the same name, with the builders of \<^verbatim>\<open>pkg/builder\<close> where they are used.
  \<^item> \<^verbatim>\<open>Plugin_Env\<close>, \<^verbatim>\<open>Snapshot_Utils\<close>, \<^verbatim>\<open>Plugin_Util\<close>, \<^verbatim>\<open>Plugin_Actions\<close>: the plugin
    process (\<^verbatim>\<open>pkg/plugin\<close>, \<^verbatim>\<open>pkg/snapshotUtils\<close>); \<^verbatim>\<open>Install_Config\<close>: \<^verbatim>\<open>pkg/cmd\<close>.
  \<^item> \<^verbatim>\<open>Paravirt\<close>: \<^verbatim>\<open>pkg/paravirt\<close>.
  \<^item> \<^verbatim>\<open>VSphere_Client\<close>: \<^verbatim>\<open>pkg/common/vsphere\<close> and the connections of the IVD type manager;
    \<^verbatim>\<open>Cns_Volumes\<close>: placement and creation of volumes; \<^verbatim>\<open>Ivd_Entity\<close>: the entity and the
    copies of \<^verbatim>\<open>pkg/ivd\<close>.
  \<^item> \<^verbatim>\<open>Reload_Workers\<close>: how a changed vCenter secret reaches the managers
    (\<^verbatim>\<open>pkg/controller/vc_config_controller.go\<close>, the secret worker of the backup driver, the
    reload operations of \<^verbatim>\<open>pkg/dataMover\<close> and \<^verbatim>\<open>pkg/snapshotmgr\<close>), with its theorems;
    \<^verbatim>\<open>Driver_Wiring\<close>: the informers, event handlers and workers of the backup driver.
  \<^item> \<^verbatim>\<open>Supervisor_Access\<close>: the credentials of the supervisor cluster
    (\<^verbatim>\<open>pkg/utils/utils.go\<close>); \<^verbatim>\<open>Server_Startup\<close>: the constructors of the data mover and the
    snapshot manager and both servers (\<^verbatim>\<open>pkg/cmd/datamgr/cli/server\<close>,
    \<^verbatim>\<open>pkg/cmd/backupdriver/cli/server\<close>), with \<^verbatim>\<open>Startup_Correctness\<close>.
  \<^item> \<^verbatim>\<open>Installer\<close>: both install commands (\<^verbatim>\<open>pkg/install\<close> and
    \<^verbatim>\<open>pkg/cmd/datamgr/cli/install\<close>, \<^verbatim>\<open>pkg/cmd/backupdriver/cli/install\<close>), with
    \<^verbatim>\<open>Installer_Correctness\<close>.
  \<^item> \<^verbatim>\<open>Volume_Snapshotter\<close>: the volume snapshotter of \<^verbatim>\<open>pkg/plugin\<close> and the data
    manager's entities of \<^verbatim>\<open>pkg/snapshotmgr\<close>.
  Each theory whose name ends in \<^verbatim>\<open>Correctness\<close>, \<^verbatim>\<open>Events\<close> or \<^verbatim>\<open>Roundtrip\<close> has the
  theorems of the theory before it.

  \<^bold>\<open>Interfaces\<close> are locales, interpreted where they are provided: the stored kinds of
  resource and the retry loops over them, the three kinds of request (\<open>request_kind\<close>), a
  part of a state (\<open>part\<close>, the guest's and the supervisor's world, the parts of a server), and the policies on the
  vSphere trace (\<open>connection_policy\<close>, once each for taking and deleting a snapshot and for
  overwriting a disk).

  \<^bold>\<open>What is shown.\<close>
  \<^item> Uploads and downloads: a run refines an abstract life cycle whose steps carry the phases and
    the effects outside the cluster; a completed Upload was copied; with an answering API server
    and a repository that can be used a copy that succeeds ends as Completed; failed attempts
    are counted and given up at the bound; a run changes no other resource and a download writes
    only its volume; cancellation stops exactly its copy.
  \<^item> Backup driver and repositories: a snapshot is taken only for a new request, the phases of
    a Snapshot follow those of its Upload, completed ones stay dated; a claim gets a
    repository with the parameters asked for, which is created once; an event fills at most one
    queue, and one that has a worker.
  \<^item> Snapshot manager: both decoders of nested identifiers end, and undo the nesting; local
    copies are deleted before remote ones, and remote ones never in local mode.
  \<^item> Plugin: a backup files at most one request; a restore asks for the claim that was backed up,
    in the mapped namespace and class; restoring what a backup returned restores the snapshot
    it took; a request returns the first awaited state. The installer's feature states are
    read back.
  \<^item> Guest clusters: a snapshot is one request in the supervisor; a restore whose writes are
    accepted binds the guest's new claim to the supervisor's.
  \<^item> vCenter: a connection returns clients of one session that was found alive or has just logged
    in; manager, center and services
    stay together; a changed account moves all of them; a call is repeated once at most; a
    reported snapshot was taken and a reported deletion is done; copies touch their own disk;
    volumes are placed on datastores all nodes share.
  \<^item> Servers: both managers of the data manager start with the same account and are reloaded from
    the same secret; a backup driver in a guest cluster contacts no vCenter and uses the
    namespace and the credentials of the supervisor's secret. An installer
    without an error has created what was missing and changed nothing else, and a daemon set
    counts as ready after five observations.
  Where the code does not do what it means to, a theorem says what it does instead: lost phases
  after a refused patch, uploads given up but completed, snapshots taken twice or left behind,
  clients of a dead session, a password rotation that is not repeated, unflushed data, a local
  copy that is never made, resource definitions that are never seen as ready.

  \<^bold>\<open>Bounds and fuel.\<close> Every loop of the source is structural recursion, a \<open>function\<close> with a
  termination proof, or a bounded poll whose number of attempts is an arbitrary parameter. Only
  the decoders of identifiers are partial functions (shown to end for every input), and only
  the programs that wait for an informer take \<open>fuel\<close>, the number of events they look at:
  \<open>None\<close> then means still waiting, and \<open>snapshot_request_answered\<close> shows that the fuel at
  which the awaited state arrives is enough. \<^verbatim>\<open>int32\<close> and \<^verbatim>\<open>int64\<close> fields that are computed
  with are words.

  \<^bold>\<open>Not modelled.\<close> Log messages; generated clients, definitions and deep copies
  (\<^verbatim>\<open>pkg/generated\<close>); the command line flags; the caches of the informers
  and the goroutines, which are the runtime's; the construction of
  Kubernetes clients (their failure is an answer). Concurrency is modelled at the granularity
  of handlers and requests: the mutexes of the code serialise whole operations, and
  interleavings show in the answers of the API server.
\<close>

end
